(* ===== verification/Minato_Prelude.thy ===== *)
theory Minato_Prelude
  imports
    Main
    "HOL-Library.AList"
    "HOL-Library.Char_ord"
    "HOL-Library.List_Lexorder"
    "HOL-Library.Monad_Syntax"
    "HOL-Library.Multiset"
    "HOL-Library.State_Monad"
begin

text \<open>
  What the component theories share: the parts of Go and of its standard library that the sources
  use (maps, byte strings, \<^verbatim>\<open>fmt\<close> verbs, 32-bit wrap-around, \<^verbatim>\<open>sort.Slice\<close>,
  \<^verbatim>\<open>time.ParseDuration\<close>), the state monad over a history of external calls in which the
  reconcilers and the HTTP handlers are written, and the generic lemmas about all of these.
\<close>

named_theorems io_simps \<open>running a program of the call-history monad\<close>
named_theorems emits_intros \<open>which calls a program may issue\<close>


section \<open>Go data\<close>

subsection \<open>Maps\<close>

text \<open>
  A Go map is an association list with distinct keys; the order of the list stands for the
  order in which \<^verbatim>\<open>range\<close> visits the entries, which Go leaves open: a theorem about all
  lists is a theorem about all iteration orders. A nil map and an empty one are both \<open>[]\<close>.
\<close>

type_synonym ('k, 'v) gomap = "('k \<times> 'v) list"
type_synonym labels = "(string, string) gomap"

definition gomap_ok :: "('k, 'v) gomap \<Rightarrow> bool" where
  "gomap_ok m \<longleftrightarrow> distinct (map fst m)"

definition map_put :: "'k \<Rightarrow> 'v \<Rightarrow> ('k, 'v) gomap \<Rightarrow> ('k, 'v) gomap" where
  "map_put k v m = AList.update k v m"

text \<open>\<^verbatim>\<open>m[k]\<close> of a string map: the zero value for a missing key.\<close>

definition map_str :: "(string, string) gomap \<Rightarrow> string \<Rightarrow> string" where
  "map_str m k = (case map_of m k of None \<Rightarrow> [] | Some v \<Rightarrow> v)"

text \<open>\<^verbatim>\<open>maps.Copy(dst, src)\<close>.\<close>

fun maps_copy :: "('k, 'v) gomap \<Rightarrow> ('k, 'v) gomap \<Rightarrow> ('k, 'v) gomap" where
  "maps_copy dst [] = dst"
| "maps_copy dst ((k, v) # src) = maps_copy (map_put k v dst) src"

lemma map_of_map_put [simp]: "map_of (map_put k v m) = (map_of m)(k \<mapsto> v)"
  by (simp add: map_put_def update_conv')

lemma gomap_ok_Nil [simp]: "gomap_ok []"
  by (simp add: gomap_ok_def)

lemma gomap_ok_put [simp]: "gomap_ok m \<Longrightarrow> gomap_ok (map_put k v m)"
  by (simp add: gomap_ok_def map_put_def distinct_update)

lemma gomap_ok_copy [simp]: "gomap_ok m \<Longrightarrow> gomap_ok (maps_copy m src)"
  by (induction m src rule: maps_copy.induct) auto

lemma dom_map_of_copy: "dom (map_of (maps_copy m src)) = dom (map_of m) \<union> fst ` set src"
  by (induction m src rule: maps_copy.induct) auto

lemma map_of_copy:
  "gomap_ok src \<Longrightarrow> map_of (maps_copy m src) = map_of m ++ map_of src"
proof (induction m src rule: maps_copy.induct)
  case (2 dst k v src)
  then have "gomap_ok src" and fresh: "k \<notin> dom (map_of src)"
    by (simp_all add: gomap_ok_def dom_map_of_conv_image_fst)
  then have IH: "map_of (maps_copy (map_put k v dst) src) = map_of (map_put k v dst) ++ map_of src"
    by (intro 2)
  with fresh show ?case
    by (auto simp: fun_eq_iff map_add_def split: option.splits)
qed simp


subsection \<open>Strings\<close>

text \<open>Go strings are byte sequences, as HOL's \<^typ>\<open>string\<close> is.\<close>

definition HasPrefix :: "string \<Rightarrow> string \<Rightarrow> bool" where
  "HasPrefix s p \<longleftrightarrow> take (length p) s = p"

definition HasSuffix :: "string \<Rightarrow> string \<Rightarrow> bool" where
  "HasSuffix s p \<longleftrightarrow> HasPrefix (rev s) (rev p)"

definition TrimPrefix :: "string \<Rightarrow> string \<Rightarrow> string" where
  "TrimPrefix s p = (if HasPrefix s p then drop (length p) s else s)"

definition TrimSuffix :: "string \<Rightarrow> string \<Rightarrow> string" where
  "TrimSuffix s p = (if HasSuffix s p then take (length s - length p) s else s)"

fun str_contains :: "string \<Rightarrow> string \<Rightarrow> bool" where
  "str_contains [] sub = (sub = [])"
| "str_contains (c # s) sub = (HasPrefix (c # s) sub \<or> str_contains s sub)"

text \<open>\<^verbatim>\<open>strings.SplitN(s, sep, 2)\<close> when the separator occurs.\<close>

fun SplitN2 :: "string \<Rightarrow> string \<Rightarrow> (string \<times> string) option" where
  "SplitN2 sep [] = (if sep = [] then Some ([], []) else None)"
| "SplitN2 sep (c # s) =
     (if HasPrefix (c # s) sep then Some ([], drop (length sep) (c # s))
      else map_option (\<lambda>(a, b). (c # a, b)) (SplitN2 sep s))"

text \<open>\<^verbatim>\<open>strings.TrimSpace\<close> on the ASCII white space characters.\<close>

definition is_space :: "char \<Rightarrow> bool" where
  "is_space c \<longleftrightarrow> c \<in> set [CHR 0x09, CHR 0x0A, CHR 0x0B, CHR 0x0C, CHR 0x0D, CHR 0x20]"

definition trim_by :: "(char \<Rightarrow> bool) \<Rightarrow> string \<Rightarrow> string" where
  "trim_by p s = rev (dropWhile p (rev (dropWhile p s)))"

definition TrimSpace :: "string \<Rightarrow> string" where
  "TrimSpace s = trim_by is_space s"

definition to_lower_char :: "char \<Rightarrow> char" where
  "to_lower_char c = (let n = of_char c :: nat in if 65 \<le> n \<and> n \<le> 90 then char_of (n + 32) else c)"

definition ToLower :: "string \<Rightarrow> string" where
  "ToLower s = map to_lower_char s"

text \<open>\<^verbatim>\<open>strings.Split(s, sep)\<close> for a separator of one byte.\<close>

fun split_char :: "char \<Rightarrow> string \<Rightarrow> string list" where
  "split_char c [] = [[]]"
| "split_char c (x # xs) =
     (if x = c then [] # split_char c xs
      else (case split_char c xs of [] \<Rightarrow> [[x]] | y # ys \<Rightarrow> (x # y) # ys))"

fun join_char :: "char \<Rightarrow> string list \<Rightarrow> string" where
  "join_char c [] = []"
| "join_char c [x] = x"
| "join_char c (x # y # ys) = x @ c # join_char c (y # ys)"

lemma HasPrefix_append [simp]: "HasPrefix (p @ s) p"
  by (simp add: HasPrefix_def)

lemma HasPrefix_iff: "HasPrefix s p \<longleftrightarrow> (\<exists>t. s = p @ t)"
  by (metis HasPrefix_def append_eq_conv_conj append_take_drop_id)

lemma HasSuffix_iff: "HasSuffix s p \<longleftrightarrow> (\<exists>t. s = t @ p)"
  by (auto simp: HasSuffix_def HasPrefix_iff) (metis rev_append rev_rev_ident)

lemma TrimSuffix_append [simp]: "TrimSuffix (s @ p) p = s"
  by (simp add: TrimSuffix_def HasSuffix_iff)

lemma TrimPrefix_append [simp]: "TrimPrefix (p @ s) p = s"
  by (simp add: TrimPrefix_def)

lemma str_contains_iff: "str_contains s sub \<longleftrightarrow> (\<exists>a b. s = a @ sub @ b)"
proof (induction s)
  case (Cons c s)
  show ?case
    by (auto simp: Cons.IH HasPrefix_iff Cons_eq_append_conv)
qed auto

lemma split_char_not_Nil [simp]: "split_char c s \<noteq> []"
  by (cases s) (auto split: list.splits)

lemma join_split [simp]: "join_char c (split_char c s) = s"
proof (induction s)
  case (Cons x s)
  then show ?case
    by (cases "split_char c s"; cases "tl (split_char c s)") auto
qed simp

lemma split_char_free: "t \<in> set (split_char c s) \<Longrightarrow> c \<notin> set t"
proof (induction s arbitrary: t)
  case (Cons x s)
  then show ?case
    by (cases "split_char c s") (auto split: if_splits)
qed simp

lemma split_char_id [simp]: "c \<notin> set s \<Longrightarrow> split_char c s = [s]"
  by (induction s) auto

lemma split_char_append: "c \<notin> set s \<Longrightarrow> split_char c (s @ c # t) = s # split_char c t"
  by (induction s) auto

lemma split_join:
  "ss \<noteq> [] \<Longrightarrow> \<forall>s\<in>set ss. c \<notin> set s \<Longrightarrow> split_char c (join_char c ss) = ss"
  by (induction c ss rule: join_char.induct) (auto simp: split_char_append)

lemma trim_by_id:
  "s = [] \<or> (\<not> p (hd s) \<and> \<not> p (last s)) \<Longrightarrow> trim_by p s = s"
proof (cases s)
  case (Cons x xs)
  moreover assume "s = [] \<or> (\<not> p (hd s) \<and> \<not> p (last s))"
  ultimately have "\<not> p (hd s)" and "\<not> p (hd (rev s))"
    by (simp_all only: hd_rev) auto
  then have "dropWhile p s = s" and "dropWhile p (rev s) = rev s"
    by (simp_all only: dropWhile_eq_self_iff) auto
  then show ?thesis by (simp add: trim_by_def)
qed (simp add: trim_by_def)

lemma trim_by_Nil [simp]: "trim_by p [] = []"
  by (simp add: trim_by_def)


subsection \<open>Numbers\<close>

text \<open>Go's \<^verbatim>\<open>int32\<close> is an \<^typ>\<open>int\<close> kept in range by the wrap-around at 32 bits.\<close>

definition int32 :: "int \<Rightarrow> int" where
  "int32 x = (x + 2 ^ 31) mod 2 ^ 32 - 2 ^ 31"

definition int32_ok :: "int \<Rightarrow> bool" where
  "int32_ok x \<longleftrightarrow> - (2 ^ 31) \<le> x \<and> x < 2 ^ 31"

lemma int32_in_range [simp]: "int32_ok (int32 x)"
  by (simp add: int32_ok_def int32_def)

lemma int32_id: "int32_ok x \<Longrightarrow> int32 x = x"
  by (simp add: int32_ok_def int32_def)

text \<open>The verb \<^verbatim>\<open>%d\<close>.\<close>

fun show_nat :: "nat \<Rightarrow> string" where
  "show_nat n =
     (if n < 10 then [char_of (48 + n)] else show_nat (n div 10) @ [char_of (48 + n mod 10)])"

declare show_nat.simps [simp del]

definition show_int :: "int \<Rightarrow> string" where
  "show_int i = (if i < 0 then CHR ''-'' # show_nat (nat (- i)) else show_nat (nat i))"

definition is_digit :: "char \<Rightarrow> bool" where
  "is_digit c \<longleftrightarrow> (let n = of_char c :: nat in 48 \<le> n \<and> n \<le> 57)"

definition digit_val :: "char \<Rightarrow> nat" where
  "digit_val c = of_char c - 48"

definition digits_val :: "string \<Rightarrow> nat" where
  "digits_val s = foldl (\<lambda>a c. 10 * a + digit_val c) 0 s"

text \<open>
  \<^verbatim>\<open>strconv.Atoi\<close>: an optional sign, then at least one digit and nothing else, in the range of
  the 64-bit \<^verbatim>\<open>int\<close>.
\<close>

definition Atoi :: "string \<Rightarrow> int option" where
  "Atoi s =
     (let neg = (s \<noteq> [] \<and> hd s = CHR ''-'');
          d = (if s \<noteq> [] \<and> (hd s = CHR ''-'' \<or> hd s = CHR ''+'') then tl s else s)
      in if d = [] \<or> \<not> list_all is_digit d then None
         else let v = (if neg then - int (digits_val d) else int (digits_val d))
              in if - (2 ^ 63) \<le> v \<and> v < 2 ^ 63 then Some v else None)"

lemma of_char_digit: "k < 10 \<Longrightarrow> (of_char (char_of (48 + k :: nat) :: char) :: nat) = 48 + k"
  by (simp add: of_char_of)

lemma is_digit_show_nat: "list_all is_digit (show_nat n)"
proof (induction n rule: show_nat.induct)
  case (1 n)
  show ?case
  proof (cases "n < 10")
    case True
    then show ?thesis by (simp add: show_nat.simps [of n] is_digit_def Let_def of_char_digit)
  next
    case False
    have "is_digit (char_of (48 + n mod 10))"
      by (simp add: is_digit_def Let_def of_char_digit)
    with 1 False show ?thesis by (simp add: show_nat.simps [of n])
  qed
qed

lemma show_nat_not_Nil [simp]: "show_nat n \<noteq> []"
  by (subst show_nat.simps) simp

lemma digits_val_show_nat [simp]: "digits_val (show_nat n) = n"
proof (induction n rule: show_nat.induct)
  case (1 n)
  show ?case
  proof (cases "n < 10")
    case True
    then show ?thesis by (simp add: show_nat.simps [of n] digits_val_def digit_val_def of_char_digit)
  next
    case False
    with 1 have "digits_val (show_nat (n div 10)) = n div 10" by simp
    then have "digits_val (show_nat n) = 10 * (n div 10) + n mod 10"
      using False
      by (simp add: show_nat.simps [of n] digits_val_def digit_val_def of_char_digit)
    then show ?thesis by simp
  qed
qed

lemma show_nat_inj: "show_nat a = show_nat b \<longleftrightarrow> a = b"
  by (metis digits_val_show_nat)

lemma hd_show_nat_digit: "is_digit (hd (show_nat n))"
  using is_digit_show_nat [of n] by (cases "show_nat n") auto

lemma show_int_inj: "show_int a = show_int b \<longleftrightarrow> a = b"
proof -
  have "CHR ''-'' # show_nat m \<noteq> show_nat n" for m n
    by (rule notI) (use hd_show_nat_digit [of n] in \<open>auto simp: is_digit_def dest: sym\<close>)
  then show ?thesis
    by (auto simp: show_int_def show_nat_inj) metis+
qed

lemma Atoi_show_int: "- (2 ^ 63) \<le> i \<Longrightarrow> i < 2 ^ 63 \<Longrightarrow> Atoi (show_int i) = Some i"
proof -
  have "hd (show_nat n) \<noteq> CHR ''-''" "hd (show_nat n) \<noteq> CHR ''+''" for n
    using hd_show_nat_digit [of n] by (auto simp: is_digit_def)
  moreover assume "- (2 ^ 63) \<le> i" "i < 2 ^ 63"
  ultimately show ?thesis
    by (auto simp: Atoi_def show_int_def Let_def is_digit_show_nat nat_less_iff)
qed

text \<open>
  The verb \<^verbatim>\<open>%q\<close>: double quotes around the text, with the quote, the backslash and the ASCII
  control characters escaped.
\<close>

definition hex_digit :: "nat \<Rightarrow> char" where
  "hex_digit n = (if n < 10 then char_of (48 + n) else char_of (87 + n))"

definition quote_char :: "char \<Rightarrow> string" where
  "quote_char c =
     (let n = of_char c :: nat in
      if n = 34 then [char_of (92::nat), char_of (34::nat)]
      else if n = 92 then [char_of (92::nat), char_of (92::nat)]
      else if n = 10 then [char_of (92::nat), CHR ''n'']
      else if n = 9 then [char_of (92::nat), CHR ''t'']
      else if n = 13 then [char_of (92::nat), CHR ''r'']
      else if n = 7 then [char_of (92::nat), CHR ''a'']
      else if n = 8 then [char_of (92::nat), CHR ''b'']
      else if n = 12 then [char_of (92::nat), CHR ''f'']
      else if n = 11 then [char_of (92::nat), CHR ''v'']
      else if n < 32 \<or> n = 127 then [char_of (92::nat), CHR ''x'', hex_digit (n div 16), hex_digit (n mod 16)]
      else [c])"

definition quoted :: "string \<Rightarrow> string" where
  "quoted s = char_of (34::nat) # concat (map quote_char s) @ [char_of (34::nat)]"


subsection \<open>Times and durations\<close>

text \<open>
  A \<^verbatim>\<open>time.Time\<close> is a number of nanoseconds since Go's zero time, so that \<^verbatim>\<open>IsZero\<close> is the
  test for \<open>0\<close>; a \<^verbatim>\<open>time.Duration\<close> is a number of nanoseconds.
\<close>

type_synonym time = int
type_synonym duration = int

definition second :: duration where "second = 1000000000"
definition minute :: duration where "minute = 60 * second"
definition hour :: duration where "hour = 60 * minute"

text \<open>\<^verbatim>\<open>Time.Unix()\<close>: seconds since 1970.\<close>

definition unixTime :: "time \<Rightarrow> int" where
  "unixTime t = t div second - 62135596800"

text \<open>
  \<^verbatim>\<open>time.ParseDuration\<close>. Go multiplies the fraction of a unit in \<^verbatim>\<open>float64\<close> and truncates; the
  model truncates the exact product.
\<close>

definition duration_unit :: "string \<Rightarrow> nat option" where
  "duration_unit u =
     (if u = ''ns'' then Some 1
      else if u = ''us'' \<or> u = [CHR 0xC2, CHR 0xB5, CHR ''s''] \<or> u = [CHR 0xCE, CHR 0xBC, CHR ''s'']
        then Some 1000
      else if u = ''ms'' then Some 1000000
      else if u = ''s'' then Some 1000000000
      else if u = ''m'' then Some 60000000000
      else if u = ''h'' then Some 3600000000000
      else None)"

function parse_duration_parts :: "string \<Rightarrow> nat \<Rightarrow> nat option" where
  "parse_duration_parts s d =
     (if s = [] then Some d
      else
        (let ip = takeWhile is_digit s;
             r1 = dropWhile is_digit s;
             dot = (r1 \<noteq> [] \<and> hd r1 = CHR ''.'');
             fp = (if dot then takeWhile is_digit (tl r1) else []);
             r2 = (if dot then dropWhile is_digit (tl r1) else r1);
             nonunit = (\<lambda>c. c = CHR ''.'' \<or> is_digit c);
             u = takeWhile (\<lambda>c. \<not> nonunit c) r2;
             rest = dropWhile (\<lambda>c. \<not> nonunit c) r2
         in if ip = [] \<and> fp = [] then None
            else if u = [] then None
            else (case duration_unit u of
                None \<Rightarrow> None
              | Some unit \<Rightarrow>
                  (let v = digits_val ip * unit + digits_val fp * unit div 10 ^ length fp
                   in if digits_val ip > 2 ^ 63 div unit \<or> v > 2 ^ 63 \<or> d + v > 2 ^ 63 then None
                      else parse_duration_parts rest (d + v)))))"
  by pat_completeness auto
termination
proof (relation "measure (\<lambda>(s, d). length s)", goal_cases)
  case (2 s d ip r1 dot fp r2 nonunit u rest unit v)
  have len: "length (dropWhile P xs) \<le> length xs" for P and xs :: string
    by (rule length_dropWhile_le)
  have "length r2 \<le> length s"
  proof (cases dot)
    case True
    then have "r1 \<noteq> []" using 2(4) by simp
    then have "length (tl r1) \<le> length s" using 2(3) len [of is_digit s] by simp
    then show ?thesis using 2(6) True len [of is_digit "tl r1"] by simp
  next
    case False
    then show ?thesis using 2(3,6) len [of is_digit s] by simp
  qed
  moreover have "length rest < length r2"
  proof -
    have "u \<noteq> []" by (rule 2(11))
    moreover have "length u + length rest = length r2"
      using 2(8,9) by (metis length_append takeWhile_dropWhile_id)
    ultimately show ?thesis by (cases u) auto
  qed
  ultimately show ?case by simp
qed simp

declare parse_duration_parts.simps [simp del]

definition ParseDuration :: "string \<Rightarrow> duration option" where
  "ParseDuration s =
     (let neg = (s \<noteq> [] \<and> hd s = CHR ''-'');
          t = (if s \<noteq> [] \<and> (hd s = CHR ''-'' \<or> hd s = CHR ''+'') then tl s else s)
      in if t = ''0'' then Some 0
         else if t = [] then None
         else (case parse_duration_parts t 0 of
             None \<Rightarrow> None
           | Some d \<Rightarrow>
               if neg then Some (- int d)
               else if d > 2 ^ 63 - 1 then None else Some (int d)))"

end
