(* ===== verification/Call_History.thy ===== *)
theory Call_History
  imports Minato_Prelude
begin

text \<open>
  Programs that talk to the outside (the Kubernetes API server, the game agents, the clock). A
  program is a state transformer over a \<^emph>\<open>world\<close> that holds the list of the calls issued so far;
  the answer to a call is a function of that list, supplied by the environment of each component.
  A theorem about every environment is therefore a theorem about every behaviour of the API server,
  of concurrent writers and of the clock. Also here: errors with the kinds the code tests for,
  loops with early return, and the contract of \<^verbatim>\<open>sort.Slice\<close>.
\<close>

section \<open>Errors\<close>

text \<open>
  \<^verbatim>\<open>apierrors.IsNotFound\<close>, \<^verbatim>\<open>IsAlreadyExists\<close> and \<^verbatim>\<open>meta.IsNoMatchError\<close> look through the
  wrapping that \<^verbatim>\<open>fmt.Errorf("...: %w", err)\<close> does, so an error is its kind and its text.
\<close>

datatype err_kind = EK_NotFound | EK_AlreadyExists | EK_NoMatch | EK_Other

datatype kerr = KErr (err_kind: err_kind) (err_msg: string)

definition IsNotFound :: "kerr \<Rightarrow> bool" where
  "IsNotFound e \<longleftrightarrow> err_kind e = EK_NotFound"

definition IsAlreadyExists :: "kerr \<Rightarrow> bool" where
  "IsAlreadyExists e \<longleftrightarrow> err_kind e = EK_AlreadyExists"

definition IsNoMatchError :: "kerr \<Rightarrow> bool" where
  "IsNoMatchError e \<longleftrightarrow> err_kind e = EK_NoMatch"

definition new_error :: "string \<Rightarrow> kerr" where
  "new_error s = KErr EK_Other s"

definition wrap_error :: "string \<Rightarrow> kerr \<Rightarrow> kerr" where
  "wrap_error prefix e = KErr (err_kind e) (prefix @ err_msg e)"

text \<open>How a Go function with an error result ends: it returns a value or an error, or it panics with a message.\<close>

datatype 'a outcome = Returned "kerr + 'a" | Panicked string

text \<open>\<^verbatim>\<open>if err := f(); err != nil && !ignored(err) { return err }\<close>\<close>

definition ignoring :: "(kerr \<Rightarrow> bool) \<Rightarrow> kerr + unit \<Rightarrow> kerr + unit" where
  "ignoring p r = (case r of Inl e \<Rightarrow> if p e then Inr () else Inl e | Inr u \<Rightarrow> Inr ())"

lemma ignoring_Inr_iff: "ignoring p r = Inr () \<longleftrightarrow> (case r of Inl e \<Rightarrow> p e | Inr _ \<Rightarrow> True)"
  by (auto simp: ignoring_def split: sum.splits)

definition map_err :: "('e \<Rightarrow> 'f) \<Rightarrow> 'e + 'a \<Rightarrow> 'f + 'a" where
  "map_err f r = (case r of Inl e \<Rightarrow> Inl (f e) | Inr a \<Rightarrow> Inr a)"


section \<open>Programs over a history of calls\<close>

record 'c world =
  calls :: "'c list"

definition perform :: "'c \<Rightarrow> ('c list \<Rightarrow> 'r) \<Rightarrow> (('c, 'm) world_scheme, 'r) state" where
  "perform c answer = State (\<lambda>w. (answer (calls w), w\<lparr>calls := calls w @ [c]\<rparr>))"

text \<open>The idiom \<^verbatim>\<open>x, err := m(); if err != nil { return err }\<close>.\<close>

definition bindE :: "('s, 'e + 'a) state \<Rightarrow> ('a \<Rightarrow> ('s, 'e + 'b) state) \<Rightarrow> ('s, 'e + 'b) state" where
  "bindE m f =
     do { r \<leftarrow> m; (case r of Inl e \<Rightarrow> State_Monad.return (Inl e) | Inr a \<Rightarrow> f a) }"

definition fmap :: "('a \<Rightarrow> 'b) \<Rightarrow> ('s, 'a) state \<Rightarrow> ('s, 'b) state" where
  "fmap f m = do { r \<leftarrow> m; State_Monad.return (f r) }"

text \<open>\<^verbatim>\<open>for _, x := range xs { if err := f(x); err != nil { return err } }\<close>\<close>

fun forE :: "('a \<Rightarrow> ('s, 'e + unit) state) \<Rightarrow> 'a list \<Rightarrow> ('s, 'e + unit) state" where
  "forE f [] = State_Monad.return (Inr ())"
| "forE f (x # xs) = bindE (f x) (\<lambda>_. forE f xs)"

text \<open>\<^verbatim>\<open>for _, x := range xs { f(x) }\<close>\<close>

fun for_each :: "('a \<Rightarrow> ('s, unit) state) \<Rightarrow> 'a list \<Rightarrow> ('s, unit) state" where
  "for_each f [] = State_Monad.return ()"
| "for_each f (x # xs) = do { f x; for_each f xs }"

lemma run_perform [io_simps]:
  "run_state (perform c answer) w = (answer (calls w), w\<lparr>calls := calls w @ [c]\<rparr>)"
  by (simp add: perform_def)

lemma run_bindE [io_simps]:
  "run_state (bindE m f) w =
     (case run_state m w of (Inl e, w') \<Rightarrow> (Inl e, w') | (Inr a, w') \<Rightarrow> run_state (f a) w')"
  by (simp add: bindE_def split: prod.splits sum.splits)

lemma run_fmap [io_simps]:
  "run_state (fmap f m) w = (case run_state m w of (r, w') \<Rightarrow> (f r, w'))"
  by (simp add: fmap_def)

declare run_state_bind [io_simps] run_state_return [io_simps]

definition result :: "('s, 'a) state \<Rightarrow> 's \<Rightarrow> 'a" where
  "result m w = fst (run_state m w)"

definition final :: "('s, 'a) state \<Rightarrow> 's \<Rightarrow> 's" where
  "final m w = snd (run_state m w)"

text \<open>The calls a program adds to the history.\<close>

definition issued :: "(('c, 'm) world_scheme, 'a) state \<Rightarrow> ('c, 'm) world_scheme \<Rightarrow> 'c list" where
  "issued m w = drop (length (calls w)) (calls (final m w))"


subsection \<open>Which calls a program may issue\<close>

text \<open>
  \<open>emits P m Q\<close>: from every world, \<open>m\<close> only extends the history, every call it adds
  satisfies \<open>P\<close>, and its result satisfies \<open>Q\<close>.
\<close>

definition emits :: "('c \<Rightarrow> bool) \<Rightarrow> (('c, 'm) world_scheme, 'a) state \<Rightarrow> ('a \<Rightarrow> bool) \<Rightarrow> bool" where
  "emits P m Q \<longleftrightarrow>
     (\<forall>w. (\<exists>cs. calls (snd (run_state m w)) = calls w @ cs \<and> list_all P cs) \<and>
          Q (fst (run_state m w)))"

lemma emitsD_issued: "emits P m Q \<Longrightarrow> c \<in> set (issued m w) \<Longrightarrow> P c"
  unfolding emits_def issued_def final_def
  by (metis append_eq_conv_conj list_all_iff)

lemma emitsD_result: "emits P m Q \<Longrightarrow> Q (result m w)"
  by (simp add: emits_def result_def)

lemma emits_weaken: "emits P m Q \<Longrightarrow> (\<And>r. Q r \<Longrightarrow> Q' r) \<Longrightarrow> emits P m Q'"
  by (auto simp: emits_def)

lemma emits_mono: "emits P m Q \<Longrightarrow> (\<And>c. P c \<Longrightarrow> P' c) \<Longrightarrow> emits P' m Q"
  unfolding emits_def by (metis list_all_iff)

lemma emits_return [emits_intros]: "Q a \<Longrightarrow> emits P (State_Monad.return a) Q"
  by (simp add: emits_def)

lemma emits_perform [emits_intros]: "P c \<Longrightarrow> (\<And>h. Q (answer h)) \<Longrightarrow> emits P (perform c answer) Q"
  by (simp add: emits_def run_perform)

lemma emits_bind:
  assumes m: "emits P m R" and f: "\<And>a. R a \<Longrightarrow> emits P (f a) Q"
  shows "emits P (State_Monad.bind m f) Q"
  unfolding emits_def
proof
  fix w
  obtain a w' where run: "run_state m w = (a, w')" by fastforce
  from m obtain cs where cs: "calls w' = calls w @ cs" "list_all P cs" and "R a"
    unfolding emits_def using run by (metis fst_conv snd_conv)
  from f [OF \<open>R a\<close>] obtain ds where "calls (snd (run_state (f a) w')) = calls w' @ ds" "list_all P ds"
    and "Q (fst (run_state (f a) w'))"
    unfolding emits_def by metis
  with cs run show "(\<exists>cs. calls (snd (run_state (State_Monad.bind m f) w)) = calls w @ cs \<and> list_all P cs) \<and>
      Q (fst (run_state (State_Monad.bind m f) w))"
    by (auto intro!: exI [of _ "cs @ ds"])
qed

lemma emits_bindE:
  assumes "emits P m (\<lambda>r. case r of Inl e \<Rightarrow> Q (Inl e) | Inr a \<Rightarrow> R a)"
    and "\<And>a. R a \<Longrightarrow> emits P (f a) Q"
  shows "emits P (bindE m f) Q"
  unfolding bindE_def
  by (rule emits_bind [OF assms(1)]) (auto intro: emits_return assms(2) split: sum.splits)

text \<open>After a call, the result is one of the answers the environment can give to it.\<close>

lemma emits_bind_perform:
  assumes "P c" "\<And>h. emits P (f (answer h)) Q"
  shows "emits P (State_Monad.bind (perform c answer) f) Q"
  by (rule emits_bind [where R = "\<lambda>r. \<exists>h. r = answer h"]) (auto intro: emits_perform assms)

lemma emits_bindE_perform:
  assumes "P c" "\<And>h e. answer h = Inl e \<Longrightarrow> Q (Inl e)" "\<And>h a. answer h = Inr a \<Longrightarrow> emits P (f a) Q"
  shows "emits P (bindE (perform c answer) f) Q"
  unfolding bindE_def
  by (rule emits_bind_perform) (auto intro: emits_return assms split: sum.splits)

lemma issued_bind_perform:
  assumes "emits P (f (answer (calls w))) Q"
  shows "issued (State_Monad.bind (perform c answer) f) w =
    c # issued (f (answer (calls w))) (w\<lparr>calls := calls w @ [c]\<rparr>)"
proof -
  let ?w = "w\<lparr>calls := calls w @ [c]\<rparr>"
  obtain cs where "calls (final (f (answer (calls w))) ?w) = calls w @ c # cs"
    using assms unfolding emits_def final_def by (metis (no_types, lifting) append.assoc append_Cons append_Nil world.select_convs(1) world.surjective world.update_convs(1))
  then show ?thesis
    by (simp add: issued_def final_def run_perform)
qed

text \<open>A run of \<^const>\<open>bindE\<close> that returns no error is the run of its two halves.\<close>

lemma result_bindE_Inr:
  "result (bindE m f) w = Inr b \<longleftrightarrow> (\<exists>a. result m w = Inr a \<and> result (f a) (final m w) = Inr b)"
  by (auto simp: result_def final_def run_bindE split: prod.splits sum.splits)

lemma result_bindE_Inl:
  "result m w = Inl e \<Longrightarrow> run_state (bindE m f) w = (Inl e, final m w)"
  by (auto simp: result_def final_def run_bindE split: prod.splits sum.splits)

lemma calls_final: "emits P m Q \<Longrightarrow> calls (final m w) = calls w @ issued m w"
  unfolding emits_def issued_def final_def by (metis append_eq_conv_conj)

lemma issued_eqI: "calls (final m w) = calls w @ cs \<Longrightarrow> issued m w = cs"
  by (simp add: issued_def)

lemma issued_bindE_Inr:
  assumes "emits P m Q" "emits P' (f a) Q'" "result m w = Inr a"
  shows "issued (bindE m f) w = issued m w @ issued (f a) (final m w)"
proof (rule issued_eqI)
  have "final (bindE m f) w = final (f a) (final m w)"
    using assms(3) by (auto simp: result_def final_def run_bindE split: prod.splits)
  then show "calls (final (bindE m f) w) = calls w @ issued m w @ issued (f a) (final m w)"
    by (simp add: calls_final [OF assms(1)] calls_final [OF assms(2)])
qed

lemma issued_bind:
  assumes "emits P m Q" "\<And>a. emits P' (f a) Q'"
  shows "issued (State_Monad.bind m f) w = issued m w @ issued (f (result m w)) (final m w)"
proof (rule issued_eqI)
  have "final (State_Monad.bind m f) w = final (f (result m w)) (final m w)"
    by (simp add: result_def final_def split: prod.splits)
  then show "calls (final (State_Monad.bind m f) w) =
      calls w @ issued m w @ issued (f (result m w)) (final m w)"
    by (simp add: calls_final [OF assms(1)] calls_final [OF assms(2)])
qed

lemma issued_return [simp]: "issued (State_Monad.return a) w = []"
  by (simp add: issued_def final_def)

text \<open>The common case: the second half does not use the first half's value.\<close>

lemma issued_then:
  assumes "emits P m Q" "emits P' k Q'" "result m w = Inr a"
  shows "set (issued k (final m w)) \<subseteq> set (issued (bindE m (\<lambda>_. k)) w)"
    and "set (issued m w) \<subseteq> set (issued (bindE m (\<lambda>_. k)) w)"
  using issued_bindE_Inr [where f = "\<lambda>_. k" and a = a, OF assms] by simp_all

lemma result_fmap: "result (fmap f m) w = f (result m w)"
  by (simp add: result_def run_fmap split: prod.splits)

lemma issued_perform: "issued (perform c answer) w = [c]"
  by (simp add: issued_def final_def run_perform)

lemma result_perform: "result (perform c answer) w = answer (calls w)"
  by (simp add: result_def run_perform)

text \<open>Sequencing when nothing is said about the intermediate results.\<close>

lemma emits_seq:
  "emits P m (\<lambda>_. True) \<Longrightarrow> (\<And>a. emits P (f a) Q) \<Longrightarrow> emits P (State_Monad.bind m f) Q"
  by (erule emits_bind) auto

lemma emits_any: "emits P m Q \<Longrightarrow> emits P m (\<lambda>_. True)"
  by (erule emits_weaken) simp

lemma emits_seqE:
  assumes "emits P m (\<lambda>_. True)" "\<And>a. emits P (f a) (\<lambda>_. True)"
  shows "emits P (bindE m f) (\<lambda>_. True)"
proof (rule emits_bindE [where R = "\<lambda>_. True"])
  show "emits P m (\<lambda>r. case r of Inl e \<Rightarrow> True | Inr a \<Rightarrow> True)"
    by (rule emits_weaken [OF assms(1)]) (auto split: sum.splits)
qed (rule assms(2))

lemma emits_fmap [emits_intros]: "emits P m (\<lambda>r. Q (f r)) \<Longrightarrow> emits P (fmap f m) Q"
  unfolding fmap_def by (erule emits_bind) (auto intro: emits_return)

lemma emits_if [emits_intros]:
  "(b \<Longrightarrow> emits P m Q) \<Longrightarrow> (\<not> b \<Longrightarrow> emits P n Q) \<Longrightarrow> emits P (if b then m else n) Q"
  by simp

lemma emits_case_sum [emits_intros]:
  "(\<And>e. r = Inl e \<Longrightarrow> emits P (f e) Q) \<Longrightarrow> (\<And>a. r = Inr a \<Longrightarrow> emits P (g a) Q) \<Longrightarrow>
     emits P (case r of Inl e \<Rightarrow> f e | Inr a \<Rightarrow> g a) Q"
  by (cases r) auto

lemma emits_case_option [emits_intros]:
  "(x = None \<Longrightarrow> emits P m Q) \<Longrightarrow> (\<And>a. x = Some a \<Longrightarrow> emits P (f a) Q) \<Longrightarrow>
     emits P (case x of None \<Rightarrow> m | Some a \<Rightarrow> f a) Q"
  by (cases x) auto

lemma emits_case_prod [emits_intros]:
  "(\<And>a b. x = (a, b) \<Longrightarrow> emits P (f a b) Q) \<Longrightarrow> emits P (case x of (a, b) \<Rightarrow> f a b) Q"
  by (cases x) auto

lemma emits_Let [emits_intros]: "(\<And>x. x = e \<Longrightarrow> emits P (f x) Q) \<Longrightarrow> emits P (Let e f) Q"
  by simp

lemmas emits_steps = emits_bind_perform emits_bindE_perform emits_seq emits_seqE

lemma emits_forE:
  assumes "\<And>x. x \<in> set xs \<Longrightarrow> emits P (f x) (\<lambda>_. True)"
  shows "emits P (forE f xs) (\<lambda>_. True)"
  using assms
proof (induction xs)
  case Nil
  show ?case by (simp add: emits_return)
next
  case (Cons x xs)
  have "emits P (f x) (\<lambda>r. case r of Inl e \<Rightarrow> True | Inr a \<Rightarrow> True)"
    by (rule emits_weaken [OF Cons.prems]) (auto split: sum.splits)
  moreover have "emits P (forE f xs) (\<lambda>_. True)"
    by (rule Cons.IH) (simp add: Cons.prems)
  ultimately show ?case
    unfolding forE.simps by (rule emits_bindE)
qed

lemma emits_for_each:
  assumes "\<And>x. x \<in> set xs \<Longrightarrow> emits P (f x) (\<lambda>_. True)"
  shows "emits P (for_each f xs) (\<lambda>_. True)"
  using assms
proof (induction xs)
  case Nil
  show ?case by (simp add: emits_return)
next
  case (Cons x xs)
  have "emits P (f x) (\<lambda>_. True)" and "emits P (for_each f xs) (\<lambda>_. True)"
    using Cons by auto
  then show ?case
    by (simp add: emits_bind)
qed


text \<open>
  A loop whose body is one call: it issues the calls of a prefix of the list, each answered
  without an error except possibly the last one, and all of them if it returns without an error.
\<close>

lemma forE_calls:
  assumes body: "\<And>x w. run_state (f x) w = (r x (calls w), w\<lparr>calls := calls w @ [g x]\<rparr>)"
  shows "\<exists>n\<le>length xs. final (forE f xs) w = w\<lparr>calls := calls w @ map g (take n xs)\<rparr> \<and>
    (result (forE f xs) w = Inr () \<longrightarrow> n = length xs \<and>
       (\<forall>i<n. r (xs ! i) (calls w @ map g (take i xs)) = Inr ()))"
proof (induction xs arbitrary: w)
  case Nil
  show ?case by (simp add: final_def result_def)
next
  case (Cons x xs)
  let ?w = "w\<lparr>calls := calls w @ [g x]\<rparr>"
  show ?case
  proof (cases "r x (calls w)")
    case (Inl e)
    then show ?thesis
      by (intro exI [of _ 1]) (simp add: final_def result_def run_bindE body)
  next
    case (Inr u)
    from Cons.IH [of ?w] obtain n where n: "n \<le> length xs"
      "final (forE f xs) ?w = ?w\<lparr>calls := calls ?w @ map g (take n xs)\<rparr>"
      "result (forE f xs) ?w = Inr () \<longrightarrow> n = length xs \<and>
         (\<forall>i<n. r (xs ! i) (calls ?w @ map g (take i xs)) = Inr ())"
      by blast
    have step: "run_state (forE f (x # xs)) w = run_state (forE f xs) ?w"
      by (simp add: run_bindE body Inr)
    show ?thesis
    proof (intro exI [of _ "Suc n"] conjI impI)
      assume "result (forE f (x # xs)) w = Inr ()"
      with n(3) step have "n = length xs"
        and rest: "\<forall>i<n. r (xs ! i) (calls ?w @ map g (take i xs)) = Inr ()"
        by (simp_all add: result_def)
      then show "Suc n = length (x # xs)" by simp
      show "\<forall>i<Suc n. r ((x # xs) ! i) (calls w @ map g (take i (x # xs))) = Inr ()"
        using rest Inr by (auto simp: less_Suc_eq_0_disj)
    qed (use n step in \<open>simp_all add: final_def\<close>)
  qed
qed


section \<open>Finalizers\<close>

text \<open>
  The contract between a controller and the API server: an object that is being deleted stays until
  its finalizer is removed, so the removal has to come after a successful cleanup. The three
  controllers that use a finalizer share the shape of the handler; what follows from it is proved
  once.
\<close>

locale finalized =
  fixes marked :: "'o \<Rightarrow> bool"
    and cleanup :: "'o \<Rightarrow> (('c, 'm) world_scheme, kerr + unit) state"
    and removal :: "'o \<Rightarrow> 'c"
    and answer :: "'o \<Rightarrow> 'c list \<Rightarrow> kerr + 'o"
    and handler :: "'o \<Rightarrow> (('c, 'm) world_scheme, kerr + int) state"
  assumes handler_eq: "handler x =
      (if marked x then bindE (cleanup x) (\<lambda>_. bindE (perform (removal x) (answer x))
         (\<lambda>_. State_Monad.return (Inr 0)))
       else State_Monad.return (Inr 0))"
    and cleanup_emits: "emits (\<lambda>c. c \<noteq> removal x) (cleanup x) (\<lambda>_. True)"
begin

lemma handler_emits: "emits (\<lambda>_. True) (handler x) (\<lambda>_. True)"
proof -
  have "emits (\<lambda>_. True) (cleanup x) (\<lambda>_. True)"
    using cleanup_emits [of x] by (auto simp: emits_def list_all_iff)
  then show ?thesis
    unfolding handler_eq by (intro emits_steps emits_intros) auto
qed

lemma removal_emits:
  "emits (\<lambda>_. True) (bindE (perform (removal x) (answer x)) (\<lambda>_. State_Monad.return (Inr 0))) (\<lambda>_. True)"
  by (intro emits_steps emits_intros) auto

lemma removal_issued:
  "issued (bindE (perform (removal x) (answer x)) (\<lambda>_. State_Monad.return (Inr 0))) w = [removal x]"
  by (simp add: issued_def final_def io_simps split: sum.splits)

lemma removal_after_cleanup:
  assumes "removal x \<in> set (issued (handler x) w)"
  shows "marked x \<and> result (cleanup x) w = Inr () \<and>
    issued (handler x) w = issued (cleanup x) w @ [removal x]"
proof -
  have m: "marked x"
    using assms by (auto simp: handler_eq issued_def final_def split: if_splits)
  show ?thesis
  proof (cases "result (cleanup x) w")
    case (Inl e)
    have "issued (handler x) w = issued (cleanup x) w"
      using m by (simp add: handler_eq issued_def final_def result_bindE_Inl [OF Inl])
    with assms emitsD_issued [OF cleanup_emits] show ?thesis by metis
  next
    case (Inr u)
    with m show ?thesis
      using issued_bindE_Inr [where f = "\<lambda>_. bindE (perform (removal x) (answer x)) (\<lambda>_. State_Monad.return (Inr (0::int)))",
          OF cleanup_emits removal_emits Inr]
      by (simp add: handler_eq removal_issued)
  qed
qed

lemma handled_means_removed:
  assumes "marked x" "result (handler x) w = Inr d"
  shows "removal x \<in> set (issued (handler x) w)"
proof -
  have ok: "result (cleanup x) w = Inr ()"
    using assms by (auto simp: handler_eq result_bindE_Inr)
  show ?thesis
    using assms(1) issued_bindE_Inr [where f = "\<lambda>_. bindE (perform (removal x) (answer x)) (\<lambda>_. State_Monad.return (Inr (0::int)))",
        OF cleanup_emits removal_emits ok]
    by (simp add: handler_eq removal_issued)
qed

end


section \<open>The contract of sort.Slice\<close>

text \<open>
  \<^verbatim>\<open>sort.Slice(xs, lt)\<close> is not stable: all that its documentation promises for a strict weak
  order \<open>lt\<close> is a permutation that is sorted by it. The clients (the fleet controller) are
  verified against that contract; \<open>sort_slice\<close>, the insertion sort that Go itself runs on
  slices of at most twelve elements, is the executable provider.
\<close>

definition weak_order :: "('a \<Rightarrow> 'a \<Rightarrow> bool) \<Rightarrow> bool" where
  "weak_order lt \<longleftrightarrow>
     (\<forall>x y. lt x y \<longrightarrow> \<not> lt y x) \<and>
     (\<forall>x y z. \<not> lt x y \<longrightarrow> \<not> lt y z \<longrightarrow> \<not> lt x z)"

lemma weak_order_asym: "weak_order lt \<Longrightarrow> lt x y \<Longrightarrow> \<not> lt y x"
  unfolding weak_order_def by blast

lemma weak_order_negtrans: "weak_order lt \<Longrightarrow> \<not> lt x y \<Longrightarrow> \<not> lt y z \<Longrightarrow> \<not> lt x z"
  unfolding weak_order_def by blast

locale slice_sort =
  fixes srt :: "('a \<Rightarrow> 'a \<Rightarrow> bool) \<Rightarrow> 'a list \<Rightarrow> 'a list"
  assumes mset_srt: "mset (srt lt xs) = mset xs"
    and sorted_srt: "weak_order lt \<Longrightarrow> sorted_wrt (\<lambda>x y. \<not> lt y x) (srt lt xs)"
begin

lemma set_srt: "set (srt lt xs) = set xs"
  using mset_srt by (metis set_mset_mset)

lemma length_srt: "length (srt lt xs) = length xs"
  using mset_srt by (metis size_mset)

lemma prefix_minimal:
  assumes "weak_order lt" "x \<in> set (take n (srt lt xs))" "y \<in> set (drop n (srt lt xs))"
  shows "\<not> lt y x"
proof -
  have "sorted_wrt (\<lambda>x y. \<not> lt y x) (take n (srt lt xs) @ drop n (srt lt xs))"
    using sorted_srt [OF assms(1)] by simp
  with assms(2,3) show ?thesis by (auto simp only: sorted_wrt_append)
qed

lemma take_drop_srt: "mset (take n (srt lt xs)) + mset (drop n (srt lt xs)) = mset xs"
  by (metis append_take_drop_id mset_append mset_srt)

end

fun insert_by :: "('a \<Rightarrow> 'a \<Rightarrow> bool) \<Rightarrow> 'a \<Rightarrow> 'a list \<Rightarrow> 'a list" where
  "insert_by lt x [] = [x]"
| "insert_by lt x (y # ys) = (if lt y x then y # insert_by lt x ys else x # y # ys)"

fun sort_slice :: "('a \<Rightarrow> 'a \<Rightarrow> bool) \<Rightarrow> 'a list \<Rightarrow> 'a list" where
  "sort_slice lt [] = []"
| "sort_slice lt (x # xs) = insert_by lt x (sort_slice lt xs)"

lemma mset_insert_by: "mset (insert_by lt x ys) = add_mset x (mset ys)"
  by (induction ys) auto

lemma set_insert_by: "set (insert_by lt x ys) = insert x (set ys)"
  by (induction ys) auto

lemma mset_sort_slice: "mset (sort_slice lt xs) = mset xs"
  by (induction xs) (auto simp: mset_insert_by)

lemma sorted_insert_by:
  assumes "weak_order lt" "sorted_wrt (\<lambda>x y. \<not> lt y x) ys"
  shows "sorted_wrt (\<lambda>x y. \<not> lt y x) (insert_by lt x ys)"
  using assms(2)
proof (induction ys)
  case (Cons y ys)
  show ?case
  proof (cases "lt y x")
    case True
    with assms(1) have "\<not> lt x y" by (rule weak_order_asym)
    with Cons True show ?thesis by (auto simp: set_insert_by)
  next
    case False
    have "\<forall>z\<in>set ys. \<not> lt z x"
    proof
      fix z assume "z \<in> set ys"
      then have "\<not> lt z y" using Cons.prems by simp
      with assms(1) show "\<not> lt z x" using False by (rule weak_order_negtrans)
    qed
    with Cons.prems False show ?thesis by simp
  qed
qed simp

interpretation go_sort: slice_sort sort_slice
proof
  show "mset (sort_slice lt xs) = mset xs" for lt :: "'a \<Rightarrow> 'a \<Rightarrow> bool" and xs
    by (rule mset_sort_slice)
  show "sorted_wrt (\<lambda>x y. \<not> lt y x) (sort_slice lt xs)"
    if "weak_order lt" for lt :: "'a \<Rightarrow> 'a \<Rightarrow> bool" and xs
    using that by (induction xs) (simp_all add: sorted_insert_by)
qed

end
