(* ===== verification/Operator_Types.thy ===== *)
theory Operator_Types
  imports Call_History
begin

text \<open>
  The custom resources of \<^verbatim>\<open>api/operator/v1\<close>: GameProfile, GameServer, GameServerFleet,
  ActionExecution and GameSnapshot, one record per Go struct with its fields in order, and the
  methods the package defines on them. Record fields carry a prefix for the struct they belong to.
  Types of the Kubernetes libraries appear with the fields the sources read or write:
  \<^verbatim>\<open>metav1.ObjectMeta\<close>, \<^verbatim>\<open>metav1.Condition\<close>, and texts for values that are only passed on
  (quantities, protocols, spread constraints).
\<close>

section \<open>Kubernetes metadata\<close>

record ObjectMeta =
  om_Name :: string
  om_Namespace :: string
  om_Labels :: labels
  om_Annotations :: labels
  om_Generation :: int
  om_CreationTimestamp :: time
  om_DeletionTimestamp :: "time option"
  om_Finalizers :: "string list"
  om_Controller :: "string option"

definition new_meta :: "string \<Rightarrow> string \<Rightarrow> ObjectMeta" where
  "new_meta name namespace =
     \<lparr>om_Name = name, om_Namespace = namespace, om_Labels = [], om_Annotations = [],
      om_Generation = 0, om_CreationTimestamp = 0, om_DeletionTimestamp = None,
      om_Finalizers = [], om_Controller = None\<rparr>"

record NamespacedName =
  nn_Namespace :: string
  nn_Name :: string

definition key_of :: "ObjectMeta \<Rightarrow> NamespacedName" where
  "key_of m = \<lparr>nn_Namespace = om_Namespace m, nn_Name = om_Name m\<rparr>"

record Condition =
  c_Type :: string
  c_Status :: string
  c_Reason :: string
  c_Message :: string
  c_ObservedGeneration :: int
  c_LastTransitionTime :: time

definition ConditionTrue :: string where "ConditionTrue = ''True''"
definition ConditionFalse :: string where "ConditionFalse = ''False''"
definition ConditionUnknown :: string where "ConditionUnknown = ''Unknown''"

text \<open>
  The functions of controller-runtime and apimachinery that the code calls are parameters: the
  finalizer helpers and \<^verbatim>\<open>SetControllerReference\<close> of \<^verbatim>\<open>controllerutil\<close> (which fails or
  records the owner as the object's controller), and \<^verbatim>\<open>resource.ParseQuantity\<close> with
  \<^verbatim>\<open>Cmp\<close> (a quantity is named by the text that denotes it).
\<close>

record klib =
  ContainsFinalizer :: "string list \<Rightarrow> string \<Rightarrow> bool"
  AddFinalizer :: "string list \<Rightarrow> string \<Rightarrow> string list"
  RemoveFinalizer :: "string list \<Rightarrow> string \<Rightarrow> string list"
  ControllerRef :: "ObjectMeta \<Rightarrow> ObjectMeta \<Rightarrow> kerr + string"
  QuantityError :: "string \<Rightarrow> kerr option"
  QuantityCmp :: "string \<Rightarrow> string \<Rightarrow> int"

definition SetControllerReference :: "klib \<Rightarrow> ObjectMeta \<Rightarrow> ObjectMeta \<Rightarrow> kerr + ObjectMeta" where
  "SetControllerReference L owner m =
     (case ControllerRef L owner m of
        Inl e \<Rightarrow> Inl e
      | Inr r \<Rightarrow> Inr (m\<lparr>om_Controller := Some r\<rparr>))"


section \<open>GameProfile\<close>

record AgentSpec =
  ag_Image :: string
  ag_Version :: string

record PortSpec =
  ps_Name :: string
  ps_ContainerPort :: int
  ps_Protocol :: string
  ps_Exposed :: "bool option"

definition ExposedPort :: "PortSpec \<Rightarrow> bool" where
  "ExposedPort p = (case ps_Exposed p of None \<Rightarrow> True | Some b \<Rightarrow> b)"

record EnvironmentSpec =
  es_Key :: string
  es_Default :: string
  es_Required :: bool
  es_Description :: string

record StorageSpec =
  ss_MountPath :: string
  ss_SizeDefault :: string
  ss_SizeMin :: string
  ss_SizeMax :: string

record CapabilitiesSpec =
  cap_Files :: bool
  cap_SFTP :: bool
  cap_Backup :: bool
  cap_RestoreFromSnapshot :: bool

record AgentMetricsSpec =
  am_Port :: int
  am_Path :: string

record ServiceMonitorSpec =
  sm_Enabled :: bool
  sm_Interval :: string

record ObservabilitySpec =
  obs_AgentMetrics :: "AgentMetricsSpec option"
  obs_ServiceMonitor :: "ServiceMonitorSpec option"

record ResourceRequirements =
  rr_Requests :: "(string, string) gomap"
  rr_Limits :: "(string, string) gomap"

record ResourcesSpec =
  rs_Inline :: ResourceRequirements
  rs_Tiers :: "(string, ResourceRequirements) gomap"
  rs_Default :: string

definition ForTier :: "ResourcesSpec \<Rightarrow> string \<Rightarrow> ResourceRequirements" where
  "ForTier s tier =
     (if length (rs_Tiers s) > 0
      then (let name = (if tier = [] then rs_Default s else tier)
            in case map_of (rs_Tiers s) name of
                 Some requirements \<Rightarrow> requirements
               | None \<Rightarrow> rs_Inline s)
      else rs_Inline s)"

record ActionParamSchema =
  ap_Type :: string
  ap_Required :: bool
  ap_Description :: string
  ap_Default :: string

record ActionDecl =
  ad_Name :: string
  ad_Description :: string
  ad_Params :: "(string, ActionParamSchema) gomap"
  ad_Returns :: string
  ad_Concurrency :: string
  ad_Timeout :: string

definition ActionConcurrencyAllow :: string where "ActionConcurrencyAllow = ''allow''"
definition ActionConcurrencySerialize :: string where "ActionConcurrencySerialize = ''serialize''"
definition ActionConcurrencyExclusive :: string where "ActionConcurrencyExclusive = ''exclusive''"

record GameProfileSpec =
  gp_DisplayName :: string
  gp_Category :: string
  gp_Icon :: string
  gp_Description :: string
  gp_Image :: string
  gp_ImagePullPolicy :: string
  gp_Ports :: "PortSpec list"
  gp_Environment :: "EnvironmentSpec list"
  gp_Resources :: ResourcesSpec
  gp_Storage :: StorageSpec
  gp_Agent :: AgentSpec
  gp_Actions :: "ActionDecl list"
  gp_Capabilities :: "CapabilitiesSpec option"
  gp_Observability :: "ObservabilitySpec option"

record GameProfile =
  profile_meta :: ObjectMeta
  profile_spec :: GameProfileSpec
  profile_conditions :: "Condition list"


section \<open>GameServer\<close>

record LifecycleSpec =
  lc_IdleTimeoutSeconds :: int
  lc_AutoStart :: "bool option"

definition AutoStartEnabled :: "LifecycleSpec \<Rightarrow> bool" where
  "AutoStartEnabled s = (case lc_AutoStart s of None \<Rightarrow> True | Some b \<Rightarrow> b)"

record SnapshotRef =
  sr_Name :: string
  sr_Namespace :: string

record GameServerStorage =
  gss_Size :: string
  gss_StorageClass :: string
  gss_SnapshotRef :: "SnapshotRef option"

record GameServerSpec =
  gs_Profile :: string
  gs_Tier :: string
  gs_Env :: labels
  gs_Storage :: GameServerStorage
  gs_Lifecycle :: LifecycleSpec
  gs_PriorityClassName :: string
  gs_TopologySpreadConstraints :: "string list"
  gs_LoadBalancerIP :: string

record Endpoint =
  ep_Name :: string
  ep_Address :: string
  ep_Port :: int

record GameServerStatus =
  gst_State :: string
  gst_AgentVersion :: string
  gst_Players :: int
  gst_PlayerCapacity :: int
  gst_LastActivity :: "time option"
  gst_Endpoints :: "Endpoint list"
  gst_Conditions :: "Condition list"

record GameServer =
  server_meta :: ObjectMeta
  server_spec :: GameServerSpec
  server_status :: GameServerStatus

abbreviation server_name :: "GameServer \<Rightarrow> string" where
  "server_name s \<equiv> om_Name (server_meta s)"

abbreviation server_namespace :: "GameServer \<Rightarrow> string" where
  "server_namespace s \<equiv> om_Namespace (server_meta s)"

abbreviation profile_name :: "GameProfile \<Rightarrow> string" where
  "profile_name p \<equiv> om_Name (profile_meta p)"


section \<open>GameServerFleet\<close>

record RollingUpdateSpec =
  ru_MaxUnavailable :: "int option"
  ru_MaxSurge :: "int option"
  ru_DrainTimeoutSeconds :: int

record FleetUpdateStrategy =
  us_Type :: string
  us_RollingUpdate :: "RollingUpdateSpec option"

record GameServerTemplateMetadata =
  tm_Labels :: labels
  tm_Annotations :: labels

record FleetGameServerSpec =
  fgs_Env :: labels

record GameServerTemplateSpec =
  ts_Metadata :: GameServerTemplateMetadata
  ts_Spec :: FleetGameServerSpec

record GameServerFleetSpec =
  fl_Profile :: string
  fl_Replicas :: int
  fl_Template :: GameServerTemplateSpec
  fl_UpdateStrategy :: FleetUpdateStrategy
  fl_PriorityClassName :: string
  fl_TopologySpreadConstraints :: "string list"

record GameServerFleetStatus =
  fls_Replicas :: int
  fls_ReadyReplicas :: int
  fls_UpdatedReplicas :: int
  fls_Conditions :: "Condition list"

record GameServerFleet =
  fleet_meta :: ObjectMeta
  fleet_spec :: GameServerFleetSpec
  fleet_status :: GameServerFleetStatus


section \<open>ActionExecution\<close>

record TargetRef =
  tr_APIVersion :: string
  tr_Kind :: string
  tr_Name :: string
  tr_Namespace :: string

record ActionExecutionSpec =
  ae_TargetRef :: TargetRef
  ae_ActionName :: string
  ae_Params :: labels
  ae_Caller :: string

definition ActionExecutionPending :: string where "ActionExecutionPending = ''Pending''"
definition ActionExecutionRunning :: string where "ActionExecutionRunning = ''Running''"
definition ActionExecutionSucceeded :: string where "ActionExecutionSucceeded = ''Succeeded''"
definition ActionExecutionFailed :: string where "ActionExecutionFailed = ''Failed''"
definition ActionExecutionTimedOut :: string where "ActionExecutionTimedOut = ''TimedOut''"
definition ActionExecutionRejected :: string where "ActionExecutionRejected = ''Rejected''"

lemmas action_state_defs =
  ActionExecutionPending_def ActionExecutionRunning_def ActionExecutionSucceeded_def
  ActionExecutionFailed_def ActionExecutionTimedOut_def ActionExecutionRejected_def

record ActionExecutionStatus =
  aes_State :: string
  aes_StartedAt :: "time option"
  aes_EndedAt :: "time option"
  aes_AgentResponse :: string
  aes_Error :: string
  aes_Conditions :: "Condition list"

record ActionExecution =
  exec_meta :: ObjectMeta
  exec_spec :: ActionExecutionSpec
  exec_status :: ActionExecutionStatus


section \<open>GameSnapshot\<close>

record SnapshotRetention =
  ret_Count :: int
  ret_Duration :: string

record GameSnapshotSpec =
  sn_GameServerRef :: string
  sn_Schedule :: string
  sn_Retention :: SnapshotRetention

record SnapshotEntry =
  se_Name :: string
  se_CreatedAt :: time
  se_VolumeSnapshotRef :: string
  se_SizeBytes :: int

record GameSnapshotStatus =
  sns_Snapshots :: "SnapshotEntry list"
  sns_LastSnapshotAt :: "time option"
  sns_Conditions :: "Condition list"

record GameSnapshot =
  snap_meta :: ObjectMeta
  snap_spec :: GameSnapshotSpec
  snap_status :: GameSnapshotStatus


section \<open>Conditions\<close>

text \<open>
  \<^verbatim>\<open>setCondition\<close> replaces the first condition of the same type or appends. The CRDs declare
  conditions as a list keyed by type (\<^verbatim>\<open>listType=map\<close>), so the invariant is that no type occurs
  twice. The contract of such a keyed list is a locale; every controller relies on it.
\<close>

fun setCondition :: "Condition list \<Rightarrow> Condition \<Rightarrow> Condition list" where
  "setCondition [] condition = [condition]"
| "setCondition (existing # cs) condition =
     (if c_Type existing = c_Type condition then condition # cs
      else existing # setCondition cs condition)"

definition conditions_ok :: "Condition list \<Rightarrow> bool" where
  "conditions_ok cs \<longleftrightarrow> distinct (map c_Type cs)"

definition find_condition :: "Condition list \<Rightarrow> string \<Rightarrow> Condition option" where
  "find_condition cs t = find (\<lambda>c. c_Type c = t) cs"

locale keyed_list =
  fixes key :: "'a \<Rightarrow> 'k"
    and put :: "'a list \<Rightarrow> 'a \<Rightarrow> 'a list"
    and lookup :: "'a list \<Rightarrow> 'k \<Rightarrow> 'a option"
    and invar :: "'a list \<Rightarrow> bool"
  assumes lookup_put: "lookup (put xs x) k = (if k = key x then Some x else lookup xs k)"
    and invar_put: "invar xs \<Longrightarrow> invar (put xs x)"
    and keys_put: "key ` set (put xs x) = insert (key x) (key ` set xs)"
begin

lemma lookup_puts_last: "lookup (foldl put xs (ys @ [y])) (key y) = Some y"
  by (simp add: lookup_put)

lemma invar_puts: "invar xs \<Longrightarrow> invar (foldl put xs ys)"
  by (induction ys arbitrary: xs) (auto intro: invar_put)

lemma lookup_put_other: "k \<noteq> key x \<Longrightarrow> lookup (put xs x) k = lookup xs k"
  by (simp add: lookup_put)

lemma put_put_lookup: "lookup (put (put xs x) y) k = lookup (put xs y) k" if "key x = key y"
  using that by (simp add: lookup_put)

end

lemma set_setCondition_types: "c_Type ` set (setCondition cs c) = insert (c_Type c) (c_Type ` set cs)"
  by (induction cs) auto

interpretation conds: keyed_list c_Type setCondition find_condition conditions_ok
proof
  show "find_condition (setCondition cs c) k = (if k = c_Type c then Some c else find_condition cs k)"
    for cs c k
    by (induction cs) (auto simp: find_condition_def)
  show "conditions_ok (setCondition cs c)" if "conditions_ok cs" for cs c
    using that
  proof (induction cs)
    case (Cons a cs)
    then show ?case
      using set_setCondition_types [of cs c] by (auto simp: conditions_ok_def)
  qed (simp add: conditions_ok_def)
qed (rule set_setCondition_types)

lemma setCondition_at:
  "conditions_ok cs \<Longrightarrow> c_Type c \<notin> c_Type ` set cs \<Longrightarrow> setCondition cs c = cs @ [c]"
  by (induction cs) (auto simp: conditions_ok_def)

lemma length_setCondition:
  "length (setCondition cs c) =
     (if c_Type c \<in> c_Type ` set cs then length cs else Suc (length cs))"
  by (induction cs) auto

end
