(* ===== verification/Pod_Builder.thy ===== *)
theory Pod_Builder
  imports Operator_Types
begin

text \<open>
  \<^verbatim>\<open>internal/controllers/builder\<close>: the pod specification of a game server (game container, agent
  sidecar, optional SFTP sidecar) out of its profile and its own spec, with the Kubernetes pod types
  as far as the builder fills them.
\<close>

section \<open>Pod types\<close>

record ContainerPort =
  cp_Name :: string
  cp_ContainerPort :: int
  cp_Protocol :: string

record EnvVar =
  ev_Name :: string
  ev_Value :: string

record VolumeMount =
  vm_Name :: string
  vm_MountPath :: string
  vm_ReadOnly :: bool

record SecurityContext =
  sc_RunAsNonRoot :: "bool option"
  sc_RunAsUser :: "int option"
  sc_RunAsGroup :: "int option"
  sc_AllowPrivilegeEscalation :: "bool option"
  sc_ReadOnlyRootFilesystem :: "bool option"
  sc_DropCapabilities :: "string list"
  sc_SeccompProfile :: string

record Container =
  co_Name :: string
  co_Image :: string
  co_Command :: "string list"
  co_Ports :: "ContainerPort list"
  co_WorkingDir :: string
  co_Env :: "EnvVar list"
  co_Resources :: ResourceRequirements
  co_SecurityContext :: "SecurityContext option"
  co_ReadinessTCPPort :: "int option"
  co_VolumeMounts :: "VolumeMount list"

datatype VolumeSource =
    SecretVolume string "(string \<times> string) list"
  | EmptyDirVolume
  | PVCVolume string

record Volume =
  vol_Name :: string
  vol_Source :: VolumeSource

record PodSecurityContext =
  psc_FSGroup :: "int option"
  psc_FSGroupChangePolicy :: "string option"

record PodSpec =
  pod_Containers :: "Container list"
  pod_Volumes :: "Volume list"
  pod_ImagePullSecrets :: "string list"
  pod_PriorityClassName :: string
  pod_TopologySpreadConstraints :: "string list"
  pod_SecurityContext :: "PodSecurityContext option"

definition no_resources :: ResourceRequirements where
  "no_resources = \<lparr>rr_Requests = [], rr_Limits = []\<rparr>"

definition ProtocolTCP :: string where "ProtocolTCP = ''TCP''"

definition GameContainerName :: string where "GameContainerName = ''minato-game''"
definition AgentContainerName :: string where "AgentContainerName = ''minato-agent''"
definition DataVolumeName :: string where "DataVolumeName = ''data''"
definition AgentGRPCPort :: int where "AgentGRPCPort = 9876"
definition AgentPortName :: string where "AgentPortName = ''agent''"

definition SFTPContainerName :: string where "SFTPContainerName = ''minato-sftp''"
definition SFTPPortName :: string where "SFTPPortName = ''sftp''"
definition SFTPPort :: int where "SFTPPort = 2022"
definition SFTPUsername :: string where "SFTPUsername = ''minato''"
definition SFTPImage :: string where "SFTPImage = ''drakkan/sftpgo:v2.6.6-alpine''"
definition sftpCredentialsVolumeName :: string where "sftpCredentialsVolumeName = ''sftp-credentials''"
definition sftpConfigVolumeName :: string where "sftpConfigVolumeName = ''sftpgo-config''"
definition sftpCredentialsMountPath :: string where "sftpCredentialsMountPath = ''/etc/sftpgo-secrets''"
definition sftpConfigMountPath :: string where "sftpConfigMountPath = ''/etc/sftpgo''"
definition SFTPUsersKey :: string where "SFTPUsersKey = ''users.json''"
definition SFTPPasswordKey :: string where "SFTPPasswordKey = ''password''"
definition SFTPUsernameKey :: string where "SFTPUsernameKey = ''username''"

lemmas pod_name_defs =
  DataVolumeName_def sftpCredentialsVolumeName_def sftpConfigVolumeName_def
  GameContainerName_def AgentContainerName_def SFTPContainerName_def


section \<open>The SFTP sidecar\<close>

definition SFTPEnabled :: "GameProfile \<Rightarrow> bool" where
  "SFTPEnabled profile =
     (case gp_Capabilities (profile_spec profile) of None \<Rightarrow> False | Some c \<Rightarrow> cap_SFTP c)"

definition SFTPSecretName :: "string \<Rightarrow> string" where
  "SFTPSecretName serverName = ''minato-'' @ serverName @ ''-sftp''"

definition text_lines :: "string list \<Rightarrow> string" where
  "text_lines ls = concat (map (\<lambda>l. l @ [CHR 0x0A]) ls)"

definition SFTPUsersJSON :: "string \<Rightarrow> string \<Rightarrow> string" where
  "SFTPUsersJSON mountPath passwordHash =
     text_lines
       [''{'',
        ''  '' @ quoted ''version'' @ '': 17,'',
        ''  '' @ quoted ''users'' @ '': ['',
        ''    {'',
        ''      '' @ quoted ''status'' @ '': 1,'',
        ''      '' @ quoted ''username'' @ '': '' @ quoted SFTPUsername @ '','',
        ''      '' @ quoted ''password'' @ '': '' @ quoted passwordHash @ '','',
        ''      '' @ quoted ''home_dir'' @ '': '' @ quoted mountPath @ '','',
        ''      '' @ quoted ''permissions'' @ '': {'' @ quoted ''/'' @ '': ['' @ quoted ''*'' @ '']}'',
        ''    }'',
        ''  ]'',
        ''}'']"

definition buildSFTPContainer :: "GameProfile \<Rightarrow> GameServer \<Rightarrow> Container" where
  "buildSFTPContainer profile server =
     \<lparr>co_Name = SFTPContainerName,
      co_Image = SFTPImage,
      co_Command = [''sftpgo'', ''serve'', ''--loaddata-from'',
                    sftpCredentialsMountPath @ ''/'' @ SFTPUsersKey],
      co_Ports = [\<lparr>cp_Name = SFTPPortName, cp_ContainerPort = SFTPPort, cp_Protocol = ProtocolTCP\<rparr>],
      co_WorkingDir = sftpConfigMountPath,
      co_Env =
        [\<lparr>ev_Name = ''SFTPGO_DATA_PROVIDER__DRIVER'', ev_Value = ''memory''\<rparr>,
         \<lparr>ev_Name = ''SFTPGO_SFTPD__BINDINGS__0__PORT'', ev_Value = show_int SFTPPort\<rparr>,
         \<lparr>ev_Name = ''SFTPGO_HTTPD__BINDINGS__0__PORT'', ev_Value = ''0''\<rparr>,
         \<lparr>ev_Name = ''SFTPGO_TELEMETRY__ENABLED'', ev_Value = ''false''\<rparr>],
      co_Resources =
        \<lparr>rr_Requests = [(''cpu'', ''10m''), (''memory'', ''32Mi'')],
         rr_Limits = [(''cpu'', ''200m''), (''memory'', ''128Mi'')]\<rparr>,
      co_SecurityContext =
        Some \<lparr>sc_RunAsNonRoot = Some True, sc_RunAsUser = Some 1000, sc_RunAsGroup = Some 1000,
              sc_AllowPrivilegeEscalation = Some False, sc_ReadOnlyRootFilesystem = Some True,
              sc_DropCapabilities = [''ALL''], sc_SeccompProfile = ''RuntimeDefault''\<rparr>,
      co_ReadinessTCPPort = Some SFTPPort,
      co_VolumeMounts =
        [\<lparr>vm_Name = DataVolumeName, vm_MountPath = ss_MountPath (gp_Storage (profile_spec profile)),
          vm_ReadOnly = False\<rparr>,
         \<lparr>vm_Name = sftpCredentialsVolumeName, vm_MountPath = sftpCredentialsMountPath,
          vm_ReadOnly = True\<rparr>,
         \<lparr>vm_Name = sftpConfigVolumeName, vm_MountPath = sftpConfigMountPath, vm_ReadOnly = False\<rparr>]\<rparr>"

definition applySFTPSidecar :: "PodSpec \<Rightarrow> GameProfile \<Rightarrow> GameServer \<Rightarrow> PodSpec" where
  "applySFTPSidecar podSpec profile server =
     (let psc = (case pod_SecurityContext podSpec of
                   None \<Rightarrow> \<lparr>psc_FSGroup = None, psc_FSGroupChangePolicy = None\<rparr>
                 | Some c \<Rightarrow> c)
      in podSpec
       \<lparr>pod_Containers := pod_Containers podSpec @ [buildSFTPContainer profile server],
        pod_Volumes := pod_Volumes podSpec @
          [\<lparr>vol_Name = sftpCredentialsVolumeName,
            vol_Source = SecretVolume (SFTPSecretName (server_name server))
                           [(SFTPUsersKey, SFTPUsersKey)]\<rparr>,
           \<lparr>vol_Name = sftpConfigVolumeName, vol_Source = EmptyDirVolume\<rparr>],
        pod_SecurityContext :=
          Some (psc\<lparr>psc_FSGroup := Some 1000, psc_FSGroupChangePolicy := Some ''OnRootMismatch''\<rparr>)\<rparr>)"


section \<open>The pod specification\<close>

definition ResolveGameResources :: "GameProfile \<Rightarrow> GameServer \<Rightarrow> ResourceRequirements" where
  "ResolveGameResources profile server =
     ForTier (gp_Resources (profile_spec profile)) (gs_Tier (server_spec server))"

definition env_defaults :: "EnvironmentSpec list \<Rightarrow> labels" where
  "env_defaults items =
     fold (\<lambda>item values. if es_Required item \<or> es_Default item \<noteq> []
                         then map_put (es_Key item) (es_Default item) values else values) items []"

definition buildGameEnv :: "GameProfile \<Rightarrow> GameServer \<Rightarrow> EnvVar list" where
  "buildGameEnv profile server =
     (let values = maps_copy (env_defaults (gp_Environment (profile_spec profile)))
                     (gs_Env (server_spec server));
          ordered = sort (map fst values)
      in map (\<lambda>key. \<lparr>ev_Name = key, ev_Value = map_str values key\<rparr>) ordered)"

definition buildGamePorts :: "GameProfile \<Rightarrow> ContainerPort list" where
  "buildGamePorts profile =
     map (\<lambda>port. \<lparr>cp_Name = ps_Name port, cp_ContainerPort = ps_ContainerPort port,
                   cp_Protocol = (if ps_Protocol port = [] then ProtocolTCP else ps_Protocol port)\<rparr>)
       (gp_Ports (profile_spec profile))"

definition buildDataVolumeMounts :: "GameProfile \<Rightarrow> VolumeMount list" where
  "buildDataVolumeMounts profile =
     [\<lparr>vm_Name = DataVolumeName, vm_MountPath = ss_MountPath (gp_Storage (profile_spec profile)),
       vm_ReadOnly = False\<rparr>]"

definition gameContainer :: "GameProfile \<Rightarrow> GameServer \<Rightarrow> Container" where
  "gameContainer profile server =
     \<lparr>co_Name = GameContainerName, co_Image = gp_Image (profile_spec profile), co_Command = [],
      co_Ports = buildGamePorts profile, co_WorkingDir = [], co_Env = buildGameEnv profile server,
      co_Resources = ResolveGameResources profile server, co_SecurityContext = None,
      co_ReadinessTCPPort = None, co_VolumeMounts = buildDataVolumeMounts profile\<rparr>"

definition agentContainer :: "GameProfile \<Rightarrow> GameServer \<Rightarrow> Container" where
  "agentContainer profile server =
     \<lparr>co_Name = AgentContainerName, co_Image = ag_Image (gp_Agent (profile_spec profile)),
      co_Command = [],
      co_Ports = [\<lparr>cp_Name = AgentPortName, cp_ContainerPort = AgentGRPCPort,
                   cp_Protocol = ProtocolTCP\<rparr>],
      co_WorkingDir = [],
      co_Env = buildGameEnv profile server @
        [\<lparr>ev_Name = ''minato_GAMESERVER_NAME'', ev_Value = server_name server\<rparr>,
         \<lparr>ev_Name = ''minato_GAMESERVER_NAMESPACE'', ev_Value = server_namespace server\<rparr>,
         \<lparr>ev_Name = ''minato_GAME_CONTAINER'', ev_Value = GameContainerName\<rparr>],
      co_Resources = no_resources, co_SecurityContext = None, co_ReadinessTCPPort = None,
      co_VolumeMounts = buildDataVolumeMounts profile\<rparr>"

definition BuildGameServerPodSpecWithPullSecrets ::
    "GameProfile \<Rightarrow> GameServer \<Rightarrow> string list \<Rightarrow> kerr + PodSpec" where
  "BuildGameServerPodSpecWithPullSecrets profile server pullSecrets =
     (if ss_MountPath (gp_Storage (profile_spec profile)) = [] then
        Inl (new_error ''storage.mountPath is required'')
      else if gp_Image (profile_spec profile) = [] then Inl (new_error ''image is required'')
      else if ag_Image (gp_Agent (profile_spec profile)) = [] then
        Inl (new_error ''agent.image is required'')
      else
        (let podSpec = \<lparr>pod_Containers = [gameContainer profile server, agentContainer profile server],
                        pod_Volumes = [], pod_ImagePullSecrets = [], pod_PriorityClassName = [],
                        pod_TopologySpreadConstraints = [], pod_SecurityContext = None\<rparr>;
             podSpec = (if SFTPEnabled profile then applySFTPSidecar podSpec profile server
                        else podSpec);
             podSpec = podSpec\<lparr>pod_ImagePullSecrets := pod_ImagePullSecrets podSpec @ pullSecrets\<rparr>;
             podSpec = (if gs_PriorityClassName (server_spec server) \<noteq> []
                        then podSpec\<lparr>pod_PriorityClassName := gs_PriorityClassName (server_spec server)\<rparr>
                        else podSpec);
             podSpec = (if length (gs_TopologySpreadConstraints (server_spec server)) > 0
                        then podSpec\<lparr>pod_TopologySpreadConstraints :=
                               gs_TopologySpreadConstraints (server_spec server)\<rparr>
                        else podSpec)
         in Inr podSpec))"

definition BuildGameServerPodSpec :: "GameProfile \<Rightarrow> GameServer \<Rightarrow> kerr + PodSpec" where
  "BuildGameServerPodSpec profile server = BuildGameServerPodSpecWithPullSecrets profile server []"


section \<open>Properties\<close>

lemma gomap_ok_env_defaults: "gomap_ok (env_defaults items)"
proof -
  have "gomap_ok m \<Longrightarrow>
      gomap_ok (fold (\<lambda>item values. if es_Required item \<or> es_Default item \<noteq> []
        then map_put (es_Key item) (es_Default item) values else values) items m)" for m
    by (induction items arbitrary: m) auto
  then show ?thesis by (simp add: env_defaults_def)
qed

lemma dom_env_defaults:
  "dom (map_of (env_defaults items)) = es_Key ` {i \<in> set items. es_Required i \<or> es_Default i \<noteq> []}"
proof -
  have "dom (map_of (fold (\<lambda>item values. if es_Required item \<or> es_Default item \<noteq> []
        then map_put (es_Key item) (es_Default item) values else values) items m)) =
      dom (map_of m) \<union> es_Key ` {i \<in> set items. es_Required i \<or> es_Default i \<noteq> []}" for m
    by (induction items arbitrary: m) auto
  then show ?thesis by (simp add: env_defaults_def)
qed

definition game_env_values :: "GameProfile \<Rightarrow> GameServer \<Rightarrow> labels" where
  "game_env_values profile server =
     maps_copy (env_defaults (gp_Environment (profile_spec profile))) (gs_Env (server_spec server))"

lemma buildGameEnv_names: "map ev_Name (buildGameEnv profile server) = sort (map fst (game_env_values profile server))"
  by (simp add: buildGameEnv_def Let_def comp_def game_env_values_def)

lemma gomap_ok_game_env_values: "gomap_ok (game_env_values profile server)"
  by (simp add: game_env_values_def gomap_ok_env_defaults)

lemma buildGameEnv_sorted_distinct:
  "sorted (map ev_Name (buildGameEnv profile server)) \<and>
   distinct (map ev_Name (buildGameEnv profile server))"
  using gomap_ok_game_env_values [of profile server]
  by (simp add: buildGameEnv_names gomap_ok_def)

lemma buildGameEnv_member_iff:
  "v \<in> set (buildGameEnv profile server) \<longleftrightarrow>
     map_of (game_env_values profile server) (ev_Name v) = Some (ev_Value v)"
proof -
  have "v \<in> set (buildGameEnv profile server) \<longleftrightarrow>
      ev_Name v \<in> fst ` set (game_env_values profile server) \<and>
      ev_Value v = map_str (game_env_values profile server) (ev_Name v)"
    by (cases v) (auto simp: buildGameEnv_def Let_def game_env_values_def)
  also have "\<dots> \<longleftrightarrow> map_of (game_env_values profile server) (ev_Name v) = Some (ev_Value v)"
    by (auto simp: map_str_def dom_map_of_conv_image_fst [symmetric] domIff split: option.splits)
  finally show ?thesis .
qed

lemma buildGameEnv_values:
  assumes "gomap_ok (gs_Env (server_spec server))"
  shows "v \<in> set (buildGameEnv profile server) \<longleftrightarrow>
    (case map_of (gs_Env (server_spec server)) (ev_Name v) of
       Some x \<Rightarrow> ev_Value v = x
     | None \<Rightarrow> map_of (env_defaults (gp_Environment (profile_spec profile))) (ev_Name v) = Some (ev_Value v))"
  unfolding buildGameEnv_member_iff game_env_values_def map_of_copy [OF assms]
  by (auto simp: map_add_def split: option.splits)

text \<open>When the builder succeeds, and what the pod then holds.\<close>

definition pod_buildable :: "GameProfile \<Rightarrow> bool" where
  "pod_buildable profile \<longleftrightarrow>
     ss_MountPath (gp_Storage (profile_spec profile)) \<noteq> [] \<and> gp_Image (profile_spec profile) \<noteq> [] \<and>
     ag_Image (gp_Agent (profile_spec profile)) \<noteq> []"

lemma pod_spec_total:
  "pod_buildable profile \<longleftrightarrow> (\<exists>p. BuildGameServerPodSpecWithPullSecrets profile server ps = Inr p)"
  by (simp add: pod_buildable_def BuildGameServerPodSpecWithPullSecrets_def Let_def)

lemma pod_spec_containers:
  assumes "BuildGameServerPodSpecWithPullSecrets profile server ps = Inr p"
  shows "pod_Containers p = [gameContainer profile server, agentContainer profile server] @
           (if SFTPEnabled profile then [buildSFTPContainer profile server] else [])"
    and "map vol_Name (pod_Volumes p) =
           (if SFTPEnabled profile then [sftpCredentialsVolumeName, sftpConfigVolumeName] else [])"
    and "pod_ImagePullSecrets p = ps"
  using assms
  by (auto simp: BuildGameServerPodSpecWithPullSecrets_def applySFTPSidecar_def Let_def
      split: if_splits)

lemma pod_spec_mounts:
  assumes "BuildGameServerPodSpecWithPullSecrets profile server ps = Inr p"
    and "c \<in> set (pod_Containers p)" "m \<in> set (co_VolumeMounts c)"
  shows "vm_Name m \<in> insert DataVolumeName (set (map vol_Name (pod_Volumes p)))"
proof -
  have "vm_Name m \<in> insert DataVolumeName
      (if SFTPEnabled profile then {sftpCredentialsVolumeName, sftpConfigVolumeName} else {})"
    using assms(2,3)
    unfolding pod_spec_containers(1) [OF assms(1)]
    by (auto simp: gameContainer_def agentContainer_def buildSFTPContainer_def
        buildDataVolumeMounts_def split: if_splits)
  then show ?thesis
    unfolding pod_spec_containers(2) [OF assms(1)] by (auto split: if_splits)
qed

end
