(* ===== verification/GameServer_Objects.thy ===== *)
theory GameServer_Objects
  imports Pod_Builder
begin

text \<open>
  The child objects of a GameServer (\<^verbatim>\<open>internal/controllers/gameserver_controller.go\<close>,
  \<^verbatim>\<open>servicemonitor.go\<close>): StatefulSet, headless, agent and game Services, volume claim and
  ServiceMonitor, as pure functions of the server and its profile, and the operator's metrics
  (\<^verbatim>\<open>metrics.go\<close>).
\<close>

section \<open>Kubernetes objects\<close>

datatype IntOrString = IntVal int | StrVal string

record ServicePort =
  sp_Name :: string
  sp_Port :: int
  sp_TargetPort :: IntOrString
  sp_Protocol :: string

record Ingress =
  ing_IP :: string
  ing_Hostname :: string

record Service =
  svc_meta :: ObjectMeta
  svc_Type :: string
  svc_ClusterIP :: string
  svc_Selector :: labels
  svc_Ports :: "ServicePort list"
  svc_PublishNotReadyAddresses :: bool
  svc_LoadBalancerIP :: string
  svc_Ingress :: "Ingress list"

record StatefulSet =
  sts_meta :: ObjectMeta
  sts_Replicas :: "int option"
  sts_Selector :: labels
  sts_ServiceName :: string
  sts_TemplateLabels :: labels
  sts_PodSpec :: PodSpec
  sts_ReadyReplicas :: int

record TypedLocalObjectReference =
  lor_APIGroup :: string
  lor_Kind :: string
  lor_Name :: string

record PersistentVolumeClaim =
  pvc_meta :: ObjectMeta
  pvc_AccessModes :: "string list"
  pvc_StorageRequest :: string
  pvc_StorageClassName :: "string option"
  pvc_DataSource :: "TypedLocalObjectReference option"

record Secret =
  sec_meta :: ObjectMeta
  sec_Type :: string
  sec_Data :: "(string, string) gomap"

record MonitorEndpoint =
  me_Port :: string
  me_Path :: string
  me_Interval :: string

text \<open>
  The specification of a ServiceMonitor; \<open>ms_Others\<close> stands for the fields that the operator leaves
  at their zero value, as one text that is empty when none of them is set.
\<close>

record MonitorSpec =
  ms_Selector :: labels
  ms_Endpoints :: "MonitorEndpoint list"
  ms_Others :: string

record ServiceMonitor =
  smon_meta :: ObjectMeta
  smon_Spec :: MonitorSpec


section \<open>Builders\<close>

definition buildGameServerLabels :: "GameServer \<Rightarrow> GameProfile \<Rightarrow> labels" where
  "buildGameServerLabels server profile =
     [(''app.kubernetes.io/name'', ''minato''),
      (''minato.io/gameserver'', server_name server),
      (''minato.io/profile'', profile_name profile)]"

definition buildStatefulSet :: "GameServer \<Rightarrow> PodSpec \<Rightarrow> labels \<Rightarrow> StatefulSet" where
  "buildStatefulSet server podSpec labelsMap =
     (let podSpec = podSpec\<lparr>pod_Volumes := pod_Volumes podSpec @
            [\<lparr>vol_Name = DataVolumeName, vol_Source = PVCVolume (server_name server)\<rparr>]\<rparr>
      in \<lparr>sts_meta = (new_meta (server_name server) (server_namespace server))\<lparr>om_Labels := labelsMap\<rparr>,
          sts_Replicas = Some 1,
          sts_Selector = labelsMap,
          sts_ServiceName = server_name server,
          sts_TemplateLabels = labelsMap,
          sts_PodSpec = podSpec,
          sts_ReadyReplicas = 0\<rparr>)"

definition buildHeadlessService :: "GameServer \<Rightarrow> labels \<Rightarrow> Service" where
  "buildHeadlessService server labelsMap =
     \<lparr>svc_meta = (new_meta (server_name server) (server_namespace server))\<lparr>om_Labels := labelsMap\<rparr>,
      svc_Type = ''ClusterIP'', svc_ClusterIP = ''None'', svc_Selector = labelsMap,
      svc_Ports = [\<lparr>sp_Name = ''placeholder'', sp_Port = 1, sp_TargetPort = IntVal 1,
                    sp_Protocol = ProtocolTCP\<rparr>],
      svc_PublishNotReadyAddresses = True, svc_LoadBalancerIP = [], svc_Ingress = []\<rparr>"

text \<open>
  The loop over \<^verbatim>\<open>profile.Spec.Ports\<close> of \<^verbatim>\<open>buildGameService\<close>: \<open>seen\<close> is the set of
  (port, protocol) pairs already published.
\<close>

definition portProtocol :: "PortSpec \<Rightarrow> string" where
  "portProtocol p = (if ps_Protocol p = [] then ProtocolTCP else ps_Protocol p)"

fun exposedServicePorts :: "(int \<times> string) list \<Rightarrow> PortSpec list \<Rightarrow> ServicePort list" where
  "exposedServicePorts seen [] = []"
| "exposedServicePorts seen (p # ps) =
     (if \<not> ExposedPort p then exposedServicePorts seen ps
      else (let key = (ps_ContainerPort p, portProtocol p)
            in if key \<in> set seen then exposedServicePorts seen ps
               else \<lparr>sp_Name = ps_Name p, sp_Port = ps_ContainerPort p,
                      sp_TargetPort = IntVal (ps_ContainerPort p), sp_Protocol = portProtocol p\<rparr>
                    # exposedServicePorts (key # seen) ps))"

definition port_key :: "ServicePort \<Rightarrow> int \<times> string" where
  "port_key p = (sp_Port p, sp_Protocol p)"

definition gameServicePorts :: "GameProfile \<Rightarrow> ServicePort list" where
  "gameServicePorts profile =
     (let ports = exposedServicePorts [] (gp_Ports (profile_spec profile))
      in if SFTPEnabled profile \<and> (SFTPPort, ProtocolTCP) \<notin> set (map port_key ports)
         then ports @ [\<lparr>sp_Name = SFTPPortName, sp_Port = SFTPPort, sp_TargetPort = IntVal SFTPPort,
                         sp_Protocol = ProtocolTCP\<rparr>]
         else ports)"

definition buildGameService :: "GameServer \<Rightarrow> GameProfile \<Rightarrow> labels \<Rightarrow> string \<Rightarrow> Service" where
  "buildGameService server profile labelsMap dnsZone =
     \<lparr>svc_meta = (new_meta (server_name server @ ''-game'') (server_namespace server))
        \<lparr>om_Labels := labelsMap,
         om_Annotations := (if dnsZone \<noteq> []
           then [(''external-dns.alpha.kubernetes.io/hostname'', server_name server @ ''.'' @ dnsZone)]
           else [])\<rparr>,
      svc_Type = ''LoadBalancer'', svc_ClusterIP = [], svc_Selector = labelsMap,
      svc_Ports = gameServicePorts profile,
      svc_PublishNotReadyAddresses = False,
      svc_LoadBalancerIP = gs_LoadBalancerIP (server_spec server), svc_Ingress = []\<rparr>"

definition buildAgentService :: "GameServer \<Rightarrow> labels \<Rightarrow> Service" where
  "buildAgentService server labelsMap =
     \<lparr>svc_meta = (new_meta (server_name server @ ''-agent'') (server_namespace server))
        \<lparr>om_Labels := labelsMap\<rparr>,
      svc_Type = ''ClusterIP'', svc_ClusterIP = [], svc_Selector = labelsMap,
      svc_Ports = [\<lparr>sp_Name = AgentPortName, sp_Port = AgentGRPCPort,
                    sp_TargetPort = StrVal AgentPortName, sp_Protocol = ProtocolTCP\<rparr>],
      svc_PublishNotReadyAddresses = False, svc_LoadBalancerIP = [], svc_Ingress = []\<rparr>"

definition buildPVC :: "klib \<Rightarrow> GameServer \<Rightarrow> GameProfile \<Rightarrow> PersistentVolumeClaim" where
  "buildPVC L server profile =
     (let sizeDefault = ss_SizeDefault (gp_Storage (profile_spec profile));
          storage = gs_Storage (server_spec server);
          quantity = (case QuantityError L sizeDefault of None \<Rightarrow> sizeDefault | Some _ \<Rightarrow> ''1Gi'');
          quantity = (if gss_Size storage \<noteq> [] \<and> QuantityError L (gss_Size storage) = None
                      then gss_Size storage else quantity);
          snapNamespace = (case gss_SnapshotRef storage of
              None \<Rightarrow> server_namespace server
            | Some r \<Rightarrow> if sr_Namespace r = [] then server_namespace server else sr_Namespace r)
      in \<lparr>pvc_meta = (new_meta (server_name server) (server_namespace server))
            \<lparr>om_Annotations := (if snapNamespace \<noteq> server_namespace server
                then [(''minato.io/snapshot-namespace'', snapNamespace)] else [])\<rparr>,
          pvc_AccessModes = [''ReadWriteOnce''],
          pvc_StorageRequest = quantity,
          pvc_StorageClassName =
            (if gss_StorageClass storage \<noteq> [] then Some (gss_StorageClass storage) else None),
          pvc_DataSource = map_option (\<lambda>r. \<lparr>lor_APIGroup = ''snapshot.storage.k8s.io'',
              lor_Kind = ''VolumeSnapshot'', lor_Name = sr_Name r\<rparr>) (gss_SnapshotRef storage)\<rparr>)"

definition agentMetricsPortName :: string where "agentMetricsPortName = ''metrics''"

definition serviceMonitorEnabled :: "GameProfile \<Rightarrow> bool" where
  "serviceMonitorEnabled profile =
     (case gp_Observability (profile_spec profile) of
        None \<Rightarrow> False
      | Some o' \<Rightarrow> (case obs_ServiceMonitor o' of None \<Rightarrow> False | Some m \<Rightarrow> sm_Enabled m))"

definition agentMetricsSpec :: "GameProfile \<Rightarrow> AgentMetricsSpec option" where
  "agentMetricsSpec profile =
     (case gp_Observability (profile_spec profile) of
        None \<Rightarrow> None
      | Some o' \<Rightarrow> obs_AgentMetrics o')"

definition addAgentMetricsPort :: "Service \<Rightarrow> GameProfile \<Rightarrow> Service" where
  "addAgentMetricsPort svc profile =
     (case agentMetricsSpec profile of
        None \<Rightarrow> svc
      | Some spec \<Rightarrow>
          if am_Port spec \<le> 0 then svc
          else if agentMetricsPortName \<in> set (map sp_Name (svc_Ports svc)) then svc
          else svc\<lparr>svc_Ports := svc_Ports svc @
                 [\<lparr>sp_Name = agentMetricsPortName, sp_Port = am_Port spec,
                   sp_TargetPort = IntVal (am_Port spec), sp_Protocol = ProtocolTCP\<rparr>]\<rparr>)"

text \<open>
  \<^verbatim>\<open>buildServiceMonitorSpec\<close> dereferences the metrics spec and the monitor spec, which its only
  caller has checked: \<open>None\<close> is the nil dereference.
\<close>

definition buildServiceMonitorSpec :: "GameProfile \<Rightarrow> labels \<Rightarrow> MonitorSpec option" where
  "buildServiceMonitorSpec profile labelsMap =
     (case (agentMetricsSpec profile,
            Option.bind (gp_Observability (profile_spec profile)) obs_ServiceMonitor) of
        (Some spec, Some mon) \<Rightarrow>
          Some \<lparr>ms_Selector = labelsMap,
                ms_Endpoints = [\<lparr>me_Port = agentMetricsPortName,
                  me_Path = (if am_Path spec = [] then ''/metrics'' else am_Path spec),
                  me_Interval = sm_Interval mon\<rparr>],
                ms_Others = []\<rparr>
      | _ \<Rightarrow> None)"

definition stsReady :: "StatefulSet \<Rightarrow> bool" where
  "stsReady sts = (case sts_Replicas sts of None \<Rightarrow> False | Some n \<Rightarrow> sts_ReadyReplicas sts \<ge> n)"

definition boolToConditionStatus :: "bool \<Rightarrow> string" where
  "boolToConditionStatus value = (if value then ConditionTrue else ConditionFalse)"

definition agentAddress :: "GameServer \<Rightarrow> string" where
  "agentAddress server =
     server_name server @ ''-agent.'' @ server_namespace server @ ''.svc.cluster.local:'' @
     show_int AgentGRPCPort"


section \<open>Metrics\<close>

text \<open>
  The gauge and counter vectors, as maps from label values to the current value of the series.
  \<^verbatim>\<open>DeletePartialMatch\<close> drops every series with the given namespace and server.
\<close>

record Metrics =
  gameServersGauge :: "(string \<times> string \<times> string \<times> string, int) gomap"
  playersOnlineGauge :: "(string \<times> string, int) gomap"
  playerCapacityGauge :: "(string \<times> string, int) gomap"
  actionExecutionsTotal :: "(string \<times> string, int) gomap"

definition no_metrics :: Metrics where
  "no_metrics = \<lparr>gameServersGauge = [], playersOnlineGauge = [], playerCapacityGauge = [],
                 actionExecutionsTotal = []\<rparr>"

definition deleteGameServerMetrics :: "string \<Rightarrow> string \<Rightarrow> Metrics \<Rightarrow> Metrics" where
  "deleteGameServerMetrics namespace name m =
     m\<lparr>gameServersGauge :=
         filter (\<lambda>((ns, _, srv, _), _). \<not> (ns = namespace \<and> srv = name)) (gameServersGauge m),
       playersOnlineGauge :=
         filter (\<lambda>((ns, srv), _). \<not> (ns = namespace \<and> srv = name)) (playersOnlineGauge m),
       playerCapacityGauge :=
         filter (\<lambda>((ns, srv), _). \<not> (ns = namespace \<and> srv = name)) (playerCapacityGauge m)\<rparr>"

definition stateProvisioning :: string where "stateProvisioning = ''Provisioning''"
definition stateRunning :: string where "stateRunning = ''Running''"
definition stateIdle :: string where "stateIdle = ''Idle''"
definition stateStopped :: string where "stateStopped = ''Stopped''"
definition stateError :: string where "stateError = ''Error''"

lemmas state_defs =
  stateProvisioning_def stateRunning_def stateIdle_def stateStopped_def stateError_def

definition recordGameServerMetrics :: "GameServer \<Rightarrow> Metrics \<Rightarrow> Metrics" where
  "recordGameServerMetrics server m =
     (let state = (if gst_State (server_status server) = [] then stateProvisioning
                   else gst_State (server_status server));
          ns = server_namespace server;
          m = deleteGameServerMetrics ns (server_name server) m
      in m\<lparr>gameServersGauge :=
             map_put (ns, gs_Profile (server_spec server), server_name server, state) 1
               (gameServersGauge m),
           playersOnlineGauge :=
             map_put (ns, server_name server) (gst_Players (server_status server))
               (playersOnlineGauge m),
           playerCapacityGauge :=
             map_put (ns, server_name server) (gst_PlayerCapacity (server_status server))
               (playerCapacityGauge m)\<rparr>)"

definition observeActionExecution :: "string \<Rightarrow> string \<Rightarrow> Metrics \<Rightarrow> Metrics" where
  "observeActionExecution action res m =
     m\<lparr>actionExecutionsTotal :=
         map_put (action, res)
           ((case map_of (actionExecutionsTotal m) (action, res) of None \<Rightarrow> 0 | Some n \<Rightarrow> n) + 1)
           (actionExecutionsTotal m)\<rparr>"


section \<open>Properties of the builders\<close>

lemma exposedServicePorts_keys:
  "set (map port_key (exposedServicePorts seen ps)) =
     {(ps_ContainerPort p, portProtocol p) |p. p \<in> set ps \<and> ExposedPort p} - set seen"
proof (induction seen ps rule: exposedServicePorts.induct)
  case (2 seen p ps)
  then show ?case
    by (cases "ExposedPort p"; cases "(ps_ContainerPort p, portProtocol p) \<in> set seen")
      (auto simp: Let_def port_key_def)
qed simp

lemma exposedServicePorts_distinct: "distinct (map port_key (exposedServicePorts seen ps))"
proof (induction seen ps rule: exposedServicePorts.induct)
  case (2 seen p ps)
  show ?case
  proof (cases "ExposedPort p \<and> (ps_ContainerPort p, portProtocol p) \<notin> set seen")
    case True
    let ?key = "(ps_ContainerPort p, portProtocol p)"
    have "?key \<notin> set (map port_key (exposedServicePorts (?key # seen) ps))"
      unfolding exposedServicePorts_keys by simp
    with True 2 show ?thesis by (simp add: Let_def port_key_def)
  next
    case False
    with 2 show ?thesis by (auto simp: Let_def)
  qed
qed simp

lemma gameServicePorts_distinct: "distinct (map port_key (gameServicePorts profile))"
  using exposedServicePorts_distinct [of "[]" "gp_Ports (profile_spec profile)"]
  by (auto simp: gameServicePorts_def Let_def port_key_def)

lemma gameServicePorts_keys:
  "set (map port_key (gameServicePorts profile)) =
     {(ps_ContainerPort p, portProtocol p) |p. p \<in> set (gp_Ports (profile_spec profile)) \<and> ExposedPort p} \<union>
     (if SFTPEnabled profile then {(SFTPPort, ProtocolTCP)} else {})"
proof -
  let ?ports = "exposedServicePorts [] (gp_Ports (profile_spec profile))"
  have "set (map port_key (gameServicePorts profile)) =
      set (map port_key ?ports) \<union> (if SFTPEnabled profile then {(SFTPPort, ProtocolTCP)} else {})"
    by (auto simp: gameServicePorts_def Let_def port_key_def)
  then show ?thesis
    by (simp only: exposedServicePorts_keys) auto
qed

lemma exposedServicePorts_target:
  "p \<in> set (exposedServicePorts seen ps) \<Longrightarrow> sp_TargetPort p = IntVal (sp_Port p)"
  by (induction seen ps rule: exposedServicePorts.induct) (auto simp: Let_def split: if_splits)

lemma statefulset_mounts_bound:
  assumes "BuildGameServerPodSpecWithPullSecrets profile server ps = Inr pod"
    and "c \<in> set (pod_Containers (sts_PodSpec (buildStatefulSet server pod ls)))"
    and "m \<in> set (co_VolumeMounts c)"
  shows "\<exists>v\<in>set (pod_Volumes (sts_PodSpec (buildStatefulSet server pod ls))). vol_Name v = vm_Name m"
proof -
  have "c \<in> set (pod_Containers pod)"
    using assms(2) by (simp add: buildStatefulSet_def Let_def)
  from pod_spec_mounts [OF assms(1) this assms(3)]
  show ?thesis by (auto simp: buildStatefulSet_def Let_def)
qed

lemma statefulset_volumes_distinct:
  assumes "BuildGameServerPodSpecWithPullSecrets profile server ps = Inr pod"
  shows "distinct (map vol_Name (pod_Volumes (sts_PodSpec (buildStatefulSet server pod ls))))"
  using pod_spec_containers(2) [OF assms]
  by (simp add: buildStatefulSet_def Let_def pod_name_defs split: if_splits)


section \<open>Properties of the metrics\<close>

definition series_of :: "string \<Rightarrow> string \<Rightarrow> Metrics \<Rightarrow> (string \<times> string \<times> string \<times> string) list" where
  "series_of namespace name m =
     filter (\<lambda>(ns, _, srv, _). ns = namespace \<and> srv = name) (map fst (gameServersGauge m))"

lemma series_of_delete:
  "series_of ns n (deleteGameServerMetrics ns' n' m) = (if ns = ns' \<and> n = n' then [] else series_of ns n m)"
proof -
  have "filter (\<lambda>(a, _, b, _). a = ns \<and> b = n)
      (map fst (filter (\<lambda>((a, _, b, _), _). \<not> (a = ns' \<and> b = n')) xs)) =
      (if ns = ns' \<and> n = n' then [] else filter (\<lambda>(a, _, b, _). a = ns \<and> b = n) (map fst xs))"
    for xs :: "((string \<times> string \<times> string \<times> string) \<times> int) list"
    by (induction xs) auto
  then show ?thesis by (simp add: series_of_def deleteGameServerMetrics_def)
qed

lemma filter_keys_put:
  "filter P (map fst (map_put k v m)) =
     (if k \<in> set (map fst m) then filter P (map fst m)
      else filter P (map fst m) @ (if P k then [k] else []))"
proof -
  have "map fst (map_put k v m) = (if k \<in> set (map fst m) then map fst m else map fst m @ [k])"
    unfolding map_put_def by (induction m) auto
  then show ?thesis by simp
qed

lemma series_of_record:
  "series_of ns n (recordGameServerMetrics server m) =
     (if ns = server_namespace server \<and> n = server_name server
      then [(ns, gs_Profile (server_spec server), n,
             (if gst_State (server_status server) = [] then stateProvisioning
              else gst_State (server_status server)))]
      else series_of ns n m)"
proof -
  define state where "state = (if gst_State (server_status server) = [] then stateProvisioning
                   else gst_State (server_status server))"
  let ?k = "(server_namespace server, gs_Profile (server_spec server), server_name server, state)"
  let ?d = "deleteGameServerMetrics (server_namespace server) (server_name server) m"
  have fresh: "?k \<notin> set (map fst (gameServersGauge ?d))"
    by (auto simp: deleteGameServerMetrics_def)
  have "series_of ns n (recordGameServerMetrics server m) =
      filter (\<lambda>(a, _, b, _). a = ns \<and> b = n) (map fst (map_put ?k 1 (gameServersGauge ?d)))"
    unfolding series_of_def recordGameServerMetrics_def Let_def by (simp add: state_def)
  also have "\<dots> = series_of ns n ?d @ (if ns = server_namespace server \<and> n = server_name server then [?k] else [])"
    using fresh by (subst filter_keys_put) (auto simp: series_of_def)
  finally show ?thesis
    unfolding series_of_delete by (auto simp: state_def)
qed

end
