(* ===== verification/Fleet_Controller.thy ===== *)
theory Fleet_Controller
  imports GameServer_Objects
begin

text \<open>
  The GameServerFleet reconciler (\<^verbatim>\<open>internal/controllers/gameserverfleet_controller.go\<close>): scaling a
  set of GameServers up and down, rolling updates, status and cleanup. \<^verbatim>\<open>int32\<close> arithmetic is
  written with its wrap-around. A Go map that is nil and one that is empty are the same list here;
  the code only reads from maps that may be nil, except for the label write of the rolling update,
  whose servers were listed by a label and so have one.
\<close>

section \<open>Calls and environment\<close>

datatype fleet_call =
    FNow
  | GetFleet NamespacedName
  | UpdateFleet GameServerFleet
  | UpdateFleetStatus GameServerFleet
  | ListServers string labels
  | CreateServer GameServer
  | DeleteServer NamespacedName
  | UpdateGameServer GameServer
  | FDial string
  | FPrepareShutdown string int string
  | FEvent string string

record fleet_env =
  fe_now :: "fleet_call list \<Rightarrow> time"
  fe_getFleet :: "fleet_call list \<Rightarrow> NamespacedName \<Rightarrow> kerr + GameServerFleet"
  fe_updateFleet :: "fleet_call list \<Rightarrow> GameServerFleet \<Rightarrow> kerr + GameServerFleet"
  fe_updateStatus :: "fleet_call list \<Rightarrow> GameServerFleet \<Rightarrow> kerr + unit"
  fe_list :: "fleet_call list \<Rightarrow> string \<Rightarrow> labels \<Rightarrow> kerr + GameServer list"
  fe_create :: "fleet_call list \<Rightarrow> GameServer \<Rightarrow> kerr + unit"
  fe_delete :: "fleet_call list \<Rightarrow> NamespacedName \<Rightarrow> kerr + unit"
  fe_update :: "fleet_call list \<Rightarrow> GameServer \<Rightarrow> kerr + unit"
  fe_dial :: "fleet_call list \<Rightarrow> string \<Rightarrow> kerr + unit"
  fe_shutdown :: "fleet_call list \<Rightarrow> string \<Rightarrow> kerr + unit"

type_synonym 'a fleet_prog = "(fleet_call world, 'a) state"

text \<open>Of the reconciler's fields only whether an event recorder is set matters.\<close>

record GameServerFleetReconciler =
  fr_Recorder :: bool

definition gameServerFleetFinalizer :: string where
  "gameServerFleetFinalizer = ''minato.io/gameserverfleet-finalizer''"
definition fleetLabel :: string where "fleetLabel = ''minato.io/fleet''"
definition fleetGenerationLabel :: string where
  "fleetGenerationLabel = ''minato.io/fleet-generation''"
definition defaultDrainTimeoutSeconds :: int where "defaultDrainTimeoutSeconds = 30"

abbreviation fleet_name :: "GameServerFleet \<Rightarrow> string" where
  "fleet_name fleet \<equiv> om_Name (fleet_meta fleet)"

abbreviation fleet_namespace :: "GameServerFleet \<Rightarrow> string" where
  "fleet_namespace fleet \<equiv> om_Namespace (fleet_meta fleet)"

definition fleetGeneration :: "GameServerFleet \<Rightarrow> string" where
  "fleetGeneration fleet = show_int (om_Generation (fleet_meta fleet))"

definition listFleetServers :: "fleet_env \<Rightarrow> GameServerFleet \<Rightarrow> (kerr + GameServer list) fleet_prog" where
  "listFleetServers E fleet =
     perform (ListServers (fleet_namespace fleet) [(fleetLabel, fleet_name fleet)])
       (\<lambda>h. fe_list E h (fleet_namespace fleet) [(fleetLabel, fleet_name fleet)])"


section \<open>Choosing and draining servers\<close>

text \<open>The comparison function that scale-down passes to \<^verbatim>\<open>sort.Slice\<close>.\<close>

definition deleteBefore :: "GameServer \<Rightarrow> GameServer \<Rightarrow> bool" where
  "deleteBefore a b =
     (if gst_Players (server_status a) \<noteq> gst_Players (server_status b)
      then gst_Players (server_status a) < gst_Players (server_status b)
      else if om_CreationTimestamp (server_meta a) \<noteq> om_CreationTimestamp (server_meta b)
      then om_CreationTimestamp (server_meta a) < om_CreationTimestamp (server_meta b)
      else server_name a < server_name b)"

text \<open>
  \<^verbatim>\<open>sorted[:excess]\<close> panics when \<^verbatim>\<open>excess\<close> exceeds the length of the slice (which is also its
  capacity). controller-runtime recovers a panic of a reconciler and returns it as the error of the
  reconcile; \<open>slicePanic\<close> is that error.
\<close>

definition slicePanic :: "int \<Rightarrow> nat \<Rightarrow> kerr" where
  "slicePanic bound capacity =
     new_error (''panic: runtime error: slice bounds out of range [:'' @ show_int bound @
       ''] with capacity '' @ show_int (int capacity) @ '' [recovered]'')"

definition selectServersToDelete ::
    "GameServer list \<Rightarrow> int \<Rightarrow> string \<Rightarrow> kerr + GameServer list" where
  "selectServersToDelete servers desiredReplicas updateStrategy =
     (if updateStrategy = ''OnDelete'' then Inr []
      else (let sorted = sort_slice deleteBefore servers;
                excess = int32 (int32 (int (length sorted)) - desiredReplicas)
            in if excess \<le> 0 then Inr []
               else if excess > int (length sorted) then Inl (slicePanic excess (length sorted))
               else Inr (take (nat excess) sorted)))"

definition warnDrainFailed ::
    "GameServerFleetReconciler \<Rightarrow> GameServer \<Rightarrow> string \<Rightarrow> kerr \<Rightarrow> unit fleet_prog" where
  "warnDrainFailed R server reason err =
     (if fr_Recorder R
      then perform (FEvent reason (''graceful agent shutdown failed, deleting anyway: '' @ err_msg err))
             (\<lambda>_. ())
      else State_Monad.return ())"

definition drainTimeoutSeconds :: "GameServerFleet \<Rightarrow> int" where
  "drainTimeoutSeconds fleet =
     (case us_RollingUpdate (fl_UpdateStrategy (fleet_spec fleet)) of
        None \<Rightarrow> defaultDrainTimeoutSeconds
      | Some ru \<Rightarrow> if ru_DrainTimeoutSeconds ru > 0 then ru_DrainTimeoutSeconds ru
                   else defaultDrainTimeoutSeconds)"

definition drainServer ::
    "fleet_env \<Rightarrow> GameServerFleetReconciler \<Rightarrow> GameServerFleet \<Rightarrow> GameServer \<Rightarrow> unit fleet_prog" where
  "drainServer E R fleet server =
     (if gst_State (server_status server) \<noteq> ''Running'' \<or> gst_AgentVersion (server_status server) = []
      then State_Monad.return ()
      else (let addr = agentAddress server
            in do {
              dialled \<leftarrow> perform (FDial addr) (\<lambda>h. fe_dial E h addr);
              case dialled of
                Inl err \<Rightarrow> warnDrainFailed R server ''AgentDialFailed'' err
              | Inr _ \<Rightarrow> do {
                  r \<leftarrow> perform (FPrepareShutdown addr (drainTimeoutSeconds fleet) ''fleet scale-down'')
                         (\<lambda>h. fe_shutdown E h addr);
                  case r of
                    Inl err \<Rightarrow> warnDrainFailed R server ''AgentShutdownFailed'' err
                  | Inr _ \<Rightarrow> State_Monad.return ()
                }
            }))"

definition deleteServer :: "fleet_env \<Rightarrow> GameServer \<Rightarrow> (kerr + unit) fleet_prog" where
  "deleteServer E server =
     fmap (ignoring IsNotFound)
       (perform (DeleteServer (key_of (server_meta server)))
          (\<lambda>h. fe_delete E h (key_of (server_meta server))))"


section \<open>Creating and updating servers\<close>

definition buildGameServer :: "GameServerFleet \<Rightarrow> int \<Rightarrow> GameServer" where
  "buildGameServer fleet index =
     (let name = fleet_name fleet @ ''-'' @ show_int index;
          template = fl_Template (fleet_spec fleet);
          labels = maps_copy
            [(''app.kubernetes.io/name'', ''minato''),
             (fleetLabel, fleet_name fleet),
             (''minato.io/profile'', fl_Profile (fleet_spec fleet)),
             (''minato.io/managed-by'', ''gameserverfleet''),
             (fleetGenerationLabel, fleetGeneration fleet)]
            (tm_Labels (ts_Metadata template));
          annotations = maps_copy [] (tm_Annotations (ts_Metadata template))
      in \<lparr>server_meta = (new_meta name (fleet_namespace fleet))
            \<lparr>om_Labels := labels, om_Annotations := annotations\<rparr>,
          server_spec =
            \<lparr>gs_Profile = fl_Profile (fleet_spec fleet), gs_Tier = [],
             gs_Env = fgs_Env (ts_Spec template),
             gs_Storage = \<lparr>gss_Size = [], gss_StorageClass = [], gss_SnapshotRef = None\<rparr>,
             gs_Lifecycle = \<lparr>lc_IdleTimeoutSeconds = 0, lc_AutoStart = None\<rparr>,
             gs_PriorityClassName = fl_PriorityClassName (fleet_spec fleet),
             gs_TopologySpreadConstraints = fl_TopologySpreadConstraints (fleet_spec fleet),
             gs_LoadBalancerIP = []\<rparr>,
          server_status =
            \<lparr>gst_State = [], gst_AgentVersion = [], gst_Players = 0, gst_PlayerCapacity = 0,
             gst_LastActivity = None, gst_Endpoints = [], gst_Conditions = []\<rparr>\<rparr>)"

definition createServer ::
    "klib \<Rightarrow> fleet_env \<Rightarrow> GameServerFleet \<Rightarrow> int \<Rightarrow> (kerr + unit) fleet_prog" where
  "createServer L E fleet i =
     (let server = buildGameServer fleet i
      in case SetControllerReference L (fleet_meta fleet) (server_meta server) of
           Inl err \<Rightarrow> State_Monad.return (Inl err)
         | Inr m \<Rightarrow> perform (CreateServer (server\<lparr>server_meta := m\<rparr>))
                      (\<lambda>h. fe_create E h (server\<lparr>server_meta := m\<rparr>)))"

text \<open>\<^verbatim>\<open>for i := currentReplicas; i < desiredReplicas; i++\<close>\<close>

definition scaleUp ::
    "klib \<Rightarrow> fleet_env \<Rightarrow> GameServerFleet \<Rightarrow> int \<Rightarrow> int \<Rightarrow> (kerr + unit) fleet_prog" where
  "scaleUp L E fleet currentReplicas desiredReplicas =
     forE (createServer L E fleet) [currentReplicas..desiredReplicas - 1]"

definition scaleDown ::
    "fleet_env \<Rightarrow> GameServerFleetReconciler \<Rightarrow> GameServerFleet \<Rightarrow> GameServer list \<Rightarrow>
       (kerr + unit) fleet_prog" where
  "scaleDown E R fleet toDelete =
     forE (\<lambda>server. do { drainServer E R fleet server; deleteServer E server }) toDelete"

definition outdated :: "GameServerFleet \<Rightarrow> GameServer \<Rightarrow> bool" where
  "outdated fleet server \<longleftrightarrow>
     map_str (om_Labels (server_meta server)) fleetGenerationLabel \<noteq> fleetGeneration fleet"

definition updateBefore :: "GameServer \<Rightarrow> GameServer \<Rightarrow> bool" where
  "updateBefore a b =
     (if gst_Players (server_status a) \<noteq> gst_Players (server_status b)
      then gst_Players (server_status a) < gst_Players (server_status b)
      else om_CreationTimestamp (server_meta a) < om_CreationTimestamp (server_meta b))"

definition maxUnavailable :: "GameServerFleet \<Rightarrow> int" where
  "maxUnavailable fleet =
     (case us_RollingUpdate (fl_UpdateStrategy (fleet_spec fleet)) of
        None \<Rightarrow> 1
      | Some ru \<Rightarrow> (case ru_MaxUnavailable ru of None \<Rightarrow> 1 | Some n \<Rightarrow> n))"

definition updatedServer :: "GameServerFleet \<Rightarrow> GameServer \<Rightarrow> GameServer" where
  "updatedServer fleet server =
     (let template = fl_Template (fleet_spec fleet); meta = server_meta server; spec = server_spec server
      in server
        \<lparr>server_meta := meta
           \<lparr>om_Labels := maps_copy (map_put fleetGenerationLabel (fleetGeneration fleet) (om_Labels meta))
              (tm_Labels (ts_Metadata template)),
            om_Annotations := maps_copy (om_Annotations meta) (tm_Annotations (ts_Metadata template))\<rparr>,
         server_spec := spec
           \<lparr>gs_Profile := fl_Profile (fleet_spec fleet),
            gs_Env := maps_copy (gs_Env spec) (fgs_Env (ts_Spec template))\<rparr>\<rparr>)"

definition serversToUpdate :: "GameServerFleet \<Rightarrow> GameServer list \<Rightarrow> GameServer list" where
  "serversToUpdate fleet servers =
     (let updatingCount = int32 (int (length (filter (outdated fleet) servers)));
          sorted = sort_slice updateBefore (filter (outdated fleet) servers);
          availableSlots = int32 (maxUnavailable fleet - updatingCount)
      in take (nat (min availableSlots (int32 (int (length sorted))))) sorted)"

definition handleRollingUpdate ::
    "fleet_env \<Rightarrow> GameServerFleet \<Rightarrow> GameServer list \<Rightarrow> unit fleet_prog" where
  "handleRollingUpdate E fleet servers =
     for_each (\<lambda>server. fmap (\<lambda>_. ()) (perform (UpdateGameServer (updatedServer fleet server))
                  (\<lambda>h. fe_update E h (updatedServer fleet server))))
       (serversToUpdate fleet servers)"


section \<open>Status, cleanup, reconcile\<close>

definition fleetStatus :: "GameServerFleet \<Rightarrow> GameServer list \<Rightarrow> time \<Rightarrow> GameServerFleet" where
  "fleetStatus fleet servers now =
     (let ready = int32 (int (length (filter (\<lambda>s. gst_State (server_status s) = ''Running'') servers)));
          updated = int32 (int (length (filter (\<lambda>s. \<not> outdated fleet s) servers)));
          replicas = int32 (int (length servers));
          desired = fl_Replicas (fleet_spec fleet);
          (status, reason, message) =
            (if updated < replicas then
               (ConditionFalse, ''Updating'',
                show_int updated @ ''/'' @ show_int desired @ '' replicas updated'')
             else if replicas \<noteq> desired then
               (ConditionFalse, ''Scaling'',
                ''scaling '' @ show_int replicas @ '' -> '' @ show_int desired @ '' replicas'')
             else
               (ConditionTrue, ''Reconciled'',
                show_int ready @ ''/'' @ show_int desired @ '' replicas ready''))
      in fleet\<lparr>fleet_status := (fleet_status fleet)
           \<lparr>fls_Replicas := replicas, fls_ReadyReplicas := ready, fls_UpdatedReplicas := updated,
            fls_Conditions := setCondition (fls_Conditions (fleet_status fleet))
              \<lparr>c_Type = ''Ready'', c_Status = status, c_Reason = reason, c_Message = message,
               c_ObservedGeneration = om_Generation (fleet_meta fleet), c_LastTransitionTime = now\<rparr>\<rparr>\<rparr>)"

definition updateFleetStatus ::
    "fleet_env \<Rightarrow> GameServerFleet \<Rightarrow> GameServer list \<Rightarrow> (kerr + unit) fleet_prog" where
  "updateFleetStatus E fleet servers =
     do {
       now \<leftarrow> perform FNow (fe_now E);
       perform (UpdateFleetStatus (fleetStatus fleet servers now))
         (\<lambda>h. fe_updateStatus E h (fleetStatus fleet servers now))
     }"

definition cleanupFleet :: "fleet_env \<Rightarrow> GameServerFleet \<Rightarrow> (kerr + unit) fleet_prog" where
  "cleanupFleet E fleet =
     bindE (listFleetServers E fleet) (\<lambda>servers. forE (deleteServer E) servers)"

definition fleet_finalizers :: "(string list \<Rightarrow> string list) \<Rightarrow> GameServerFleet \<Rightarrow> GameServerFleet" where
  "fleet_finalizers f fleet =
     fleet\<lparr>fleet_meta := (fleet_meta fleet)\<lparr>om_Finalizers := f (om_Finalizers (fleet_meta fleet))\<rparr>\<rparr>"

definition updateFleet :: "fleet_env \<Rightarrow> GameServerFleet \<Rightarrow> (kerr + GameServerFleet) fleet_prog" where
  "updateFleet E fleet = perform (UpdateFleet fleet) (\<lambda>h. fe_updateFleet E h fleet)"

definition fleetDeleted :: "klib \<Rightarrow> fleet_env \<Rightarrow> GameServerFleet \<Rightarrow> (kerr + duration) fleet_prog" where
  "fleetDeleted L E fleet =
     (if ContainsFinalizer L (om_Finalizers (fleet_meta fleet)) gameServerFleetFinalizer then
        bindE (cleanupFleet E fleet) (\<lambda>_.
        bindE (updateFleet E (fleet_finalizers (\<lambda>fs. RemoveFinalizer L fs gameServerFleetFinalizer) fleet))
          (\<lambda>_. State_Monad.return (Inr 0)))
      else State_Monad.return (Inr 0))"

definition effectiveStrategy :: "GameServerFleet \<Rightarrow> string" where
  "effectiveStrategy fleet =
     (if us_Type (fl_UpdateStrategy (fleet_spec fleet)) = [] then ''RollingUpdate''
      else us_Type (fl_UpdateStrategy (fleet_spec fleet)))"

definition scaleFleet ::
    "klib \<Rightarrow> fleet_env \<Rightarrow> GameServerFleetReconciler \<Rightarrow> GameServerFleet \<Rightarrow> GameServer list \<Rightarrow>
       (kerr + duration) fleet_prog" where
  "scaleFleet L E R fleet servers =
     (let desiredReplicas = fl_Replicas (fleet_spec fleet);
          currentReplicas = int32 (int (length servers))
      in bindE (if currentReplicas < desiredReplicas
                then scaleUp L E fleet currentReplicas desiredReplicas
                else State_Monad.return (Inr ())) (\<lambda>_.
         bindE (if currentReplicas > desiredReplicas
                then (case selectServersToDelete servers desiredReplicas (effectiveStrategy fleet) of
                        Inl panic \<Rightarrow> State_Monad.return (Inl panic)
                      | Inr toDelete \<Rightarrow> scaleDown E R fleet toDelete)
                else State_Monad.return (Inr ())) (\<lambda>_. do {
           (if effectiveStrategy fleet = ''RollingUpdate'' then handleRollingUpdate E fleet servers
            else State_Monad.return ());
           updateFleetStatus E fleet servers;
           State_Monad.return (Inr 0)
         })))"

definition fleetLive ::
    "klib \<Rightarrow> fleet_env \<Rightarrow> GameServerFleetReconciler \<Rightarrow> GameServerFleet \<Rightarrow> (kerr + duration) fleet_prog" where
  "fleetLive L E R fleet =
     (if \<not> ContainsFinalizer L (om_Finalizers (fleet_meta fleet)) gameServerFleetFinalizer then
        bindE (updateFleet E (fleet_finalizers (\<lambda>fs. AddFinalizer L fs gameServerFleetFinalizer) fleet))
          (\<lambda>_. State_Monad.return (Inr 0))
      else bindE (listFleetServers E fleet) (scaleFleet L E R fleet))"

definition ReconcileFleet ::
    "klib \<Rightarrow> fleet_env \<Rightarrow> GameServerFleetReconciler \<Rightarrow> NamespacedName \<Rightarrow> (kerr + duration) fleet_prog" where
  "ReconcileFleet L E R req =
     do {
       got \<leftarrow> perform (GetFleet req) (\<lambda>h. fe_getFleet E h req);
       case got of
         Inl err \<Rightarrow> if IsNotFound err then State_Monad.return (Inr 0) else State_Monad.return (Inl err)
       | Inr fleet \<Rightarrow>
           if om_DeletionTimestamp (fleet_meta fleet) = None then fleetLive L E R fleet
           else fleetDeleted L E fleet
     }"

end
