(* ===== verification/GameServer_Controller.thy ===== *)
theory GameServer_Controller
  imports GameServer_Objects
begin

text \<open>
  The GameServer reconciler (\<^verbatim>\<open>internal/controllers/gameserver_controller.go\<close>,
  \<^verbatim>\<open>sftp.go\<close>, \<^verbatim>\<open>servicemonitor.go\<close>, \<^verbatim>\<open>prometheus_detection.go\<close>). The world is the history
  of calls to the API server, the agent and the clock, extended by the two pieces of process state
  the reconciler keeps: the metric vectors and the Prometheus detection cache. Log lines are left out.
\<close>

section \<open>Calls, environment and state\<close>

datatype gs_call =
    Now
  | GetServer NamespacedName
  | UpdateServer GameServer
  | UpdateServerStatus GameServer
  | GetProfile string
  | GetSecret NamespacedName
  | CreateSecret Secret
  | UpdateSecret Secret
  | GetSts NamespacedName
  | PatchSts StatefulSet
  | UpdateSts StatefulSet
  | GetSvc NamespacedName
  | PatchSvc Service
  | PatchPVC PersistentVolumeClaim
  | DeleteObj string NamespacedName
  | GetCRD string
  | GetMonitor NamespacedName
  | CreateMonitor ServiceMonitor
  | UpdateMonitor ServiceMonitor
  | Dial string
  | HealthCheck string
  | AgentInfo string
  | GetPlayers string
  | PrepareShutdown string int string
  | RandInt nat
  | Bcrypt string
  | RecordEvent string string string

text \<open>The answers, each a function of the calls issued before.\<close>

record gs_env =
  ge_now :: "gs_call list \<Rightarrow> time"
  ge_getServer :: "gs_call list \<Rightarrow> NamespacedName \<Rightarrow> kerr + GameServer"
  ge_updateServer :: "gs_call list \<Rightarrow> GameServer \<Rightarrow> kerr + GameServer"
  ge_updateServerStatus :: "gs_call list \<Rightarrow> GameServer \<Rightarrow> kerr + GameServer"
  ge_getProfile :: "gs_call list \<Rightarrow> string \<Rightarrow> kerr + GameProfile"
  ge_getSecret :: "gs_call list \<Rightarrow> NamespacedName \<Rightarrow> kerr + Secret"
  ge_createSecret :: "gs_call list \<Rightarrow> Secret \<Rightarrow> kerr + unit"
  ge_updateSecret :: "gs_call list \<Rightarrow> Secret \<Rightarrow> kerr + unit"
  ge_getSts :: "gs_call list \<Rightarrow> NamespacedName \<Rightarrow> kerr + StatefulSet"
  ge_patchSts :: "gs_call list \<Rightarrow> StatefulSet \<Rightarrow> kerr + unit"
  ge_updateSts :: "gs_call list \<Rightarrow> StatefulSet \<Rightarrow> kerr + unit"
  ge_getSvc :: "gs_call list \<Rightarrow> NamespacedName \<Rightarrow> kerr + Service"
  ge_patchSvc :: "gs_call list \<Rightarrow> Service \<Rightarrow> kerr + unit"
  ge_patchPVC :: "gs_call list \<Rightarrow> PersistentVolumeClaim \<Rightarrow> kerr + unit"
  ge_delete :: "gs_call list \<Rightarrow> string \<Rightarrow> NamespacedName \<Rightarrow> kerr + unit"
  ge_getCRD :: "gs_call list \<Rightarrow> string \<Rightarrow> kerr + unit"
  ge_getMonitor :: "gs_call list \<Rightarrow> NamespacedName \<Rightarrow> kerr + ServiceMonitor"
  ge_createMonitor :: "gs_call list \<Rightarrow> ServiceMonitor \<Rightarrow> kerr + unit"
  ge_updateMonitor :: "gs_call list \<Rightarrow> ServiceMonitor \<Rightarrow> kerr + unit"
  ge_dial :: "gs_call list \<Rightarrow> string \<Rightarrow> kerr + unit"
  ge_health :: "gs_call list \<Rightarrow> string \<Rightarrow> kerr + bool"
  ge_info :: "gs_call list \<Rightarrow> string \<Rightarrow> kerr + string"
  ge_players :: "gs_call list \<Rightarrow> string \<Rightarrow> kerr + int \<times> int"
  ge_shutdown :: "gs_call list \<Rightarrow> string \<Rightarrow> kerr + unit"
  ge_rand :: "gs_call list \<Rightarrow> nat \<Rightarrow> kerr + nat"
  ge_bcrypt :: "gs_call list \<Rightarrow> string \<Rightarrow> kerr + string"

record PrometheusCache =
  prometheusDetected :: bool
  prometheusLastChecked :: time

record gs_world = "gs_call world" +
  gw_metrics :: Metrics
  gw_prometheus :: PrometheusCache

type_synonym 'a gs_prog = "(gs_world, 'a) state"

text \<open>The reconciler's own configuration.\<close>

record GameServerReconciler =
  gr_OperatorNamespace :: string
  gr_ImagePullSecrets :: "string list"
  gr_ExternalDNSZone :: string
  gr_Recorder :: bool

definition gameServerFinalizer :: string where
  "gameServerFinalizer = ''minato.io/gameserver-finalizer''"

definition agentHealthCheckPeriod :: duration where "agentHealthCheckPeriod = 30 * second"
definition shutdownTimeoutSeconds :: int where "shutdownTimeoutSeconds = 30"
definition prometheusDetectionCacheDuration :: duration where
  "prometheusDetectionCacheDuration = 5 * minute"

definition clock :: "gs_env \<Rightarrow> time gs_prog" where
  "clock E = perform Now (ge_now E)"

definition modify_metrics :: "(Metrics \<Rightarrow> Metrics) \<Rightarrow> unit gs_prog" where
  "modify_metrics f = State (\<lambda>w. ((), w\<lparr>gw_metrics := f (gw_metrics w)\<rparr>))"

definition recordEvent :: "GameServerReconciler \<Rightarrow> string \<Rightarrow> string \<Rightarrow> string \<Rightarrow> unit gs_prog" where
  "recordEvent R etype reason msg =
     (if gr_Recorder R then perform (RecordEvent etype reason msg) (\<lambda>_. ())
      else State_Monad.return ())"

lemma run_modify_metrics [io_simps]:
  "run_state (modify_metrics f) w = ((), w\<lparr>gw_metrics := f (gw_metrics w)\<rparr>)"
  by (simp add: modify_metrics_def)

lemma emits_modify_metrics [emits_intros]: "Q () \<Longrightarrow> emits P (modify_metrics f) Q"
  by (simp add: emits_def run_modify_metrics)


section \<open>Secrets\<close>

definition ensureImagePullSecret ::
    "gs_env \<Rightarrow> GameServerReconciler \<Rightarrow> string \<Rightarrow> string \<Rightarrow> (kerr + unit) gs_prog" where
  "ensureImagePullSecret E R namespace name =
     do {
       got \<leftarrow> perform (GetSecret \<lparr>nn_Namespace = gr_OperatorNamespace R, nn_Name = name\<rparr>)
                (\<lambda>h. ge_getSecret E h \<lparr>nn_Namespace = gr_OperatorNamespace R, nn_Name = name\<rparr>);
       case got of
         Inl err \<Rightarrow> State_Monad.return
           (Inl (wrap_error (''get pull secret '' @ gr_OperatorNamespace R @ ''/'' @ name @ '': '') err))
       | Inr src \<Rightarrow> do {
           got \<leftarrow> perform (GetSecret \<lparr>nn_Namespace = namespace, nn_Name = name\<rparr>)
                    (\<lambda>h. ge_getSecret E h \<lparr>nn_Namespace = namespace, nn_Name = name\<rparr>);
           case got of
             Inl err \<Rightarrow>
               if IsNotFound err then
                 (let dst = \<lparr>sec_meta = (new_meta name namespace)
                               \<lparr>om_Labels := [(''minato.io/replicated-from'', gr_OperatorNamespace R)]\<rparr>,
                             sec_Type = sec_Type src, sec_Data = sec_Data src\<rparr>
                  in fmap (\<lambda>r. map_err (wrap_error (''replicate pull secret to '' @ namespace @ '': ''))
                                 (ignoring IsAlreadyExists r))
                       (perform (CreateSecret dst) (\<lambda>h. ge_createSecret E h dst)))
               else State_Monad.return (Inl err)
           | Inr dst \<Rightarrow>
               if map_str (om_Labels (sec_meta dst)) ''minato.io/replicated-from'' = []
               then State_Monad.return (Inr ())
               else (let dst = dst\<lparr>sec_Type := sec_Type src, sec_Data := sec_Data src\<rparr>
                     in fmap (map_err (wrap_error (''refresh pull secret in '' @ namespace @ '': '')))
                          (perform (UpdateSecret dst) (\<lambda>h. ge_updateSecret E h dst)))
         }
     }"

definition ensureImagePullSecrets ::
    "gs_env \<Rightarrow> GameServerReconciler \<Rightarrow> string \<Rightarrow> (kerr + unit) gs_prog" where
  "ensureImagePullSecrets E R namespace =
     (if length (gr_ImagePullSecrets R) = 0 \<or> gr_OperatorNamespace R = [] \<or>
         namespace = gr_OperatorNamespace R
      then State_Monad.return (Inr ())
      else forE (ensureImagePullSecret E R namespace) (gr_ImagePullSecrets R))"

definition sftpPasswordLength :: nat where "sftpPasswordLength = 32"

definition sftpPasswordAlphabet :: string where
  "sftpPasswordAlphabet = ''abcdefghijklmnopqrstuvwxyzABCDEFGHIJKLMNOPQRSTUVWXYZ0123456789''"

fun randomPassword :: "gs_env \<Rightarrow> nat \<Rightarrow> (kerr + string) gs_prog" where
  "randomPassword E 0 = State_Monad.return (Inr [])"
| "randomPassword E (Suc k) =
     bindE (fmap (map_err (wrap_error ''generate sftp password: ''))
              (perform (RandInt (length sftpPasswordAlphabet))
                 (\<lambda>h. ge_rand E h (length sftpPasswordAlphabet))))
       (\<lambda>n. bindE (randomPassword E k) (\<lambda>rest. State_Monad.return (Inr ((sftpPasswordAlphabet ! n) # rest))))"

definition generateSFTPPassword :: "gs_env \<Rightarrow> (kerr + string) gs_prog" where
  "generateSFTPPassword E = randomPassword E sftpPasswordLength"

definition sftpSecret :: "GameServer \<Rightarrow> GameProfile \<Rightarrow> string \<Rightarrow> string \<Rightarrow> Secret" where
  "sftpSecret server profile password passwordHash =
     \<lparr>sec_meta = (new_meta (SFTPSecretName (server_name server)) (server_namespace server))
        \<lparr>om_Labels := [(''app.kubernetes.io/name'', ''minato''),
                        (''minato.io/gameserver'', server_name server)]\<rparr>,
      sec_Type = ''Opaque'',
      sec_Data =
        [(SFTPUsernameKey, SFTPUsername),
         (SFTPPasswordKey, password),
         (SFTPUsersKey, SFTPUsersJSON (ss_MountPath (gp_Storage (profile_spec profile))) passwordHash)]\<rparr>"

definition ensureSFTPSecret ::
    "klib \<Rightarrow> gs_env \<Rightarrow> GameServer \<Rightarrow> GameProfile \<Rightarrow> (kerr + unit) gs_prog" where
  "ensureSFTPSecret L E server profile =
     (let key = \<lparr>nn_Namespace = server_namespace server, nn_Name = SFTPSecretName (server_name server)\<rparr>
      in do {
        got \<leftarrow> perform (GetSecret key) (\<lambda>h. ge_getSecret E h key);
        case got of
          Inr existing \<Rightarrow> State_Monad.return (Inr ())
        | Inl err \<Rightarrow>
            if \<not> IsNotFound err then State_Monad.return (Inl err)
            else
              bindE (generateSFTPPassword E) (\<lambda>password.
              bindE (fmap (map_err (wrap_error ''hash sftp password: ''))
                       (perform (Bcrypt password) (\<lambda>h. ge_bcrypt E h password))) (\<lambda>passwordHash.
              let secret = sftpSecret server profile password passwordHash
              in case SetControllerReference L (server_meta server) (sec_meta secret) of
                   Inl err \<Rightarrow> State_Monad.return (Inl err)
                 | Inr m \<Rightarrow>
                     (let secret = secret\<lparr>sec_meta := m\<rparr>
                      in fmap (\<lambda>r. map_err (wrap_error (''create sftp secret '' @ server_namespace server @
                                    ''/'' @ SFTPSecretName (server_name server) @ '': ''))
                                  (ignoring IsAlreadyExists r))
                           (perform (CreateSecret secret) (\<lambda>h. ge_createSecret E h secret)))))
      })"


section \<open>The agent\<close>

definition checkAgentHealth :: "gs_env \<Rightarrow> GameServer \<Rightarrow> (string \<times> bool) gs_prog" where
  "checkAgentHealth E server =
     (let addr = agentAddress server
      in do {
        dialled \<leftarrow> perform (Dial addr) (\<lambda>h. ge_dial E h addr);
        case dialled of
          Inl _ \<Rightarrow> State_Monad.return ([], False)
        | Inr _ \<Rightarrow> do {
            health \<leftarrow> perform (HealthCheck addr) (\<lambda>h. ge_health E h addr);
            case health of
              Inl _ \<Rightarrow> State_Monad.return ([], False)
            | Inr ready \<Rightarrow> do {
                info \<leftarrow> perform (AgentInfo addr) (\<lambda>h. ge_info E h addr);
                case info of
                  Inl _ \<Rightarrow> State_Monad.return ([], ready)
                | Inr version \<Rightarrow> State_Monad.return (version, ready)
              }
          }
      })"

definition getPlayerCount :: "gs_env \<Rightarrow> GameServer \<Rightarrow> (kerr + int \<times> int) gs_prog" where
  "getPlayerCount E server =
     (let addr = agentAddress server
      in bindE (perform (Dial addr) (\<lambda>h. ge_dial E h addr)) (\<lambda>_.
         perform (GetPlayers addr) (\<lambda>h. ge_players E h addr)))"

definition callAgentShutdown :: "gs_env \<Rightarrow> GameServer \<Rightarrow> (kerr + unit) gs_prog" where
  "callAgentShutdown E server =
     (let addr = agentAddress server
      in bindE (perform (Dial addr) (\<lambda>h. ge_dial E h addr)) (\<lambda>_.
         perform (PrepareShutdown addr shutdownTimeoutSeconds ''idle timeout'')
           (\<lambda>h. ge_shutdown E h addr)))"


section \<open>Status\<close>

definition statusUpdate :: "gs_env \<Rightarrow> GameServer \<Rightarrow> (kerr + GameServer) gs_prog" where
  "statusUpdate E server =
     perform (UpdateServerStatus server) (\<lambda>h. ge_updateServerStatus E h server)"

text \<open>
  A status write leaves the object in memory as it was on an error and replaces it by the server's
  answer otherwise: the pair of the error and the object the caller goes on with.
\<close>

definition writeStatus :: "gs_env \<Rightarrow> GameServer \<Rightarrow> ((kerr + unit) \<times> GameServer) gs_prog" where
  "writeStatus E server =
     fmap (\<lambda>r. case r of Inl err \<Rightarrow> (Inl err, server) | Inr s \<Rightarrow> (Inr (), s)) (statusUpdate E server)"

definition with_condition :: "Condition \<Rightarrow> GameServerStatus \<Rightarrow> GameServerStatus" where
  "with_condition c st = st\<lparr>gst_Conditions := setCondition (gst_Conditions st) c\<rparr>"

definition profileMissingStatus :: "GameServer \<Rightarrow> kerr \<Rightarrow> GameServer" where
  "profileMissingStatus server err =
     server\<lparr>server_status := with_condition
       \<lparr>c_Type = ''Ready'', c_Status = ConditionFalse, c_Reason = ''ProfileNotFound'',
        c_Message = ''profile not found: '' @ err_msg err,
        c_ObservedGeneration = om_Generation (server_meta server), c_LastTransitionTime = 0\<rparr>
       ((server_status server)\<lparr>gst_State := stateError, gst_AgentVersion := []\<rparr>)\<rparr>"

definition setProfileMissingCondition :: "gs_env \<Rightarrow> GameServer \<Rightarrow> kerr \<Rightarrow> unit gs_prog" where
  "setProfileMissingCondition E server err =
     fmap (\<lambda>_. ()) (statusUpdate E (profileMissingStatus server err))"

definition stoppedStatus :: "GameServer \<Rightarrow> time \<Rightarrow> GameServer" where
  "stoppedStatus server now =
     server\<lparr>server_status := with_condition
       \<lparr>c_Type = ''Ready'', c_Status = ConditionFalse, c_Reason = ''AutoStartDisabled'',
        c_Message = ''server is stopped: spec.lifecycle.autoStart is false'',
        c_ObservedGeneration = om_Generation (server_meta server), c_LastTransitionTime = now\<rparr>
       ((server_status server)\<lparr>gst_State := stateStopped, gst_AgentVersion := [],
          gst_Endpoints := [], gst_Players := 0\<rparr>)\<rparr>"

definition updateStoppedStatus :: "gs_env \<Rightarrow> GameServer \<Rightarrow> ((kerr + unit) \<times> GameServer) gs_prog" where
  "updateStoppedStatus E server =
     do { now \<leftarrow> clock E; writeStatus E (stoppedStatus server now) }"

definition endpointsAt :: "string \<Rightarrow> GameProfile \<Rightarrow> Endpoint list" where
  "endpointsAt address profile =
     (if address = [] then []
      else map (\<lambda>p. \<lparr>ep_Name = ps_Name p, ep_Address = address, ep_Port = ps_ContainerPort p\<rparr>)
             (filter ExposedPort (gp_Ports (profile_spec profile))) @
           (if SFTPEnabled profile
            then [\<lparr>ep_Name = SFTPPortName, ep_Address = address, ep_Port = SFTPPort\<rparr>] else []))"

definition ingressAddress :: "Service \<Rightarrow> string" where
  "ingressAddress svc =
     (case svc_Ingress svc of
        [] \<Rightarrow> []
      | ingress # _ \<Rightarrow> if ing_IP ingress = [] then ing_Hostname ingress else ing_IP ingress)"

definition resolveEndpoints ::
    "gs_env \<Rightarrow> GameServerReconciler \<Rightarrow> GameServer \<Rightarrow> GameProfile \<Rightarrow> (Endpoint list) gs_prog" where
  "resolveEndpoints E R server profile =
     (if gr_ExternalDNSZone R \<noteq> []
      then State_Monad.return
             (endpointsAt (server_name server @ ''.'' @ gr_ExternalDNSZone R) profile)
      else (let key = \<lparr>nn_Namespace = server_namespace server,
                       nn_Name = server_name server @ ''-game''\<rparr>
            in do {
              got \<leftarrow> perform (GetSvc key) (\<lambda>h. ge_getSvc E h key);
              case got of
                Inl _ \<Rightarrow> State_Monad.return []
              | Inr svc \<Rightarrow> State_Monad.return (endpointsAt (ingressAddress svc) profile)
            }))"

definition readyStatus :: "GameServer \<Rightarrow> bool \<Rightarrow> time \<Rightarrow> Endpoint list \<Rightarrow> GameServer" where
  "readyStatus server ready now endpoints =
     server\<lparr>server_status :=
       with_condition
         \<lparr>c_Type = ''AgentReachable'', c_Status = ConditionUnknown, c_Reason = ''NotProbed'',
          c_Message = ''agent reachability not yet implemented'',
          c_ObservedGeneration = om_Generation (server_meta server), c_LastTransitionTime = now\<rparr>
         (with_condition
           \<lparr>c_Type = ''Ready'', c_Status = boolToConditionStatus ready, c_Reason = ''StatefulSetReady'',
            c_Message = [], c_ObservedGeneration = om_Generation (server_meta server),
            c_LastTransitionTime = now\<rparr>
           ((server_status server)
             \<lparr>gst_State := (if ready then stateRunning else stateProvisioning),
              gst_AgentVersion := [], gst_Endpoints := endpoints\<rparr>))\<rparr>"

definition updateStatus ::
    "gs_env \<Rightarrow> GameServerReconciler \<Rightarrow> GameServer \<Rightarrow> GameProfile \<Rightarrow> bool \<Rightarrow>
       ((kerr + unit) \<times> GameServer) gs_prog" where
  "updateStatus E R server profile ready =
     do {
       now \<leftarrow> clock E;
       endpoints \<leftarrow> resolveEndpoints E R server profile;
       writeStatus E (readyStatus server ready now endpoints)
     }"

definition agentStatus :: "GameServer \<Rightarrow> string \<Rightarrow> bool \<Rightarrow> time \<Rightarrow> GameServer" where
  "agentStatus server version healthy now =
     server\<lparr>server_status := with_condition
       \<lparr>c_Type = ''AgentReachable'',
        c_Status = (if healthy then ConditionTrue else ConditionFalse),
        c_Reason = (if healthy then ''AgentHealthy'' else ''AgentUnhealthy''),
        c_Message = (if healthy then ''agent is reachable and healthy'' else ''agent is not healthy''),
        c_ObservedGeneration = om_Generation (server_meta server), c_LastTransitionTime = now\<rparr>
       ((server_status server)\<lparr>gst_AgentVersion := version\<rparr>)\<rparr>"

definition updateAgentStatus ::
    "gs_env \<Rightarrow> GameServer \<Rightarrow> string \<Rightarrow> bool \<Rightarrow> ((kerr + unit) \<times> GameServer) gs_prog" where
  "updateAgentStatus E server version healthy =
     do { now \<leftarrow> clock E; writeStatus E (agentStatus server version healthy now) }"

text \<open>The idle check: the requeue delay or the error, and the server object afterwards.\<close>

definition checkIdleTimeout ::
    "gs_env \<Rightarrow> GameServer \<Rightarrow> StatefulSet \<Rightarrow> ((kerr + duration) \<times> GameServer) gs_prog" where
  "checkIdleTimeout E server sts =
     (if sts_Replicas sts = Some 0 then State_Monad.return (Inr 0, server)
      else do {
        counted \<leftarrow> getPlayerCount E server;
        case counted of
          Inl _ \<Rightarrow> State_Monad.return (Inr 0, server)
        | Inr (players, capacity) \<Rightarrow>
            (let server = server\<lparr>server_status := (server_status server)
                            \<lparr>gst_Players := players, gst_PlayerCapacity := capacity\<rparr>\<rparr>
             in if players > 0 then
                  do {
                    now \<leftarrow> clock E;
                    (r, server) \<leftarrow> writeStatus E (server\<lparr>server_status := (server_status server)
                        \<lparr>gst_LastActivity := Some now, gst_State := stateRunning\<rparr>\<rparr>);
                    State_Monad.return (map_sum id (\<lambda>_. 0) r, server)
                  }
                else
                  (let timeout = lc_IdleTimeoutSeconds (gs_Lifecycle (server_spec server)) * second
                   in case gst_LastActivity (server_status server) of
                        Some lastActivity \<Rightarrow> do {
                          now \<leftarrow> clock E;
                          if now - lastActivity \<ge> timeout then do {
                            callAgentShutdown E server;
                            scaled \<leftarrow> perform (UpdateSts (sts\<lparr>sts_Replicas := Some 0\<rparr>))
                                        (\<lambda>h. ge_updateSts E h (sts\<lparr>sts_Replicas := Some 0\<rparr>));
                            case scaled of
                              Inl err \<Rightarrow> State_Monad.return
                                (Inl (wrap_error ''failed to scale StatefulSet to 0: '' err), server)
                            | Inr _ \<Rightarrow> do {
                                (r, server) \<leftarrow> writeStatus E (server\<lparr>server_status :=
                                    (server_status server)\<lparr>gst_State := stateIdle\<rparr>\<rparr>);
                                State_Monad.return (map_sum id (\<lambda>_. 0) r, server)
                              }
                          }
                          else State_Monad.return (Inr 0, server)
                        }
                      | None \<Rightarrow> do {
                          now \<leftarrow> clock E;
                          (r, server) \<leftarrow> writeStatus E (server\<lparr>server_status :=
                              (server_status server)\<lparr>gst_LastActivity := Some now\<rparr>\<rparr>);
                          State_Monad.return (map_sum id (\<lambda>_. timeout) r, server)
                        }))
      })"


section \<open>Monitoring\<close>

definition get_prometheus :: "PrometheusCache gs_prog" where
  "get_prometheus = State (\<lambda>w. (gw_prometheus w, w))"

definition set_prometheus :: "PrometheusCache \<Rightarrow> unit gs_prog" where
  "set_prometheus c = State (\<lambda>w. ((), w\<lparr>gw_prometheus := c\<rparr>))"

lemma run_prometheus [io_simps]:
  "run_state get_prometheus w = (gw_prometheus w, w)"
  "run_state (set_prometheus c) w = ((), w\<lparr>gw_prometheus := c\<rparr>)"
  by (simp_all add: get_prometheus_def set_prometheus_def)

lemma emits_prometheus [emits_intros]:
  "(\<And>c. Q c) \<Longrightarrow> emits P get_prometheus Q"
  "Q' () \<Longrightarrow> emits P (set_prometheus c) Q'"
  by (simp_all add: emits_def run_prometheus)

definition DetectPrometheusOperator :: "gs_env \<Rightarrow> bool gs_prog" where
  "DetectPrometheusOperator E =
     do {
       cache \<leftarrow> get_prometheus;
       now \<leftarrow> clock E;
       if now - prometheusLastChecked cache < prometheusDetectionCacheDuration
       then State_Monad.return (prometheusDetected cache)
       else do {
         checked \<leftarrow> clock E;
         got \<leftarrow> perform (GetCRD ''servicemonitors.monitoring.coreos.com'')
                  (\<lambda>h. ge_getCRD E h ''servicemonitors.monitoring.coreos.com'');
         let detected = (case got of Inl _ \<Rightarrow> False | Inr _ \<Rightarrow> True);
         set_prometheus \<lparr>prometheusDetected = detected, prometheusLastChecked = checked\<rparr>;
         State_Monad.return detected
       }
     }"

text \<open>
  The mutate function that is passed to \<^verbatim>\<open>controllerutil.CreateOrUpdate\<close>, and that function as
  controller-runtime documents it: read the object, mutate it (its key has to stay the same), create
  it when it was not found, and update it when the mutation changed it. \<open>sameMonitor\<close> is the
  semantic comparison of the two versions, in which the order of labels does not count.
\<close>

definition mutateMonitor ::
    "klib \<Rightarrow> GameServer \<Rightarrow> labels \<Rightarrow> MonitorSpec \<Rightarrow> ServiceMonitor \<Rightarrow> kerr + ServiceMonitor" where
  "mutateMonitor L server labelsMap spec sm =
     (case SetControllerReference L (server_meta server) ((smon_meta sm)\<lparr>om_Labels := labelsMap\<rparr>) of
        Inl err \<Rightarrow> Inl err
      | Inr m \<Rightarrow> Inr (sm\<lparr>smon_meta := m, smon_Spec := spec\<rparr>))"

definition sameMonitor :: "ServiceMonitor \<Rightarrow> ServiceMonitor \<Rightarrow> bool" where
  "sameMonitor a b \<longleftrightarrow>
     set (om_Labels (smon_meta a)) = set (om_Labels (smon_meta b)) \<and>
     (smon_meta a)\<lparr>om_Labels := []\<rparr> = (smon_meta b)\<lparr>om_Labels := []\<rparr> \<and>
     set (ms_Selector (smon_Spec a)) = set (ms_Selector (smon_Spec b)) \<and>
     (smon_Spec a)\<lparr>ms_Selector := []\<rparr> = (smon_Spec b)\<lparr>ms_Selector := []\<rparr>"

definition createOrUpdateMonitor ::
    "gs_env \<Rightarrow> NamespacedName \<Rightarrow> (ServiceMonitor \<Rightarrow> kerr + ServiceMonitor) \<Rightarrow> (kerr + unit) gs_prog" where
  "createOrUpdateMonitor E key f =
     (let blank = \<lparr>smon_meta = new_meta (nn_Name key) (nn_Namespace key),
                   smon_Spec = \<lparr>ms_Selector = [], ms_Endpoints = [], ms_Others = []\<rparr>\<rparr>;
          mutate = (\<lambda>sm. case f sm of
              Inl err \<Rightarrow> Inl err
            | Inr sm' \<Rightarrow> if key_of (smon_meta sm') \<noteq> key
                then Inl (new_error ''mutation function cannot mutate object name and/or object namespace'')
                else Inr sm')
      in do {
        got \<leftarrow> perform (GetMonitor key) (\<lambda>h. ge_getMonitor E h key);
        case got of
          Inl err \<Rightarrow>
            if \<not> IsNotFound err then State_Monad.return (Inl err)
            else (case mutate blank of
                Inl err' \<Rightarrow> State_Monad.return (Inl err')
              | Inr sm \<Rightarrow> perform (CreateMonitor sm) (\<lambda>h. ge_createMonitor E h sm))
        | Inr existing \<Rightarrow>
            (case mutate existing of
                Inl err' \<Rightarrow> State_Monad.return (Inl err')
              | Inr sm \<Rightarrow> if sameMonitor existing sm then State_Monad.return (Inr ())
                  else perform (UpdateMonitor sm) (\<lambda>h. ge_updateMonitor E h sm))
      })"

definition reconcileServiceMonitor ::
    "klib \<Rightarrow> gs_env \<Rightarrow> GameServerReconciler \<Rightarrow> GameServer \<Rightarrow> GameProfile \<Rightarrow> labels \<Rightarrow>
       (kerr + unit) gs_prog" where
  "reconcileServiceMonitor L E R server profile labelsMap =
     (let key = key_of (server_meta server)
      in if \<not> serviceMonitorEnabled profile then
           fmap (ignoring (\<lambda>err. IsNotFound err \<or> IsNoMatchError err))
             (perform (DeleteObj ''ServiceMonitor'' key) (\<lambda>h. ge_delete E h ''ServiceMonitor'' key))
         else do {
           detected \<leftarrow> DetectPrometheusOperator E;
           if \<not> detected then do {
             recordEvent R ''Warning'' ''PrometheusOperatorNotDetected''
               (''GameProfile '' @ profile_name profile @ '' enables serviceMonitor but the Prometheus Operator is not installed; skipping ServiceMonitor creation'');
             State_Monad.return (Inr ())
           }
           else
             (case agentMetricsSpec profile of
                None \<Rightarrow> State_Monad.return (Inr ())
              | Some spec \<Rightarrow>
                  if am_Port spec \<le> 0 then State_Monad.return (Inr ())
                  else (case buildServiceMonitorSpec profile labelsMap of
                      None \<Rightarrow> State_Monad.return (Inr ())
                    | Some mon \<Rightarrow>
                        createOrUpdateMonitor E key (mutateMonitor L server labelsMap mon)))
         })"


section \<open>Deletion\<close>

definition cleanupTargets :: "GameServer \<Rightarrow> (string \<times> NamespacedName) list" where
  "cleanupTargets server =
     (let key = (\<lambda>n. \<lparr>nn_Namespace = server_namespace server, nn_Name = n\<rparr>)
      in [(''StatefulSet'', key (server_name server)),
          (''Service'', key (server_name server)),
          (''Service'', key (server_name server @ ''-agent'')),
          (''Service'', key (server_name server @ ''-game'')),
          (''PersistentVolumeClaim'', key (server_name server)),
          (''Secret'', key (SFTPSecretName (server_name server)))])"

definition deleteIgnoringNotFound :: "gs_env \<Rightarrow> string \<times> NamespacedName \<Rightarrow> (kerr + unit) gs_prog" where
  "deleteIgnoringNotFound E target =
     fmap (ignoring IsNotFound)
       (perform (DeleteObj (fst target) (snd target)) (\<lambda>h. ge_delete E h (fst target) (snd target)))"

definition cleanupResources :: "gs_env \<Rightarrow> GameServer \<Rightarrow> (kerr + unit) gs_prog" where
  "cleanupResources E server =
     bindE (forE (deleteIgnoringNotFound E) (cleanupTargets server)) (\<lambda>_. do {
       modify_metrics (deleteGameServerMetrics (server_namespace server) (server_name server));
       State_Monad.return (Inr ())
     })"

definition with_finalizers :: "(string list \<Rightarrow> string list) \<Rightarrow> GameServer \<Rightarrow> GameServer" where
  "with_finalizers f server =
     server\<lparr>server_meta := (server_meta server)\<lparr>om_Finalizers := f (om_Finalizers (server_meta server))\<rparr>\<rparr>"

definition updateServer :: "gs_env \<Rightarrow> GameServer \<Rightarrow> (kerr + GameServer) gs_prog" where
  "updateServer E server = perform (UpdateServer server) (\<lambda>h. ge_updateServer E h server)"

definition reconcileDeleted :: "klib \<Rightarrow> gs_env \<Rightarrow> GameServer \<Rightarrow> (kerr + duration) gs_prog" where
  "reconcileDeleted L E server =
     (if ContainsFinalizer L (om_Finalizers (server_meta server)) gameServerFinalizer then
        bindE (cleanupResources E server) (\<lambda>_.
        bindE (updateServer E (with_finalizers (\<lambda>fs. RemoveFinalizer L fs gameServerFinalizer) server))
          (\<lambda>_. State_Monad.return (Inr 0)))
      else State_Monad.return (Inr 0))"


section \<open>Reconcile\<close>

text \<open>Step 3: one child object is owned by the server and then applied.\<close>

definition applySts ::
    "klib \<Rightarrow> gs_env \<Rightarrow> GameServer \<Rightarrow> StatefulSet \<Rightarrow> (kerr + unit) gs_prog" where
  "applySts L E server sts =
     (case SetControllerReference L (server_meta server) (sts_meta sts) of
        Inl err \<Rightarrow> State_Monad.return (Inl err)
      | Inr m \<Rightarrow> perform (PatchSts (sts\<lparr>sts_meta := m\<rparr>)) (\<lambda>h. ge_patchSts E h (sts\<lparr>sts_meta := m\<rparr>)))"

definition applySvc :: "klib \<Rightarrow> gs_env \<Rightarrow> GameServer \<Rightarrow> Service \<Rightarrow> (kerr + unit) gs_prog" where
  "applySvc L E server svc =
     (case SetControllerReference L (server_meta server) (svc_meta svc) of
        Inl err \<Rightarrow> State_Monad.return (Inl err)
      | Inr m \<Rightarrow> perform (PatchSvc (svc\<lparr>svc_meta := m\<rparr>)) (\<lambda>h. ge_patchSvc E h (svc\<lparr>svc_meta := m\<rparr>)))"

definition applyPVC ::
    "klib \<Rightarrow> gs_env \<Rightarrow> GameServer \<Rightarrow> PersistentVolumeClaim \<Rightarrow> (kerr + unit) gs_prog" where
  "applyPVC L E server pvc =
     (case SetControllerReference L (server_meta server) (pvc_meta pvc) of
        Inl err \<Rightarrow> State_Monad.return (Inl err)
      | Inr m \<Rightarrow> perform (PatchPVC (pvc\<lparr>pvc_meta := m\<rparr>)) (\<lambda>h. ge_patchPVC E h (pvc\<lparr>pvc_meta := m\<rparr>)))"

definition desiredSts :: "GameServer \<Rightarrow> PodSpec \<Rightarrow> labels \<Rightarrow> bool \<Rightarrow> StatefulSet" where
  "desiredSts server podSpec labelsMap stopping =
     (let sts = buildStatefulSet server podSpec labelsMap
      in if stopping then sts\<lparr>sts_Replicas := Some 0\<rparr> else sts)"

definition applyChildren ::
    "klib \<Rightarrow> gs_env \<Rightarrow> GameServerReconciler \<Rightarrow> GameServer \<Rightarrow> GameProfile \<Rightarrow> PodSpec \<Rightarrow> bool \<Rightarrow>
       (kerr + unit) gs_prog" where
  "applyChildren L E R server profile podSpec stopping =
     (let labelsMap = buildGameServerLabels server profile
      in bindE (applySts L E server (desiredSts server podSpec labelsMap stopping)) (\<lambda>_.
         bindE (applySvc L E server (buildHeadlessService server labelsMap)) (\<lambda>_.
         bindE (applySvc L E server (addAgentMetricsPort (buildAgentService server labelsMap) profile)) (\<lambda>_.
         bindE (applySvc L E server (buildGameService server profile labelsMap (gr_ExternalDNSZone R))) (\<lambda>_.
         bindE (applyPVC L E server (buildPVC L server profile)) (\<lambda>_.
         reconcileServiceMonitor L E R server profile labelsMap))))))"

text \<open>The lifecycle gate: drain a running server before it is scaled to zero.\<close>

definition drainForStop :: "gs_env \<Rightarrow> GameServerReconciler \<Rightarrow> GameServer \<Rightarrow> (kerr + unit) gs_prog" where
  "drainForStop E R server =
     do {
       got \<leftarrow> perform (GetSts (key_of (server_meta server)))
                (\<lambda>h. ge_getSts E h (key_of (server_meta server)));
       case got of
         Inl err \<Rightarrow> if IsNotFound err then State_Monad.return (Inr ()) else State_Monad.return (Inl err)
       | Inr currentSts \<Rightarrow>
           if (case sts_Replicas currentSts of None \<Rightarrow> False | Some n \<Rightarrow> n > 0) \<and> stsReady currentSts
           then do {
             callAgentShutdown E server;
             recordEvent R ''Normal'' ''AutoStartDisabled''
               ''stopping server: spec.lifecycle.autoStart is false'';
             State_Monad.return (Inr ())
           }
           else State_Monad.return (Inr ())
     }"

text \<open>Step 6: agent health and idle timeout of a ready server.\<close>

definition superviseReady ::
    "gs_env \<Rightarrow> GameServer \<Rightarrow> StatefulSet \<Rightarrow> (kerr + duration) gs_prog" where
  "superviseReady E server currentSts =
     do {
       (agentVersion, agentHealthy) \<leftarrow> checkAgentHealth E server;
       (_, server) \<leftarrow> updateAgentStatus E server agentVersion agentHealthy;
       if lc_IdleTimeoutSeconds (gs_Lifecycle (server_spec server)) > 0 then do {
         (r, server) \<leftarrow> checkIdleTimeout E server currentSts;
         modify_metrics (recordGameServerMetrics server);
         (case r of
            Inr requeueAfter \<Rightarrow>
              if requeueAfter > 0 then State_Monad.return (Inr requeueAfter)
              else State_Monad.return (Inr agentHealthCheckPeriod)
          | Inl _ \<Rightarrow> State_Monad.return (Inr agentHealthCheckPeriod))
       }
       else State_Monad.return (Inr agentHealthCheckPeriod)
     }"

text \<open>Steps 4 and 5: read the StatefulSet back and write the status.\<close>

definition reportStatus ::
    "gs_env \<Rightarrow> GameServerReconciler \<Rightarrow> GameServer \<Rightarrow> GameProfile \<Rightarrow> bool \<Rightarrow> (kerr + duration) gs_prog" where
  "reportStatus E R server profile stopping =
     bindE (perform (GetSts (key_of (server_meta server)))
              (\<lambda>h. ge_getSts E h (key_of (server_meta server)))) (\<lambda>currentSts.
       if stopping then do {
         (r, server) \<leftarrow> updateStoppedStatus E server;
         (case r of
            Inl err \<Rightarrow> State_Monad.return (Inl err)
          | Inr _ \<Rightarrow> do { modify_metrics (recordGameServerMetrics server); State_Monad.return (Inr 0) })
       }
       else do {
         (r, server) \<leftarrow> updateStatus E R server profile (stsReady currentSts);
         (case r of
            Inl err \<Rightarrow> State_Monad.return (Inl err)
          | Inr _ \<Rightarrow> do {
              modify_metrics (recordGameServerMetrics server);
              if stsReady currentSts then superviseReady E server currentSts
              else State_Monad.return (Inr 0)
            })
       })"

text \<open>From the SFTP credentials on, once the pod specification is known.\<close>

definition provision ::
    "klib \<Rightarrow> gs_env \<Rightarrow> GameServerReconciler \<Rightarrow> GameServer \<Rightarrow> GameProfile \<Rightarrow> PodSpec \<Rightarrow>
       (kerr + duration) gs_prog" where
  "provision L E R server profile podSpec =
     bindE (if SFTPEnabled profile
            then fmap (map_err (wrap_error ''ensure sftp secret: ''))
                   (ensureSFTPSecret L E server profile)
            else State_Monad.return (Inr ())) (\<lambda>_.
     bindE (if \<not> AutoStartEnabled (gs_Lifecycle (server_spec server))
            then drainForStop E R server else State_Monad.return (Inr ())) (\<lambda>_.
     bindE (applyChildren L E R server profile podSpec
              (\<not> AutoStartEnabled (gs_Lifecycle (server_spec server)))) (\<lambda>_.
     reportStatus E R server profile (\<not> AutoStartEnabled (gs_Lifecycle (server_spec server))))))"

definition reconcileActive ::
    "klib \<Rightarrow> gs_env \<Rightarrow> GameServerReconciler \<Rightarrow> GameServer \<Rightarrow> (kerr + duration) gs_prog" where
  "reconcileActive L E R server =
     do {
       got \<leftarrow> perform (GetProfile (gs_Profile (server_spec server)))
                (\<lambda>h. ge_getProfile E h (gs_Profile (server_spec server)));
       case got of
         Inl err \<Rightarrow>
           if IsNotFound err
           then do { setProfileMissingCondition E server err; State_Monad.return (Inr 0) }
           else State_Monad.return (Inl err)
       | Inr profile \<Rightarrow>
           bindE (fmap (map_err (wrap_error ''ensure image pull secrets: ''))
                    (ensureImagePullSecrets E R (server_namespace server))) (\<lambda>_.
           case BuildGameServerPodSpecWithPullSecrets profile server (gr_ImagePullSecrets R) of
             Inl err \<Rightarrow> do { setProfileMissingCondition E server err; State_Monad.return (Inl err) }
           | Inr podSpec \<Rightarrow> provision L E R server profile podSpec)
     }"

definition reconcileLive ::
    "klib \<Rightarrow> gs_env \<Rightarrow> GameServerReconciler \<Rightarrow> GameServer \<Rightarrow> (kerr + duration) gs_prog" where
  "reconcileLive L E R server =
     (if \<not> ContainsFinalizer L (om_Finalizers (server_meta server)) gameServerFinalizer then
        bindE (updateServer E (with_finalizers (\<lambda>fs. AddFinalizer L fs gameServerFinalizer) server))
          (\<lambda>_. State_Monad.return (Inr 0))
      else reconcileActive L E R server)"

definition Reconcile ::
    "klib \<Rightarrow> gs_env \<Rightarrow> GameServerReconciler \<Rightarrow> NamespacedName \<Rightarrow> (kerr + duration) gs_prog" where
  "Reconcile L E R req =
     do {
       got \<leftarrow> perform (GetServer req) (\<lambda>h. ge_getServer E h req);
       case got of
         Inl err \<Rightarrow> if IsNotFound err then State_Monad.return (Inr 0) else State_Monad.return (Inl err)
       | Inr server \<Rightarrow>
           if om_DeletionTimestamp (server_meta server) = None then reconcileLive L E R server
           else reconcileDeleted L E server
     }"

end
