(* ===== verification/GameServer_Proofs.thy ===== *)
theory GameServer_Proofs
  imports GameServer_Controller
begin

text \<open>
  Lemmas about the GameServer reconciler: which calls each part of it may issue, for every
  environment, and what must have happened before the finalizer is removed or a server is scaled to
  zero.
\<close>

section \<open>What the API server is relied on for\<close>

text \<open>
  The objects the API server returns are the ones asked for: a read returns the object with the
  requested key, a status update the object that was sent.
\<close>

definition keyed_answers :: "gs_env \<Rightarrow> bool" where
  "keyed_answers E \<longleftrightarrow>
     (\<forall>h k s. ge_getServer E h k = Inr s \<longrightarrow> key_of (server_meta s) = k) \<and>
     (\<forall>h s s'. ge_updateServerStatus E h s = Inr s' \<longrightarrow>
        key_of (server_meta s') = key_of (server_meta s)) \<and>
     (\<forall>h k s. ge_getSecret E h k = Inr s \<longrightarrow> key_of (sec_meta s) = k) \<and>
     (\<forall>h k s. ge_getSts E h k = Inr s \<longrightarrow> key_of (sts_meta s) = k)"

text \<open>The namespace of the object a call writes; \<open>None\<close> for a call that writes nothing.\<close>

fun written_namespace :: "gs_call \<Rightarrow> string option" where
  "written_namespace (UpdateServer s) = Some (server_namespace s)"
| "written_namespace (UpdateServerStatus s) = Some (server_namespace s)"
| "written_namespace (CreateSecret s) = Some (om_Namespace (sec_meta s))"
| "written_namespace (UpdateSecret s) = Some (om_Namespace (sec_meta s))"
| "written_namespace (PatchSts s) = Some (om_Namespace (sts_meta s))"
| "written_namespace (UpdateSts s) = Some (om_Namespace (sts_meta s))"
| "written_namespace (PatchSvc s) = Some (om_Namespace (svc_meta s))"
| "written_namespace (PatchPVC p) = Some (om_Namespace (pvc_meta p))"
| "written_namespace (DeleteObj kind k) = Some (nn_Namespace k)"
| "written_namespace (CreateMonitor m) = Some (om_Namespace (smon_meta m))"
| "written_namespace (UpdateMonitor m) = Some (om_Namespace (smon_meta m))"
| "written_namespace c = None"

text \<open>
  What one reconcile of \<open>server\<close> may do: write in the server's namespace only, apply the
  StatefulSet with one replica or, for a stopped server, none, scale it to zero and probe the
  agent only when the server is meant to run.
\<close>

definition permitted :: "GameServer \<Rightarrow> gs_call \<Rightarrow> bool" where
  "permitted server c \<longleftrightarrow>
     (case written_namespace c of None \<Rightarrow> True | Some ns \<Rightarrow> ns = server_namespace server) \<and>
     (case c of
        PatchSts x \<Rightarrow> sts_Replicas x =
          Some (if AutoStartEnabled (gs_Lifecycle (server_spec server)) then 1 else 0)
      | UpdateSts x \<Rightarrow> sts_Replicas x = Some 0 \<and> AutoStartEnabled (gs_Lifecycle (server_spec server))
      | HealthCheck _ \<Rightarrow> AutoStartEnabled (gs_Lifecycle (server_spec server))
      | GetPlayers _ \<Rightarrow> AutoStartEnabled (gs_Lifecycle (server_spec server))
      | _ \<Rightarrow> True)"

lemma permitted_simps [simp]:
  "permitted S Now" "permitted S (GetServer k)" "permitted S (GetProfile n)" "permitted S (GetSecret k)"
  "permitted S (GetSts k)" "permitted S (GetSvc k)" "permitted S (GetCRD n)" "permitted S (Dial a)"
  "permitted S (GetMonitor k)"
  "permitted S (AgentInfo a)" "permitted S (PrepareShutdown a t r)" "permitted S (RandInt i)"
  "permitted S (Bcrypt pw)" "permitted S (RecordEvent a b c)"
  "permitted S (UpdateServer s) \<longleftrightarrow> server_namespace s = server_namespace S"
  "permitted S (UpdateServerStatus s) \<longleftrightarrow> server_namespace s = server_namespace S"
  "permitted S (CreateSecret x) \<longleftrightarrow> om_Namespace (sec_meta x) = server_namespace S"
  "permitted S (UpdateSecret x) \<longleftrightarrow> om_Namespace (sec_meta x) = server_namespace S"
  "permitted S (PatchSvc v) \<longleftrightarrow> om_Namespace (svc_meta v) = server_namespace S"
  "permitted S (PatchPVC p) \<longleftrightarrow> om_Namespace (pvc_meta p) = server_namespace S"
  "permitted S (DeleteObj kind k) \<longleftrightarrow> nn_Namespace k = server_namespace S"
  "permitted S (CreateMonitor m) \<longleftrightarrow> om_Namespace (smon_meta m) = server_namespace S"
  "permitted S (UpdateMonitor m) \<longleftrightarrow> om_Namespace (smon_meta m) = server_namespace S"
  "permitted S (HealthCheck a) \<longleftrightarrow> AutoStartEnabled (gs_Lifecycle (server_spec S))"
  "permitted S (GetPlayers a) \<longleftrightarrow> AutoStartEnabled (gs_Lifecycle (server_spec S))"
  by (auto simp: permitted_def)


section \<open>Calls of the parts\<close>

lemma emits_clock [emits_intros]: "P Now \<Longrightarrow> (\<And>t. Q t) \<Longrightarrow> emits P (clock E) Q"
  unfolding clock_def by (auto intro: emits_intros)

lemma emits_recordEvent [emits_intros]:
  "(\<And>a b c. P (RecordEvent a b c)) \<Longrightarrow> Q () \<Longrightarrow> emits P (recordEvent R x y z) Q"
  unfolding recordEvent_def by (auto intro!: emits_intros)

lemma emits_writeStatus:
  assumes "keyed_answers E" "permitted S (UpdateServerStatus s)"
  shows "emits (permitted S) (writeStatus E s) (\<lambda>(r, s'). key_of (server_meta s') = key_of (server_meta s))"
  unfolding writeStatus_def statusUpdate_def
  by (intro emits_intros) (use assms in \<open>auto simp: keyed_answers_def split: sum.splits\<close>)

lemma key_of_eq_iff: "key_of a = key_of b \<longleftrightarrow> om_Namespace a = om_Namespace b \<and> om_Name a = om_Name b"
  by (auto simp: key_of_def)

lemma emits_pull_secret:
  assumes "keyed_answers E"
  shows "emits (permitted S) (ensureImagePullSecret E R (server_namespace S) n) (\<lambda>_. True)"
proof -
  have "om_Namespace (sec_meta dst) = server_namespace S"
    if "ge_getSecret E h \<lparr>nn_Namespace = server_namespace S, nn_Name = n\<rparr> = Inr dst" for h dst
    using assms that by (fastforce simp: keyed_answers_def key_of_def)
  then show ?thesis
    unfolding ensureImagePullSecret_def Let_def
    by (intro emits_steps emits_intros) (auto simp: new_meta_def)
qed

lemma emits_pull_secrets:
  assumes "keyed_answers E"
  shows "emits (permitted S) (ensureImagePullSecrets E R (server_namespace S)) (\<lambda>_. True)"
  unfolding ensureImagePullSecrets_def
  by (intro emits_intros emits_forE emits_pull_secret assms) simp

lemma emits_randomPassword: "emits (permitted S) (randomPassword E k) (\<lambda>_. True)"
  by (induction k) (auto intro!: emits_seqE emits_intros)

lemma SetControllerReference_key:
  "SetControllerReference L o' m = Inr m' \<Longrightarrow> key_of m' = key_of m"
  by (auto simp: SetControllerReference_def key_of_def split: sum.splits)

lemma SetControllerReference_namespace:
  "SetControllerReference L o' m = Inr m' \<Longrightarrow> om_Namespace m' = om_Namespace m"
  by (auto simp: SetControllerReference_def split: sum.splits)

lemma emits_sftp_secret: "emits (permitted S) (ensureSFTPSecret L E S profile) (\<lambda>_. True)"
  unfolding ensureSFTPSecret_def generateSFTPPassword_def Let_def
  by (intro emits_steps emits_intros emits_randomPassword)
    (auto dest!: SetControllerReference_namespace simp: sftpSecret_def new_meta_def)

lemma emits_checkAgentHealth:
  "AutoStartEnabled (gs_Lifecycle (server_spec S)) \<Longrightarrow>
     emits (permitted S) (checkAgentHealth E s) (\<lambda>_. True)"
  unfolding checkAgentHealth_def Let_def
  by (intro emits_steps emits_intros) auto

lemma emits_callAgentShutdown: "emits (permitted S) (callAgentShutdown E s) (\<lambda>_. True)"
  unfolding callAgentShutdown_def Let_def
  by (intro emits_steps emits_intros) auto

lemma emits_getPlayerCount:
  "AutoStartEnabled (gs_Lifecycle (server_spec S)) \<Longrightarrow>
     emits (permitted S) (getPlayerCount E s) (\<lambda>_. True)"
  unfolding getPlayerCount_def Let_def
  by (intro emits_steps emits_intros) auto

lemma emits_missing:
  "server_namespace s = server_namespace S \<Longrightarrow>
     emits (permitted S) (setProfileMissingCondition E s err) (\<lambda>_. True)"
  unfolding setProfileMissingCondition_def statusUpdate_def
  by (intro emits_intros) (simp_all add: profileMissingStatus_def)

lemma emits_resolveEndpoints: "emits (permitted S) (resolveEndpoints E R s profile) (\<lambda>_. True)"
  unfolding resolveEndpoints_def Let_def
  by (intro emits_steps emits_intros) auto

text \<open>The three status writers return a server with the key of the one they were given.\<close>

lemma emits_updateStatus:
  assumes "keyed_answers E" "key_of (server_meta s) = key_of (server_meta S)"
  shows "emits (permitted S) (updateStatus E R s profile ready)
    (\<lambda>(r, s'). key_of (server_meta s') = key_of (server_meta S))"
  unfolding updateStatus_def
proof (intro emits_seq emits_intros emits_resolveEndpoints)
  fix now endpoints
  show "emits (permitted S) (writeStatus E (readyStatus s ready now endpoints))
      (\<lambda>(r, s'). key_of (server_meta s') = key_of (server_meta S))"
    using emits_writeStatus [OF assms(1), of S "readyStatus s ready now endpoints"] assms(2)
    by (simp add: readyStatus_def key_of_eq_iff)
qed auto

lemma emits_updateStoppedStatus:
  assumes "keyed_answers E" "key_of (server_meta s) = key_of (server_meta S)"
  shows "emits (permitted S) (updateStoppedStatus E s)
    (\<lambda>(r, s'). key_of (server_meta s') = key_of (server_meta S))"
  unfolding updateStoppedStatus_def
proof (intro emits_seq emits_intros)
  fix now
  show "emits (permitted S) (writeStatus E (stoppedStatus s now))
      (\<lambda>(r, s'). key_of (server_meta s') = key_of (server_meta S))"
    using emits_writeStatus [OF assms(1), of S "stoppedStatus s now"] assms(2)
    by (simp add: stoppedStatus_def key_of_eq_iff)
qed auto

lemma emits_updateAgentStatus:
  assumes "keyed_answers E" "key_of (server_meta s) = key_of (server_meta S)"
  shows "emits (permitted S) (updateAgentStatus E s v b)
    (\<lambda>(r, s'). key_of (server_meta s') = key_of (server_meta S))"
  unfolding updateAgentStatus_def
proof (intro emits_seq emits_intros)
  fix now
  show "emits (permitted S) (writeStatus E (agentStatus s v b now))
      (\<lambda>(r, s'). key_of (server_meta s') = key_of (server_meta S))"
    using emits_writeStatus [OF assms(1), of S "agentStatus s v b now"] assms(2)
    by (simp add: agentStatus_def key_of_eq_iff)
qed auto

lemma emits_checkIdleTimeout:
  assumes "keyed_answers E" "key_of (server_meta s) = key_of (server_meta S)"
    and "key_of (sts_meta sts) = key_of (server_meta S)"
    and "AutoStartEnabled (gs_Lifecycle (server_spec S))"
  shows "emits (permitted S) (checkIdleTimeout E s sts) (\<lambda>_. True)"
  unfolding checkIdleTimeout_def Let_def
  by (intro emits_steps emits_intros emits_getPlayerCount emits_callAgentShutdown
      emits_any [OF emits_writeStatus])
    (use assms in \<open>auto simp: key_of_eq_iff permitted_def\<close>)

lemma emits_superviseReady:
  assumes "keyed_answers E" "key_of (server_meta s) = key_of (server_meta S)"
    and "key_of (sts_meta sts) = key_of (server_meta S)"
    and "AutoStartEnabled (gs_Lifecycle (server_spec S))"
  shows "emits (permitted S) (superviseReady E s sts) (\<lambda>_. True)"
  unfolding superviseReady_def
proof (rule emits_seq [OF emits_checkAgentHealth [OF assms(4)]], intro emits_case_prod)
  fix av version healthy
  show "emits (permitted S)
      (updateAgentStatus E s version healthy \<bind>
        (\<lambda>(_, s). if lc_IdleTimeoutSeconds (gs_Lifecycle (server_spec s)) > 0 then do {
             (r, s) \<leftarrow> checkIdleTimeout E s sts;
             modify_metrics (recordGameServerMetrics s);
             (case r of
                Inr requeueAfter \<Rightarrow>
                  if requeueAfter > 0 then State_Monad.return (Inr requeueAfter)
                  else State_Monad.return (Inr agentHealthCheckPeriod)
              | Inl _ \<Rightarrow> State_Monad.return (Inr agentHealthCheckPeriod))
           }
           else State_Monad.return (Inr agentHealthCheckPeriod))) (\<lambda>_. True)"
    by (rule emits_bind [OF emits_updateAgentStatus [OF assms(1,2)]])
      (auto intro!: emits_seq emits_intros emits_checkIdleTimeout assms)
qed

lemma emits_reportStatus:
  assumes "keyed_answers E"
  shows "emits (permitted S)
    (reportStatus E R S profile (\<not> AutoStartEnabled (gs_Lifecycle (server_spec S)))) (\<lambda>_. True)"
  unfolding reportStatus_def
proof (intro emits_bindE_perform emits_if)
  fix h sts
  assume got: "ge_getSts E h (key_of (server_meta S)) = Inr sts"
    and "\<not> \<not> AutoStartEnabled (gs_Lifecycle (server_spec S))"
  with assms have "key_of (sts_meta sts) = key_of (server_meta S)"
    and "AutoStartEnabled (gs_Lifecycle (server_spec S))"
    by (auto simp: keyed_answers_def)
  then show "emits (permitted S)
      (updateStatus E R S profile (stsReady sts) \<bind>
        (\<lambda>(r, s). case r of
           Inl err \<Rightarrow> State_Monad.return (Inl err)
         | Inr _ \<Rightarrow> do {
             modify_metrics (recordGameServerMetrics s);
             if stsReady sts then superviseReady E s sts else State_Monad.return (Inr 0)
           })) (\<lambda>_. True)"
    by (intro emits_bind [OF emits_updateStatus [OF assms refl]])
      (auto intro!: emits_seq emits_intros emits_superviseReady assms split: sum.splits)
next
  show "emits (permitted S)
      (updateStoppedStatus E S \<bind>
        (\<lambda>(r, s). case r of
           Inl err \<Rightarrow> State_Monad.return (Inl err)
         | Inr _ \<Rightarrow> do { modify_metrics (recordGameServerMetrics s); State_Monad.return (Inr 0) }))
      (\<lambda>_. True)"
    by (rule emits_bind [OF emits_updateStoppedStatus [OF assms refl]])
      (auto intro!: emits_seq emits_intros split: sum.splits)
qed auto

lemma emits_applySts:
  assumes "om_Namespace (sts_meta sts) = server_namespace S"
    and "sts_Replicas sts = Some (if AutoStartEnabled (gs_Lifecycle (server_spec S)) then 1 else 0)"
  shows "emits (permitted S) (applySts L E S sts) (\<lambda>_. True)"
  unfolding applySts_def
  by (intro emits_intros) (use assms in \<open>auto simp: permitted_def dest!: SetControllerReference_namespace\<close>)

lemma emits_applySvc:
  "om_Namespace (svc_meta svc) = server_namespace S \<Longrightarrow>
     emits (permitted S) (applySvc L E S svc) (\<lambda>_. True)"
  unfolding applySvc_def
  by (intro emits_intros) (auto dest!: SetControllerReference_namespace)

lemma emits_applyPVC:
  "om_Namespace (pvc_meta pvc) = server_namespace S \<Longrightarrow>
     emits (permitted S) (applyPVC L E S pvc) (\<lambda>_. True)"
  unfolding applyPVC_def
  by (intro emits_intros) (auto dest!: SetControllerReference_namespace)

lemma emits_DetectPrometheusOperator: "emits (permitted S) (DetectPrometheusOperator E) (\<lambda>_. True)"
  unfolding DetectPrometheusOperator_def Let_def
  by (intro emits_steps emits_intros) auto

lemma emits_createOrUpdateMonitor:
  assumes "nn_Namespace key = server_namespace S"
  shows "emits (permitted S) (createOrUpdateMonitor E key f) (\<lambda>_. True)"
  unfolding createOrUpdateMonitor_def Let_def
  by (intro emits_steps emits_intros)
    (use assms in \<open>auto simp: key_of_def split: sum.splits if_splits\<close>)

lemma emits_reconcileServiceMonitor:
  "emits (permitted S) (reconcileServiceMonitor L E R S profile ls) (\<lambda>_. True)"
  unfolding reconcileServiceMonitor_def Let_def
  by (intro emits_steps emits_intros emits_DetectPrometheusOperator emits_createOrUpdateMonitor)
    (auto simp: key_of_def)

lemma desiredSts_replicas:
  "sts_Replicas (desiredSts S pod ls stopping) = Some (if stopping then 0 else 1)"
  by (simp add: desiredSts_def buildStatefulSet_def Let_def)

lemma child_namespaces:
  "om_Namespace (sts_meta (desiredSts S pod ls stopping)) = server_namespace S"
  "om_Namespace (svc_meta (buildHeadlessService S ls)) = server_namespace S"
  "om_Namespace (svc_meta (addAgentMetricsPort (buildAgentService S ls) profile)) = server_namespace S"
  "om_Namespace (svc_meta (buildGameService S profile ls zone)) = server_namespace S"
  "om_Namespace (pvc_meta (buildPVC L S profile)) = server_namespace S"
  by (auto simp: desiredSts_def buildStatefulSet_def buildHeadlessService_def buildAgentService_def
      buildGameService_def buildPVC_def addAgentMetricsPort_def new_meta_def Let_def
      split: option.splits)

lemma emits_applyChildren:
  "emits (permitted S)
     (applyChildren L E R S profile pod (\<not> AutoStartEnabled (gs_Lifecycle (server_spec S)))) (\<lambda>_. True)"
  unfolding applyChildren_def Let_def
  by (intro emits_seqE emits_applySts emits_applySvc emits_applyPVC emits_reconcileServiceMonitor)
    (simp_all add: child_namespaces desiredSts_replicas)

lemma emits_drainForStop: "emits (permitted S) (drainForStop E R S) (\<lambda>_. True)"
  unfolding drainForStop_def
  by (intro emits_steps emits_intros emits_callAgentShutdown) auto

lemma emits_provision:
  assumes "keyed_answers E"
  shows "emits (permitted S) (provision L E R S profile pod) (\<lambda>_. True)"
  unfolding provision_def
  by (intro emits_seqE emits_intros emits_sftp_secret emits_drainForStop emits_applyChildren
      emits_reportStatus assms) auto

lemma emits_reconcileActive:
  assumes "keyed_answers E"
  shows "emits (permitted S) (reconcileActive L E R S) (\<lambda>_. True)"
  unfolding reconcileActive_def
  by (intro emits_steps emits_intros emits_missing emits_pull_secrets emits_provision assms) auto

lemma cleanupTargets_namespace:
  "t \<in> set (cleanupTargets S) \<Longrightarrow> nn_Namespace (snd t) = server_namespace S"
  by (auto simp: cleanupTargets_def Let_def)

lemma emits_reconcileDeleted: "emits (permitted S) (reconcileDeleted L E S) (\<lambda>_. True)"
  unfolding reconcileDeleted_def cleanupResources_def updateServer_def deleteIgnoringNotFound_def
  by (intro emits_steps emits_intros emits_forE)
    (auto simp: cleanupTargets_namespace with_finalizers_def)

lemma emits_reconcileLive:
  assumes "keyed_answers E"
  shows "emits (permitted S) (reconcileLive L E R S) (\<lambda>_. True)"
  unfolding reconcileLive_def updateServer_def
  by (intro emits_bindE_perform emits_intros emits_reconcileActive assms)
    (auto simp: with_finalizers_def)

lemma Reconcile_permitted:
  assumes "keyed_answers E" "ge_getServer E (calls w) req = Inr server"
    and "c \<in> set (issued (Reconcile L E R req) w)"
  shows "permitted server c"
proof -
  let ?m = "if om_DeletionTimestamp (server_meta server) = None
        then reconcileLive L E R server else reconcileDeleted L E server"
  have m: "emits (permitted server) ?m (\<lambda>_. True)"
    by (intro emits_if emits_reconcileLive emits_reconcileDeleted assms(1))
  have "issued (Reconcile L E R req) w =
      GetServer req # issued ?m (w\<lparr>calls := calls w @ [GetServer req]\<rparr>)"
    unfolding Reconcile_def
    by (subst issued_bind_perform [where P = "permitted server" and Q = "\<lambda>_. True"])
      (use m assms(2) in simp_all)
  with assms(3) show ?thesis
    by (auto dest: emitsD_issued [OF m])
qed

lemma Reconcile_missing:
  assumes "ge_getServer E (calls w) req = Inl err"
  shows "issued (Reconcile L E R req) w = [GetServer req]"
  by (simp add: Reconcile_def issued_def final_def run_perform assms)


section \<open>Deletion\<close>

definition delete_call :: "string \<times> NamespacedName \<Rightarrow> gs_call" where
  "delete_call t = DeleteObj (fst t) (snd t)"

text \<open>A delete that succeeded, or found nothing to delete.\<close>

definition delete_done :: "gs_env \<Rightarrow> gs_call list \<Rightarrow> string \<times> NamespacedName \<Rightarrow> bool" where
  "delete_done E h t =
     (case ge_delete E h (fst t) (snd t) of Inl e \<Rightarrow> IsNotFound e | Inr _ \<Rightarrow> True)"

lemma run_delete:
  "run_state (deleteIgnoringNotFound E t) w =
     (ignoring IsNotFound (ge_delete E (calls w) (fst t) (snd t)),
      w\<lparr>calls := calls w @ [delete_call t]\<rparr>)"
  by (simp add: deleteIgnoringNotFound_def run_fmap run_perform delete_call_def)

lemma ignoring_NotFound_iff:
  "ignoring IsNotFound (ge_delete E h (fst t) (snd t)) = Inr () \<longleftrightarrow> delete_done E h t"
  by (auto simp: ignoring_def delete_done_def split: sum.splits)

lemma run_deletes:
  "\<exists>n\<le>length ts. final (forE (deleteIgnoringNotFound E) ts) w =
       w\<lparr>calls := calls w @ map delete_call (take n ts)\<rparr> \<and>
     (result (forE (deleteIgnoringNotFound E) ts) w = Inr () \<longrightarrow>
        n = length ts \<and> (\<forall>i<n. delete_done E (calls w @ map delete_call (take i ts)) (ts ! i)))"
  using forE_calls [of "deleteIgnoringNotFound E", OF run_delete, of ts w]
  by (simp add: ignoring_NotFound_iff)

lemma emits_cleanupResources:
  "emits (\<lambda>c. \<exists>t. c = delete_call t) (cleanupResources E server) (\<lambda>_. True)"
  unfolding cleanupResources_def deleteIgnoringNotFound_def delete_call_def
  by (intro emits_steps emits_intros emits_forE) auto

lemma cleanupResources_calls:
  assumes "result (cleanupResources E server) w = Inr ()"
  shows "issued (cleanupResources E server) w = map delete_call (cleanupTargets server)"
    and "\<forall>i<length (cleanupTargets server).
      delete_done E (calls w @ map delete_call (take i (cleanupTargets server))) (cleanupTargets server ! i)"
proof -
  let ?ts = "cleanupTargets server"
  have ok: "result (forE (deleteIgnoringNotFound E) ?ts) w = Inr ()"
    using assms by (auto simp: cleanupResources_def result_bindE_Inr)
  with run_deletes [of ?ts E w] have eff: "final (forE (deleteIgnoringNotFound E) ?ts) w =
      w\<lparr>calls := calls w @ map delete_call ?ts\<rparr>"
    and deletes: "\<forall>i<length ?ts. delete_done E (calls w @ map delete_call (take i ?ts)) (?ts ! i)"
    by auto
  show "issued (cleanupResources E server) w = map delete_call ?ts"
    using ok eff
    by (intro issued_eqI)
      (auto simp: cleanupResources_def final_def result_def io_simps split: prod.splits)
  show "\<forall>i<length ?ts. delete_done E (calls w @ map delete_call (take i ?ts)) (?ts ! i)"
    by (rule deletes)
qed

definition finalizer_removal :: "klib \<Rightarrow> GameServer \<Rightarrow> gs_call" where
  "finalizer_removal L server =
     UpdateServer (with_finalizers (\<lambda>fs. RemoveFinalizer L fs gameServerFinalizer) server)"

interpretation gs_fin: finalized
  "\<lambda>server. ContainsFinalizer L (om_Finalizers (server_meta server)) gameServerFinalizer"
  "cleanupResources E" "finalizer_removal L"
  "\<lambda>server h. ge_updateServer E h (with_finalizers (\<lambda>fs. RemoveFinalizer L fs gameServerFinalizer) server)"
  "reconcileDeleted L E"
  for L E
proof
  show "emits (\<lambda>c. c \<noteq> finalizer_removal L server) (cleanupResources E server) (\<lambda>_. True)" for server
    by (rule emits_mono [OF emits_cleanupResources]) (auto simp: finalizer_removal_def delete_call_def)
qed (simp add: reconcileDeleted_def updateServer_def finalizer_removal_def)

lemma reconcileDeleted_updates:
  assumes "UpdateServer s \<in> set (issued (reconcileDeleted L E server) w)"
  shows "UpdateServer s = finalizer_removal L server"
proof -
  have "emits (\<lambda>c. (\<exists>t. c = delete_call t) \<or> c = finalizer_removal L server)
      (reconcileDeleted L E server) (\<lambda>_. True)"
    unfolding reconcileDeleted_def updateServer_def finalizer_removal_def
    by (intro emits_steps emits_intros emits_mono [OF emits_cleanupResources]) auto
  from emitsD_issued [OF this assms] show ?thesis by (auto simp: delete_call_def)
qed

lemma deletion_trace:
  assumes "ge_getServer E (calls w) req = Inr server"
    and "om_DeletionTimestamp (server_meta server) \<noteq> None"
    and "UpdateServer s \<in> set (issued (Reconcile L E R req) w)"
  shows "issued (Reconcile L E R req) w =
      GetServer req # map delete_call (cleanupTargets server) @ [finalizer_removal L server]"
    and "\<forall>i<length (cleanupTargets server).
      delete_done E (calls w @ GetServer req # map delete_call (take i (cleanupTargets server)))
        (cleanupTargets server ! i)"
proof -
  let ?w = "w\<lparr>calls := calls w @ [GetServer req]\<rparr>"
  have issued: "issued (Reconcile L E R req) w = GetServer req # issued (reconcileDeleted L E server) ?w"
    unfolding Reconcile_def
    by (subst issued_bind_perform [where P = "\<lambda>_. True" and Q = "\<lambda>_. True"])
      (use assms(1,2) gs_fin.handler_emits in auto)
  with assms(3) have upd: "UpdateServer s \<in> set (issued (reconcileDeleted L E server) ?w)" by simp
  then have "finalizer_removal L server \<in> set (issued (reconcileDeleted L E server) ?w)"
    using reconcileDeleted_updates by metis
  from gs_fin.removal_after_cleanup [OF this]
  have ok: "result (cleanupResources E server) ?w = Inr ()"
    and trace: "issued (reconcileDeleted L E server) ?w =
      issued (cleanupResources E server) ?w @ [finalizer_removal L server]"
    by auto
  show "issued (Reconcile L E R req) w =
      GetServer req # map delete_call (cleanupTargets server) @ [finalizer_removal L server]"
    unfolding issued trace cleanupResources_calls(1) [OF ok] by simp
  show "\<forall>i<length (cleanupTargets server).
      delete_done E (calls w @ GetServer req # map delete_call (take i (cleanupTargets server)))
        (cleanupTargets server ! i)"
    using cleanupResources_calls(2) [OF ok] by simp
qed


section \<open>Convergence\<close>

text \<open>
  What a successful pass over the children has applied, in order. A child is controlled by the
  server when its metadata is a result of \<^const>\<open>SetControllerReference\<close> for the server.
\<close>

definition controlled_by :: "klib \<Rightarrow> GameServer \<Rightarrow> ObjectMeta \<Rightarrow> ObjectMeta \<Rightarrow> bool" where
  "controlled_by L S m m' \<longleftrightarrow> SetControllerReference L (server_meta S) m = Inr m'"

lemma controlled_by_fields:
  "controlled_by L S m m' \<Longrightarrow> om_Name m' = om_Name m"
  "controlled_by L S m m' \<Longrightarrow> om_Namespace m' = om_Namespace m"
  by (auto simp: controlled_by_def SetControllerReference_def split: sum.splits)

lemma run_apply:
  "result (applySts L E S sts) w = Inr u \<Longrightarrow>
     \<exists>m. controlled_by L S (sts_meta sts) m \<and>
       issued (applySts L E S sts) w = [PatchSts (sts\<lparr>sts_meta := m\<rparr>)]"
  "result (applySvc L E S svc) w = Inr u \<Longrightarrow>
     \<exists>m. controlled_by L S (svc_meta svc) m \<and>
       issued (applySvc L E S svc) w = [PatchSvc (svc\<lparr>svc_meta := m\<rparr>)]"
  "result (applyPVC L E S pvc) w = Inr u \<Longrightarrow>
     \<exists>m. controlled_by L S (pvc_meta pvc) m \<and>
       issued (applyPVC L E S pvc) w = [PatchPVC (pvc\<lparr>pvc_meta := m\<rparr>)]"
  by (auto simp: applySts_def applySvc_def applyPVC_def issued_perform controlled_by_def result_def
      split: sum.splits)

lemma applied_children:
  assumes "result (applyChildren L E R S profile pod (\<not> AutoStartEnabled (gs_Lifecycle (server_spec S)))) w = Inr ()"
  shows "\<exists>m1 m2 m3 m4 m5 rest.
    let ls = buildGameServerLabels S profile;
        sts = desiredSts S pod ls (\<not> AutoStartEnabled (gs_Lifecycle (server_spec S)));
        head = buildHeadlessService S ls;
        agent = addAgentMetricsPort (buildAgentService S ls) profile;
        game = buildGameService S profile ls (gr_ExternalDNSZone R);
        pvc = buildPVC L S profile
    in controlled_by L S (sts_meta sts) m1 \<and> controlled_by L S (svc_meta head) m2 \<and>
       controlled_by L S (svc_meta agent) m3 \<and> controlled_by L S (svc_meta game) m4 \<and>
       controlled_by L S (pvc_meta pvc) m5 \<and>
       issued (applyChildren L E R S profile pod (\<not> AutoStartEnabled (gs_Lifecycle (server_spec S)))) w =
         [PatchSts (sts\<lparr>sts_meta := m1\<rparr>), PatchSvc (head\<lparr>svc_meta := m2\<rparr>),
          PatchSvc (agent\<lparr>svc_meta := m3\<rparr>), PatchSvc (game\<lparr>svc_meta := m4\<rparr>),
          PatchPVC (pvc\<lparr>pvc_meta := m5\<rparr>)] @ rest"
proof -
  note ems = emits_seqE emits_applySts emits_applySvc emits_applyPVC emits_reconcileServiceMonitor
  note cond = child_namespaces desiredSts_replicas
  show ?thesis
    using assms unfolding applyChildren_def Let_def result_bindE_Inr
    apply (elim exE conjE)
    apply (subst issued_bindE_Inr [where P = "permitted S" and Q = "\<lambda>_. True" and P' = "permitted S" and Q' = "\<lambda>_. True"],
        (intro ems; simp add: cond), (intro ems; simp add: cond), assumption)+
    apply (drule run_apply)+
    apply (elim exE conjE)
    apply (intro exI conjI, assumption+)
    apply simp
    done
qed

lemma provision_applies:
  assumes E: "keyed_answers E" and res: "result (provision L E R S profile pod) w = Inr d"
  shows "\<exists>w'. result (applyChildren L E R S profile pod (\<not> AutoStartEnabled (gs_Lifecycle (server_spec S)))) w' = Inr () \<and>
    set (issued (applyChildren L E R S profile pod (\<not> AutoStartEnabled (gs_Lifecycle (server_spec S)))) w')
      \<subseteq> set (issued (provision L E R S profile pod) w)"
proof -
  let ?stop = "\<not> AutoStartEnabled (gs_Lifecycle (server_spec S))"
  let ?children = "applyChildren L E R S profile pod ?stop"
  let ?report = "reportStatus E R S profile ?stop"
  let ?sftp = "if SFTPEnabled profile
      then fmap (map_err (wrap_error ''ensure sftp secret: '')) (ensureSFTPSecret L E S profile)
      else State_Monad.return (Inr ())"
  let ?drain = "if ?stop then drainForStop E R S else State_Monad.return (Inr ())"
  have em: "emits (permitted S) ?sftp (\<lambda>_. True)" "emits (permitted S) ?drain (\<lambda>_. True)"
    "emits (permitted S) ?children (\<lambda>_. True)" "emits (permitted S) ?report (\<lambda>_. True)"
    by (intro emits_intros emits_sftp_secret emits_drainForStop emits_applyChildren
        emits_reportStatus E TrueI)+
  obtain w1 w2 where w12: "w1 = final ?sftp w" "w2 = final ?drain w1" by simp
  have steps: "result ?sftp w = Inr ()" "result ?drain w1 = Inr ()" "result ?children w2 = Inr ()"
    using res by (auto simp: provision_def result_bindE_Inr w12)
  have "set (issued ?children w2) \<subseteq> set (issued (bindE ?children (\<lambda>_. ?report)) w2)"
    by (rule issued_then(2) [OF em(3,4) steps(3)])
  also have "\<dots> \<subseteq> set (issued (bindE ?drain (\<lambda>_. bindE ?children (\<lambda>_. ?report))) w1)"
    unfolding w12(2)
    by (rule issued_then(1) [OF em(2) emits_seqE [OF em(3,4)] steps(2)])
  also have "\<dots> \<subseteq> set (issued (provision L E R S profile pod) w)"
    unfolding provision_def w12(1)
    by (rule issued_then(1) [OF em(1) emits_seqE [OF em(2) emits_seqE [OF em(3,4)]] steps(1)])
  finally show ?thesis using steps(3) by blast
qed

lemma reconcileActive_applies:
  assumes E: "keyed_answers E"
    and prof: "ge_getProfile E (calls w) (gs_Profile (server_spec S)) = Inr profile"
    and res: "result (reconcileActive L E R S) w = Inr d"
  shows "\<exists>pod w'. BuildGameServerPodSpecWithPullSecrets profile S (gr_ImagePullSecrets R) = Inr pod \<and>
    result (applyChildren L E R S profile pod (\<not> AutoStartEnabled (gs_Lifecycle (server_spec S)))) w' = Inr () \<and>
    set (issued (applyChildren L E R S profile pod (\<not> AutoStartEnabled (gs_Lifecycle (server_spec S)))) w')
      \<subseteq> set (issued (reconcileActive L E R S) w)"
proof -
  let ?w = "w\<lparr>calls := calls w @ [GetProfile (gs_Profile (server_spec S))]\<rparr>"
  let ?pull = "fmap (map_err (wrap_error ''ensure image pull secrets: ''))
      (ensureImagePullSecrets E R (server_namespace S))"
  let ?build = "case BuildGameServerPodSpecWithPullSecrets profile S (gr_ImagePullSecrets R) of
      Inl err \<Rightarrow> do { setProfileMissingCondition E S err; State_Monad.return (Inl err) }
    | Inr pod \<Rightarrow> provision L E R S profile pod"
  have em: "emits (permitted S) ?pull (\<lambda>_. True)" "emits (permitted S) ?build (\<lambda>_. True)"
    by (intro emits_seq emits_intros emits_missing emits_pull_secrets emits_provision E TrueI refl)+
  have run: "result (bindE ?pull (\<lambda>_. ?build)) ?w = Inr d"
    using res prof by (simp add: reconcileActive_def result_def run_perform)
  then have pull: "result ?pull ?w = Inr ()" and build: "result ?build (final ?pull ?w) = Inr d"
    by (auto simp: result_bindE_Inr)
  then obtain pod where pod: "BuildGameServerPodSpecWithPullSecrets profile S (gr_ImagePullSecrets R) = Inr pod"
    by (cases "BuildGameServerPodSpecWithPullSecrets profile S (gr_ImagePullSecrets R)")
      (auto simp: result_def split: prod.splits)
  with build have prov: "result (provision L E R S profile pod) (final ?pull ?w) = Inr d" by simp
  have "set (issued ?build (final ?pull ?w)) \<subseteq> set (issued (bindE ?pull (\<lambda>_. ?build)) ?w)"
    by (rule issued_then(1) [OF em(1,2) pull])
  also have "\<dots> \<subseteq> set (issued (reconcileActive L E R S) w)"
    unfolding reconcileActive_def using prof em
    by (subst issued_bind_perform [where P = "permitted S" and Q = "\<lambda>_. True"])
      (auto intro!: emits_seqE)
  finally show ?thesis
    using provision_applies [OF E prov] pod by fastforce
qed

lemma Reconcile_applies:
  assumes "keyed_answers E" "ge_getServer E (calls w) req = Inr server"
    and "om_DeletionTimestamp (server_meta server) = None"
    and "ContainsFinalizer L (om_Finalizers (server_meta server)) gameServerFinalizer"
    and "ge_getProfile E (calls w @ [GetServer req]) (gs_Profile (server_spec server)) = Inr profile"
    and "result (Reconcile L E R req) w = Inr d"
  shows "\<exists>pod w'. BuildGameServerPodSpecWithPullSecrets profile server (gr_ImagePullSecrets R) = Inr pod \<and>
    result (applyChildren L E R server profile pod (\<not> AutoStartEnabled (gs_Lifecycle (server_spec server)))) w' = Inr () \<and>
    set (issued (applyChildren L E R server profile pod (\<not> AutoStartEnabled (gs_Lifecycle (server_spec server)))) w')
      \<subseteq> set (issued (Reconcile L E R req) w)"
proof -
  let ?w = "w\<lparr>calls := calls w @ [GetServer req]\<rparr>"
  have "result (reconcileActive L E R server) ?w = Inr d"
    using assms by (simp add: Reconcile_def reconcileLive_def result_def run_perform)
  moreover have "set (issued (reconcileActive L E R server) ?w) \<subseteq> set (issued (Reconcile L E R req) w)"
    unfolding Reconcile_def
    by (subst issued_bind_perform [where P = "permitted server" and Q = "\<lambda>_. True"])
      (use assms emits_reconcileActive [OF assms(1)] in \<open>auto simp: reconcileLive_def\<close>)
  ultimately show ?thesis
    using reconcileActive_applies [OF assms(1), of ?w server profile L R d] assms(5)
    by fastforce
qed


section \<open>Idle shutdown\<close>

definition shutdown_calls :: "gs_env \<Rightarrow> gs_call list \<Rightarrow> GameServer \<Rightarrow> gs_call list" where
  "shutdown_calls E h s =
     Dial (agentAddress s) #
     (case ge_dial E h (agentAddress s) of
        Inl _ \<Rightarrow> []
      | Inr _ \<Rightarrow> [PrepareShutdown (agentAddress s) shutdownTimeoutSeconds ''idle timeout''])"

lemma snd_callAgentShutdown:
  "snd (run_state (callAgentShutdown E s) w) = w\<lparr>calls := calls w @ shutdown_calls E (calls w) s\<rparr>"
  by (simp add: callAgentShutdown_def shutdown_calls_def Let_def run_bindE run_perform split: sum.splits)

lemma UpdateSts_shutdown_calls [simp]: "UpdateSts x \<notin> set (shutdown_calls E h s)"
  by (auto simp: shutdown_calls_def split: sum.splits)

lemma run_writeStatus:
  "run_state (writeStatus E s) w =
     ((case ge_updateServerStatus E (calls w) s of Inl err \<Rightarrow> (Inl err, s) | Inr s' \<Rightarrow> (Inr (), s')),
      w\<lparr>calls := calls w @ [UpdateServerStatus s]\<rparr>)"
  by (simp add: writeStatus_def statusUpdate_def run_fmap run_perform)

lemma run_getPlayerCount:
  "run_state (getPlayerCount E s) w =
     (case ge_dial E (calls w) (agentAddress s) of
        Inl err \<Rightarrow> (Inl err, w\<lparr>calls := calls w @ [Dial (agentAddress s)]\<rparr>)
      | Inr _ \<Rightarrow> (ge_players E (calls w @ [Dial (agentAddress s)]) (agentAddress s),
                 w\<lparr>calls := calls w @ [Dial (agentAddress s), GetPlayers (agentAddress s)]\<rparr>))"
  by (simp add: getPlayerCount_def Let_def run_bindE run_perform split: sum.splits)

lemma run_clock: "run_state (clock E) w = (ge_now E (calls w), w\<lparr>calls := calls w @ [Now]\<rparr>)"
  by (simp add: clock_def run_perform)

lemma idle_update_justified:
  assumes "UpdateSts x \<in> set (issued (checkIdleTimeout E server sts) w)"
  shows "\<exists>players capacity lastActivity.
    ge_players E (calls w @ [Dial (agentAddress server)]) (agentAddress server) = Inr (players, capacity) \<and>
    players \<le> 0 \<and>
    gst_LastActivity (server_status server) = Some lastActivity \<and>
    lc_IdleTimeoutSeconds (gs_Lifecycle (server_spec server)) * second \<le>
      ge_now E (calls w @ [Dial (agentAddress server), GetPlayers (agentAddress server)]) - lastActivity \<and>
    sts_Replicas sts \<noteq> Some 0 \<and> x = sts\<lparr>sts_Replicas := Some 0\<rparr>"
  using assms
  by (auto simp: issued_def final_def checkIdleTimeout_def run_getPlayerCount run_clock run_writeStatus
      Let_def run_perform case_prod_beta snd_callAgentShutdown
      split: if_splits sum.splits option.splits prod.splits)

end
