(* ===== verification/GameServer_Properties.thy ===== *)
theory GameServer_Properties
  imports GameServer_Proofs
begin

text \<open>
  The properties of the GameServer controller, for every environment, and concrete runs that show
  their hypotheses can hold: a cluster with one profile, one server and an agent that answers.
\<close>

section \<open>A concrete cluster\<close>

definition ex_klib :: klib where
  "ex_klib =
     \<lparr>ContainsFinalizer = (\<lambda>fs f. f \<in> set fs), AddFinalizer = (\<lambda>fs f. fs @ [f]),
      RemoveFinalizer = (\<lambda>fs f. removeAll f fs), ControllerRef = (\<lambda>_ _. Inr ''uid-1''),
      QuantityError = (\<lambda>_. None), QuantityCmp = (\<lambda>_ _. 0)\<rparr>"

definition ex_port :: "string \<Rightarrow> int \<Rightarrow> bool option \<Rightarrow> PortSpec" where
  "ex_port n p e = \<lparr>ps_Name = n, ps_ContainerPort = p, ps_Protocol = [], ps_Exposed = e\<rparr>"

definition ex_profile :: GameProfile where
  "ex_profile =
     \<lparr>profile_meta = new_meta ''paper'' [],
      profile_spec =
        \<lparr>gp_DisplayName = ''Paper'', gp_Category = [], gp_Icon = [], gp_Description = [],
         gp_Image = ''paper:1'', gp_ImagePullPolicy = [],
         gp_Ports = [ex_port ''game'' 25565 None, ex_port ''rcon'' 25575 (Some False)],
         gp_Environment = [\<lparr>es_Key = ''EULA'', es_Default = ''false'', es_Required = True,
                             es_Description = []\<rparr>],
         gp_Resources = \<lparr>rs_Inline = no_resources, rs_Tiers = [], rs_Default = []\<rparr>,
         gp_Storage = \<lparr>ss_MountPath = ''/data'', ss_SizeDefault = ''10Gi'', ss_SizeMin = [],
                        ss_SizeMax = []\<rparr>,
         gp_Agent = \<lparr>ag_Image = ''agent:1'', ag_Version = ''1''\<rparr>,
         gp_Actions = [], gp_Capabilities = None, gp_Observability = None\<rparr>,
      profile_conditions = []\<rparr>"

definition ex_server :: "bool \<Rightarrow> string \<Rightarrow> time option \<Rightarrow> GameServer" where
  "ex_server auto state deleted =
     \<lparr>server_meta = (new_meta ''smp'' ''tenant-a'')
        \<lparr>om_Finalizers := [gameServerFinalizer], om_DeletionTimestamp := deleted\<rparr>,
      server_spec =
        \<lparr>gs_Profile = ''paper'', gs_Tier = [], gs_Env = [(''EULA'', ''true'')],
         gs_Storage = \<lparr>gss_Size = [], gss_StorageClass = [], gss_SnapshotRef = None\<rparr>,
         gs_Lifecycle = \<lparr>lc_IdleTimeoutSeconds = 600, lc_AutoStart = Some auto\<rparr>,
         gs_PriorityClassName = [], gs_TopologySpreadConstraints = [], gs_LoadBalancerIP = []\<rparr>,
      server_status =
        \<lparr>gst_State = state, gst_AgentVersion = [], gst_Players = 0, gst_PlayerCapacity = 0,
         gst_LastActivity = Some 0, gst_Endpoints = [], gst_Conditions = []\<rparr>\<rparr>"

definition ex_key :: NamespacedName where
  "ex_key = \<lparr>nn_Namespace = ''tenant-a'', nn_Name = ''smp''\<rparr>"

definition ex_sts :: "int \<Rightarrow> int \<Rightarrow> StatefulSet" where
  "ex_sts n ready =
     \<lparr>sts_meta = new_meta ''smp'' ''tenant-a'', sts_Replicas = Some n, sts_Selector = [],
      sts_ServiceName = ''smp'', sts_TemplateLabels = [],
      sts_PodSpec = \<lparr>pod_Containers = [], pod_Volumes = [], pod_ImagePullSecrets = [],
        pod_PriorityClassName = [], pod_TopologySpreadConstraints = [], pod_SecurityContext = None\<rparr>,
      sts_ReadyReplicas = ready\<rparr>"

definition ex_env :: "GameServer \<Rightarrow> StatefulSet \<Rightarrow> gs_env" where
  "ex_env server sts =
     \<lparr>ge_now = (\<lambda>_. 1000 * second),
      ge_getServer = (\<lambda>_ k. if k = key_of (server_meta server) then Inr server
                            else Inl (KErr EK_NotFound [])),
      ge_updateServer = (\<lambda>_ s. Inr s),
      ge_updateServerStatus = (\<lambda>_ s. Inr s),
      ge_getProfile = (\<lambda>_ n. if n = ''paper'' then Inr ex_profile else Inl (KErr EK_NotFound [])),
      ge_getSecret = (\<lambda>_ _. Inl (KErr EK_NotFound [])),
      ge_createSecret = (\<lambda>_ _. Inr ()),
      ge_updateSecret = (\<lambda>_ _. Inr ()),
      ge_getSts = (\<lambda>_ k. if k = key_of (sts_meta sts) then Inr sts else Inl (KErr EK_NotFound [])),
      ge_patchSts = (\<lambda>_ _. Inr ()),
      ge_updateSts = (\<lambda>_ _. Inr ()),
      ge_getSvc = (\<lambda>_ _. Inl (KErr EK_NotFound [])),
      ge_patchSvc = (\<lambda>_ _. Inr ()),
      ge_patchPVC = (\<lambda>_ _. Inr ()),
      ge_delete = (\<lambda>_ _ _. Inr ()),
      ge_getCRD = (\<lambda>_ _. Inl (KErr EK_NotFound [])),
      ge_getMonitor = (\<lambda>_ _. Inl (KErr EK_NotFound [])),
      ge_createMonitor = (\<lambda>_ _. Inr ()),
      ge_updateMonitor = (\<lambda>_ _. Inr ()),
      ge_dial = (\<lambda>_ _. Inr ()),
      ge_health = (\<lambda>_ _. Inr True),
      ge_info = (\<lambda>_ _. Inr ''1.0''),
      ge_players = (\<lambda>_ _. Inr (0, 20)),
      ge_shutdown = (\<lambda>_ _. Inr ()),
      ge_rand = (\<lambda>_ _. Inr 0),
      ge_bcrypt = (\<lambda>_ p. Inr p)\<rparr>"

definition ex_reconciler :: GameServerReconciler where
  "ex_reconciler = \<lparr>gr_OperatorNamespace = ''minato'', gr_ImagePullSecrets = [],
                    gr_ExternalDNSZone = ''play.example'', gr_Recorder = True\<rparr>"

definition ex_world :: gs_world where
  "ex_world = \<lparr>calls = [], gw_metrics = no_metrics,
               gw_prometheus = \<lparr>prometheusDetected = False, prometheusLastChecked = 0\<rparr>\<rparr>"

lemma ex_env_keyed: "keyed_answers (ex_env s sts)"
  by (auto simp: keyed_answers_def ex_env_def split: if_splits)

lemmas ex_defs = ex_klib_def ex_port_def ex_profile_def ex_server_def ex_key_def ex_sts_def
  ex_env_def ex_reconciler_def ex_world_def

lemmas gs_program_defs = Reconcile_def reconcileLive_def reconcileActive_def reconcileDeleted_def
  provision_def cleanupResources_def cleanupTargets_def deleteIgnoringNotFound_def updateServer_def
  ensureImagePullSecrets_def drainForStop_def applyChildren_def applySts_def applySvc_def applyPVC_def
  reconcileServiceMonitor_def reportStatus_def updateStoppedStatus_def updateStatus_def
  superviseReady_def checkAgentHealth_def updateAgentStatus_def checkIdleTimeout_def
  getPlayerCount_def callAgentShutdown_def resolveEndpoints_def writeStatus_def statusUpdate_def
  clock_def recordEvent_def

lemma ex_pod:
  "\<exists>pod. BuildGameServerPodSpecWithPullSecrets ex_profile s ps = Inr pod"
  by (simp add: pod_spec_total [symmetric] pod_buildable_def ex_profile_def)

text \<open>The answers of the cluster, so that runs evaluate without unfolding the objects.\<close>

lemma ex_answers [simp]:
  "ge_now (ex_env s sts) h = 1000 * second"
  "ge_getServer (ex_env s sts) h k =
     (if k = key_of (server_meta s) then Inr s else Inl (KErr EK_NotFound []))"
  "ge_updateServer (ex_env s sts) h x = Inr x"
  "ge_updateServerStatus (ex_env s sts) h x = Inr x"
  "ge_getProfile (ex_env s sts) h ''paper'' = Inr ex_profile"
  "ge_getSecret (ex_env s sts) h k = Inl (KErr EK_NotFound [])"
  "ge_createSecret (ex_env s sts) h sec = Inr ()"
  "ge_getSts (ex_env s sts) h k =
     (if k = key_of (sts_meta sts) then Inr sts else Inl (KErr EK_NotFound []))"
  "ge_patchSts (ex_env s sts) h a = Inr ()" "ge_updateSts (ex_env s sts) h a = Inr ()"
  "ge_patchSvc (ex_env s sts) h b = Inr ()" "ge_patchPVC (ex_env s sts) h c = Inr ()"
  "ge_delete (ex_env s sts) h d k = Inr ()"
  "ge_dial (ex_env s sts) h addr = Inr ()" "ge_players (ex_env s sts) h addr = Inr (0, 20)"
  "ge_shutdown (ex_env s sts) h addr = Inr ()" "ge_rand (ex_env s sts) h n = Inr 0"
  by (simp_all add: ex_env_def)

lemma ex_objects [simp]:
  "ContainsFinalizer ex_klib fs f \<longleftrightarrow> f \<in> set fs"
  "SetControllerReference ex_klib owner m = Inr (m\<lparr>om_Controller := Some ''uid-1''\<rparr>)"
  "key_of (server_meta (ex_server auto state deleted)) = ex_key"
  "om_DeletionTimestamp (server_meta (ex_server auto state deleted)) = deleted"
  "om_Finalizers (server_meta (ex_server auto state deleted)) = [gameServerFinalizer]"
  "gs_Profile (server_spec (ex_server auto state deleted)) = ''paper''"
  "AutoStartEnabled (gs_Lifecycle (server_spec (ex_server auto state deleted))) = auto"
  "key_of (sts_meta (ex_sts n r)) = ex_key"
  "sts_Replicas (ex_sts n r) = Some n" "stsReady (ex_sts n r) \<longleftrightarrow> r \<ge> n"
  "gr_ImagePullSecrets ex_reconciler = []" "gr_Recorder ex_reconciler"
  "gr_ExternalDNSZone ex_reconciler = ''play.example''"
  "SFTPEnabled ex_profile = False" "serviceMonitorEnabled ex_profile = False"
  "calls ex_world = []"
  by (simp_all add: ex_defs key_of_def new_meta_def AutoStartEnabled_def stsReady_def
      SFTPEnabled_def serviceMonitorEnabled_def SetControllerReference_def)

lemmas gs_run = gs_program_defs io_simps Let_def ignoring_def case_prod_beta

lemma ex_provision:
  "result (provision ex_klib (ex_env s (ex_sts 1 0)) ex_reconciler (ex_server auto state None)
     ex_profile pod) w = Inr 0"
  by (cases auto) (simp_all add: result_def gs_run)

lemma ex_active_result:
  "result (Reconcile ex_klib (ex_env (ex_server auto state None) (ex_sts 1 0)) ex_reconciler ex_key)
     ex_world = Inr 0"
proof -
  obtain pod where pod: "BuildGameServerPodSpecWithPullSecrets ex_profile (ex_server auto state None) [] = Inr pod"
    using ex_pod by blast
  show ?thesis
    using ex_provision [unfolded result_def]
    by (simp add: result_def Reconcile_def reconcileLive_def reconcileActive_def
        ensureImagePullSecrets_def map_err_def io_simps pod)
qed


section \<open>Deletion and confinement\<close>


lemma ex_deletion:
  "UpdateServer (with_finalizers (\<lambda>fs. RemoveFinalizer ex_klib fs gameServerFinalizer)
       (ex_server True [] (Some 5))) \<in>
     set (issued (Reconcile ex_klib (ex_env (ex_server True [] (Some 5)) (ex_sts 1 1)) ex_reconciler ex_key)
        ex_world)"
  by (simp add: issued_def final_def gs_run)


text \<open>
  C24. A reconcile writes only in the namespace of the server it was asked for: every object that is
  created, updated, patched or deleted lives there, provided the API server returns the objects
  that were asked for.
\<close>

theorem reconcile_confined:
  assumes "keyed_answers E" "c \<in> set (issued (Reconcile L E R req) w)" "written_namespace c = Some ns"
  shows "ns = nn_Namespace req"
proof (cases "ge_getServer E (calls w) req")
  case (Inl err)
  with assms(2,3) show ?thesis by (simp add: Reconcile_missing [OF Inl])
next
  case (Inr server)
  then have "key_of (server_meta server) = req" using assms(1) by (auto simp: keyed_answers_def)
  with Reconcile_permitted [OF assms(1) Inr assms(2)] assms(3) show ?thesis
    by (auto simp: permitted_def key_of_def)
qed

theorem reconcile_confined_witness:
  "server_namespace (with_finalizers (\<lambda>fs. RemoveFinalizer ex_klib fs gameServerFinalizer)
     (ex_server True [] (Some 5))) = ''tenant-a''"
  using reconcile_confined [OF ex_env_keyed ex_deletion] by (simp add: ex_key_def)


section \<open>Convergence\<close>

text \<open>The children a reconcile has to leave behind, and how they hang together.\<close>

definition children_consistent ::
    "klib \<Rightarrow> GameServer \<Rightarrow> StatefulSet \<Rightarrow> Service \<Rightarrow> Service \<Rightarrow> Service \<Rightarrow> PersistentVolumeClaim \<Rightarrow> bool" where
  "children_consistent L server sts headless agent game pvc \<longleftrightarrow>
     sts_Replicas sts = Some (if AutoStartEnabled (gs_Lifecycle (server_spec server)) then 1 else 0) \<and>
     sts_Selector sts = sts_TemplateLabels sts \<and>
     sts_ServiceName sts = om_Name (svc_meta headless) \<and>
     (\<forall>svc\<in>{headless, agent, game}. svc_Selector svc = sts_TemplateLabels sts) \<and>
     \<lparr>vol_Name = DataVolumeName, vol_Source = PVCVolume (om_Name (pvc_meta pvc))\<rparr>
       \<in> set (pod_Volumes (sts_PodSpec sts)) \<and>
     distinct (map (\<lambda>svc. om_Name (svc_meta svc)) [headless, agent, game]) \<and>
     (\<forall>m\<in>{sts_meta sts, svc_meta headless, svc_meta agent, svc_meta game, pvc_meta pvc}.
        (\<exists>m0. om_Controller m0 = None \<and> SetControllerReference L (server_meta server) m0 = Inr m) \<and>
        om_Namespace m = server_namespace server)"

lemma fresh_child_meta:
  "om_Controller (sts_meta (desiredSts S pod ls stop)) = None"
  "om_Controller (svc_meta (buildHeadlessService S ls)) = None"
  "om_Controller (svc_meta (addAgentMetricsPort (buildAgentService S ls) profile)) = None"
  "om_Controller (svc_meta (buildGameService S profile ls zone)) = None"
  "om_Controller (pvc_meta (buildPVC L S profile)) = None"
  by (simp_all add: desiredSts_def buildStatefulSet_def buildHeadlessService_def
      buildAgentService_def buildGameService_def buildPVC_def addAgentMetricsPort_def new_meta_def
      Let_def split: option.splits)

lemma child_names:
  "om_Name (sts_meta (desiredSts S pod ls stop)) = server_name S"
  "om_Name (svc_meta (buildHeadlessService S ls)) = server_name S"
  "om_Name (svc_meta (addAgentMetricsPort (buildAgentService S ls) profile)) = server_name S @ ''-agent''"
  "om_Name (svc_meta (buildGameService S profile ls zone)) = server_name S @ ''-game''"
  "om_Name (pvc_meta (buildPVC L S profile)) = server_name S"
  by (simp_all add: desiredSts_def buildStatefulSet_def buildHeadlessService_def
      buildAgentService_def buildGameService_def buildPVC_def addAgentMetricsPort_def new_meta_def
      Let_def split: option.splits)

lemma owned_meta:
  assumes "controlled_by L S m m'" "om_Controller m = None" "om_Namespace m = ns"
  shows "(\<exists>m0. om_Controller m0 = None \<and> SetControllerReference L (server_meta S) m0 = Inr m') \<and>
    om_Namespace m' = ns"
  using assms controlled_by_fields(2) [OF assms(1)] by (auto simp: controlled_by_def)

lemma built_children_consistent:
  assumes stop: "\<not> AutoStartEnabled (gs_Lifecycle (server_spec S)) \<longleftrightarrow> stop"
    and owned: "controlled_by L S (sts_meta (desiredSts S pod ls stop)) m1"
      "controlled_by L S (svc_meta (buildHeadlessService S ls)) m2"
      "controlled_by L S (svc_meta (addAgentMetricsPort (buildAgentService S ls) profile)) m3"
      "controlled_by L S (svc_meta (buildGameService S profile ls zone)) m4"
      "controlled_by L S (pvc_meta (buildPVC L S profile)) m5"
  shows "children_consistent L S
     ((desiredSts S pod ls stop)\<lparr>sts_meta := m1\<rparr>) ((buildHeadlessService S ls)\<lparr>svc_meta := m2\<rparr>)
     ((addAgentMetricsPort (buildAgentService S ls) profile)\<lparr>svc_meta := m3\<rparr>)
     ((buildGameService S profile ls zone)\<lparr>svc_meta := m4\<rparr>)
     ((buildPVC L S profile)\<lparr>pvc_meta := m5\<rparr>)"
proof -
  note names = owned [THEN controlled_by_fields(1), unfolded child_names]
  note metas = owned_meta [OF owned(1) fresh_child_meta(1) child_namespaces(1)]
    owned_meta [OF owned(2) fresh_child_meta(2) child_namespaces(2)]
    owned_meta [OF owned(3) fresh_child_meta(3) child_namespaces(3)]
    owned_meta [OF owned(4) fresh_child_meta(4) child_namespaces(4)]
    owned_meta [OF owned(5) fresh_child_meta(5) child_namespaces(5)]
  have rest: "sts_Selector (desiredSts S pod ls stop) = sts_TemplateLabels (desiredSts S pod ls stop)"
    "sts_ServiceName (desiredSts S pod ls stop) = server_name S"
    "\<lparr>vol_Name = DataVolumeName, vol_Source = PVCVolume (server_name S)\<rparr>
       \<in> set (pod_Volumes (sts_PodSpec (desiredSts S pod ls stop)))"
    "svc_Selector (buildHeadlessService S ls) = sts_TemplateLabels (desiredSts S pod ls stop)"
    "svc_Selector (addAgentMetricsPort (buildAgentService S ls) profile) =
       sts_TemplateLabels (desiredSts S pod ls stop)"
    "svc_Selector (buildGameService S profile ls zone) = sts_TemplateLabels (desiredSts S pod ls stop)"
    by (simp_all add: desiredSts_def buildStatefulSet_def buildHeadlessService_def
        buildAgentService_def buildGameService_def addAgentMetricsPort_def Let_def split: option.splits)
  show ?thesis
    using stop names rest metas unfolding children_consistent_def
    by (auto simp: desiredSts_replicas simp del: ex_objects)
qed

lemma Reconcile_children:
  assumes "keyed_answers E" "ge_getServer E (calls w) req = Inr server"
    and "om_DeletionTimestamp (server_meta server) = None"
    and "ContainsFinalizer L (om_Finalizers (server_meta server)) gameServerFinalizer"
    and "ge_getProfile E (calls w @ [GetServer req]) (gs_Profile (server_spec server)) = Inr profile"
    and "result (Reconcile L E R req) w = Inr d"
  shows "\<exists>sts headless agent game pvc.
    {PatchSts sts, PatchSvc headless, PatchSvc agent, PatchSvc game, PatchPVC pvc}
      \<subseteq> set (issued (Reconcile L E R req) w) \<and>
    children_consistent L server sts headless agent game pvc"
proof -
  let ?stop = "\<not> AutoStartEnabled (gs_Lifecycle (server_spec server))"
  obtain pod w' where w': "result (applyChildren L E R server profile pod ?stop) w' = Inr ()"
    and sub: "set (issued (applyChildren L E R server profile pod ?stop) w')
      \<subseteq> set (issued (Reconcile L E R req) w)"
    using Reconcile_applies [OF assms] by blast
  show ?thesis
    using applied_children [OF w'] sub built_children_consistent [OF refl]
    unfolding Let_def by (elim exE conjE) fastforce
qed

text \<open>
  C1. Convergence: a reconcile of a live server that has its finalizer and whose profile is found,
  and that returns without an error, has applied the StatefulSet, the headless, agent and game
  Services and the claim; each of them has the server as its controller (its metadata is what
  \<^verbatim>\<open>SetControllerReference\<close> makes, for this server, of metadata without a controller) and is in
  the server's namespace, the selectors of the three Services match the pod template, the
  StatefulSet names the headless Service and mounts the claim, and the replica count is the one
  that the lifecycle asks for.
\<close>

theorem reconcile_converges:
  assumes "keyed_answers E" "ge_getServer E (calls w) req = Inr server"
    and "om_DeletionTimestamp (server_meta server) = None"
    and "ContainsFinalizer L (om_Finalizers (server_meta server)) gameServerFinalizer"
    and "ge_getProfile E (calls w @ [GetServer req]) (gs_Profile (server_spec server)) = Inr profile"
    and "result (Reconcile L E R req) w = Inr d"
  shows "\<exists>sts headless agent game pvc.
    {PatchSts sts, PatchSvc headless, PatchSvc agent, PatchSvc game, PatchPVC pvc}
      \<subseteq> set (issued (Reconcile L E R req) w) \<and>
    children_consistent L server sts headless agent game pvc"
  by (rule Reconcile_children [OF assms])

theorem reconcile_converges_witness:
  "\<exists>sts headless agent game pvc.
    {PatchSts sts, PatchSvc headless, PatchSvc agent, PatchSvc game, PatchPVC pvc}
      \<subseteq> set (issued (Reconcile ex_klib (ex_env (ex_server True [] None) (ex_sts 1 0)) ex_reconciler
                ex_key) ex_world) \<and>
    children_consistent ex_klib (ex_server True [] None) sts headless agent game pvc"
  by (rule reconcile_converges [where profile = ex_profile and d = 0])
    (simp_all add: ex_env_keyed ex_active_result)

text \<open>
  A server with \<^verbatim>\<open>spec.lifecycle.autoStart\<close> false is kept down: no reconcile ever applies its
  StatefulSet with a replica count other than zero, and its agent is never health-checked or asked
  for players.
\<close>

theorem stopped_server_kept_down:
  assumes "keyed_answers E" "ge_getServer E (calls w) req = Inr server"
    and "\<not> AutoStartEnabled (gs_Lifecycle (server_spec server))"
    and "c \<in> set (issued (Reconcile L E R req) w)"
  shows "(\<forall>x. c = PatchSts x \<longrightarrow> sts_Replicas x = Some 0) \<and> (\<forall>x. c \<noteq> UpdateSts x) \<and>
    (\<forall>a. c \<noteq> HealthCheck a) \<and> (\<forall>a. c \<noteq> GetPlayers a)"
  using Reconcile_permitted [OF assms(1,2,4)] assms(3) by (auto simp: permitted_def)

theorem stopped_server_kept_down_witness:
  "\<exists>x. PatchSts x \<in> set (issued (Reconcile ex_klib (ex_env (ex_server False [] None) (ex_sts 1 0))
       ex_reconciler ex_key) ex_world) \<and> sts_Replicas x = Some 0"
proof -
  let ?E = "ex_env (ex_server False [] None) (ex_sts 1 0)"
  obtain x where x: "PatchSts x \<in> set (issued (Reconcile ex_klib ?E ex_reconciler ex_key) ex_world)"
    using Reconcile_children [of ?E ex_world ex_key "ex_server False [] None" ex_klib ex_profile
        ex_reconciler 0] by (auto simp: ex_env_keyed ex_active_result)
  show ?thesis
    using stopped_server_kept_down [OF ex_env_keyed _ _ x, of "ex_server False [] None"] x by auto
qed

text \<open>
  The idle scale-down does not last: when the server's status says \<^verbatim>\<open>Idle\<close> (its StatefulSet
  was scaled to zero by the idle check) and autoStart is on, the next successful reconcile applies
  the StatefulSet with one replica again.
\<close>

theorem idle_server_scaled_up_again:
  assumes "keyed_answers E" "ge_getServer E (calls w) req = Inr server"
    and "om_DeletionTimestamp (server_meta server) = None"
    and "ContainsFinalizer L (om_Finalizers (server_meta server)) gameServerFinalizer"
    and "ge_getProfile E (calls w @ [GetServer req]) (gs_Profile (server_spec server)) = Inr profile"
    and "result (Reconcile L E R req) w = Inr d"
    and "gst_State (server_status server) = stateIdle"
    and "AutoStartEnabled (gs_Lifecycle (server_spec server))"
  shows "\<exists>sts. PatchSts sts \<in> set (issued (Reconcile L E R req) w) \<and> sts_Replicas sts = Some 1"
  using Reconcile_children [OF assms(1-6)] assms(8) by (auto simp: children_consistent_def)

theorem idle_server_scaled_up_again_witness:
  "\<exists>sts. PatchSts sts \<in> set (issued (Reconcile ex_klib (ex_env (ex_server True stateIdle None)
       (ex_sts 1 0)) ex_reconciler ex_key) ex_world) \<and> sts_Replicas sts = Some 1"
  by (rule idle_server_scaled_up_again
      [where profile = ex_profile and d = 0 and server = "ex_server True stateIdle None"])
    (simp_all add: ex_env_keyed ex_active_result, simp add: ex_server_def)

text \<open>
  Idle shutdown is justified and complete: the idle check scales the StatefulSet down exactly
  when it is not already at zero, the agent reported that nobody is online, and the last activity
  lies at least the configured timeout back; the only change it makes to it is the replica count,
  and the agent was asked to shut down first.
\<close>

theorem idle_scale_down_iff:
  "UpdateSts x \<in> set (issued (checkIdleTimeout E server sts) w) \<longleftrightarrow>
     x = sts\<lparr>sts_Replicas := Some 0\<rparr> \<and> sts_Replicas sts \<noteq> Some 0 \<and>
     (\<exists>u players capacity lastActivity.
        ge_dial E (calls w) (agentAddress server) = Inr u \<and>
        ge_players E (calls w @ [Dial (agentAddress server)]) (agentAddress server) = Inr (players, capacity) \<and>
        players \<le> 0 \<and> gst_LastActivity (server_status server) = Some lastActivity \<and>
        lc_IdleTimeoutSeconds (gs_Lifecycle (server_spec server)) * second \<le>
          ge_now E (calls w @ [Dial (agentAddress server), GetPlayers (agentAddress server)]) - lastActivity)"
  by (auto simp: issued_def final_def checkIdleTimeout_def run_getPlayerCount run_clock run_writeStatus
      Let_def run_perform case_prod_beta snd_callAgentShutdown
      split: if_splits sum.splits option.splits prod.splits)


section \<open>The objects that are built\<close>

text \<open>
  The game Service publishes each (port, protocol) pair once, and exactly those of the profile's
  ports that are exposed, plus the SFTP port when the profile offers file transfer. A port the
  profile marks as not exposed is not published, unless it is the SFTP port.
\<close>

theorem game_service_ports:
  "distinct (map port_key (svc_Ports (buildGameService server profile ls zone))) \<and>
   set (map port_key (svc_Ports (buildGameService server profile ls zone))) =
     {(ps_ContainerPort p, portProtocol p) |p. p \<in> set (gp_Ports (profile_spec profile)) \<and> ExposedPort p} \<union>
     (if SFTPEnabled profile then {(SFTPPort, ProtocolTCP)} else {})"
  using gameServicePorts_distinct [of profile] gameServicePorts_keys [of profile]
  by (simp add: buildGameService_def)

text \<open>
  Every pod that the operator builds is well formed as far as volumes go: the volumes of the
  StatefulSet have distinct names and each mount of each container names one of them.
\<close>

theorem statefulset_volumes:
  assumes "BuildGameServerPodSpecWithPullSecrets profile server ps = Inr pod"
  shows "distinct (map vol_Name (pod_Volumes (sts_PodSpec (buildStatefulSet server pod ls)))) \<and>
    (\<forall>c\<in>set (pod_Containers (sts_PodSpec (buildStatefulSet server pod ls))).
     \<forall>m\<in>set (co_VolumeMounts c).
       vm_Name m \<in> vol_Name ` set (pod_Volumes (sts_PodSpec (buildStatefulSet server pod ls))))"
  using statefulset_volumes_distinct [OF assms] statefulset_mounts_bound [OF assms]
  by (metis image_eqI)

theorem statefulset_volumes_witness:
  "\<exists>pod. BuildGameServerPodSpecWithPullSecrets ex_profile (ex_server True [] None) [] = Inr pod \<and>
     distinct (map vol_Name (pod_Volumes (sts_PodSpec (buildStatefulSet (ex_server True [] None) pod []))))"
  using ex_pod statefulset_volumes by blast

text \<open>
  The environment of the game container: names are sorted and distinct, and a variable is there
  exactly when the server sets it (then with the server's value), or the profile declares it
  required or with a default and the server does not (then with the profile's default).
\<close>

theorem game_environment:
  assumes "gomap_ok (gs_Env (server_spec server))"
  shows "sorted (map ev_Name (buildGameEnv profile server)) \<and>
    distinct (map ev_Name (buildGameEnv profile server)) \<and>
    (\<forall>v. v \<in> set (buildGameEnv profile server) \<longleftrightarrow>
      (case map_of (gs_Env (server_spec server)) (ev_Name v) of
         Some x \<Rightarrow> ev_Value v = x
       | None \<Rightarrow> map_of (env_defaults (gp_Environment (profile_spec profile))) (ev_Name v) = Some (ev_Value v)))"
  using buildGameEnv_sorted_distinct [of profile server] buildGameEnv_values [OF assms] by blast

theorem game_environment_witness:
  "\<lparr>ev_Name = ''EULA'', ev_Value = ''true''\<rparr> \<in> set (buildGameEnv ex_profile (ex_server True [] None))"
  using game_environment [of "ex_server True [] None" ex_profile]
  by (simp add: ex_server_def gomap_ok_def)


section \<open>Secrets, metrics and detection\<close>

text \<open>
  A pull secret that the tenant put into the namespace is never touched: when the Secret found
  there does not carry the replication label, the two reads are all that happens. When it does, it
  is overwritten with the source's type and data and keeps its name and labels.
\<close>

theorem tenant_pull_secret_untouched:
  assumes "ge_getSecret E (calls w) \<lparr>nn_Namespace = gr_OperatorNamespace R, nn_Name = name\<rparr> = Inr src"
    and "ge_getSecret E (calls w @ [GetSecret \<lparr>nn_Namespace = gr_OperatorNamespace R, nn_Name = name\<rparr>])
           \<lparr>nn_Namespace = ns, nn_Name = name\<rparr> = Inr dst"
  shows "issued (ensureImagePullSecret E R ns name) w =
    [GetSecret \<lparr>nn_Namespace = gr_OperatorNamespace R, nn_Name = name\<rparr>,
     GetSecret \<lparr>nn_Namespace = ns, nn_Name = name\<rparr>] @
    (if map_str (om_Labels (sec_meta dst)) ''minato.io/replicated-from'' = [] then []
     else [UpdateSecret \<lparr>sec_meta = sec_meta dst, sec_Type = sec_Type src, sec_Data = sec_Data src\<rparr>])"
  using assms by (auto simp: ensureImagePullSecret_def issued_def final_def io_simps Let_def)

definition ex_secret_env :: "Secret \<Rightarrow> gs_env" where
  "ex_secret_env sec =
     (ex_env (ex_server True [] None) (ex_sts 1 1))\<lparr>ge_getSecret := (\<lambda>_ _. Inr sec)\<rparr>"

definition ex_secret :: Secret where
  "ex_secret = \<lparr>sec_meta = new_meta ''regcred'' ''tenant-a'', sec_Type = ''Opaque'', sec_Data = []\<rparr>"

theorem tenant_pull_secret_untouched_witness:
  "length (issued (ensureImagePullSecret (ex_secret_env ex_secret) ex_reconciler ''tenant-a'' ''regcred'')
     ex_world) = 2"
  by (subst tenant_pull_secret_untouched [where src = ex_secret and dst = ex_secret])
    (simp_all add: ex_secret_env_def ex_secret_def map_str_def new_meta_def)

text \<open>
  SFTP credentials: an existing Secret is left alone (the password is never rotated), and a
  generated password has exactly 32 characters, all of them from the alphanumeric alphabet, as long
  as the random source stays below the bound it is given.
\<close>

lemma randomPassword_result:
  assumes "\<And>h n k. 0 < n \<Longrightarrow> ge_rand E h n = Inr k \<Longrightarrow> k < n" "result (randomPassword E m) w = Inr pw"
  shows "length pw = m \<and> set pw \<subseteq> set sftpPasswordAlphabet"
  using assms(2)
proof (induction m arbitrary: w pw)
  case (Suc m)
  then obtain n rest w' where "result (randomPassword E m) w' = Inr rest"
    and "ge_rand E (calls w) (length sftpPasswordAlphabet) = Inr n"
    and "pw = (sftpPasswordAlphabet ! n) # rest"
    by (auto simp: result_bindE_Inr result_fmap result_perform map_err_def
        simp: result_def [of "State_Monad.return _"] split: sum.splits)
  moreover have "0 < length sftpPasswordAlphabet" by (simp add: sftpPasswordAlphabet_def)
  ultimately show ?case using Suc.IH [of w' rest] assms(1) by fastforce
qed (auto simp: result_def)

theorem sftp_credentials:
  assumes "\<And>h n k. 0 < n \<Longrightarrow> ge_rand E h n = Inr k \<Longrightarrow> k < n"
  shows "(result (generateSFTPPassword E) w = Inr pw \<longrightarrow>
      length pw = 32 \<and> set pw \<subseteq> set sftpPasswordAlphabet) \<and>
    (ge_getSecret E (calls w) \<lparr>nn_Namespace = server_namespace server,
        nn_Name = SFTPSecretName (server_name server)\<rparr> = Inr existing \<longrightarrow>
      issued (ensureSFTPSecret L E server profile) w =
        [GetSecret \<lparr>nn_Namespace = server_namespace server, nn_Name = SFTPSecretName (server_name server)\<rparr>])"
proof (intro conjI impI)
  assume "result (generateSFTPPassword E) w = Inr pw"
  with randomPassword_result [OF assms] show "length pw = 32" "set pw \<subseteq> set sftpPasswordAlphabet"
    by (auto simp: generateSFTPPassword_def sftpPasswordLength_def)
next
  assume "ge_getSecret E (calls w) \<lparr>nn_Namespace = server_namespace server,
        nn_Name = SFTPSecretName (server_name server)\<rparr> = Inr existing"
  then show "issued (ensureSFTPSecret L E server profile) w =
      [GetSecret \<lparr>nn_Namespace = server_namespace server, nn_Name = SFTPSecretName (server_name server)\<rparr>]"
    by (simp add: ensureSFTPSecret_def issued_def final_def io_simps Let_def)
qed

lemma ex_password:
  "result (randomPassword (ex_env s sts) k) w = Inr (replicate k (sftpPasswordAlphabet ! 0))"
  by (induction k arbitrary: w)
    (auto simp: result_bindE_Inr result_fmap result_perform map_err_def result_def [of "State_Monad.return _"])

theorem sftp_credentials_witness:
  "length (replicate 32 (sftpPasswordAlphabet ! 0)) = 32 \<and>
   set (replicate 32 (sftpPasswordAlphabet ! 0)) \<subseteq> set sftpPasswordAlphabet"
proof -
  let ?E = "ex_env (ex_server True [] None) (ex_sts 1 1)"
  have "result (generateSFTPPassword ?E) ex_world = Inr (replicate 32 (sftpPasswordAlphabet ! 0))"
    by (simp add: generateSFTPPassword_def sftpPasswordLength_def ex_password)
  then show ?thesis
    using sftp_credentials [of ?E ex_world "replicate 32 (sftpPasswordAlphabet ! 0)"] by simp
qed

text \<open>
  One state gauge per server: after a server's metrics are recorded there is exactly one series
  for it, that of its current state, and the series of every other server are unchanged; after its
  deletion there is none.
\<close>

theorem one_series_per_server:
  "series_of ns n (recordGameServerMetrics server m) =
     (if ns = server_namespace server \<and> n = server_name server
      then [(ns, gs_Profile (server_spec server), n,
             if gst_State (server_status server) = [] then stateProvisioning
             else gst_State (server_status server))]
      else series_of ns n m) \<and>
   series_of ns n (deleteGameServerMetrics ns' n' m) =
     (if ns = ns' \<and> n = n' then [] else series_of ns n m)"
  by (simp add: series_of_record series_of_delete)

end
