(* ===== verification/Fleet_Properties.thy ===== *)
theory Fleet_Properties
  imports Fleet_Controller GameServer_Properties
begin

text \<open>
  Properties of the fleet reconciler: which servers are created, deleted and updated, in which order
  servers are given up, when a rolling update makes progress, and the finalizer protocol.
\<close>

section \<open>Which calls a reconcile of a fleet may issue\<close>

text \<open>
  For a live fleet and the servers that were listed for it: a server is created only at an index
  between the current and the desired count, deleted only when it was selected and there are too
  many, updated only when it is one of those chosen for the rolling update.
\<close>

definition fleet_permitted :: "GameServerFleet \<Rightarrow> GameServer list \<Rightarrow> fleet_call \<Rightarrow> bool" where
  "fleet_permitted fleet servers c =
     (case c of
        CreateServer s \<Rightarrow> \<exists>i m. int32 (int (length servers)) \<le> i \<and> i < fl_Replicas (fleet_spec fleet) \<and>
          s = (buildGameServer fleet i)\<lparr>server_meta := m\<rparr> \<and>
          key_of m = key_of (server_meta (buildGameServer fleet i))
      | DeleteServer k \<Rightarrow> int32 (int (length servers)) > fl_Replicas (fleet_spec fleet) \<and>
          (\<exists>toDelete s. selectServersToDelete servers (fl_Replicas (fleet_spec fleet))
               (effectiveStrategy fleet) = Inr toDelete \<and> s \<in> set toDelete \<and>
             k = key_of (server_meta s))
      | UpdateGameServer u \<Rightarrow> effectiveStrategy fleet = ''RollingUpdate'' \<and>
          u \<in> updatedServer fleet ` set (serversToUpdate fleet servers)
      | UpdateFleet _ \<Rightarrow> False
      | _ \<Rightarrow> True)"

lemma fleet_permitted_simps [simp]:
  "fleet_permitted F ss FNow" "fleet_permitted F ss (ListServers n l)" "fleet_permitted F ss (FDial a)"
  "fleet_permitted F ss (FPrepareShutdown a t m)" "fleet_permitted F ss (FEvent x y)"
  "fleet_permitted F ss (UpdateFleetStatus f)" "fleet_permitted F ss (GetFleet k)"
  by (simp_all add: fleet_permitted_def)

lemma emits_warnDrainFailed: "(\<And>a b. P (FEvent a b)) \<Longrightarrow> emits P (warnDrainFailed R s x e) (\<lambda>_. True)"
  unfolding warnDrainFailed_def by (intro emits_intros) auto

lemma emits_drainServer:
  assumes "\<And>a. P (FDial a)" "\<And>a t m. P (FPrepareShutdown a t m)" "\<And>a b. P (FEvent a b)"
  shows "emits P (drainServer E R F s) (\<lambda>_. True)"
  unfolding drainServer_def Let_def
  by (intro emits_steps emits_intros emits_warnDrainFailed) (auto intro: assms)

lemma emits_createServer:
  assumes "int32 (int (length ss)) \<le> i" "i < fl_Replicas (fleet_spec F)"
  shows "emits (fleet_permitted F ss) (createServer L E F i) (\<lambda>_. True)"
  unfolding createServer_def Let_def
proof (intro emits_intros TrueI)
  fix m assume "SetControllerReference L (fleet_meta F) (server_meta (buildGameServer F i)) = Inr m"
  then have "key_of m = key_of (server_meta (buildGameServer F i))"
    by (auto simp: SetControllerReference_def key_of_def split: sum.splits)
  then show "fleet_permitted F ss (CreateServer ((buildGameServer F i)\<lparr>server_meta := m\<rparr>))"
    using assms unfolding fleet_permitted_def fleet_call.case by blast
qed

lemma emits_scaleUp:
  assumes "int32 (int (length ss)) < fl_Replicas (fleet_spec F)"
  shows "emits (fleet_permitted F ss)
    (scaleUp L E F (int32 (int (length ss))) (fl_Replicas (fleet_spec F))) (\<lambda>_. True)"
  unfolding scaleUp_def by (intro emits_forE emits_createServer) auto

lemma emits_scaleDown:
  assumes "int32 (int (length ss)) > fl_Replicas (fleet_spec F)"
    and "selectServersToDelete ss (fl_Replicas (fleet_spec F)) (effectiveStrategy F) = Inr toDelete"
  shows "emits (fleet_permitted F ss) (scaleDown E R F toDelete) (\<lambda>_. True)"
  unfolding scaleDown_def deleteServer_def
  by (intro emits_forE emits_seq emits_drainServer emits_intros)
    (use assms in \<open>auto simp: fleet_permitted_def\<close>)

lemma emits_handleRollingUpdate:
  assumes "effectiveStrategy F = ''RollingUpdate''"
  shows "emits (fleet_permitted F ss) (handleRollingUpdate E F ss) (\<lambda>_. True)"
  unfolding handleRollingUpdate_def
  by (intro emits_for_each emits_intros) (use assms in \<open>auto simp: fleet_permitted_def\<close>)

lemma emits_updateFleetStatus: "emits (fleet_permitted F ss) (updateFleetStatus E F' ss') (\<lambda>_. True)"
  unfolding updateFleetStatus_def by (intro emits_steps emits_intros) auto

definition finishFleet ::
    "fleet_env \<Rightarrow> GameServerFleet \<Rightarrow> GameServer list \<Rightarrow> (kerr + duration) fleet_prog" where
  "finishFleet E F ss = do {
     (if effectiveStrategy F = ''RollingUpdate'' then handleRollingUpdate E F ss
      else State_Monad.return ());
     updateFleetStatus E F ss;
     State_Monad.return (Inr 0)
   }"

lemma emits_finishFleet: "emits (fleet_permitted F ss) (finishFleet E F ss) (\<lambda>_. True)"
  unfolding finishFleet_def
  by (intro emits_seq emits_intros emits_handleRollingUpdate emits_updateFleetStatus) auto

lemma scaleFleet_parts:
  "scaleFleet L E R F ss =
     bindE (if int32 (int (length ss)) < fl_Replicas (fleet_spec F)
            then scaleUp L E F (int32 (int (length ss))) (fl_Replicas (fleet_spec F))
            else State_Monad.return (Inr ())) (\<lambda>_.
     bindE (if int32 (int (length ss)) > fl_Replicas (fleet_spec F)
            then (case selectServersToDelete ss (fl_Replicas (fleet_spec F)) (effectiveStrategy F) of
                    Inl panic \<Rightarrow> State_Monad.return (Inl panic)
                  | Inr toDelete \<Rightarrow> scaleDown E R F toDelete)
            else State_Monad.return (Inr ())) (\<lambda>_. finishFleet E F ss))"
  by (simp add: scaleFleet_def finishFleet_def Let_def)

lemma emits_scaleFleet: "emits (fleet_permitted F ss) (scaleFleet L E R F ss) (\<lambda>_. True)"
  unfolding scaleFleet_parts
  by (intro emits_seqE emits_if emits_case_sum emits_return TrueI emits_scaleUp emits_scaleDown
      emits_finishFleet) auto

text \<open>A live, finalized fleet: after reading it and listing its servers, the rest is scaling.\<close>

definition live_fleet :: "klib \<Rightarrow> fleet_env \<Rightarrow> fleet_call list \<Rightarrow> NamespacedName \<Rightarrow> GameServerFleet \<Rightarrow>
    GameServer list \<Rightarrow> bool" where
  "live_fleet L E h req F ss \<longleftrightarrow>
     fe_getFleet E h req = Inr F \<and> om_DeletionTimestamp (fleet_meta F) = None \<and>
     ContainsFinalizer L (om_Finalizers (fleet_meta F)) gameServerFleetFinalizer \<and>
     fe_list E (h @ [GetFleet req]) (fleet_namespace F) [(fleetLabel, fleet_name F)] = Inr ss"

definition read_calls :: "NamespacedName \<Rightarrow> GameServerFleet \<Rightarrow> fleet_call list" where
  "read_calls req F = [GetFleet req, ListServers (fleet_namespace F) [(fleetLabel, fleet_name F)]]"

lemma run_live_fleet:
  assumes "live_fleet L E (calls w) req F ss"
  shows "run_state (ReconcileFleet L E R req) w =
    run_state (scaleFleet L E R F ss) (w\<lparr>calls := calls w @ read_calls req F\<rparr>)"
  using assms
  by (simp add: live_fleet_def ReconcileFleet_def fleetLive_def listFleetServers_def read_calls_def
      io_simps)

lemma issued_live_fleet:
  assumes "live_fleet L E (calls w) req F ss"
  shows "issued (ReconcileFleet L E R req) w =
    read_calls req F @ issued (scaleFleet L E R F ss) (w\<lparr>calls := calls w @ read_calls req F\<rparr>)"
proof (rule issued_eqI)
  show "calls (final (ReconcileFleet L E R req) w) = calls w @ read_calls req F @
      issued (scaleFleet L E R F ss) (w\<lparr>calls := calls w @ read_calls req F\<rparr>)"
    using calls_final [where m = "scaleFleet L E R F ss" and w = "w\<lparr>calls := calls w @ read_calls req F\<rparr>",
        OF emits_scaleFleet]
    by (simp add: final_def run_live_fleet [OF assms])
qed

lemma ReconcileFleet_permitted:
  assumes "live_fleet L E (calls w) req F ss" "c \<in> set (issued (ReconcileFleet L E R req) w)"
  shows "fleet_permitted F ss c"
  using assms(2) emitsD_issued [OF emits_scaleFleet]
  by (auto simp: issued_live_fleet [OF assms(1)] read_calls_def)


section \<open>Choosing servers\<close>

lemma weak_order_deleteBefore: "weak_order deleteBefore"
  unfolding weak_order_def deleteBefore_def by (auto split: if_splits)

lemma weak_order_updateBefore: "weak_order updateBefore"
  unfolding weak_order_def updateBefore_def by (auto split: if_splits)

lemma selectServersToDelete_eq:
  assumes "int (length servers) < 2 ^ 31" "0 \<le> desired" "desired \<le> int (length servers)"
    and "strategy \<noteq> ''OnDelete''"
  shows "selectServersToDelete servers desired strategy =
    Inr (take (length servers - nat desired) (sort_slice deleteBefore servers))"
proof -
  have "int32 (int (length servers)) = int (length servers)"
    using assms by (intro int32_id) (simp add: int32_ok_def)
  moreover have "int32 (int (length servers) - desired) = int (length servers) - desired"
    using assms by (intro int32_id) (simp add: int32_ok_def)
  ultimately show ?thesis
    using assms by (auto simp: selectServersToDelete_def Let_def go_sort.length_srt nat_diff_distrib')
qed

lemma selectServersToDelete_negative:
  assumes "int (length servers) - desired < 2 ^ 31" "desired < 0" "strategy \<noteq> ''OnDelete''"
  shows "selectServersToDelete servers desired strategy =
    Inl (slicePanic (int (length servers) - desired) (length servers))"
proof -
  have "int32 (int (length servers)) = int (length servers)"
    using assms by (intro int32_id) (simp add: int32_ok_def)
  moreover have "int32 (int (length servers) - desired) = int (length servers) - desired"
    using assms by (intro int32_id) (simp add: int32_ok_def)
  ultimately show ?thesis
    using assms by (auto simp: selectServersToDelete_def Let_def go_sort.length_srt)
qed

lemma serversToUpdate_length:
  assumes "int32_ok (maxUnavailable F)" "0 \<le> maxUnavailable F" "int (length servers) < 2 ^ 31"
  shows "length (serversToUpdate F servers) =
    min (nat (maxUnavailable F) - length (filter (outdated F) servers)) (length (filter (outdated F) servers))"
proof -
  let ?n = "int (length (filter (outdated F) servers))"
  have "length (filter (outdated F) servers) \<le> length servers" by simp
  with assms(3) have "?n < 2 ^ 31" by linarith
  then have "int32 ?n = ?n" "int32 (maxUnavailable F - ?n) = maxUnavailable F - ?n"
    using assms by (auto intro!: int32_id simp: int32_ok_def)
  then show ?thesis
    by (auto simp: serversToUpdate_def Let_def go_sort.length_srt min_def)
qed


section \<open>A concrete fleet\<close>

definition ex_fleet :: "int \<Rightarrow> GameServerFleet" where
  "ex_fleet n =
     \<lparr>fleet_meta = (new_meta ''lobby'' ''tenant-a'')
        \<lparr>om_Finalizers := [gameServerFleetFinalizer], om_Generation := 2\<rparr>,
      fleet_spec =
        \<lparr>fl_Profile = ''paper'', fl_Replicas = n,
         fl_Template = \<lparr>ts_Metadata = \<lparr>tm_Labels = [], tm_Annotations = []\<rparr>,
                        ts_Spec = \<lparr>fgs_Env = []\<rparr>\<rparr>,
         fl_UpdateStrategy = \<lparr>us_Type = [], us_RollingUpdate = None\<rparr>,
         fl_PriorityClassName = [], fl_TopologySpreadConstraints = []\<rparr>,
      fleet_status = \<lparr>fls_Replicas = 0, fls_ReadyReplicas = 0, fls_UpdatedReplicas = 0,
                      fls_Conditions = []\<rparr>\<rparr>"

definition ex_fleet_key :: NamespacedName where
  "ex_fleet_key = \<lparr>nn_Namespace = ''tenant-a'', nn_Name = ''lobby''\<rparr>"

text \<open>An API server that refuses to create what it already has.\<close>

definition ex_fleet_env :: "GameServerFleet \<Rightarrow> GameServer list \<Rightarrow> fleet_env" where
  "ex_fleet_env fleet servers =
     \<lparr>fe_now = (\<lambda>_. 0), fe_getFleet = (\<lambda>_ _. Inr fleet), fe_updateFleet = (\<lambda>_ f. Inr f),
      fe_updateStatus = (\<lambda>_ _. Inr ()), fe_list = (\<lambda>_ _ _. Inr servers),
      fe_create = (\<lambda>_ s. if key_of (server_meta s) \<in> (\<lambda>x. key_of (server_meta x)) ` set servers
                         then Inl (KErr EK_AlreadyExists []) else Inr ()),
      fe_delete = (\<lambda>_ _. Inr ()), fe_update = (\<lambda>_ _. Inr ()), fe_dial = (\<lambda>_ _. Inr ()),
      fe_shutdown = (\<lambda>_ _. Inr ())\<rparr>"

lemma ex_live_fleet:
  "live_fleet ex_klib (ex_fleet_env (ex_fleet n) ss) h ex_fleet_key (ex_fleet n) ss"
  by (simp add: live_fleet_def ex_fleet_env_def ex_fleet_def ex_klib_def new_meta_def)

lemma ex_fleet_create:
  "\<exists>s. CreateServer s \<in> set (issued (ReconcileFleet ex_klib (ex_fleet_env (ex_fleet 1) [])
     \<lparr>fr_Recorder = True\<rparr> ex_fleet_key) \<lparr>calls = []\<rparr>)"
  unfolding issued_def final_def run_live_fleet [OF ex_live_fleet]
  by (simp add: scaleFleet_parts finishFleet_def
      handleRollingUpdate_def updateFleetStatus_def read_calls_def scaleUp_def createServer_def Let_def
      io_simps SetControllerReference_def ex_klib_def int32_def ex_fleet_def serversToUpdate_def
      effectiveStrategy_def ex_fleet_env_def)


section \<open>Scaling\<close>



text \<open>
  C14. A reconcile of a live fleet stays within its plan, whatever the API server answers: it creates
  servers only at indexes from the current up to the desired count, deletes only servers that the
  scale-down selected and only when there are too many, and updates only servers chosen for the
  rolling update.
\<close>

theorem fleet_reconcile_plan:
  assumes "live_fleet L E (calls w) req fleet servers" "c \<in> set (issued (ReconcileFleet L E R req) w)"
  shows "(\<forall>s. c = CreateServer s \<longrightarrow> (\<exists>i. int32 (int (length servers)) \<le> i \<and>
        i < fl_Replicas (fleet_spec fleet) \<and>
        key_of (server_meta s) = key_of (server_meta (buildGameServer fleet i)))) \<and>
    (\<forall>k. c = DeleteServer k \<longrightarrow> int32 (int (length servers)) > fl_Replicas (fleet_spec fleet) \<and>
       (\<exists>toDelete. selectServersToDelete servers (fl_Replicas (fleet_spec fleet))
            (effectiveStrategy fleet) = Inr toDelete \<and>
          k \<in> (\<lambda>s. key_of (server_meta s)) ` set toDelete)) \<and>
    (\<forall>u. c = UpdateGameServer u \<longrightarrow> effectiveStrategy fleet = ''RollingUpdate'' \<and>
       u \<in> updatedServer fleet ` set (serversToUpdate fleet servers))"
  using ReconcileFleet_permitted [OF assms] unfolding fleet_permitted_def
  by (cases c) (fastforce+)

theorem fleet_reconcile_plan_witness:
  "\<exists>s i. CreateServer s \<in> set (issued (ReconcileFleet ex_klib (ex_fleet_env (ex_fleet 1) [])
       \<lparr>fr_Recorder = True\<rparr> ex_fleet_key) \<lparr>calls = []\<rparr>) \<and> 0 \<le> i \<and> i < (1::int) \<and>
     key_of (server_meta s) = key_of (server_meta (buildGameServer (ex_fleet 1) i))"
proof -
  obtain s where s: "CreateServer s \<in> set (issued (ReconcileFleet ex_klib (ex_fleet_env (ex_fleet 1) [])
      \<lparr>fr_Recorder = True\<rparr> ex_fleet_key) \<lparr>calls = []\<rparr>)"
    using ex_fleet_create by blast
  have n: "fl_Replicas (fleet_spec (ex_fleet 1)) = 1" by (simp add: ex_fleet_def)
  from fleet_reconcile_plan [OF ex_live_fleet s] s show ?thesis
    by (auto simp: n int32_def)
qed

lemma createServer_refused:
  assumes "\<And>h s. key_of (server_meta s) = key_of (server_meta (buildGameServer fleet i)) \<Longrightarrow>
      \<exists>e. fe_create E h s = Inl e"
  shows "\<exists>e cs. run_state (createServer L E fleet i) v = (Inl e, v\<lparr>calls := calls v @ cs\<rparr>) \<and>
    (cs = [] \<or> (\<exists>s. cs = [CreateServer s]))"
proof (cases "SetControllerReference L (fleet_meta fleet) (server_meta (buildGameServer fleet i))")
  case (Inl e)
  then show ?thesis by (auto simp: createServer_def Let_def intro!: exI [of _ "[]"])
next
  case (Inr m)
  then have "key_of m = key_of (server_meta (buildGameServer fleet i))"
    by (auto simp: SetControllerReference_def key_of_def split: sum.splits)
  with assms obtain e where
    "fe_create E (calls v) ((buildGameServer fleet i)\<lparr>server_meta := m\<rparr>) = Inl e"
    by fastforce
  with Inr show ?thesis by (auto simp: createServer_def Let_def io_simps)
qed

text \<open>
  Scale-up can block itself. Names are given by position, so after a server in the middle was
  deleted the next index may be taken: if one of the listed servers already has the name of the
  first index to create, and the API server refuses to create an object that exists, the reconcile
  fails without creating anything and without updating the status.
\<close>

theorem scale_up_collides:
  assumes "live_fleet L E (calls w) req fleet servers"
    and "\<And>h s. key_of (server_meta s) \<in> (\<lambda>x. key_of (server_meta x)) ` set servers \<Longrightarrow>
            \<exists>e. fe_create E h s = Inl e"
    and "int (length servers) < 2 ^ 31" "int (length servers) < fl_Replicas (fleet_spec fleet)"
    and "key_of (server_meta (buildGameServer fleet (int (length servers))))
           \<in> (\<lambda>x. key_of (server_meta x)) ` set servers"
  shows "\<exists>e. result (ReconcileFleet L E R req) w = Inl e \<and>
    (\<forall>f. UpdateFleetStatus f \<notin> set (issued (ReconcileFleet L E R req) w)) \<and>
    length (filter (\<lambda>c. case c of CreateServer _ \<Rightarrow> True | _ \<Rightarrow> False)
      (issued (ReconcileFleet L E R req) w)) \<le> 1"
proof -
  have cur: "int32 (int (length servers)) = int (length servers)"
    using assms(3) by (intro int32_id) (simp add: int32_ok_def)
  obtain e cs where run: "run_state (createServer L E fleet (int (length servers)))
      (w\<lparr>calls := calls w @ read_calls req fleet\<rparr>) =
      (Inl e, w\<lparr>calls := calls w @ read_calls req fleet @ cs\<rparr>)"
    and cs: "cs = [] \<or> (\<exists>s. cs = [CreateServer s])"
    using createServer_refused [of fleet "int (length servers)" E L
        "w\<lparr>calls := calls w @ read_calls req fleet\<rparr>"] assms(2,5) by auto
  have "run_state (ReconcileFleet L E R req) w = (Inl e, w\<lparr>calls := calls w @ read_calls req fleet @ cs\<rparr>)"
    using assms(4) run
    by (simp add: run_live_fleet [OF assms(1)] scaleFleet_parts cur scaleUp_def run_bindE
        upto_rec1 [of "int (length servers)"])
  then show ?thesis
    using cs by (auto simp: result_def issued_def final_def read_calls_def)
qed

theorem scale_up_collides_witness:
  "\<exists>e. result (ReconcileFleet ex_klib
      (ex_fleet_env (ex_fleet 2) [buildGameServer (ex_fleet 2) 1]) \<lparr>fr_Recorder = True\<rparr> ex_fleet_key)
      \<lparr>calls = []\<rparr> = Inl e"
proof -
  let ?ss = "[buildGameServer (ex_fleet 2) 1]"
  have "fl_Replicas (fleet_spec (ex_fleet 2)) = 2" by (simp add: ex_fleet_def)
  then show ?thesis
    using scale_up_collides [where servers = ?ss and w = "\<lparr>calls = []\<rparr>" and R = "\<lparr>fr_Recorder = True\<rparr>",
        OF ex_live_fleet] by (auto simp: ex_fleet_env_def)
qed


section \<open>Rolling updates\<close>

text \<open>
  A rolling update is blocked once as many servers are outdated as may be unavailable: the code
  counts the outdated servers themselves as being updated, so with \<open>n\<close> outdated servers it
  updates at most \<^verbatim>\<open>maxUnavailable - n\<close> of them. In particular, with the default of one, no
  server of a fleet is ever updated after its template changed.
\<close>

theorem rolling_update_blocked:
  assumes "live_fleet L E (calls w) req fleet servers"
    and "int32_ok (maxUnavailable fleet)" "0 \<le> maxUnavailable fleet" "int (length servers) < 2 ^ 31"
    and "maxUnavailable fleet \<le> int (length (filter (outdated fleet) servers)) \<or>
         maxUnavailable fleet = 1"
  shows "UpdateGameServer u \<notin> set (issued (ReconcileFleet L E R req) w)"
proof -
  have "length (serversToUpdate fleet servers) = 0"
    using serversToUpdate_length [OF assms(2,3,4)] assms(3,5) by auto
  then show ?thesis
    using ReconcileFleet_permitted [OF assms(1)] by (fastforce simp: fleet_permitted_def)
qed

theorem rolling_update_blocked_witness:
  "\<forall>u. UpdateGameServer u \<notin> set (issued (ReconcileFleet ex_klib
      (ex_fleet_env (ex_fleet 1) [(buildGameServer (ex_fleet 1) 0)
         \<lparr>server_meta := new_meta ''lobby-0'' ''tenant-a''\<rparr>]) \<lparr>fr_Recorder = True\<rparr> ex_fleet_key)
      \<lparr>calls = []\<rparr>)"
  by (intro allI rolling_update_blocked [OF ex_live_fleet])
    (simp_all add: maxUnavailable_def ex_fleet_def int32_ok_def)


section \<open>Deletion\<close>

interpretation fleet_fin: finalized
  "\<lambda>fleet. ContainsFinalizer L (om_Finalizers (fleet_meta fleet)) gameServerFleetFinalizer"
  "cleanupFleet E"
  "\<lambda>fleet. UpdateFleet (fleet_finalizers (\<lambda>fs. RemoveFinalizer L fs gameServerFleetFinalizer) fleet)"
  "\<lambda>fleet h. fe_updateFleet E h
     (fleet_finalizers (\<lambda>fs. RemoveFinalizer L fs gameServerFleetFinalizer) fleet)"
  "fleetDeleted L E"
  for L E
proof
  fix fleet
  show "emits (\<lambda>c. c \<noteq> UpdateFleet (fleet_finalizers (\<lambda>fs. RemoveFinalizer L fs gameServerFleetFinalizer) fleet))
      (cleanupFleet E fleet) (\<lambda>_. True)"
    unfolding cleanupFleet_def listFleetServers_def deleteServer_def
    by (intro emits_steps emits_intros emits_forE) auto
qed (simp add: fleetDeleted_def updateFleet_def)

lemma cleanupFleet_calls:
  assumes "result (cleanupFleet E fleet) w = Inr ()"
  shows "\<exists>servers. fe_list E (calls w) (fleet_namespace fleet) [(fleetLabel, fleet_name fleet)] = Inr servers \<and>
    issued (cleanupFleet E fleet) w =
      ListServers (fleet_namespace fleet) [(fleetLabel, fleet_name fleet)] #
      map (\<lambda>s. DeleteServer (key_of (server_meta s))) servers"
proof -
  let ?c = "ListServers (fleet_namespace fleet) [(fleetLabel, fleet_name fleet)]"
  let ?w = "w\<lparr>calls := calls w @ [?c]\<rparr>"
  have body: "run_state (deleteServer E s) v = (ignoring IsNotFound (fe_delete E (calls v) (key_of (server_meta s))),
      v\<lparr>calls := calls v @ [DeleteServer (key_of (server_meta s))]\<rparr>)" for s and v :: "fleet_call world"
    by (simp add: deleteServer_def io_simps)
  from assms obtain servers where ls: "fe_list E (calls w) (fleet_namespace fleet) [(fleetLabel, fleet_name fleet)] = Inr servers"
    and ok: "result (forE (deleteServer E) servers) ?w = Inr ()"
    by (auto simp: cleanupFleet_def listFleetServers_def result_def io_simps split: sum.splits)
  from forE_calls [of "deleteServer E", OF body, of servers ?w] ok
  have "final (forE (deleteServer E) servers) ?w =
      ?w\<lparr>calls := calls ?w @ map (\<lambda>s. DeleteServer (key_of (server_meta s))) servers\<rparr>"
    by auto
  then have "issued (cleanupFleet E fleet) w = ?c # map (\<lambda>s. DeleteServer (key_of (server_meta s))) servers"
    by (intro issued_eqI) (simp add: cleanupFleet_def listFleetServers_def final_def io_simps ls)
  with ls show ?thesis by blast
qed

text \<open>
  The fleet's finalizer is removed only after every server listed for it was deleted: the calls
  of such a pass are the listing, one delete per listed server in order, and the removal.
\<close>

theorem fleet_finalizer_last:
  assumes "UpdateFleet (fleet_finalizers (\<lambda>fs. RemoveFinalizer L fs gameServerFleetFinalizer) fleet)
     \<in> set (issued (fleetDeleted L E fleet) w)"
  shows "\<exists>servers. fe_list E (calls w) (fleet_namespace fleet) [(fleetLabel, fleet_name fleet)] = Inr servers \<and>
    issued (fleetDeleted L E fleet) w =
      ListServers (fleet_namespace fleet) [(fleetLabel, fleet_name fleet)] #
      map (\<lambda>s. DeleteServer (key_of (server_meta s))) servers @
      [UpdateFleet (fleet_finalizers (\<lambda>fs. RemoveFinalizer L fs gameServerFleetFinalizer) fleet)]"
  using fleet_fin.removal_after_cleanup [OF assms] cleanupFleet_calls [of E fleet w] by fastforce

theorem fleet_finalizer_last_witness:
  "issued (fleetDeleted ex_klib (ex_fleet_env (ex_fleet 1) []) (ex_fleet 1)) \<lparr>calls = []\<rparr> =
     [ListServers ''tenant-a'' [(fleetLabel, ''lobby'')],
      UpdateFleet (fleet_finalizers (\<lambda>fs. RemoveFinalizer ex_klib fs gameServerFleetFinalizer) (ex_fleet 1))]"
proof -
  have "UpdateFleet (fleet_finalizers (\<lambda>fs. RemoveFinalizer ex_klib fs gameServerFleetFinalizer) (ex_fleet 1))
     \<in> set (issued (fleetDeleted ex_klib (ex_fleet_env (ex_fleet 1) []) (ex_fleet 1)) \<lparr>calls = []\<rparr>)"
    by (simp add: issued_def final_def fleetDeleted_def cleanupFleet_def listFleetServers_def
        updateFleet_def io_simps ex_fleet_env_def ex_klib_def ex_fleet_def)
  from fleet_finalizer_last [OF this] show ?thesis
    by (auto simp: ex_fleet_env_def ex_fleet_def new_meta_def)
qed

end
