(* ===== verification/Action_Controller.thy ===== *)
theory Action_Controller
  imports GameServer_Objects
begin

text \<open>
  The ActionExecution reconciler and its clean-up task
  (\<^verbatim>\<open>internal/controllers/actionexecution_controller.go\<close>, \<^verbatim>\<open>actionexecution_cleanup.go\<close>). The world
  carries the history of calls and the metric vectors. The iteration order of the Go map of declared
  parameters is the order of the list that stands for it; it only decides which of several missing
  parameters is named in the message.
\<close>

section \<open>Calls and environment\<close>

text \<open>The state in the agent's answer (\<^verbatim>\<open>agentv1.ActionState\<close>) and the fields that are used of it.\<close>

datatype AgentActionState =
    ACTION_STATE_UNSPECIFIED
  | ACTION_STATE_PENDING
  | ACTION_STATE_RUNNING
  | ACTION_STATE_SUCCEEDED
  | ACTION_STATE_FAILED
  | ACTION_STATE_TIMED_OUT
  | ACTION_STATE_REJECTED

record ExecuteActionResponse =
  ar_State :: AgentActionState
  ar_Error :: string
  ar_Result :: string

datatype act_call =
    ANow
  | GetExec NamespacedName
  | UpdateExecStatus ActionExecution
  | GetTarget NamespacedName
  | GetTargetProfile string
  | ListExecs "string option"
  | GetTargetService NamespacedName
  | Connect string
  | ExecuteAction string string labels string duration
  | DeleteExec NamespacedName

record act_env =
  xe_now :: "act_call list \<Rightarrow> time"
  xe_getExec :: "act_call list \<Rightarrow> NamespacedName \<Rightarrow> kerr + ActionExecution"
  xe_updateStatus :: "act_call list \<Rightarrow> ActionExecution \<Rightarrow> kerr + ActionExecution"
  xe_getServer :: "act_call list \<Rightarrow> NamespacedName \<Rightarrow> kerr + GameServer"
  xe_getProfile :: "act_call list \<Rightarrow> string \<Rightarrow> kerr + GameProfile"
  xe_list :: "act_call list \<Rightarrow> string option \<Rightarrow> kerr + ActionExecution list"
  xe_getService :: "act_call list \<Rightarrow> NamespacedName \<Rightarrow> kerr + Service"
  xe_connect :: "act_call list \<Rightarrow> string \<Rightarrow> kerr + unit"
  xe_execute :: "act_call list \<Rightarrow> string \<Rightarrow> string \<Rightarrow> kerr + ExecuteActionResponse"
  xe_delete :: "act_call list \<Rightarrow> NamespacedName \<Rightarrow> kerr + unit"

record act_world = "act_call world" +
  aw_metrics :: Metrics

type_synonym 'a act_prog = "(act_world, 'a) state"

definition defaultActionTimeout :: duration where "defaultActionTimeout = 5 * minute"

definition count_result :: "string \<Rightarrow> string \<Rightarrow> unit act_prog" where
  "count_result action res =
     State (\<lambda>w. ((), w\<lparr>aw_metrics := observeActionExecution action res (aw_metrics w)\<rparr>))"

lemma run_count_result [io_simps]:
  "run_state (count_result a r) w = ((), w\<lparr>aw_metrics := observeActionExecution a r (aw_metrics w)\<rparr>)"
  by (simp add: count_result_def)

lemma emits_count_result [emits_intros]: "Q () \<Longrightarrow> emits P (count_result a r) Q"
  by (simp add: emits_def run_count_result)


section \<open>State changes\<close>

definition terminalState :: "string \<Rightarrow> bool" where
  "terminalState state \<longleftrightarrow>
     state = ActionExecutionSucceeded \<or> state = ActionExecutionFailed \<or>
     state = ActionExecutionTimedOut \<or> state = ActionExecutionRejected"

definition stateStatus ::
    "ActionExecution \<Rightarrow> string \<Rightarrow> string \<Rightarrow> string \<Rightarrow> time \<Rightarrow> ActionExecution" where
  "stateStatus exec state res errMsg now =
     exec\<lparr>exec_status := (exec_status exec)
       \<lparr>aes_State := state,
        aes_StartedAt := (if state = ActionExecutionRunning then Some now
                          else aes_StartedAt (exec_status exec)),
        aes_EndedAt := (if terminalState state then Some now else aes_EndedAt (exec_status exec)),
        aes_AgentResponse := res, aes_Error := errMsg,
        aes_Conditions := setCondition (aes_Conditions (exec_status exec))
          \<lparr>c_Type = state, c_Status = ConditionTrue, c_Reason = state, c_Message = errMsg,
           c_ObservedGeneration = om_Generation (exec_meta exec), c_LastTransitionTime = now\<rparr>\<rparr>\<rparr>"

text \<open>
  The error of the status write is dropped; the object the caller goes on with is the server's
  answer when there is one.
\<close>

definition setState ::
    "act_env \<Rightarrow> ActionExecution \<Rightarrow> string \<Rightarrow> string \<Rightarrow> string \<Rightarrow> ActionExecution act_prog" where
  "setState E exec state res errMsg =
     do {
       now \<leftarrow> perform ANow (xe_now E);
       (if terminalState state then count_result (ae_ActionName (exec_spec exec)) state
        else State_Monad.return ());
       r \<leftarrow> perform (UpdateExecStatus (stateStatus exec state res errMsg now))
              (\<lambda>h. xe_updateStatus E h (stateStatus exec state res errMsg now));
       State_Monad.return (case r of Inl _ \<Rightarrow> stateStatus exec state res errMsg now | Inr x \<Rightarrow> x)
     }"


section \<open>Validation and concurrency\<close>

fun validateParams :: "labels \<Rightarrow> (string, ActionParamSchema) gomap \<Rightarrow> kerr + unit" where
  "validateParams given [] = Inr ()"
| "validateParams given ((name, param) # rest) =
     (if ap_Required param \<and> map_of given name = None
      then Inl (new_error (''required param '' @ quoted name @ '' missing''))
      else validateParams given rest)"

definition findAction :: "GameProfile \<Rightarrow> string \<Rightarrow> ActionDecl option" where
  "findAction profile name = find (\<lambda>a. ad_Name a = name) (gp_Actions (profile_spec profile))"

text \<open>The loop of \<^verbatim>\<open>checkConcurrency\<close>: \<open>None\<close> when the action may run, else the reason.\<close>

fun blockedBy ::
    "ActionExecution \<Rightarrow> GameServer \<Rightarrow> ActionDecl \<Rightarrow> ActionExecution list \<Rightarrow> string option" where
  "blockedBy exec server decl [] = None"
| "blockedBy exec server decl (other # others) =
     (if om_Name (exec_meta other) = om_Name (exec_meta exec) then blockedBy exec server decl others
      else if aes_State (exec_status other) \<noteq> ActionExecutionRunning
        then blockedBy exec server decl others
      else if tr_Name (ae_TargetRef (exec_spec other)) \<noteq> server_name server
        then blockedBy exec server decl others
      else if ad_Concurrency decl = ActionConcurrencyExclusive
        then Some (''exclusive action blocked by running execution '' @ quoted (om_Name (exec_meta other)))
      else if ad_Concurrency decl = ActionConcurrencySerialize \<and>
              ae_ActionName (exec_spec other) = ae_ActionName (exec_spec exec)
        then Some (''serialized action blocked by running execution '' @ quoted (om_Name (exec_meta other)))
      else blockedBy exec server decl others)"

definition checkConcurrency ::
    "act_env \<Rightarrow> ActionExecution \<Rightarrow> GameServer \<Rightarrow> ActionDecl \<Rightarrow> (string option) act_prog" where
  "checkConcurrency E exec server decl =
     do {
       got \<leftarrow> perform (ListExecs (Some (server_namespace server)))
                (\<lambda>h. xe_list E h (Some (server_namespace server)));
       State_Monad.return (case got of
         Inl err \<Rightarrow> Some (''failed to list action executions: '' @ err_msg err)
       | Inr items \<Rightarrow> blockedBy exec server decl items)
     }"


section \<open>Dispatch\<close>

definition actionAddress :: "Service \<Rightarrow> string" where
  "actionAddress svc =
     om_Name (svc_meta svc) @ ''.'' @ om_Namespace (svc_meta svc) @ ''.svc.cluster.local:'' @
     show_int AgentGRPCPort"

definition responseResult :: "ExecuteActionResponse \<Rightarrow> kerr + string" where
  "responseResult resp =
     (case ar_State resp of
        ACTION_STATE_FAILED \<Rightarrow> Inl (new_error (''agent reported failure: '' @ ar_Error resp))
      | ACTION_STATE_REJECTED \<Rightarrow> Inl (new_error (''agent rejected action: '' @ ar_Error resp))
      | _ \<Rightarrow> Inr (ar_Result resp))"

definition dispatchToAgent ::
    "act_env \<Rightarrow> GameServer \<Rightarrow> ActionExecution \<Rightarrow> duration \<Rightarrow> (kerr + string) act_prog" where
  "dispatchToAgent E server exec timeout =
     bindE (fmap (map_err (wrap_error ''failed to get service: ''))
              (perform (GetTargetService (key_of (server_meta server)))
                 (\<lambda>h. xe_getService E h (key_of (server_meta server))))) (\<lambda>svc.
     bindE (fmap (map_err (wrap_error ''failed to connect to agent: ''))
              (perform (Connect (actionAddress svc)) (\<lambda>h. xe_connect E h (actionAddress svc)))) (\<lambda>_.
     bindE (fmap (map_err (wrap_error ''agent execution failed: ''))
              (perform (ExecuteAction (actionAddress svc) (ae_ActionName (exec_spec exec))
                  (ae_Params (exec_spec exec)) (om_Name (exec_meta exec)) timeout)
                 (\<lambda>h. xe_execute E h (actionAddress svc) (ae_ActionName (exec_spec exec))))) (\<lambda>resp.
     State_Monad.return (responseResult resp))))"

definition actionTimeout :: "ActionDecl \<Rightarrow> duration" where
  "actionTimeout decl =
     (if ad_Timeout decl \<noteq> []
      then (case ParseDuration (ad_Timeout decl) of None \<Rightarrow> defaultActionTimeout | Some d \<Rightarrow> d)
      else defaultActionTimeout)"


section \<open>Reconcile\<close>

definition runAction ::
    "act_env \<Rightarrow> ActionExecution \<Rightarrow> GameServer \<Rightarrow> ActionDecl \<Rightarrow> unit act_prog" where
  "runAction E exec server decl =
     do {
       exec \<leftarrow> setState E exec ActionExecutionRunning [] [];
       r \<leftarrow> dispatchToAgent E server exec (actionTimeout decl);
       (case r of
          Inl err \<Rightarrow> fmap (\<lambda>_. ()) (setState E exec ActionExecutionFailed [] (err_msg err))
        | Inr res \<Rightarrow> fmap (\<lambda>_. ()) (setState E exec ActionExecutionSucceeded res []))
     }"

definition reject :: "act_env \<Rightarrow> ActionExecution \<Rightarrow> string \<Rightarrow> (kerr + unit) act_prog" where
  "reject E exec msg =
     do { setState E exec ActionExecutionRejected [] msg; State_Monad.return (Inr ()) }"

definition serverKey :: "NamespacedName \<Rightarrow> ActionExecution \<Rightarrow> NamespacedName" where
  "serverKey req exec =
     (let ref = ae_TargetRef (exec_spec exec)
      in \<lparr>nn_Namespace = (if tr_Namespace ref = [] then nn_Namespace req else tr_Namespace ref),
          nn_Name = tr_Name ref\<rparr>)"

definition reconcilePending ::
    "act_env \<Rightarrow> NamespacedName \<Rightarrow> ActionExecution \<Rightarrow> (kerr + unit) act_prog" where
  "reconcilePending E req exec =
     do {
       got \<leftarrow> perform (GetTarget (serverKey req exec)) (\<lambda>h. xe_getServer E h (serverKey req exec));
       case got of
         Inl err \<Rightarrow> if IsNotFound err then reject E exec ''target GameServer not found''
                    else State_Monad.return (Inl err)
       | Inr server \<Rightarrow> do {
           got \<leftarrow> perform (GetTargetProfile (gs_Profile (server_spec server)))
                    (\<lambda>h. xe_getProfile E h (gs_Profile (server_spec server)));
           case got of
             Inl err \<Rightarrow> if IsNotFound err then reject E exec ''referenced GameProfile not found''
                        else State_Monad.return (Inl err)
           | Inr profile \<Rightarrow>
               (case findAction profile (ae_ActionName (exec_spec exec)) of
                  None \<Rightarrow> reject E exec (''action '' @ quoted (ae_ActionName (exec_spec exec)) @
                            '' not found in profile '' @ quoted (profile_name profile))
                | Some decl \<Rightarrow>
                    (case validateParams (ae_Params (exec_spec exec)) (ad_Params decl) of
                       Inl err \<Rightarrow> reject E exec (err_msg err)
                     | Inr _ \<Rightarrow> do {
                         blocked \<leftarrow> checkConcurrency E exec server decl;
                         case blocked of
                           Some reason \<Rightarrow> reject E exec reason
                         | None \<Rightarrow> do { runAction E exec server decl; State_Monad.return (Inr ()) }
                       }))
         }
     }"

definition reconcileExec ::
    "act_env \<Rightarrow> NamespacedName \<Rightarrow> ActionExecution \<Rightarrow> (kerr + unit) act_prog" where
  "reconcileExec E req exec =
     (if om_DeletionTimestamp (exec_meta exec) = None \<and> aes_State (exec_status exec) = [] then
        (let exec = exec\<lparr>exec_status := (exec_status exec)\<lparr>aes_State := ActionExecutionPending\<rparr>\<rparr>
         in fmap (map_sum id (\<lambda>_. ()))
              (perform (UpdateExecStatus exec) (\<lambda>h. xe_updateStatus E h exec)))
      else if aes_State (exec_status exec) \<noteq> ActionExecutionPending then State_Monad.return (Inr ())
      else reconcilePending E req exec)"

definition ReconcileAction :: "act_env \<Rightarrow> NamespacedName \<Rightarrow> (kerr + unit) act_prog" where
  "ReconcileAction E req =
     do {
       got \<leftarrow> perform (GetExec req) (\<lambda>h. xe_getExec E h req);
       case got of
         Inl err \<Rightarrow> if IsNotFound err then State_Monad.return (Inr ()) else State_Monad.return (Inl err)
       | Inr exec \<Rightarrow> reconcileExec E req exec
     }"


section \<open>The clean-up task\<close>

definition actionExecutionTTLCleanupInterval :: duration where
  "actionExecutionTTLCleanupInterval = 1 * hour"
definition actionExecutionSuccessTTL :: duration where "actionExecutionSuccessTTL = 7 * 24 * hour"
definition actionExecutionFailedTTL :: duration where "actionExecutionFailedTTL = 30 * 24 * hour"

definition execExpired :: "time \<Rightarrow> ActionExecution \<Rightarrow> bool" where
  "execExpired now exec \<longleftrightarrow>
     terminalState (aes_State (exec_status exec)) \<and>
     (case aes_EndedAt (exec_status exec) of
        None \<Rightarrow> False
      | Some ended \<Rightarrow>
          now - ended > (if aes_State (exec_status exec) = ActionExecutionSucceeded
                         then actionExecutionSuccessTTL else actionExecutionFailedTTL))"

definition cleanupExecutions :: "act_env \<Rightarrow> (kerr + unit) act_prog" where
  "cleanupExecutions E =
     bindE (perform (ListExecs None) (\<lambda>h. xe_list E h None)) (\<lambda>items. do {
       now \<leftarrow> perform ANow (xe_now E);
       for_each (\<lambda>exec. if execExpired now exec
           then fmap (\<lambda>_. ()) (perform (DeleteExec (key_of (exec_meta exec)))
                  (\<lambda>h. xe_delete E h (key_of (exec_meta exec))))
           else State_Monad.return ()) items;
       State_Monad.return (Inr ())
     })"

end
