(* ===== verification/Action_Properties.thy ===== *)
theory Action_Properties
  imports Action_Controller GameServer_Properties
begin

text \<open>
  Properties of action executions: the state machine that their status follows, the checks before an
  action reaches the agent, what is recorded of the agent's answer, and the clean-up of old ones.
\<close>

section \<open>The state machine\<close>

text \<open>The moves of the \<^verbatim>\<open>state\<close> field that one status write may make.\<close>

inductive action_move :: "string \<Rightarrow> string \<Rightarrow> bool" where
  accepted: "action_move [] ActionExecutionPending"
| rejected: "action_move ActionExecutionPending ActionExecutionRejected"
| started: "action_move ActionExecutionPending ActionExecutionRunning"
| failed: "action_move ActionExecutionRunning ActionExecutionFailed"
| succeeded: "action_move ActionExecutionRunning ActionExecutionSucceeded"

inductive_simps action_move_from: "action_move s t"

lemma terminal_final: "terminalState s \<Longrightarrow> \<not> action_move s t"
  by (auto simp: terminalState_def action_move_from action_state_defs)

lemma never_timed_out: "action_move\<^sup>*\<^sup>* [] s \<Longrightarrow> s \<noteq> ActionExecutionTimedOut"
  by (induction rule: rtranclp_induct) (auto simp: action_move_from action_state_defs)

fun written_state :: "act_call \<Rightarrow> string option" where
  "written_state (UpdateExecStatus x) = Some (aes_State (exec_status x))"
| "written_state c = None"

definition written_states :: "act_call list \<Rightarrow> string list" where
  "written_states cs = List.map_filter written_state cs"

lemma written_states_simps [simp]:
  "written_states [] = []"
  "written_states (xs @ ys) = written_states xs @ written_states ys"
  "written_states (c # cs) = (case written_state c of None \<Rightarrow> written_states cs
                              | Some s \<Rightarrow> s # written_states cs)"
  by (simp_all add: written_states_def List.map_filter_def split: option.splits)

lemma written_states_none:
  assumes "emits (\<lambda>c. written_state c = None) m Q"
  shows "written_states (issued m w) = []"
proof -
  have "\<forall>c\<in>set (issued m w). written_state c = None" using emitsD_issued [OF assms] by blast
  then show ?thesis unfolding written_states_def by (induction "issued m w") (auto simp: List.map_filter_def)
qed

text \<open>The states a list of writes goes through.\<close>

fun follows :: "string \<Rightarrow> string list \<Rightarrow> bool" where
  "follows s [] = True"
| "follows s (t # ts) = (action_move s t \<and> follows t ts)"

lemma run_setState:
  "\<exists>x w'. run_state (setState E exec st res msg) w = (x, w') \<and>
     calls w' = calls w @ [ANow, UpdateExecStatus (stateStatus exec st res msg (xe_now E (calls w)))]"
  by (auto simp: setState_def io_simps)

lemma emits_setState: "emits (\<lambda>_. True) (setState E exec st res msg) (\<lambda>_. True)"
  unfolding setState_def by (intro emits_steps emits_intros) auto

lemma written_setState: "written_states (issued (setState E exec st res msg) w) = [st]"
proof -
  obtain x w' where "run_state (setState E exec st res msg) w = (x, w')"
    "calls w' = calls w @ [ANow, UpdateExecStatus (stateStatus exec st res msg (xe_now E (calls w)))]"
    using run_setState by blast
  then show ?thesis by (simp add: issued_def final_def stateStatus_def)
qed

lemma emits_dispatch:
  assumes "\<And>k. P (GetTargetService k)" "\<And>a. P (Connect a)" "\<And>a n p i t. P (ExecuteAction a n p i t)"
  shows "emits P (dispatchToAgent E server exec t) (\<lambda>_. True)"
  unfolding dispatchToAgent_def by (intro emits_steps emits_intros) (auto intro: assms)

lemma written_dispatch: "written_states (issued (dispatchToAgent E server exec t) w) = []"
  by (rule written_states_none [OF emits_dispatch]) auto

lemma written_fmap: "issued (fmap f m) w = issued m w"
  by (simp add: issued_def final_def run_fmap split: prod.splits)

definition finishAction :: "act_env \<Rightarrow> ActionExecution \<Rightarrow> kerr + string \<Rightarrow> unit act_prog" where
  "finishAction E exec r =
     (case r of
        Inl err \<Rightarrow> fmap (\<lambda>_. ()) (setState E exec ActionExecutionFailed [] (err_msg err))
      | Inr res \<Rightarrow> fmap (\<lambda>_. ()) (setState E exec ActionExecutionSucceeded res []))"

lemma emits_finishAction: "emits (\<lambda>_. True) (finishAction E exec r) (\<lambda>_. True)"
  unfolding finishAction_def by (intro emits_intros) (auto intro: emits_any [OF emits_setState])

lemma written_finishAction:
  "written_states (issued (finishAction E exec r) w) =
     [case r of Inl _ \<Rightarrow> ActionExecutionFailed | Inr _ \<Rightarrow> ActionExecutionSucceeded]"
  by (cases r) (simp_all add: finishAction_def written_fmap written_setState)

lemma runAction_parts:
  "runAction E exec server decl =
     do { exec \<leftarrow> setState E exec ActionExecutionRunning [] [];
          r \<leftarrow> dispatchToAgent E server exec (actionTimeout decl);
          finishAction E exec r }"
  by (simp add: runAction_def finishAction_def)

lemma emits_dispatch_any: "emits (\<lambda>_. True) (dispatchToAgent E server exec t) (\<lambda>_. True)"
  by (rule emits_dispatch) auto

lemma emits_dispatch_finish:
  "emits (\<lambda>_. True) (do { r \<leftarrow> dispatchToAgent E server exec t; finishAction E exec r }) (\<lambda>_. True)"
  by (intro emits_seq emits_dispatch_any emits_finishAction)

lemma emits_runAction: "emits (\<lambda>_. True) (runAction E exec server decl) (\<lambda>_. True)"
  unfolding runAction_parts by (intro emits_seq emits_setState emits_dispatch_finish)

lemma written_runAction:
  "written_states (issued (runAction E exec server decl) w) =
     (let exec' = result (setState E exec ActionExecutionRunning [] []) w;
          w' = final (setState E exec ActionExecutionRunning [] []) w
      in [ActionExecutionRunning,
          case result (dispatchToAgent E server exec' (actionTimeout decl)) w' of
            Inl _ \<Rightarrow> ActionExecutionFailed | Inr _ \<Rightarrow> ActionExecutionSucceeded])"
  unfolding runAction_parts
  by (simp add: issued_bind [OF emits_setState emits_dispatch_finish]
      issued_bind [OF emits_dispatch_any emits_finishAction]
      written_setState written_dispatch written_finishAction Let_def)

text \<open>\<open>writes m S\<close>: every run of \<open>m\<close> writes one of the state sequences in \<open>S\<close>.\<close>

definition writes :: "'a act_prog \<Rightarrow> string list set \<Rightarrow> bool" where
  "writes m S \<longleftrightarrow> (\<forall>w. \<exists>cs. calls (final m w) = calls w @ cs \<and> written_states cs \<in> S)"

lemma writesD: "writes m S \<Longrightarrow> written_states (issued m w) \<in> S"
  unfolding writes_def using issued_eqI by metis

lemma writesI:
  assumes "emits (\<lambda>_. True) m (\<lambda>_. True)" "\<And>w. written_states (issued m w) \<in> S"
  shows "writes m S"
  unfolding writes_def using assms calls_final [OF assms(1)] by blast

lemma writes_return: "[] \<in> S \<Longrightarrow> writes (State_Monad.return a) S"
  by (auto simp: writes_def final_def intro!: exI [of _ "[]"])

lemma writes_call:
  assumes "written_state c = None" "\<And>h. writes (f (answer h)) S"
  shows "writes (State_Monad.bind (perform c answer) f) S"
  unfolding writes_def
proof
  fix w :: act_world
  let ?w = "w\<lparr>calls := calls w @ [c]\<rparr>"
  obtain cs where "calls (final (f (answer (calls w))) ?w) = calls ?w @ cs" "written_states cs \<in> S"
    using assms(2) unfolding writes_def by metis
  then show "\<exists>cs. calls (final (State_Monad.bind (perform c answer) f) w) = calls w @ cs \<and>
      written_states cs \<in> S"
    using assms(1) by (intro exI [of _ "c # cs"]) (simp add: final_def run_perform)
qed

lemma writes_fmap: "writes (fmap f m) S \<longleftrightarrow> writes m S"
  by (simp add: writes_def final_def run_fmap case_prod_beta)

lemma writes_then_return:
  "writes m S \<Longrightarrow> writes (State_Monad.bind m (\<lambda>_. State_Monad.return a)) S"
  by (simp add: writes_def final_def case_prod_beta)

definition pending_writes :: "string list set" where
  "pending_writes =
     {[], [ActionExecutionRejected], [ActionExecutionRunning, ActionExecutionFailed],
      [ActionExecutionRunning, ActionExecutionSucceeded]}"

lemma pending_writes_follow: "ts \<in> pending_writes \<Longrightarrow> follows ActionExecutionPending ts"
  by (auto simp: pending_writes_def intro: action_move.intros)

lemma writes_reject: "writes (reject E exec msg) pending_writes"
  unfolding reject_def
  by (intro writes_then_return writesI emits_setState) (simp add: written_setState pending_writes_def)

lemma writes_runAction: "writes (runAction E exec server decl) pending_writes"
  by (intro writesI emits_runAction)
    (simp add: written_runAction Let_def pending_writes_def split: sum.splits)

lemma bind_fmap_return: "State_Monad.bind m (\<lambda>x. State_Monad.return (f x)) = fmap f m"
  by (simp add: fmap_def)

lemma writes_reconcilePending: "writes (reconcilePending E req exec) pending_writes"
proof -
  have e: "[] \<in> pending_writes" by (simp add: pending_writes_def)
  show ?thesis
    unfolding reconcilePending_def checkConcurrency_def
    by (auto intro!: writes_call writes_return writes_reject writes_then_return writes_runAction e
        split: sum.split option.split)
qed


definition exec_writes :: "string \<Rightarrow> string list set" where
  "exec_writes s =
     (if s = ActionExecutionPending then pending_writes
      else if s = [] then {[], [ActionExecutionPending]} else {[]})"

lemma writes_reconcileExec: "writes (reconcileExec E req exec) (exec_writes (aes_State (exec_status exec)))"
proof (cases "om_DeletionTimestamp (exec_meta exec) = None \<and> aes_State (exec_status exec) = []")
  case True
  then show ?thesis
    by (simp add: reconcileExec_def writes_fmap Let_def exec_writes_def)
      (simp add: writes_def final_def run_perform action_state_defs)
next
  case False
  then show ?thesis
    using writes_reconcilePending by (auto simp: reconcileExec_def exec_writes_def intro!: writes_return)
qed


section \<open>A concrete action\<close>

definition ex_action :: "string \<Rightarrow> ActionDecl" where
  "ex_action concurrency =
     \<lparr>ad_Name = ''save'', ad_Description = [],
      ad_Params = [(''world'', \<lparr>ap_Type = ''string'', ap_Required = True, ap_Description = [],
                                 ap_Default = []\<rparr>)],
      ad_Returns = [], ad_Concurrency = concurrency, ad_Timeout = ''30s''\<rparr>"

definition ex_action_profile :: "string \<Rightarrow> GameProfile" where
  "ex_action_profile concurrency =
     ex_profile\<lparr>profile_spec := (profile_spec ex_profile)\<lparr>gp_Actions := [ex_action concurrency]\<rparr>\<rparr>"

definition ex_exec :: "string \<Rightarrow> string \<Rightarrow> time option \<Rightarrow> ActionExecution" where
  "ex_exec name state ended =
     \<lparr>exec_meta = new_meta name ''tenant-a'',
      exec_spec = \<lparr>ae_TargetRef = \<lparr>tr_APIVersion = [], tr_Kind = [], tr_Name = ''smp'', tr_Namespace = []\<rparr>,
                   ae_ActionName = ''save'', ae_Params = [(''world'', ''overworld'')], ae_Caller = []\<rparr>,
      exec_status = \<lparr>aes_State = state, aes_StartedAt = None, aes_EndedAt = ended,
                     aes_AgentResponse = [], aes_Error = [], aes_Conditions = []\<rparr>\<rparr>"

text \<open>A cluster where every status write is refused, as it is when the object was changed meanwhile.\<close>

definition ex_act_env :: "ActionExecution \<Rightarrow> ActionExecution list \<Rightarrow> AgentActionState \<Rightarrow> act_env" where
  "ex_act_env exec items answer =
     \<lparr>xe_now = (\<lambda>_. 0), xe_getExec = (\<lambda>_ _. Inr exec),
      xe_updateStatus = (\<lambda>_ _. Inl (new_error ''conflict'')),
      xe_getServer = (\<lambda>_ _. Inr (ex_server True stateRunning None)),
      xe_getProfile = (\<lambda>_ _. Inr (ex_action_profile ActionConcurrencyExclusive)),
      xe_list = (\<lambda>_ _. Inr items),
      xe_getService = (\<lambda>_ _. Inr (buildHeadlessService (ex_server True stateRunning None) [])),
      xe_connect = (\<lambda>_ _. Inr ()),
      xe_execute = (\<lambda>_ _ _. Inr \<lparr>ar_State = answer, ar_Error = [], ar_Result = []\<rparr>),
      xe_delete = (\<lambda>_ _. Inr ())\<rparr>"

definition ex_act_world :: act_world where
  "ex_act_world = \<lparr>calls = [], aw_metrics = no_metrics\<rparr>"

lemma ex_act_answers [simp]:
  "xe_getExec (ex_act_env x items a) h k = Inr x"
  "xe_updateStatus (ex_act_env x items a) h y = Inl (new_error ''conflict'')"
  "xe_getServer (ex_act_env x items a) h k = Inr (ex_server True stateRunning None)"
  "xe_getProfile (ex_act_env x items a) h n = Inr (ex_action_profile ActionConcurrencyExclusive)"
  "xe_list (ex_act_env x items a) h ns = Inr items"
  "xe_getService (ex_act_env x items a) h k =
     Inr (buildHeadlessService (ex_server True stateRunning None) [])"
  "xe_connect (ex_act_env x items a) h addr = Inr ()"
  "xe_execute (ex_act_env x items a) h addr n = Inr \<lparr>ar_State = a, ar_Error = [], ar_Result = []\<rparr>"
  "xe_now (ex_act_env x items a) h = 0"
  by (simp_all add: ex_act_env_def)

lemma ex_findAction:
  "findAction (ex_action_profile c) (ae_ActionName (exec_spec (ex_exec n st e))) = Some (ex_action c)"
  "validateParams (ae_Params (exec_spec (ex_exec n st e))) (ad_Params (ex_action c)) = Inr ()"
  by (simp_all add: findAction_def ex_action_profile_def ex_action_def ex_exec_def)


section \<open>What the reconciler writes\<close>

text \<open>
  C11. The state of an action follows the state machine: from the state that was read, the status
  writes of one reconcile, in order, are moves of \<^const>\<open>action_move\<close>. So a finished execution is
  never changed again, a running one is left to the reconcile that started it, and no execution is
  ever recorded as timed out.
\<close>

theorem action_follows_states:
  assumes "xe_getExec E (calls w) req = Inr exec"
  shows "follows (aes_State (exec_status exec)) (written_states (issued (ReconcileAction E req) w)) \<and>
    (terminalState (aes_State (exec_status exec)) \<longrightarrow>
       written_states (issued (ReconcileAction E req) w) = []) \<and>
    ActionExecutionTimedOut \<notin> set (written_states (issued (ReconcileAction E req) w))"
proof -
  let ?S = "exec_writes (aes_State (exec_status exec))"
  let ?w = "w\<lparr>calls := calls w @ [GetExec req]\<rparr>"
  obtain cs where cs: "calls (final (reconcileExec E req exec) ?w) = calls ?w @ cs"
    "written_states cs \<in> ?S"
    using writes_reconcileExec unfolding writes_def by blast
  then have "issued (ReconcileAction E req) w = GetExec req # cs"
    using assms by (intro issued_eqI) (simp add: ReconcileAction_def final_def run_perform)
  then have ws: "written_states (issued (ReconcileAction E req) w) \<in> ?S"
    using cs(2) by simp
  then have f: "follows (aes_State (exec_status exec)) (written_states (issued (ReconcileAction E req) w))"
    by (auto simp: exec_writes_def split: if_splits intro: pending_writes_follow action_move.intros)
  moreover have "ActionExecutionTimedOut \<notin> set (written_states (issued (ReconcileAction E req) w))"
    using ws by (auto simp: exec_writes_def pending_writes_def action_state_defs split: if_splits)
  moreover have "written_states (issued (ReconcileAction E req) w) = []"
    if "terminalState (aes_State (exec_status exec))"
    using that ws by (auto simp: exec_writes_def terminalState_def action_state_defs)
  ultimately show ?thesis by blast
qed

theorem action_follows_states_witness:
  "written_states (issued (ReconcileAction (ex_act_env (ex_exec ''e'' ActionExecutionFailed None) []
     ACTION_STATE_SUCCEEDED) ex_key) ex_act_world) = []"
  using action_follows_states [of "ex_act_env (ex_exec ''e'' ActionExecutionFailed None) []
      ACTION_STATE_SUCCEEDED" ex_act_world ex_key "ex_exec ''e'' ActionExecutionFailed None"]
  by (simp add: ex_exec_def terminalState_def)


section \<open>Checks before dispatch\<close>

lemma validateParams_iff:
  "validateParams given decls = Inr () \<longleftrightarrow>
     (\<forall>(name, param)\<in>set decls. ap_Required param \<longrightarrow> name \<in> dom (map_of given))"
  by (induction given decls rule: validateParams.induct) (auto simp: domIff)

definition conflicts :: "ActionExecution \<Rightarrow> GameServer \<Rightarrow> ActionDecl \<Rightarrow> ActionExecution \<Rightarrow> bool" where
  "conflicts exec server decl other \<longleftrightarrow>
     om_Name (exec_meta other) \<noteq> om_Name (exec_meta exec) \<and>
     aes_State (exec_status other) = ActionExecutionRunning \<and>
     tr_Name (ae_TargetRef (exec_spec other)) = server_name server \<and>
     (ad_Concurrency decl = ActionConcurrencyExclusive \<or>
      ad_Concurrency decl = ActionConcurrencySerialize \<and>
      ae_ActionName (exec_spec other) = ae_ActionName (exec_spec exec))"

lemma blockedBy_iff: "blockedBy exec server decl others = None \<longleftrightarrow>
    (\<forall>other\<in>set others. \<not> conflicts exec server decl other)"
  by (induction exec server decl others rule: blockedBy.induct) (auto simp: conflicts_def)

definition is_execute :: "act_call \<Rightarrow> bool" where
  "is_execute c = (case c of ExecuteAction _ _ _ _ _ \<Rightarrow> True | _ \<Rightarrow> False)"

lemma emits_setState_no_execute: "emits (\<lambda>c. \<not> is_execute c) (setState E exec st res msg) (\<lambda>_. True)"
  unfolding setState_def by (intro emits_steps emits_intros) (auto simp: is_execute_def)

lemma reject_no_execute: "c \<in> set (issued (reject E exec msg) w) \<Longrightarrow> \<not> is_execute c"
proof -
  have "emits (\<lambda>c. \<not> is_execute c) (reject E exec msg) (\<lambda>_. True)"
    unfolding reject_def by (intro emits_seq emits_setState_no_execute emits_intros) simp
  then show "c \<in> set (issued (reject E exec msg) w) \<Longrightarrow> \<not> is_execute c"
    by (rule emitsD_issued)
qed

lemma emits_reject: "emits (\<lambda>_. True) (reject E exec msg) (\<lambda>_. True)"
  unfolding reject_def by (intro emits_seq emits_setState emits_intros) simp

definition check_calls :: "NamespacedName \<Rightarrow> ActionExecution \<Rightarrow> GameServer \<Rightarrow> act_call list" where
  "check_calls req exec server =
     [GetTarget (serverKey req exec), GetTargetProfile (gs_Profile (server_spec server)),
      ListExecs (Some (server_namespace server))]"

definition may_run :: "ActionExecution \<Rightarrow> GameServer \<Rightarrow> GameProfile \<Rightarrow> ActionExecution list \<Rightarrow> bool" where
  "may_run exec server profile items \<longleftrightarrow>
     (\<exists>decl. findAction profile (ae_ActionName (exec_spec exec)) = Some decl \<and>
        (\<forall>(name, param)\<in>set (ad_Params decl). ap_Required param \<longrightarrow>
           name \<in> dom (map_of (ae_Params (exec_spec exec)))) \<and>
        (\<forall>other\<in>set items. \<not> conflicts exec server decl other))"

lemma run_checks:
  assumes "xe_getServer E (calls w) (serverKey req exec) = Inr server"
    and "xe_getProfile E (calls w @ [GetTarget (serverKey req exec)])
           (gs_Profile (server_spec server)) = Inr profile"
    and "xe_list E (calls w @ [GetTarget (serverKey req exec),
           GetTargetProfile (gs_Profile (server_spec server))]) (Some (server_namespace server)) = Inr items"
  shows "(\<exists>decl. findAction profile (ae_ActionName (exec_spec exec)) = Some decl \<and>
       may_run exec server profile items \<and>
       final (reconcilePending E req exec) w =
         final (runAction E exec server decl) (w\<lparr>calls := calls w @ check_calls req exec server\<rparr>)) \<or>
     (\<exists>msg cs. \<not> may_run exec server profile items \<and> list_all (\<lambda>c. \<not> is_execute c) cs \<and>
       final (reconcilePending E req exec) w =
         final (reject E exec msg) (w\<lparr>calls := calls w @ cs\<rparr>))"
proof (cases "findAction profile (ae_ActionName (exec_spec exec))")
  case None
  with assms show ?thesis
    by (auto simp: reconcilePending_def final_def run_perform may_run_def is_execute_def
        intro!: exI [of _ "[GetTarget (serverKey req exec), GetTargetProfile (gs_Profile (server_spec server))]"])
next
  case (Some decl)
  show ?thesis
  proof (cases "validateParams (ae_Params (exec_spec exec)) (ad_Params decl)")
    case (Inl e)
    then have "\<not> may_run exec server profile items"
      using validateParams_iff [of "ae_Params (exec_spec exec)" "ad_Params decl"] Some
      by (auto simp: may_run_def)
    with assms Some Inl show ?thesis
      by (auto simp: reconcilePending_def final_def run_perform is_execute_def
          intro!: exI [of _ "[GetTarget (serverKey req exec), GetTargetProfile (gs_Profile (server_spec server))]"])
  next
    case (Inr u)
    then have params: "\<forall>(name, param)\<in>set (ad_Params decl). ap_Required param \<longrightarrow>
        name \<in> dom (map_of (ae_Params (exec_spec exec)))"
      using validateParams_iff by auto
    show ?thesis
    proof (cases "blockedBy exec server decl items")
      case None
      then have "may_run exec server profile items"
        using Some params by (auto simp: may_run_def blockedBy_iff)
      with assms Some Inr None show ?thesis
        by (auto simp: reconcilePending_def checkConcurrency_def final_def run_perform check_calls_def
            case_prod_beta)
    next
      case (Some reason)
      then have "\<not> may_run exec server profile items"
        using \<open>findAction profile _ = Some decl\<close> blockedBy_iff [of exec server decl items]
        by (auto simp: may_run_def)
      with assms Some Inr \<open>findAction profile _ = Some decl\<close> show ?thesis
        by (intro disjI2 exI [of _ reason] exI [of _ "check_calls req exec server"])
          (simp add: reconcilePending_def checkConcurrency_def final_def run_perform check_calls_def
            is_execute_def)
    qed
  qed
qed

lemma dispatch_executes:
  assumes "xe_getService E (calls w) (key_of (server_meta server)) = Inr svc"
    and "\<And>h a. xe_connect E h a = Inr ()"
  shows "\<exists>c\<in>set (issued (dispatchToAgent E server exec t) w). is_execute c"
  using assms by (auto simp: dispatchToAgent_def issued_def final_def io_simps map_err_def is_execute_def
      split: sum.splits)

lemma runAction_executes:
  assumes "\<And>h. \<exists>svc. xe_getService E h (key_of (server_meta server)) = Inr svc"
    and "\<And>h a. xe_connect E h a = Inr ()"
  shows "\<exists>c\<in>set (issued (runAction E exec server decl) w). is_execute c"
proof -
  let ?w = "final (setState E exec ActionExecutionRunning [] []) w"
    and ?exec = "result (setState E exec ActionExecutionRunning [] []) w"
  obtain svc where "xe_getService E (calls ?w) (key_of (server_meta server)) = Inr svc"
    using assms(1) by blast
  from dispatch_executes [OF this assms(2)]
  obtain c where "c \<in> set (issued (dispatchToAgent E server ?exec (actionTimeout decl)) ?w)" "is_execute c"
    by blast
  then show ?thesis
    unfolding runAction_parts
    by (auto simp: issued_bind [OF emits_setState emits_dispatch_finish]
        issued_bind [OF emits_dispatch_any emits_finishAction])
qed

text \<open>
  C10. An action reaches the agent exactly when it may run. When the server, its profile and its
  Service are found, the executions of the namespace are listed and the agent can be dialled, the
  agent is called iff the profile declares the action, every required parameter is given, and among
  the executions listed in the server's namespace no other running one on the same server conflicts
  with it (any, for an exclusive action; one of the same action, for a serialized one). Only the
  mode of the pending action counts: a running exclusive action does not keep an \<^verbatim>\<open>allow\<close> action,
  or a serialized one of another name, from being dispatched. Nothing is assumed of the status
  writes: the agent is called even when the \<^verbatim>\<open>Running\<close> state could not be recorded, and then again
  by the next reconcile.
\<close>

theorem dispatched_iff_allowed:
  assumes "xe_getServer E (calls w) (serverKey req exec) = Inr server"
    and "xe_getProfile E (calls w @ [GetTarget (serverKey req exec)])
           (gs_Profile (server_spec server)) = Inr profile"
    and "xe_list E (calls w @ [GetTarget (serverKey req exec),
           GetTargetProfile (gs_Profile (server_spec server))]) (Some (server_namespace server)) = Inr items"
    and "\<And>h. \<exists>svc. xe_getService E h (key_of (server_meta server)) = Inr svc"
    and "\<And>h a. xe_connect E h a = Inr ()"
  shows "(\<exists>c\<in>set (issued (reconcilePending E req exec) w). is_execute c) \<longleftrightarrow>
    may_run exec server profile items"
  using run_checks [OF assms(1-3)]
proof (elim disjE exE conjE)
  fix decl
  let ?w = "w\<lparr>calls := calls w @ check_calls req exec server\<rparr>"
  assume ok: "may_run exec server profile items"
    and fin: "final (reconcilePending E req exec) w = final (runAction E exec server decl) ?w"
  have "issued (reconcilePending E req exec) w =
      check_calls req exec server @ issued (runAction E exec server decl) ?w"
    by (rule issued_eqI) (simp add: fin calls_final [OF emits_runAction])
  with ok runAction_executes [OF assms(4,5)] show ?thesis by fastforce
next
  fix msg cs
  let ?w = "w\<lparr>calls := calls w @ cs\<rparr>"
  assume no: "\<not> may_run exec server profile items" and cs: "list_all (\<lambda>c. \<not> is_execute c) cs"
    and fin: "final (reconcilePending E req exec) w = final (reject E exec msg) ?w"
  have "issued (reconcilePending E req exec) w = cs @ issued (reject E exec msg) ?w"
    by (rule issued_eqI) (simp add: fin calls_final [OF emits_reject])
  with no cs reject_no_execute [of _ E exec msg ?w] show ?thesis by (auto simp: list_all_iff)
qed

theorem dispatched_iff_allowed_witness:
  "(\<exists>c\<in>set (issued (reconcilePending (ex_act_env (ex_exec ''e'' ActionExecutionPending None) []
       ACTION_STATE_SUCCEEDED) ex_key (ex_exec ''e'' ActionExecutionPending None)) ex_act_world).
      is_execute c) \<and>
   \<not> (\<exists>c\<in>set (issued (reconcilePending (ex_act_env (ex_exec ''e'' ActionExecutionPending None)
       [ex_exec ''other'' ActionExecutionRunning None] ACTION_STATE_SUCCEEDED) ex_key
       (ex_exec ''e'' ActionExecutionPending None)) ex_act_world). is_execute c)"
proof -
  let ?x = "ex_exec ''e'' ActionExecutionPending None" and ?o = "ex_exec ''other'' ActionExecutionRunning None"
  let ?s = "ex_server True stateRunning None" and ?p = "ex_action_profile ActionConcurrencyExclusive"
  have iff: "(\<exists>c\<in>set (issued (reconcilePending (ex_act_env ?x items ACTION_STATE_SUCCEEDED) ex_key ?x)
      ex_act_world). is_execute c) \<longleftrightarrow> may_run ?x ?s ?p items" for items
    by (rule dispatched_iff_allowed) simp_all
  have "may_run ?x ?s ?p []"
    using ex_findAction(2) [of "''e''" ActionExecutionPending None ActionConcurrencyExclusive]
    by (simp add: may_run_def ex_findAction(1) validateParams_iff)
  moreover have "\<not> may_run ?x ?s ?p [?o]"
    by (simp add: may_run_def conflicts_def ex_findAction(1))
      (simp add: ex_exec_def ex_server_def new_meta_def ex_action_def action_state_defs)
  ultimately show ?thesis using iff by blast
qed


section \<open>What becomes of the agent's answer\<close>

text \<open>
  An action that the agent reports as timed out is recorded as succeeded: the last status write
  of the reconcile says \<^verbatim>\<open>Succeeded\<close>, because only the failed and rejected answers are tested.
\<close>

theorem agent_timeout_recorded_as_success:
  assumes "\<And>h. \<exists>svc. xe_getService E h (key_of (server_meta server)) = Inr svc"
    and "\<And>h a. xe_connect E h a = Inr ()"
    and "\<And>h a n. \<exists>resp. xe_execute E h a n = Inr resp \<and> ar_State resp = ACTION_STATE_TIMED_OUT"
  shows "written_states (issued (runAction E exec server decl) w) =
    [ActionExecutionRunning, ActionExecutionSucceeded]"
proof -
  have "\<exists>r. result (dispatchToAgent E server exec' t) w' = Inr r" for exec' t w'
  proof -
    obtain svc where svc: "xe_getService E (calls w') (key_of (server_meta server)) = Inr svc"
      using assms(1) by blast
    obtain resp where "xe_execute E (calls w' @ [GetTargetService (key_of (server_meta server)),
        Connect (actionAddress svc)]) (actionAddress svc) (ae_ActionName (exec_spec exec')) = Inr resp"
      "ar_State resp = ACTION_STATE_TIMED_OUT"
      using assms(3) by blast
    then show ?thesis
      by (simp add: dispatchToAgent_def result_def io_simps map_err_def svc assms(2) responseResult_def)
  qed
  then show ?thesis
    unfolding written_runAction Let_def by (metis (no_types, lifting) sum.case(2))
qed

theorem agent_timeout_recorded_as_success_witness:
  "written_states (issued (runAction (ex_act_env (ex_exec ''e'' ActionExecutionPending None) []
     ACTION_STATE_TIMED_OUT) (ex_exec ''e'' ActionExecutionPending None) (ex_server True stateRunning None)
     (ex_action ActionConcurrencyExclusive)) ex_act_world) = [ActionExecutionRunning, ActionExecutionSucceeded]"
  by (rule agent_timeout_recorded_as_success) simp_all


section \<open>Clean-up\<close>

lemma run_cleanup_loop:
  "calls (final (for_each (\<lambda>exec. if execExpired now exec
       then fmap (\<lambda>_. ()) (perform (DeleteExec (key_of (exec_meta exec)))
              (\<lambda>h. xe_delete E h (key_of (exec_meta exec))))
       else State_Monad.return ()) items) (w :: act_world)) =
   calls w @ map (\<lambda>exec. DeleteExec (key_of (exec_meta exec))) (filter (execExpired now) items)"
  by (induction items arbitrary: w) (simp_all add: final_def io_simps)

text \<open>
  The clean-up task deletes exactly the expired executions, each once and in list order:
  finished ones whose end lies more than seven days back when they succeeded, more than thirty days
  otherwise. An execution that is not finished is never deleted; a failed delete does not stop the
  pass.
\<close>

theorem cleanup_deletes_expired:
  assumes "xe_list E (calls w) None = Inr items"
  shows "issued (cleanupExecutions E) w =
    ListExecs None # ANow # map (\<lambda>exec. DeleteExec (key_of (exec_meta exec)))
      (filter (execExpired (xe_now E (calls w @ [ListExecs None]))) items) \<and>
    (\<forall>exec now. execExpired now exec \<longrightarrow> terminalState (aes_State (exec_status exec)) \<and>
       (\<exists>ended. aes_EndedAt (exec_status exec) = Some ended \<and> ended + 7 * 24 * hour < now))"
proof (intro conjI allI impI)
  show "issued (cleanupExecutions E) w =
      ListExecs None # ANow # map (\<lambda>exec. DeleteExec (key_of (exec_meta exec)))
        (filter (execExpired (xe_now E (calls w @ [ListExecs None]))) items)"
    using assms
    by (intro issued_eqI)
      (simp add: cleanupExecutions_def final_def io_simps case_prod_beta
        run_cleanup_loop [unfolded final_def])
  fix exec now assume "execExpired now exec"
  then show "terminalState (aes_State (exec_status exec))"
    and "\<exists>ended. aes_EndedAt (exec_status exec) = Some ended \<and> ended + 7 * 24 * hour < now"
    by (auto simp: execExpired_def actionExecutionSuccessTTL_def actionExecutionFailedTTL_def hour_def
        minute_def second_def split: option.splits if_splits)
qed

theorem cleanup_deletes_expired_witness:
  "issued (cleanupExecutions (ex_act_env (ex_exec ''e'' ActionExecutionPending None)
     [ex_exec ''a'' ActionExecutionSucceeded (Some (- 8 * 24 * hour)),
      ex_exec ''b'' ActionExecutionFailed (Some (- 8 * 24 * hour)),
      ex_exec ''c'' ActionExecutionRunning None] ACTION_STATE_SUCCEEDED)) ex_act_world =
   [ListExecs None, ANow, DeleteExec \<lparr>nn_Namespace = ''tenant-a'', nn_Name = ''a''\<rparr>]"
  using cleanup_deletes_expired [of "ex_act_env (ex_exec ''e'' ActionExecutionPending None)
     [ex_exec ''a'' ActionExecutionSucceeded (Some (- 8 * 24 * hour)),
      ex_exec ''b'' ActionExecutionFailed (Some (- 8 * 24 * hour)),
      ex_exec ''c'' ActionExecutionRunning None] ACTION_STATE_SUCCEEDED" ex_act_world]
  by (simp add: execExpired_def terminalState_def ex_exec_def action_state_defs key_of_def new_meta_def
      actionExecutionSuccessTTL_def actionExecutionFailedTTL_def hour_def minute_def second_def)

end
