(* ===== verification/Snapshot_Controller.thy ===== *)
theory Snapshot_Controller
  imports GameServer_Objects
begin

text \<open>
  The GameSnapshot reconciler (\<^verbatim>\<open>internal/controllers/gamesnapshot_controller.go\<close>). The object in
  memory is passed along explicitly: a status write that succeeds replaces it by the server's answer,
  one that fails leaves it as it was changed. The cron parser is a parameter: it fails, or gives the
  function from a time to the next scheduled one.
\<close>

section \<open>Calls and environment\<close>

text \<open>
  A VolumeSnapshot as the code reads it: each field is looked up by a helper that reports whether it
  was found and whether it had the expected shape.
\<close>

datatype ready_field = ReadyAbsent | ReadyBool bool | ReadyMalformed kerr

datatype error_field = ErrorAbsent | ErrorSlice nat | ErrorObject "string option" | ErrorOther

record VolumeSnapshot =
  vs_readyToUse :: ready_field
  vs_restoreSize :: "int option"
  vs_error :: error_field

record VolumeSnapshotObject =
  vso_meta :: ObjectMeta
  vso_source :: string

datatype snap_call =
    SNow
  | GetSnapshot NamespacedName
  | UpdateSnapshot GameSnapshot
  | UpdateSnapshotStatus GameSnapshot
  | GetSnapshotServer NamespacedName
  | SConnect string
  | SExecuteSave string
  | SPrepareShutdown string int string
  | GetPVC NamespacedName
  | CreateVolumeSnapshot VolumeSnapshotObject
  | GetVolumeSnapshot NamespacedName
  | DeleteVolumeSnapshot NamespacedName

record snap_env =
  ve_now :: "snap_call list \<Rightarrow> time"
  ve_getSnapshot :: "snap_call list \<Rightarrow> NamespacedName \<Rightarrow> kerr + GameSnapshot"
  ve_update :: "snap_call list \<Rightarrow> GameSnapshot \<Rightarrow> kerr + GameSnapshot"
  ve_updateStatus :: "snap_call list \<Rightarrow> GameSnapshot \<Rightarrow> kerr + GameSnapshot"
  ve_getServer :: "snap_call list \<Rightarrow> NamespacedName \<Rightarrow> kerr + GameServer"
  ve_connect :: "snap_call list \<Rightarrow> string \<Rightarrow> kerr + unit"
  ve_save :: "snap_call list \<Rightarrow> string \<Rightarrow> kerr + unit"
  ve_shutdown :: "snap_call list \<Rightarrow> string \<Rightarrow> kerr + unit"
  ve_getPVC :: "snap_call list \<Rightarrow> NamespacedName \<Rightarrow> kerr + PersistentVolumeClaim"
  ve_createVS :: "snap_call list \<Rightarrow> VolumeSnapshotObject \<Rightarrow> kerr + unit"
  ve_getVS :: "snap_call list \<Rightarrow> NamespacedName \<Rightarrow> kerr + VolumeSnapshot"
  ve_deleteVS :: "snap_call list \<Rightarrow> NamespacedName \<Rightarrow> kerr + unit"
  ve_cron :: "string \<Rightarrow> kerr + (time \<Rightarrow> time)"

type_synonym 'a snap_prog = "(snap_call world, 'a) state"

definition gameSnapshotFinalizer :: string where
  "gameSnapshotFinalizer = ''minato.io/gamesnapshot-finalizer''"
definition snapshotTimeout :: duration where "snapshotTimeout = 10 * minute"

abbreviation snap_name :: "GameSnapshot \<Rightarrow> string" where
  "snap_name snap \<equiv> om_Name (snap_meta snap)"

abbreviation snap_namespace :: "GameSnapshot \<Rightarrow> string" where
  "snap_namespace snap \<equiv> om_Namespace (snap_meta snap)"

abbreviation snap_entries :: "GameSnapshot \<Rightarrow> SnapshotEntry list" where
  "snap_entries snap \<equiv> sns_Snapshots (snap_status snap)"

definition snapClock :: "snap_env \<Rightarrow> time snap_prog" where
  "snapClock E = perform SNow (ve_now E)"

definition writeSnapStatus ::
    "snap_env \<Rightarrow> GameSnapshot \<Rightarrow> ((kerr + unit) \<times> GameSnapshot) snap_prog" where
  "writeSnapStatus E snap =
     fmap (\<lambda>r. case r of Inl err \<Rightarrow> (Inl err, snap) | Inr s \<Rightarrow> (Inr (), s))
       (perform (UpdateSnapshotStatus snap) (\<lambda>h. ve_updateStatus E h snap))"

definition with_snap_condition ::
    "GameSnapshot \<Rightarrow> string \<Rightarrow> string \<Rightarrow> string \<Rightarrow> string \<Rightarrow> time \<Rightarrow> GameSnapshot" where
  "with_snap_condition snap condType status reason message now =
     snap\<lparr>snap_status := (snap_status snap)\<lparr>sns_Conditions :=
       setCondition (sns_Conditions (snap_status snap))
         \<lparr>c_Type = condType, c_Status = status, c_Reason = reason, c_Message = message,
          c_ObservedGeneration = om_Generation (snap_meta snap), c_LastTransitionTime = now\<rparr>\<rparr>\<rparr>"

definition setSnapCondition ::
    "snap_env \<Rightarrow> GameSnapshot \<Rightarrow> string \<Rightarrow> string \<Rightarrow> string \<Rightarrow> string \<Rightarrow> GameSnapshot snap_prog" where
  "setSnapCondition E snap condType status reason message =
     do {
       now \<leftarrow> snapClock E;
       fmap snd (writeSnapStatus E (with_snap_condition snap condType status reason message now))
     }"


section \<open>Scheduling\<close>

definition shouldTakeSnapshot :: "snap_env \<Rightarrow> GameSnapshot \<Rightarrow> (kerr + bool \<times> duration) snap_prog" where
  "shouldTakeSnapshot E snap =
     (if sn_Schedule (snap_spec snap) = [] then
        State_Monad.return (Inr (sns_LastSnapshotAt (snap_status snap) = None, 0))
      else
        (case ve_cron E (sn_Schedule (snap_spec snap)) of
           Inl err \<Rightarrow> State_Monad.return (Inl (wrap_error
             (''invalid cron schedule '' @ quoted (sn_Schedule (snap_spec snap)) @ '': '') err))
         | Inr next_after \<Rightarrow> do {
             now \<leftarrow> snapClock E;
             State_Monad.return (Inr (case sns_LastSnapshotAt (snap_status snap) of
               None \<Rightarrow>
                 if next_after now - now < minute then (True, 0) else (False, next_after now - now)
             | Some lastSnapshot \<Rightarrow>
                 if now \<ge> next_after lastSnapshot then (True, 0)
                 else (False, next_after lastSnapshot - now)))
           }))"

definition isSnapshotInProgress :: "snap_env \<Rightarrow> GameSnapshot \<Rightarrow> bool snap_prog" where
  "isSnapshotInProgress E snap =
     (if snap_entries snap = [] then State_Monad.return False
      else do {
        now \<leftarrow> snapClock E;
        State_Monad.return
          (now - se_CreatedAt (last (snap_entries snap)) < snapshotTimeout \<and>
           \<not> (\<exists>c\<in>set (sns_Conditions (snap_status snap)).
                c_Type c = ''SnapshotReady'' \<and> c_Status c = ConditionTrue))
      })"


section \<open>Taking a snapshot\<close>

definition callAgentSave :: "snap_env \<Rightarrow> GameServer \<Rightarrow> (kerr + unit) snap_prog" where
  "callAgentSave E server =
     (let addr = agentAddress server
      in bindE (fmap (map_err (wrap_error ''failed to connect to agent: ''))
                  (perform (SConnect addr) (\<lambda>h. ve_connect E h addr))) (\<lambda>_. do {
           saved \<leftarrow> perform (SExecuteSave addr) (\<lambda>h. ve_save E h addr);
           case saved of
             Inl _ \<Rightarrow> fmap (map_err (wrap_error ''agent save/shutdown call failed: ''))
                        (perform (SPrepareShutdown addr 60 ''snapshot'') (\<lambda>h. ve_shutdown E h addr))
           | Inr _ \<Rightarrow> State_Monad.return (Inr ())
         }))"

definition volumeSnapshotName :: "GameSnapshot \<Rightarrow> time \<Rightarrow> string" where
  "volumeSnapshotName snap now = snap_name snap @ ''-'' @ show_int (unixTime now)"

definition newVolumeSnapshot ::
    "GameSnapshot \<Rightarrow> GameServer \<Rightarrow> PersistentVolumeClaim \<Rightarrow> string \<Rightarrow> VolumeSnapshotObject" where
  "newVolumeSnapshot snap server pvc vsName =
     \<lparr>vso_meta = (new_meta vsName (snap_namespace snap))
        \<lparr>om_Labels := [(''minato.io/gameserver'', server_name server),
                        (''minato.io/snapshot'', snap_name snap),
                        (''minato.io/managed-by'', ''gamesnapshot-controller'')]\<rparr>,
      vso_source = om_Name (pvc_meta pvc)\<rparr>"

definition recordEntry :: "GameSnapshot \<Rightarrow> string \<Rightarrow> time \<Rightarrow> time \<Rightarrow> GameSnapshot" where
  "recordEntry snap vsName createdAt now =
     snap\<lparr>snap_status := (snap_status snap)
       \<lparr>sns_Snapshots := snap_entries snap @
          [\<lparr>se_Name = vsName, se_CreatedAt = createdAt, se_VolumeSnapshotRef = vsName, se_SizeBytes = 0\<rparr>],
        sns_LastSnapshotAt := Some now\<rparr>\<rparr>"

definition createVolumeSnapshot ::
    "klib \<Rightarrow> snap_env \<Rightarrow> GameSnapshot \<Rightarrow> GameServer \<Rightarrow> ((kerr + unit) \<times> GameSnapshot) snap_prog" where
  "createVolumeSnapshot L E snap server =
     do {
       got \<leftarrow> perform (GetPVC (key_of (server_meta server)))
                (\<lambda>h. ve_getPVC E h (key_of (server_meta server)));
       case got of
         Inl err \<Rightarrow> State_Monad.return (Inl (wrap_error ''failed to get PVC: '' err), snap)
       | Inr pvc \<Rightarrow> do {
           t \<leftarrow> snapClock E;
           let vsName = volumeSnapshotName snap t;
           let vs = newVolumeSnapshot snap server pvc vsName;
           case SetControllerReference L (snap_meta snap) (vso_meta vs) of
             Inl err \<Rightarrow> State_Monad.return
               (Inl (wrap_error ''failed to set controller reference on VolumeSnapshot: '' err), snap)
           | Inr m \<Rightarrow> do {
               created \<leftarrow> perform (CreateVolumeSnapshot (vs\<lparr>vso_meta := m\<rparr>))
                            (\<lambda>h. ve_createVS E h (vs\<lparr>vso_meta := m\<rparr>));
               case created of
                 Inl err \<Rightarrow> State_Monad.return
                   (Inl (if IsNotFound err then wrap_error ''VolumeSnapshot CRD not installed: '' err
                         else wrap_error ''failed to create VolumeSnapshot: '' err), snap)
               | Inr _ \<Rightarrow> do {
                   createdAt \<leftarrow> snapClock E;
                   now \<leftarrow> snapClock E;
                   writeSnapStatus E (recordEntry snap vsName createdAt now)
                 }
             }
         }
     }"

definition with_last_size :: "GameSnapshot \<Rightarrow> VolumeSnapshot \<Rightarrow> GameSnapshot" where
  "with_last_size snap vs =
     (case vs_restoreSize vs of
        None \<Rightarrow> snap
      | Some bytes \<Rightarrow> snap\<lparr>snap_status := (snap_status snap)
          \<lparr>sns_Snapshots := butlast (snap_entries snap) @
             [(last (snap_entries snap))\<lparr>se_SizeBytes := bytes\<rparr>]\<rparr>\<rparr>)"

definition completeSnapshot :: "snap_env \<Rightarrow> GameSnapshot \<Rightarrow> VolumeSnapshot \<Rightarrow> GameSnapshot snap_prog" where
  "completeSnapshot E snap vs =
     setSnapCondition E (with_last_size snap vs) ''SnapshotReady'' ConditionTrue ''SnapshotComplete''
       (''VolumeSnapshot '' @ se_VolumeSnapshotRef (last (snap_entries snap)) @ '' is ready'')"

definition latestKey :: "GameSnapshot \<Rightarrow> NamespacedName" where
  "latestKey snap =
     \<lparr>nn_Namespace = snap_namespace snap, nn_Name = se_VolumeSnapshotRef (last (snap_entries snap))\<rparr>"

definition waitForSnapshotReady ::
    "snap_env \<Rightarrow> GameSnapshot \<Rightarrow> ((kerr + unit) \<times> GameSnapshot) snap_prog" where
  "waitForSnapshotReady E snap =
     (if snap_entries snap = [] then State_Monad.return (Inr (), snap)
      else do {
        got \<leftarrow> perform (GetVolumeSnapshot (latestKey snap)) (\<lambda>h. ve_getVS E h (latestKey snap));
        case got of
          Inl err \<Rightarrow> State_Monad.return
            (Inl (wrap_error ''failed to get VolumeSnapshot status: '' err), snap)
        | Inr vs \<Rightarrow>
            (case vs_readyToUse vs of
               ReadyMalformed err \<Rightarrow> State_Monad.return
                 (Inl (wrap_error ''failed to read VolumeSnapshot status: '' err), snap)
             | ReadyBool True \<Rightarrow> fmap (\<lambda>s. (Inr (), s)) (completeSnapshot E snap vs)
             | _ \<Rightarrow>
                 (case vs_error vs of
                    ErrorSlice (Suc n) \<Rightarrow>
                      fmap (\<lambda>s. (Inl (new_error ''VolumeSnapshot failed''), s))
                        (setSnapCondition E snap ''SnapshotReady'' ConditionFalse ''SnapshotFailed''
                           (''VolumeSnapshot '' @ se_VolumeSnapshotRef (last (snap_entries snap)) @ '' failed''))
                  | _ \<Rightarrow> State_Monad.return (Inl (new_error ''snapshot still pending''), snap)))
      })"

definition executeSnapshot ::
    "klib \<Rightarrow> snap_env \<Rightarrow> GameSnapshot \<Rightarrow> GameServer \<Rightarrow> ((kerr + unit) \<times> GameSnapshot) snap_prog" where
  "executeSnapshot L E snap server =
     do {
       snap \<leftarrow> setSnapCondition E snap ''SnapshotReady'' ConditionFalse ''Saving''
                 ''requesting game save via agent'';
       callAgentSave E server;
       snap \<leftarrow> setSnapCondition E snap ''SnapshotReady'' ConditionFalse ''Snapshotting''
                 ''creating VolumeSnapshot'';
       (r, snap) \<leftarrow> createVolumeSnapshot L E snap server;
       case r of
         Inl err \<Rightarrow> State_Monad.return (Inl (wrap_error ''failed to create VolumeSnapshot: '' err), snap)
       | Inr _ \<Rightarrow> waitForSnapshotReady E snap
     }"

definition monitorSnapshot :: "snap_env \<Rightarrow> GameSnapshot \<Rightarrow> (kerr + duration) snap_prog" where
  "monitorSnapshot E snap =
     (if snap_entries snap = [] then State_Monad.return (Inr 0)
      else do {
        now \<leftarrow> snapClock E;
        if now - se_CreatedAt (last (snap_entries snap)) > snapshotTimeout then do {
          setSnapCondition E snap ''SnapshotReady'' ConditionFalse ''SnapshotTimeout''
            (''VolumeSnapshot '' @ se_VolumeSnapshotRef (last (snap_entries snap)) @
             '' timed out after 10m0s'');
          State_Monad.return (Inr 0)
        }
        else do {
          got \<leftarrow> perform (GetVolumeSnapshot (latestKey snap)) (\<lambda>h. ve_getVS E h (latestKey snap));
          case got of
            Inl err \<Rightarrow> if IsNotFound err then State_Monad.return (Inr (10 * second))
                       else State_Monad.return (Inl err)
          | Inr vs \<Rightarrow>
              (case vs_readyToUse vs of
                 ReadyMalformed err \<Rightarrow> State_Monad.return
                   (Inl (wrap_error ''failed to read VolumeSnapshot status: '' err))
               | ReadyBool True \<Rightarrow> fmap (\<lambda>_. Inr 0) (completeSnapshot E snap vs)
               | _ \<Rightarrow>
                   (case vs_error vs of
                      ErrorObject (Some msg) \<Rightarrow>
                        if msg \<noteq> [] then
                          fmap (\<lambda>_. Inl (new_error (''VolumeSnapshot failed: '' @ msg)))
                            (setSnapCondition E snap ''SnapshotReady'' ConditionFalse ''SnapshotFailed'' msg)
                        else State_Monad.return (Inr (15 * second))
                    | _ \<Rightarrow> State_Monad.return (Inr (15 * second))))
        }
      })"


section \<open>Retention\<close>

text \<open>
  The split of \<^verbatim>\<open>enforceRetention\<close>: the entries kept and the entries whose VolumeSnapshots are
  deleted. The zero time as cut-off means that there is none.
\<close>

definition retentionCutoff :: "SnapshotRetention \<Rightarrow> time \<Rightarrow> time" where
  "retentionCutoff ret now =
     (if ret_Duration ret = [] then 0
      else (case ParseDuration (ret_Duration ret) of None \<Rightarrow> 0 | Some d \<Rightarrow> now - d))"

definition retentionSplit ::
    "SnapshotRetention \<Rightarrow> time \<Rightarrow> SnapshotEntry list \<Rightarrow> SnapshotEntry list \<times> SnapshotEntry list" where
  "retentionSplit ret cutoff entries =
     (let keep = (\<lambda>e. \<not> (cutoff \<noteq> 0 \<and> se_CreatedAt e < cutoff));
          toKeep = filter keep entries;
          toDelete = filter (\<lambda>e. \<not> keep e) entries
      in if ret_Count ret > 0 \<and> int (length toKeep) > ret_Count ret
         then (drop (length toKeep - nat (ret_Count ret)) toKeep,
               toDelete @ take (length toKeep - nat (ret_Count ret)) toKeep)
         else (toKeep, toDelete))"

definition enforceRetention ::
    "snap_env \<Rightarrow> GameSnapshot \<Rightarrow> ((kerr + unit) \<times> GameSnapshot) snap_prog" where
  "enforceRetention E snap =
     (let ret = sn_Retention (snap_spec snap)
      in if ret_Count ret \<le> 0 \<and> ret_Duration ret = [] then State_Monad.return (Inr (), snap)
         else do {
           cutoff \<leftarrow> (if ret_Duration ret = [] \<or> ParseDuration (ret_Duration ret) = None
                      then State_Monad.return 0
                      else fmap (retentionCutoff ret) (snapClock E));
           let (toKeep, toDelete) = retentionSplit ret cutoff (snap_entries snap);
           for_each (\<lambda>e. (let k = \<lparr>nn_Namespace = snap_namespace snap, nn_Name = se_VolumeSnapshotRef e\<rparr>
                in fmap (\<lambda>_. ()) (perform (DeleteVolumeSnapshot k) (\<lambda>h. ve_deleteVS E h k)))) toDelete;
           writeSnapStatus E (snap\<lparr>snap_status := (snap_status snap)\<lparr>sns_Snapshots := toKeep\<rparr>\<rparr>)
         })"


section \<open>Reconcile\<close>

definition snap_finalizers :: "(string list \<Rightarrow> string list) \<Rightarrow> GameSnapshot \<Rightarrow> GameSnapshot" where
  "snap_finalizers f snap =
     snap\<lparr>snap_meta := (snap_meta snap)\<lparr>om_Finalizers := f (om_Finalizers (snap_meta snap))\<rparr>\<rparr>"

definition updateSnapshot :: "snap_env \<Rightarrow> GameSnapshot \<Rightarrow> (kerr + GameSnapshot) snap_prog" where
  "updateSnapshot E snap = perform (UpdateSnapshot snap) (\<lambda>h. ve_update E h snap)"

definition snapshotDeleted :: "klib \<Rightarrow> snap_env \<Rightarrow> GameSnapshot \<Rightarrow> (kerr + duration) snap_prog" where
  "snapshotDeleted L E snap =
     (if ContainsFinalizer L (om_Finalizers (snap_meta snap)) gameSnapshotFinalizer then
        bindE (updateSnapshot E (snap_finalizers (\<lambda>fs. RemoveFinalizer L fs gameSnapshotFinalizer) snap))
          (\<lambda>_. State_Monad.return (Inr 0))
      else State_Monad.return (Inr 0))"

definition takeSnapshot ::
    "klib \<Rightarrow> snap_env \<Rightarrow> GameSnapshot \<Rightarrow> GameServer \<Rightarrow> (kerr + duration) snap_prog" where
  "takeSnapshot L E snap server =
     do {
       (r, snap) \<leftarrow> executeSnapshot L E snap server;
       case r of
         Inl err \<Rightarrow> do {
           setSnapCondition E snap ''Ready'' ConditionFalse ''SnapshotFailed'' (err_msg err);
           State_Monad.return (Inr 0)
         }
       | Inr _ \<Rightarrow> do {
           (_, snap) \<leftarrow> enforceRetention E snap;
           if sn_Schedule (snap_spec snap) \<noteq> [] then do {
             due \<leftarrow> shouldTakeSnapshot E snap;
             State_Monad.return (Inr (case due of Inl _ \<Rightarrow> 0 | Inr (_, nextRequeue) \<Rightarrow> nextRequeue))
           }
           else State_Monad.return (Inr 0)
         }
     }"

definition snapshotOf ::
    "klib \<Rightarrow> snap_env \<Rightarrow> GameSnapshot \<Rightarrow> GameServer \<Rightarrow> (kerr + duration) snap_prog" where
  "snapshotOf L E snap server =
     do {
       due \<leftarrow> shouldTakeSnapshot E snap;
       case due of
         Inl err \<Rightarrow> do {
           setSnapCondition E snap ''Ready'' ConditionFalse ''InvalidSchedule'' (err_msg err);
           State_Monad.return (Inr 0)
         }
       | Inr (shouldSnapshot, requeueAfter) \<Rightarrow>
           if \<not> shouldSnapshot then State_Monad.return (Inr requeueAfter)
           else do {
             inProgress \<leftarrow> isSnapshotInProgress E snap;
             if inProgress then monitorSnapshot E snap else takeSnapshot L E snap server
           }
     }"

definition snapshotLive :: "klib \<Rightarrow> snap_env \<Rightarrow> GameSnapshot \<Rightarrow> (kerr + duration) snap_prog" where
  "snapshotLive L E snap =
     (if \<not> ContainsFinalizer L (om_Finalizers (snap_meta snap)) gameSnapshotFinalizer then
        bindE (updateSnapshot E (snap_finalizers (\<lambda>fs. AddFinalizer L fs gameSnapshotFinalizer) snap))
          (\<lambda>_. State_Monad.return (Inr 0))
      else
        (let key = \<lparr>nn_Namespace = snap_namespace snap, nn_Name = sn_GameServerRef (snap_spec snap)\<rparr>
         in do {
           got \<leftarrow> perform (GetSnapshotServer key) (\<lambda>h. ve_getServer E h key);
           case got of
             Inl err \<Rightarrow>
               if IsNotFound err then do {
                 setSnapCondition E snap ''Ready'' ConditionFalse ''GameServerNotFound''
                   (''referenced GameServer '' @ sn_GameServerRef (snap_spec snap) @ '' not found'');
                 State_Monad.return (Inr 0)
               }
               else State_Monad.return (Inl err)
           | Inr server \<Rightarrow> snapshotOf L E snap server
         }))"

definition ReconcileSnapshot ::
    "klib \<Rightarrow> snap_env \<Rightarrow> NamespacedName \<Rightarrow> (kerr + duration) snap_prog" where
  "ReconcileSnapshot L E req =
     do {
       got \<leftarrow> perform (GetSnapshot req) (\<lambda>h. ve_getSnapshot E h req);
       case got of
         Inl err \<Rightarrow> if IsNotFound err then State_Monad.return (Inr 0) else State_Monad.return (Inl err)
       | Inr snap \<Rightarrow>
           if om_DeletionTimestamp (snap_meta snap) = None then snapshotLive L E snap
           else snapshotDeleted L E snap
     }"

end
