(* ===== verification/Snapshot_Properties.thy ===== *)
theory Snapshot_Properties
  imports Snapshot_Controller GameServer_Properties
begin

text \<open>
  Properties of snapshots: retention, the fate of a VolumeSnapshot that is not ready at once, and
  one-shot snapshots.
\<close>

section \<open>A concrete snapshot\<close>

definition ex_entry :: "string \<Rightarrow> time \<Rightarrow> SnapshotEntry" where
  "ex_entry n t = \<lparr>se_Name = n, se_CreatedAt = t, se_VolumeSnapshotRef = n, se_SizeBytes = 0\<rparr>"

definition ex_snapshot :: "SnapshotEntry list \<Rightarrow> time option \<Rightarrow> GameSnapshot" where
  "ex_snapshot es lastAt =
     \<lparr>snap_meta = (new_meta ''nightly'' ''tenant-a'')\<lparr>om_Finalizers := [gameSnapshotFinalizer]\<rparr>,
      snap_spec = \<lparr>sn_GameServerRef = ''smp'', sn_Schedule = [],
                   sn_Retention = \<lparr>ret_Count = 1, ret_Duration = []\<rparr>\<rparr>,
      snap_status = \<lparr>sns_Snapshots = es, sns_LastSnapshotAt = lastAt, sns_Conditions = []\<rparr>\<rparr>"

definition ex_snap_env :: "GameSnapshot \<Rightarrow> VolumeSnapshot \<Rightarrow> snap_env" where
  "ex_snap_env snap vs =
     \<lparr>ve_now = (\<lambda>_. 0), ve_getSnapshot = (\<lambda>_ _. Inr snap), ve_update = (\<lambda>_ s. Inr s),
      ve_updateStatus = (\<lambda>_ s. Inr s), ve_getServer = (\<lambda>_ _. Inr (ex_server True stateRunning None)),
      ve_connect = (\<lambda>_ _. Inr ()), ve_save = (\<lambda>_ _. Inr ()), ve_shutdown = (\<lambda>_ _. Inr ()),
      ve_getPVC = (\<lambda>_ _. Inr (buildPVC ex_klib (ex_server True stateRunning None) ex_profile)),
      ve_createVS = (\<lambda>_ _. Inr ()), ve_getVS = (\<lambda>_ _. Inr vs), ve_deleteVS = (\<lambda>_ _. Inr ()),
      ve_cron = (\<lambda>_. Inr (\<lambda>t. t + hour))\<rparr>"

text \<open>A VolumeSnapshot that the driver reported as failed, with an error object.\<close>

definition ex_failed_vs :: VolumeSnapshot where
  "ex_failed_vs = \<lparr>vs_readyToUse = ReadyBool False, vs_restoreSize = None,
                   vs_error = ErrorObject (Some ''no space left'')\<rparr>"


section \<open>Retention\<close>

definition recent :: "time \<Rightarrow> SnapshotEntry \<Rightarrow> bool" where
  "recent cutoff e \<longleftrightarrow> cutoff = 0 \<or> cutoff \<le> se_CreatedAt e"

text \<open>The split in one form: the oldest \<open>n\<close> of the recent entries go, too.\<close>

lemma retentionSplit_form:
  obtains n where "retentionSplit ret cutoff es =
    (drop n (filter (recent cutoff) es),
     filter (\<lambda>e. \<not> recent cutoff e) es @ take n (filter (recent cutoff) es))"
proof -
  have k: "(\<lambda>e. \<not> (cutoff \<noteq> 0 \<and> se_CreatedAt e < cutoff)) = recent cutoff"
    by (auto simp: recent_def fun_eq_iff)
  show thesis
  proof (cases "ret_Count ret > 0 \<and> int (length (filter (recent cutoff) es)) > ret_Count ret")
    case True
    then show ?thesis using that unfolding retentionSplit_def Let_def k by simp
  next
    case False
    then have "retentionSplit ret cutoff es =
        (drop 0 (filter (recent cutoff) es),
         filter (\<lambda>e. \<not> recent cutoff e) es @ take 0 (filter (recent cutoff) es))"
      unfolding retentionSplit_def Let_def k by auto
    then show ?thesis by (rule that)
  qed
qed

lemma retentionSplit_partition:
  "mset (fst (retentionSplit ret cutoff es)) + mset (snd (retentionSplit ret cutoff es)) = mset es"
proof -
  obtain n where split: "retentionSplit ret cutoff es =
    (drop n (filter (recent cutoff) es),
     filter (\<lambda>e. \<not> recent cutoff e) es @ take n (filter (recent cutoff) es))"
    by (rule retentionSplit_form)
  have take_drop: "mset (drop n xs) + (A + mset (take n xs)) = A + mset xs" for xs :: "SnapshotEntry list" and A
    by (metis add.assoc add.commute append_take_drop_id mset_append)
  have "mset (filter (\<lambda>e. \<not> recent cutoff e) es) + mset (filter (recent cutoff) es) = mset es"
    by (metis add.commute mset_filter multiset_partition)
  then show ?thesis
    unfolding split fst_conv snd_conv mset_append by (simp only: take_drop)
qed

text \<open>Of the recent entries, as many are kept as the count allows.\<close>

lemma retentionSplit_kept:
  "length (fst (retentionSplit ret cutoff es)) =
     (if ret_Count ret > 0 then min (nat (ret_Count ret)) (length (filter (recent cutoff) es))
      else length (filter (recent cutoff) es))"
proof -
  have "(\<lambda>e. \<not> (cutoff \<noteq> 0 \<and> se_CreatedAt e < cutoff)) = recent cutoff" by (auto simp: recent_def fun_eq_iff)
  then show ?thesis by (auto simp: retentionSplit_def Let_def)
qed

lemma retentionSplit_sorted:
  "sorted_wrt P es \<Longrightarrow> sorted_wrt P (fst (retentionSplit ret cutoff es))"
  by (rule retentionSplit_form [of ret cutoff es]) (simp add: sorted_wrt_filter sorted_wrt_drop)

lemma retentionSplit_recent: "k \<in> set (fst (retentionSplit ret cutoff es)) \<Longrightarrow> recent cutoff k"
  by (rule retentionSplit_form [of ret cutoff es]) (auto dest: in_set_dropD)

lemma retentionSplit_newest:
  assumes "sorted_wrt (\<lambda>a b. se_CreatedAt a \<le> se_CreatedAt b) es"
    and "k \<in> set (fst (retentionSplit ret cutoff es))" "d \<in> set (snd (retentionSplit ret cutoff es))"
  shows "se_CreatedAt d \<le> se_CreatedAt k"
proof -
  obtain n where split: "retentionSplit ret cutoff es =
    (drop n (filter (recent cutoff) es),
     filter (\<lambda>e. \<not> recent cutoff e) es @ take n (filter (recent cutoff) es))"
    by (rule retentionSplit_form)
  have sorted: "sorted_wrt (\<lambda>a b. se_CreatedAt a \<le> se_CreatedAt b)
      (take n (filter (recent cutoff) es) @ drop n (filter (recent cutoff) es))"
    using assms(1) by (simp add: sorted_wrt_filter)
  have k: "k \<in> set (drop n (filter (recent cutoff) es))" "recent cutoff k"
    using assms(2) retentionSplit_recent [OF assms(2)] by (auto simp: split)
  from assms(3) consider "\<not> recent cutoff d" | "d \<in> set (take n (filter (recent cutoff) es))"
    by (auto simp: split)
  then show ?thesis
    using k sorted unfolding sorted_wrt_append by cases (auto simp: recent_def)
qed

lemma run_delete_loop:
  "run_state (for_each (\<lambda>e. (let k = \<lparr>nn_Namespace = ns, nn_Name = se_VolumeSnapshotRef e\<rparr>
       in fmap (\<lambda>_. ()) (perform (DeleteVolumeSnapshot k) (\<lambda>h. ve_deleteVS E h k)))) es) w =
   ((), w\<lparr>calls := calls w @ map (\<lambda>e. DeleteVolumeSnapshot
       \<lparr>nn_Namespace = ns, nn_Name = se_VolumeSnapshotRef e\<rparr>) es\<rparr>)"
  by (induction es arbitrary: w) (simp_all add: io_simps Let_def)

definition retention_cutoff_at :: "snap_env \<Rightarrow> snap_call list \<Rightarrow> SnapshotRetention \<Rightarrow> time" where
  "retention_cutoff_at E h ret = retentionCutoff ret (ve_now E h)"

text \<open>
  C9. Retention. The pass deletes the VolumeSnapshots of exactly the entries it drops and then writes
  the status with the rest: every entry is either kept or dropped, nothing older than the cut-off is
  kept, and of the entries that are not older exactly as many are kept as the count allows, all of
  them when there is no count. As long as the entries are in order of creation, the kept ones are the
  most recent: no dropped entry is newer than a kept one, and the kept ones stay in order.
\<close>

theorem retention_correct:
  assumes "0 < ret_Count ret \<or> ret_Duration ret \<noteq> []" "ret = sn_Retention (snap_spec snap)"
    and "sorted_wrt (\<lambda>a b. se_CreatedAt a \<le> se_CreatedAt b) (snap_entries snap)"
  shows "\<exists>kept dropped now_calls.
    issued (enforceRetention E snap) w = now_calls @
      map (\<lambda>e. DeleteVolumeSnapshot \<lparr>nn_Namespace = snap_namespace snap,
                                     nn_Name = se_VolumeSnapshotRef e\<rparr>) dropped @
      [UpdateSnapshotStatus (snap\<lparr>snap_status := (snap_status snap)\<lparr>sns_Snapshots := kept\<rparr>\<rparr>)] \<and>
    set now_calls \<subseteq> {SNow} \<and>
    mset kept + mset dropped = mset (snap_entries snap) \<and>
    length kept =
      (let n = length (filter (recent (retention_cutoff_at E (calls w) ret)) (snap_entries snap))
       in if 0 < ret_Count ret then min (nat (ret_Count ret)) n else n) \<and>
    (\<forall>k\<in>set kept. recent (retention_cutoff_at E (calls w) ret) k) \<and>
    (\<forall>k\<in>set kept. \<forall>d\<in>set dropped. se_CreatedAt d \<le> se_CreatedAt k) \<and>
    sorted_wrt (\<lambda>a b. se_CreatedAt a \<le> se_CreatedAt b) kept"
proof -
  let ?cut = "retention_cutoff_at E (calls w) ret"
  let ?kept = "fst (retentionSplit ret ?cut (snap_entries snap))"
  let ?dropped = "snd (retentionSplit ret ?cut (snap_entries snap))"
  let ?now = "if ret_Duration ret = [] \<or> ParseDuration (ret_Duration ret) = None then [] else [SNow]"
  have "issued (enforceRetention E snap) w = ?now @
      map (\<lambda>e. DeleteVolumeSnapshot \<lparr>nn_Namespace = snap_namespace snap,
                                     nn_Name = se_VolumeSnapshotRef e\<rparr>) ?dropped @
      [UpdateSnapshotStatus (snap\<lparr>snap_status := (snap_status snap)\<lparr>sns_Snapshots := ?kept\<rparr>\<rparr>)]"
    using assms(1)
    by (intro issued_eqI)
      (auto simp: enforceRetention_def assms(2) [symmetric] Let_def final_def snapClock_def writeSnapStatus_def
        io_simps run_delete_loop [unfolded Let_def] case_prod_beta retention_cutoff_at_def retentionCutoff_def
        split: option.splits)
  moreover have "set ?now \<subseteq> {SNow}" by simp
  moreover have "\<forall>k\<in>set ?kept. recent ?cut k" using retentionSplit_recent by blast
  moreover have "\<forall>k\<in>set ?kept. \<forall>d\<in>set ?dropped. se_CreatedAt d \<le> se_CreatedAt k"
    using retentionSplit_newest [OF assms(3), of _ ret ?cut] by blast
  ultimately show ?thesis
    using retentionSplit_partition [of ret ?cut "snap_entries snap"] retentionSplit_kept [of ret ?cut "snap_entries snap"]
      retentionSplit_sorted [OF assms(3), of ret ?cut] unfolding Let_def by blast
qed

theorem retention_correct_witness:
  "\<exists>kept dropped.
     mset kept + mset dropped = mset [ex_entry ''a'' 1, ex_entry ''b'' 2] \<and> length kept = 1 \<and>
     (\<forall>k\<in>set kept. \<forall>d\<in>set dropped. se_CreatedAt d \<le> se_CreatedAt k)"
proof -
  let ?es = "[ex_entry ''a'' 1, ex_entry ''b'' 2]"
  have facts: "snap_entries (ex_snapshot ?es (Some 2)) = ?es"
    "sn_Retention (snap_spec (ex_snapshot ?es (Some 2))) = \<lparr>ret_Count = 1, ret_Duration = []\<rparr>"
    by (simp_all add: ex_snapshot_def)
  show ?thesis
    using retention_correct [of "\<lparr>ret_Count = 1, ret_Duration = []\<rparr>" "ex_snapshot ?es (Some 2)"
        "ex_snap_env (ex_snapshot ?es (Some 2)) ex_failed_vs" "\<lparr>calls = []\<rparr>"]
    unfolding facts by (auto simp: ex_entry_def recent_def retention_cutoff_at_def retentionCutoff_def)
qed


section \<open>Snapshots that are not ready at once\<close>

text \<open>A VolumeSnapshot that is neither ready nor reported as failed in the way the code looks for.\<close>

definition vs_pending :: "VolumeSnapshot \<Rightarrow> bool" where
  "vs_pending vs \<longleftrightarrow> vs_readyToUse vs \<in> {ReadyAbsent, ReadyBool False} \<and>
     (\<forall>n. vs_error vs \<noteq> ErrorSlice (Suc n))"

lemma wait_pending:
  assumes "\<And>h k. \<exists>vs. ve_getVS E h k = Inr vs \<and> vs_pending vs" "snap_entries snap \<noteq> []"
  shows "run_state (waitForSnapshotReady E snap) w =
    ((Inl (new_error ''snapshot still pending''), snap),
     w\<lparr>calls := calls w @ [GetVolumeSnapshot (latestKey snap)]\<rparr>)"
proof -
  obtain vs where "ve_getVS E (calls w) (latestKey snap) = Inr vs" "vs_pending vs"
    using assms(1) by blast
  then show ?thesis
    using assms(2)
    by (auto simp: waitForSnapshotReady_def io_simps vs_pending_def
        split: ready_field.split error_field.split nat.split bool.split)
qed

text \<open>A Boolean invariant on the calls of the parts: none of them deletes a VolumeSnapshot.\<close>

definition no_delete :: "snap_call \<Rightarrow> bool" where
  "no_delete c = (case c of DeleteVolumeSnapshot _ \<Rightarrow> False | _ \<Rightarrow> True)"

lemma no_delete_simps [simp]:
  "no_delete SNow" "no_delete (UpdateSnapshotStatus s)" "no_delete (SConnect a)" "no_delete (SExecuteSave a)"
  "no_delete (SPrepareShutdown a t r)" "no_delete (GetPVC k)" "no_delete (CreateVolumeSnapshot v)"
  "no_delete (GetVolumeSnapshot k)" "no_delete (GetSnapshot k)" "no_delete (GetSnapshotServer k)"
  by (simp_all add: no_delete_def)

lemma emits_setSnapCondition: "emits no_delete (setSnapCondition E snap t s r m) (\<lambda>_. True)"
  unfolding setSnapCondition_def snapClock_def writeSnapStatus_def
  by (intro emits_steps emits_intros) auto

lemma emits_callAgentSave: "emits no_delete (callAgentSave E server) (\<lambda>_. True)"
  unfolding callAgentSave_def Let_def by (intro emits_steps emits_intros) auto

text \<open>Status writes keep what was written, as the API server's answers do.\<close>

definition faithful_status :: "snap_env \<Rightarrow> bool" where
  "faithful_status E \<longleftrightarrow> (\<forall>h s s'. ve_updateStatus E h s = Inr s' \<longrightarrow> snap_status s' = snap_status s)"

lemma emits_createVolumeSnapshot:
  assumes "faithful_status E"
  shows "emits no_delete (createVolumeSnapshot L E snap server)
    (\<lambda>(r, s). r = Inr () \<longrightarrow> snap_entries s \<noteq> [])"
  unfolding createVolumeSnapshot_def snapClock_def writeSnapStatus_def Let_def
  by (intro emits_steps emits_intros)
    (use assms in \<open>auto simp: faithful_status_def recordEntry_def split: sum.splits\<close>)

lemma emits_wait_pending:
  assumes "\<And>h k. \<exists>vs. ve_getVS E h k = Inr vs \<and> vs_pending vs" "snap_entries snap \<noteq> []"
  shows "emits no_delete (waitForSnapshotReady E snap) (\<lambda>(r, s). \<exists>err. r = Inl err)"
  unfolding emits_def wait_pending [OF assms] by simp

lemma emits_executeSnapshot_pending:
  assumes "\<And>h k. \<exists>vs. ve_getVS E h k = Inr vs \<and> vs_pending vs" "faithful_status E"
  shows "emits no_delete (executeSnapshot L E snap server) (\<lambda>(r, s). \<exists>err. r = Inl err)"
  unfolding executeSnapshot_def
proof (rule emits_seq [OF emits_setSnapCondition], rule emits_seq [OF emits_callAgentSave],
    rule emits_seq [OF emits_setSnapCondition], rule emits_bind [OF emits_createVolumeSnapshot [OF assms(2)]])
  fix a :: "(kerr + unit) \<times> GameSnapshot"
  assume "case a of (r, s) \<Rightarrow> r = Inr () \<longrightarrow> snap_entries s \<noteq> []"
  then show "emits no_delete (case a of (r, s) \<Rightarrow> (case r of
        Inl err \<Rightarrow> State_Monad.return (Inl (wrap_error ''failed to create VolumeSnapshot: '' err), s)
      | Inr _ \<Rightarrow> waitForSnapshotReady E s)) (\<lambda>(r, s). \<exists>err. r = Inl err)"
    by (auto intro!: emits_return emits_wait_pending [OF assms(1)] split: prod.splits sum.splits)
qed

text \<open>
  A snapshot that is not ready the moment after it was created counts as a failure. VolumeSnapshots
  become ready asynchronously, and a failed one carries an error object where the code looks for a
  list; as long as every look at the new VolumeSnapshot finds it pending in this sense, taking the
  snapshot ends without an error and without a requeue, and retention is not enforced: no old
  VolumeSnapshot is deleted.
\<close>

theorem pending_snapshot_skips_retention:
  assumes "\<And>h k. \<exists>vs. ve_getVS E h k = Inr vs \<and> vs_pending vs" "faithful_status E"
  shows "result (takeSnapshot L E snap server) w = Inr 0 \<and>
    DeleteVolumeSnapshot k \<notin> set (issued (takeSnapshot L E snap server) w)"
proof -
  have "emits no_delete (takeSnapshot L E snap server) (\<lambda>r. r = Inr 0)"
    unfolding takeSnapshot_def
    by (rule emits_bind [OF emits_executeSnapshot_pending [OF assms]])
      (auto intro!: emits_seq emits_setSnapCondition emits_return split: prod.splits)
  from emitsD_result [OF this] emitsD_issued [OF this] show ?thesis
    by (fastforce simp: no_delete_def)
qed

theorem pending_snapshot_skips_retention_witness:
  "result (takeSnapshot ex_klib (ex_snap_env (ex_snapshot [ex_entry ''a'' 1] None) ex_failed_vs)
     (ex_snapshot [ex_entry ''a'' 1] None) (ex_server True stateRunning None)) \<lparr>calls = []\<rparr> = Inr 0"
proof -
  let ?E = "ex_snap_env (ex_snapshot [ex_entry ''a'' 1] None) ex_failed_vs"
  have "\<exists>vs. ve_getVS ?E h k = Inr vs \<and> vs_pending vs" for h k
    by (simp add: ex_snap_env_def vs_pending_def ex_failed_vs_def)
  moreover have "faithful_status ?E" by (simp add: faithful_status_def ex_snap_env_def)
  ultimately show ?thesis using pending_snapshot_skips_retention by blast
qed

text \<open>
  A one-shot snapshot is looked at once: when the object already records the time of a snapshot
  and has no schedule, a reconcile only reads the object and its server and stops. A VolumeSnapshot
  that was pending is therefore never examined again, and its readiness and size never recorded.
\<close>

theorem one_shot_never_revisited:
  assumes "ve_getSnapshot E (calls w) req = Inr snap"
    and "om_DeletionTimestamp (snap_meta snap) = None"
    and "ContainsFinalizer L (om_Finalizers (snap_meta snap)) gameSnapshotFinalizer"
    and "sn_Schedule (snap_spec snap) = []" "sns_LastSnapshotAt (snap_status snap) \<noteq> None"
    and "ve_getServer E (calls w @ [GetSnapshot req])
           \<lparr>nn_Namespace = snap_namespace snap, nn_Name = sn_GameServerRef (snap_spec snap)\<rparr> = Inr server"
  shows "result (ReconcileSnapshot L E req) w = Inr 0 \<and>
    issued (ReconcileSnapshot L E req) w =
      [GetSnapshot req, GetSnapshotServer
         \<lparr>nn_Namespace = snap_namespace snap, nn_Name = sn_GameServerRef (snap_spec snap)\<rparr>]"
  using assms
  by (auto simp: ReconcileSnapshot_def snapshotLive_def snapshotOf_def shouldTakeSnapshot_def
      result_def issued_def final_def io_simps Let_def)


section \<open>Deletion\<close>

text \<open>The snapshot controller has nothing to clean up: owner references take care of it.\<close>

interpretation snap_fin: finalized
  "\<lambda>snap. ContainsFinalizer L (om_Finalizers (snap_meta snap)) gameSnapshotFinalizer"
  "\<lambda>_. State_Monad.return (Inr ())"
  "\<lambda>snap. UpdateSnapshot (snap_finalizers (\<lambda>fs. RemoveFinalizer L fs gameSnapshotFinalizer) snap)"
  "\<lambda>snap h. ve_update E h (snap_finalizers (\<lambda>fs. RemoveFinalizer L fs gameSnapshotFinalizer) snap)"
  "snapshotDeleted L E"
  for L E
  by unfold_locales (auto simp: snapshotDeleted_def updateSnapshot_def bindE_def intro: emits_return)

end
