(* ===== verification/Webhooks.thy ===== *)
theory Webhooks
  imports GameServer_Properties
begin

text \<open>
  The admission webhooks (\<^verbatim>\<open>internal/webhook/gameprofile_webhook.go\<close>, \<^verbatim>\<open>gameserver_webhook.go\<close>).
  Admission is \<open>Inr ()\<close>, a rejection \<open>Inl\<close> with its message; neither validator ever warns. The
  order in which Go ranges over the map of tiers is the order of the list that stands for it.
\<close>

section \<open>GameProfile\<close>

text \<open>\<^verbatim>\<open>^[a-z0-9]([-a-z0-9]*[a-z0-9])?$\<close>\<close>

definition tierChar :: "char \<Rightarrow> bool" where
  "tierChar c \<longleftrightarrow> is_digit c \<or> CHR ''a'' \<le> c \<and> c \<le> CHR ''z''"

definition tierNamePattern :: "string \<Rightarrow> bool" where
  "tierNamePattern s \<longleftrightarrow>
     s \<noteq> [] \<and> tierChar (hd s) \<and> tierChar (last s) \<and> list_all (\<lambda>c. tierChar c \<or> c = CHR ''-'') s"

fun validatePorts :: "nat \<Rightarrow> PortSpec list \<Rightarrow> kerr + unit" where
  "validatePorts i [] = Inr ()"
| "validatePorts i (port # ports) =
     (if ps_Name port = [] then
        Inl (new_error (''spec.ports['' @ show_nat i @ ''].name is required''))
      else if ps_ContainerPort port \<le> 0 \<or> ps_ContainerPort port > 65535 then
        Inl (new_error (''spec.ports['' @ show_nat i @ ''].containerPort must be between 1 and 65535''))
      else validatePorts (Suc i) ports)"

fun validateTierNames :: "string list \<Rightarrow> kerr + unit" where
  "validateTierNames [] = Inr ()"
| "validateTierNames (name # names) =
     (if length name > 32 \<or> \<not> tierNamePattern name then
        Inl (new_error (''spec.resources.tiers['' @ quoted name @
          '']: tier names must be lowercase alphanumeric or dashes, max 32 characters''))
      else validateTierNames names)"

definition validateResourceTiers :: "GameProfile \<Rightarrow> kerr + unit" where
  "validateResourceTiers profile =
     (let resources = gp_Resources (profile_spec profile)
      in if length (rs_Tiers resources) = 0 then
           (if rs_Default resources \<noteq> [] then
              Inl (new_error (''spec.resources.default '' @ quoted (rs_Default resources) @
                '' has no matching tier: spec.resources.tiers is empty''))
            else Inr ())
         else (case validateTierNames (map fst (rs_Tiers resources)) of
             Inl err \<Rightarrow> Inl err
           | Inr _ \<Rightarrow>
               if rs_Default resources = [] then
                 Inl (new_error ''spec.resources.default is required when spec.resources.tiers is set'')
               else if map_of (rs_Tiers resources) (rs_Default resources) = None then
                 Inl (new_error (''spec.resources.default '' @ quoted (rs_Default resources) @
                   '' must name an existing tier''))
               else Inr ()))"

definition quantityChecked :: "klib \<Rightarrow> string \<Rightarrow> string \<Rightarrow> kerr + unit" where
  "quantityChecked L field q =
     (case QuantityError L q of
        Some err \<Rightarrow> Inl (wrap_error (''spec.storage.'' @ field @ '' '' @ quoted q @
                     '' is not a valid quantity: '') err)
      | None \<Rightarrow> Inr ())"

definition validateStorageSizes :: "klib \<Rightarrow> GameProfile \<Rightarrow> kerr + unit" where
  "validateStorageSizes L profile =
     (let s = gp_Storage (profile_spec profile);
          def = ss_SizeDefault s; lo = ss_SizeMin s; hi = ss_SizeMax s
      in case quantityChecked L ''sizeDefault'' def of
           Inl err \<Rightarrow> Inl err
         | Inr _ \<Rightarrow>
             (case (if lo = [] then Inr ()
                    else (case quantityChecked L ''sizeMin'' lo of
                        Inl err \<Rightarrow> Inl err
                      | Inr _ \<Rightarrow>
                          if QuantityCmp L def lo < 0 then
                            Inl (new_error (''spec.storage.sizeDefault '' @ quoted def @
                              '' is below sizeMin '' @ quoted lo))
                          else Inr ())) of
                Inl err \<Rightarrow> Inl err
              | Inr _ \<Rightarrow>
                  if hi = [] then Inr ()
                  else (case quantityChecked L ''sizeMax'' hi of
                      Inl err \<Rightarrow> Inl err
                    | Inr _ \<Rightarrow>
                        if QuantityCmp L def hi > 0 then
                          Inl (new_error (''spec.storage.sizeDefault '' @ quoted def @
                            '' exceeds sizeMax '' @ quoted hi))
                        else if lo \<noteq> [] \<and> QuantityCmp L lo hi > 0 then
                          Inl (new_error (''spec.storage.sizeMin '' @ quoted lo @
                            '' exceeds sizeMax '' @ quoted hi))
                        else Inr ())))"

definition validateGameProfile :: "klib \<Rightarrow> GameProfile \<Rightarrow> kerr + unit" where
  "validateGameProfile L profile =
     (let spec = profile_spec profile
      in if gp_Image spec = [] then Inl (new_error ''spec.image is required'')
         else if gp_DisplayName spec = [] then Inl (new_error ''spec.displayName is required'')
         else if ss_MountPath (gp_Storage spec) = [] then
           Inl (new_error ''spec.storage.mountPath is required'')
         else if ss_SizeDefault (gp_Storage spec) = [] then
           Inl (new_error ''spec.storage.sizeDefault is required'')
         else if ag_Image (gp_Agent spec) = [] then Inl (new_error ''spec.agent.image is required'')
         else (case validatePorts 0 (gp_Ports spec) of
             Inl err \<Rightarrow> Inl err
           | Inr _ \<Rightarrow>
               (case validateResourceTiers profile of
                  Inl err \<Rightarrow> Inl err
                | Inr _ \<Rightarrow> validateStorageSizes L profile)))"

text \<open>Creation and update are validated alike, deletion is not.\<close>

datatype 'a admission = AdmitCreate 'a | AdmitUpdate 'a 'a | AdmitDelete 'a

definition admitGameProfile :: "klib \<Rightarrow> GameProfile admission \<Rightarrow> kerr + unit" where
  "admitGameProfile L op' =
     (case op' of
        AdmitCreate profile \<Rightarrow> validateGameProfile L profile
      | AdmitUpdate oldProfile newProfile \<Rightarrow> validateGameProfile L newProfile
      | AdmitDelete profile \<Rightarrow> Inr ())"


section \<open>GameServer\<close>

text \<open>The profile is looked up through the API client, a parameter here.\<close>

definition validateGameServer ::
    "(string \<Rightarrow> kerr + GameProfile) \<Rightarrow> GameServer \<Rightarrow> kerr + unit" where
  "validateGameServer getProfile server =
     (if gs_Profile (server_spec server) = [] then Inl (new_error ''spec.profile is required'')
      else (case getProfile (gs_Profile (server_spec server)) of
          Inl err \<Rightarrow> Inl (wrap_error (''spec.profile '' @ quoted (gs_Profile (server_spec server)) @
                        '' not found: '') err)
        | Inr profile \<Rightarrow>
            (case gss_SnapshotRef (gs_Storage (server_spec server)) of
               Some ref \<Rightarrow>
                 if sr_Name ref = [] then
                   Inl (new_error ''spec.storage.snapshotRef.name is required when snapshotRef is set'')
                 else Inr ()
             | None \<Rightarrow> Inr ())))"

definition admitGameServer ::
    "(string \<Rightarrow> kerr + GameProfile) \<Rightarrow> GameServer admission \<Rightarrow> kerr + unit" where
  "admitGameServer getProfile op' =
     (case op' of
        AdmitCreate server \<Rightarrow> validateGameServer getProfile server
      | AdmitUpdate oldServer newServer \<Rightarrow> validateGameServer getProfile newServer
      | AdmitDelete server \<Rightarrow> Inr ())"


section \<open>What admission guarantees\<close>

lemma validatePorts_iff:
  "validatePorts i ports = Inr () \<longleftrightarrow>
     (\<forall>p\<in>set ports. ps_Name p \<noteq> [] \<and> 1 \<le> ps_ContainerPort p \<and> ps_ContainerPort p \<le> 65535)"
  by (induction i ports rule: validatePorts.induct) auto

lemma validateTierNames_iff:
  "validateTierNames names = Inr () \<longleftrightarrow> (\<forall>n\<in>set names. length n \<le> 32 \<and> tierNamePattern n)"
  by (induction names) auto

definition tiers_ok :: "ResourcesSpec \<Rightarrow> bool" where
  "tiers_ok r \<longleftrightarrow>
     (if rs_Tiers r = [] then rs_Default r = []
      else (\<forall>n\<in>fst ` set (rs_Tiers r). length n \<le> 32 \<and> tierNamePattern n) \<and>
           rs_Default r \<noteq> [] \<and> rs_Default r \<in> fst ` set (rs_Tiers r))"

lemma validateResourceTiers_iff:
  "validateResourceTiers profile = Inr () \<longleftrightarrow> tiers_ok (gp_Resources (profile_spec profile))"
  using validateTierNames_iff [of "map fst (rs_Tiers (gp_Resources (profile_spec profile)))"]
  by (auto simp: validateResourceTiers_def tiers_ok_def Let_def map_of_eq_None_iff split: sum.splits)

definition sizes_ordered :: "klib \<Rightarrow> StorageSpec \<Rightarrow> bool" where
  "sizes_ordered L s \<longleftrightarrow>
     QuantityError L (ss_SizeDefault s) = None \<and>
     (ss_SizeMin s \<noteq> [] \<longrightarrow> QuantityError L (ss_SizeMin s) = None \<and>
        0 \<le> QuantityCmp L (ss_SizeDefault s) (ss_SizeMin s)) \<and>
     (ss_SizeMax s \<noteq> [] \<longrightarrow> QuantityError L (ss_SizeMax s) = None \<and>
        QuantityCmp L (ss_SizeDefault s) (ss_SizeMax s) \<le> 0) \<and>
     (ss_SizeMin s \<noteq> [] \<and> ss_SizeMax s \<noteq> [] \<longrightarrow> QuantityCmp L (ss_SizeMin s) (ss_SizeMax s) \<le> 0)"

lemma validateStorageSizes_iff:
  "validateStorageSizes L profile = Inr () \<longleftrightarrow> sizes_ordered L (gp_Storage (profile_spec profile))"
  by (auto simp: validateStorageSizes_def sizes_ordered_def quantityChecked_def Let_def
      split: sum.splits option.splits if_splits)

text \<open>
  C15. What an admitted profile guarantees to the controllers: a profile is admitted exactly when it
  names an image, a display name and an agent image, has a mount path and a valid default size
  within the declared bounds, all its ports are named and in range, and its tiers are well named with
  a default among them. For such a profile the pod builder succeeds for every server.
\<close>

theorem admitted_profile_iff:
  "validateGameProfile L profile = Inr () \<longleftrightarrow>
     (let spec = profile_spec profile
      in pod_buildable profile \<and> gp_DisplayName spec \<noteq> [] \<and> ss_SizeDefault (gp_Storage spec) \<noteq> [] \<and>
         sizes_ordered L (gp_Storage spec) \<and>
         (\<forall>p\<in>set (gp_Ports spec). ps_Name p \<noteq> [] \<and> 1 \<le> ps_ContainerPort p \<and> ps_ContainerPort p \<le> 65535) \<and>
         tiers_ok (gp_Resources spec) \<and>
         (\<forall>server ps. \<exists>pod. BuildGameServerPodSpecWithPullSecrets profile server ps = Inr pod))"
proof -
  have pod: "(\<forall>server ps. \<exists>pod. BuildGameServerPodSpecWithPullSecrets profile server ps = Inr pod) \<longleftrightarrow>
      pod_buildable profile"
    using pod_spec_total by blast
  show ?thesis
    unfolding Let_def pod
    using validatePorts_iff [of 0 "gp_Ports (profile_spec profile)"] validateResourceTiers_iff [of profile]
      validateStorageSizes_iff [of L profile]
    by (auto simp: validateGameProfile_def pod_buildable_def Let_def split: sum.splits)
qed

text \<open>
  Tiers. For an admitted profile with tiers, a server that asks for no tier gets the default tier
  and a server that asks for an existing one gets that; but a server that asks for a tier the
  profile does not have is admitted all the same and gets the flat inline requirements, not the
  default tier.
\<close>

theorem tier_resolution:
  assumes "validateGameProfile L profile = Inr ()" "rs_Tiers (gp_Resources (profile_spec profile)) \<noteq> []"
  shows "(gs_Tier (server_spec server) = [] \<longrightarrow>
       map_of (rs_Tiers (gp_Resources (profile_spec profile))) (rs_Default (gp_Resources (profile_spec profile))) =
         Some (ResolveGameResources profile server)) \<and>
    (\<forall>req. map_of (rs_Tiers (gp_Resources (profile_spec profile))) (gs_Tier (server_spec server)) = Some req \<longrightarrow>
       gs_Tier (server_spec server) \<noteq> [] \<longrightarrow> ResolveGameResources profile server = req) \<and>
    (gs_Tier (server_spec server) \<noteq> [] \<and>
     map_of (rs_Tiers (gp_Resources (profile_spec profile))) (gs_Tier (server_spec server)) = None \<longrightarrow>
       ResolveGameResources profile server = rs_Inline (gp_Resources (profile_spec profile)))"
proof -
  have "validateResourceTiers profile = Inr ()"
    using assms(1) by (auto simp: validateGameProfile_def Let_def split: if_splits sum.splits)
  with assms(2) have "rs_Default (gp_Resources (profile_spec profile)) \<in>
      fst ` set (rs_Tiers (gp_Resources (profile_spec profile)))"
    by (simp add: validateResourceTiers_iff tiers_ok_def)
  then obtain req where "map_of (rs_Tiers (gp_Resources (profile_spec profile)))
      (rs_Default (gp_Resources (profile_spec profile))) = Some req"
    by (metis map_of_eq_None_iff not_Some_eq)
  with assms(2) show ?thesis by (auto simp: ResolveGameResources_def ForTier_def Let_def)
qed

definition ex_tiered_profile :: GameProfile where
  "ex_tiered_profile = ex_profile\<lparr>profile_spec := (profile_spec ex_profile)
     \<lparr>gp_Resources := \<lparr>rs_Inline = no_resources,
        rs_Tiers = [(''small'', \<lparr>rr_Requests = [(''cpu'', ''1'')], rr_Limits = []\<rparr>)],
        rs_Default = ''small''\<rparr>\<rparr>\<rparr>"

definition ex_tier_server :: GameServer where
  "ex_tier_server = (ex_server True [] None)\<lparr>server_spec :=
     (server_spec (ex_server True [] None))\<lparr>gs_Tier := ''huge''\<rparr>\<rparr>"

lemma ex_tiered_admitted: "validateGameProfile ex_klib ex_tiered_profile = Inr ()"
  by (simp add: validateGameProfile_def validateResourceTiers_def validateStorageSizes_def
      quantityChecked_def ex_tiered_profile_def ex_profile_def ex_port_def ex_klib_def Let_def
      tierNamePattern_def tierChar_def is_digit_def less_eq_char_def)

theorem admitted_profile_iff_witness:
  "\<exists>pod. BuildGameServerPodSpecWithPullSecrets ex_tiered_profile ex_tier_server [] = Inr pod"
  using admitted_profile_iff [of ex_klib ex_tiered_profile] ex_tiered_admitted unfolding Let_def by blast

theorem tier_resolution_witness:
  "ResolveGameResources ex_tiered_profile ex_tier_server = no_resources"
  using tier_resolution [OF ex_tiered_admitted, of ex_tier_server]
  by (simp add: ex_tiered_profile_def ex_tier_server_def ex_server_def)

end
