(* ===== verification/Control_Plane_Types.thy ===== *)
theory Control_Plane_Types
  imports GameServer_Objects
begin

text \<open>
  The control plane's data: users, requests and responses, API keys and tenant objects, audit events,
  and the calls that its handlers make (\<^verbatim>\<open>internal/controlplane\<close>, \<^verbatim>\<open>cmd/controlplane\<close>).
  A request carries what the code reads of it; the user that the auth middleware puts into the
  context of the request it passes on is the field \<open>rq_User\<close> of that request.
\<close>

section \<open>Users and HTTP\<close>

record User =
  u_ID :: string
  u_Username :: string
  u_Email :: string
  u_Role :: string
  u_Source :: string
  u_Namespaces :: "string list"

text \<open>
  A request. \<open>rq_Path\<close> is the decoded \<^verbatim>\<open>URL.Path\<close>; \<open>rq_RawPath\<close> is \<^verbatim>\<open>URL.RawPath\<close>, the path as
  it was sent when this is not the default encoding of the decoded one, and empty otherwise.
\<close>

record http_request =
  rq_Method :: string
  rq_Path :: string
  rq_RawPath :: string
  rq_Header :: labels
  rq_BasicAuth :: "(string \<times> string) option"
  rq_RemoteAddr :: string
  rq_User :: "User option"

text \<open>\<^verbatim>\<open>r.Header.Get\<close>, for names in canonical form.\<close>

definition header_get :: "http_request \<Rightarrow> string \<Rightarrow> string" where
  "header_get r name = map_str (rq_Header r) name"

definition WithUser :: "http_request \<Rightarrow> User \<Rightarrow> http_request" where
  "WithUser r user = r\<lparr>rq_User := Some user\<rparr>"

definition GetUser :: "http_request \<Rightarrow> User option" where
  "GetUser r = rq_User r"


section \<open>API keys\<close>

record APIKeyEntry =
  ak_Name :: string
  ak_KeyID :: string
  ak_UserID :: string
  ak_Username :: string
  ak_Role :: string
  ak_CreatedAt :: time
  ak_Namespaces :: "string list"
  ak_ExpiresAt :: "time option"

text \<open>A Secret that holds a key; the API server moves \<^verbatim>\<open>stringData\<close> into \<^verbatim>\<open>data\<close>.\<close>

record KeySecret =
  ks_Name :: string
  ks_Namespace :: string
  ks_Labels :: labels
  ks_Data :: labels


section \<open>Tenant objects\<close>

record Namespace =
  ns_Name :: string
  ns_Labels :: labels

record ResourceQuota =
  rq_meta :: ObjectMeta
  rq_Hard :: labels

record NetworkPolicyPort =
  np_Protocol :: string
  np_Port :: int

text \<open>A rule with no peers admits every peer, one with no ports every port.\<close>

record NetworkPolicyRule =
  nr_Namespaces :: "string list"
  nr_Ports :: "NetworkPolicyPort list"

record NetworkPolicy =
  pol_meta :: ObjectMeta
  pol_Types :: "string list"
  pol_Ingress :: "NetworkPolicyRule list"
  pol_Egress :: "NetworkPolicyRule list"


section \<open>Audit events\<close>

record Event =
  ev_User :: string
  ev_Role :: string
  ev_Action :: string
  ev_Resource :: string
  ev_Method :: string
  ev_Path :: string
  ev_ClientIP :: string
  ev_Result :: string


section \<open>Responses\<close>

datatype body =
    NoBody
  | PlainText string
  | ErrorJSON string
  | BodyServers "GameServer list"
  | BodyServer GameServer
  | BodyFleets "GameServerFleet list"
  | BodyFleet GameServerFleet
  | BodyProfiles "GameProfile list"
  | BodyProfile GameProfile
  | BodyActions "ActionDecl list"
  | BodyExecution ActionExecution
  | BodyExecutionName string
  | BodySnapshots "GameSnapshot list"
  | BodySnapshot GameSnapshot
  | BodyKeys "APIKeyEntry list"
  | BodyNewKey APIKeyEntry string
  | BodySFTP string int string string
  | BodyAuthConfig "string list" bool "string option"

record http_response =
  rs_Status :: int
  rs_Body :: body


section \<open>Calls\<close>

datatype cp_call =
    CpNow
  | ListKeySecrets string
  | CreateKeySecret KeySecret
  | DeleteKeySecret NamespacedName
  | RandRead nat
  | VerifyToken string
  | GetNamespace string
  | CreateNamespace Namespace
  | CreateQuota ResourceQuota
  | CreatePolicy NetworkPolicy
  | CpListServers
  | CpGetServer NamespacedName
  | CpCreateServer GameServer
  | CpUpdateServer GameServer
  | CpDeleteServer NamespacedName
  | CpListFleets
  | CpGetFleet NamespacedName
  | CpCreateFleet GameServerFleet
  | CpUpdateFleet GameServerFleet
  | CpDeleteFleet NamespacedName
  | CpListProfiles
  | CpGetProfile string
  | CpGetSecret NamespacedName
  | CpCreateExecution ActionExecution
  | CpGetExecution NamespacedName
  | CpListSnapshots string "string option"
  | CpCreateSnapshot GameSnapshot
  | LogAudit Event

text \<open>What a verified ID token carries: the standard claims and the value of the role claim.\<close>

datatype claim_value = ClaimString string | ClaimList "string option list" | ClaimOther

record id_token =
  tok_Sub :: string
  tok_Email :: string
  tok_Name :: string
  tok_PreferredUsername :: string
  tok_Claims :: "(string, claim_value) gomap"

record cp_env =
  cp_now :: "cp_call list \<Rightarrow> time"
  cp_listKeySecrets :: "cp_call list \<Rightarrow> string \<Rightarrow> kerr + KeySecret list"
  cp_createKeySecret :: "cp_call list \<Rightarrow> KeySecret \<Rightarrow> kerr + unit"
  cp_deleteKeySecret :: "cp_call list \<Rightarrow> NamespacedName \<Rightarrow> kerr + unit"
  cp_randRead :: "cp_call list \<Rightarrow> nat \<Rightarrow> kerr + nat list"
  cp_verifyToken :: "cp_call list \<Rightarrow> string \<Rightarrow> kerr + id_token"
  cp_getNamespace :: "cp_call list \<Rightarrow> string \<Rightarrow> kerr + Namespace"
  cp_createNamespace :: "cp_call list \<Rightarrow> Namespace \<Rightarrow> kerr + unit"
  cp_createQuota :: "cp_call list \<Rightarrow> ResourceQuota \<Rightarrow> kerr + unit"
  cp_createPolicy :: "cp_call list \<Rightarrow> NetworkPolicy \<Rightarrow> kerr + unit"
  cp_listServers :: "cp_call list \<Rightarrow> kerr + GameServer list"
  cp_getServer :: "cp_call list \<Rightarrow> NamespacedName \<Rightarrow> kerr + GameServer"
  cp_createServer :: "cp_call list \<Rightarrow> GameServer \<Rightarrow> kerr + GameServer"
  cp_updateServer :: "cp_call list \<Rightarrow> GameServer \<Rightarrow> kerr + GameServer"
  cp_deleteServer :: "cp_call list \<Rightarrow> NamespacedName \<Rightarrow> kerr + unit"
  cp_listFleets :: "cp_call list \<Rightarrow> kerr + GameServerFleet list"
  cp_getFleet :: "cp_call list \<Rightarrow> NamespacedName \<Rightarrow> kerr + GameServerFleet"
  cp_createFleet :: "cp_call list \<Rightarrow> GameServerFleet \<Rightarrow> kerr + GameServerFleet"
  cp_updateFleet :: "cp_call list \<Rightarrow> GameServerFleet \<Rightarrow> kerr + GameServerFleet"
  cp_deleteFleet :: "cp_call list \<Rightarrow> NamespacedName \<Rightarrow> kerr + unit"
  cp_listProfiles :: "cp_call list \<Rightarrow> kerr + GameProfile list"
  cp_getProfile :: "cp_call list \<Rightarrow> string \<Rightarrow> kerr + GameProfile"
  cp_getSecret :: "cp_call list \<Rightarrow> NamespacedName \<Rightarrow> kerr + Secret"
  cp_createExecution :: "cp_call list \<Rightarrow> ActionExecution \<Rightarrow> kerr + unit"
  cp_getExecution :: "cp_call list \<Rightarrow> NamespacedName \<Rightarrow> kerr + ActionExecution"
  cp_listSnapshots :: "cp_call list \<Rightarrow> string \<Rightarrow> string option \<Rightarrow> kerr + GameSnapshot list"
  cp_createSnapshot :: "cp_call list \<Rightarrow> GameSnapshot \<Rightarrow> kerr + GameSnapshot"

type_synonym 'a cp_prog = "(cp_call world, 'a) state"
type_synonym handler = "http_request \<Rightarrow> http_response cp_prog"

definition cpClock :: "cp_env \<Rightarrow> time cp_prog" where
  "cpClock E = perform CpNow (cp_now E)"

definition http_error :: "int \<Rightarrow> string \<Rightarrow> http_response" where
  "http_error status msg = \<lparr>rs_Status = status, rs_Body = PlainText msg\<rparr>"

text \<open>
  Codecs that the code takes from elsewhere: bcrypt, the JSON form of an API key entry (decoding
  into an entry, which keeps the fields the text does not set) and RFC 3339 times.
\<close>

record authlib =
  al_hash :: "string \<Rightarrow> kerr + string"
  al_check :: "string \<Rightarrow> string \<Rightarrow> bool"
  al_marshal :: "APIKeyEntry \<Rightarrow> string"
  al_unmarshal :: "string \<Rightarrow> APIKeyEntry \<Rightarrow> APIKeyEntry"
  al_formatTime :: "time \<Rightarrow> string"
  al_parseTime :: "string \<Rightarrow> kerr + time"

end
