(* ===== verification/Auth.thy ===== *)
theory Auth
  imports Control_Plane_Types
begin

text \<open>
  Authentication (\<^verbatim>\<open>internal/controlplane/auth\<close>): namespace patterns, the four providers and
  their chain, API key storage, configuration and the middleware.
\<close>

section \<open>Namespace patterns (namespace.go)\<close>

definition MatchNamespacePattern :: "string \<Rightarrow> string \<Rightarrow> bool" where
  "MatchNamespacePattern pattern ns =
     (if pattern = ''*'' then True
      else if HasSuffix pattern ''*'' then HasPrefix ns (TrimSuffix pattern ''*'')
      else pattern = ns)"

definition MatchAnyNamespace :: "string list \<Rightarrow> string \<Rightarrow> bool" where
  "MatchAnyNamespace patterns ns = list_ex (\<lambda>p. MatchNamespacePattern p ns) patterns"

definition ParseNamespaces :: "string \<Rightarrow> string list" where
  "ParseNamespaces s = filter (\<lambda>part. part \<noteq> []) (map TrimSpace (split_char (CHR '','') s))"

text \<open>The methods of \<^verbatim>\<open>*User\<close> accept nil.\<close>

definition IsAnonymous :: "User option \<Rightarrow> bool" where
  "IsAnonymous u = (case u of None \<Rightarrow> True | Some v \<Rightarrow> u_ID v = [])"

definition ClusterWide :: "User option \<Rightarrow> bool" where
  "ClusterWide u = (case u of None \<Rightarrow> True | Some v \<Rightarrow> length (u_Namespaces v) = 0)"

definition AllowsNamespace :: "User option \<Rightarrow> string \<Rightarrow> bool" where
  "AllowsNamespace u ns =
     (if ClusterWide u then True
      else (case u of None \<Rightarrow> True | Some v \<Rightarrow> MatchAnyNamespace (u_Namespaces v) ns))"


section \<open>Providers and their chain (auth.go)\<close>

definition ErrUnauthorized :: kerr where "ErrUnauthorized = new_error ''unauthorized''"

record Provider =
  pv_Name :: string
  pv_Authenticate :: "http_request \<Rightarrow> (kerr + User) cp_prog"

fun Authenticate :: "Provider list \<Rightarrow> http_request \<Rightarrow> (kerr + User) cp_prog" where
  "Authenticate [] r = State_Monad.return (Inl ErrUnauthorized)"
| "Authenticate (p # ps) r =
     do {
       result \<leftarrow> pv_Authenticate p r;
       case result of
         Inr user \<Rightarrow> State_Monad.return (Inr user)
       | Inl _ \<Rightarrow> Authenticate ps r
     }"

definition publicPath :: "string \<Rightarrow> bool" where
  "publicPath p \<longleftrightarrow> p = ''/healthz'' \<or> p = ''/readyz'' \<or> p = ''/auth/config''"

definition AuthMiddleware :: "Provider list \<Rightarrow> handler \<Rightarrow> handler" where
  "AuthMiddleware chain next' r =
     (if publicPath (rq_Path r) then next' r
      else do {
        result \<leftarrow> Authenticate chain r;
        case result of
          Inl err \<Rightarrow> State_Monad.return (http_error 401 ''Unauthorized'')
        | Inr user \<Rightarrow> next' (WithUser r user)
      })"

definition ExtractBearer :: "http_request \<Rightarrow> string" where
  "ExtractBearer r =
     (let header = header_get r ''Authorization''
      in if HasPrefix header ''Bearer '' then TrimSpace (drop (length ''Bearer '') header) else [])"


section \<open>API key storage (storage.go)\<close>

definition apiKeySecretPrefix :: string where "apiKeySecretPrefix = ''minato-apikey-''"
definition apiKeySecretLabel :: string where "apiKeySecretLabel = ''minato.io/apikey''"
definition apiKeyLength :: nat where "apiKeyLength = 32"

definition Expired :: "APIKeyEntry \<Rightarrow> time \<Rightarrow> bool" where
  "Expired e now = (case ak_ExpiresAt e of None \<Rightarrow> False | Some t \<Rightarrow> now > t)"

definition toSecret :: "authlib \<Rightarrow> string \<Rightarrow> APIKeyEntry \<Rightarrow> KeySecret" where
  "toSecret A namespace entry =
     \<lparr>ks_Name = apiKeySecretPrefix @ ak_Name entry,
      ks_Namespace = namespace,
      ks_Labels = [(apiKeySecretLabel, ''true''), (''minato.io/created-by'', ak_Username entry)],
      ks_Data =
        [(''key'', ak_KeyID entry), (''metadata'', al_marshal A entry)] @
        (if length (ak_Namespaces entry) > 0
         then [(''namespaces'', join_char (CHR '','') (ak_Namespaces entry))] else []) @
        (case ak_ExpiresAt entry of
           None \<Rightarrow> []
         | Some t \<Rightarrow> [(''expiresAt'', al_formatTime A t)])\<rparr>"

definition empty_entry :: APIKeyEntry where
  "empty_entry = \<lparr>ak_Name = [], ak_KeyID = [], ak_UserID = [], ak_Username = [], ak_Role = [],
                  ak_CreatedAt = 0, ak_Namespaces = [], ak_ExpiresAt = None\<rparr>"

definition fromSecret :: "authlib \<Rightarrow> KeySecret \<Rightarrow> APIKeyEntry" where
  "fromSecret A secret =
     (let data = ks_Data secret;
          entry = (case map_of data ''metadata'' of
              None \<Rightarrow> empty_entry | Some d \<Rightarrow> al_unmarshal A d empty_entry);
          entry = (if ak_KeyID entry = [] then entry\<lparr>ak_KeyID := map_str data ''key''\<rparr> else entry);
          entry = (if ak_Name entry = []
                   then entry\<lparr>ak_Name := TrimPrefix (ks_Name secret) apiKeySecretPrefix\<rparr> else entry);
          entry = (if map_str data ''namespaces'' \<noteq> []
                   then entry\<lparr>ak_Namespaces := ParseNamespaces (map_str data ''namespaces'')\<rparr> else entry)
      in if map_str data ''expiresAt'' \<noteq> [] then
           (case al_parseTime A (map_str data ''expiresAt'') of
              Inl _ \<Rightarrow> entry
            | Inr t \<Rightarrow> entry\<lparr>ak_ExpiresAt := Some t\<rparr>)
         else entry)"

definition listKeySecrets :: "cp_env \<Rightarrow> string \<Rightarrow> (kerr + KeySecret list) cp_prog" where
  "listKeySecrets E namespace =
     fmap (map_err (wrap_error ''list keys: ''))
       (perform (ListKeySecrets namespace) (\<lambda>h. cp_listKeySecrets E h namespace))"

definition GetKey :: "authlib \<Rightarrow> cp_env \<Rightarrow> string \<Rightarrow> string \<Rightarrow> (kerr + APIKeyEntry) cp_prog" where
  "GetKey A E namespace keyValue =
     bindE (listKeySecrets E namespace) (\<lambda>items.
       case find (\<lambda>s. map_str (ks_Data s) ''key'' = keyValue) items of
         None \<Rightarrow> State_Monad.return (Inl ErrUnauthorized)
       | Some secret \<Rightarrow>
           (let entry = fromSecret A secret
            in if ak_ExpiresAt entry = None then State_Monad.return (Inr entry)
               else do {
                 now \<leftarrow> cpClock E;
                 State_Monad.return (if Expired entry now then Inl ErrUnauthorized else Inr entry)
               }))"

definition ListKeys :: "authlib \<Rightarrow> cp_env \<Rightarrow> string \<Rightarrow> (kerr + APIKeyEntry list) cp_prog" where
  "ListKeys A E namespace =
     bindE (listKeySecrets E namespace) (\<lambda>items.
       State_Monad.return (Inr (map (\<lambda>s. (fromSecret A s)\<lparr>ak_KeyID := []\<rparr>) items)))"

text \<open>\<^verbatim>\<open>hex.EncodeToString\<close>\<close>

definition hexBytes :: "nat list \<Rightarrow> string" where
  "hexBytes bs = concat (map (\<lambda>b. [hex_digit (b div 16), hex_digit (b mod 16)]) bs)"

definition generateRandomKey :: "cp_env \<Rightarrow> (kerr + string) cp_prog" where
  "generateRandomKey E =
     bindE (perform (RandRead apiKeyLength) (\<lambda>h. cp_randRead E h apiKeyLength)) (\<lambda>bytes.
       State_Monad.return (Inr (''minato_'' @ hexBytes bytes)))"

definition GenerateKey ::
    "authlib \<Rightarrow> cp_env \<Rightarrow> string \<Rightarrow> string \<Rightarrow> string \<Rightarrow> string \<Rightarrow> string \<Rightarrow> string list \<Rightarrow> time option \<Rightarrow>
       (kerr + APIKeyEntry \<times> string) cp_prog" where
  "GenerateKey A E namespace name userID username role namespaces expiresAt =
     bindE (fmap (map_err (wrap_error ''generate key: '')) (generateRandomKey E)) (\<lambda>keyValue. do {
       now \<leftarrow> cpClock E;
       let entry = \<lparr>ak_Name = name, ak_KeyID = keyValue, ak_UserID = userID, ak_Username = username,
                    ak_Role = role, ak_CreatedAt = now, ak_Namespaces = namespaces,
                    ak_ExpiresAt = expiresAt\<rparr>;
       let secret = toSecret A namespace entry;
       stored \<leftarrow> perform (CreateKeySecret secret) (\<lambda>h. cp_createKeySecret E h secret);
       State_Monad.return (case stored of
         Inl err \<Rightarrow> Inl (wrap_error ''store key: '' err)
       | Inr _ \<Rightarrow> Inr (entry, keyValue))
     })"

definition DeleteKey :: "cp_env \<Rightarrow> string \<Rightarrow> string \<Rightarrow> (kerr + unit) cp_prog" where
  "DeleteKey E namespace name =
     (let k = \<lparr>nn_Namespace = namespace, nn_Name = apiKeySecretPrefix @ name\<rparr>
      in fmap (map_err (\<lambda>err. if IsNotFound err then new_error (''key not found: '' @ name)
                              else wrap_error ''delete key: '' err))
           (perform (DeleteKeySecret k) (\<lambda>h. cp_deleteKeySecret E h k)))"


section \<open>The providers\<close>

text \<open>apikey.go\<close>

definition authenticateAPIKey ::
    "authlib \<Rightarrow> cp_env \<Rightarrow> string \<Rightarrow> http_request \<Rightarrow> (kerr + User) cp_prog" where
  "authenticateAPIKey A E namespace r =
     (let keyValue = (if header_get r ''X-API-Key'' = [] then ExtractBearer r
                      else header_get r ''X-API-Key'')
      in if keyValue = [] then State_Monad.return (Inl ErrUnauthorized)
         else do {
           got \<leftarrow> GetKey A E namespace keyValue;
           State_Monad.return (case got of
             Inl _ \<Rightarrow> Inl ErrUnauthorized
           | Inr entry \<Rightarrow> Inr
               \<lparr>u_ID = ak_UserID entry, u_Username = ak_Username entry, u_Email = [],
                u_Role = ak_Role entry, u_Source = ''apikey'', u_Namespaces = ak_Namespaces entry\<rparr>)
         })"

definition NewAPIKeyProvider :: "authlib \<Rightarrow> cp_env \<Rightarrow> string \<Rightarrow> Provider" where
  "NewAPIKeyProvider A E namespace =
     \<lparr>pv_Name = ''apikey'', pv_Authenticate = authenticateAPIKey A E namespace\<rparr>"

text \<open>basic.go\<close>

record BasicConfig =
  bc_Enabled :: bool
  bc_User :: string
  bc_Password :: string
  bc_Role :: string

record BasicProvider =
  bp_user :: string
  bp_password :: string
  bp_role :: string

definition bcryptPrefixed :: "string \<Rightarrow> bool" where
  "bcryptPrefixed password \<longleftrightarrow>
     HasPrefix password ''$2a$'' \<or> HasPrefix password ''$2b$'' \<or> HasPrefix password ''$2y$''"

definition NewBasicProvider :: "authlib \<Rightarrow> BasicConfig \<Rightarrow> kerr + BasicProvider" where
  "NewBasicProvider A cfg =
     (if bc_User cfg = [] \<or> bc_Password cfg = []
      then Inl (new_error ''basic auth: user and password required'')
      else (case (if bcryptPrefixed (bc_Password cfg) then Inr (bc_Password cfg)
                  else al_hash A (bc_Password cfg)) of
          Inl err \<Rightarrow> Inl err
        | Inr password \<Rightarrow>
            Inr \<lparr>bp_user = bc_User cfg, bp_password = password, bp_role = bc_Role cfg\<rparr>))"

definition authenticateBasic :: "authlib \<Rightarrow> BasicProvider \<Rightarrow> http_request \<Rightarrow> kerr + User" where
  "authenticateBasic A p r =
     (case rq_BasicAuth r of
        None \<Rightarrow> Inl ErrUnauthorized
      | Some (user, pass) \<Rightarrow>
          if user \<noteq> bp_user p then Inl ErrUnauthorized
          else if \<not> al_check A pass (bp_password p) then Inl ErrUnauthorized
          else Inr \<lparr>u_ID = user, u_Username = user, u_Email = [], u_Role = bp_role p,
                    u_Source = ''basic'', u_Namespaces = []\<rparr>)"

text \<open>oidc.go\<close>

record OIDCConfig =
  oc_Enabled :: bool
  oc_IssuerURL :: string
  oc_ClientID :: string
  oc_RoleClaim :: string

definition claimedRole :: "id_token \<Rightarrow> string \<Rightarrow> string" where
  "claimedRole tok roleClaim =
     (if roleClaim = [] then ''viewer''
      else (case map_of (tok_Claims tok) roleClaim of
          Some (ClaimString v) \<Rightarrow> v
        | Some (ClaimList (Some s # _)) \<Rightarrow> s
        | _ \<Rightarrow> ''viewer''))"

definition authenticateOIDC :: "cp_env \<Rightarrow> string \<Rightarrow> http_request \<Rightarrow> (kerr + User) cp_prog" where
  "authenticateOIDC E roleClaim r =
     (let raw = ExtractBearer r
      in if raw = [] then State_Monad.return (Inl ErrUnauthorized)
         else do {
           verified \<leftarrow> perform (VerifyToken raw) (\<lambda>h. cp_verifyToken E h raw);
           State_Monad.return (case verified of
             Inl _ \<Rightarrow> Inl ErrUnauthorized
           | Inr tok \<Rightarrow> Inr
               \<lparr>u_ID = tok_Sub tok,
                u_Username = (if tok_PreferredUsername tok \<noteq> [] then tok_PreferredUsername tok
                              else if tok_Name tok \<noteq> [] then tok_Name tok else tok_Sub tok),
                u_Email = tok_Email tok, u_Role = claimedRole tok roleClaim, u_Source = ''oidc'',
                u_Namespaces = []\<rparr>)
         })"

text \<open>none.go\<close>

definition anonymousAdmin :: User where
  "anonymousAdmin = \<lparr>u_ID = ''anonymous'', u_Username = ''anonymous'', u_Email = [], u_Role = ''admin'',
                     u_Source = ''none'', u_Namespaces = []\<rparr>"

definition NewNoneProvider :: Provider where
  "NewNoneProvider =
     \<lparr>pv_Name = ''none'', pv_Authenticate = (\<lambda>_. State_Monad.return (Inr anonymousAdmin))\<rparr>"


section \<open>Configuration (auth.go)\<close>

record Config =
  cfg_Mode :: string
  cfg_Basic :: BasicConfig
  cfg_OIDC :: OIDCConfig
  cfg_APIKeyEnabled :: bool

definition getEnv :: "labels \<Rightarrow> string \<Rightarrow> string \<Rightarrow> string" where
  "getEnv env key fallback = (if map_str env key \<noteq> [] then map_str env key else fallback)"

definition getEnvBool :: "labels \<Rightarrow> string \<Rightarrow> bool \<Rightarrow> bool" where
  "getEnvBool env key fallback =
     (if map_str env key \<noteq> [] then ToLower (map_str env key) = ''true'' \<or> map_str env key = ''1''
      else fallback)"

definition LoadConfig :: "labels \<Rightarrow> Config" where
  "LoadConfig env =
     \<lparr>cfg_Mode = getEnv env ''AUTH_MODE'' ''none'',
      cfg_Basic =
        \<lparr>bc_Enabled = getEnvBool env ''AUTH_BASIC_ENABLED'' False,
         bc_User = getEnv env ''AUTH_BASIC_USER'' [],
         bc_Password = getEnv env ''AUTH_BASIC_PASSWORD'' [],
         bc_Role = getEnv env ''AUTH_BASIC_ROLE'' ''admin''\<rparr>,
      cfg_OIDC =
        \<lparr>oc_Enabled = getEnvBool env ''AUTH_OIDC_ENABLED'' False,
         oc_IssuerURL = getEnv env ''AUTH_OIDC_ISSUER_URL'' [],
         oc_ClientID = getEnv env ''AUTH_OIDC_CLIENT_ID'' [],
         oc_RoleClaim = getEnv env ''AUTH_OIDC_ROLE_CLAIM'' ''groups''\<rparr>,
      cfg_APIKeyEnabled = getEnvBool env ''AUTH_APIKEY_ENABLED'' False\<rparr>"

text \<open>
  OIDC discovery is a parameter: it fails or succeeds for an issuer. \<open>keyNamespace\<close> is the
  namespace of the key storage, \<open>None\<close> when there is none.
\<close>

definition NewOIDCProvider ::
    "(string \<Rightarrow> kerr + unit) \<Rightarrow> cp_env \<Rightarrow> OIDCConfig \<Rightarrow> kerr + Provider" where
  "NewOIDCProvider discover E cfg =
     (if oc_IssuerURL cfg = [] \<or> oc_ClientID cfg = []
      then Inl (new_error ''oidc auth: issuer URL and client ID required'')
      else (let issuer = TrimSuffix (oc_IssuerURL cfg) ''/''
            in case discover issuer of
                 Inl err \<Rightarrow> Inl (wrap_error (''oidc auth: discovery failed for issuer '' @
                               quoted issuer @ '': '') err)
               | Inr _ \<Rightarrow> Inr \<lparr>pv_Name = ''oidc'', pv_Authenticate = authenticateOIDC E (oc_RoleClaim cfg)\<rparr>))"

definition providerFor ::
    "authlib \<Rightarrow> (string \<Rightarrow> kerr + unit) \<Rightarrow> cp_env \<Rightarrow> Config \<Rightarrow> string option \<Rightarrow> string \<Rightarrow>
       kerr + Provider list" where
  "providerFor A discover E cfg keyNamespace mode =
     (if mode = ''none'' then Inr [NewNoneProvider]
      else if mode = ''basic'' then
        (if bc_Enabled (cfg_Basic cfg) then
           (case NewBasicProvider A (cfg_Basic cfg) of
              Inl err \<Rightarrow> Inl (wrap_error ''basic auth: '' err)
            | Inr p \<Rightarrow> Inr [\<lparr>pv_Name = ''basic'',
                             pv_Authenticate = (\<lambda>r. State_Monad.return (authenticateBasic A p r))\<rparr>])
         else Inr [])
      else if mode = ''oidc'' then
        (if oc_Enabled (cfg_OIDC cfg) then
           (case NewOIDCProvider discover E (cfg_OIDC cfg) of
              Inl err \<Rightarrow> Inl (wrap_error ''oidc auth: '' err)
            | Inr p \<Rightarrow> Inr [p])
         else Inr [])
      else if mode = ''apikey'' then
        (case keyNamespace of
           Some ns \<Rightarrow> if cfg_APIKeyEnabled cfg then Inr [NewAPIKeyProvider A E ns] else Inr []
         | None \<Rightarrow> Inr [])
      else Inr [])"

fun addProviders ::
    "(string \<Rightarrow> kerr + Provider list) \<Rightarrow> string list \<Rightarrow> Provider list \<Rightarrow> kerr + Provider list" where
  "addProviders provide [] chain = Inr chain"
| "addProviders provide (mode # modes) chain =
     (case provide (TrimSpace (ToLower mode)) of
        Inl err \<Rightarrow> Inl err
      | Inr ps \<Rightarrow> addProviders provide modes (chain @ ps))"

definition BuildChainWithStorage ::
    "authlib \<Rightarrow> (string \<Rightarrow> kerr + unit) \<Rightarrow> cp_env \<Rightarrow> Config \<Rightarrow> string option \<Rightarrow> kerr + Provider list" where
  "BuildChainWithStorage A discover E cfg keyNamespace =
     (case addProviders (providerFor A discover E cfg keyNamespace)
             (split_char (CHR '','') (cfg_Mode cfg)) [] of
        Inl err \<Rightarrow> Inl err
      | Inr chain \<Rightarrow> Inr (if length chain = 0 then [NewNoneProvider] else chain))"

definition BuildChain ::
    "authlib \<Rightarrow> (string \<Rightarrow> kerr + unit) \<Rightarrow> cp_env \<Rightarrow> Config \<Rightarrow> kerr + Provider list" where
  "BuildChain A discover E cfg = BuildChainWithStorage A discover E cfg None"

end
