(* ===== verification/Rbac.thy ===== *)
theory Rbac
  imports Auth
begin

text \<open>
  Roles and route guards (\<^verbatim>\<open>internal/controlplane/rbac\<close>) and the audit middleware
  (\<^verbatim>\<open>internal/controlplane/audit\<close>), together with the order in which \<^verbatim>\<open>main\<close> installs the
  middleware. The guards share a contract, stated as a locale.
\<close>

section \<open>Roles (rbac.go)\<close>

record Permission =
  pm_Resource :: string
  pm_Verbs :: "string list"
  pm_Namespaces :: "string list"

record Role =
  ro_Name :: string
  ro_Permissions :: "Permission list"
  ro_Extends :: string

definition perm :: "string \<Rightarrow> string list \<Rightarrow> Permission" where
  "perm res verbs = \<lparr>pm_Resource = res, pm_Verbs = verbs, pm_Namespaces = []\<rparr>"

definition ViewerRole :: Role where
  "ViewerRole =
     \<lparr>ro_Name = ''viewer'',
      ro_Permissions =
        [perm ''gameservers'' [''get'', ''list''],
         perm ''gameserverfleets'' [''get'', ''list''],
         perm ''profiles'' [''get'', ''list''],
         perm ''snapshots'' [''get'', ''list''],
         perm ''actions'' [''get'', ''list''],
         perm ''executions'' [''get'', ''list'']],
      ro_Extends = []\<rparr>"

definition OperatorRole :: Role where
  "OperatorRole =
     \<lparr>ro_Name = ''operator'',
      ro_Permissions = [perm ''actions'' [''execute''], perm ''snapshots'' [''create'']],
      ro_Extends = ''viewer''\<rparr>"

definition AdminRole :: Role where
  "AdminRole =
     \<lparr>ro_Name = ''admin'',
      ro_Permissions =
        [perm ''gameservers'' [''create'', ''delete''],
         perm ''gameserverfleets'' [''create'', ''delete''],
         perm ''apikeys'' [''create'', ''delete'', ''list'']],
      ro_Extends = ''operator''\<rparr>"

type_synonym role_map = "(string, Role) gomap"

definition roleMap :: role_map where
  "roleMap = [(''viewer'', ViewerRole), (''operator'', OperatorRole), (''admin'', AdminRole)]"

definition RegisterRole :: "role_map \<Rightarrow> Role \<Rightarrow> role_map" where
  "RegisterRole m role = map_put (ro_Name role) role m"

definition GetRole :: "role_map \<Rightarrow> string \<Rightarrow> Role option" where
  "GetRole m name = map_of m name"

definition directPermission :: "Role \<Rightarrow> string \<Rightarrow> string \<Rightarrow> bool" where
  "directPermission role res verb =
     list_ex (\<lambda>p. (pm_Resource p = res \<or> pm_Resource p = ''*'') \<and>
                  list_ex (\<lambda>v. v = verb \<or> v = ''*'') (pm_Verbs p)) (ro_Permissions role)"

text \<open>
  The recursion over \<^verbatim>\<open>Extends\<close> is not bounded: with a role that extends itself through others the
  call does not return, which is the value \<open>None\<close>.
\<close>

partial_function (option) HasPermission :: "role_map \<Rightarrow> string \<Rightarrow> string \<Rightarrow> string \<Rightarrow> bool option" where
  "HasPermission m roleName res verb =
     (case GetRole m roleName of
        None \<Rightarrow> Some False
      | Some role \<Rightarrow>
          if ro_Extends role \<noteq> [] then
            Option.bind (HasPermission m (ro_Extends role) res verb)
              (\<lambda>inherited. if inherited then Some True else Some (directPermission role res verb))
          else Some (directPermission role res verb))"

definition RequireRole :: "string list \<Rightarrow> handler \<Rightarrow> handler" where
  "RequireRole roles next' r =
     (case GetUser r of
        None \<Rightarrow> State_Monad.return (http_error 401 ''Unauthorized'')
      | Some user \<Rightarrow>
          if u_Role user \<in> set roles then next' r
          else State_Monad.return (http_error 403 ''Forbidden''))"

definition ResourceFromPath :: "string \<Rightarrow> string" where
  "ResourceFromPath path =
     (if str_contains path ''/gameservers/'' \<and> str_contains path ''/actions'' then ''actions''
      else if str_contains path ''/gameservers/'' \<and> str_contains path ''/snapshots'' then ''snapshots''
      else if str_contains path ''/gameservers/'' \<and> str_contains path ''/console'' then ''console''
      else if str_contains path ''/gameservers'' then ''gameservers''
      else if str_contains path ''/gameserverfleets'' then ''gameserverfleets''
      else if str_contains path ''/profiles'' then ''profiles''
      else if str_contains path ''/apikeys'' then ''apikeys''
      else [])"

definition VerbFromMethod :: "string \<Rightarrow> string" where
  "VerbFromMethod m =
     (if m = ''GET'' then ''get'' else if m = ''POST'' then ''create''
      else if m = ''PUT'' \<or> m = ''PATCH'' then ''update'' else if m = ''DELETE'' then ''delete'' else [])"


section \<open>Route rules (routeguard.go)\<close>

record RouteRule =
  rr_Method :: string
  rr_Pattern :: string
  rr_Roles :: "string list"
  rr_ClusterWide :: bool

definition rule :: "string \<Rightarrow> string \<Rightarrow> string list \<Rightarrow> bool \<Rightarrow> RouteRule" where
  "rule m p roles cw = \<lparr>rr_Method = m, rr_Pattern = p, rr_Roles = roles, rr_ClusterWide = cw\<rparr>"

definition DefaultRules :: "RouteRule list" where
  "DefaultRules =
     [rule ''POST'' ''/api/v1/gameservers/{namespace}'' [''admin''] False,
      rule ''DELETE'' ''/api/v1/gameservers/{namespace}/{name}'' [''admin''] False,
      rule ''PATCH'' ''/api/v1/gameservers/{namespace}/{name}'' [''operator'', ''admin''] False,
      rule ''GET'' ''/api/v1/gameservers/{namespace}/{name}/console'' [''operator'', ''admin''] False,
      rule ''GET'' ''/api/v1/gameservers/{namespace}/{name}/sftp'' [''operator'', ''admin''] False,
      rule ''POST'' ''/api/v1/gameservers/{namespace}/{name}/actions/{action}'' [''operator'', ''admin''] False,
      rule ''POST'' ''/api/v1/gameservers/{namespace}/{name}/snapshots'' [''operator'', ''admin''] False,
      rule ''POST'' ''/api/v1/gameserverfleets/{namespace}'' [''admin''] False,
      rule ''PATCH'' ''/api/v1/gameserverfleets/{namespace}/{name}'' [''operator'', ''admin''] False,
      rule ''DELETE'' ''/api/v1/gameserverfleets/{namespace}/{name}'' [''admin''] False,
      rule ''*'' ''/api/v1/apikeys'' [''admin''] True,
      rule ''*'' ''/api/v1/apikeys/{keyId}'' [''admin''] True]"

text \<open>\<^verbatim>\<open>strings.Split(strings.Trim(path, "/"), "/")\<close>\<close>

definition pathSegments :: "string \<Rightarrow> string list" where
  "pathSegments path = split_char (CHR ''/'') (trim_by (\<lambda>c. c = CHR ''/'') path)"

definition templated :: "string \<Rightarrow> bool" where
  "templated seg \<longleftrightarrow> HasPrefix seg ''{'' \<and> HasSuffix seg ''}''"

fun matchSegments :: "string list \<Rightarrow> string list \<Rightarrow> bool" where
  "matchSegments [] [] = True"
| "matchSegments (p # ps) (s # ss) =
     (if templated p then s \<noteq> [] \<and> matchSegments ps ss else p = s \<and> matchSegments ps ss)"
| "matchSegments _ _ = False"

definition MatchPath :: "string \<Rightarrow> string \<Rightarrow> bool" where
  "MatchPath pattern path = matchSegments (pathSegments pattern) (pathSegments path)"

definition ruleApplies :: "http_request \<Rightarrow> RouteRule \<Rightarrow> bool" where
  "ruleApplies r ru \<longleftrightarrow>
     (rr_Method ru = ''*'' \<or> rr_Method ru = rq_Method r) \<and> MatchPath (rr_Pattern ru) (rq_Path r)"

definition RouteGuard :: "RouteRule list \<Rightarrow> handler \<Rightarrow> handler" where
  "RouteGuard rules next' r =
     (case find (ruleApplies r) rules of
        None \<Rightarrow> next' r
      | Some ru \<Rightarrow>
          (case GetUser r of
             None \<Rightarrow> State_Monad.return (http_error 401 ''Unauthorized'')
           | Some user \<Rightarrow>
               if u_Role user \<notin> set (rr_Roles ru) then
                 State_Monad.return (http_error 403 ''Forbidden'')
               else if rr_ClusterWide ru \<and> \<not> ClusterWide (Some user) then
                 State_Monad.return (http_error 403 ''Forbidden'')
               else next' r))"

definition NamespaceFromPath :: "string \<Rightarrow> string" where
  "NamespaceFromPath path =
     (let segs = pathSegments path
      in if length segs \<ge> 4 \<and> segs ! 0 = ''api'' \<and>
            (segs ! 2 = ''gameservers'' \<or> segs ! 2 = ''gameserverfleets'')
         then segs ! 3 else [])"

definition NamespaceGuard :: "handler \<Rightarrow> handler" where
  "NamespaceGuard next' r =
     (let ns = NamespaceFromPath (rq_Path r)
      in if ns = [] then next' r
         else (case GetUser r of
             None \<Rightarrow> next' r
           | Some user \<Rightarrow>
               if \<not> AllowsNamespace (Some user) ns then
                 State_Monad.return (http_error 403 ''Forbidden'')
               else next' r))"


section \<open>Audit (audit.go)\<close>

definition userLabels :: "User option \<Rightarrow> string \<times> string" where
  "userLabels user =
     (case user of None \<Rightarrow> (''anonymous'', []) | Some u \<Rightarrow> (u_Username u, u_Role u))"

definition LogAction :: "string \<Rightarrow> string \<Rightarrow> User option \<Rightarrow> unit cp_prog" where
  "LogAction action res user =
     perform (LogAudit \<lparr>ev_User = fst (userLabels user), ev_Role = snd (userLabels user),
        ev_Action = action, ev_Resource = res, ev_Method = [], ev_Path = [], ev_ClientIP = [],
        ev_Result = ''success''\<rparr>) (\<lambda>_. ())"

text \<open>
  The user is read from the context of the request that the middleware itself received; the request
  that carries the user is the one \<^const>\<open>AuthMiddleware\<close> passes further in.
\<close>

definition AuditMiddleware :: "handler \<Rightarrow> handler" where
  "AuditMiddleware next' r =
     (if rq_Path r = ''/healthz'' \<or> rq_Path r = ''/readyz'' then next' r
      else do {
        response \<leftarrow> next' r;
        perform (LogAudit \<lparr>ev_User = fst (userLabels (GetUser r)), ev_Role = snd (userLabels (GetUser r)),
           ev_Action = [], ev_Resource = [], ev_Method = rq_Method r, ev_Path = rq_Path r,
           ev_ClientIP = rq_RemoteAddr r,
           ev_Result = (if rs_Status response \<ge> 400 then ''failure'' else ''success'')\<rparr>) (\<lambda>_. ());
        State_Monad.return response
      })"

text \<open>The order of \<^verbatim>\<open>r.Use\<close> in \<^verbatim>\<open>main\<close>, without the middleware that only logs, limits or adds headers.\<close>

definition serve :: "Provider list \<Rightarrow> handler \<Rightarrow> handler" where
  "serve chain api =
     AuditMiddleware (AuthMiddleware chain (RouteGuard DefaultRules (NamespaceGuard api)))"


section \<open>The contract of a guard\<close>

text \<open>
  A guard lets a request through unchanged or answers itself, without a call, with a status that is
  an error. Guards compose, and a request reaches the handler behind a stack of them only if each one
  lets it through.
\<close>

locale http_guard =
  fixes guard :: "handler \<Rightarrow> handler"
    and admits :: "http_request \<Rightarrow> bool"
    and refusal :: "http_request \<Rightarrow> http_response"
  assumes guard_eq: "guard next' r = (if admits r then next' r else State_Monad.return (refusal r))"
    and refusal_status: "\<not> admits r \<Longrightarrow> rs_Status (refusal r) \<in> {401, 403}"
begin

lemma refused: "\<not> admits r \<Longrightarrow> run_state (guard next' r) w = (refusal r, w)"
  by (simp add: guard_eq)

lemma refused_no_calls: "\<not> admits r \<Longrightarrow> issued (guard next' r) w = []"
  by (simp add: guard_eq)

lemma admitted: "admits r \<Longrightarrow> guard next' r = next' r"
  by (simp add: guard_eq)

lemma reached: "rs_Status (result (guard next' r) w) \<notin> {401, 403} \<Longrightarrow> admits r"
  using refusal_status by (auto simp: guard_eq result_def split: if_splits)

end

locale guard_stack = outer: http_guard g1 a1 f1 + inner: http_guard g2 a2 f2
  for g1 a1 f1 g2 a2 f2
begin

lemma stack_refused:
  "\<not> (a1 r \<and> a2 r) \<Longrightarrow>
     run_state (g1 (g2 next') r) w = ((if a1 r then f2 r else f1 r), w)"
  by (cases "a1 r") (simp_all add: outer.guard_eq inner.guard_eq)

end

sublocale guard_stack \<subseteq> both: http_guard "\<lambda>n. g1 (g2 n)" "\<lambda>r. a1 r \<and> a2 r" "\<lambda>r. if a1 r then f2 r else f1 r"
  by unfold_locales
    (auto simp: outer.guard_eq inner.guard_eq intro: outer.refusal_status inner.refusal_status
      dest: outer.refusal_status inner.refusal_status)

definition routeAdmits :: "RouteRule list \<Rightarrow> http_request \<Rightarrow> bool" where
  "routeAdmits rules r =
     (case find (ruleApplies r) rules of
        None \<Rightarrow> True
      | Some ru \<Rightarrow>
          (case GetUser r of
             None \<Rightarrow> False
           | Some user \<Rightarrow> u_Role user \<in> set (rr_Roles ru) \<and> (rr_ClusterWide ru \<longrightarrow> ClusterWide (Some user))))"

definition namespaceAdmits :: "http_request \<Rightarrow> bool" where
  "namespaceAdmits r \<longleftrightarrow>
     NamespaceFromPath (rq_Path r) = [] \<or> AllowsNamespace (GetUser r) (NamespaceFromPath (rq_Path r))"

definition routeRefusal :: "http_request \<Rightarrow> http_response" where
  "routeRefusal r =
     (if GetUser r = None then http_error 401 ''Unauthorized'' else http_error 403 ''Forbidden'')"

interpretation route_guard: http_guard "RouteGuard rules" "routeAdmits rules" routeRefusal
  for rules
  by unfold_locales
    (auto simp: RouteGuard_def routeAdmits_def routeRefusal_def http_error_def split: option.splits)

interpretation ns_guard: http_guard NamespaceGuard namespaceAdmits "\<lambda>_. http_error 403 ''Forbidden''"
  by unfold_locales
    (auto simp: NamespaceGuard_def namespaceAdmits_def Let_def AllowsNamespace_def ClusterWide_def
      http_error_def split: option.splits)

interpretation api_guards: guard_stack "RouteGuard rules" "routeAdmits rules" routeRefusal
  NamespaceGuard namespaceAdmits "\<lambda>_. http_error 403 ''Forbidden''"
  for rules
  by unfold_locales

definition roleAdmits :: "string list \<Rightarrow> http_request \<Rightarrow> bool" where
  "roleAdmits roles r = (case GetUser r of None \<Rightarrow> False | Some user \<Rightarrow> u_Role user \<in> set roles)"

interpretation role_guard: http_guard "RequireRole roles" "roleAdmits roles" routeRefusal
  for roles
  by unfold_locales
    (auto simp: RequireRole_def roleAdmits_def routeRefusal_def http_error_def split: option.splits)

end
