(* ===== verification/Tenant.thy ===== *)
theory Tenant
  imports Control_Plane_Types
begin

text \<open>
  Hardening of tenant namespaces (\<^verbatim>\<open>internal/controlplane/tenant/tenant.go\<close>): configuration from the
  environment, and the namespace, quota and network policy that are created for a new tenant.
  \<^verbatim>\<open>resource.MustParse\<close> panics on text that is not a quantity: building the quota is then \<open>Inl\<close>.
  The text that \<^verbatim>\<open>strconv\<close> adds to a parse error is left out of the messages.
\<close>

section \<open>Configuration\<close>

definition LabelTenant :: string where "LabelTenant = ''minato.io/tenant''"
definition LabelManagedBy :: string where "LabelManagedBy = ''app.kubernetes.io/managed-by''"
definition ManagedByValue :: string where "ManagedByValue = ''minato-controlplane''"
definition QuotaName :: string where "QuotaName = ''minato-tenant-quota''"
definition NetworkPolicyName :: string where "NetworkPolicyName = ''minato-tenant-default''"
definition AgentPort :: int where "AgentPort = 9876"
definition defaultMaxServers :: int where "defaultMaxServers = 10"
definition defaultCPU :: string where "defaultCPU = ''8''"
definition defaultMemory :: string where "defaultMemory = ''32Gi''"
definition defaultStorage :: string where "defaultStorage = ''200Gi''"
definition defaultGamePorts :: string where "defaultGamePorts = ''25565''"
definition defaultControlPlaneNamespace :: string where "defaultControlPlaneNamespace = ''minato''"
definition gameServerCountQuotaResource :: string where
  "gameServerCountQuotaResource = ''count/gameservers.operator.minato.io''"

record TenantConfig =
  tc_MaxServers :: int
  tc_CPU :: string
  tc_Memory :: string
  tc_Storage :: string
  tc_GamePorts :: "int list"
  tc_ControlPlaneNamespace :: string

text \<open>\<^verbatim>\<open>os.LookupEnv\<close> tells an unset variable from an empty one.\<close>

definition envInt :: "labels \<Rightarrow> string \<Rightarrow> int \<Rightarrow> kerr + int" where
  "envInt env key fallback =
     (case map_of env key of
        None \<Rightarrow> Inr fallback
      | Some v \<Rightarrow>
          (let v = TrimSpace v
           in if v = [] then Inr 0
              else (case Atoi v of
                  None \<Rightarrow> Inl (new_error (key @ '': invalid integer '' @ quoted v))
                | Some n \<Rightarrow> Inr n)))"

definition envQuantity :: "klib \<Rightarrow> labels \<Rightarrow> string \<Rightarrow> string \<Rightarrow> kerr + string" where
  "envQuantity L env key fallback =
     (let v = TrimSpace (case map_of env key of None \<Rightarrow> fallback | Some v \<Rightarrow> v)
      in if v = [] \<or> v = ''0'' then Inr []
         else (case QuantityError L v of
             Some err \<Rightarrow> Inl (wrap_error (key @ '': invalid quantity '' @ quoted v @ '': '') err)
           | None \<Rightarrow> Inr v))"

fun parsePorts :: "string \<Rightarrow> string list \<Rightarrow> kerr + int list" where
  "parsePorts key [] = Inr []"
| "parsePorts key (part # parts) =
     (let part = TrimSpace part
      in if part = [] then parsePorts key parts
         else (case Atoi part of
             None \<Rightarrow> Inl (new_error (key @ '': invalid port '' @ quoted part))
           | Some n \<Rightarrow>
               if n < 1 \<or> n > 65535 then
                 Inl (new_error (key @ '': port '' @ show_int n @ '' out of range (1-65535)''))
               else (case parsePorts key parts of Inl err \<Rightarrow> Inl err | Inr ports \<Rightarrow> Inr (n # ports))))"

definition envPorts :: "labels \<Rightarrow> string \<Rightarrow> string \<Rightarrow> kerr + int list" where
  "envPorts env key fallback =
     (let v = TrimSpace (case map_of env key of None \<Rightarrow> fallback | Some v \<Rightarrow> v)
      in if v = [] then Inr [] else parsePorts key (split_char (CHR '','') v))"

definition LoadTenantConfig :: "klib \<Rightarrow> labels \<Rightarrow> kerr + TenantConfig" where
  "LoadTenantConfig L env =
     (let cpns = (if map_str env ''TENANT_CONTROLPLANE_NAMESPACE'' = [] then defaultControlPlaneNamespace
                  else map_str env ''TENANT_CONTROLPLANE_NAMESPACE'')
      in case envInt env ''TENANT_QUOTA_MAX_SERVERS'' defaultMaxServers of
           Inl err \<Rightarrow> Inl err
         | Inr maxServers \<Rightarrow>
             if maxServers < 0 then
               Inl (new_error (''TENANT_QUOTA_MAX_SERVERS must be >= 0, got '' @ show_int maxServers))
             else (case envQuantity L env ''TENANT_QUOTA_CPU'' defaultCPU of
                 Inl err \<Rightarrow> Inl err
               | Inr cpu \<Rightarrow>
                   (case envQuantity L env ''TENANT_QUOTA_MEMORY'' defaultMemory of
                      Inl err \<Rightarrow> Inl err
                    | Inr memory \<Rightarrow>
                        (case envQuantity L env ''TENANT_QUOTA_STORAGE'' defaultStorage of
                           Inl err \<Rightarrow> Inl err
                         | Inr storage \<Rightarrow>
                             (case envPorts env ''TENANT_GAME_PORTS'' defaultGamePorts of
                                Inl err \<Rightarrow> Inl err
                              | Inr ports \<Rightarrow>
                                  Inr \<lparr>tc_MaxServers = maxServers, tc_CPU = cpu, tc_Memory = memory,
                                       tc_Storage = storage, tc_GamePorts = ports,
                                       tc_ControlPlaneNamespace = cpns\<rparr>)))))"

definition withDefaults :: "TenantConfig \<Rightarrow> TenantConfig" where
  "withDefaults c =
     (if tc_CPU c = [] \<and> tc_Memory c = [] \<and> tc_Storage c = [] \<and> tc_MaxServers c = 0 \<and>
         length (tc_GamePorts c) = 0 \<and> tc_ControlPlaneNamespace c = []
      then \<lparr>tc_MaxServers = defaultMaxServers, tc_CPU = defaultCPU, tc_Memory = defaultMemory,
            tc_Storage = defaultStorage, tc_GamePorts = [25565],
            tc_ControlPlaneNamespace = defaultControlPlaneNamespace\<rparr>
      else if tc_ControlPlaneNamespace c = []
      then c\<lparr>tc_ControlPlaneNamespace := defaultControlPlaneNamespace\<rparr>
      else c)"


section \<open>The objects\<close>

definition tenantLabels :: "string \<Rightarrow> labels" where
  "tenantLabels namespace = [(LabelTenant, namespace), (LabelManagedBy, ManagedByValue)]"

definition BuildNamespace :: "string \<Rightarrow> Namespace" where
  "BuildNamespace name =
     \<lparr>ns_Name = name,
      ns_Labels = tenantLabels name @
        [(''pod-security.kubernetes.io/enforce'', ''restricted''),
         (''pod-security.kubernetes.io/audit'', ''restricted''),
         (''pod-security.kubernetes.io/warn'', ''restricted'')]\<rparr>"

definition mustParse :: "klib \<Rightarrow> string \<Rightarrow> string \<Rightarrow> kerr + labels" where
  "mustParse L res q =
     (if q = [] then Inr []
      else (case QuantityError L q of Some err \<Rightarrow> Inl err | None \<Rightarrow> Inr [(res, q)]))"

definition BuildResourceQuota :: "klib \<Rightarrow> string \<Rightarrow> TenantConfig \<Rightarrow> kerr + ResourceQuota option" where
  "BuildResourceQuota L namespace cfg =
     (let servers = (if tc_MaxServers cfg > 0
                     then [(gameServerCountQuotaResource, show_int (tc_MaxServers cfg))] else [])
      in case (mustParse L ''requests.cpu'' (tc_CPU cfg), mustParse L ''requests.memory'' (tc_Memory cfg),
               mustParse L ''requests.storage'' (tc_Storage cfg)) of
           (Inr cpu, Inr memory, Inr storage) \<Rightarrow>
             (let hard = servers @ cpu @ memory @ storage
              in if length hard = 0 then Inr None
                 else Inr (Some \<lparr>rq_meta = (new_meta QuotaName namespace)\<lparr>om_Labels := tenantLabels namespace\<rparr>,
                                 rq_Hard = hard\<rparr>))
         | (Inl err, _, _) \<Rightarrow> Inl err
         | (_, Inl err, _) \<Rightarrow> Inl err
         | (_, _, Inl err) \<Rightarrow> Inl err)"

definition ProtocolUDP :: string where "ProtocolUDP = ''UDP''"

definition gamePortRules :: "TenantConfig \<Rightarrow> NetworkPolicyPort list" where
  "gamePortRules cfg =
     concat (map (\<lambda>p. [\<lparr>np_Protocol = ProtocolTCP, np_Port = p\<rparr>, \<lparr>np_Protocol = ProtocolUDP, np_Port = p\<rparr>])
       (tc_GamePorts cfg))"

definition BuildNetworkPolicy :: "string \<Rightarrow> TenantConfig \<Rightarrow> NetworkPolicy" where
  "BuildNetworkPolicy namespace cfg =
     (let game = gamePortRules cfg;
          gameRule = (if length game > 0 then [\<lparr>nr_Namespaces = [], nr_Ports = game\<rparr>] else [])
      in \<lparr>pol_meta = (new_meta NetworkPolicyName namespace)\<lparr>om_Labels := tenantLabels namespace\<rparr>,
          pol_Types = [''Ingress'', ''Egress''],
          pol_Ingress =
            [\<lparr>nr_Namespaces = [namespace], nr_Ports = []\<rparr>,
             \<lparr>nr_Namespaces = [tc_ControlPlaneNamespace cfg],
              nr_Ports = [\<lparr>np_Protocol = ProtocolTCP, np_Port = AgentPort\<rparr>]\<rparr>] @ gameRule,
          pol_Egress =
            [\<lparr>nr_Namespaces = [], nr_Ports = [\<lparr>np_Protocol = ProtocolUDP, np_Port = 53\<rparr>,
                                               \<lparr>np_Protocol = ProtocolTCP, np_Port = 53\<rparr>]\<rparr>,
             \<lparr>nr_Namespaces = [], nr_Ports = [\<lparr>np_Protocol = ProtocolTCP, np_Port = AgentPort\<rparr>]\<rparr>] @
            gameRule\<rparr>)"


section \<open>Provisioning\<close>

definition EnsureNamespace :: "klib \<Rightarrow> cp_env \<Rightarrow> string \<Rightarrow> TenantConfig \<Rightarrow> (kerr + unit) cp_prog" where
  "EnsureNamespace L E namespace cfg =
     (let cfg = withDefaults cfg
      in do {
        got \<leftarrow> perform (GetNamespace namespace) (\<lambda>h. cp_getNamespace E h namespace);
        case got of
          Inr _ \<Rightarrow> State_Monad.return (Inr ())
        | Inl err \<Rightarrow>
            if \<not> IsNotFound err then State_Monad.return (Inl err)
            else
              bindE (fmap (\<lambda>r. map_err (wrap_error ''create tenant namespace: '') (ignoring IsAlreadyExists r))
                       (perform (CreateNamespace (BuildNamespace namespace))
                          (\<lambda>h. cp_createNamespace E h (BuildNamespace namespace)))) (\<lambda>_.
              bindE (case BuildResourceQuota L namespace cfg of
                       Inl err \<Rightarrow> State_Monad.return (Inl err)
                     | Inr None \<Rightarrow> State_Monad.return (Inr ())
                     | Inr (Some quota) \<Rightarrow>
                         fmap (\<lambda>r. map_err (wrap_error ''create tenant resource quota: '') (ignoring IsAlreadyExists r))
                           (perform (CreateQuota quota) (\<lambda>h. cp_createQuota E h quota))) (\<lambda>_.
              fmap (\<lambda>r. map_err (wrap_error ''create tenant network policy: '') (ignoring IsAlreadyExists r))
                (perform (CreatePolicy (BuildNetworkPolicy namespace cfg))
                   (\<lambda>h. cp_createPolicy E h (BuildNetworkPolicy namespace cfg)))))
      })"

end
