(* ===== verification/Control_Plane.thy ===== *)
theory Control_Plane
  imports Rbac Tenant
begin

text \<open>
  The handlers of the control plane API (\<^verbatim>\<open>cmd/controlplane/main.go\<close>), one definition per operation.
  The result of decoding a JSON request body is an argument of the handlers that read one. The console
  proxy (\<^verbatim>\<open>console.go\<close>) is in theory \<open>Console\<close>.
\<close>

section \<open>Responses and configuration\<close>

record controlPlaneAPI =
  api_authCfg :: Config
  api_keyNamespace :: string
  api_tenantCfg :: TenantConfig

definition respondJSON :: "int \<Rightarrow> body \<Rightarrow> http_response" where
  "respondJSON status data = \<lparr>rs_Status = status, rs_Body = data\<rparr>"

definition writeError :: "int \<Rightarrow> kerr \<Rightarrow> http_response" where
  "writeError status err = respondJSON status (ErrorJSON (err_msg err))"

text \<open>Answer with an error status when a call fails, else go on.\<close>

definition or_error :: "int \<Rightarrow> (kerr + 'a) cp_prog \<Rightarrow> ('a \<Rightarrow> http_response cp_prog) \<Rightarrow> http_response cp_prog" where
  "or_error status m k =
     do {
       r \<leftarrow> m;
       case r of Inl err \<Rightarrow> State_Monad.return (writeError status err) | Inr a \<Rightarrow> k a
     }"

definition GetHealthz :: "http_response" where
  "GetHealthz = \<lparr>rs_Status = 200, rs_Body = PlainText ''ok''\<rparr>"

definition GetReadyz :: "http_response" where
  "GetReadyz = \<lparr>rs_Status = 200, rs_Body = PlainText ''ok''\<rparr>"

definition authModes :: "Config \<Rightarrow> string list" where
  "authModes cfg =
     (let modes = filter (\<lambda>m. m \<noteq> []) (map (\<lambda>m. TrimSpace (ToLower m)) (split_char (CHR '','') (cfg_Mode cfg)))
      in if length modes = 0 \<or> modes = [''none''] then
           [''none''] @ (if bc_Enabled (cfg_Basic cfg) then [''basic''] else []) @
           (if oc_Enabled (cfg_OIDC cfg) then [''oidc''] else []) @
           (if cfg_APIKeyEnabled cfg then [''apikey''] else [])
         else modes)"

definition GetAuthConfig :: "controlPlaneAPI \<Rightarrow> http_response" where
  "GetAuthConfig api =
     (let cfg = api_authCfg api
      in respondJSON 200 (BodyAuthConfig (authModes cfg) (bc_Enabled (cfg_Basic cfg))
           (if oc_Enabled (cfg_OIDC cfg) \<and> oc_IssuerURL (cfg_OIDC cfg) \<noteq> []
            then Some (oc_IssuerURL (cfg_OIDC cfg)) else None)))"


section \<open>Game servers\<close>

definition ns_key :: "string \<Rightarrow> string \<Rightarrow> NamespacedName" where
  "ns_key namespace name = \<lparr>nn_Namespace = namespace, nn_Name = name\<rparr>"

definition visible :: "User option \<Rightarrow> string \<Rightarrow> bool" where
  "visible user namespace \<longleftrightarrow> user = None \<or> AllowsNamespace user namespace"

definition ApiListGameServers :: "cp_env \<Rightarrow> handler" where
  "ApiListGameServers E r =
     or_error 500 (perform CpListServers (cp_listServers E)) (\<lambda>items.
       State_Monad.return (respondJSON 200 (BodyServers
         (filter (\<lambda>gs. visible (GetUser r) (server_namespace gs)) items))))"

definition ApiGetGameServer :: "cp_env \<Rightarrow> string \<Rightarrow> string \<Rightarrow> handler" where
  "ApiGetGameServer E namespace name r =
     or_error 404 (perform (CpGetServer (ns_key namespace name))
                     (\<lambda>h. cp_getServer E h (ns_key namespace name)))
       (\<lambda>server. State_Monad.return (respondJSON 200 (BodyServer server)))"

definition with_namespace :: "string \<Rightarrow> GameServer \<Rightarrow> GameServer" where
  "with_namespace namespace server =
     server\<lparr>server_meta := (server_meta server)\<lparr>om_Namespace := namespace\<rparr>\<rparr>"

definition ApiCreateGameServer ::
    "klib \<Rightarrow> cp_env \<Rightarrow> controlPlaneAPI \<Rightarrow> string \<Rightarrow> kerr + GameServer \<Rightarrow> handler" where
  "ApiCreateGameServer L E api namespace decoded r =
     or_error 400 (State_Monad.return decoded) (\<lambda>server.
     or_error 500 (EnsureNamespace L E namespace (api_tenantCfg api)) (\<lambda>_.
     or_error 500 (perform (CpCreateServer (with_namespace namespace server))
                     (\<lambda>h. cp_createServer E h (with_namespace namespace server)))
       (\<lambda>created. State_Monad.return (respondJSON 201 (BodyServer created)))))"

definition ApiDeleteGameServer :: "cp_env \<Rightarrow> string \<Rightarrow> string \<Rightarrow> handler" where
  "ApiDeleteGameServer E namespace name r =
     or_error 500 (perform (CpDeleteServer (ns_key namespace name))
                     (\<lambda>h. cp_deleteServer E h (ns_key namespace name)))
       (\<lambda>_. State_Monad.return \<lparr>rs_Status = 204, rs_Body = NoBody\<rparr>)"

record lifecycle_patch =
  lp_AutoStart :: "bool option"
  lp_IdleTimeoutSeconds :: "int option"

definition patchLifecycle :: "lifecycle_patch \<Rightarrow> LifecycleSpec \<Rightarrow> LifecycleSpec" where
  "patchLifecycle patch l =
     (let l = (case lp_AutoStart patch of None \<Rightarrow> l | Some b \<Rightarrow> l\<lparr>lc_AutoStart := Some b\<rparr>)
      in case lp_IdleTimeoutSeconds patch of None \<Rightarrow> l | Some n \<Rightarrow> l\<lparr>lc_IdleTimeoutSeconds := n\<rparr>)"

definition patchServer :: "lifecycle_patch \<Rightarrow> GameServer \<Rightarrow> GameServer" where
  "patchServer patch server =
     server\<lparr>server_spec := (server_spec server)
       \<lparr>gs_Lifecycle := patchLifecycle patch (gs_Lifecycle (server_spec server))\<rparr>\<rparr>"

definition ApiUpdateGameServerLifecycle ::
    "cp_env \<Rightarrow> string \<Rightarrow> string \<Rightarrow> kerr + lifecycle_patch \<Rightarrow> handler" where
  "ApiUpdateGameServerLifecycle E namespace name decoded r =
     (case decoded of
        Inl err \<Rightarrow> State_Monad.return (writeError 400 (wrap_error
          ''invalid patch: only spec.lifecycle.autoStart and spec.lifecycle.idleTimeoutSeconds may be set: '' err))
      | Inr patch \<Rightarrow>
          if (case lp_IdleTimeoutSeconds patch of None \<Rightarrow> False | Some n \<Rightarrow> n < 0) then
            State_Monad.return (writeError 400 (new_error ''spec.lifecycle.idleTimeoutSeconds must be >= 0''))
          else if lp_AutoStart patch = None \<and> lp_IdleTimeoutSeconds patch = None then
            State_Monad.return (writeError 400 (new_error
              ''patch must set at least one of spec.lifecycle.autoStart or spec.lifecycle.idleTimeoutSeconds''))
          else
            or_error 404 (perform (CpGetServer (ns_key namespace name))
                            (\<lambda>h. cp_getServer E h (ns_key namespace name))) (\<lambda>server.
            or_error 500 (perform (CpUpdateServer (patchServer patch server))
                            (\<lambda>h. cp_updateServer E h (patchServer patch server))) (\<lambda>updated. do {
              LogAction ''gameserver.lifecycle-updated'' (server_name updated) (GetUser r);
              State_Monad.return (respondJSON 200 (BodyServer updated))
            })))"

definition ApiGetSFTPInfo :: "cp_env \<Rightarrow> string \<Rightarrow> string \<Rightarrow> handler" where
  "ApiGetSFTPInfo E namespace name r =
     (let ref = namespace @ ''/'' @ name
      in or_error 404 (perform (CpGetServer (ns_key namespace name))
                         (\<lambda>h. cp_getServer E h (ns_key namespace name))) (\<lambda>server.
         or_error 404 (perform (CpGetProfile (gs_Profile (server_spec server)))
                         (\<lambda>h. cp_getProfile E h (gs_Profile (server_spec server)))) (\<lambda>profile.
         if \<not> SFTPEnabled profile then
           State_Monad.return (writeError 404 (new_error (''sftp is not enabled for game server '' @ ref)))
         else (case find (\<lambda>e. ep_Name e = SFTPPortName) (gst_Endpoints (server_status server)) of
             None \<Rightarrow> State_Monad.return (writeError 404
               (new_error (''sftp endpoint for game server '' @ ref @ '' is not published yet'')))
           | Some endpoint \<Rightarrow> do {
               got \<leftarrow> perform (CpGetSecret (ns_key namespace (SFTPSecretName name)))
                        (\<lambda>h. cp_getSecret E h (ns_key namespace (SFTPSecretName name)));
               case got of
                 Inl err \<Rightarrow> State_Monad.return (writeError 404
                   (new_error (''sftp credentials for game server '' @ ref @ '' are not provisioned yet'')))
               | Inr secret \<Rightarrow>
                   (let username = map_str (sec_Data secret) SFTPUsernameKey;
                        password = map_str (sec_Data secret) SFTPPasswordKey
                    in if username = [] \<or> password = [] then
                         State_Monad.return (writeError 404
                           (new_error (''sftp credentials for game server '' @ ref @ '' are incomplete'')))
                       else do {
                         LogAction ''gameserver.sftp-info-read'' name (GetUser r);
                         State_Monad.return (respondJSON 200
                           (BodySFTP (ep_Address endpoint) (ep_Port endpoint) username password))
                       })
             }))))"


section \<open>Actions and snapshots\<close>

definition ApiListActions :: "cp_env \<Rightarrow> string \<Rightarrow> string \<Rightarrow> handler" where
  "ApiListActions E namespace name r =
     or_error 404 (perform (CpGetServer (ns_key namespace name))
                     (\<lambda>h. cp_getServer E h (ns_key namespace name))) (\<lambda>server.
     or_error 404 (perform (CpGetProfile (gs_Profile (server_spec server)))
                     (\<lambda>h. cp_getProfile E h (gs_Profile (server_spec server)))) (\<lambda>profile.
     State_Monad.return (respondJSON 200 (BodyActions (gp_Actions (profile_spec profile))))))"

definition actionCaller :: "http_request \<Rightarrow> string" where
  "actionCaller r =
     (case GetUser r of
        Some user \<Rightarrow>
          if u_Source user \<noteq> ''none'' then u_Username user
          else if header_get r ''X-User'' = [] then ''anonymous'' else header_get r ''X-User''
      | None \<Rightarrow> if header_get r ''X-User'' = [] then ''anonymous'' else header_get r ''X-User'')"

definition newExecution :: "string \<Rightarrow> string \<Rightarrow> string \<Rightarrow> labels \<Rightarrow> string \<Rightarrow> time \<Rightarrow> ActionExecution" where
  "newExecution namespace name action params caller now =
     \<lparr>exec_meta = new_meta (name @ ''-'' @ action @ ''-'' @ show_int (unixTime now)) namespace,
      exec_spec =
        \<lparr>ae_TargetRef = \<lparr>tr_APIVersion = ''operator.minato.io/v1'', tr_Kind = ''GameServer'',
                         tr_Name = name, tr_Namespace = namespace\<rparr>,
         ae_ActionName = action, ae_Params = params, ae_Caller = caller\<rparr>,
      exec_status = \<lparr>aes_State = [], aes_StartedAt = None, aes_EndedAt = None, aes_AgentResponse = [],
                     aes_Error = [], aes_Conditions = []\<rparr>\<rparr>"

definition ApiExecuteAction ::
    "cp_env \<Rightarrow> string \<Rightarrow> string \<Rightarrow> string \<Rightarrow> kerr + labels \<Rightarrow> handler" where
  "ApiExecuteAction E namespace name action decoded r =
     do {
       now \<leftarrow> cpClock E;
       let exec = newExecution namespace name action (case decoded of Inl _ \<Rightarrow> [] | Inr ps \<Rightarrow> ps)
                    (actionCaller r) now;
       or_error 500 (perform (CpCreateExecution exec) (\<lambda>h. cp_createExecution E h exec))
         (\<lambda>_. State_Monad.return (respondJSON 201 (BodyExecutionName (om_Name (exec_meta exec)))))
     }"

definition ApiGetActionExecution :: "cp_env \<Rightarrow> string \<Rightarrow> string \<Rightarrow> string \<Rightarrow> handler" where
  "ApiGetActionExecution E namespace name executionId r =
     or_error 404 (perform (CpGetExecution (ns_key namespace executionId))
                     (\<lambda>h. cp_getExecution E h (ns_key namespace executionId)))
       (\<lambda>exec. State_Monad.return (respondJSON 200 (BodyExecution exec)))"

definition ApiListSnapshots :: "cp_env \<Rightarrow> string \<Rightarrow> string \<Rightarrow> handler" where
  "ApiListSnapshots E namespace name r =
     do {
       got \<leftarrow> perform (CpListSnapshots namespace (Some name)) (\<lambda>h. cp_listSnapshots E h namespace (Some name));
       case got of
         Inr items \<Rightarrow> State_Monad.return (respondJSON 200 (BodySnapshots items))
       | Inl _ \<Rightarrow>
           or_error 500 (perform (CpListSnapshots namespace None) (\<lambda>h. cp_listSnapshots E h namespace None))
             (\<lambda>items. State_Monad.return (respondJSON 200 (BodySnapshots
                (filter (\<lambda>s. sn_GameServerRef (snap_spec s) = name) items))))
     }"

definition newSnapshot :: "string \<Rightarrow> string \<Rightarrow> time \<Rightarrow> GameSnapshot" where
  "newSnapshot namespace name now =
     \<lparr>snap_meta = new_meta (name @ ''-snap-'' @ show_int (unixTime now)) namespace,
      snap_spec = \<lparr>sn_GameServerRef = name, sn_Schedule = [],
                   sn_Retention = \<lparr>ret_Count = 0, ret_Duration = []\<rparr>\<rparr>,
      snap_status = \<lparr>sns_Snapshots = [], sns_LastSnapshotAt = None, sns_Conditions = []\<rparr>\<rparr>"

definition ApiCreateSnapshot :: "cp_env \<Rightarrow> string \<Rightarrow> string \<Rightarrow> handler" where
  "ApiCreateSnapshot E namespace name r =
     do {
       now \<leftarrow> cpClock E;
       or_error 500 (perform (CpCreateSnapshot (newSnapshot namespace name now))
                       (\<lambda>h. cp_createSnapshot E h (newSnapshot namespace name now)))
         (\<lambda>snap. State_Monad.return (respondJSON 201 (BodySnapshot snap)))
     }"


section \<open>Fleets and profiles\<close>

definition ApiListGameServerFleets :: "cp_env \<Rightarrow> handler" where
  "ApiListGameServerFleets E r =
     or_error 500 (perform CpListFleets (cp_listFleets E)) (\<lambda>items.
       State_Monad.return (respondJSON 200 (BodyFleets
         (filter (\<lambda>f. visible (GetUser r) (om_Namespace (fleet_meta f))) items))))"

definition ApiGetGameServerFleet :: "cp_env \<Rightarrow> string \<Rightarrow> string \<Rightarrow> handler" where
  "ApiGetGameServerFleet E namespace name r =
     or_error 404 (perform (CpGetFleet (ns_key namespace name))
                     (\<lambda>h. cp_getFleet E h (ns_key namespace name)))
       (\<lambda>fleet. State_Monad.return (respondJSON 200 (BodyFleet fleet)))"

definition fleet_in :: "string \<Rightarrow> GameServerFleet \<Rightarrow> GameServerFleet" where
  "fleet_in namespace fleet = fleet\<lparr>fleet_meta := (fleet_meta fleet)\<lparr>om_Namespace := namespace\<rparr>\<rparr>"

definition ApiCreateGameServerFleet ::
    "klib \<Rightarrow> cp_env \<Rightarrow> controlPlaneAPI \<Rightarrow> string \<Rightarrow> kerr + GameServerFleet \<Rightarrow> handler" where
  "ApiCreateGameServerFleet L E api namespace decoded r =
     or_error 400 (State_Monad.return decoded) (\<lambda>fleet.
       if fl_Profile (fleet_spec fleet) = [] then
         State_Monad.return (writeError 400 (new_error ''spec.profile is required''))
       else if fl_Replicas (fleet_spec fleet) < 0 then
         State_Monad.return (writeError 400 (new_error ''spec.replicas must be >= 0''))
       else
         or_error 400 (fmap (map_err (wrap_error (''profile '' @ quoted (fl_Profile (fleet_spec fleet)) @ '' not found: '')))
                         (perform (CpGetProfile (fl_Profile (fleet_spec fleet)))
                            (\<lambda>h. cp_getProfile E h (fl_Profile (fleet_spec fleet))))) (\<lambda>_.
         or_error 500 (EnsureNamespace L E namespace (api_tenantCfg api)) (\<lambda>_.
         or_error 500 (perform (CpCreateFleet (fleet_in namespace fleet))
                         (\<lambda>h. cp_createFleet E h (fleet_in namespace fleet))) (\<lambda>created. do {
           LogAction ''gameserverfleet.created'' (om_Name (fleet_meta created)) (GetUser r);
           State_Monad.return (respondJSON 201 (BodyFleet created))
         }))))"

definition scaledTo :: "int \<Rightarrow> GameServerFleet \<Rightarrow> GameServerFleet" where
  "scaledTo n fleet = fleet\<lparr>fleet_spec := (fleet_spec fleet)\<lparr>fl_Replicas := n\<rparr>\<rparr>"

definition ApiUpdateGameServerFleet ::
    "cp_env \<Rightarrow> string \<Rightarrow> string \<Rightarrow> kerr + int option \<Rightarrow> handler" where
  "ApiUpdateGameServerFleet E namespace name decoded r =
     (case decoded of
        Inl err \<Rightarrow> State_Monad.return (writeError 400
          (wrap_error ''invalid patch: only spec.replicas may be set: '' err))
      | Inr None \<Rightarrow> State_Monad.return (writeError 400 (new_error ''patch must set spec.replicas''))
      | Inr (Some n) \<Rightarrow>
          if n < 0 then State_Monad.return (writeError 400 (new_error ''spec.replicas must be >= 0''))
          else
            or_error 404 (perform (CpGetFleet (ns_key namespace name))
                            (\<lambda>h. cp_getFleet E h (ns_key namespace name))) (\<lambda>fleet.
            or_error 500 (perform (CpUpdateFleet (scaledTo n fleet))
                            (\<lambda>h. cp_updateFleet E h (scaledTo n fleet))) (\<lambda>updated. do {
              LogAction ''gameserverfleet.scaled'' (om_Name (fleet_meta updated)) (GetUser r);
              State_Monad.return (respondJSON 200 (BodyFleet updated))
            })))"

definition ApiDeleteGameServerFleet :: "cp_env \<Rightarrow> string \<Rightarrow> string \<Rightarrow> handler" where
  "ApiDeleteGameServerFleet E namespace name r =
     or_error 500 (perform (CpDeleteFleet (ns_key namespace name))
                     (\<lambda>h. cp_deleteFleet E h (ns_key namespace name))) (\<lambda>_. do {
       LogAction ''gameserverfleet.deleted'' name (GetUser r);
       State_Monad.return \<lparr>rs_Status = 204, rs_Body = NoBody\<rparr>
     })"

definition ApiListProfiles :: "cp_env \<Rightarrow> handler" where
  "ApiListProfiles E r =
     or_error 500 (perform CpListProfiles (cp_listProfiles E))
       (\<lambda>items. State_Monad.return (respondJSON 200 (BodyProfiles items)))"

definition ApiGetProfile :: "cp_env \<Rightarrow> string \<Rightarrow> handler" where
  "ApiGetProfile E name r =
     or_error 404 (perform (CpGetProfile name) (\<lambda>h. cp_getProfile E h name))
       (\<lambda>profile. State_Monad.return (respondJSON 200 (BodyProfile profile)))"


section \<open>API keys\<close>

definition ApiListAPIKeys :: "authlib \<Rightarrow> cp_env \<Rightarrow> controlPlaneAPI \<Rightarrow> handler" where
  "ApiListAPIKeys A E api r =
     or_error 500 (ListKeys A E (api_keyNamespace api))
       (\<lambda>keys. State_Monad.return (respondJSON 200 (BodyKeys keys)))"

record key_request =
  kr_Name :: string
  kr_Role :: string
  kr_Namespaces :: "string list"
  kr_ExpiresAt :: "time option"

definition issueKey ::
    "authlib \<Rightarrow> cp_env \<Rightarrow> controlPlaneAPI \<Rightarrow> User \<Rightarrow> key_request \<Rightarrow> http_response cp_prog" where
  "issueKey A E api user req =
     or_error 500 (GenerateKey A E (api_keyNamespace api) (kr_Name req) (u_ID user) (u_Username user)
         (if kr_Role req = [] then u_Role user else kr_Role req) (kr_Namespaces req) (kr_ExpiresAt req))
       (\<lambda>(entry, keyValue). do {
          LogAction ''apikey.created'' (ak_Name entry) (Some user);
          State_Monad.return (respondJSON 201 (BodyNewKey entry keyValue))
        })"

definition ApiCreateAPIKey ::
    "authlib \<Rightarrow> cp_env \<Rightarrow> controlPlaneAPI \<Rightarrow> kerr + key_request \<Rightarrow> handler" where
  "ApiCreateAPIKey A E api decoded r =
     (case GetUser r of
        None \<Rightarrow> State_Monad.return (writeError 401 (new_error ''unauthorized''))
      | Some user \<Rightarrow>
          or_error 400 (State_Monad.return decoded) (\<lambda>req.
            if kr_Name req = [] then State_Monad.return (writeError 400 (new_error ''name is required''))
            else (case kr_ExpiresAt req of
                None \<Rightarrow> issueKey A E api user req
              | Some t \<Rightarrow> do {
                  now \<leftarrow> cpClock E;
                  if \<not> t > now
                  then State_Monad.return (writeError 400 (new_error ''expiresAt must be in the future''))
                  else issueKey A E api user req
                })))"

definition ApiDeleteAPIKey :: "cp_env \<Rightarrow> controlPlaneAPI \<Rightarrow> string \<Rightarrow> handler" where
  "ApiDeleteAPIKey E api keyId r =
     or_error 404 (DeleteKey E (api_keyNamespace api) keyId) (\<lambda>_. do {
       LogAction ''apikey.deleted'' keyId (GetUser r);
       State_Monad.return \<lparr>rs_Status = 204, rs_Body = NoBody\<rparr>
     })"

end
