(* ===== verification/Control_Plane_Properties.thy ===== *)
theory Control_Plane_Properties
  imports Control_Plane GameServer_Properties
begin

text \<open>
  Properties of the control plane: who gets through the middleware, what scoping an API key means,
  what the audit log records, how tenants are provisioned and what the handlers may change.
\<close>

section \<open>Namespace patterns\<close>

lemma pattern_star: "MatchNamespacePattern (p @ ''*'') ns \<longleftrightarrow> (\<exists>rest. ns = p @ rest)"
proof (cases "p = []")
  case False
  then have "p @ ''*'' \<noteq> ''*''" by simp
  moreover have "HasSuffix (p @ ''*'') ''*''" by (auto simp: HasSuffix_iff)
  ultimately show ?thesis by (simp add: MatchNamespacePattern_def HasPrefix_iff)
qed (simp add: MatchNamespacePattern_def)

lemma pattern_exact: "\<not> HasSuffix pattern ''*'' \<Longrightarrow> MatchNamespacePattern pattern ns \<longleftrightarrow> pattern = ns"
  by (auto simp: MatchNamespacePattern_def HasSuffix_iff)

text \<open>What a pattern means: its prefix if it ends in a star, else itself.\<close>

definition pattern_covers :: "string \<Rightarrow> string \<Rightarrow> bool" where
  "pattern_covers pattern ns \<longleftrightarrow>
     pattern = ns \<and> (\<nexists>p. pattern = p @ ''*'') \<or> (\<exists>p rest. pattern = p @ ''*'' \<and> ns = p @ rest)"

lemma MatchNamespacePattern_iff: "MatchNamespacePattern pattern ns \<longleftrightarrow> pattern_covers pattern ns"
proof (cases "HasSuffix pattern ''*''")
  case True
  then obtain p where "pattern = p @ ''*''" by (auto simp: HasSuffix_iff)
  then show ?thesis by (auto simp: pattern_star pattern_covers_def)
next
  case False
  then show ?thesis by (auto simp: pattern_exact pattern_covers_def HasSuffix_iff)
qed

lemma AllowsNamespace_iff:
  "AllowsNamespace (Some user) ns \<longleftrightarrow>
     u_Namespaces user = [] \<or> (\<exists>p\<in>set (u_Namespaces user). pattern_covers p ns)"
  by (auto simp: AllowsNamespace_def ClusterWide_def MatchAnyNamespace_def list_ex_iff
      MatchNamespacePattern_iff)


section \<open>A concrete control plane\<close>

definition ex_user :: "string \<Rightarrow> string list \<Rightarrow> User" where
  "ex_user role namespaces =
     \<lparr>u_ID = ''u1'', u_Username = ''alice'', u_Email = [], u_Role = role, u_Source = ''apikey'',
      u_Namespaces = namespaces\<rparr>"

definition ex_provider :: "User \<Rightarrow> Provider" where
  "ex_provider user = \<lparr>pv_Name = ''fixed'', pv_Authenticate = (\<lambda>_. State_Monad.return (Inr user))\<rparr>"

definition ex_request :: "string \<Rightarrow> string \<Rightarrow> http_request" where
  "ex_request m path =
     \<lparr>rq_Method = m, rq_Path = path, rq_RawPath = [], rq_Header = [(''X-API-Key'', ''k'')],
      rq_BasicAuth = None, rq_RemoteAddr = ''10.0.0.1'', rq_User = None\<rparr>"

definition ex_api :: handler where
  "ex_api r = State_Monad.return \<lparr>rs_Status = 200, rs_Body = NoBody\<rparr>"

definition ex_authlib :: authlib where
  "ex_authlib =
     \<lparr>al_hash = (\<lambda>p. Inr p), al_check = (=), al_marshal = ak_Role,
      al_unmarshal = (\<lambda>d e. e\<lparr>ak_Name := ''ci'', ak_KeyID := ''k'', ak_Role := d\<rparr>),
      al_formatTime = show_int, al_parseTime = (\<lambda>_. Inr 5)\<rparr>"

definition ex_blank_secret :: KeySecret where
  "ex_blank_secret =
     \<lparr>ks_Name = ''minato-apikey-ci'', ks_Namespace = ''minato'', ks_Labels = [],
      ks_Data = [(''key'', ''k''), (''namespaces'', '','')]\<rparr>"

text \<open>An API server that stores one key, has no namespace and fails every other request.\<close>

definition ex_cp_env :: cp_env where
  "ex_cp_env =
     \<lparr>cp_now = (\<lambda>_. 1), cp_listKeySecrets = (\<lambda>_ _. Inr [ex_blank_secret]),
      cp_createKeySecret = (\<lambda>_ _. Inr ()), cp_deleteKeySecret = (\<lambda>_ _. Inr ()),
      cp_randRead = (\<lambda>_ n. Inr (replicate n 0)), cp_verifyToken = (\<lambda>_ _. Inl (new_error ''bad token'')),
      cp_getNamespace = (\<lambda>h n. if CreateNamespace (BuildNamespace n) \<in> set h then Inr (BuildNamespace n)
                                else Inl (KErr EK_NotFound (n))),
      cp_createNamespace = (\<lambda>_ _. Inr ()), cp_createQuota = (\<lambda>_ _. Inl (new_error ''webhook down'')),
      cp_createPolicy = (\<lambda>_ _. Inr ()),
      cp_listServers = (\<lambda>_. Inr [ex_server True [] None]), cp_getServer = (\<lambda>_ _. Inr (ex_server True [] None)),
      cp_createServer = (\<lambda>_ s. Inr s), cp_updateServer = (\<lambda>_ s. Inr s), cp_deleteServer = (\<lambda>_ _. Inr ()),
      cp_listFleets = (\<lambda>_. Inr []), cp_getFleet = (\<lambda>_ k. Inl (KErr EK_NotFound (nn_Name k))),
      cp_createFleet = (\<lambda>_ f. Inr f), cp_updateFleet = (\<lambda>_ f. Inr f), cp_deleteFleet = (\<lambda>_ _. Inr ()),
      cp_listProfiles = (\<lambda>_. Inr [ex_profile]), cp_getProfile = (\<lambda>_ _. Inr ex_profile),
      cp_getSecret = (\<lambda>_ k. Inl (KErr EK_NotFound (nn_Name k))), cp_createExecution = (\<lambda>_ _. Inr ()),
      cp_getExecution = (\<lambda>_ k. Inl (KErr EK_NotFound (nn_Name k))), cp_listSnapshots = (\<lambda>_ _ _. Inr []),
      cp_createSnapshot = (\<lambda>_ s. Inr s)\<rparr>"

definition ex_tenant_cfg :: TenantConfig where
  "ex_tenant_cfg = \<lparr>tc_MaxServers = 2, tc_CPU = [], tc_Memory = [], tc_Storage = [], tc_GamePorts = [25565],
                    tc_ControlPlaneNamespace = []\<rparr>"

lemma ex_tenant_quota: "\<exists>q. BuildResourceQuota L ns (withDefaults ex_tenant_cfg) = Inr (Some q)"
  by (simp add: ex_tenant_cfg_def withDefaults_def BuildResourceQuota_def mustParse_def Let_def)

lemma ex_authenticate: "run_state (Authenticate [ex_provider user] r) w = (Inr user, w)"
  by (simp add: ex_provider_def)


section \<open>Who gets through\<close>

definition audit_event :: "http_request \<Rightarrow> int \<Rightarrow> Event" where
  "audit_event r status =
     \<lparr>ev_User = fst (userLabels (GetUser r)), ev_Role = snd (userLabels (GetUser r)),
      ev_Action = [], ev_Resource = [], ev_Method = rq_Method r, ev_Path = rq_Path r,
      ev_ClientIP = rq_RemoteAddr r, ev_Result = (if status \<ge> 400 then ''failure'' else ''success'')\<rparr>"

lemma run_audit:
  assumes "rq_Path r \<noteq> ''/healthz''" "rq_Path r \<noteq> ''/readyz''" "run_state (next' r) w = (resp, w')"
  shows "run_state (AuditMiddleware next' r) w =
    (resp, w'\<lparr>calls := calls w' @ [LogAudit (audit_event r (rs_Status resp))]\<rparr>)"
  using assms by (simp add: AuditMiddleware_def io_simps audit_event_def)

text \<open>An authenticated request that a guard refuses: the answer, and the calls made.\<close>

lemma run_serve_refused:
  assumes "\<not> publicPath (rq_Path r)" "run_state (Authenticate chain r) w = (Inr user, w')"
    and "\<not> (routeAdmits DefaultRules (WithUser r user) \<and> namespaceAdmits (WithUser r user))"
  shows "run_state (serve chain api r) w =
    (http_error 403 ''Forbidden'', w'\<lparr>calls := calls w' @ [LogAudit (audit_event r 403)]\<rparr>)"
proof -
  have "run_state (RouteGuard DefaultRules (NamespaceGuard api) (WithUser r user)) w' =
      (http_error 403 ''Forbidden'', w')"
    using api_guards.stack_refused [OF assms(3), of api w']
    by (simp add: routeRefusal_def GetUser_def WithUser_def)
  then have "run_state (AuthMiddleware chain (RouteGuard DefaultRules (NamespaceGuard api)) r) w =
      (http_error 403 ''Forbidden'', w')"
    using assms(1,2) by (simp add: AuthMiddleware_def)
  then show ?thesis
    using assms(1) unfolding serve_def
    by (subst run_audit [where w' = w']) (auto simp: publicPath_def http_error_def)
qed

text \<open>
  C3. Tenant isolation: a caller whose key is restricted to namespaces gets 403 for every path that
  names a namespace which none of the patterns covers, and the API handler behind the guards is not
  run at all, whatever it is: the only calls are those of the authentication and the audit entry.
\<close>

theorem tenant_isolation:
  assumes "\<not> publicPath (rq_Path r)" "run_state (Authenticate chain r) w = (Inr user, w')"
    and "NamespaceFromPath (rq_Path r) = ns" "ns \<noteq> []"
    and "u_Namespaces user \<noteq> []" "\<forall>p\<in>set (u_Namespaces user). \<not> pattern_covers p ns"
  shows "rs_Status (result (serve chain api r) w) = 403 \<and>
    calls (final (serve chain api r) w) = calls w' @ [LogAudit (audit_event r 403)]"
proof -
  have "\<not> namespaceAdmits (WithUser r user)"
    using assms(3-6) AllowsNamespace_iff [of user ns]
    by (auto simp: namespaceAdmits_def WithUser_def GetUser_def)
  then show ?thesis
    using run_serve_refused [OF assms(1,2)] by (simp add: result_def final_def http_error_def)
qed

theorem tenant_isolation_witness:
  "rs_Status (result (serve [ex_provider (ex_user ''admin'' [''tenant-a'', ''team-*''])] ex_api
     (ex_request ''GET'' ''/api/v1/gameservers/tenant-b/smp'')) \<lparr>calls = []\<rparr>) = 403"
proof -
  let ?r = "ex_request ''GET'' ''/api/v1/gameservers/tenant-b/smp''"
  have "NamespaceFromPath (rq_Path ?r) = ''tenant-b''"
    by (simp add: ex_request_def NamespaceFromPath_def pathSegments_def trim_by_def Let_def)
  moreover have "\<forall>p\<in>{''tenant-a'', ''team-*''}. \<not> pattern_covers p ''tenant-b''"
    by (simp add: MatchNamespacePattern_iff [symmetric] MatchNamespacePattern_def HasSuffix_def
        HasPrefix_def TrimSuffix_def)
  ultimately show ?thesis
    using tenant_isolation [of ?r, OF _ ex_authenticate, of "''tenant-b''" "ex_user ''admin'' [''tenant-a'', ''team-*'']"]
    by (simp add: publicPath_def ex_request_def ex_user_def)
qed

lemma DefaultRules_roles: "ru \<in> set DefaultRules \<Longrightarrow> set (rr_Roles ru) \<subseteq> {''operator'', ''admin''}"
  by (auto simp: DefaultRules_def rule_def)

text \<open>
  C13. Roles: when one of the route rules applies to a request, a caller whose role is neither operator
  nor admin gets 403 and the handler is not run. With the rule first in order naming only admin the
  same holds for an operator, and the key routes are closed to every caller restricted to namespaces.
\<close>

theorem roles_enforced:
  assumes "\<not> publicPath (rq_Path r)" "run_state (Authenticate chain r) w = (Inr user, w')"
    and "find (ruleApplies r) DefaultRules = Some ru"
    and "u_Role user \<notin> set (rr_Roles ru) \<or> u_Role user \<notin> {''operator'', ''admin''} \<or>
         rr_ClusterWide ru \<and> u_Namespaces user \<noteq> []"
  shows "rs_Status (result (serve chain api r) w) = 403 \<and>
    calls (final (serve chain api r) w) = calls w' @ [LogAudit (audit_event r 403)]"
proof -
  have "ruleApplies (WithUser r user) = ruleApplies r"
    by (simp add: fun_eq_iff ruleApplies_def WithUser_def)
  moreover have "set (rr_Roles ru) \<subseteq> {''operator'', ''admin''}"
    using assms(3) DefaultRules_roles by (metis find_Some_iff nth_mem)
  ultimately have "\<not> routeAdmits DefaultRules (WithUser r user)"
    using assms(3,4) by (auto simp: routeAdmits_def GetUser_def WithUser_def ClusterWide_def)
  then show ?thesis
    using run_serve_refused [OF assms(1,2)] by (simp add: result_def final_def http_error_def)
qed

theorem roles_enforced_witness:
  "rs_Status (result (serve [ex_provider (ex_user ''operator'' [])] ex_api
     (ex_request ''DELETE'' ''/api/v1/gameservers/tenant-a/smp'')) \<lparr>calls = []\<rparr>) = 403"
proof -
  let ?r = "ex_request ''DELETE'' ''/api/v1/gameservers/tenant-a/smp''"
  have "find (ruleApplies ?r) DefaultRules =
      Some (rule ''DELETE'' ''/api/v1/gameservers/{namespace}/{name}'' [''admin''] False)"
    by (simp add: DefaultRules_def ruleApplies_def rule_def ex_request_def MatchPath_def pathSegments_def
        trim_by_def templated_def HasPrefix_def HasSuffix_def)
  then show ?thesis
    using roles_enforced [of ?r, OF _ ex_authenticate, of _ "ex_user ''operator'' []"]
    by (simp add: publicPath_def ex_request_def ex_user_def rule_def)
qed

text \<open>
  The audit log does not know who called. Whatever the authentication chain and the handler do,
  and for every request as it arrives (with no user in its context), the entry that the middleware
  writes is for the user \<^verbatim>\<open>anonymous\<close> with an empty role, because the user is put into the context of
  another request further in.
\<close>

theorem audit_never_names_caller:
  assumes "rq_User r = None" "rq_Path r \<noteq> ''/healthz''" "rq_Path r \<noteq> ''/readyz''"
  shows "\<exists>e. last (calls (final (serve chain api r) w)) = LogAudit e \<and>
    ev_User e = ''anonymous'' \<and> ev_Role e = [] \<and> ev_Path e = rq_Path r"
proof -
  obtain resp w' where run: "run_state (AuthMiddleware chain (RouteGuard DefaultRules (NamespaceGuard api)) r) w =
      (resp, w')"
    by fastforce
  show ?thesis
    unfolding final_def serve_def
      run_audit [where next' = "AuthMiddleware chain (RouteGuard DefaultRules (NamespaceGuard api))",
        OF assms(2,3) run]
    using assms(1) by (simp add: audit_event_def userLabels_def GetUser_def)
qed

theorem audit_never_names_caller_witness:
  "\<exists>e. last (calls (final (serve [ex_provider (ex_user ''admin'' [])] ex_api
       (ex_request ''GET'' ''/api/v1/profiles'')) \<lparr>calls = []\<rparr>)) = LogAudit e \<and>
     ev_User e = ''anonymous'' \<and> ev_Role e = []"
  using audit_never_names_caller [of "ex_request ''GET'' ''/api/v1/profiles''"]
  by (fastforce simp: ex_request_def)

lemma addProviders_none:
  assumes "\<forall>m\<in>set modes. provide (TrimSpace (ToLower m)) = Inr []"
  shows "addProviders provide modes chain = Inr chain"
  using assms by (induction provide modes chain rule: addProviders.induct) auto

text \<open>
  Authentication fails open. When none of the configured modes yields a provider (for instance
  because every one of them is misspelt, or \<^verbatim>\<open>basic\<close> is listed but not enabled), the chain that is built
  consists of the provider that accepts everything: every request is served as an administrator.
\<close>

theorem unusable_modes_open_the_api:
  assumes "\<forall>m\<in>set (split_char (CHR '','') (cfg_Mode cfg)).
     providerFor A discover E cfg keys (TrimSpace (ToLower m)) = Inr []"
  shows "\<exists>chain. BuildChainWithStorage A discover E cfg keys = Inr chain \<and>
    (\<forall>r w. result (Authenticate chain r) w = Inr anonymousAdmin)"
proof -
  have "BuildChainWithStorage A discover E cfg keys = Inr [NewNoneProvider]"
    using addProviders_none [OF assms] by (simp add: BuildChainWithStorage_def)
  then show ?thesis
    by (simp add: NewNoneProvider_def result_def)
qed

theorem unusable_modes_open_the_api_witness:
  "\<exists>chain. BuildChainWithStorage ex_authlib (\<lambda>_. Inr ()) ex_cp_env
       (LoadConfig [(''AUTH_MODE'', ''Basic'')]) (Some ''minato'') = Inr chain \<and>
     (\<forall>r w. result (Authenticate chain r) w = Inr anonymousAdmin)"
  by (rule unusable_modes_open_the_api)
    (simp add: LoadConfig_def getEnv_def getEnvBool_def map_str_def providerFor_def ToLower_def
      to_lower_char_def TrimSpace_def trim_by_def is_space_def)


section \<open>API keys\<close>

text \<open>The codecs the storage relies on: JSON and RFC 3339 give back what was written.\<close>

definition codecs_ok :: "authlib \<Rightarrow> APIKeyEntry \<Rightarrow> bool" where
  "codecs_ok A entry \<longleftrightarrow>
     al_unmarshal A (al_marshal A entry) empty_entry = entry \<and>
     (\<forall>t. ak_ExpiresAt entry = Some t \<longrightarrow>
        al_formatTime A t \<noteq> [] \<and> al_parseTime A (al_formatTime A t) = Inr t)"

definition plain_pattern :: "string \<Rightarrow> bool" where
  "plain_pattern p \<longleftrightarrow> p \<noteq> [] \<and> CHR '','' \<notin> set p \<and> TrimSpace p = p"

lemma ParseNamespaces_join:
  assumes "ps \<noteq> []" "\<forall>p\<in>set ps. plain_pattern p"
  shows "ParseNamespaces (join_char (CHR '','') ps) = ps"
proof -
  have "split_char (CHR '','') (join_char (CHR '','') ps) = ps"
    using assms by (intro split_join) (auto simp: plain_pattern_def)
  moreover have "map TrimSpace ps = ps" using assms(2) by (simp add: plain_pattern_def map_idI)
  moreover have "filter (\<lambda>p. p \<noteq> []) ps = ps" using assms(2) by (simp add: plain_pattern_def)
  ultimately show ?thesis by (simp add: ParseNamespaces_def)
qed

text \<open>
  A stored key reads back as it was issued, its namespace restriction and expiry included, for namespace patterns
  without commas and surrounding blanks.
\<close>

lemma fromSecret_toSecret:
  assumes "codecs_ok A entry" "ak_KeyID entry \<noteq> []" "ak_Name entry \<noteq> []"
    and "\<forall>p\<in>set (ak_Namespaces entry). plain_pattern p"
  shows "fromSecret A (toSecret A ns entry) = entry"
proof -
  have join: "ak_Namespaces entry \<noteq> [] \<Longrightarrow> join_char (CHR '','') (ak_Namespaces entry) \<noteq> []"
    using assms(4)
    by (cases "ak_Namespaces entry"; cases "tl (ak_Namespaces entry)") (auto simp: plain_pattern_def)
  show ?thesis
    using assms ParseNamespaces_join [of "ak_Namespaces entry"] join
    by (cases "ak_Namespaces entry = []"; cases "ak_ExpiresAt entry")
      (auto simp: fromSecret_def toSecret_def codecs_ok_def map_str_def Let_def)
qed

lemma split_char_subset: "t \<in> set (split_char c s) \<Longrightarrow> set t \<subseteq> set s"
proof (induction s arbitrary: t)
  case (Cons a s)
  then show ?case by (cases "split_char c s") (fastforce split: if_splits)+
qed simp

lemma ParseNamespaces_blank:
  assumes "\<forall>c\<in>set s. c = CHR '','' \<or> is_space c"
  shows "ParseNamespaces s = []"
proof -
  have "TrimSpace t = []" if "t \<in> set (split_char (CHR '','') s)" for t
  proof -
    have "set t \<subseteq> set s" using that by (rule split_char_subset)
    with split_char_free [OF that] assms have "\<forall>c\<in>set t. is_space c" by fastforce
    then show ?thesis by (auto simp: TrimSpace_def trim_by_def dropWhile_eq_Nil_conv dest: set_dropWhileD)
  qed
  then show ?thesis by (simp add: ParseNamespaces_def filter_empty_conv)
qed

text \<open>
  A scope made of separators only is no scope: a key Secret whose \<^verbatim>\<open>namespaces\<close> field is not empty
  but holds nothing besides commas and blanks decodes to an entry without any restriction, and the
  user it authenticates may access every namespace.
\<close>

theorem blank_scope_is_cluster_wide:
  assumes "map_str (ks_Data secret) ''namespaces'' = s" "s \<noteq> []"
    and "\<forall>c\<in>set s. c = CHR '','' \<or> is_space c"
    and "u_Namespaces user = ak_Namespaces (fromSecret A secret)"
  shows "ak_Namespaces (fromSecret A secret) = [] \<and> (\<forall>ns. AllowsNamespace (Some user) ns)"
proof -
  have "ak_Namespaces (fromSecret A secret) = ParseNamespaces s"
    using assms(1,2) by (simp add: fromSecret_def Let_def split: sum.splits option.splits)
  with assms(3,4) show ?thesis
    by (simp add: ParseNamespaces_blank AllowsNamespace_iff)
qed

definition presented_key :: "http_request \<Rightarrow> string" where
  "presented_key r = (if header_get r ''X-API-Key'' = [] then ExtractBearer r else header_get r ''X-API-Key'')"

lemma GetKey_found:
  assumes "result (GetKey A E ns v) w = Inr entry"
  obtains items secret where "cp_listKeySecrets E (calls w) ns = Inr items"
    "find (\<lambda>s. map_str (ks_Data s) ''key'' = v) items = Some secret"
    "entry = fromSecret A secret" "\<not> Expired entry (cp_now E (calls w @ [ListKeySecrets ns]))"
  using assms
  by (auto simp: GetKey_def listKeySecrets_def cpClock_def result_def io_simps map_err_def Let_def Expired_def
      split: sum.splits option.splits if_splits)

text \<open>
  A key authenticates only its holder and only in time: when the API key provider accepts a
  request, some stored Secret carries exactly the key value of the request, the user is the one
  stored there, and the key had not expired when the clock was read.
\<close>

theorem key_accepted_only_if_stored:
  assumes "result (authenticateAPIKey A E ns r) w = Inr user"
  shows "\<exists>items secret. cp_listKeySecrets E (calls w) ns = Inr items \<and> secret \<in> set items \<and>
    presented_key r \<noteq> [] \<and> map_str (ks_Data secret) ''key'' = presented_key r \<and>
    u_Role user = ak_Role (fromSecret A secret) \<and>
    u_Namespaces user = ak_Namespaces (fromSecret A secret) \<and>
    \<not> Expired (fromSecret A secret) (cp_now E (calls w @ [ListKeySecrets ns]))"
proof -
  have key: "presented_key r \<noteq> []"
    using assms by (auto simp: authenticateAPIKey_def presented_key_def Let_def result_def split: if_splits)
  then have "authenticateAPIKey A E ns r = do {
      got \<leftarrow> GetKey A E ns (presented_key r);
      State_Monad.return (case got of
        Inl _ \<Rightarrow> Inl ErrUnauthorized
      | Inr entry \<Rightarrow> Inr \<lparr>u_ID = ak_UserID entry, u_Username = ak_Username entry, u_Email = [],
           u_Role = ak_Role entry, u_Source = ''apikey'', u_Namespaces = ak_Namespaces entry\<rparr>) }"
    by (simp add: authenticateAPIKey_def presented_key_def Let_def)
  with assms obtain entry where got: "result (GetKey A E ns (presented_key r)) w = Inr entry"
    and user: "u_Role user = ak_Role entry" "u_Namespaces user = ak_Namespaces entry"
    by (auto simp: result_def split: prod.splits sum.splits)
  from got obtain items secret where "cp_listKeySecrets E (calls w) ns = Inr items"
    "find (\<lambda>s. map_str (ks_Data s) ''key'' = presented_key r) items = Some secret"
    "entry = fromSecret A secret" "\<not> Expired entry (cp_now E (calls w @ [ListKeySecrets ns]))"
    by (rule GetKey_found)
  moreover from this(2) have "secret \<in> set items" "map_str (ks_Data secret) ''key'' = presented_key r"
    by (auto simp: find_Some_iff)
  ultimately show ?thesis using user key by blast
qed

theorem key_accepted_only_if_stored_witness:
  "\<exists>items secret. cp_listKeySecrets ex_cp_env [] ''minato'' = Inr items \<and> secret \<in> set items \<and>
     map_str (ks_Data secret) ''key'' = presented_key (ex_request ''GET'' ''/'')"
proof -
  have "\<exists>user. result (authenticateAPIKey ex_authlib ex_cp_env ''minato'' (ex_request ''GET'' ''/'')) \<lparr>calls = []\<rparr> =
      Inr user"
    by (simp add: authenticateAPIKey_def header_get_def ex_request_def map_str_def Let_def GetKey_def
        listKeySecrets_def result_def io_simps map_err_def ex_cp_env_def ex_blank_secret_def fromSecret_def
        empty_entry_def)
  then show ?thesis
    using key_accepted_only_if_stored [where w = "\<lparr>calls = []\<rparr>"] by fastforce
qed


section \<open>Role permissions\<close>

text \<open>The chain of \<^verbatim>\<open>Extends\<close> from a role comes to an end; the roles on it.\<close>

inductive extends_ends :: "role_map \<Rightarrow> string \<Rightarrow> bool" for m where
  unknown: "GetRole m name = None \<Longrightarrow> extends_ends m name"
| base: "GetRole m name = Some role \<Longrightarrow> ro_Extends role = [] \<Longrightarrow> extends_ends m name"
| step: "GetRole m name = Some role \<Longrightarrow> ro_Extends role \<noteq> [] \<Longrightarrow> extends_ends m (ro_Extends role) \<Longrightarrow>
    extends_ends m name"

inductive inherits :: "role_map \<Rightarrow> string \<Rightarrow> Role \<Rightarrow> bool" for m where
  itself: "GetRole m name = Some role \<Longrightarrow> inherits m name role"
| parent: "GetRole m name = Some role \<Longrightarrow> ro_Extends role \<noteq> [] \<Longrightarrow> inherits m (ro_Extends role) ancestor \<Longrightarrow>
    inherits m name ancestor"

inductive_simps extends_ends_iff: "extends_ends m name"
inductive_simps inherits_iff: "inherits m name role"

lemma HasPermission_total:
  "extends_ends m name \<Longrightarrow>
     HasPermission m name res verb = Some (\<exists>role. inherits m name role \<and> directPermission role res verb)"
proof (induction rule: extends_ends.induct)
  case (unknown name)
  then show ?case by (subst HasPermission.simps) (simp add: inherits_iff [of m name])
next
  case (base name role)
  then show ?case by (subst HasPermission.simps) (simp add: inherits_iff [of m name])
next
  case (step name role)
  then show ?case
    by (subst HasPermission.simps) (auto simp: inherits_iff [of m name])
qed

lemma HasPermission_ends: "HasPermission m name res verb = Some b \<Longrightarrow> extends_ends m name"
proof (rule HasPermission.raw_induct [where P = "\<lambda>m n _ _ _. extends_ends m n"])
  fix HP m name res verb b
  assume "\<And>m n r v b. HP m n r v = Some b \<Longrightarrow> extends_ends m n"
    and "(case GetRole m name of None \<Rightarrow> Some False
      | Some role \<Rightarrow>
          if ro_Extends role \<noteq> [] then
            Option.bind (HP m (ro_Extends role) res verb)
              (\<lambda>inherited. if inherited then Some True else Some (directPermission role res verb))
          else Some (directPermission role res verb)) = Some b"
  then show "extends_ends m name"
    by (subst extends_ends_iff) (auto split: option.splits if_splits simp: bind_eq_Some_conv)
qed

text \<open>
  C35. The permission check returns exactly when the chain of extended roles ends, and then it says yes
  iff some role on the chain, the asked one included, holds the permission directly. A role that
  extends itself, through whatever other roles, makes the check recurse without end.
\<close>

theorem permission_check:
  "HasPermission m name res verb = Some b \<longleftrightarrow>
     extends_ends m name \<and> (b \<longleftrightarrow> (\<exists>role. inherits m name role \<and> directPermission role res verb))"
  using HasPermission_ends [of m name res verb b] HasPermission_total [of m name res verb] by auto

lemma roleMap_get:
  "GetRole roleMap name =
     (if name = ''viewer'' then Some ViewerRole else if name = ''operator'' then Some OperatorRole
      else if name = ''admin'' then Some AdminRole else None)"
  by (simp add: GetRole_def roleMap_def)

lemma roleMap_Extends [simp]:
  "ro_Extends ViewerRole = []" "ro_Extends OperatorRole = ''viewer''" "ro_Extends AdminRole = ''operator''"
  by (simp_all add: ViewerRole_def OperatorRole_def AdminRole_def)

lemma roleMap_inherits:
  "inherits roleMap ''viewer'' role \<longleftrightarrow> role = ViewerRole"
  "inherits roleMap ''operator'' role \<longleftrightarrow> role \<in> {OperatorRole, ViewerRole}"
  "inherits roleMap ''admin'' role \<longleftrightarrow> role \<in> {AdminRole, OperatorRole, ViewerRole}"
proof -
  show viewer: "inherits roleMap ''viewer'' role \<longleftrightarrow> role = ViewerRole"
    by (subst inherits_iff) (auto simp: roleMap_get)
  show operator: "inherits roleMap ''operator'' role \<longleftrightarrow> role \<in> {OperatorRole, ViewerRole}"
    by (subst inherits_iff) (auto simp: roleMap_get viewer)
  show "inherits roleMap ''admin'' role \<longleftrightarrow> role \<in> {AdminRole, OperatorRole, ViewerRole}"
    by (subst inherits_iff) (auto simp: roleMap_get operator)
qed

lemma roleMap_ends: "extends_ends roleMap name"
proof -
  have "extends_ends roleMap ''viewer''"
    by (rule extends_ends.base [of _ _ ViewerRole]) (simp_all add: roleMap_get)
  moreover from this have "extends_ends roleMap ''operator''"
    using extends_ends.step [of roleMap "''operator''" OperatorRole] by (simp add: roleMap_get)
  moreover from this have "extends_ends roleMap ''admin''"
    using extends_ends.step [of roleMap "''admin''" AdminRole] by (simp add: roleMap_get)
  ultimately show ?thesis
    by (cases "name \<in> {''viewer'', ''operator'', ''admin''}")
      (auto simp: roleMap_get intro: extends_ends.unknown)
qed

definition may :: "string \<Rightarrow> string \<Rightarrow> string \<Rightarrow> bool" where
  "may name res verb \<longleftrightarrow> HasPermission roleMap name res verb = Some True"

lemma may_iff: "may name res verb \<longleftrightarrow> (\<exists>role. inherits roleMap name role \<and> directPermission role res verb)"
  by (simp add: may_def HasPermission_total [OF roleMap_ends])

text \<open>
  The built-in roles form a hierarchy: whatever a viewer may do an operator may do, and whatever an
  operator may do an administrator may do; a viewer may only read. The check answers for every role
  name. No role may update anything, although the route rules let operators and administrators
  PATCH servers and fleets: the two tables disagree on every request whose verb is update.
\<close>

theorem builtin_roles:
  "HasPermission roleMap name res verb \<noteq> None \<and>
   (may ''viewer'' res verb \<longrightarrow> may ''operator'' res verb) \<and>
   (may ''operator'' res verb \<longrightarrow> may ''admin'' res verb) \<and>
   (may ''viewer'' res verb \<longrightarrow> verb \<in> {''get'', ''list''}) \<and>
   \<not> may name res (VerbFromMethod ''PATCH'')"
proof -
  have viewer: "may ''viewer'' res verb \<longrightarrow> verb \<in> {''get'', ''list''}"
    by (auto simp: may_iff roleMap_inherits ViewerRole_def directPermission_def perm_def)
  have "role \<in> {AdminRole, OperatorRole, ViewerRole}" if "inherits roleMap name role" for role
    using that by (induction rule: inherits.induct) (auto simp: roleMap_get split: if_splits)
  moreover have "\<not> directPermission role res ''update''" if "role \<in> {AdminRole, OperatorRole, ViewerRole}" for role
    using that by (auto simp: directPermission_def AdminRole_def OperatorRole_def ViewerRole_def perm_def)
  ultimately have "\<not> may name res (VerbFromMethod ''PATCH'')"
    unfolding may_iff VerbFromMethod_def by auto
  with viewer show ?thesis
    by (auto simp: may_iff roleMap_inherits HasPermission_total [OF roleMap_ends])
qed

end
