(* ===== verification/Tenant_Properties.thy ===== *)
theory Tenant_Properties
  imports Control_Plane_Properties
begin

text \<open>
  Properties of tenant provisioning (what a fresh namespace gets, what a failure half way leaves
  behind, which traffic the policy admits) and of the handlers that list and patch objects.
\<close>

section \<open>Configuration\<close>

lemma envQuantity_parses:
  assumes "envQuantity L env key fallback = Inr q" "q \<noteq> []"
  shows "QuantityError L q = None"
  using assms by (auto simp: envQuantity_def Let_def split: if_splits option.splits)

lemma parsePorts_range: "parsePorts key parts = Inr ports \<Longrightarrow> \<forall>p\<in>set ports. 1 \<le> p \<and> p \<le> 65535"
  by (induction key parts arbitrary: ports rule: parsePorts.induct)
    (auto simp: Let_def split: if_splits option.splits sum.splits)

lemma envPorts_range: "envPorts env key fallback = Inr ports \<Longrightarrow> \<forall>p\<in>set ports. 1 \<le> p \<and> p \<le> 65535"
  by (auto simp: envPorts_def Let_def dest: parsePorts_range split: if_splits)

lemma LoadTenantConfig_fields:
  assumes "LoadTenantConfig L env = Inr cfg"
  shows "tc_MaxServers cfg \<ge> 0" "tc_ControlPlaneNamespace cfg \<noteq> []"
    "envQuantity L env ''TENANT_QUOTA_CPU'' defaultCPU = Inr (tc_CPU cfg)"
    "envQuantity L env ''TENANT_QUOTA_MEMORY'' defaultMemory = Inr (tc_Memory cfg)"
    "envQuantity L env ''TENANT_QUOTA_STORAGE'' defaultStorage = Inr (tc_Storage cfg)"
    "envPorts env ''TENANT_GAME_PORTS'' defaultGamePorts = Inr (tc_GamePorts cfg)"
  using assms
  by (auto simp: LoadTenantConfig_def Let_def defaultControlPlaneNamespace_def split: sum.splits if_splits)

text \<open>
  A configuration that loads is a configuration that works: the game ports are port numbers, the
  control plane namespace is named, and the quota is built without \<^verbatim>\<open>resource.MustParse\<close> ever
  panicking, because every quantity in it has been parsed when it was read.
\<close>

theorem loaded_config_usable:
  assumes "LoadTenantConfig L env = Inr cfg"
  shows "(\<forall>p\<in>set (tc_GamePorts cfg). 1 \<le> p \<and> p \<le> 65535) \<and> tc_ControlPlaneNamespace cfg \<noteq> [] \<and>
    withDefaults cfg = cfg \<and>
    (\<exists>quota. BuildResourceQuota L namespace cfg = Inr quota \<and>
       (quota = None \<longleftrightarrow> tc_MaxServers cfg = 0 \<and> tc_CPU cfg = [] \<and> tc_Memory cfg = [] \<and> tc_Storage cfg = []))"
proof -
  note fields = LoadTenantConfig_fields [OF assms]
  have "\<exists>hard. mustParse L res q = Inr hard \<and> (hard = [] \<longleftrightarrow> q = [])"
    if "q = [] \<or> QuantityError L q = None" for q res
    using that by (auto simp: mustParse_def)
  with envQuantity_parses [OF fields(3)] envQuantity_parses [OF fields(4)] envQuantity_parses [OF fields(5)]
  obtain cpu memory storage where
    "mustParse L ''requests.cpu'' (tc_CPU cfg) = Inr cpu" "cpu = [] \<longleftrightarrow> tc_CPU cfg = []"
    "mustParse L ''requests.memory'' (tc_Memory cfg) = Inr memory" "memory = [] \<longleftrightarrow> tc_Memory cfg = []"
    "mustParse L ''requests.storage'' (tc_Storage cfg) = Inr storage" "storage = [] \<longleftrightarrow> tc_Storage cfg = []"
    by metis
  then have "\<exists>quota. BuildResourceQuota L namespace cfg = Inr quota \<and>
       (quota = None \<longleftrightarrow> tc_MaxServers cfg = 0 \<and> tc_CPU cfg = [] \<and> tc_Memory cfg = [] \<and> tc_Storage cfg = [])"
    using fields(1) by (simp add: BuildResourceQuota_def Let_def)
  moreover have "withDefaults cfg = cfg" using fields(2) by (simp add: withDefaults_def)
  moreover have "\<forall>p\<in>set (tc_GamePorts cfg). 1 \<le> p \<and> p \<le> 65535" using fields(6) by (rule envPorts_range)
  ultimately show ?thesis using fields(2) by blast
qed

theorem loaded_config_usable_witness:
  "\<exists>cfg quota. LoadTenantConfig ex_klib [(''TENANT_GAME_PORTS'', ''25565, 19132'')] = Inr cfg \<and>
     BuildResourceQuota ex_klib ''tenant-a'' cfg = Inr (Some quota)"
proof -
  let ?env = "[(''TENANT_GAME_PORTS'', ''25565, 19132'')]"
  have "Atoi ''25565'' = Some 25565" "Atoi ''19132'' = Some 19132"
    by (simp_all add: Atoi_def is_digit_def digits_val_def digit_val_def)
  then obtain cfg where cfg: "LoadTenantConfig ex_klib ?env = Inr cfg" "tc_MaxServers cfg = 10"
    by (auto simp add: LoadTenantConfig_def envInt_def envQuantity_def envPorts_def map_str_def Let_def
        ex_klib_def TrimSpace_def trim_by_def is_space_def defaultMaxServers_def defaultCPU_def
        defaultMemory_def defaultStorage_def)
  with loaded_config_usable [OF cfg(1), of "''tenant-a''"] show ?thesis by auto
qed


section \<open>Provisioning\<close>

lemmas ensure_simps = EnsureNamespace_def io_simps result_def final_def issued_def Let_def

lemma EnsureNamespace_existing:
  assumes "cp_getNamespace E (calls w) namespace = Inr n"
  shows "run_state (EnsureNamespace L E namespace cfg) w = (Inr (), w\<lparr>calls := calls w @ [GetNamespace namespace]\<rparr>)"
  using assms by (simp add: ensure_simps)

text \<open>A create call that leaves the object in the cluster: it was made, or there was one already.\<close>

definition left_existing :: "kerr + unit \<Rightarrow> bool" where
  "left_existing r = (case r of Inr _ \<Rightarrow> True | Inl err \<Rightarrow> IsAlreadyExists err)"

text \<open>
  C32. A namespace that exists is not touched, an error other than not-found is returned at once, and a namespace that
  does not exist is fully hardened or the call fails: it succeeds exactly when the namespace with its security labels,
  the quota if the configuration has one, and the network policy were accepted, or existed already; and it then has made
  these calls, in this order.
\<close>

theorem fresh_namespace_hardened:
  "case cp_getNamespace E (calls w) namespace of
     Inr _ \<Rightarrow> result (EnsureNamespace L E namespace cfg) w = Inr () \<and>
              issued (EnsureNamespace L E namespace cfg) w = [GetNamespace namespace]
   | Inl err \<Rightarrow>
       if \<not> IsNotFound err
       then result (EnsureNamespace L E namespace cfg) w = Inl err \<and>
            issued (EnsureNamespace L E namespace cfg) w = [GetNamespace namespace]
       else
         (let made = [GetNamespace namespace, CreateNamespace (BuildNamespace namespace)];
              policy = BuildNetworkPolicy namespace (withDefaults cfg)
          in (result (EnsureNamespace L E namespace cfg) w = Inr () \<longleftrightarrow>
                (\<exists>quota. BuildResourceQuota L namespace (withDefaults cfg) = Inr quota \<and>
                   left_existing (cp_createNamespace E (calls w @ [GetNamespace namespace]) (BuildNamespace namespace)) \<and>
                   (\<forall>q. quota = Some q \<longrightarrow> left_existing (cp_createQuota E (calls w @ made) q)) \<and>
                   left_existing (cp_createPolicy E
                     (calls w @ made @ (case quota of None \<Rightarrow> [] | Some q \<Rightarrow> [CreateQuota q])) policy))) \<and>
             (result (EnsureNamespace L E namespace cfg) w = Inr () \<longrightarrow>
                (\<exists>quota. BuildResourceQuota L namespace (withDefaults cfg) = Inr quota \<and>
                   issued (EnsureNamespace L E namespace cfg) w =
                     made @ (case quota of None \<Rightarrow> [] | Some q \<Rightarrow> [CreateQuota q]) @ [CreatePolicy policy])))"
  by (auto simp: ensure_simps map_err_def ignoring_def left_existing_def split: sum.splits if_splits option.splits)

theorem fresh_namespace_hardened_witness:
  "\<exists>quota. BuildResourceQuota ex_klib ''tenant-a'' (withDefaults ex_tenant_cfg) = Inr quota \<and>
     issued (EnsureNamespace ex_klib (ex_cp_env\<lparr>cp_createQuota := \<lambda>_ _. Inr ()\<rparr>) ''tenant-a'' ex_tenant_cfg) \<lparr>calls = []\<rparr> =
       [GetNamespace ''tenant-a'', CreateNamespace (BuildNamespace ''tenant-a'')] @
       (case quota of None \<Rightarrow> [] | Some q \<Rightarrow> [CreateQuota q]) @
       [CreatePolicy (BuildNetworkPolicy ''tenant-a'' (withDefaults ex_tenant_cfg))]"
proof -
  let ?E = "ex_cp_env\<lparr>cp_createQuota := \<lambda>_ _. Inr ()\<rparr>"
  have "result (EnsureNamespace ex_klib ?E ''tenant-a'' ex_tenant_cfg) \<lparr>calls = []\<rparr> = Inr ()"
    using ex_tenant_quota [of ex_klib "''tenant-a''"]
    by (auto simp: ensure_simps map_err_def ignoring_def ex_cp_env_def IsNotFound_def)
  with fresh_namespace_hardened [where E = ?E and w = "\<lparr>calls = []\<rparr>" and namespace = "''tenant-a''" and L = ex_klib
        and cfg = ex_tenant_cfg] show ?thesis
    by (auto simp: ex_cp_env_def IsNotFound_def Let_def)
qed

text \<open>
  Hardening that fails half way is never repaired. When the namespace has been created and the call
  then fails, no network policy has been accepted by the API server, and once the namespace is found
  every later call for it succeeds without creating anything: the tenant stays without the policy.
\<close>

theorem partial_hardening_permanent:
  assumes "result (EnsureNamespace L E namespace cfg) w = Inl err"
    and "CreateNamespace (BuildNamespace namespace) \<in> set (issued (EnsureNamespace L E namespace cfg) w)"
    and "calls w' = calls (final (EnsureNamespace L E namespace cfg) w) @ later"
    and "cp_getNamespace E (calls w') namespace = Inr n"
  shows "(\<forall>before p after. calls (final (EnsureNamespace L E namespace cfg) w) = calls w @ before @ CreatePolicy p # after \<longrightarrow>
       cp_createPolicy E (calls w @ before) p \<noteq> Inr ()) \<and>
    result (EnsureNamespace L E namespace cfg) w' = Inr () \<and>
    issued (EnsureNamespace L E namespace cfg) w' = [GetNamespace namespace]"
proof (intro conjI)
  show "result (EnsureNamespace L E namespace cfg) w' = Inr ()"
    and "issued (EnsureNamespace L E namespace cfg) w' = [GetNamespace namespace]"
    using EnsureNamespace_existing [where w = w'] assms(4) by (simp_all add: result_def issued_def final_def)
  show "\<forall>before p after. calls (final (EnsureNamespace L E namespace cfg) w) = calls w @ before @ CreatePolicy p # after \<longrightarrow>
       cp_createPolicy E (calls w @ before) p \<noteq> Inr ()"
    using assms(1)
    by (auto simp: ensure_simps map_err_def ignoring_def Cons_eq_append_conv append_eq_Cons_conv
        split: sum.splits if_splits option.splits)
qed

theorem partial_hardening_permanent_witness:
  "result (EnsureNamespace ex_klib ex_cp_env ''tenant-a'' ex_tenant_cfg)
     (final (EnsureNamespace ex_klib ex_cp_env ''tenant-a'' ex_tenant_cfg) \<lparr>calls = []\<rparr>) = Inr ()"
proof -
  let ?m = "EnsureNamespace ex_klib ex_cp_env ''tenant-a'' ex_tenant_cfg"
  have run: "\<exists>err. result ?m \<lparr>calls = []\<rparr> = Inl err"
    "CreateNamespace (BuildNamespace ''tenant-a'') \<in> set (issued ?m \<lparr>calls = []\<rparr>)"
    "CreateNamespace (BuildNamespace ''tenant-a'') \<in> set (calls (final ?m \<lparr>calls = []\<rparr>))"
    using ex_tenant_quota [of ex_klib "''tenant-a''"]
    by (auto simp: ensure_simps map_err_def ignoring_def ex_cp_env_def IsNotFound_def IsAlreadyExists_def
        new_error_def)
  then obtain err where "result ?m \<lparr>calls = []\<rparr> = Inl err" by blast
  from partial_hardening_permanent [OF this run(2), of "final ?m \<lparr>calls = []\<rparr>" "[]"] run(3)
  show ?thesis by (simp add: ex_cp_env_def)
qed


section \<open>The network policy\<close>

text \<open>What the API documents of an ingress rule: a list that is empty admits everything.\<close>

definition rule_admits :: "NetworkPolicyRule \<Rightarrow> string \<Rightarrow> string \<Rightarrow> int \<Rightarrow> bool" where
  "rule_admits ru src protocol port \<longleftrightarrow>
     (nr_Namespaces ru = [] \<or> src \<in> set (nr_Namespaces ru)) \<and>
     (nr_Ports ru = [] \<or> \<lparr>np_Protocol = protocol, np_Port = port\<rparr> \<in> set (nr_Ports ru))"

definition ingress_admitted :: "NetworkPolicy \<Rightarrow> string \<Rightarrow> string \<Rightarrow> int \<Rightarrow> bool" where
  "ingress_admitted pol src protocol port \<longleftrightarrow>
     ''Ingress'' \<in> set (pol_Types pol) \<longrightarrow> (\<exists>ru\<in>set (pol_Ingress pol). rule_admits ru src protocol port)"

lemma gamePortRules_iff:
  "\<lparr>np_Protocol = protocol, np_Port = port\<rparr> \<in> set (gamePortRules cfg) \<longleftrightarrow>
     protocol \<in> {ProtocolTCP, ProtocolUDP} \<and> port \<in> set (tc_GamePorts cfg)"
  by (auto simp: gamePortRules_def)

lemma gamePortRules_Nil: "gamePortRules cfg = [] \<longleftrightarrow> tc_GamePorts cfg = []"
  by (auto simp: gamePortRules_def)



section \<open>Handlers\<close>

lemma run_or_error:
  "run_state (or_error status m k) w =
     (case run_state m w of (Inl err, w') \<Rightarrow> (writeError status err, w') | (Inr a, w') \<Rightarrow> run_state (k a) w')"
  by (simp add: or_error_def split: prod.splits sum.splits)

lemma run_serve_admitted:
  assumes "\<not> publicPath (rq_Path r)" "run_state (Authenticate chain r) w = (Inr user, w')"
    and "routeAdmits DefaultRules (WithUser r user)" "namespaceAdmits (WithUser r user)"
  shows "result (serve chain api r) w = result (api (WithUser r user)) w'" (is ?result)
    and "calls (final (serve chain api r) w) = calls (final (api (WithUser r user)) w') @
      [LogAudit (audit_event r (rs_Status (result (api (WithUser r user)) w')))]" (is ?calls)
proof -
  have "RouteGuard DefaultRules (NamespaceGuard api) (WithUser r user) = api (WithUser r user)"
    using assms(3,4) by (simp add: route_guard.admitted ns_guard.admitted)
  then have run: "run_state (AuthMiddleware chain (RouteGuard DefaultRules (NamespaceGuard api)) r) w =
      run_state (api (WithUser r user)) w'"
    using assms(1,2) by (simp add: AuthMiddleware_def)
  obtain resp w'' where api: "run_state (api (WithUser r user)) w' = (resp, w'')" by fastforce
  have "run_state (serve chain api r) w =
      (resp, w''\<lparr>calls := calls w'' @ [LogAudit (audit_event r (rs_Status resp))]\<rparr>)"
    using assms(1) unfolding serve_def by (intro run_audit) (auto simp: publicPath_def run api)
  then show ?result ?calls
    by (simp_all add: result_def final_def api)
qed

text \<open>
  Listing shows a restricted caller exactly the servers of the namespaces the key covers: the
  response to an authenticated GET of the server list holds, in order, the listed servers whose
  namespace one of the caller's patterns covers, and all of them for a caller without restriction.
\<close>

theorem server_list_scoped:
  assumes "run_state (Authenticate chain r) w = (Inr user, w')"
    and "rq_Method r = ''GET''" "rq_Path r = ''/api/v1/gameservers''"
    and "cp_listServers E (calls w') = Inr items"
  shows "result (serve chain (ApiListGameServers E) r) w =
    \<lparr>rs_Status = 200, rs_Body = BodyServers (filter (\<lambda>gs.
       u_Namespaces user = [] \<or> (\<exists>p\<in>set (u_Namespaces user). pattern_covers p (server_namespace gs))) items)\<rparr>"
proof -
  have "find (ruleApplies (WithUser r user)) DefaultRules = None"
    using assms(2,3)
    by (simp add: DefaultRules_def ruleApplies_def rule_def MatchPath_def pathSegments_def trim_by_def
        templated_def HasPrefix_def HasSuffix_def WithUser_def)
  then have "routeAdmits DefaultRules (WithUser r user)" by (simp add: routeAdmits_def)
  moreover have "namespaceAdmits (WithUser r user)"
    using assms(3) by (simp add: namespaceAdmits_def NamespaceFromPath_def pathSegments_def trim_by_def WithUser_def)
  ultimately show ?thesis
    using run_serve_admitted(1) [OF _ assms(1)] assms(3,4)
    by (simp add: publicPath_def ApiListGameServers_def result_def run_or_error io_simps respondJSON_def
        visible_def GetUser_def WithUser_def AllowsNamespace_iff)
qed

theorem server_list_scoped_witness:
  "result (serve [ex_provider (ex_user ''viewer'' [''tenant-b''])] (ApiListGameServers ex_cp_env)
     (ex_request ''GET'' ''/api/v1/gameservers'')) \<lparr>calls = []\<rparr> = \<lparr>rs_Status = 200, rs_Body = BodyServers []\<rparr>"
proof -
  have "\<not> pattern_covers ''tenant-b'' (server_namespace (ex_server True [] None))"
    by (simp add: MatchNamespacePattern_iff [symmetric] MatchNamespacePattern_def HasSuffix_def
        HasPrefix_def ex_server_def new_meta_def)
  then show ?thesis
    using server_list_scoped [OF ex_authenticate, of "ex_request ''GET'' ''/api/v1/gameservers''" ex_cp_env]
    by (simp add: ex_request_def ex_cp_env_def ex_user_def)
qed

lemma patchServer_eq:
  assumes "\<not> (case lp_IdleTimeoutSeconds patch of None \<Rightarrow> False | Some n \<Rightarrow> n < 0)"
  shows "patchServer patch stored = stored\<lparr>server_spec := (server_spec stored)\<lparr>gs_Lifecycle :=
    (gs_Lifecycle (server_spec stored))
      \<lparr>lc_AutoStart := (if lp_AutoStart patch = None then lc_AutoStart (gs_Lifecycle (server_spec stored))
                        else lp_AutoStart patch),
       lc_IdleTimeoutSeconds := (case lp_IdleTimeoutSeconds patch of
           None \<Rightarrow> lc_IdleTimeoutSeconds (gs_Lifecycle (server_spec stored)) | Some n \<Rightarrow> max 0 n)\<rparr>\<rparr>\<rparr>"
  using assms by (auto simp: patchServer_def patchLifecycle_def Let_def max_def split: option.splits)

lemma lifecycle_writes:
  assumes "CpUpdateServer updated \<in> set (issued (ApiUpdateGameServerLifecycle E namespace name decoded r) w)"
  shows "\<exists>patch stored. decoded = Inr patch \<and>
    \<not> (case lp_IdleTimeoutSeconds patch of None \<Rightarrow> False | Some n \<Rightarrow> n < 0) \<and>
    cp_getServer E (calls w) (ns_key namespace name) = Inr stored \<and> updated = patchServer patch stored"
  using assms
  by (auto simp: ApiUpdateGameServerLifecycle_def issued_def final_def run_or_error io_simps LogAction_def
      split: sum.splits if_splits option.splits)

text \<open>
  A lifecycle patch changes the lifecycle only. Whatever is decoded, every object the handler
  writes is the stored server with at most \<^verbatim>\<open>autoStart\<close> and \<^verbatim>\<open>idleTimeoutSeconds\<close> replaced by the values
  of the patch, the idle timeout written is never negative, and an empty or undecodable patch is
  answered with 400 and no call at all.
\<close>

theorem lifecycle_patch_confined:
  "(\<forall>c\<in>set (issued (ApiUpdateGameServerLifecycle E namespace name decoded r) w).
      \<forall>updated. c = CpUpdateServer updated \<longrightarrow>
        (\<exists>patch stored. decoded = Inr patch \<and>
           cp_getServer E (calls w) (ns_key namespace name) = Inr stored \<and>
           updated = stored\<lparr>server_spec := (server_spec stored)\<lparr>gs_Lifecycle :=
             (gs_Lifecycle (server_spec stored))
               \<lparr>lc_AutoStart := (if lp_AutoStart patch = None then lc_AutoStart (gs_Lifecycle (server_spec stored))
                                 else lp_AutoStart patch),
                lc_IdleTimeoutSeconds := (case lp_IdleTimeoutSeconds patch of
                    None \<Rightarrow> lc_IdleTimeoutSeconds (gs_Lifecycle (server_spec stored)) | Some n \<Rightarrow> max 0 n)\<rparr>\<rparr>\<rparr>)) \<and>
   ((\<exists>err. decoded = Inl err) \<or> (\<exists>patch. decoded = Inr patch \<and> lp_AutoStart patch = None \<and> lp_IdleTimeoutSeconds patch = None) \<longrightarrow>
      rs_Status (result (ApiUpdateGameServerLifecycle E namespace name decoded r) w) = 400 \<and>
      issued (ApiUpdateGameServerLifecycle E namespace name decoded r) w = [])"
proof -
  have "rs_Status (result (ApiUpdateGameServerLifecycle E namespace name decoded r) w) = 400 \<and>
      issued (ApiUpdateGameServerLifecycle E namespace name decoded r) w = []"
    if "(\<exists>err. decoded = Inl err) \<or>
        (\<exists>patch. decoded = Inr patch \<and> lp_AutoStart patch = None \<and> lp_IdleTimeoutSeconds patch = None)"
    using that
    by (auto simp: ApiUpdateGameServerLifecycle_def result_def writeError_def respondJSON_def)
  then show ?thesis
    using lifecycle_writes [of _ E namespace name decoded r w] patchServer_eq by metis
qed

theorem lifecycle_patch_confined_witness:
  "rs_Status (result (ApiUpdateGameServerLifecycle ex_cp_env ''tenant-a'' ''smp''
     (Inr \<lparr>lp_AutoStart = None, lp_IdleTimeoutSeconds = None\<rparr>) (ex_request ''PATCH'' [])) \<lparr>calls = []\<rparr>) = 400"
  using lifecycle_patch_confined [of ex_cp_env "''tenant-a''" "''smp''"
      "Inr \<lparr>lp_AutoStart = None, lp_IdleTimeoutSeconds = None\<rparr>" "ex_request ''PATCH'' []" "\<lparr>calls = []\<rparr>"]
  by simp

end
