(* ===== verification/GameServer_Status.thy ===== *)
theory GameServer_Status
  imports GameServer_Properties
begin

text \<open>
  The state a reconcile writes into the status of a GameServer. The API declares an enumeration of states
  (\<^verbatim>\<open>GameServerStatusState\<close> in \<^verbatim>\<open>sdk/controlplane/gen/client.go\<close>); in the code the state is a string.
\<close>

section \<open>The declared states\<close>

definition GameServerStatusStates :: "string set" where
  "GameServerStatusStates = {''Error'', ''Idle'', ''Provisioning'', ''Running'', ''Stopped''}"

text \<open>The states that fit a server: a server that is meant to run is never written as stopped, and one that is not
  only as stopped or broken.\<close>

definition fitting_states :: "GameServer \<Rightarrow> string set" where
  "fitting_states server =
     (if AutoStartEnabled (gs_Lifecycle (server_spec server))
      then {stateProvisioning, stateRunning, stateIdle, stateError} else {stateStopped, stateError})"

text \<open>The API server answers a status update with the state that was written.\<close>

definition keeps_state :: "gs_env \<Rightarrow> bool" where
  "keeps_state E \<longleftrightarrow>
     (\<forall>h s s'. ge_updateServerStatus E h s = Inr s' \<longrightarrow> gst_State (server_status s') = gst_State (server_status s))"

definition typed :: "GameServer \<Rightarrow> gs_call \<Rightarrow> bool" where
  "typed S c = (case c of UpdateServerStatus s \<Rightarrow> gst_State (server_status s) \<in> fitting_states S | _ \<Rightarrow> True)"

lemma typed_simps [simp]:
  "typed S Now" "typed S (GetServer k)" "typed S (GetProfile n)" "typed S (GetSecret k)" "typed S (GetSts k)"
  "typed S (GetSvc k)" "typed S (GetCRD n)" "typed S (Dial a)" "typed S (AgentInfo a)" "typed S (HealthCheck a)"
  "typed S (GetPlayers a)" "typed S (PrepareShutdown a t r)" "typed S (RandInt i)" "typed S (Bcrypt pw)"
  "typed S (RecordEvent a b c)" "typed S (UpdateServer s)" "typed S (CreateSecret x)" "typed S (UpdateSecret x)"
  "typed S (PatchSts y)" "typed S (UpdateSts y)" "typed S (PatchSvc v)" "typed S (PatchPVC p)"
  "typed S (DeleteObj kind k)" "typed S (GetMonitor k)"
  "typed S (CreateMonitor m)" "typed S (UpdateMonitor m)"
  "typed S (UpdateServerStatus s) \<longleftrightarrow> gst_State (server_status s) \<in> fitting_states S"
  by (simp_all add: typed_def)


section \<open>The writers\<close>

lemma typed_writeStatus:
  assumes "keeps_state E" "gst_State (server_status s) \<in> fitting_states S"
  shows "emits (typed S) (writeStatus E s) (\<lambda>(r, s'). gst_State (server_status s') \<in> fitting_states S)"
  unfolding writeStatus_def statusUpdate_def
  by (intro emits_intros) (use assms in \<open>auto simp: keeps_state_def split: sum.splits\<close>)

lemma typed_missing: "emits (typed S) (setProfileMissingCondition E S err) (\<lambda>_. True)"
  unfolding setProfileMissingCondition_def statusUpdate_def
  by (intro emits_intros) (simp_all add: profileMissingStatus_def with_condition_def fitting_states_def)

lemma typed_resolveEndpoints: "emits (typed S) (resolveEndpoints E R s profile) (\<lambda>_. True)"
  unfolding resolveEndpoints_def Let_def by (intro emits_steps emits_intros) auto

lemma typed_probes:
  "emits (typed S) (checkAgentHealth E s) (\<lambda>_. True)" "emits (typed S) (callAgentShutdown E s) (\<lambda>_. True)"
  "emits (typed S) (getPlayerCount E s) (\<lambda>_. True)"
  unfolding checkAgentHealth_def callAgentShutdown_def getPlayerCount_def Let_def
  by (intro emits_steps emits_intros; auto)+

lemma typed_updateStatus:
  assumes "keeps_state E" "AutoStartEnabled (gs_Lifecycle (server_spec S))"
  shows "emits (typed S) (updateStatus E R s profile ready) (\<lambda>(r, s'). gst_State (server_status s') \<in> fitting_states S)"
  unfolding updateStatus_def
  by (intro emits_seq emits_intros typed_resolveEndpoints typed_writeStatus assms)
    (simp_all add: readyStatus_def with_condition_def fitting_states_def assms(2))

lemma typed_updateStoppedStatus:
  assumes "keeps_state E" "\<not> AutoStartEnabled (gs_Lifecycle (server_spec S))"
  shows "emits (typed S) (updateStoppedStatus E s) (\<lambda>_. True)"
  unfolding updateStoppedStatus_def
  by (intro emits_seq emits_intros emits_any [OF typed_writeStatus] assms)
    (simp_all add: stoppedStatus_def with_condition_def fitting_states_def assms(2))

lemma typed_updateAgentStatus:
  assumes "keeps_state E" "gst_State (server_status s) \<in> fitting_states S"
  shows "emits (typed S) (updateAgentStatus E s v b) (\<lambda>(r, s'). gst_State (server_status s') \<in> fitting_states S)"
  unfolding updateAgentStatus_def
  by (intro emits_seq emits_intros typed_writeStatus assms(1))
    (use assms(2) in \<open>simp_all add: agentStatus_def with_condition_def\<close>)

lemma typed_checkIdleTimeout:
  assumes "keeps_state E" "gst_State (server_status s) \<in> fitting_states S" "AutoStartEnabled (gs_Lifecycle (server_spec S))"
  shows "emits (typed S) (checkIdleTimeout E s sts) (\<lambda>_. True)"
  unfolding checkIdleTimeout_def Let_def
  by (intro emits_steps emits_intros typed_probes emits_any [OF typed_writeStatus] assms(1))
    (use assms(2,3) in \<open>simp_all add: fitting_states_def\<close>)

lemma typed_superviseReady:
  assumes "keeps_state E" "gst_State (server_status s) \<in> fitting_states S" "AutoStartEnabled (gs_Lifecycle (server_spec S))"
  shows "emits (typed S) (superviseReady E s sts) (\<lambda>_. True)"
  unfolding superviseReady_def
  by (intro emits_seq [OF typed_probes(1)] emits_case_prod emits_bind [OF typed_updateAgentStatus [OF assms(1,2)]])
    (auto intro!: emits_seq emits_intros typed_checkIdleTimeout assms)

lemma typed_reportStatus:
  assumes "keeps_state E"
  shows "emits (typed S) (reportStatus E R S profile (\<not> AutoStartEnabled (gs_Lifecycle (server_spec S)))) (\<lambda>_. True)"
proof (cases "AutoStartEnabled (gs_Lifecycle (server_spec S))")
  case True
  then show ?thesis
    unfolding reportStatus_def
    by (intro emits_bindE_perform)
      (auto intro!: emits_bind [OF typed_updateStatus [OF assms True]] emits_seq emits_intros
        typed_superviseReady [OF assms] split: sum.splits)
next
  case False
  then show ?thesis
    unfolding reportStatus_def
    by (intro emits_bindE_perform)
      (auto intro!: emits_bind [OF typed_updateStoppedStatus [OF assms False]] emits_seq emits_intros split: sum.splits)
qed

lemma typed_randomPassword: "emits (typed S) (randomPassword E k) (\<lambda>_. True)"
  by (induction k) (auto intro!: emits_seqE emits_intros)

lemma typed_secrets:
  "emits (typed S) (ensureSFTPSecret L E S profile) (\<lambda>_. True)"
  "emits (typed S) (ensureImagePullSecrets E R ns) (\<lambda>_. True)"
  unfolding ensureSFTPSecret_def generateSFTPPassword_def ensureImagePullSecrets_def ensureImagePullSecret_def Let_def
  by (intro emits_steps emits_intros emits_forE typed_randomPassword; auto)+

lemma typed_applyChildren: "emits (typed S) (applyChildren L E R S profile pod stopping) (\<lambda>_. True)"
  unfolding applyChildren_def applySts_def applySvc_def applyPVC_def reconcileServiceMonitor_def
    createOrUpdateMonitor_def
    DetectPrometheusOperator_def Let_def
  by (intro emits_steps emits_intros) auto

lemma typed_drainForStop: "emits (typed S) (drainForStop E R S) (\<lambda>_. True)"
  unfolding drainForStop_def by (intro emits_steps emits_intros typed_probes) auto

lemma typed_reconcileActive:
  assumes "keeps_state E"
  shows "emits (typed S) (reconcileActive L E R S) (\<lambda>_. True)"
  unfolding reconcileActive_def provision_def
  by (intro emits_steps emits_intros typed_missing typed_secrets typed_drainForStop typed_applyChildren
      typed_reportStatus assms) auto

lemma typed_reconcile:
  assumes "keeps_state E"
  shows "emits (typed S) (reconcileLive L E R S) (\<lambda>_. True)" "emits (typed S) (reconcileDeleted L E S) (\<lambda>_. True)"
  unfolding reconcileLive_def reconcileDeleted_def cleanupResources_def updateServer_def deleteIgnoringNotFound_def
  by (intro emits_steps emits_intros emits_forE typed_reconcileActive assms; auto)+


lemma Reconcile_typed:
  assumes "keeps_state E" "ge_getServer E (calls w) req = Inr server"
    and "c \<in> set (issued (Reconcile L E R req) w)"
  shows "typed server c"
proof -
  let ?m = "if om_DeletionTimestamp (server_meta server) = None
        then reconcileLive L E R server else reconcileDeleted L E server"
  have m: "emits (typed server) ?m (\<lambda>_. True)"
    by (intro emits_if typed_reconcile assms(1))
  have "issued (Reconcile L E R req) w = GetServer req # issued ?m (w\<lparr>calls := calls w @ [GetServer req]\<rparr>)"
    unfolding Reconcile_def
    by (subst issued_bind_perform [where P = "typed server" and Q = "\<lambda>_. True"]) (use m assms(2) in simp_all)
  with assms(3) show ?thesis
    by (auto dest: emitsD_issued [OF m])
qed

text \<open>
  C26. The state of a server is well typed: every status that a reconcile writes carries one of the five states the API
  declares; it is \<^verbatim>\<open>Stopped\<close> only for a server whose autoStart is off, and for such a server it is \<^verbatim>\<open>Stopped\<close> or
  \<^verbatim>\<open>Error\<close>.
\<close>

theorem written_states_typed:
  assumes "keeps_state E" "ge_getServer E (calls w) req = Inr server"
    and "UpdateServerStatus s \<in> set (issued (Reconcile L E R req) w)"
  shows "gst_State (server_status s) \<in> GameServerStatusStates \<and>
    (gst_State (server_status s) = ''Stopped'' \<longrightarrow> \<not> AutoStartEnabled (gs_Lifecycle (server_spec server))) \<and>
    (\<not> AutoStartEnabled (gs_Lifecycle (server_spec server)) \<longrightarrow>
       gst_State (server_status s) \<in> {''Stopped'', ''Error''})"
  using Reconcile_typed [OF assms]
  by (auto simp: fitting_states_def GameServerStatusStates_def state_defs split: if_splits)


definition ex_no_profile :: gs_env where
  "ex_no_profile = (ex_env (ex_server False [] None) (ex_sts 1 0))\<lparr>ge_getProfile := (\<lambda>_ _. Inl (KErr EK_NotFound []))\<rparr>"

lemma ex_missing_written:
  "UpdateServerStatus (profileMissingStatus (ex_server False [] None) (KErr EK_NotFound []))
     \<in> set (issued (Reconcile ex_klib ex_no_profile ex_reconciler ex_key) ex_world)"
  by (simp add: issued_def final_def Reconcile_def reconcileLive_def reconcileActive_def setProfileMissingCondition_def
      statusUpdate_def ex_no_profile_def IsNotFound_def io_simps)

theorem written_states_typed_witness:
  "gst_State (server_status (profileMissingStatus (ex_server False [] None) (KErr EK_NotFound [])))
     \<in> {''Stopped'', ''Error''}"
proof -
  have "keeps_state ex_no_profile" by (simp add: keeps_state_def ex_no_profile_def)
  moreover have "ge_getServer ex_no_profile (calls ex_world) ex_key = Inr (ex_server False [] None)"
    by (simp add: ex_no_profile_def)
  ultimately show ?thesis
    using written_states_typed [OF _ _ ex_missing_written] by simp
qed

end
