(* ===== verification/Key_Storage.thy ===== *)
theory Key_Storage
  imports Control_Plane_Properties "HOL-Library.Countable"
begin

text \<open>
  The API key storage as a whole. Its abstract specification is a map from key names to entries with the operations
  issue, revoke, look up and list. The Secrets in the cluster after a history of calls are a replay of that history;
  over an API server that serves them, the operations of \<^verbatim>\<open>storage.go\<close> refine the specification.
\<close>

section \<open>Forward simulation\<close>

text \<open>A sequence of operations of a component, and of its specification, with their answers.\<close>

fun run_ops :: "('op \<Rightarrow> 'c \<Rightarrow> 'r \<times> 'c) \<Rightarrow> 'op list \<Rightarrow> 'c \<Rightarrow> 'r list \<times> 'c" where
  "run_ops step [] c = ([], c)"
| "run_ops step (p # ps) c =
     (case step p c of (r, c') \<Rightarrow> (case run_ops step ps c' of (rs, c'') \<Rightarrow> (r # rs, c'')))"

inductive spec_run :: "('op \<Rightarrow> 'a \<Rightarrow> 'r \<Rightarrow> 'a \<Rightarrow> bool) \<Rightarrow> 'op list \<Rightarrow> 'a \<Rightarrow> 'r list \<Rightarrow> 'a \<Rightarrow> bool" for spec where
  none: "spec_run spec [] a [] a"
| op: "spec p a r a' \<Longrightarrow> spec_run spec ps a' rs a'' \<Longrightarrow> spec_run spec (p # ps) a (r # rs) a''"

locale refinement =
  fixes sim :: "'c \<Rightarrow> 'a \<Rightarrow> bool"
    and step :: "'op \<Rightarrow> 'c \<Rightarrow> 'r \<times> 'c"
    and spec :: "'op \<Rightarrow> 'a \<Rightarrow> 'r \<Rightarrow> 'a \<Rightarrow> bool"
    and valid :: "'op \<Rightarrow> bool"
  assumes simulates: "sim c a \<Longrightarrow> valid p \<Longrightarrow> \<exists>a'. spec p a (fst (step p c)) a' \<and> sim (snd (step p c)) a'"
begin

lemma simulates_run:
  "sim c a \<Longrightarrow> list_all valid ps \<Longrightarrow>
     \<exists>a'. spec_run spec ps a (fst (run_ops step ps c)) a' \<and> sim (snd (run_ops step ps c)) a'"
proof (induction ps arbitrary: c a)
  case Nil
  then show ?case by (auto intro: spec_run.none)
next
  case (Cons p ps)
  then obtain a' where "spec p a (fst (step p c)) a'" "sim (snd (step p c)) a'"
    using simulates [of c a p] by auto
  moreover from this Cons obtain a'' where
    "spec_run spec ps a' (fst (run_ops step ps (snd (step p c)))) a''" "sim (snd (run_ops step ps (snd (step p c)))) a''"
    by auto
  ultimately show ?case
    using spec_run.op by (fastforce split: prod.splits)
qed

end


section \<open>The specification\<close>

datatype key_op =
    IssueKey string string string string "string list" "time option"
  | RevokeKey string
  | LookupKey string
  | ListAllKeys

datatype key_answer =
    Issued APIKeyEntry string
  | Revoked
  | Found APIKeyEntry
  | Listed "APIKeyEntry list"
  | Refused kerr

text \<open>
  What an operation may answer and how it changes the keys, given what it sees of the world: the time on the clock and
  the bytes (or the error) that the source of randomness has for it. An issue gives a key made of these bytes, created
  at this time; it is refused when the name is taken, and fails when there is no randomness. A look-up of a value gives
  an entry with that value unless the entry has expired at this time.
\<close>

type_synonym key_outcome = "key_answer \<times> time \<times> (kerr + nat list)"

inductive key_spec :: "key_op \<Rightarrow> (string \<rightharpoonup> APIKeyEntry) \<Rightarrow> key_outcome \<Rightarrow> (string \<rightharpoonup> APIKeyEntry) \<Rightarrow> bool" where
  issue: "keys name = None \<Longrightarrow> v = ''minato_'' @ hexBytes bytes \<Longrightarrow>
     e = \<lparr>ak_Name = name, ak_KeyID = v, ak_UserID = uid, ak_Username = uname, ak_Role = role, ak_CreatedAt = now,
          ak_Namespaces = nss, ak_ExpiresAt = exp\<rparr> \<Longrightarrow>
     key_spec (IssueKey name uid uname role nss exp) keys (Issued e v, now, Inr bytes) (keys(name \<mapsto> e))"
| taken: "keys name \<noteq> None \<Longrightarrow> IsAlreadyExists err \<Longrightarrow>
     key_spec (IssueKey name uid uname role nss exp) keys (Refused err, now, Inr bytes) keys"
| no_random: "key_spec (IssueKey name uid uname role nss exp) keys
     (Refused (wrap_error ''generate key: '' err), now, Inl err) keys"
| revoke: "keys name \<noteq> None \<Longrightarrow> key_spec (RevokeKey name) keys (Revoked, now, random) (keys(name := None))"
| unknown: "keys name = None \<Longrightarrow>
     key_spec (RevokeKey name) keys (Refused (new_error (''key not found: '' @ name)), now, random) keys"
| found: "keys name = Some e \<Longrightarrow> ak_KeyID e = v \<Longrightarrow> \<not> Expired e now \<Longrightarrow>
     key_spec (LookupKey v) keys (Found e, now, random) keys"
| expired: "keys name = Some e \<Longrightarrow> ak_KeyID e = v \<Longrightarrow> Expired e now \<Longrightarrow>
     key_spec (LookupKey v) keys (Refused ErrUnauthorized, now, random) keys"
| absent: "(\<And>e. e \<in> ran keys \<Longrightarrow> ak_KeyID e \<noteq> v) \<Longrightarrow>
     key_spec (LookupKey v) keys (Refused ErrUnauthorized, now, random) keys"
| listed: "set es = (\<lambda>e. e\<lparr>ak_KeyID := []\<rparr>) ` ran keys \<Longrightarrow> length es = card (dom keys) \<Longrightarrow>
     key_spec ListAllKeys keys (Listed es, now, random) keys"

text \<open>A key that the specification holds was issued under its name, and its name was not revoked since.\<close>

definition issued_by :: "key_op list \<Rightarrow> key_answer list \<Rightarrow> string \<Rightarrow> APIKeyEntry \<Rightarrow> bool" where
  "issued_by ps rs name e \<longleftrightarrow>
     (\<exists>i < length rs. (\<exists>uid uname role nss exp. ps ! i = IssueKey name uid uname role nss exp) \<and>
        rs ! i = Issued e (ak_KeyID e) \<and>
        (\<forall>j. i < j \<and> j < length rs \<and> ps ! j = RevokeKey name \<longrightarrow> rs ! j \<noteq> Revoked))"

lemma issued_by_Cons: "issued_by ps rs name e \<Longrightarrow> issued_by (p # ps) (r # rs) name e"
  unfolding issued_by_def
proof (elim exE conjE)
  fix i uid uname role nss exp
  assume a: "i < length rs" "ps ! i = IssueKey name uid uname role nss exp" "rs ! i = Issued e (ak_KeyID e)"
    and later: "\<forall>j. i < j \<and> j < length rs \<and> ps ! j = RevokeKey name \<longrightarrow> rs ! j \<noteq> Revoked"
  have "\<forall>j. Suc i < j \<and> j < length (r # rs) \<and> (p # ps) ! j = RevokeKey name \<longrightarrow> (r # rs) ! j \<noteq> Revoked"
    using later by (auto simp: less_Suc_eq_0_disj)
  with a show "\<exists>i<length (r # rs). (\<exists>uid uname role nss exp. (p # ps) ! i = IssueKey name uid uname role nss exp) \<and>
      (r # rs) ! i = Issued e (ak_KeyID e) \<and>
      (\<forall>j. i < j \<and> j < length (r # rs) \<and> (p # ps) ! j = RevokeKey name \<longrightarrow> (r # rs) ! j \<noteq> Revoked)"
    by (intro exI [of _ "Suc i"]) auto
qed

lemma spec_keys_issued:
  assumes "spec_run key_spec ps keys os keys'" and "keys' name = Some e"
  shows "issued_by ps (map fst os) name e \<or>
    (keys name = Some e \<and> (\<forall>j. j < length os \<and> ps ! j = RevokeKey name \<longrightarrow> fst (os ! j) \<noteq> Revoked))"
  using assms
proof (induction rule: spec_run.induct)
  case (op p a r a' ps os a'')
  show ?case
  proof (cases "issued_by ps (map fst os) name e")
    case True
    then show ?thesis by (simp add: issued_by_Cons)
  next
    case False
    with op have here: "a' name = Some e" "\<forall>j. j < length os \<and> ps ! j = RevokeKey name \<longrightarrow> fst (os ! j) \<noteq> Revoked"
      by auto
    from \<open>key_spec p a r a'\<close> here show ?thesis
      by cases (auto simp: issued_by_def less_Suc_eq_0_disj split: if_splits intro!: exI [of _ 0])
  qed
qed simp


section \<open>The Secrets in the cluster\<close>

definition secret_key :: "KeySecret \<Rightarrow> NamespacedName" where
  "secret_key s = \<lparr>nn_Namespace = ks_Namespace s, nn_Name = ks_Name s\<rparr>"

fun apply_call :: "cp_call \<Rightarrow> KeySecret list \<Rightarrow> KeySecret list" where
  "apply_call (CreateKeySecret s) store =
     (if secret_key s \<in> secret_key ` set store then store else store @ [s])"
| "apply_call (DeleteKeySecret k) store = filter (\<lambda>s. secret_key s \<noteq> k) store"
| "apply_call _ store = store"

definition secretsAt :: "cp_call list \<Rightarrow> KeySecret list" where
  "secretsAt h = fold apply_call h []"

lemma secretsAt_append [simp]: "secretsAt (h @ cs) = fold apply_call cs (secretsAt h)"
  by (simp add: secretsAt_def)

text \<open>
  What the storage relies on: the API server refuses a second Secret of a name, deletes Secrets that exist, and lists
  the labelled Secrets of a namespace; JSON and RFC 3339 give back entries whose expiry is a whole second.
\<close>

definition serves_secrets :: "cp_env \<Rightarrow> bool" where
  "serves_secrets E \<longleftrightarrow>
     (\<forall>h ns. cp_listKeySecrets E h ns =
        Inr (filter (\<lambda>s. ks_Namespace s = ns \<and> map_str (ks_Labels s) apiKeySecretLabel = ''true'') (secretsAt h))) \<and>
     (\<forall>h s. if secret_key s \<in> secret_key ` set (secretsAt h)
            then \<exists>err. cp_createKeySecret E h s = Inl err \<and> IsAlreadyExists err
            else cp_createKeySecret E h s = Inr ()) \<and>
     (\<forall>h k. if k \<in> secret_key ` set (secretsAt h) then cp_deleteKeySecret E h k = Inr ()
            else \<exists>err. cp_deleteKeySecret E h k = Inl err \<and> IsNotFound err)"

definition whole_expiry :: "time option \<Rightarrow> bool" where
  "whole_expiry t = (case t of None \<Rightarrow> True | Some s \<Rightarrow> s mod second = 0)"

definition key_codecs :: "authlib \<Rightarrow> bool" where
  "key_codecs A \<longleftrightarrow> (\<forall>e. whole_expiry (ak_ExpiresAt e) \<longrightarrow> codecs_ok A e)"

definition entry_ok :: "APIKeyEntry \<Rightarrow> bool" where
  "entry_ok e \<longleftrightarrow> ak_Name e \<noteq> [] \<and> ak_KeyID e \<noteq> [] \<and> whole_expiry (ak_ExpiresAt e) \<and>
     (\<forall>p\<in>set (ak_Namespaces e). plain_pattern p)"

fun valid_key_op :: "key_op \<Rightarrow> bool" where
  "valid_key_op (IssueKey name uid uname role nss exp) \<longleftrightarrow>
     name \<noteq> [] \<and> whole_expiry exp \<and> list_all plain_pattern nss"
| "valid_key_op _ \<longleftrightarrow> True"

definition named :: "APIKeyEntry list \<Rightarrow> (string \<rightharpoonup> APIKeyEntry)" where
  "named es = map_of (map (\<lambda>e. (ak_Name e, e)) es)"

definition key_sim ::
    "authlib \<Rightarrow> cp_env \<Rightarrow> string \<Rightarrow> cp_call list \<Rightarrow> (string \<rightharpoonup> APIKeyEntry) \<Rightarrow> bool" where
  "key_sim A E ns h keys \<longleftrightarrow>
     serves_secrets E \<and> key_codecs A \<and>
     (\<exists>es. secretsAt h = map (toSecret A ns) es \<and> list_all entry_ok es \<and> distinct (map ak_Name es) \<and>
        keys = named es)"

text \<open>An operation of the storage on the history, with its answer.\<close>

definition answered :: "('a \<Rightarrow> key_answer) \<Rightarrow> (kerr + 'a) cp_prog \<Rightarrow> cp_call list \<Rightarrow> key_answer \<times> cp_call list" where
  "answered f m h =
     (case run_state m \<lparr>calls = h\<rparr> of (r, w) \<Rightarrow>
        ((case r of Inl err \<Rightarrow> Refused err | Inr a \<Rightarrow> f a), calls w))"

fun key_step :: "authlib \<Rightarrow> cp_env \<Rightarrow> string \<Rightarrow> key_op \<Rightarrow> cp_call list \<Rightarrow> key_answer \<times> cp_call list" where
  "key_step A E ns (IssueKey name uid uname role nss exp) =
     answered (\<lambda>(e, v). Issued e v) (GenerateKey A E ns name uid uname role nss exp)"
| "key_step A E ns (RevokeKey name) = answered (\<lambda>_. Revoked) (DeleteKey E ns name)"
| "key_step A E ns (LookupKey v) = answered Found (GetKey A E ns v)"
| "key_step A E ns ListAllKeys = answered Listed (ListKeys A E ns)"

text \<open>
  The same with what the operation sees of the world: the time the clock has when it is read, which is after the
  random bytes for an issue and after the list for a look-up, and what the source of randomness has at the beginning.
\<close>

fun clockAt :: "cp_env \<Rightarrow> string \<Rightarrow> key_op \<Rightarrow> cp_call list \<Rightarrow> time" where
  "clockAt E ns (IssueKey name uid uname role nss exp) h = cp_now E (h @ [RandRead apiKeyLength])"
| "clockAt E ns (LookupKey v) h = cp_now E (h @ [ListKeySecrets ns])"
| "clockAt E ns _ h = cp_now E h"

definition observed_step ::
    "authlib \<Rightarrow> cp_env \<Rightarrow> string \<Rightarrow> key_op \<Rightarrow> cp_call list \<Rightarrow> key_outcome \<times> cp_call list" where
  "observed_step A E ns p h =
     (case key_step A E ns p h of (r, h') \<Rightarrow> ((r, clockAt E ns p h, cp_randRead E h apiKeyLength), h'))"

lemma observed_step_simps [simp]:
  "fst (observed_step A E ns p h) = (fst (key_step A E ns p h), clockAt E ns p h, cp_randRead E h apiKeyLength)"
  "snd (observed_step A E ns p h) = snd (key_step A E ns p h)"
  by (simp_all add: observed_step_def split: prod.splits)

lemma observed_run:
  "map fst (fst (run_ops (observed_step A E ns) ps h)) = fst (run_ops (key_step A E ns) ps h)"
  "snd (run_ops (observed_step A E ns) ps h) = snd (run_ops (key_step A E ns) ps h)"
proof (induction ps arbitrary: h)
  case (Cons p ps)
  {
    case 1
    show ?case using Cons.IH(1) by (simp add: case_prod_beta)
  next
    case 2
    show ?case using Cons.IH(2) by (simp add: case_prod_beta)
  }
qed simp_all


section \<open>The storage refines its specification\<close>

lemma secret_key_toSecret [simp]:
  "secret_key (toSecret A ns e) = \<lparr>nn_Namespace = ns, nn_Name = apiKeySecretPrefix @ ak_Name e\<rparr>"
  by (simp add: secret_key_def toSecret_def)

lemma listed_toSecret [simp]:
  "ks_Namespace (toSecret A ns e) = ns" "map_str (ks_Labels (toSecret A ns e)) apiKeySecretLabel = ''true''"
  "map_str (ks_Data (toSecret A ns e)) ''key'' = ak_KeyID e"
  by (simp_all add: toSecret_def map_str_def)

lemma stored_key_iff:
  "\<lparr>nn_Namespace = ns, nn_Name = apiKeySecretPrefix @ name\<rparr> \<in> secret_key ` set (map (toSecret A ns) es) \<longleftrightarrow>
     named es name \<noteq> None"
  by (force simp: named_def map_of_eq_None_iff)

lemma entry_decoded: "key_codecs A \<Longrightarrow> entry_ok e \<Longrightarrow> fromSecret A (toSecret A ns e) = e"
  by (rule fromSecret_toSecret) (auto simp: key_codecs_def entry_ok_def)

lemma ran_named: "distinct (map ak_Name es) \<Longrightarrow> ran (named es) = set es"
  by (simp add: named_def ran_distinct comp_def image_image)

lemma named_member: "distinct (map ak_Name es) \<Longrightarrow> e \<in> set es \<Longrightarrow> named es (ak_Name e) = Some e"
  by (simp add: named_def comp_def image_iff map_of_eq_Some_iff)

lemma named_snoc: "named es (ak_Name e) = None \<Longrightarrow> named (es @ [e]) = (named es)(ak_Name e \<mapsto> e)"
  by (auto simp: named_def map_add_def fun_eq_iff split: option.splits)

lemma named_filter: "named (filter (\<lambda>e. ak_Name e \<noteq> name) es) = (named es)(name := None)"
  by (induction es) (auto simp: named_def fun_eq_iff)

lemma serves_list:
  assumes "serves_secrets E" "secretsAt h = map (toSecret A ns) es"
  shows "cp_listKeySecrets E h ns = Inr (map (toSecret A ns) es)"
  using assms by (simp add: serves_secrets_def filter_map comp_def)

lemma serves_create:
  assumes "serves_secrets E" "secretsAt h = map (toSecret A ns) es"
  shows "named es (ak_Name e) = None \<Longrightarrow> cp_createKeySecret E h (toSecret A ns e) = Inr ()"
    and "named es (ak_Name e) \<noteq> None \<Longrightarrow>
      \<exists>err. cp_createKeySecret E h (toSecret A ns e) = Inl err \<and> IsAlreadyExists err"
proof -
  have "if named es (ak_Name e) \<noteq> None then \<exists>err. cp_createKeySecret E h (toSecret A ns e) = Inl err \<and> IsAlreadyExists err
      else cp_createKeySecret E h (toSecret A ns e) = Inr ()"
    using assms stored_key_iff [of ns "ak_Name e" A es] unfolding serves_secrets_def by (metis secret_key_toSecret)
  then show "named es (ak_Name e) = None \<Longrightarrow> cp_createKeySecret E h (toSecret A ns e) = Inr ()"
    and "named es (ak_Name e) \<noteq> None \<Longrightarrow>
      \<exists>err. cp_createKeySecret E h (toSecret A ns e) = Inl err \<and> IsAlreadyExists err"
    by auto
qed

lemma serves_delete:
  assumes "serves_secrets E" "secretsAt h = map (toSecret A ns) es"
  shows "if named es name \<noteq> None
    then cp_deleteKeySecret E h \<lparr>nn_Namespace = ns, nn_Name = apiKeySecretPrefix @ name\<rparr> = Inr ()
    else \<exists>err. cp_deleteKeySecret E h \<lparr>nn_Namespace = ns, nn_Name = apiKeySecretPrefix @ name\<rparr> = Inl err \<and> IsNotFound err"
  using assms stored_key_iff [of ns name A es] unfolding serves_secrets_def by metis

lemma issue_simulates:
  assumes "key_sim A E ns h keys" "valid_key_op (IssueKey name uid uname role nss exp)"
  shows "\<exists>keys'. key_spec (IssueKey name uid uname role nss exp) keys
           (fst (key_step A E ns (IssueKey name uid uname role nss exp) h),
            cp_now E (h @ [RandRead apiKeyLength]), cp_randRead E h apiKeyLength) keys' \<and>
         key_sim A E ns (snd (key_step A E ns (IssueKey name uid uname role nss exp) h)) keys'"
proof -
  from assms obtain es where es: "secretsAt h = map (toSecret A ns) es" "list_all entry_ok es"
    "distinct (map ak_Name es)" "keys = named es" and env: "serves_secrets E" "key_codecs A"
    by (auto simp: key_sim_def)
  show ?thesis
  proof (cases "cp_randRead E h apiKeyLength")
    case (Inl err)
    then show ?thesis
      using assms(1) key_spec.no_random [of name uid uname role nss exp keys err "cp_now E (h @ [RandRead apiKeyLength])"]
      by (intro exI [of _ keys])
        (simp add: answered_def GenerateKey_def generateRandomKey_def io_simps map_err_def key_sim_def)
  next
    case (Inr bytes)
    let ?v = "''minato_'' @ hexBytes bytes"
    let ?e = "\<lparr>ak_Name = name, ak_KeyID = ?v, ak_UserID = uid, ak_Username = uname, ak_Role = role,
      ak_CreatedAt = cp_now E (h @ [RandRead apiKeyLength]), ak_Namespaces = nss, ak_ExpiresAt = exp\<rparr>"
    let ?h = "h @ [RandRead apiKeyLength, CpNow]"
    have run: "key_step A E ns (IssueKey name uid uname role nss exp) h =
        ((case cp_createKeySecret E ?h (toSecret A ns ?e) of
            Inl err \<Rightarrow> Refused (wrap_error ''store key: '' err) | Inr _ \<Rightarrow> Issued ?e ?v),
         ?h @ [CreateKeySecret (toSecret A ns ?e)])"
      using Inr by (simp add: answered_def GenerateKey_def generateRandomKey_def cpClock_def io_simps map_err_def Let_def
          split: sum.splits)
    have ok: "entry_ok ?e" using assms(2) by (simp add: entry_ok_def list_all_iff)
    show ?thesis
    proof (cases "named es name")
      case None
      then have absent: "name \<notin> ak_Name ` set es" by (force simp: named_def map_of_eq_None_iff)
      from None have "cp_createKeySecret E ?h (toSecret A ns ?e) = Inr ()"
        using serves_create(1) [OF env(1), of ?h A ns es ?e] es(1) by simp
      moreover have "key_sim A E ns (?h @ [CreateKeySecret (toSecret A ns ?e)]) (keys(name \<mapsto> ?e))"
        using es env ok None stored_key_iff [of ns name A es] named_snoc [of es ?e]
        by (auto simp: key_sim_def absent intro!: exI [of _ "es @ [?e]"])
      moreover have "key_spec (IssueKey name uid uname role nss exp) keys
          (Issued ?e ?v, cp_now E (h @ [RandRead apiKeyLength]), Inr bytes) (keys(name \<mapsto> ?e))"
        using None es(4) by (intro key_spec.issue) simp_all
      ultimately show ?thesis
        by (intro exI [of _ "keys(name \<mapsto> ?e)"]) (simp only: run Inr sum.case fst_conv snd_conv simp_thms)
    next
      case (Some e)
      then obtain err where "cp_createKeySecret E ?h (toSecret A ns ?e) = Inl err" "IsAlreadyExists err"
        using serves_create(2) [OF env(1), of ?h A ns es ?e] es(1) by auto
      moreover have "key_sim A E ns (?h @ [CreateKeySecret (toSecret A ns ?e)]) keys"
        using es env Some stored_key_iff [of ns name A es] by (auto simp: key_sim_def)
      ultimately show ?thesis
        using run Inr Some es(4)
        by (auto intro!: exI [of _ keys] key_spec.taken simp: IsAlreadyExists_def wrap_error_def)
    qed
  qed
qed


lemma revoke_simulates:
  assumes "key_sim A E ns h keys"
  shows "\<exists>keys'. key_spec (RevokeKey name) keys (fst (key_step A E ns (RevokeKey name) h), now, random) keys' \<and>
         key_sim A E ns (snd (key_step A E ns (RevokeKey name) h)) keys'"
proof -
  from assms obtain es where es: "secretsAt h = map (toSecret A ns) es" "list_all entry_ok es"
    "distinct (map ak_Name es)" "keys = named es" and env: "serves_secrets E" "key_codecs A"
    by (auto simp: key_sim_def)
  let ?k = "\<lparr>nn_Namespace = ns, nn_Name = apiKeySecretPrefix @ name\<rparr>"
  let ?es = "filter (\<lambda>e. ak_Name e \<noteq> name) es"
  have "secretsAt (h @ [DeleteKeySecret ?k]) = map (toSecret A ns) ?es"
    using es(1) by (simp add: filter_map comp_def)
  then have sim: "key_sim A E ns (h @ [DeleteKeySecret ?k]) (keys(name := None))"
    using es env named_filter [of name es]
    by (auto simp: key_sim_def list_all_iff distinct_map_filter intro!: exI [of _ ?es])
  show ?thesis
  proof (cases "named es name")
    case None
    with serves_delete [OF env(1) es(1), of name] sim es(4) show ?thesis
      using key_spec.unknown [of keys name now random] fun_upd_triv [of keys name]
      by (auto simp: answered_def DeleteKey_def io_simps map_err_def Let_def)
  next
    case (Some e)
    with serves_delete [OF env(1) es(1), of name] sim es(4) show ?thesis
      using key_spec.revoke [of keys name now random]
      by (auto simp: answered_def DeleteKey_def io_simps map_err_def Let_def)
  qed
qed

lemma query_simulates:
  assumes "key_sim A E ns h keys"
  shows "key_spec (LookupKey v) keys
           (fst (key_step A E ns (LookupKey v) h), cp_now E (h @ [ListKeySecrets ns]), random) keys \<and>
         key_sim A E ns (snd (key_step A E ns (LookupKey v) h)) keys"
    and "key_spec ListAllKeys keys (fst (key_step A E ns ListAllKeys h), now, random) keys \<and>
         key_sim A E ns (snd (key_step A E ns ListAllKeys h)) keys"
proof -
  from assms obtain es where es: "secretsAt h = map (toSecret A ns) es" "list_all entry_ok es"
    "distinct (map ak_Name es)" "keys = named es" and env: "serves_secrets E" "key_codecs A"
    by (auto simp: key_sim_def)
  note items = serves_list [OF env(1) es(1)]
  have decoded: "e \<in> set es \<Longrightarrow> fromSecret A (toSecret A ns e) = e" for e
    using entry_decoded [OF env(2)] es(2) by (simp add: list_all_iff)
  have kept: "key_sim A E ns (h @ cs) keys" if "fold apply_call cs (secretsAt h) = secretsAt h" for cs
    using es env that by (auto simp: key_sim_def)
  show "key_spec ListAllKeys keys (fst (key_step A E ns ListAllKeys h), now, random) keys \<and>
      key_sim A E ns (snd (key_step A E ns ListAllKeys h)) keys"
  proof -
    have "map (\<lambda>s. (fromSecret A s)\<lparr>ak_KeyID := []\<rparr>) (map (toSecret A ns) es) = map (\<lambda>e. e\<lparr>ak_KeyID := []\<rparr>) es"
      using decoded by simp
    moreover have "card (dom keys) = length es"
      using es(3) unfolding es(4) named_def dom_map_of_conv_image_fst
      by (metis (no_types, lifting) comp_apply distinct_card fst_conv length_map map_map map_eq_conv set_map)
    ultimately show ?thesis
      using items ran_named [OF es(3)] es(4) kept [of "[ListKeySecrets ns]"]
      by (auto simp: answered_def ListKeys_def listKeySecrets_def io_simps map_err_def intro!: key_spec.listed)
  qed
  show "key_spec (LookupKey v) keys
         (fst (key_step A E ns (LookupKey v) h), cp_now E (h @ [ListKeySecrets ns]), random) keys \<and>
      key_sim A E ns (snd (key_step A E ns (LookupKey v) h)) keys"
  proof (cases "find (\<lambda>e. ak_KeyID e = v) es")
    case None
    then have "find (\<lambda>s. map_str (ks_Data s) ''key'' = v) (map (toSecret A ns) es) = None"
      by (auto simp: find_None_iff)
    moreover have "key_spec (LookupKey v) keys (Refused ErrUnauthorized, cp_now E (h @ [ListKeySecrets ns]), random) keys"
      using None es ran_named [OF es(3)] by (intro key_spec.absent) (auto simp: find_None_iff)
    ultimately show ?thesis
      using items kept [of "[ListKeySecrets ns]"]
      by (simp add: answered_def GetKey_def listKeySecrets_def io_simps map_err_def)
  next
    case (Some e)
    have "find (\<lambda>s. map_str (ks_Data s) ''key'' = v) (map (toSecret A ns) es) = Some (toSecret A ns e)"
      using Some by (induction es) (auto split: if_splits)
    moreover have e: "e \<in> set es" "ak_KeyID e = v" using Some by (auto simp: find_Some_iff)
    moreover have name: "keys (ak_Name e) = Some e" using named_member [OF es(3) e(1)] es(4) by simp
    moreover note decoded [OF e(1)] kept [of "[ListKeySecrets ns]"] kept [of "[ListKeySecrets ns, CpNow]"]
      key_spec.found [of keys "ak_Name e" e v] key_spec.expired [of keys "ak_Name e" e v]
    ultimately show ?thesis
      using items
      by (auto simp: answered_def GetKey_def listKeySecrets_def cpClock_def io_simps map_err_def Let_def Expired_def)
  qed
qed

interpretation key_storage: refinement "key_sim A E ns" "observed_step A E ns" key_spec valid_key_op for A E ns
proof
  fix h keys p
  assume "key_sim A E ns h keys" "valid_key_op p"
  then show "\<exists>keys'. key_spec p keys (fst (observed_step A E ns p h)) keys' \<and>
      key_sim A E ns (snd (observed_step A E ns p h)) keys'"
  proof (cases p)
    case IssueKey
    with \<open>key_sim A E ns h keys\<close> \<open>valid_key_op p\<close> show ?thesis
      by (simp only: issue_simulates observed_step_simps clockAt.simps)
  next
    case (RevokeKey name)
    with \<open>key_sim A E ns h keys\<close> show ?thesis by (simp only: revoke_simulates observed_step_simps)
  next
    case (LookupKey v)
    with query_simulates(1) [OF \<open>key_sim A E ns h keys\<close>, of v] show ?thesis
      by (simp only: observed_step_simps clockAt.simps) blast
  next
    case ListAllKeys
    with query_simulates(2) [OF \<open>key_sim A E ns h keys\<close>] show ?thesis by (simp only: observed_step_simps) blast
  qed
qed


section \<open>An API server that serves Secrets\<close>

definition ex_secret_env :: cp_env where
  "ex_secret_env = ex_cp_env\<lparr>
     cp_listKeySecrets := (\<lambda>h ns. Inr (filter (\<lambda>s. ks_Namespace s = ns \<and>
       map_str (ks_Labels s) apiKeySecretLabel = ''true'') (secretsAt h))),
     cp_createKeySecret := (\<lambda>h s. if secret_key s \<in> secret_key ` set (secretsAt h)
       then Inl (KErr EK_AlreadyExists []) else Inr ()),
     cp_deleteKeySecret := (\<lambda>h k. if k \<in> secret_key ` set (secretsAt h) then Inr () else Inl (KErr EK_NotFound [])),
     cp_randRead := (\<lambda>h n. Inr (replicate n (length h)))\<rparr>"

lemma ex_secret_env_serves: "serves_secrets ex_secret_env"
  by (simp add: serves_secrets_def ex_secret_env_def IsAlreadyExists_def IsNotFound_def)

definition entry_code :: "APIKeyEntry \<Rightarrow> nat" where
  "entry_code e = to_nat (ak_Name e, ak_KeyID e, ak_UserID e, ak_Username e, ak_Role e, ak_CreatedAt e,
     ak_Namespaces e, ak_ExpiresAt e)"

definition entry_of_code :: "nat \<Rightarrow> APIKeyEntry" where
  "entry_of_code n = (case from_nat n of (name, key, uid, uname, role, created, nss, exp) \<Rightarrow>
     \<lparr>ak_Name = name, ak_KeyID = key, ak_UserID = uid, ak_Username = uname, ak_Role = role,
      ak_CreatedAt = created, ak_Namespaces = nss, ak_ExpiresAt = exp\<rparr>)"

definition ex_codecs :: authlib where
  "ex_codecs = ex_authlib\<lparr>
     al_marshal := (\<lambda>e. replicate (entry_code e) (CHR ''e'')),
     al_unmarshal := (\<lambda>s _. entry_of_code (length s)),
     al_formatTime := (\<lambda>t. replicate (Suc (to_nat t)) (CHR ''t'')),
     al_parseTime := (\<lambda>s. Inr (from_nat (length s - 1)))\<rparr>"

lemma ex_codecs_ok: "key_codecs ex_codecs"
  by (simp add: key_codecs_def codecs_ok_def ex_codecs_def entry_of_code_def entry_code_def)

definition ex_issued_entry :: APIKeyEntry where
  "ex_issued_entry =
     \<lparr>ak_Name = ''ci'', ak_KeyID = ''minato_'' @ hexBytes (replicate apiKeyLength 0), ak_UserID = ''u1'',
      ak_Username = ''alice'', ak_Role = ''viewer'', ak_CreatedAt = 1, ak_Namespaces = [], ak_ExpiresAt = None\<rparr>"

definition ex_key_ops :: "key_op list" where
  "ex_key_ops = [IssueKey ''ci'' ''u1'' ''alice'' ''viewer'' [] None]"

lemma ex_key_ops_valid: "list_all valid_key_op ex_key_ops"
  by (simp add: ex_key_ops_def whole_expiry_def)

lemma ex_key_run:
  "run_ops (key_step ex_codecs ex_secret_env ''minato'') ex_key_ops [] =
     ([Issued ex_issued_entry (ak_KeyID ex_issued_entry)],
      [RandRead apiKeyLength, CpNow, CreateKeySecret (toSecret ex_codecs ''minato'' ex_issued_entry)])"
  by (simp add: ex_key_ops_def ex_issued_entry_def answered_def GenerateKey_def generateRandomKey_def cpClock_def io_simps
      map_err_def Let_def ex_secret_env_def ex_cp_env_def secretsAt_def)

lemma ex_key_found:
  "fst (key_step ex_codecs ex_secret_env ''minato'' (LookupKey (ak_KeyID ex_issued_entry))
     [RandRead apiKeyLength, CpNow, CreateKeySecret (toSecret ex_codecs ''minato'' ex_issued_entry)]) = Found ex_issued_entry"
proof -
  have "fromSecret ex_codecs (toSecret ex_codecs ''minato'' ex_issued_entry) = ex_issued_entry"
    by (rule entry_decoded [OF ex_codecs_ok]) (simp add: entry_ok_def ex_issued_entry_def whole_expiry_def)
  moreover have "ak_ExpiresAt ex_issued_entry = None" by (simp add: ex_issued_entry_def)
  ultimately show ?thesis
    by (simp add: answered_def GetKey_def listKeySecrets_def io_simps map_err_def ex_secret_env_def secretsAt_def)
qed


section \<open>What the storage guarantees\<close>

text \<open>
  C7. The API key storage refines its specification. For any sequence of operations in which keys are issued under
  non-empty names, with an expiry of whole seconds and namespace patterns without commas and blanks, over an API server
  that serves Secrets and accepts every Secret of a free name: the answers, together with the time and the random bytes
  that each operation saw, are those of a map from names to keys (a key has the bytes and the creation time seen, and a
  look-up honours the expiry at the time seen), and the Secrets left in the cluster are the encodings of the entries of
  that map, one per name.
\<close>

theorem key_storage_refines:
  assumes "serves_secrets E" "key_codecs A" "list_all valid_key_op ps"
  shows "\<exists>keys es. spec_run key_spec ps Map.empty (fst (run_ops (observed_step A E ns) ps [])) keys \<and>
    map fst (fst (run_ops (observed_step A E ns) ps [])) = fst (run_ops (key_step A E ns) ps []) \<and>
    secretsAt (snd (run_ops (key_step A E ns) ps [])) = map (toSecret A ns) es \<and>
    distinct (map ak_Name es) \<and> keys = map_of (map (\<lambda>e. (ak_Name e, e)) es)"
proof -
  have "key_sim A E ns [] Map.empty"
    using assms by (auto simp: key_sim_def secretsAt_def named_def)
  from key_storage.simulates_run [OF this assms(3)] show ?thesis
    by (auto simp: key_sim_def named_def observed_run)
qed

theorem key_storage_refines_witness:
  "\<exists>keys os. spec_run key_spec ex_key_ops Map.empty os keys \<and>
     map fst os = [Issued ex_issued_entry (ak_KeyID ex_issued_entry)]"
  using key_storage_refines [OF ex_secret_env_serves ex_codecs_ok ex_key_ops_valid, of "''minato''"]
  unfolding ex_key_run fst_conv by (elim exE conjE) (intro exI conjI)

text \<open>
  C34. A key is accepted only while it is issued: when, after any operations on the storage, looking up a value gives
  an entry, then that entry was issued with this value, no later operation revoked its name, and it has not expired
  at the time the lookup reads from the clock.
\<close>

theorem accepted_key_unrevoked:
  assumes "serves_secrets E" "key_codecs A" "list_all valid_key_op ps"
    and "run_ops (key_step A E ns) ps [] = (rs, h)"
    and "fst (key_step A E ns (LookupKey v) h) = Found e"
  shows "ak_KeyID e = v \<and> (\<exists>name. issued_by ps rs name e) \<and> \<not> Expired e (cp_now E (h @ [ListKeySecrets ns]))"
proof -
  have start: "key_sim A E ns [] Map.empty"
    using assms by (auto simp: key_sim_def secretsAt_def named_def)
  from key_storage.simulates_run [OF start assms(3)] obtain keys
    where run: "spec_run key_spec ps Map.empty (fst (run_ops (observed_step A E ns) ps [])) keys"
      and sim: "key_sim A E ns h keys"
    using assms(4) by (auto simp: observed_run)
  from query_simulates(1) [OF sim, of v "Inr []"] assms(5) obtain name where "keys name = Some e" "ak_KeyID e = v"
    by (auto elim: key_spec.cases)
  moreover have "result (GetKey A E ns v) \<lparr>calls = h\<rparr> = Inr e"
    using assms(5) by (auto simp: answered_def result_def split: prod.splits sum.splits)
  then have "\<not> Expired e (cp_now E (h @ [ListKeySecrets ns]))"
    by (rule GetKey_found) simp
  ultimately show ?thesis using spec_keys_issued [OF run] assms(4) by (fastforce simp: observed_run)
qed

theorem accepted_key_unrevoked_witness:
  "\<exists>name. issued_by ex_key_ops [Issued ex_issued_entry (ak_KeyID ex_issued_entry)] name ex_issued_entry"
  using accepted_key_unrevoked [OF ex_secret_env_serves ex_codecs_ok ex_key_ops_valid ex_key_run ex_key_found]
  by blast

end
