(* ===== verification/Rcon.thy ===== *)
theory Rcon
  imports Call_History "HOL-Library.Word"
begin

text \<open>
  The RCON clients of the agent SDK (\<^verbatim>\<open>sdk/agent/rcon\<close>): the packet format that Minecraft and Source
  engine servers share, its reader, the login and command exchanges, and the Palworld parsers. Bytes are
  HOL characters and the 32-bit fields are words. A connection holds the bytes that the peer has sent and that
  are not read yet, up to the end of its stream, and the buffers written so far; whether a write fails is a
  function of these, a parameter. A Go panic is a fault of its own.
\<close>

unbundle bit_operations_syntax

section \<open>Packets\<close>

type_synonym int32w = "32 word"

abbreviation NUL :: char where "NUL \<equiv> CHR 0x00"
abbreviation newline :: char where "newline \<equiv> CHR 0x0A"

text \<open>\<^verbatim>\<open>binary.LittleEndian.PutUint32\<close> and \<^verbatim>\<open>Uint32\<close>\<close>

definition PutUint32 :: "int32w \<Rightarrow> string" where
  "PutUint32 v =
     [char_of (unat v), char_of (unat (drop_bit 8 v)), char_of (unat (drop_bit 16 v)),
      char_of (unat (drop_bit 24 v))]"

definition byte_word :: "char \<Rightarrow> int32w" where
  "byte_word c = word_of_nat (of_char c)"

fun Uint32 :: "string \<Rightarrow> int32w" where
  "Uint32 (b0 # b1 # b2 # b3 # _) =
     byte_word b0 OR push_bit 8 (byte_word b1) OR push_bit 16 (byte_word b2) OR push_bit 24 (byte_word b3)"
| "Uint32 _ = 0"

text \<open>
  The buffer of \<^verbatim>\<open>sendPacket\<close>. The length is computed in \<^verbatim>\<open>int\<close> and narrowed to \<^verbatim>\<open>int32\<close>; \<^verbatim>\<open>make\<close> panics on
  a negative size and the writes of the terminating zeros panic beyond the end of the buffer.
\<close>

definition packet :: "int32w \<Rightarrow> int32w \<Rightarrow> string \<Rightarrow> string option" where
  "packet ident ptype body =
     (let len = word_of_nat (4 + 4 + length body + 2) :: int32w;
          size = sint (4 + len)
      in if size < 0 \<or> int (12 + length body + 1) \<ge> size then None
         else Some (PutUint32 len @ PutUint32 ident @ PutUint32 ptype @ body @ [NUL, NUL] @
                    replicate (nat size - (14 + length body)) NUL))"

definition minecraftPacket :: "int32w \<Rightarrow> string \<Rightarrow> string option" where
  "minecraftPacket ptype body = packet 1 ptype body"

definition sourcePacket :: "int32w \<Rightarrow> string \<Rightarrow> string option" where
  "sourcePacket ident body = packet ident 2 body"


section \<open>Connections\<close>

record rcon_conn =
  rc_in :: string
  rc_sent :: "string list"
  rc_closed :: bool

datatype rcon_fault = Panic | Err kerr

text \<open>Whether writing a buffer fails, given the buffers written before.\<close>

type_synonym write_env = "string list \<Rightarrow> string \<Rightarrow> kerr option"
type_synonym 'a exchange = "rcon_conn \<Rightarrow> (rcon_fault + 'a) \<times> rcon_conn"

definition sendBuffer :: "write_env \<Rightarrow> string option \<Rightarrow> unit exchange" where
  "sendBuffer W buf c =
     (case buf of
        None \<Rightarrow> (Inl Panic, c)
      | Some b \<Rightarrow>
          (let c' = c\<lparr>rc_sent := rc_sent c @ [b]\<rparr>
           in case W (rc_sent c) b of None \<Rightarrow> (Inr (), c') | Some err \<Rightarrow> (Inl (Err err), c')))"

definition minecraftSendPacket :: "write_env \<Rightarrow> int32w \<Rightarrow> string \<Rightarrow> unit exchange" where
  "minecraftSendPacket W ptype body = sendBuffer W (minecraftPacket ptype body)"

definition sourceSendPacket :: "write_env \<Rightarrow> int32w \<Rightarrow> string \<Rightarrow> unit exchange" where
  "sourceSendPacket W ident body = sendBuffer W (sourcePacket ident body)"

text \<open>\<^verbatim>\<open>io.ReadFull\<close>; a stream that ends too early is read to its end.\<close>

definition ReadFull :: "nat \<Rightarrow> string \<Rightarrow> (kerr + string) \<times> string" where
  "ReadFull n input =
     (if n \<le> length input then (Inr (take n input), drop n input)
      else (Inl (new_error (if input = [] then ''EOF'' else ''unexpected EOF'')), []))"

definition terminated :: "string \<Rightarrow> string" where
  "terminated bs = (if NUL \<in> set bs then takeWhile (\<lambda>b. b \<noteq> NUL) bs else [])"

definition readRawPacket :: "string \<Rightarrow> (kerr + int \<times> int \<times> string) \<times> string" where
  "readRawPacket input =
     (case ReadFull 4 input of
        (Inl err, rest) \<Rightarrow> (Inl (wrap_error ''read length: '' err), rest)
      | (Inr lb, rest) \<Rightarrow>
          (let len = sint (Uint32 lb)
           in if len < 10 \<or> len > 4096
              then (Inl (new_error (''invalid packet length: '' @ show_int len)), rest)
              else (case ReadFull (nat len) rest of
                  (Inl err, rest) \<Rightarrow> (Inl (wrap_error ''read packet body: '' err), rest)
                | (Inr data, rest) \<Rightarrow>
                    (Inr (sint (Uint32 (take 4 data)), sint (Uint32 (take 4 (drop 4 data))),
                          terminated (drop 8 data)), rest))))"

definition receive :: "(int \<times> int \<times> string) exchange" where
  "receive c =
     (case readRawPacket (rc_in c) of
        (Inl err, rest) \<Rightarrow> (Inl (Err err), c\<lparr>rc_in := rest\<rparr>)
      | (Inr p, rest) \<Rightarrow> (Inr p, c\<lparr>rc_in := rest\<rparr>))"

definition wrap_fault :: "string \<Rightarrow> rcon_fault \<Rightarrow> rcon_fault" where
  "wrap_fault msg f = (case f of Panic \<Rightarrow> Panic | Err err \<Rightarrow> Err (wrap_error msg err))"

text \<open>\<^verbatim>\<open>Command\<close> and \<^verbatim>\<open>auth\<close>, which the two clients have in the same words, over their \<^verbatim>\<open>sendPacket\<close>.\<close>

definition commandWith :: "(int32w \<Rightarrow> string \<Rightarrow> unit exchange) \<Rightarrow> string \<Rightarrow> string exchange" where
  "commandWith send cmd c =
     (case send 2 cmd c of
        (Inl f, c) \<Rightarrow> (Inl (wrap_fault ''send command: '' f), c)
      | (Inr _, c) \<Rightarrow>
          (case receive c of
             (Inl f, c) \<Rightarrow> (Inl (wrap_fault ''read response: '' f), c)
           | (Inr (ident, ptype, body), c) \<Rightarrow> (Inr body, c)))"

definition authWith :: "(int32w \<Rightarrow> string \<Rightarrow> unit exchange) \<Rightarrow> string \<Rightarrow> unit exchange" where
  "authWith send password c =
     (case send 3 password c of
        (Inl f, c) \<Rightarrow> (Inl f, c)
      | (Inr _, c) \<Rightarrow>
          (case receive c of
             (Inl f, c) \<Rightarrow> (Inl f, c)
           | (Inr (ident, ptype, body), c) \<Rightarrow>
               if ident = -1 \<or> ptype \<noteq> 2
               then (Inl (Err (new_error (''auth failed: id='' @ show_int ident @ '' type='' @ show_int ptype @
                       '' body='' @ quoted body))), c)
               else (Inr (), c)))"

definition rconClose :: "rcon_conn \<Rightarrow> rcon_conn" where
  "rconClose c = c\<lparr>rc_closed := True\<rparr>"

text \<open>The constructors, after dialling: a client that cannot log in is closed.\<close>

definition newClientWith :: "string \<Rightarrow> (int32w \<Rightarrow> string \<Rightarrow> unit exchange) \<Rightarrow> string \<Rightarrow> unit exchange" where
  "newClientWith msg send password c =
     (case authWith send password c of
        (Inl Panic, c) \<Rightarrow> (Inl Panic, c)
      | (Inl f, c) \<Rightarrow> (Inl (wrap_fault msg f), rconClose c)
      | (Inr _, c) \<Rightarrow> (Inr (), c))"

definition NewMinecraftRCONClient :: "write_env \<Rightarrow> string \<Rightarrow> unit exchange" where
  "NewMinecraftRCONClient W = newClientWith ''minecraft rcon auth: '' (minecraftSendPacket W)"

definition NewSourceRCONClient :: "write_env \<Rightarrow> string \<Rightarrow> unit exchange" where
  "NewSourceRCONClient W = newClientWith ''source rcon auth: '' (sourceSendPacket W)"

definition minecraftCommand :: "write_env \<Rightarrow> string \<Rightarrow> string exchange" where
  "minecraftCommand W = commandWith (minecraftSendPacket W)"

definition sourceCommand :: "write_env \<Rightarrow> string \<Rightarrow> string exchange" where
  "sourceCommand W = commandWith (sourceSendPacket W)"


section \<open>Player counts (minecraft.go, source.go)\<close>

text \<open>
  \<^verbatim>\<open>fmt.Sscanf\<close> for formats of literals, single spaces and the verb \<^verbatim>\<open>%d\<close>: the values stored before the scan
  ended, and whether it succeeded. A space of the format stands for at least one space of the input, or its
  end, and for no line break; in the formats below \<^verbatim>\<open>%d\<close> is written as a single character. \<^verbatim>\<open>%d\<close> skips spaces and reads a signed 64-bit number.
\<close>

datatype directive = Lit char | Gap | Verb_d

definition format :: "string \<Rightarrow> directive list" where
  "format s = map (\<lambda>c. if c = CHR '' '' then Gap else if c = CHR ''%'' then Verb_d else Lit c) s"

fun skipSpace :: "string \<Rightarrow> string option" where
  "skipSpace [] = Some []"
| "skipSpace (c # s) =
     (if c = CHR 0x0D \<and> s \<noteq> [] \<and> hd s = newline then skipSpace s
      else if c = newline then None
      else if is_space c then skipSpace s else Some (c # s))"

definition scanInt :: "string \<Rightarrow> (int \<times> string) option" where
  "scanInt s =
     (let sign = (if s \<noteq> [] \<and> (hd s = CHR ''-'' \<or> hd s = CHR ''+'') then [hd s] else []);
          body = drop (length sign) s;
          digits = takeWhile is_digit body
      in if digits = [] then None
         else (case Atoi (sign @ digits) of
             None \<Rightarrow> None
           | Some v \<Rightarrow> Some (v, dropWhile is_digit body)))"

fun Sscanf :: "directive list \<Rightarrow> string \<Rightarrow> int list \<times> bool" where
  "Sscanf [] s = ([], True)"
| "Sscanf (Lit c # fs) s = (if s \<noteq> [] \<and> hd s = c then Sscanf fs (tl s) else ([], False))"
| "Sscanf (Gap # fs) s =
     (if s \<noteq> [] \<and> (\<not> is_space (hd s) \<or> hd s = newline) then ([], False)
      else Sscanf fs (dropWhile (\<lambda>c. is_space c \<and> c \<noteq> newline) s))"
| "Sscanf (Verb_d # fs) s =
     (case Option.bind (skipSpace s) scanInt of
        None \<Rightarrow> ([], False)
      | Some (v, rest) \<Rightarrow> (case Sscanf fs rest of (vs, ok) \<Rightarrow> (v # vs, ok)))"

text \<open>\<^verbatim>\<open>strings.Fields\<close> on the ASCII white space characters.\<close>

definition Fields :: "string \<Rightarrow> string list" where
  "Fields s = filter (\<lambda>f. f \<noteq> []) (split_char (CHR '' '') (map (\<lambda>c. if is_space c then CHR '' '' else c) s))"

definition stored :: "int list \<Rightarrow> nat \<Rightarrow> int" where
  "stored vs i = (if i < length vs then vs ! i else 0)"

fun findNumbers :: "string list \<Rightarrow> int \<times> int \<Rightarrow> int \<times> int" where
  "findNumbers (p # q # parts) (o', c) =
     findNumbers (q # parts)
       ((if p = ''are'' then case Atoi q of None \<Rightarrow> o' | Some v \<Rightarrow> v else o'),
        (if p = ''max'' then case Atoi q of None \<Rightarrow> c | Some v \<Rightarrow> v else c))"
| "findNumbers _ counts = counts"

definition parseMinecraftPlayerCount :: "string \<Rightarrow> int \<times> int" where
  "parseMinecraftPlayerCount output =
     (case Sscanf (format ''There are % of a max % players online'') output of
        (vs, True) \<Rightarrow> (stored vs 0, stored vs 1)
      | (vs, False) \<Rightarrow> findNumbers (Fields output) (stored vs 0, stored vs 1))"

definition playerLine :: "string \<Rightarrow> bool" where
  "playerLine line \<longleftrightarrow> HasPrefix line ''#'' \<and> \<not> str_contains line ''userid''"

fun countSource :: "string list \<Rightarrow> int \<Rightarrow> int \<times> int" where
  "countSource [] online = (online, 0)"
| "countSource (line # lines) online =
     (let line = TrimSpace line;
          rest = countSource lines (if playerLine line then online + 1 else online)
      in if HasPrefix line ''players'' then
           (case Sscanf (format ''players : % (% max)'') line of
              (vs, True) \<Rightarrow> (stored vs 0, stored vs 1)
            | (vs, False) \<Rightarrow> rest)
         else rest)"

definition parseSourcePlayerCount :: "string \<Rightarrow> int \<times> int" where
  "parseSourcePlayerCount output = countSource (split_char newline output) 0"

definition parseSourcePlayerList :: "string \<Rightarrow> string list" where
  "parseSourcePlayerList output =
     map (\<lambda>line. Fields line ! 2)
       (filter (\<lambda>line. length (Fields line) \<ge> 3)
         (filter playerLine (map TrimSpace (split_char newline output))))"


section \<open>Palworld (palworld.go)\<close>

definition playerLines :: "string \<Rightarrow> string list" where
  "playerLines output =
     filter (\<lambda>line. \<not> (line = [] \<or> str_contains line ''name'')) (map TrimSpace (split_char newline output))"

definition parsePalworldPlayerCount :: "string \<Rightarrow> int \<times> int" where
  "parsePalworldPlayerCount output = (int (length (playerLines output)), 0)"

definition parsePalworldPlayerList :: "string \<Rightarrow> string list" where
  "parsePalworldPlayerList output =
     filter (\<lambda>f. f \<noteq> []) (map (\<lambda>line. hd (split_char (CHR '','') line)) (playerLines output))"

definition infoLine :: "string \<Rightarrow> int \<times> int \<Rightarrow> int \<times> int" where
  "infoLine line counts =
     (let line = TrimSpace line;
          field = (\<lambda>prefix old. if HasPrefix line prefix
             then (case Atoi (TrimSpace (TrimPrefix line prefix)) of None \<Rightarrow> old | Some v \<Rightarrow> v) else old)
      in (field ''Online Players:'' (fst counts), field ''Max Players:'' (snd counts)))"

definition parsePalworldPlayerCountFromInfo :: "string \<Rightarrow> int \<times> int" where
  "parsePalworldPlayerCountFromInfo output = fold infoLine (split_char newline output) (0, 0)"

definition formatPalworldBroadcast :: "string \<Rightarrow> string" where
  "formatPalworldBroadcast message = map (\<lambda>c. if c = CHR '' '' then CHR ''_'' else c) message"

end
