(* ===== verification/Rcon_Properties.thy ===== *)
theory Rcon_Properties
  imports Rcon
begin

text \<open>
  Properties of the RCON clients: what is sent reads back, how far the reader reads, where the length
  overflows, what a login packet looks like, and which answer a command gets.
\<close>

section \<open>Fields of a packet\<close>

lemma byte_word_char_of: "byte_word (char_of (unat v)) = take_bit 8 v"
proof -
  have "byte_word (char_of (unat v)) = word_of_nat (take_bit 8 (unat v))"
    by (simp add: byte_word_def of_char_of take_bit_eq_mod)
  also have "\<dots> = take_bit 8 v"
    by (rule bit_word_eqI) (simp add: bit_simps)
  finally show ?thesis .
qed

lemma Uint32_PutUint32 [simp]: "Uint32 (PutUint32 v @ rest) = v"
proof -
  have "take_bit 8 v OR push_bit 8 (take_bit 8 (drop_bit 8 v)) OR push_bit 16 (take_bit 8 (drop_bit 16 v)) OR
      push_bit 24 (take_bit 8 (drop_bit 24 v)) = v"
  proof (rule bit_word_eqI)
    fix n assume "n < LENGTH(32)"
    then consider "n < 8" | "8 \<le> n" "n < 16" | "16 \<le> n" "n < 24" | "24 \<le> n" "n < 32" by fastforce
    then show "bit (take_bit 8 v OR push_bit 8 (take_bit 8 (drop_bit 8 v)) OR
        push_bit 16 (take_bit 8 (drop_bit 16 v)) OR push_bit 24 (take_bit 8 (drop_bit 24 v))) n = bit v n"
      by cases (auto simp: bit_simps)
  qed
  then show ?thesis by (simp add: PutUint32_def byte_word_char_of or.assoc)
qed

lemma length_PutUint32 [simp]: "length (PutUint32 v) = 4"
  by (simp add: PutUint32_def)

lemma sint_of_nat32: "int n < 2 ^ 31 \<Longrightarrow> sint (word_of_nat n :: int32w) = int n"
  by (simp add: signed_of_nat signed_take_bit_int_eq_self_iff signed_take_bit_int_eq_self)

lemma sint32_less: "sint (w :: int32w) < 2 ^ 31"
  using sint_lt [of w] by simp

text \<open>The length that \<^verbatim>\<open>sendPacket\<close> computes, and the whole buffer when it does not overflow.\<close>

lemma packet_eq:
  "packet ident ptype body =
     (if int (length body) + 14 < 2 ^ 31
      then Some (PutUint32 (word_of_nat (length body + 10)) @ PutUint32 ident @ PutUint32 ptype @ body @ [NUL, NUL])
      else None)"
proof -
  have size: "4 + word_of_nat (length body + 10) = (word_of_nat (length body + 14) :: int32w)"
    by simp
  show ?thesis
  proof (cases "int (length body) + 14 < 2 ^ 31")
    case True
    then have "sint (word_of_nat (length body + 14) :: int32w) = int (length body) + 14"
      using sint_of_nat32 [of "length body + 14"] by simp
    then show ?thesis using True by (simp add: packet_def Let_def size add.commute)
  next
    case False
    then have "sint (word_of_nat (length body + 14) :: int32w) \<le> int (12 + length body + 1)"
      using sint32_less [of "word_of_nat (length body + 14)"] by simp
    then show ?thesis using False by (simp add: packet_def Let_def size add.commute)
  qed
qed


section \<open>Reading\<close>

lemma terminated_append: "terminated (body @ [NUL, NUL]) = takeWhile (\<lambda>b. b \<noteq> NUL) body"
proof -
  have "takeWhile (\<lambda>b. b \<noteq> NUL) (body @ [NUL, NUL]) = takeWhile (\<lambda>b. b \<noteq> NUL) body"
    by (induction body) auto
  then show ?thesis by (simp add: terminated_def)
qed

lemma read_packet:
  assumes "packet ident ptype body = Some p" "length body \<le> 4086"
  shows "readRawPacket (p @ rest) = (Inr (sint ident, sint ptype, takeWhile (\<lambda>b. b \<noteq> NUL) body), rest)"
proof -
  have p: "p = PutUint32 (word_of_nat (length body + 10)) @ PutUint32 ident @ PutUint32 ptype @ body @ [NUL, NUL]"
    using assms by (simp add: packet_eq split: if_splits)
  have len: "sint (word_of_nat (length body + 10) :: int32w) = int (length body + 10)"
    using assms(2) by (intro sint_of_nat32) simp
  have "ReadFull 4 (p @ rest) = (Inr (PutUint32 (word_of_nat (length body + 10))),
      PutUint32 ident @ PutUint32 ptype @ body @ [NUL, NUL] @ rest)"
    by (simp add: p ReadFull_def)
  moreover have "ReadFull (length body + 10) (PutUint32 ident @ PutUint32 ptype @ body @ [NUL, NUL] @ rest) =
      (Inr (PutUint32 ident @ PutUint32 ptype @ body @ [NUL, NUL]), rest)"
    by (simp add: ReadFull_def)
  moreover have "Uint32 (PutUint32 v) = v" for v using Uint32_PutUint32 [of v "[]"] by simp
  ultimately show ?thesis
    using assms(2) len by (simp add: readRawPacket_def Let_def nat_add_distrib terminated_append)
qed

lemma read_overlong:
  assumes "packet ident ptype body = Some p" "length body > 4086"
  shows "\<exists>err left. readRawPacket (p @ rest) = (Inl err, left)"
proof -
  have p: "p = PutUint32 (word_of_nat (length body + 10)) @ PutUint32 ident @ PutUint32 ptype @ body @ [NUL, NUL]"
    and bound: "int (length body) + 14 < 2 ^ 31"
    using assms by (auto simp: packet_eq split: if_splits)
  have "sint (word_of_nat (length body + 10) :: int32w) = int (length body + 10)"
    using bound by (intro sint_of_nat32) simp
  moreover have "Uint32 (PutUint32 v) = v" for v using Uint32_PutUint32 [of v "[]"] by simp
  ultimately show ?thesis
    using assms(2) by (simp add: readRawPacket_def Let_def p ReadFull_def)
qed

lemma terminated_bounds: "NUL \<notin> set (terminated bs) \<and> (bs \<noteq> [] \<longrightarrow> length (terminated bs) < length bs)"
proof -
  have "length (takeWhile (\<lambda>b. b \<noteq> NUL) bs) < length bs" if "NUL \<in> set bs"
    using that by (induction bs) auto
  then show ?thesis by (auto simp: terminated_def dest: set_takeWhileD)
qed

text \<open>
  C36. The reader is bounded by what the packet announces: when it returns a packet it has consumed the four
  bytes of the length and between 10 and 4096 bytes more, exactly as many as announced, the rest of the
  stream is untouched, and the body holds no zero byte and fits the announced length.
\<close>

theorem rcon_reader_bounded:
  assumes "readRawPacket input = (Inr (ident, ptype, body), rest)"
  shows "\<exists>n. sint (Uint32 (take 4 input)) = int n \<and> 10 \<le> n \<and> n \<le> 4096 \<and>
    length input = 4 + n + length rest \<and> rest = drop (4 + n) input \<and>
    NUL \<notin> set body \<and> length body + 9 \<le> n"
proof -
  let ?len = "sint (Uint32 (take 4 input))" and ?left = "drop 4 input"
  have l: "4 \<le> length input" "10 \<le> ?len" "?len \<le> 4096" "nat ?len \<le> length ?left"
    and eqs: "rest = drop (nat ?len) ?left" "body = terminated (drop 8 (take (nat ?len) ?left))"
    using assms by (auto simp: readRawPacket_def ReadFull_def Let_def split: if_splits)
  have "drop 8 (take (nat ?len) ?left) \<noteq> []" "length (drop 8 (take (nat ?len) ?left)) = nat ?len - 8"
    using l by (auto simp: min_def)
  with terminated_bounds [of "drop 8 (take (nat ?len) ?left)"] l eqs show ?thesis
    by (intro exI [of _ "nat ?len"]) (auto simp: add.commute)
qed

theorem rcon_reader_bounded_witness:
  "\<exists>p rest. minecraftPacket 2 ''list'' = Some p \<and> rest = drop 18 (p @ ''x'') \<and> rest = ''x''"
proof -
  obtain p where p: "minecraftPacket 2 ''list'' = Some p" by (simp add: minecraftPacket_def packet_eq)
  then have "readRawPacket (p @ ''x'') = (Inr (sint (1::int32w), sint (2::int32w), ''list''), ''x'')"
    using read_packet [of 1 2 "''list''" p "''x''"] by (simp add: minecraftPacket_def)
  from rcon_reader_bounded [OF this] p show ?thesis
    by (auto simp: minecraftPacket_def packet_eq PutUint32_def)
qed


section \<open>The wire format as an interface\<close>

text \<open>
  A client turns the number it is given and a body into a packet; the two clients differ only in the field
  that carries the number.
\<close>

locale rcon_wire =
  fixes make :: "int32w \<Rightarrow> string \<Rightarrow> string option"
    and ident :: "int32w \<Rightarrow> int32w"
    and kind :: "int32w \<Rightarrow> int32w"
  assumes make_eq: "make n body = packet (ident n) (kind n) body"
begin

lemma reads_back:
  assumes "length body \<le> 4086" "NUL \<notin> set body"
  shows "\<exists>p. make n body = Some p \<and> readRawPacket (p @ rest) = (Inr (sint (ident n), sint (kind n), body), rest)"
proof -
  have "takeWhile (\<lambda>b. b \<noteq> NUL) body = body" using assms(2) by (simp add: takeWhile_eq_all_conv) metis
  moreover obtain p where "make n body = Some p"
    using assms(1) by (simp add: make_eq packet_eq)
  ultimately show ?thesis using read_packet [of "ident n" "kind n" body p rest] assms(1) by (simp add: make_eq)
qed

lemma sent_kind: "make n body = Some p \<Longrightarrow> Uint32 (drop 4 p) = ident n \<and> Uint32 (drop 8 p) = kind n"
  by (auto simp: make_eq packet_eq split: if_splits)

lemma command_answer:
  assumes "make 2 cmd = Some p" "W (rc_sent c) p = None" "readRawPacket (rc_in c) = (Inr (i, t, b), rest)"
  shows "commandWith (\<lambda>n body. sendBuffer W (make n body)) cmd c =
    (Inr b, c\<lparr>rc_sent := rc_sent c @ [p], rc_in := rest\<rparr>)"
  using assms by (simp add: commandWith_def sendBuffer_def receive_def Let_def)

lemma command_sends:
  "rc_sent (snd (commandWith (\<lambda>n body. sendBuffer W (make n body)) cmd c)) =
     rc_sent c @ (case make 2 cmd of None \<Rightarrow> [] | Some p \<Rightarrow> [p])"
  by (auto simp: commandWith_def sendBuffer_def receive_def Let_def split: option.splits sum.splits prod.splits)

lemma login_sends:
  "rc_sent (snd (newClientWith msg (\<lambda>n body. sendBuffer W (make n body)) password c)) =
     rc_sent c @ (case make 3 password of None \<Rightarrow> [] | Some p \<Rightarrow> [p])"
  by (auto simp: newClientWith_def authWith_def sendBuffer_def receive_def rconClose_def Let_def
      split: option.splits sum.splits prod.splits rcon_fault.splits if_splits)

end

interpretation mc_wire: rcon_wire minecraftPacket "\<lambda>_. 1" "\<lambda>n. n"
  by unfold_locales (simp add: minecraftPacket_def)

interpretation src_wire: rcon_wire sourcePacket "\<lambda>n. n" "\<lambda>_. 2"
  by unfold_locales (simp add: sourcePacket_def)

lemma client_defs:
  "minecraftCommand W = commandWith (\<lambda>n body. sendBuffer W (minecraftPacket n body))"
  "sourceCommand W = commandWith (\<lambda>n body. sendBuffer W (sourcePacket n body))"
  "NewMinecraftRCONClient W = newClientWith ''minecraft rcon auth: '' (\<lambda>n body. sendBuffer W (minecraftPacket n body))"
  "NewSourceRCONClient W = newClientWith ''source rcon auth: '' (\<lambda>n body. sendBuffer W (sourcePacket n body))"
  by (simp_all add: minecraftCommand_def sourceCommand_def NewMinecraftRCONClient_def NewSourceRCONClient_def
      minecraftSendPacket_def [abs_def] sourceSendPacket_def [abs_def])

text \<open>
  C19. Packets read back: a packet that either client sends for a body of at most 4086 bytes without a zero byte
  is read, by the reader of this package, with the same fields and body, and leaves what follows in the stream.
\<close>

theorem rcon_roundtrip:
  assumes "length body \<le> 4086" "NUL \<notin> set body"
  shows "(\<exists>p. minecraftPacket n body = Some p \<and> readRawPacket (p @ rest) = (Inr (1, sint n, body), rest)) \<and>
    (\<exists>p. sourcePacket n body = Some p \<and> readRawPacket (p @ rest) = (Inr (sint n, 2, body), rest))"
  using mc_wire.reads_back [OF assms, of n rest] src_wire.reads_back [OF assms, of n rest] by simp

theorem rcon_roundtrip_witness:
  "\<exists>p. sourcePacket 3 ''secret'' = Some p \<and> readRawPacket (p @ []) = (Inr (3, 2, ''secret''), [])"
  using rcon_roundtrip [of "''secret''" 3 "[]"] by simp

text \<open>
  Where lengths stop fitting: building a packet panics exactly for bodies of \<^term>\<open>2 ^ 31 - 14 :: nat\<close> bytes or more, for
  which the 32-bit length wraps, and every packet with a body above 4086 bytes is one that the reader refuses.
\<close>

theorem rcon_length_limits:
  "(packet ident ptype body = None \<longleftrightarrow> length body \<ge> 2 ^ 31 - 14) \<and>
   (\<forall>p. packet ident ptype body = Some p \<and> length body > 4086 \<longrightarrow>
      (\<exists>err left. readRawPacket (p @ rest) = (Inl err, left)))"
proof
  show "packet ident ptype body = None \<longleftrightarrow> length body \<ge> 2 ^ 31 - 14" by (auto simp: packet_eq)
qed (use read_overlong in blast)

theorem rcon_length_limits_witness:
  "\<exists>p err left. packet 1 2 (replicate 5000 (CHR ''a'')) = Some p \<and> readRawPacket (p @ []) = (Inl err, left)"
proof -
  obtain p where "packet 1 2 (replicate 5000 (CHR ''a'')) = Some p" by (simp add: packet_eq)
  then show ?thesis
    using rcon_length_limits [of 1 2 "replicate 5000 (CHR ''a'')" "[]"] by auto
qed


section \<open>Sessions\<close>

fun session :: "(string \<Rightarrow> string exchange) \<Rightarrow> string list \<Rightarrow> rcon_conn \<Rightarrow> rcon_conn" where
  "session command [] c = c"
| "session command (cmd # cmds) c = session command cmds (snd (command cmd c))"

lemma session_sent:
  assumes "\<And>cmd c. \<forall>b\<in>set (rc_sent (snd (command cmd c))). b \<in> set (rc_sent c) \<or> P b" "\<forall>b\<in>set (rc_sent c). P b"
  shows "\<forall>b\<in>set (rc_sent (session command cmds c)). P b"
  using assms(2)
proof (induction cmds arbitrary: c)
  case (Cons cmd cmds)
  then have "\<forall>b\<in>set (rc_sent (snd (command cmd c))). P b" using assms(1) [of cmd c] by blast
  then show ?case by (simp add: Cons.IH)
qed simp

text \<open>
  C39. The Source client never sends a login. The protocol's login packet has type 3; over a whole session, the
  login and any commands after it, every packet of the Source client has type 2, a command, and the password
  goes out as the text of a command with request number 3. The Minecraft client's login is of type 3.
\<close>

theorem source_never_logs_in:
  assumes "rc_sent c = []"
  shows "(\<forall>b\<in>set (rc_sent (session (sourceCommand W) cmds (snd (NewSourceRCONClient W password c)))).
       Uint32 (drop 8 b) = 2) \<and>
    (\<forall>b\<in>set (rc_sent (snd (NewMinecraftRCONClient W password c))). Uint32 (drop 8 b) = 3)"
proof
  have login: "\<forall>b\<in>set (rc_sent (snd (NewSourceRCONClient W password c))). Uint32 (drop 8 b) = 2"
    using assms src_wire.sent_kind
    by (auto simp: client_defs src_wire.login_sends split: option.splits)
  show "\<forall>b\<in>set (rc_sent (session (sourceCommand W) cmds (snd (NewSourceRCONClient W password c)))).
      Uint32 (drop 8 b) = 2"
    by (rule session_sent [OF _ login])
      (use src_wire.sent_kind in \<open>auto simp: client_defs src_wire.command_sends split: option.splits\<close>)
  show "\<forall>b\<in>set (rc_sent (snd (NewMinecraftRCONClient W password c))). Uint32 (drop 8 b) = 3"
    using assms mc_wire.sent_kind
    by (auto simp: client_defs mc_wire.login_sends split: option.splits)
qed

definition ex_conn :: "string \<Rightarrow> rcon_conn" where
  "ex_conn input = \<lparr>rc_in = input, rc_sent = [], rc_closed = False\<rparr>"

theorem source_never_logs_in_witness:
  "\<exists>b\<in>set (rc_sent (snd (NewSourceRCONClient (\<lambda>_ _. None) ''secret'' (ex_conn [])))). Uint32 (drop 8 b) = 2"
proof -
  have "rc_sent (snd (NewSourceRCONClient (\<lambda>_ _. None) ''secret'' (ex_conn []))) \<noteq> []"
    unfolding client_defs src_wire.login_sends by (simp add: sourcePacket_def packet_eq)
  then show ?thesis
    using source_never_logs_in [of "ex_conn []" "\<lambda>_ _. None" "[]" "''secret''"]
    by (auto simp: ex_conn_def neq_Nil_conv)
qed

text \<open>
  Answers are matched by position only: whatever request numbers and types two packets carry, the first of two
  commands returns the body of the first packet in the stream and the second command that of the second.
  When an answer is split over two packets, the second command is answered with the rest of the first answer.
\<close>

theorem answers_by_position:
  assumes "packet i1 t1 b1 = Some p1" "packet i2 t2 b2 = Some p2" "rc_in c = p1 @ p2 @ rest"
    and "length b1 \<le> 4086" "length b2 \<le> 4086" "NUL \<notin> set b1" "NUL \<notin> set b2"
    and "length cmd1 < 2 ^ 30" "length cmd2 < 2 ^ 30" "\<And>sent b. W sent b = None"
  shows "fst (minecraftCommand W cmd1 c) = Inr b1 \<and>
    fst (minecraftCommand W cmd2 (snd (minecraftCommand W cmd1 c))) = Inr b2"
proof -
  have all: "takeWhile (\<lambda>b. b \<noteq> NUL) b1 = b1" "takeWhile (\<lambda>b. b \<noteq> NUL) b2 = b2"
    using assms(6,7) by (auto simp: takeWhile_eq_all_conv)
  obtain q1 q2 where q: "minecraftPacket 2 cmd1 = Some q1" "minecraftPacket 2 cmd2 = Some q2"
    using assms(8,9) by (simp add: minecraftPacket_def packet_eq)
  have "minecraftCommand W cmd1 c = (Inr b1, c\<lparr>rc_sent := rc_sent c @ [q1], rc_in := p2 @ rest\<rparr>)"
    unfolding client_defs
    by (rule mc_wire.command_answer [where i = "sint i1" and t = "sint t1"])
      (use q(1) assms(3,10) read_packet [OF assms(1,4), of "p2 @ rest"] all(1) in simp_all)
  moreover have "fst (minecraftCommand W cmd2 (c\<lparr>rc_sent := rc_sent c @ [q1], rc_in := p2 @ rest\<rparr>)) = Inr b2"
    unfolding client_defs
    by (subst mc_wire.command_answer [where i = "sint i2" and t = "sint t2" and b = b2 and rest = rest and p = q2])
      (use q(2) assms(10) read_packet [OF assms(2,5), of rest] all(2) in simp_all)
  ultimately show ?thesis by simp
qed

theorem answers_by_position_witness:
  "\<exists>p1 p2. fst (minecraftCommand (\<lambda>_ _. None) ''seed''
      (snd (minecraftCommand (\<lambda>_ _. None) ''list'' (ex_conn (p1 @ p2))))) = Inr ''rest of list''"
proof -
  obtain p1 p2 where "packet 1 0 ''players'' = Some p1" "packet 1 0 ''rest of list'' = Some p2"
    by (simp add: packet_eq)
  from answers_by_position [OF this, of "ex_conn (p1 @ p2)" "[]" "''list''" "''seed''" "\<lambda>_ _. None"]
  show ?thesis by (auto simp: ex_conn_def)
qed


section \<open>Player counts\<close>

lemma takeWhile_digits: "takeWhile is_digit (show_nat n @ CHR '' '' # s) = show_nat n"
  using is_digit_show_nat [of n] by (simp add: list_all_iff takeWhile_append2 is_digit_def)

lemma scanInt_show:
  assumes "n < 2 ^ 63"
  shows "scanInt (show_nat n @ CHR '' '' # s) = Some (int n, CHR '' '' # s)"
proof -
  obtain d ds where n: "show_nat n = d # ds" by (cases "show_nat n") auto
  then have d: "is_digit d" using hd_show_nat_digit [of n] by simp
  then have "d \<noteq> CHR ''-''" "d \<noteq> CHR ''+''" by (auto simp: is_digit_def)
  moreover have "Atoi (show_nat n) = Some (int n)"
    using Atoi_show_int [of "int n"] assms by (simp add: show_int_def)
  moreover have "dropWhile is_digit (show_nat n @ CHR '' '' # s) = CHR '' '' # s"
    using is_digit_show_nat [of n] by (simp add: list_all_iff dropWhile_append2 is_digit_def)
  ultimately show ?thesis
    using takeWhile_digits [of n s] n by (simp add: scanInt_def Let_def)
qed

lemma skipSpace_show: "skipSpace (show_nat n @ s) = Some (show_nat n @ s)"
proof -
  obtain d ds where n: "show_nat n = d # ds" by (cases "show_nat n") auto
  then have "is_digit d" using hd_show_nat_digit [of n] by simp
  then have "\<not> is_space d" "d \<noteq> newline" "d \<noteq> CHR 0x0D" by (auto simp: is_digit_def is_space_def)
  then show ?thesis by (simp add: n)
qed

lemma no_space_show: "\<not> is_space (hd (show_nat n @ s)) \<and> show_nat n @ s \<noteq> []"
proof -
  obtain d ds where n: "show_nat n = d # ds" by (cases "show_nat n") auto
  then have "is_digit d" using hd_show_nat_digit [of n] by simp
  then show ?thesis by (auto simp: n is_digit_def is_space_def)
qed

lemma dropWhile_show: "dropWhile (\<lambda>c. is_space c \<and> c \<noteq> newline) (show_nat n @ s) = show_nat n @ s"
  using no_space_show [of n s] by (cases "show_nat n @ s") auto

lemma space_chars:
  "is_space (CHR '' '')" "\<not> is_space (CHR ''a'')" "\<not> is_space (CHR ''o'')" "\<not> is_space (CHR ''m'')"
  "\<not> is_space (CHR ''p'')"
  by (simp_all add: is_space_def)

text \<open>
  The player count parser reads what the server prints: for the documented sentence with the counts in
  decimal, followed by anything, it returns these counts.
\<close>

theorem minecraft_count_roundtrip:
  assumes "online < 2 ^ 63" "capacity < 2 ^ 63"
  shows "parseMinecraftPlayerCount
      (''There are '' @ show_nat online @ '' of a max '' @ show_nat capacity @ '' players online'' @ rest) =
    (int online, int capacity)"
  using assms
  by (simp add: parseMinecraftPlayerCount_def format_def space_chars dropWhile_show skipSpace_show scanInt_show
      stored_def)

theorem minecraft_count_roundtrip_witness:
  "parseMinecraftPlayerCount (''There are '' @ show_nat 5 @ '' of a max '' @ show_nat 20 @ '' players online'' @ '': a'') = (5, 20)"
  using minecraft_count_roundtrip [of 5 20 "'': a''"] by simp

end
