(* ===== verification/Agent_Actions.thy ===== *)
theory Agent_Actions
  imports Rcon
begin

text \<open>
  The agent SDK: action catalogues (\<^verbatim>\<open>sdk/agent/actions/catalog.go\<close>, \<^verbatim>\<open>env.go\<close>), the execution of an action's
  steps (\<^verbatim>\<open>steps.go\<close>), lifecycle steps, metric names and the panic handler of the gRPC server. The runtime that the
  steps call is an environment over the history of calls. Go's \<^verbatim>\<open>text/template\<close> and the JSON and YAML decoders are
  parameters.
\<close>

section \<open>Catalogues (catalog.go)\<close>

record ParseConfig =
  pc_Type :: string
  pc_Regex :: string
  pc_Fields :: "string list"
  pc_Map :: labels

record Step =
  st_Name :: string
  st_Type :: string
  st_Inputs :: labels
  st_Parse :: "ParseConfig option"

record ParamSchema =
  sch_Type :: string
  sch_Required :: bool
  sch_Description :: string
  sch_Default :: string

record ActionDefinition =
  df_Name :: string
  df_Description :: string
  df_Params :: "(string, ParamSchema) gomap"
  df_Steps :: "Step list"

type_synonym Catalog = "ActionDefinition list"

text \<open>How a decoder ends: with a catalogue, at the end of the input, or with an error.\<close>

datatype decoded = Decoded Catalog | DecodeEOF Catalog | DecodeError kerr

record decoders =
  dec_json :: "string \<Rightarrow> decoded"
  dec_yaml :: "string \<Rightarrow> decoded"

definition decodeWith :: "(string \<Rightarrow> decoded) \<Rightarrow> string \<Rightarrow> kerr + Catalog" where
  "decodeWith dec content =
     (case dec content of Decoded c \<Rightarrow> Inr c | DecodeEOF c \<Rightarrow> Inr c | DecodeError err \<Rightarrow> Inl err)"

definition LoadCatalogFromBytes :: "decoders \<Rightarrow> string \<Rightarrow> kerr + Catalog" where
  "LoadCatalogFromBytes D content =
     (let reader = TrimSpace content
      in if reader = [] then Inl (new_error ''empty content'')
         else if hd reader = CHR ''{'' \<or> hd reader = CHR ''['' then decodeWith (dec_json D) content
         else decodeWith (dec_yaml D) content)"

definition LoadCatalogFromFile :: "decoders \<Rightarrow> (string \<Rightarrow> kerr + string) \<Rightarrow> string \<Rightarrow> kerr + Catalog" where
  "LoadCatalogFromFile D readFile path =
     (if path = [] then Inl (new_error ''path is required'')
      else (case readFile path of Inl err \<Rightarrow> Inl err | Inr content \<Rightarrow> LoadCatalogFromBytes D content))"

definition FindAction :: "Catalog \<Rightarrow> string \<Rightarrow> ActionDefinition option" where
  "FindAction c name = find (\<lambda>action. df_Name action = name) c"


section \<open>Catalogues from the environment (env.go)\<close>

definition to_upper_char :: "char \<Rightarrow> char" where
  "to_upper_char c = (let n = of_char c :: nat in if 97 \<le> n \<and> n \<le> 122 then char_of (n - 32) else c)"

definition ToUpper :: "string \<Rightarrow> string" where
  "ToUpper s = map to_upper_char s"

definition actionPrefix :: string where "actionPrefix = ''minato_ACTION_''"

text \<open>The action and the step that an entry of the environment declares, with the type of the step.\<close>

definition declaredStep :: "string \<Rightarrow> (string \<times> string \<times> string) option" where
  "declaredStep entry =
     (case SplitN2 ''='' entry of
        None \<Rightarrow> None
      | Some (key, value) \<Rightarrow>
          if \<not> HasPrefix key actionPrefix \<or> str_contains key ''_INPUT_'' then None
          else (case SplitN2 ''_STEP_'' (TrimPrefix key actionPrefix) of
              None \<Rightarrow> None
            | Some (a, s) \<Rightarrow>
                if ToLower a = [] \<or> ToLower s = [] then None else Some (ToLower a, ToLower s, value)))"

definition stepInputs :: "string list \<Rightarrow> string \<Rightarrow> labels" where
  "stepInputs environ prefix =
     fold (\<lambda>env inputs. case SplitN2 ''='' env of
         None \<Rightarrow> inputs
       | Some (key, value) \<Rightarrow>
           if HasPrefix key prefix then map_put (ToLower (TrimPrefix key prefix)) value inputs else inputs)
       environ []"

definition envStep :: "string list \<Rightarrow> string \<Rightarrow> string \<Rightarrow> string \<Rightarrow> Step" where
  "envStep environ actionName stepName stepType =
     \<lparr>st_Name = stepName, st_Type = ToLower stepType,
      st_Inputs = stepInputs environ (actionPrefix @ ToUpper actionName @ ''_INPUT_'' @ ToUpper stepName @ ''_''),
      st_Parse = None\<rparr>"

definition addStep ::
    "string list \<Rightarrow> string \<Rightarrow> (string, ActionDefinition) gomap \<Rightarrow> (string, ActionDefinition) gomap" where
  "addStep environ entry m =
     (case declaredStep entry of
        None \<Rightarrow> m
      | Some (actionName, stepName, stepType) \<Rightarrow>
          (let action = (case map_of m actionName of
               None \<Rightarrow> \<lparr>df_Name = actionName, df_Description = [], df_Params = [], df_Steps = []\<rparr>
             | Some action \<Rightarrow> action)
           in map_put actionName
                (action\<lparr>df_Steps := df_Steps action @ [envStep environ actionName stepName stepType]\<rparr>) m))"

text \<open>The order in which \<^verbatim>\<open>range\<close> visits the map of actions is a parameter.\<close>

definition CatalogFromEnv :: "(ActionDefinition list \<Rightarrow> ActionDefinition list) \<Rightarrow> string list \<Rightarrow> Catalog" where
  "CatalogFromEnv visit environ = visit (map snd (fold (addStep environ) environ []))"


section \<open>Executing an action (steps.go)\<close>

datatype rt_call =
    RtRCON string
  | RtExec string "string list"
  | RtHTTP string string string
  | RtSignal string string
  | RtSleep duration

record runtime_env =
  rt_rcon :: "rt_call list \<Rightarrow> string \<Rightarrow> kerr + string"
  rt_exec :: "rt_call list \<Rightarrow> string \<Rightarrow> string list \<Rightarrow> kerr + string"
  rt_http :: "rt_call list \<Rightarrow> string \<Rightarrow> string \<Rightarrow> string \<Rightarrow> kerr + string"
  rt_signal :: "rt_call list \<Rightarrow> string \<Rightarrow> string \<Rightarrow> kerr + unit"
  rt_sleep :: "rt_call list \<Rightarrow> duration \<Rightarrow> kerr + unit"

type_synonym 'a rt_prog = "(rt_call world, 'a) state"

text \<open>Parsing and executing a template, with missing keys rendered as empty text.\<close>

type_synonym template_lib = "string \<Rightarrow> labels \<Rightarrow> kerr + string"

definition renderTemplate :: "template_lib \<Rightarrow> string \<Rightarrow> labels \<Rightarrow> string" where
  "renderTemplate T input vars =
     (if input = [] then [] else (case T input vars of Inl _ \<Rightarrow> input | Inr out \<Rightarrow> out))"

definition splitArgs :: "string \<Rightarrow> string list" where
  "splitArgs input = (if TrimSpace input = [] then [] else Fields input)"

definition quietly :: "(kerr + unit) \<Rightarrow> kerr + string" where
  "quietly r = (case r of Inl err \<Rightarrow> Inl err | Inr _ \<Rightarrow> Inr [])"

definition executeStep :: "template_lib \<Rightarrow> runtime_env \<Rightarrow> labels \<Rightarrow> Step \<Rightarrow> (kerr + string) rt_prog" where
  "executeStep T E vars step =
     (let kind = ToLower (st_Type step);
          input = (\<lambda>name. renderTemplate T (map_str (st_Inputs step) name) vars)
      in if kind = ''rcon'' then
           perform (RtRCON (input ''command'')) (\<lambda>h. rt_rcon E h (input ''command''))
         else if kind = ''exec'' then
           perform (RtExec (input ''command'') (splitArgs (input ''args'')))
             (\<lambda>h. rt_exec E h (input ''command'') (splitArgs (input ''args'')))
         else if kind = ''sleep'' then
           (case ParseDuration (input ''duration'') of
              None \<Rightarrow> State_Monad.return (Inl (new_error (''time: invalid duration '' @ quoted (input ''duration''))))
            | Some d \<Rightarrow> fmap quietly (perform (RtSleep d) (\<lambda>h. rt_sleep E h d)))
         else if kind = ''http'' then
           perform (RtHTTP (input ''method'') (input ''url'') (input ''body''))
             (\<lambda>h. rt_http E h (input ''method'') (input ''url'') (input ''body''))
         else if kind = ''signal'' then
           fmap quietly (perform (RtSignal (input ''target'') (input ''signal''))
             (\<lambda>h. rt_signal E h (input ''target'') (input ''signal'')))
         else State_Monad.return (Inl (new_error (''unsupported step type '' @ st_Type step))))"

fun bindParams :: "(string, ParamSchema) gomap \<Rightarrow> labels \<Rightarrow> kerr + labels" where
  "bindParams [] params = Inr []"
| "bindParams ((key, schema) # ps) params =
     (case map_of params key of
        Some value \<Rightarrow> map_sum id (Cons (key, value)) (bindParams ps params)
      | None \<Rightarrow>
          if sch_Required schema then Inl (new_error (''missing required param '' @ key))
          else if sch_Default schema \<noteq> [] then map_sum id (Cons (key, sch_Default schema)) (bindParams ps params)
          else bindParams ps params)"

fun runSteps ::
    "template_lib \<Rightarrow> runtime_env \<Rightarrow> labels \<Rightarrow> Step list \<Rightarrow> labels \<Rightarrow> (kerr + labels) rt_prog" where
  "runSteps T E vars [] outputs = State_Monad.return (Inr outputs)"
| "runSteps T E vars (step # steps) outputs =
     bindE (executeStep T E vars step) (\<lambda>value.
       runSteps T E vars steps
         (if st_Name step \<noteq> [] \<and> value \<noteq> [] then map_put (st_Name step) value outputs else outputs))"

definition Execute ::
    "template_lib \<Rightarrow> runtime_env option \<Rightarrow> ActionDefinition \<Rightarrow> labels \<Rightarrow> (kerr + labels) rt_prog" where
  "Execute T runtime action params =
     (case runtime of
        None \<Rightarrow> State_Monad.return (Inl (new_error ''runtime is nil''))
      | Some E \<Rightarrow>
          (case bindParams (df_Params action) params of
             Inl err \<Rightarrow> State_Monad.return (Inl err)
           | Inr vars \<Rightarrow> runSteps T E vars (df_Steps action) []))"


section \<open>Lifecycle, metrics and the server\<close>

definition RunSteps :: "('s, kerr + unit) state list \<Rightarrow> ('s, kerr + unit) state" where
  "RunSteps steps = forE (\<lambda>step. step) steps"

text \<open>A metric name with two labels, their values between double quotes as they are.\<close>

definition dquote :: char where "dquote = CHR 0x22"

definition PlayerCount :: "string \<Rightarrow> string \<Rightarrow> string" where
  "PlayerCount game server =
     ''minato_player_count{game='' @ dquote # game @ dquote # '',server='' @ dquote # server @ dquote # ''}''"

definition ActionDuration :: "string \<Rightarrow> string \<Rightarrow> string" where
  "ActionDuration action game =
     ''minato_action_duration_seconds{action='' @ dquote # action @ dquote # '',game='' @ dquote # game @ dquote # ''}''"

record Options =
  opt_GRPCAddr :: string
  opt_MetricsAddr :: string
  opt_ShutdownGrace :: duration

definition serveOptions :: "Options \<Rightarrow> Options" where
  "serveOptions opts =
     \<lparr>opt_GRPCAddr = (if opt_GRPCAddr opts = [] then '':9876'' else opt_GRPCAddr opts),
      opt_MetricsAddr = (if opt_MetricsAddr opts = [] then '':9090'' else opt_MetricsAddr opts),
      opt_ShutdownGrace = (if opt_ShutdownGrace opts = 0 then 5 * second else opt_ShutdownGrace opts)\<rparr>"

definition recoverInterceptor :: "'a outcome \<Rightarrow> kerr + 'a" where
  "recoverInterceptor out =
     (case out of
        Returned r \<Rightarrow> r
      | Panicked v \<Rightarrow> Inl (new_error (''rpc error: code = Internal desc = panic: '' @ v)))"


section \<open>What an action does\<close>

text \<open>The call a step stands for, if it stands for one.\<close>

definition stepCall :: "template_lib \<Rightarrow> labels \<Rightarrow> Step \<Rightarrow> rt_call option" where
  "stepCall T vars step =
     (let kind = ToLower (st_Type step);
          input = (\<lambda>name. renderTemplate T (map_str (st_Inputs step) name) vars)
      in if kind = ''rcon'' then Some (RtRCON (input ''command''))
         else if kind = ''exec'' then Some (RtExec (input ''command'') (splitArgs (input ''args'')))
         else if kind = ''sleep'' then map_option RtSleep (ParseDuration (input ''duration''))
         else if kind = ''http'' then Some (RtHTTP (input ''method'') (input ''url'') (input ''body''))
         else if kind = ''signal'' then Some (RtSignal (input ''target'') (input ''signal''))
         else None)"

lemma executeStep_run:
  "calls (snd (run_state (executeStep T E vars step) w)) = calls w @ List.map_filter (stepCall T vars) [step] \<and>
   (stepCall T vars step = None \<longrightarrow> (\<exists>err. fst (run_state (executeStep T E vars step) w) = Inl err))"
  by (auto simp: executeStep_def stepCall_def Let_def io_simps List.map_filter_def split: option.splits)

lemma map_filter_Cons: "List.map_filter f (x # xs) = List.map_filter f [x] @ List.map_filter f xs"
  by (simp add: List.map_filter_def)

lemma runSteps_run:
  "\<exists>k \<le> length steps.
     calls (snd (run_state (runSteps T E vars steps outputs) w)) = calls w @ List.map_filter (stepCall T vars) (take k steps) \<and>
     ((\<exists>out. fst (run_state (runSteps T E vars steps outputs) w) = Inr out) \<longrightarrow>
        k = length steps \<and> (\<forall>step\<in>set steps. stepCall T vars step \<noteq> None))"
proof (induction steps arbitrary: outputs w)
  case Nil
  show ?case by (simp add: List.map_filter_def)
next
  case (Cons step steps)
  obtain r w' where run: "run_state (executeStep T E vars step) w = (r, w')" by fastforce
  have step: "calls w' = calls w @ List.map_filter (stepCall T vars) [step]"
    "stepCall T vars step = None \<Longrightarrow> \<exists>err. r = Inl err"
    using executeStep_run [of T E vars step w] run by auto
  show ?case
  proof (cases r)
    case (Inl err)
    with run step(1) show ?thesis
      by (intro exI [of _ "Suc 0"]) (simp add: io_simps)
  next
    case (Inr v)
    let ?out = "if st_Name step \<noteq> [] \<and> v \<noteq> [] then map_put (st_Name step) v outputs else outputs"
    obtain k where "k \<le> length steps"
      "calls (snd (run_state (runSteps T E vars steps ?out) w')) = calls w' @ List.map_filter (stepCall T vars) (take k steps)"
      "(\<exists>out. fst (run_state (runSteps T E vars steps ?out) w') = Inr out) \<longrightarrow>
         k = length steps \<and> (\<forall>s\<in>set steps. stepCall T vars s \<noteq> None)"
      using Cons.IH [of ?out w'] by blast
    then show ?thesis
      using run step Inr map_filter_Cons [of "stepCall T vars" step "take k steps"]
      by (intro exI [of _ "Suc k"]) (auto simp: io_simps)
  qed
qed

text \<open>The parameters an action needs and is not given, and the value of a parameter in its templates.\<close>

definition missingParam :: "(string, ParamSchema) gomap \<Rightarrow> labels \<Rightarrow> bool" where
  "missingParam ps params \<longleftrightarrow> (\<exists>(key, schema)\<in>set ps. sch_Required schema \<and> map_of params key = None)"

definition paramValue :: "(string, ParamSchema) gomap \<Rightarrow> labels \<Rightarrow> string \<Rightarrow> string option" where
  "paramValue ps params key =
     (case map_of ps key of
        None \<Rightarrow> None
      | Some schema \<Rightarrow>
          if map_of params key \<noteq> None then map_of params key
          else if sch_Default schema \<noteq> [] then Some (sch_Default schema) else None)"

lemma bindParams_missing: "missingParam ps params \<Longrightarrow> \<exists>err. bindParams ps params = Inl err"
proof (induction ps params rule: bindParams.induct)
  case (2 key schema ps params)
  then show ?case
    by (cases "missingParam ps params"; cases "map_of params key"; cases "sch_Default schema = []")
      (force simp: missingParam_def)+
qed (simp add: missingParam_def)

lemma bindParams_given:
  "\<not> missingParam ps params \<Longrightarrow> distinct (map fst ps) \<Longrightarrow>
     \<exists>vars. bindParams ps params = Inr vars \<and> map_of vars = paramValue ps params"
proof (induction ps params rule: bindParams.induct)
  case (2 key schema ps params)
  have cons: "paramValue ((key, schema) # ps) params =
      (paramValue ps params)(key := paramValue [(key, schema)] params key)"
    by (auto simp: paramValue_def)
  have unbound: "paramValue ps params key = None"
    using "2.prems"(2) map_of_eq_None_iff [of ps key] by (simp add: paramValue_def)
  have "\<not> missingParam ps params" "distinct (map fst ps)" "sch_Required schema \<Longrightarrow> map_of params key \<noteq> None"
    using "2.prems" by (auto simp: missingParam_def)
  with "2.IH" obtain vars where "bindParams ps params = Inr vars" "map_of vars = paramValue ps params"
    by (cases "map_of params key"; cases "sch_Default schema = []") auto
  then show ?case
    using \<open>sch_Required schema \<Longrightarrow> map_of params key \<noteq> None\<close> unbound
    unfolding cons by (auto simp: paramValue_def split: option.splits)
qed (simp add: paramValue_def fun_eq_iff)

text \<open>
  C20. An action runs its declared steps and nothing else. When a required parameter is not given there is an error
  and no call. Otherwise the calls to the runtime are those of a prefix of the steps, in order, each rendered with the
  parameters of the caller, or their defaults where the caller gives none, and when the action succeeds the prefix is
  the whole list and every step stood for a call.
\<close>

theorem action_runs_steps_in_order:
  assumes "distinct (map fst (df_Params action))"
  shows "if missingParam (df_Params action) params
    then (\<exists>err. result (Execute T (Some E) action params) w = Inl err) \<and>
      issued (Execute T (Some E) action params) w = []
    else (\<exists>vars k. map_of vars = paramValue (df_Params action) params \<and> k \<le> length (df_Steps action) \<and>
      issued (Execute T (Some E) action params) w = List.map_filter (stepCall T vars) (take k (df_Steps action)) \<and>
      ((\<exists>out. result (Execute T (Some E) action params) w = Inr out) \<longrightarrow>
         k = length (df_Steps action) \<and> (\<forall>step\<in>set (df_Steps action). stepCall T vars step \<noteq> None)))"
proof (cases "missingParam (df_Params action) params")
  case True
  with bindParams_missing show ?thesis by (fastforce simp: Execute_def result_def)
next
  case False
  with bindParams_given [OF _ assms] obtain vars where
    "bindParams (df_Params action) params = Inr vars" "map_of vars = paramValue (df_Params action) params" by blast
  moreover from this(1) have "Execute T (Some E) action params = runSteps T E vars (df_Steps action) []"
    by (simp add: Execute_def)
  moreover obtain k where "k \<le> length (df_Steps action)"
    "calls (snd (run_state (runSteps T E vars (df_Steps action) []) w)) =
       calls w @ List.map_filter (stepCall T vars) (take k (df_Steps action))"
    "(\<exists>out. fst (run_state (runSteps T E vars (df_Steps action) []) w) = Inr out) \<longrightarrow>
       k = length (df_Steps action) \<and> (\<forall>step\<in>set (df_Steps action). stepCall T vars step \<noteq> None)"
    using runSteps_run [of "df_Steps action" T E vars "[]" w] by blast
  moreover from this(2) have "issued (runSteps T E vars (df_Steps action) []) w =
      List.map_filter (stepCall T vars) (take k (df_Steps action))"
    by (simp add: issued_def final_def)
  ultimately show ?thesis using False unfolding result_def by auto
qed

definition ex_runtime :: runtime_env where
  "ex_runtime =
     \<lparr>rt_rcon = (\<lambda>_ c. Inr c), rt_exec = (\<lambda>_ _ _. Inl (new_error ''no exec'')), rt_http = (\<lambda>_ _ _ _. Inr []),
      rt_signal = (\<lambda>_ _ _. Inr ()), rt_sleep = (\<lambda>_ _. Inr ())\<rparr>"

definition ex_steps :: ActionDefinition where
  "ex_steps =
     \<lparr>df_Name = ''save'', df_Description = [],
      df_Params = [(''msg'', \<lparr>sch_Type = [], sch_Required = True, sch_Description = [], sch_Default = []\<rparr>)],
      df_Steps = [\<lparr>st_Name = ''s'', st_Type = ''RCON'', st_Inputs = [(''command'', ''save-all'')], st_Parse = None\<rparr>]\<rparr>"

theorem action_runs_steps_in_order_witness:
  "issued (Execute (\<lambda>t _. Inr t) (Some ex_runtime) ex_steps [(''msg'', ''hi'')]) \<lparr>calls = []\<rparr> = [RtRCON ''save-all''] \<and>
   issued (Execute (\<lambda>t _. Inr t) (Some ex_runtime) ex_steps []) \<lparr>calls = []\<rparr> = []"
proof -
  let ?T = "\<lambda>t _. Inr t :: kerr + string"
  have lower: "ToLower ''RCON'' = ''rcon''" by code_simp
  have "missingParam (df_Params ex_steps) []" "\<not> missingParam (df_Params ex_steps) [(''msg'', ''hi'')]"
    "distinct (map fst (df_Params ex_steps))"
    by (simp_all add: ex_steps_def missingParam_def)
  moreover have "\<exists>out. result (Execute ?T (Some ex_runtime) ex_steps [(''msg'', ''hi'')]) \<lparr>calls = []\<rparr> = Inr out"
    by (simp add: Execute_def ex_steps_def ex_runtime_def executeStep_def result_def io_simps Let_def lower)
  moreover have "List.map_filter (stepCall ?T vars) (df_Steps ex_steps) = [RtRCON ''save-all'']" for vars
    by (simp add: ex_steps_def stepCall_def List.map_filter_def Let_def lower renderTemplate_def map_str_def)
  ultimately show ?thesis
    using action_runs_steps_in_order [of ex_steps "[(''msg'', ''hi'')]" ?T ex_runtime "\<lparr>calls = []\<rparr>"]
      action_runs_steps_in_order [of ex_steps "[]" ?T ex_runtime "\<lparr>calls = []\<rparr>"]
    by auto
qed

lemma map_of_filter_keys:
  "map_of (filter (\<lambda>(k, v). k \<in> A) m) key = (if key \<in> A then map_of m key else None)"
  by (induction m) auto

lemma bindParams_declared:
  "fst ` set ps \<subseteq> A \<Longrightarrow> bindParams ps (filter (\<lambda>(k, v). k \<in> A) params) = bindParams ps params"
  by (induction ps params rule: bindParams.induct) (auto simp: map_of_filter_keys split: option.splits)

text \<open>
  Parameters that an action does not declare have no influence: executing it with the caller's parameters is
  the same program as executing it with the undeclared ones removed.
\<close>

theorem undeclared_params_ignored:
  "Execute T runtime action params =
     Execute T runtime action (filter (\<lambda>(k, v). k \<in> fst ` set (df_Params action)) params)"
  using bindParams_declared [of "df_Params action" "fst ` set (df_Params action)" params]
  by (simp add: Execute_def cong: option.case_cong)


section \<open>What a catalogue from the environment holds\<close>

text \<open>The steps that the entries of a list declare for an action, in their order.\<close>

definition declaredFor :: "string list \<Rightarrow> string list \<Rightarrow> string \<Rightarrow> Step list" where
  "declaredFor environ entries name =
     map (\<lambda>(a, s, t). envStep environ name s t)
       (filter (\<lambda>(a, s, t). a = name) (List.map_filter declaredStep entries))"

lemma declaredFor_snoc:
  "declaredFor environ (entries @ [e]) name =
     declaredFor environ entries name @
     (case declaredStep e of None \<Rightarrow> [] | Some (a, s, t) \<Rightarrow> if a = name then [envStep environ name s t] else [])"
  by (auto simp: declaredFor_def List.map_filter_def split: option.splits)

lemma addStep_fold:
  "gomap_ok (fold (addStep environ) entries []) \<and>
   map_of (fold (addStep environ) entries []) name =
     (if declaredFor environ entries name = [] then None
      else Some \<lparr>df_Name = name, df_Description = [], df_Params = [], df_Steps = declaredFor environ entries name\<rparr>)"
proof (induction entries arbitrary: name rule: rev_induct)
  case Nil
  show ?case by (simp add: declaredFor_def List.map_filter_def)
next
  case (snoc e entries)
  then show ?case
    by (auto simp: addStep_def declaredFor_snoc Let_def split: option.splits)
qed

lemma find_distinct:
  "distinct (map f xs) \<Longrightarrow> x \<in> set xs \<Longrightarrow> find (\<lambda>y. f y = f x) xs = Some x"
  by (induction xs) (auto simp: image_iff)

text \<open>
  A catalogue from the environment, in whatever order the map of actions is visited, holds one action per
  declared name; its steps are those declared for it, in the order of the environment, at least one; and it is
  the action that \<^verbatim>\<open>FindAction\<close> finds under its name.
\<close>

theorem env_catalog:
  assumes "mset (visit (map snd (fold (addStep environ) environ []))) =
    mset (map snd (fold (addStep environ) environ []))"
  shows "distinct (map df_Name (CatalogFromEnv visit environ)) \<and>
    df_Name ` set (CatalogFromEnv visit environ) = fst ` set (List.map_filter declaredStep environ) \<and>
    (\<forall>a\<in>set (CatalogFromEnv visit environ).
       df_Steps a = declaredFor environ environ (df_Name a) \<and> df_Steps a \<noteq> [] \<and>
       FindAction (CatalogFromEnv visit environ) (df_Name a) = Some a)"
proof -
  let ?m = "fold (addStep environ) environ []"
  note inv = addStep_fold [of environ environ]
  have entry: "df_Name a = n \<and> df_Steps a = declaredFor environ environ n \<and> df_Steps a \<noteq> []"
    if "(n, a) \<in> set ?m" for n a
  proof -
    have "distinct (map fst ?m)" using inv by (simp add: gomap_ok_def)
    with that have "map_of ?m n = Some a" by simp
    with inv [of n] show ?thesis by (auto split: if_splits)
  qed
  have set: "set (CatalogFromEnv visit environ) = snd ` set ?m"
    using mset_eq_setD [OF assms] by (simp add: CatalogFromEnv_def)
  have "map df_Name (map snd ?m) = map fst ?m" using entry by (auto simp: map_eq_conv)
  then have "distinct (map df_Name (map snd ?m))" using inv by (metis gomap_ok_def)
  then have dist: "distinct (map df_Name (CatalogFromEnv visit environ))"
    using assms by (metis CatalogFromEnv_def mset_map mset_eq_imp_distinct_iff)
  have "n \<in> fst ` set ?m \<longleftrightarrow> declaredFor environ environ n \<noteq> []" for n
    using inv [of n] by (metis map_of_eq_None_iff not_Some_eq)
  moreover have "declaredFor environ environ n \<noteq> [] \<longleftrightarrow> n \<in> fst ` set (List.map_filter declaredStep environ)" for n
    by (force simp: declaredFor_def filter_empty_conv)
  moreover have "df_Name ` set (CatalogFromEnv visit environ) = fst ` set ?m"
    using entry by (force simp: set)
  ultimately have "df_Name ` set (CatalogFromEnv visit environ) = fst ` set (List.map_filter declaredStep environ)"
    by (metis subsetI subset_antisym)
  moreover have "df_Steps a = declaredFor environ environ (df_Name a) \<and> df_Steps a \<noteq> []"
    if "a \<in> set (CatalogFromEnv visit environ)" for a
    using that entry unfolding set by fastforce
  moreover have "FindAction (CatalogFromEnv visit environ) (df_Name a) = Some a"
    if "a \<in> set (CatalogFromEnv visit environ)" for a
    using find_distinct [OF dist that] by (simp add: FindAction_def)
  ultimately show ?thesis
    using dist by blast
qed

theorem env_catalog_witness:
  "df_Name ` set (CatalogFromEnv rev [''minato_ACTION_SAVE_STEP_FLUSH=rcon'', ''PATH=/bin'']) = {''save''}"
proof -
  have "declaredStep ''minato_ACTION_SAVE_STEP_FLUSH=rcon'' = Some (''save'', ''flush'', ''rcon'')"
    "declaredStep ''PATH=/bin'' = None"
    by code_simp+
  then show ?thesis
    using env_catalog [of rev "[''minato_ACTION_SAVE_STEP_FLUSH=rcon'', ''PATH=/bin'']"]
    by (simp add: List.map_filter_def)
qed

end
