(* ===== verification/Registrar.thy ===== *)
theory Registrar
  imports Call_History
begin

text \<open>
  The registrar (\<^verbatim>\<open>cmd/registrar\<close>): it registers the cluster with the cloud, then keeps it alive with heartbeats.
  The cloud, the clock and the cancellation of the context are an environment over the history of calls. The two
  loops of \<^verbatim>\<open>run\<close> do not end by themselves: a phase says which loop the program is in, one pass through that loop is a
  program, and \<open>running\<close> relates the phases and histories that any number of passes reaches.
\<close>

section \<open>Configuration (main.go)\<close>

record reg_config =
  rg_CloudURL :: string
  rg_RegisterToken :: string
  rg_Name :: string
  rg_Region :: string
  rg_ControlPlaneURL :: string
  rg_ControlPlaneKey :: string
  rg_CapacityMax :: int
  rg_DedicatedTenantID :: string
  rg_ClusterFingerprint :: string
  rg_HeartbeatInterval :: duration
  rg_RequestTimeout :: duration

text \<open>\<^verbatim>\<open>os.Getenv\<close> is a parameter: it gives the empty string for a variable that is not set.\<close>

definition regEnvStr :: "(string \<Rightarrow> string) \<Rightarrow> string \<Rightarrow> string \<Rightarrow> string" where
  "regEnvStr getenv key def = (if getenv key \<noteq> [] then getenv key else def)"

definition regEnvInt :: "(string \<Rightarrow> string) \<Rightarrow> string \<Rightarrow> int \<Rightarrow> int" where
  "regEnvInt getenv key def =
     (case Atoi (getenv key) of Some v \<Rightarrow> if v > 0 then v else def | None \<Rightarrow> def)"

definition regEnvDuration :: "(string \<Rightarrow> string) \<Rightarrow> string \<Rightarrow> duration \<Rightarrow> duration" where
  "regEnvDuration getenv key def =
     (case ParseDuration (getenv key) of Some v \<Rightarrow> if v > 0 then v else def | None \<Rightarrow> def)"

definition loadRegistrarConfig :: "(string \<Rightarrow> string) \<Rightarrow> kerr + reg_config" where
  "loadRegistrarConfig getenv =
     (let c = \<lparr>rg_CloudURL = getenv ''CLOUD_URL'',
               rg_RegisterToken = getenv ''REGISTER_TOKEN'',
               rg_Name = getenv ''CLUSTER_NAME'',
               rg_Region = getenv ''CLUSTER_REGION'',
               rg_ControlPlaneURL = regEnvStr getenv ''CONTROLPLANE_URL'' ''http://minato-controlplane:8080'',
               rg_ControlPlaneKey = getenv ''CONTROLPLANE_API_KEY'',
               rg_CapacityMax = regEnvInt getenv ''CAPACITY_MAX'' 100,
               rg_DedicatedTenantID = getenv ''DEDICATED_TENANT_ID'',
               rg_ClusterFingerprint = getenv ''CLUSTER_FINGERPRINT'',
               rg_HeartbeatInterval = regEnvDuration getenv ''HEARTBEAT_INTERVAL'' (30 * second),
               rg_RequestTimeout = regEnvDuration getenv ''REQUEST_TIMEOUT'' (10 * second)\<rparr>
      in if rg_CloudURL c = [] \<or> rg_RegisterToken c = [] \<or> rg_Name c = [] \<or> rg_ControlPlaneKey c = []
         then Inl (new_error ''CLOUD_URL, REGISTER_TOKEN, CLUSTER_NAME and CONTROLPLANE_API_KEY are required'')
         else Inr c)"


section \<open>The fingerprint of the cluster (fingerprint.go)\<close>

text \<open>\<^verbatim>\<open>net.JoinHostPort\<close> puts brackets around a host that contains a colon.\<close>

definition JoinHostPort :: "string \<Rightarrow> string \<Rightarrow> string" where
  "JoinHostPort host port =
     (if CHR '':'' \<in> set host then ''['' @ host @ '']:'' @ port else host @ '':'' @ port)"

definition inClusterBaseURL :: "(string \<Rightarrow> string) \<Rightarrow> string" where
  "inClusterBaseURL getenv =
     (let host = (if getenv ''KUBERNETES_SERVICE_HOST'' = [] then ''kubernetes.default.svc''
                  else getenv ''KUBERNETES_SERVICE_HOST'');
          port = (if getenv ''KUBERNETES_SERVICE_PORT'' = [] then ''443'' else getenv ''KUBERNETES_SERVICE_PORT'')
      in ''https://'' @ JoinHostPort host port)"

text \<open>
  A GET request with a bearer token, over a client that trusts the given certificates (\<open>None\<close>: those of the host),
  answers with a status and a body or fails; \<^verbatim>\<open>decodeUID\<close> reads \<^verbatim>\<open>metadata.uid\<close> out of a body.
\<close>

record fingerprint_env =
  fp_readFile :: "string \<Rightarrow> kerr + string"
  fp_parsePEM :: "string \<Rightarrow> bool"
  fp_get :: "string option \<Rightarrow> string \<Rightarrow> string \<Rightarrow> kerr + int \<times> string"
  fp_decodeUID :: "string \<Rightarrow> kerr + string"

definition kubeSystemUID :: "fingerprint_env \<Rightarrow> string option \<Rightarrow> string \<Rightarrow> string \<Rightarrow> kerr + string" where
  "kubeSystemUID F roots baseURL token =
     (case fp_get F roots (baseURL @ ''/api/v1/namespaces/kube-system'') (''Bearer '' @ token) of
        Inl err \<Rightarrow> Inl err
      | Inr (status, body) \<Rightarrow>
          if status \<noteq> 200 then Inl (new_error (''get kube-system namespace: status '' @ show_int status))
          else (case fp_decodeUID F body of
              Inl err \<Rightarrow> Inl err
            | Inr uid \<Rightarrow>
                if uid = [] then Inl (new_error ''kube-system namespace has no uid'') else Inr uid))"

definition defaultTokenPath :: string where
  "defaultTokenPath = ''/var/run/secrets/kubernetes.io/serviceaccount/token''"

definition defaultCAPath :: string where
  "defaultCAPath = ''/var/run/secrets/kubernetes.io/serviceaccount/ca.crt''"

definition resolveClusterFingerprint ::
    "fingerprint_env \<Rightarrow> (string \<Rightarrow> string) \<Rightarrow> string \<Rightarrow> string \<Rightarrow> string \<Rightarrow> string" where
  "resolveClusterFingerprint F getenv override tokenPath caPath =
     (if override \<noteq> [] then override
      else (case fp_readFile F tokenPath of
          Inl _ \<Rightarrow> []
        | Inr token \<Rightarrow>
            (let roots = (case fp_readFile F caPath of
                 Inl _ \<Rightarrow> None | Inr ca \<Rightarrow> if fp_parsePEM F ca then Some ca else None)
             in case kubeSystemUID F roots (inClusterBaseURL getenv) token of
                  Inl _ \<Rightarrow> [] | Inr uid \<Rightarrow> uid)))"


section \<open>Requests to the cloud (main.go)\<close>

record registerPayload =
  rp_Name :: string
  rp_Region :: string
  rp_ControlPlaneURL :: string
  rp_APIKey :: string
  rp_CapacityMax :: int
  rp_DedicatedTenantID :: string
  rp_ClusterFingerprint :: string

record heartbeatPayload =
  hp_CapacityMax :: int
  hp_ClusterFingerprint :: string

record registrar =
  r_cfg :: reg_config
  r_fingerprint :: string

definition buildRegisterPayload :: "reg_config \<Rightarrow> string \<Rightarrow> registerPayload" where
  "buildRegisterPayload cfg fingerprint =
     \<lparr>rp_Name = rg_Name cfg, rp_Region = rg_Region cfg, rp_ControlPlaneURL = rg_ControlPlaneURL cfg,
      rp_APIKey = rg_ControlPlaneKey cfg, rp_CapacityMax = rg_CapacityMax cfg,
      rp_DedicatedTenantID = rg_DedicatedTenantID cfg, rp_ClusterFingerprint = fingerprint\<rparr>"

definition buildHeartbeatPayload :: "reg_config \<Rightarrow> string \<Rightarrow> heartbeatPayload" where
  "buildHeartbeatPayload cfg fingerprint =
     \<lparr>hp_CapacityMax = rg_CapacityMax cfg, hp_ClusterFingerprint = fingerprint\<rparr>"

datatype reg_body = RegisterBody registerPayload | HeartbeatBody heartbeatPayload

record reg_request =
  rr_URL :: string
  rr_ContentType :: string
  rr_Authorization :: string
  rr_Body :: reg_body

datatype reg_call = Post reg_request | WaitAfter duration | WaitTick

text \<open>\<open>ce_post\<close> answers a request; \<open>ce_done\<close> says whether a wait ends because the context is done.\<close>

record cloud_env =
  ce_post :: "reg_call list \<Rightarrow> reg_request \<Rightarrow> kerr + int \<times> string"
  ce_done :: "reg_call list \<Rightarrow> bool"

type_synonym 'a reg_prog = "(reg_call world, 'a) state"

definition regRequest :: "registrar \<Rightarrow> string \<Rightarrow> reg_body \<Rightarrow> reg_request" where
  "regRequest r path body =
     \<lparr>rr_URL = rg_CloudURL (r_cfg r) @ path, rr_ContentType = ''application/json'',
      rr_Authorization = ''Bearer '' @ rg_RegisterToken (r_cfg r), rr_Body = body\<rparr>"

definition regCall :: "cloud_env \<Rightarrow> registrar \<Rightarrow> string \<Rightarrow> reg_body \<Rightarrow> (kerr + int \<times> string) reg_prog" where
  "regCall E r path body =
     fmap (map_sum id (\<lambda>(status, resp). (status, take 4096 resp)))
       (perform (Post (regRequest r path body)) (\<lambda>h. ce_post E h (regRequest r path body)))"

definition registerBody :: "registrar \<Rightarrow> reg_body" where
  "registerBody r = RegisterBody (buildRegisterPayload (r_cfg r) (r_fingerprint r))"

definition heartbeatBody :: "registrar \<Rightarrow> reg_body" where
  "heartbeatBody r = HeartbeatBody (buildHeartbeatPayload (r_cfg r) (r_fingerprint r))"

definition register :: "cloud_env \<Rightarrow> registrar \<Rightarrow> (kerr + unit) reg_prog" where
  "register E r =
     bindE (regCall E r ''/api/v1/clusters/register'' (registerBody r)) (\<lambda>(status, body).
       State_Monad.return
         (if status \<noteq> 200 then Inl (new_error (''register: status '' @ show_int status @ '': '' @ body))
          else Inr ()))"

definition heartbeat :: "cloud_env \<Rightarrow> registrar \<Rightarrow> (kerr + bool) reg_prog" where
  "heartbeat E r =
     bindE (regCall E r (''/api/v1/clusters/'' @ rg_Name (r_cfg r) @ ''/heartbeat'') (heartbeatBody r)) (\<lambda>(status, body).
       State_Monad.return
         (if status = 404 then Inr False
          else if status \<noteq> 204 then Inl (new_error (''heartbeat: status '' @ show_int status @ '': '' @ body))
          else Inr True))"


section \<open>The loops of run (main.go)\<close>

datatype phase = Registering duration | Beating | Stopped

text \<open>One pass through the first loop, with the back-off the pass would wait for.\<close>

definition tryRegister :: "cloud_env \<Rightarrow> registrar \<Rightarrow> duration \<Rightarrow> phase reg_prog" where
  "tryRegister E r backoff = do {
     err \<leftarrow> register E r;
     case err of
       Inr _ \<Rightarrow> State_Monad.return Beating
     | Inl _ \<Rightarrow> do {
         cancelled \<leftarrow> perform (WaitAfter backoff) (ce_done E);
         State_Monad.return
           (if cancelled then Stopped
            else Registering (if backoff < 30 * second then backoff * 2 else backoff))
       }
   }"

text \<open>One pass through the second loop.\<close>

definition beat :: "cloud_env \<Rightarrow> registrar \<Rightarrow> phase reg_prog" where
  "beat E r = do {
     cancelled \<leftarrow> perform WaitTick (ce_done E);
     if cancelled then State_Monad.return Stopped
     else do {
       ok \<leftarrow> heartbeat E r;
       case ok of
         Inr False \<Rightarrow> do { _ \<leftarrow> register E r; State_Monad.return Beating }
       | _ \<Rightarrow> State_Monad.return Beating
     }
   }"

fun pass :: "cloud_env \<Rightarrow> registrar \<Rightarrow> phase \<Rightarrow> phase reg_prog" where
  "pass E r (Registering backoff) = tryRegister E r backoff"
| "pass E r Beating = beat E r"
| "pass E r Stopped = State_Monad.return Stopped"

inductive running :: "cloud_env \<Rightarrow> registrar \<Rightarrow> phase \<Rightarrow> reg_call list \<Rightarrow> bool" for E r where
  start: "running E r (Registering second) []"
| more: "running E r p h \<Longrightarrow> p \<noteq> Stopped \<Longrightarrow> run_state (pass E r p) \<lparr>calls = h\<rparr> = (p', \<lparr>calls = h'\<rparr>) \<Longrightarrow>
     running E r p' h'"

text \<open>The phase and the history after a number of passes.\<close>

fun passes :: "cloud_env \<Rightarrow> registrar \<Rightarrow> nat \<Rightarrow> phase \<times> reg_call list" where
  "passes E r 0 = (Registering second, [])"
| "passes E r (Suc n) =
     (case passes E r n of (p, h) \<Rightarrow>
       (case run_state (pass E r p) \<lparr>calls = h\<rparr> of (p', w) \<Rightarrow> (p', calls w)))"


section \<open>Runs of the registrar\<close>

text \<open>What a call is, and what the history says: the waits of the first loop and whether the cloud has accepted.\<close>

definition registerRequest :: "registrar \<Rightarrow> reg_request" where
  "registerRequest r = regRequest r ''/api/v1/clusters/register'' (registerBody r)"

definition heartbeatRequest :: "registrar \<Rightarrow> reg_request" where
  "heartbeatRequest r =
     regRequest r (''/api/v1/clusters/'' @ rg_Name (r_cfg r) @ ''/heartbeat'') (heartbeatBody r)"

fun waits :: "reg_call list \<Rightarrow> duration list" where
  "waits [] = []"
| "waits (WaitAfter d # h) = d # waits h"
| "waits (_ # h) = waits h"

definition posts :: "reg_request \<Rightarrow> reg_call list \<Rightarrow> nat" where
  "posts req h = length (filter (\<lambda>c. c = Post req) h)"

definition answers :: "cloud_env \<Rightarrow> reg_call list \<Rightarrow> reg_request \<Rightarrow> int \<Rightarrow> bool" where
  "answers E h req status \<longleftrightarrow> (case ce_post E h req of Inl _ \<Rightarrow> False | Inr (s, _) \<Rightarrow> s = status)"

definition acceptedIn :: "cloud_env \<Rightarrow> registrar \<Rightarrow> reg_call list \<Rightarrow> bool" where
  "acceptedIn E r h \<longleftrightarrow>
     (\<exists>h1 h2. h = h1 @ Post (registerRequest r) # h2 \<and> answers E h1 (registerRequest r) 200)"

lemma different_requests [simp]: "registerRequest r \<noteq> heartbeatRequest r" "heartbeatRequest r \<noteq> registerRequest r"
  by (simp_all add: registerRequest_def heartbeatRequest_def regRequest_def registerBody_def heartbeatBody_def)

lemma waits_append [simp]: "waits (g @ h) = waits g @ waits h"
  by (induction g rule: waits.induct) simp_all

lemma posts_append [simp]: "posts req (g @ h) = posts req g + posts req h"
  by (simp add: posts_def)

lemma posts_simps [simp]:
  "posts req [] = 0" "posts req (c # h) = (if c = Post req then 1 else 0) + posts req h"
  by (simp_all add: posts_def)

lemma acceptedIn_append: "acceptedIn E r h \<Longrightarrow> acceptedIn E r (h @ g)"
  unfolding acceptedIn_def by (metis append.assoc append_Cons)

lemma acceptedIn_snoc:
  "answers E h (registerRequest r) 200 \<Longrightarrow> acceptedIn E r (h @ Post (registerRequest r) # g)"
  unfolding acceptedIn_def by blast

lemma run_register:
  "run_state (register E r) \<lparr>calls = h\<rparr> = (x, w) \<Longrightarrow>
     w = \<lparr>calls = h @ [Post (registerRequest r)]\<rparr> \<and>
     ((\<exists>u. x = Inr u) \<longleftrightarrow> answers E h (registerRequest r) 200)"
  by (auto simp: register_def regCall_def registerRequest_def answers_def io_simps map_sum_def
      split: sum.splits prod.splits if_splits)

lemma run_heartbeat:
  "run_state (heartbeat E r) \<lparr>calls = h\<rparr> = (x, w) \<Longrightarrow>
     w = \<lparr>calls = h @ [Post (heartbeatRequest r)]\<rparr> \<and>
     (x = Inr False \<longleftrightarrow> answers E h (heartbeatRequest r) 404)"
  by (auto simp: heartbeat_def regCall_def heartbeatRequest_def answers_def io_simps map_sum_def
      split: sum.splits prod.splits if_splits)

lemma run_tryRegister:
  "run_state (tryRegister E r d) \<lparr>calls = h\<rparr> =
     (if answers E h (registerRequest r) 200 then (Beating, \<lparr>calls = h @ [Post (registerRequest r)]\<rparr>)
      else (if ce_done E (h @ [Post (registerRequest r)]) then Stopped
            else Registering (if d < 30 * second then d * 2 else d),
            \<lparr>calls = h @ [Post (registerRequest r), WaitAfter d]\<rparr>))"
  using run_register [of E r h "fst (run_state (register E r) \<lparr>calls = h\<rparr>)" "snd (run_state (register E r) \<lparr>calls = h\<rparr>)"]
  by (auto simp: tryRegister_def io_simps split: sum.splits prod.splits)

lemma run_beat:
  "run_state (beat E r) \<lparr>calls = h\<rparr> =
     (if ce_done E h then (Stopped, \<lparr>calls = h @ [WaitTick]\<rparr>)
      else (Beating, \<lparr>calls = h @ [WaitTick, Post (heartbeatRequest r)] @
              (if answers E (h @ [WaitTick]) (heartbeatRequest r) 404 then [Post (registerRequest r)] else [])\<rparr>))"
proof -
  obtain x w where hb: "run_state (heartbeat E r) \<lparr>calls = h @ [WaitTick]\<rparr> = (x, w)" by fastforce
  obtain y v where rg: "run_state (register E r) \<lparr>calls = h @ [WaitTick, Post (heartbeatRequest r)]\<rparr> = (y, v)"
    by fastforce
  show ?thesis
    using run_heartbeat [OF hb] run_register [OF rg] hb rg
    by (auto simp: beat_def io_simps split: sum.splits bool.splits)
qed

lemmas run_passes = run_tryRegister run_beat


text \<open>The back-off after a number of waits: doubled each time, and at most 32 seconds.\<close>

definition backoffAfter :: "nat \<Rightarrow> duration" where
  "backoffAfter n = min (2 ^ n) 32 * second"

lemma backoffAfter_step:
  "(if backoffAfter n < 30 * second then backoffAfter n * 2 else backoffAfter n) = backoffAfter (Suc n)"
proof (cases "n < 5")
  case True
  then have "n = 0 \<or> n = 1 \<or> n = 2 \<or> n = 3 \<or> n = 4" by arith
  then show ?thesis by (auto simp: backoffAfter_def second_def)
next
  case False
  then have "(2::int) ^ 5 \<le> 2 ^ n" by (intro power_increasing) simp_all
  then show ?thesis by (simp add: backoffAfter_def second_def)
qed

lemma append_split:
  "g @ k = h1 @ x # h2 \<longleftrightarrow> (\<exists>t. g = h1 @ x # t \<and> h2 = t @ k) \<or> (\<exists>t. h1 = g @ t \<and> k = t @ x # h2)"
  by (auto simp: append_eq_append_conv2 append_eq_Cons_conv)

definition beatsAccepted :: "cloud_env \<Rightarrow> registrar \<Rightarrow> reg_call list \<Rightarrow> bool" where
  "beatsAccepted E r h \<longleftrightarrow> (\<forall>h1 h2. h = h1 @ Post (heartbeatRequest r) # h2 \<longrightarrow> acceptedIn E r h1)"

definition reregisters :: "cloud_env \<Rightarrow> registrar \<Rightarrow> reg_call list \<Rightarrow> bool" where
  "reregisters E r h \<longleftrightarrow>
     (\<forall>h1 h2. h = h1 @ Post (heartbeatRequest r) # h2 \<and> answers E h1 (heartbeatRequest r) 404 \<longrightarrow>
        (\<exists>h3. h2 = Post (registerRequest r) # h3))"

lemma beatsAccepted_append:
  "beatsAccepted E r g \<Longrightarrow> (Post (heartbeatRequest r) \<in> set k \<Longrightarrow> acceptedIn E r g) \<Longrightarrow> beatsAccepted E r (g @ k)"
  unfolding beatsAccepted_def append_split by (auto intro: acceptedIn_append)

lemma reregisters_append:
  "reregisters E r g \<Longrightarrow>
   (\<And>h1 h2. k = h1 @ Post (heartbeatRequest r) # h2 \<Longrightarrow> answers E (g @ h1) (heartbeatRequest r) 404 \<Longrightarrow>
      \<exists>h3. h2 = Post (registerRequest r) # h3) \<Longrightarrow>
   reregisters E r (g @ k)"
  unfolding reregisters_def append_split by fastforce

definition own_call :: "registrar \<Rightarrow> reg_call \<Rightarrow> bool" where
  "own_call r c =
     (case c of Post req \<Rightarrow> req = registerRequest r \<or> req = heartbeatRequest r | _ \<Rightarrow> True)"

definition reg_inv :: "cloud_env \<Rightarrow> registrar \<Rightarrow> phase \<Rightarrow> reg_call list \<Rightarrow> bool" where
  "reg_inv E r p h \<longleftrightarrow>
     list_all (own_call r) h \<and> waits h = map backoffAfter [0..<length (waits h)] \<and>
     beatsAccepted E r h \<and> reregisters E r h \<and>
     (case p of
        Registering d \<Rightarrow> d = backoffAfter (length (waits h))
      | Beating \<Rightarrow> acceptedIn E r h
      | Stopped \<Rightarrow> (\<exists>g c. h = g @ [c] \<and> ce_done E g))"

lemma reg_inv_start: "reg_inv E r (Registering second) []"
  by (simp add: reg_inv_def beatsAccepted_def reregisters_def backoffAfter_def)

lemma reg_inv_tryRegister:
  assumes "reg_inv E r (Registering d) h"
  shows "reg_inv E r (fst (run_state (tryRegister E r d) \<lparr>calls = h\<rparr>)) (calls (snd (run_state (tryRegister E r d) \<lparr>calls = h\<rparr>)))"
proof -
  let ?k = "[Post (registerRequest r)]" and ?l = "[Post (registerRequest r), WaitAfter d]"
  have kept: "beatsAccepted E r (h @ ?k)" "beatsAccepted E r (h @ ?l)" "reregisters E r (h @ ?k)" "reregisters E r (h @ ?l)"
    using assms by (auto simp: reg_inv_def Cons_eq_append_conv intro!: beatsAccepted_append reregisters_append)
  have "\<exists>g c. h @ ?l = g @ [c] \<and> ce_done E g" if "ce_done E (h @ ?k)"
    using that by (intro exI [of _ "h @ ?k"]) simp
  with kept assms show ?thesis
    using backoffAfter_step [of "length (waits h)"] acceptedIn_snoc [of E h r "[]"]
    by (auto simp: run_tryRegister reg_inv_def own_call_def)
qed

lemma reg_inv_beat:
  assumes "reg_inv E r Beating h"
  shows "reg_inv E r (fst (run_state (beat E r) \<lparr>calls = h\<rparr>)) (calls (snd (run_state (beat E r) \<lparr>calls = h\<rparr>)))"
proof -
  let ?k = "[WaitTick, Post (heartbeatRequest r)] @
    (if answers E (h @ [WaitTick]) (heartbeatRequest r) 404 then [Post (registerRequest r)] else [])"
  have "beatsAccepted E r (h @ ?k)" "beatsAccepted E r (h @ [WaitTick])" "reregisters E r (h @ [WaitTick])"
    using assms by (auto simp: reg_inv_def Cons_eq_append_conv intro!: beatsAccepted_append reregisters_append)
  moreover have "reregisters E r (h @ ?k)"
    using assms by (auto simp: reg_inv_def Cons_eq_append_conv intro!: reregisters_append split: if_splits)
  moreover have "acceptedIn E r (h @ ?k)"
    using assms acceptedIn_append by (simp add: reg_inv_def)
  moreover have "waits (h @ ?k) = waits h" by simp
  ultimately show ?thesis
    using assms by (auto simp: run_beat reg_inv_def own_call_def)
qed

lemma reg_inv_pass:
  assumes "reg_inv E r p h" and "p \<noteq> Stopped" and "run_state (pass E r p) \<lparr>calls = h\<rparr> = (p', \<lparr>calls = h'\<rparr>)"
  shows "reg_inv E r p' h'"
  using assms
proof (cases p)
  case (Registering d)
  with assms show ?thesis using reg_inv_tryRegister [of E r d h] by simp
next
  case Beating
  with assms show ?thesis using reg_inv_beat [of E r h] by simp
qed simp

lemma running_inv: "running E r p h \<Longrightarrow> reg_inv E r p h"
  by (induction rule: running.induct) (auto intro: reg_inv_start reg_inv_pass)

lemma passes_running: "passes E r n = (p, h) \<Longrightarrow> p \<noteq> Stopped \<Longrightarrow> running E r p h"
proof (induction n arbitrary: p h)
  case 0
  then show ?case by (auto intro: running.start)
next
  case (Suc n)
  obtain p0 h0 where before: "passes E r n = (p0, h0)" by fastforce
  moreover obtain p1 w where step: "run_state (pass E r p0) \<lparr>calls = h0\<rparr> = (p1, w)" by fastforce
  ultimately have "p = p1" "h = calls w" using Suc.prems(1) by simp_all
  moreover have "p0 \<noteq> Stopped" using step \<open>p = p1\<close> Suc.prems(2) by (cases p0) auto
  ultimately show ?case
    using running.more [OF Suc.IH [OF before]] step by (cases w) auto
qed

text \<open>
  C27. However the cloud answers, a run of the registrar keeps to its protocol: it sends only its own registration
  and heartbeat requests; the waits between failed registrations are 1, 2, 4, 8, 16 and then always 32 seconds; every
  heartbeat follows a registration the cloud accepted with status 200; every heartbeat answered with 404 is followed
  at once by a registration; and the run stops only when its context is done.
\<close>

theorem registrar_protocol:
  assumes "running E r p h"
  shows "(\<forall>req. Post req \<in> set h \<longrightarrow> req = registerRequest r \<or> req = heartbeatRequest r) \<and>
    waits h = map (\<lambda>n. min (2 ^ n) 32 * second) [0..<length (waits h)] \<and>
    (\<forall>h1 h2. h = h1 @ Post (heartbeatRequest r) # h2 \<longrightarrow>
       (\<exists>g1 g2. h1 = g1 @ Post (registerRequest r) # g2 \<and> answers E g1 (registerRequest r) 200)) \<and>
    (\<forall>h1 h2. h = h1 @ Post (heartbeatRequest r) # h2 \<and> answers E h1 (heartbeatRequest r) 404 \<longrightarrow>
       (\<exists>h3. h2 = Post (registerRequest r) # h3)) \<and>
    (p = Stopped \<longrightarrow> (\<exists>g c. h = g @ [c] \<and> ce_done E g))"
proof -
  note inv = running_inv [OF assms, unfolded reg_inv_def]
  have "req = registerRequest r \<or> req = heartbeatRequest r" if "Post req \<in> set h" for req
    using inv that by (fastforce simp: list_all_iff own_call_def)
  moreover have "\<exists>g c. h = g @ [c] \<and> ce_done E g" if "p = Stopped"
    using inv that by simp
  ultimately show ?thesis
    using inv unfolding beatsAccepted_def reregisters_def acceptedIn_def backoffAfter_def by blast
qed

definition ex_registrar :: registrar where
  "ex_registrar =
     \<lparr>r_cfg = \<lparr>rg_CloudURL = ''https://cloud'', rg_RegisterToken = ''t'', rg_Name = ''eu'', rg_Region = [],
        rg_ControlPlaneURL = ''http://cp'', rg_ControlPlaneKey = ''k'', rg_CapacityMax = 10, rg_DedicatedTenantID = [],
        rg_ClusterFingerprint = [], rg_HeartbeatInterval = 30 * second, rg_RequestTimeout = 10 * second\<rparr>,
      r_fingerprint = ''uid''\<rparr>"

text \<open>A cloud that refuses two registrations, then accepts, and forgets the cluster at every heartbeat.\<close>

definition ex_cloud :: cloud_env where
  "ex_cloud =
     \<lparr>ce_post = (\<lambda>h req. Inr (if req = heartbeatRequest ex_registrar then 404
                              else if posts (registerRequest ex_registrar) h < 2 then 503 else 200, [])),
      ce_done = (\<lambda>h. False)\<rparr>"

lemma ex_passes:
  "passes ex_cloud ex_registrar 4 =
     (Beating, [Post (registerRequest ex_registrar), WaitAfter second, Post (registerRequest ex_registrar),
        WaitAfter (2 * second), Post (registerRequest ex_registrar), WaitTick,
        Post (heartbeatRequest ex_registrar), Post (registerRequest ex_registrar)])"
  by (simp add: numeral_eq_Suc run_passes answers_def ex_cloud_def second_def)

theorem registrar_protocol_witness:
  "\<exists>h. running ex_cloud ex_registrar Beating h \<and> waits h = map (\<lambda>n. min (2 ^ n) 32 * second) [0..<2] \<and>
     (\<exists>h1 h2. h = h1 @ Post (heartbeatRequest ex_registrar) # Post (registerRequest ex_registrar) # h2)"
proof -
  let ?R = "Post (registerRequest ex_registrar)" and ?H = "Post (heartbeatRequest ex_registrar)"
  let ?g = "[?R, WaitAfter second, ?R, WaitAfter (2 * second), ?R, WaitTick]"
  note run = passes_running [OF ex_passes phase.distinct(5)]
  note protocol = registrar_protocol [OF run]
  have "waits (?g @ [?H, ?R]) = map (\<lambda>n. min (2 ^ n) 32 * second) [0..<length (waits (?g @ [?H, ?R]))]"
    using conjunct1 [OF conjunct2 [OF protocol]] by simp
  moreover have "length (waits (?g @ [?H, ?R])) = 2" by simp
  moreover have "running ex_cloud ex_registrar Beating (?g @ [?H, ?R])" using run by simp
  ultimately show ?thesis by metis
qed


section \<open>The cluster gets registered\<close>

text \<open>After some passes without a cancellation either every pass sent a registration, or the loop of heartbeats is on.\<close>

lemma passes_progress:
  assumes live: "\<And>h. \<not> ce_done E h"
    and accepts: "\<And>h. N \<le> posts (registerRequest r) h \<Longrightarrow> answers E h (registerRequest r) 200"
  shows "(\<exists>d. fst (passes E r n) = Registering d \<and> posts (registerRequest r) (snd (passes E r n)) = n \<and> n \<le> N) \<or>
         fst (passes E r n) = Beating"
proof (induction n)
  case 0
  show ?case by simp
next
  case (Suc n)
  obtain p h where before: "passes E r n = (p, h)" by fastforce
  have "posts (registerRequest r) h < N" if "\<not> answers E h (registerRequest r) 200"
    using accepts [of h] that by (auto simp: not_le [symmetric])
  with Suc before show ?case
    using live by (cases p) (auto simp: run_passes Suc_le_eq)
qed

lemma passes_beating:
  assumes live: "\<And>h. \<not> ce_done E h" and "fst (passes E r n) = Beating"
  shows "fst (passes E r (n + m)) = Beating \<and> m \<le> posts (heartbeatRequest r) (snd (passes E r (n + m)))"
proof (induction m)
  case 0
  with assms show ?case by simp
next
  case (Suc m)
  obtain p h where before: "passes E r (n + m) = (p, h)" by fastforce
  with Suc live show ?case by (auto simp: run_passes)
qed

text \<open>
  C16. The cluster gets registered and stays alive: when the context is never cancelled and the cloud accepts from its
  N-th registration request on, at most N + 1 passes through the loop bring the registrar to its heartbeats, the
  cloud has then accepted a registration, the waits on the way add up to at most 32 N seconds, and every later pass
  sends a heartbeat.
\<close>

theorem registrar_converges:
  assumes live: "\<And>h. \<not> ce_done E h"
    and accepts: "\<And>h. N \<le> posts (registerRequest r) h \<Longrightarrow> answers E h (registerRequest r) 200"
  shows "fst (passes E r (Suc N)) = Beating \<and> acceptedIn E r (snd (passes E r (Suc N))) \<and>
    sum_list (waits (snd (passes E r (Suc N)))) \<le> 32 * second * int N \<and>
    (\<forall>m. fst (passes E r (Suc N + m)) = Beating \<and>
       m \<le> posts (heartbeatRequest r) (snd (passes E r (Suc N + m))))"
proof -
  have beating: "fst (passes E r (Suc N)) = Beating"
    using passes_progress [where N = N and n = "Suc N", OF live accepts] by (auto simp del: passes.simps)
  then have inv: "reg_inv E r Beating (snd (passes E r (Suc N)))"
    using passes_running [of E r "Suc N"] by (metis phase.distinct(5) prod.collapse running_inv)
  have few: "length (waits (snd (passes E r n))) \<le> n \<and>
      (fst (passes E r n) = Beating \<longrightarrow> length (waits (snd (passes E r n))) < n)" for n
  proof (induction n)
    case 0
    show ?case by simp
  next
    case (Suc n)
    obtain p h where "passes E r n = (p, h)" by fastforce
    with Suc live show ?case by (cases p) (auto simp: run_passes)
  qed
  have short: "sum_list (map backoffAfter [0..<k]) \<le> 32 * second * int k" for k
    by (induction k) (auto simp: backoffAfter_def second_def)
  have "waits (snd (passes E r (Suc N))) = map backoffAfter [0..<length (waits (snd (passes E r (Suc N))))]"
    using inv by (simp add: reg_inv_def)
  then have "sum_list (waits (snd (passes E r (Suc N)))) \<le> 32 * second * int (length (waits (snd (passes E r (Suc N)))))"
    using short by metis
  also have "\<dots> \<le> 32 * second * int N"
    using few [of "Suc N"] beating by (simp add: second_def)
  finally show ?thesis
    using beating inv passes_beating [OF live beating] by (simp add: reg_inv_def)
qed

theorem registrar_converges_witness:
  "fst (passes ex_cloud ex_registrar 3) = Beating \<and>
   5 \<le> posts (heartbeatRequest ex_registrar) (snd (passes ex_cloud ex_registrar 8))"
proof -
  have "\<not> ce_done ex_cloud h"
    "2 \<le> posts (registerRequest ex_registrar) h \<Longrightarrow> answers ex_cloud h (registerRequest ex_registrar) 200" for h
    by (simp_all add: ex_cloud_def answers_def)
  then have "fst (passes ex_cloud ex_registrar (Suc 2)) = Beating \<and>
      5 \<le> posts (heartbeatRequest ex_registrar) (snd (passes ex_cloud ex_registrar (Suc 2 + 5)))"
    using registrar_converges [of ex_cloud 2 ex_registrar] by blast
  then show ?thesis by (simp add: numeral_eq_Suc del: passes.simps)
qed


section \<open>Configuration and fingerprint\<close>

text \<open>
  A configuration that loads names the cloud, the token, the cluster and the key, and its capacity, heartbeat
  interval and request timeout are positive whatever the environment holds, so that \<^verbatim>\<open>time.NewTicker\<close> does not
  panic; and a configuration fails to load only when one of the four is missing.
\<close>

theorem registrar_config_usable:
  "(\<forall>c. loadRegistrarConfig getenv = Inr c \<longrightarrow>
      rg_CloudURL c \<noteq> [] \<and> rg_RegisterToken c \<noteq> [] \<and> rg_Name c \<noteq> [] \<and> rg_ControlPlaneKey c \<noteq> [] \<and>
      rg_ControlPlaneURL c \<noteq> [] \<and> 0 < rg_CapacityMax c \<and> 0 < rg_HeartbeatInterval c \<and> 0 < rg_RequestTimeout c) \<and>
   ((\<exists>err. loadRegistrarConfig getenv = Inl err) \<longleftrightarrow>
      (\<exists>k \<in> {''CLOUD_URL'', ''REGISTER_TOKEN'', ''CLUSTER_NAME'', ''CONTROLPLANE_API_KEY''}. getenv k = []))"
proof -
  have positive: "0 < def \<Longrightarrow> 0 < regEnvInt getenv key def" "0 < def \<Longrightarrow> 0 < regEnvDuration getenv key def" for key def
    by (auto simp: regEnvInt_def regEnvDuration_def split: option.splits)
  show ?thesis
    by (auto simp: loadRegistrarConfig_def Let_def second_def regEnvStr_def intro!: positive)
qed

theorem registrar_config_usable_witness:
  "\<exists>c. loadRegistrarConfig (\<lambda>k. if k = ''HEARTBEAT_INTERVAL'' then ''-5s'' else ''x'') = Inr c \<and>
     0 < rg_HeartbeatInterval c"
proof -
  let ?env = "\<lambda>k. if k = ''HEARTBEAT_INTERVAL'' then ''-5s'' else ''x''"
  have "\<not> (\<exists>k \<in> {''CLOUD_URL'', ''REGISTER_TOKEN'', ''CLUSTER_NAME'', ''CONTROLPLANE_API_KEY''}. ?env k = [])"
    by simp
  then show ?thesis
    using registrar_config_usable [of ?env] by (metis old.sum.exhaust)
qed

text \<open>
  Finding the fingerprint never stops the registrar, and the value is the override, or the non-empty identifier
  of the namespace \<^verbatim>\<open>kube-system\<close> that the API server gave, asked with the token of the service account, or empty.
\<close>

theorem fingerprint_sources:
  "(override \<noteq> [] \<longrightarrow> resolveClusterFingerprint F getenv override tokenPath caPath = override) \<and>
   (resolveClusterFingerprint F getenv [] tokenPath caPath \<noteq> [] \<longrightarrow>
      (\<exists>token roots body. fp_readFile F tokenPath = Inr token \<and>
         fp_get F roots (inClusterBaseURL getenv @ ''/api/v1/namespaces/kube-system'') (''Bearer '' @ token) = Inr (200, body) \<and>
         fp_decodeUID F body = Inr (resolveClusterFingerprint F getenv [] tokenPath caPath)))"
  by (fastforce simp: resolveClusterFingerprint_def kubeSystemUID_def Let_def split: sum.splits prod.splits if_splits)

end
