(* ===== verification/SDK_Client.thy ===== *)
theory SDK_Client
  imports Operator_Types
begin

text \<open>
  The Go client of the control plane (\<^verbatim>\<open>sdk/controlplane/client.go\<close>): its value types, the conversions from and to
  the generated models, and its methods. The generated HTTP client is an environment over the history of requests: it
  answers each with an error or with the status, the body and, for a JSON body of the expected status, the decoded
  model. Of the generated models, the fields the client touches are modelled; a pointer is an option.
\<close>

section \<open>Value types\<close>

record SdkMeta =
  km_Name :: string
  km_Namespace :: string
  km_Labels :: "labels option"

record SdkSnapshotRef =
  kr_Name :: string
  kr_Namespace :: string

record SdkServerSpec =
  kss_Profile :: string
  kss_Env :: "labels option"
  kss_Size :: string
  kss_StorageClass :: string
  kss_SnapshotRef :: "SdkSnapshotRef option"
  kss_IdleTimeoutSeconds :: int
  kss_AutoStart :: bool
  kss_LoadBalancerIP :: string

record SdkEndpoint =
  ke_Name :: string
  ke_Address :: string
  ke_Port :: int

record SdkServerStatus =
  kst_State :: string
  kst_AgentVersion :: string
  kst_Players :: int
  kst_PlayerCapacity :: int
  kst_Endpoints :: "SdkEndpoint list"

record SdkServer =
  k_APIVersion :: string
  k_Kind :: string
  k_Metadata :: SdkMeta
  k_Spec :: SdkServerSpec
  k_Status :: SdkServerStatus

record SFTPInfo =
  sf_Host :: string
  sf_Port :: int
  sf_Username :: string
  sf_Password :: string

record SdkActionParam =
  kp_Type :: string
  kp_Required :: bool
  kp_Default :: string

record SdkAction =
  ka_Name :: string
  ka_Description :: string
  ka_Concurrency :: string
  ka_Timeout :: string
  ka_Params :: "(string, SdkActionParam) gomap option"

record SdkProfile =
  kpr_Metadata :: SdkMeta
  kpr_DisplayName :: string
  kpr_Image :: string
  kpr_Actions :: "SdkAction list"

record SdkFleet =
  kf_Metadata :: SdkMeta
  kf_Profile :: string
  kf_Replicas :: int
  kf_StatusReplicas :: int
  kf_ReadyReplicas :: int
  kf_UpdatedReplicas :: int
  kf_AvailableReplicas :: int

record SdkExecution =
  kx_Metadata :: SdkMeta
  kx_ActionName :: string
  kx_Caller :: string
  kx_Params :: "labels option"
  kx_State :: string
  kx_Result :: string
  kx_Error :: string
  kx_StartedAt :: "time option"
  kx_CompletedAt :: "time option"

record SdkSnapshot =
  kn_Metadata :: SdkMeta
  kn_GameServerRef :: string
  kn_Schedule :: string
  kn_State :: string
  kn_ReadyAt :: "time option"
  kn_Size :: string


section \<open>The generated models\<close>

record GenMeta =
  gm_Name :: "string option"
  gm_Namespace :: "string option"
  gm_Labels :: "labels option"

record GenSnapshotRef =
  gr_Name :: "string option"
  gr_Namespace :: "string option"

record GenStorage =
  gsto_Size :: "string option"
  gsto_StorageClass :: "string option"
  gsto_SnapshotRef :: "GenSnapshotRef option"

record GenLifecycle =
  gl_AutoStart :: "bool option"
  gl_IdleTimeoutSeconds :: "int option"

record GenServerSpec =
  gsp_Profile :: "string option"
  gsp_Env :: "labels option"
  gsp_Storage :: "GenStorage option"
  gsp_Lifecycle :: "GenLifecycle option"
  gsp_LoadBalancerIP :: "string option"

record GenEndpoint =
  ge_Name :: "string option"
  ge_Address :: "string option"
  ge_Port :: "int option"

record GenServerStatus =
  gsx_State :: "string option"
  gsx_AgentVersion :: "string option"
  gsx_Players :: "int option"
  gsx_PlayerCapacity :: "int option"
  gsx_Endpoints :: "GenEndpoint list option"

record GenServer =
  g_ApiVersion :: "string option"
  g_Kind :: "string option"
  g_Metadata :: "GenMeta option"
  g_Spec :: "GenServerSpec option"
  g_Status :: "GenServerStatus option"

record GenActionParam =
  gap_Type :: "string option"
  gap_Required :: "bool option"
  gap_Default :: "string option"

record GenAction =
  ga_Name :: "string option"
  ga_Description :: "string option"
  ga_Concurrency :: "string option"
  ga_Timeout :: "string option"
  ga_Params :: "(string, GenActionParam) gomap option"

record GenProfileSpec =
  gps_DisplayName :: "string option"
  gps_Image :: "string option"
  gps_Actions :: "GenAction list option"

record GenProfile =
  gpr_Metadata :: "GenMeta option"
  gpr_Spec :: "GenProfileSpec option"

record GenSnapshotSpec =
  gns_GameServerRef :: "string option"
  gns_Schedule :: "string option"

record GenSnapshotStatus =
  gnt_State :: "string option"
  gnt_ReadyAt :: "time option"
  gnt_Size :: "string option"

record GenSnapshot =
  gn_Metadata :: "GenMeta option"
  gn_Spec :: "GenSnapshotSpec option"
  gn_Status :: "GenSnapshotStatus option"

record GenFleetSpec =
  gfs_Profile :: "string option"
  gfs_Replicas :: "int option"

record GenFleetStatus =
  gft_Replicas :: "int option"
  gft_ReadyReplicas :: "int option"
  gft_UpdatedReplicas :: "int option"
  gft_AvailableReplicas :: "int option"

record GenFleet =
  gf_ApiVersion :: "string option"
  gf_Kind :: "string option"
  gf_Metadata :: "GenMeta option"
  gf_Spec :: "GenFleetSpec option"
  gf_Status :: "GenFleetStatus option"

record GenExecutionSpec =
  gxs_ActionName :: "string option"
  gxs_Caller :: "string option"
  gxs_Params :: "labels option"

record GenExecutionStatus =
  gxt_State :: "string option"
  gxt_Result :: "string option"
  gxt_Error :: "string option"
  gxt_StartedAt :: "time option"
  gxt_CompletedAt :: "time option"

record GenExecution =
  gx_Metadata :: "GenMeta option"
  gx_Spec :: "GenExecutionSpec option"
  gx_Status :: "GenExecutionStatus option"

record GenSFTPInfo =
  gsf_Host :: string
  gsf_Port :: int
  gsf_Username :: string
  gsf_Password :: string


section \<open>Conversions\<close>

definition deref :: "string option \<Rightarrow> string" where
  "deref s = (case s of None \<Rightarrow> [] | Some v \<Rightarrow> v)"

definition ptrOrNil :: "string \<Rightarrow> string option" where
  "ptrOrNil s = (if s = [] then None else Some s)"

definition mapOrNil :: "labels option \<Rightarrow> labels option" where
  "mapOrNil m = (case m of None \<Rightarrow> None | Some v \<Rightarrow> Some v)"

text \<open>\<^verbatim>\<open>if p != nil { out = int32(*p) }\<close>\<close>

definition deref_int32 :: "int option \<Rightarrow> int" where
  "deref_int32 p = (case p of None \<Rightarrow> 0 | Some v \<Rightarrow> int32 v)"

definition toGenGameServer :: "SdkServer \<Rightarrow> GenServer" where
  "toGenGameServer gs =
     (let s = k_Spec gs
      in \<lparr>g_ApiVersion = (if k_APIVersion gs \<noteq> [] then Some (k_APIVersion gs) else None),
          g_Kind = (if k_Kind gs \<noteq> [] then Some (k_Kind gs) else None),
          g_Metadata = Some
            \<lparr>gm_Name = Some (km_Name (k_Metadata gs)),
             gm_Namespace = ptrOrNil (km_Namespace (k_Metadata gs)),
             gm_Labels = km_Labels (k_Metadata gs)\<rparr>,
          g_Spec = Some
            \<lparr>gsp_Profile = Some (kss_Profile s),
             gsp_Env = mapOrNil (kss_Env s),
             gsp_Storage =
               (if kss_Size s \<noteq> [] \<or> kss_StorageClass s \<noteq> [] \<or> kss_SnapshotRef s \<noteq> None
                then Some
                  \<lparr>gsto_Size = ptrOrNil (kss_Size s),
                   gsto_StorageClass = ptrOrNil (kss_StorageClass s),
                   gsto_SnapshotRef = map_option
                     (\<lambda>ref. \<lparr>gr_Name = Some (kr_Name ref), gr_Namespace = ptrOrNil (kr_Namespace ref)\<rparr>)
                     (kss_SnapshotRef s)\<rparr>
                else None),
             gsp_Lifecycle =
               (if kss_AutoStart s \<or> kss_IdleTimeoutSeconds s \<noteq> 0
                then Some
                  \<lparr>gl_AutoStart = Some (kss_AutoStart s),
                   gl_IdleTimeoutSeconds = Some (kss_IdleTimeoutSeconds s)\<rparr>
                else None),
             gsp_LoadBalancerIP = ptrOrNil (kss_LoadBalancerIP s)\<rparr>,
          g_Status = None\<rparr>)"

text \<open>The zero values that the conversions start from.\<close>

definition no_meta :: SdkMeta where
  "no_meta = \<lparr>km_Name = [], km_Namespace = [], km_Labels = None\<rparr>"

definition no_spec :: SdkServerSpec where
  "no_spec =
     \<lparr>kss_Profile = [], kss_Env = None, kss_Size = [], kss_StorageClass = [], kss_SnapshotRef = None,
      kss_IdleTimeoutSeconds = 0, kss_AutoStart = False, kss_LoadBalancerIP = []\<rparr>"

definition no_status :: SdkServerStatus where
  "no_status =
     \<lparr>kst_State = [], kst_AgentVersion = [], kst_Players = 0, kst_PlayerCapacity = 0, kst_Endpoints = []\<rparr>"

definition fromGenMeta :: "GenMeta option \<Rightarrow> SdkMeta" where
  "fromGenMeta m =
     (case m of
        None \<Rightarrow> no_meta
      | Some v \<Rightarrow> \<lparr>km_Name = deref (gm_Name v), km_Namespace = deref (gm_Namespace v), km_Labels = gm_Labels v\<rparr>)"

definition fromGenSpec :: "GenServerSpec \<Rightarrow> SdkServerSpec" where
  "fromGenSpec s =
     \<lparr>kss_Profile = deref (gsp_Profile s),
      kss_Env = gsp_Env s,
      kss_Size = (case gsp_Storage s of None \<Rightarrow> [] | Some st \<Rightarrow> deref (gsto_Size st)),
      kss_StorageClass = (case gsp_Storage s of None \<Rightarrow> [] | Some st \<Rightarrow> deref (gsto_StorageClass st)),
      kss_SnapshotRef =
        (case gsp_Storage s of
           None \<Rightarrow> None
         | Some st \<Rightarrow> map_option
             (\<lambda>ref. \<lparr>kr_Name = deref (gr_Name ref), kr_Namespace = deref (gr_Namespace ref)\<rparr>) (gsto_SnapshotRef st)),
      kss_IdleTimeoutSeconds =
        (case gsp_Lifecycle s of None \<Rightarrow> 0 | Some l \<Rightarrow> deref_int32 (gl_IdleTimeoutSeconds l)),
      kss_AutoStart =
        (case gsp_Lifecycle s of
           None \<Rightarrow> False
         | Some l \<Rightarrow> (case gl_AutoStart l of None \<Rightarrow> False | Some b \<Rightarrow> b)),
      kss_LoadBalancerIP = deref (gsp_LoadBalancerIP s)\<rparr>"

definition fromGenStatus :: "GenServerStatus \<Rightarrow> SdkServerStatus" where
  "fromGenStatus s =
     \<lparr>kst_State = deref (gsx_State s),
      kst_AgentVersion = deref (gsx_AgentVersion s),
      kst_Players = deref_int32 (gsx_Players s),
      kst_PlayerCapacity = deref_int32 (gsx_PlayerCapacity s),
      kst_Endpoints =
        (case gsx_Endpoints s of
           None \<Rightarrow> []
         | Some es \<Rightarrow> map (\<lambda>e. \<lparr>ke_Name = deref (ge_Name e), ke_Address = deref (ge_Address e),
                                 ke_Port = deref_int32 (ge_Port e)\<rparr>) es)\<rparr>"

definition fromGenGameServer :: "GenServer option \<Rightarrow> SdkServer" where
  "fromGenGameServer gs =
     (case gs of
        None \<Rightarrow> \<lparr>k_APIVersion = [], k_Kind = [], k_Metadata = no_meta, k_Spec = no_spec, k_Status = no_status\<rparr>
      | Some v \<Rightarrow>
          \<lparr>k_APIVersion = deref (g_ApiVersion v), k_Kind = deref (g_Kind v),
           k_Metadata = fromGenMeta (g_Metadata v),
           k_Spec = (case g_Spec v of None \<Rightarrow> no_spec | Some s \<Rightarrow> fromGenSpec s),
           k_Status = (case g_Status v of None \<Rightarrow> no_status | Some s \<Rightarrow> fromGenStatus s)\<rparr>)"

definition fromGenAction :: "GenAction \<Rightarrow> SdkAction" where
  "fromGenAction a =
     \<lparr>ka_Name = deref (ga_Name a), ka_Description = deref (ga_Description a),
      ka_Concurrency = deref (ga_Concurrency a), ka_Timeout = deref (ga_Timeout a),
      ka_Params = map_option (map (\<lambda>(k, p). (k,
        \<lparr>kp_Type = deref (gap_Type p), kp_Required = (gap_Required p = Some True), kp_Default = deref (gap_Default p)\<rparr>)))
        (ga_Params a)\<rparr>"

definition fromGenProfile :: "GenProfile \<Rightarrow> SdkProfile" where
  "fromGenProfile p =
     \<lparr>kpr_Metadata = fromGenMeta (gpr_Metadata p),
      kpr_DisplayName = (case gpr_Spec p of None \<Rightarrow> [] | Some s \<Rightarrow> deref (gps_DisplayName s)),
      kpr_Image = (case gpr_Spec p of None \<Rightarrow> [] | Some s \<Rightarrow> deref (gps_Image s)),
      kpr_Actions =
        (case gpr_Spec p of
           None \<Rightarrow> []
         | Some s \<Rightarrow> (case gps_Actions s of None \<Rightarrow> [] | Some as \<Rightarrow> map fromGenAction as))\<rparr>"

definition fromGenSnapshot :: "GenSnapshot \<Rightarrow> SdkSnapshot" where
  "fromGenSnapshot s =
     \<lparr>kn_Metadata = fromGenMeta (gn_Metadata s),
      kn_GameServerRef = (case gn_Spec s of None \<Rightarrow> [] | Some v \<Rightarrow> deref (gns_GameServerRef v)),
      kn_Schedule = (case gn_Spec s of None \<Rightarrow> [] | Some v \<Rightarrow> deref (gns_Schedule v)),
      kn_State = (case gn_Status s of None \<Rightarrow> [] | Some v \<Rightarrow> deref (gnt_State v)),
      kn_ReadyAt = (case gn_Status s of None \<Rightarrow> None | Some v \<Rightarrow> gnt_ReadyAt v),
      kn_Size = (case gn_Status s of None \<Rightarrow> [] | Some v \<Rightarrow> deref (gnt_Size v))\<rparr>"

definition fromGenFleet :: "GenFleet \<Rightarrow> SdkFleet" where
  "fromGenFleet f =
     \<lparr>kf_Metadata = fromGenMeta (gf_Metadata f),
      kf_Profile = (case gf_Spec f of None \<Rightarrow> [] | Some s \<Rightarrow> deref (gfs_Profile s)),
      kf_Replicas = (case gf_Spec f of None \<Rightarrow> 0 | Some s \<Rightarrow> deref_int32 (gfs_Replicas s)),
      kf_StatusReplicas = (case gf_Status f of None \<Rightarrow> 0 | Some s \<Rightarrow> deref_int32 (gft_Replicas s)),
      kf_ReadyReplicas = (case gf_Status f of None \<Rightarrow> 0 | Some s \<Rightarrow> deref_int32 (gft_ReadyReplicas s)),
      kf_UpdatedReplicas = (case gf_Status f of None \<Rightarrow> 0 | Some s \<Rightarrow> deref_int32 (gft_UpdatedReplicas s)),
      kf_AvailableReplicas = (case gf_Status f of None \<Rightarrow> 0 | Some s \<Rightarrow> deref_int32 (gft_AvailableReplicas s))\<rparr>"

definition fromGenExecution :: "GenExecution \<Rightarrow> SdkExecution" where
  "fromGenExecution x =
     \<lparr>kx_Metadata = fromGenMeta (gx_Metadata x),
      kx_ActionName = (case gx_Spec x of None \<Rightarrow> [] | Some s \<Rightarrow> deref (gxs_ActionName s)),
      kx_Caller = (case gx_Spec x of None \<Rightarrow> [] | Some s \<Rightarrow> deref (gxs_Caller s)),
      kx_Params = (case gx_Spec x of None \<Rightarrow> None | Some s \<Rightarrow> gxs_Params s),
      kx_State = (case gx_Status x of None \<Rightarrow> [] | Some s \<Rightarrow> deref (gxt_State s)),
      kx_Result = (case gx_Status x of None \<Rightarrow> [] | Some s \<Rightarrow> deref (gxt_Result s)),
      kx_Error = (case gx_Status x of None \<Rightarrow> [] | Some s \<Rightarrow> deref (gxt_Error s)),
      kx_StartedAt = (case gx_Status x of None \<Rightarrow> None | Some s \<Rightarrow> gxt_StartedAt s),
      kx_CompletedAt = (case gx_Status x of None \<Rightarrow> None | Some s \<Rightarrow> gxt_CompletedAt s)\<rparr>"


section \<open>Requests\<close>

datatype sdk_call =
    SdkListServers
  | SdkGetServer string string
  | SdkCreateServer string GenServer
  | SdkDeleteServer string string
  | SdkGetSFTP string string
  | SdkPatchLifecycle string string GenLifecycle
  | SdkListActions string string
  | SdkExecuteAction string string string labels
  | SdkGetExecution string string string
  | SdkListSnapshots string string
  | SdkCreateSnapshot string string
  | SdkListProfiles
  | SdkGetProfile string
  | SdkListFleets
  | SdkGetFleet string string
  | SdkCreateFleet string GenFleet
  | SdkPatchFleet string string int
  | SdkDeleteFleet string string

text \<open>The status and body of a response, and the model decoded from a JSON body of the expected status.\<close>

record 'j response =
  rsp_StatusCode :: int
  rsp_Body :: string
  rsp_JSON :: "'j option"

type_synonym 'j answer = "sdk_call list \<Rightarrow> sdk_call \<Rightarrow> kerr + 'j response"

record sdk_env =
  sk_servers :: "GenServer list answer"
  sk_server :: "GenServer answer"
  sk_sftp :: "GenSFTPInfo answer"
  sk_actions :: "GenAction list answer"
  sk_ref :: "string answer"
  sk_execution :: "GenExecution answer"
  sk_snapshots :: "GenSnapshot list answer"
  sk_snapshot :: "GenSnapshot answer"
  sk_profiles :: "GenProfile list answer"
  sk_profile :: "GenProfile answer"
  sk_fleets :: "GenFleet list answer"
  sk_fleet :: "GenFleet answer"
  sk_empty :: "unit answer"
  sk_errorField :: "string \<Rightarrow> string option"

type_synonym 'a sdk_prog = "(sdk_call world, 'a outcome) state"

text \<open>\<open>sk_errorField\<close> reads the field \<^verbatim>\<open>error\<close> of a body, when the body is a JSON object of that shape.\<close>

definition sdkApiError :: "(string \<Rightarrow> string option) \<Rightarrow> int \<Rightarrow> string \<Rightarrow> kerr" where
  "sdkApiError errorField status body =
     (let msg = (case errorField body of Some e \<Rightarrow> if e \<noteq> [] then e else body | None \<Rightarrow> body)
      in new_error (''controlplane: status '' @ show_int status @ '': '' @ msg))"

text \<open>The headers that the request editor of \<^verbatim>\<open>NewClient\<close> sets, and the check of the base URL.\<close>

definition sdkHeaders :: "string \<Rightarrow> labels" where
  "sdkHeaders apiKey =
     (''Accept'', ''application/json'') #
     (if apiKey \<noteq> [] then [(''Authorization'', ''Bearer '' @ apiKey)] else [])"

definition NewSDKClient :: "(string \<Rightarrow> kerr option) \<Rightarrow> string \<Rightarrow> string \<Rightarrow> kerr + string \<times> labels" where
  "NewSDKClient parseRequestURI baseURL apiKey =
     (case parseRequestURI baseURL of
        Some err \<Rightarrow> Inl (wrap_error (''controlplane: invalid base URL '' @ quoted baseURL @ '': '') err)
      | None \<Rightarrow> Inr (TrimSuffix baseURL ''/'', sdkHeaders apiKey))"

text \<open>The frame of every method: a transport error, an unexpected status, or the use of the decoded model.\<close>

definition exchange ::
    "sdk_env \<Rightarrow> (sdk_env \<Rightarrow> 'j answer) \<Rightarrow> sdk_call \<Rightarrow> int \<Rightarrow> ('j option \<Rightarrow> 'a outcome) \<Rightarrow> 'a sdk_prog" where
  "exchange E answer c expected use =
     fmap (\<lambda>resp. case resp of
         Inl err \<Rightarrow> Returned (Inl err)
       | Inr r \<Rightarrow>
           if rsp_StatusCode r \<noteq> expected
           then Returned (Inl (sdkApiError (sk_errorField E) (rsp_StatusCode r) (rsp_Body r)))
           else use (rsp_JSON r))
       (perform c (\<lambda>h. answer E h c))"

definition nil_dereference :: string where
  "nil_dereference = ''runtime error: invalid memory address or nil pointer dereference''"

text \<open>Dereferencing the model.\<close>

definition pointee :: "('j \<Rightarrow> 'a) \<Rightarrow> 'j option \<Rightarrow> 'a outcome" where
  "pointee f json = (case json of None \<Rightarrow> Panicked nil_dereference | Some j \<Rightarrow> Returned (Inr (f j)))"


section \<open>Methods\<close>

definition sdkListGameServers :: "sdk_env \<Rightarrow> SdkServer list sdk_prog" where
  "sdkListGameServers E =
     exchange E sk_servers SdkListServers 200 (pointee (map (\<lambda>gs. fromGenGameServer (Some gs))))"

definition sdkGetGameServer :: "sdk_env \<Rightarrow> string \<Rightarrow> string \<Rightarrow> SdkServer sdk_prog" where
  "sdkGetGameServer E namespace name =
     exchange E sk_server (SdkGetServer namespace name) 200 (\<lambda>json. Returned (Inr (fromGenGameServer json)))"

definition sdkCreateGameServer :: "sdk_env \<Rightarrow> string \<Rightarrow> SdkServer \<Rightarrow> SdkServer sdk_prog" where
  "sdkCreateGameServer E namespace gs =
     (let gs = gs\<lparr>k_APIVersion := ''operator.minato.io/v1'', k_Kind := ''GameServer''\<rparr>
      in exchange E sk_server (SdkCreateServer namespace (toGenGameServer gs)) 201
           (\<lambda>json. Returned (Inr (fromGenGameServer json))))"

definition sdkDeleteGameServer :: "sdk_env \<Rightarrow> string \<Rightarrow> string \<Rightarrow> unit sdk_prog" where
  "sdkDeleteGameServer E namespace name =
     exchange E sk_empty (SdkDeleteServer namespace name) 204 (\<lambda>_. Returned (Inr ()))"

definition sdkGetSFTPInfo :: "sdk_env \<Rightarrow> string \<Rightarrow> string \<Rightarrow> SFTPInfo sdk_prog" where
  "sdkGetSFTPInfo E namespace name =
     exchange E sk_sftp (SdkGetSFTP namespace name) 200
       (pointee (\<lambda>j. \<lparr>sf_Host = gsf_Host j, sf_Port = int32 (gsf_Port j), sf_Username = gsf_Username j,
                      sf_Password = gsf_Password j\<rparr>))"

definition sdkUpdateGameServerLifecycle ::
    "sdk_env \<Rightarrow> string \<Rightarrow> string \<Rightarrow> bool option \<Rightarrow> int option \<Rightarrow> SdkServer sdk_prog" where
  "sdkUpdateGameServerLifecycle E namespace name autoStart idleTimeout =
     exchange E sk_server
       (SdkPatchLifecycle namespace name \<lparr>gl_AutoStart = autoStart, gl_IdleTimeoutSeconds = idleTimeout\<rparr>) 200
       (\<lambda>json. Returned (Inr (fromGenGameServer json)))"

definition sdkListActions :: "sdk_env \<Rightarrow> string \<Rightarrow> string \<Rightarrow> SdkAction list sdk_prog" where
  "sdkListActions E namespace name =
     exchange E sk_actions (SdkListActions namespace name) 200 (pointee (map fromGenAction))"

definition sdkExecuteAction :: "sdk_env \<Rightarrow> string \<Rightarrow> string \<Rightarrow> string \<Rightarrow> labels \<Rightarrow> string sdk_prog" where
  "sdkExecuteAction E namespace name action params =
     exchange E sk_ref (SdkExecuteAction namespace name action params) 201 (pointee (\<lambda>ref. ref))"

definition sdkGetActionExecution :: "sdk_env \<Rightarrow> string \<Rightarrow> string \<Rightarrow> string \<Rightarrow> SdkExecution sdk_prog" where
  "sdkGetActionExecution E namespace name executionID =
     exchange E sk_execution (SdkGetExecution namespace name executionID) 200 (pointee fromGenExecution)"

definition sdkListSnapshots :: "sdk_env \<Rightarrow> string \<Rightarrow> string \<Rightarrow> SdkSnapshot list sdk_prog" where
  "sdkListSnapshots E namespace name =
     exchange E sk_snapshots (SdkListSnapshots namespace name) 200 (pointee (map fromGenSnapshot))"

definition sdkCreateSnapshot :: "sdk_env \<Rightarrow> string \<Rightarrow> string \<Rightarrow> SdkSnapshot sdk_prog" where
  "sdkCreateSnapshot E namespace name =
     exchange E sk_snapshot (SdkCreateSnapshot namespace name) 201 (pointee fromGenSnapshot)"

definition sdkListProfiles :: "sdk_env \<Rightarrow> SdkProfile list sdk_prog" where
  "sdkListProfiles E = exchange E sk_profiles SdkListProfiles 200 (pointee (map fromGenProfile))"

definition sdkGetProfile :: "sdk_env \<Rightarrow> string \<Rightarrow> SdkProfile sdk_prog" where
  "sdkGetProfile E name = exchange E sk_profile (SdkGetProfile name) 200 (pointee fromGenProfile)"

definition sdkListGameServerFleets :: "sdk_env \<Rightarrow> SdkFleet list sdk_prog" where
  "sdkListGameServerFleets E = exchange E sk_fleets SdkListFleets 200 (pointee (map fromGenFleet))"

definition sdkGetGameServerFleet :: "sdk_env \<Rightarrow> string \<Rightarrow> string \<Rightarrow> SdkFleet sdk_prog" where
  "sdkGetGameServerFleet E namespace name =
     exchange E sk_fleet (SdkGetFleet namespace name) 200 (pointee fromGenFleet)"

definition sdkCreateGameServerFleet :: "sdk_env \<Rightarrow> string \<Rightarrow> SdkFleet \<Rightarrow> SdkFleet sdk_prog" where
  "sdkCreateGameServerFleet E namespace fleet =
     (let body = \<lparr>gf_ApiVersion = Some ''operator.minato.io/v1'', gf_Kind = Some ''GameServerFleet'',
                  gf_Metadata = Some \<lparr>gm_Name = Some (km_Name (kf_Metadata fleet)), gm_Namespace = None, gm_Labels = None\<rparr>,
                  gf_Spec = Some \<lparr>gfs_Profile = Some (kf_Profile fleet), gfs_Replicas = Some (kf_Replicas fleet)\<rparr>,
                  gf_Status = None\<rparr>
      in exchange E sk_fleet (SdkCreateFleet namespace body) 201 (pointee fromGenFleet))"

definition sdkScaleGameServerFleet :: "sdk_env \<Rightarrow> string \<Rightarrow> string \<Rightarrow> int \<Rightarrow> SdkFleet sdk_prog" where
  "sdkScaleGameServerFleet E namespace name replicas =
     exchange E sk_fleet (SdkPatchFleet namespace name replicas) 200 (pointee fromGenFleet)"

definition sdkDeleteGameServerFleet :: "sdk_env \<Rightarrow> string \<Rightarrow> string \<Rightarrow> unit sdk_prog" where
  "sdkDeleteGameServerFleet E namespace name =
     exchange E sk_empty (SdkDeleteFleet namespace name) 204 (\<lambda>_. Returned (Inr ()))"

end
