(* ===== verification/SDK_Wire.thy ===== *)
theory SDK_Wire
  imports SDK_Client
begin

text \<open>
  What the client and the control plane make of each other's JSON. \<^verbatim>\<open>encoding/json\<close> writes and reads structs by the
  names in their tags: the encoders and decoders below are those of the custom resource types
  (\<^verbatim>\<open>api/operator/v1\<close>) and of the generated models (\<^verbatim>\<open>sdk/controlplane/gen\<close>), for the fields that either side of the
  client touches.
\<close>

section \<open>JSON\<close>

datatype json =
    JStr string
  | JNum int
  | JBool bool
  | JTime time
  | JObj "(string \<times> json) list"
  | JList "json list"

text \<open>Fields with \<^verbatim>\<open>omitempty\<close>: a zero value or a nil pointer is left out.\<close>

definition str_field :: "string \<Rightarrow> string \<Rightarrow> (string \<times> json) list" where
  "str_field k v = (if v = [] then [] else [(k, JStr v)])"

definition num_field :: "string \<Rightarrow> int \<Rightarrow> (string \<times> json) list" where
  "num_field k n = (if n = 0 then [] else [(k, JNum n)])"

definition ptr_field :: "string \<Rightarrow> ('a \<Rightarrow> json) \<Rightarrow> 'a option \<Rightarrow> (string \<times> json) list" where
  "ptr_field k f p = (case p of None \<Rightarrow> [] | Some v \<Rightarrow> [(k, f v)])"

definition map_json :: "labels \<Rightarrow> json" where
  "map_json m = JObj (map (\<lambda>(k, v). (k, JStr v)) m)"

definition map_field :: "string \<Rightarrow> labels \<Rightarrow> (string \<times> json) list" where
  "map_field k m = (if m = [] then [] else [(k, map_json m)])"

text \<open>Reading a field of an object into a pointer of the expected type.\<close>

definition at :: "string \<Rightarrow> json \<Rightarrow> json option" where
  "at k j = (case j of JObj fs \<Rightarrow> map_of fs k | _ \<Rightarrow> None)"

fun as_str :: "json \<Rightarrow> string option" where
  "as_str (JStr s) = Some s" | "as_str _ = None"

fun as_num :: "json \<Rightarrow> int option" where
  "as_num (JNum n) = Some n" | "as_num _ = None"

fun as_bool :: "json \<Rightarrow> bool option" where
  "as_bool (JBool b) = Some b" | "as_bool _ = None"

fun as_time :: "json \<Rightarrow> time option" where
  "as_time (JTime t) = Some t" | "as_time _ = None"

fun as_map :: "json \<Rightarrow> labels option" where
  "as_map (JObj fs) = Some (map (\<lambda>(k, v). (k, case as_str v of None \<Rightarrow> [] | Some s \<Rightarrow> s)) fs)" | "as_map _ = None"

fun as_list :: "json \<Rightarrow> json list option" where
  "as_list (JList js) = Some js" | "as_list _ = None"

abbreviation str_at :: "string \<Rightarrow> json \<Rightarrow> string option" where
  "str_at k j \<equiv> Option.bind (at k j) as_str"

abbreviation num_at :: "string \<Rightarrow> json \<Rightarrow> int option" where
  "num_at k j \<equiv> Option.bind (at k j) as_num"

abbreviation bool_at :: "string \<Rightarrow> json \<Rightarrow> bool option" where
  "bool_at k j \<equiv> Option.bind (at k j) as_bool"

abbreviation time_at :: "string \<Rightarrow> json \<Rightarrow> time option" where
  "time_at k j \<equiv> Option.bind (at k j) as_time"

abbreviation map_at :: "string \<Rightarrow> json \<Rightarrow> labels option" where
  "map_at k j \<equiv> Option.bind (at k j) as_map"

abbreviation list_at :: "string \<Rightarrow> json \<Rightarrow> json list option" where
  "list_at k j \<equiv> Option.bind (at k j) as_list"


section \<open>What the control plane writes and the client reads\<close>

definition metaJSON :: "ObjectMeta \<Rightarrow> json" where
  "metaJSON m =
     JObj (str_field ''name'' (om_Name m) @ str_field ''namespace'' (om_Namespace m) @ map_field ''labels'' (om_Labels m))"

definition storageJSON :: "GameServerStorage \<Rightarrow> json" where
  "storageJSON s =
     JObj (str_field ''size'' (gss_Size s) @ str_field ''storageClass'' (gss_StorageClass s) @
       ptr_field ''snapshotRef'' (\<lambda>r. JObj ((''name'', JStr (sr_Name r)) # str_field ''namespace'' (sr_Namespace r)))
         (gss_SnapshotRef s))"

definition lifecycleJSON :: "LifecycleSpec \<Rightarrow> json" where
  "lifecycleJSON l =
     JObj (num_field ''idleTimeoutSeconds'' (lc_IdleTimeoutSeconds l) @ ptr_field ''autoStart'' JBool (lc_AutoStart l))"

definition serverSpecJSON :: "GameServerSpec \<Rightarrow> json" where
  "serverSpecJSON s =
     JObj ([(''profile'', JStr (gs_Profile s))] @ str_field ''tier'' (gs_Tier s) @ map_field ''env'' (gs_Env s) @
       [(''storage'', storageJSON (gs_Storage s)), (''lifecycle'', lifecycleJSON (gs_Lifecycle s))] @
       str_field ''priorityClassName'' (gs_PriorityClassName s) @ str_field ''loadBalancerIP'' (gs_LoadBalancerIP s))"

definition endpointJSON :: "Endpoint \<Rightarrow> json" where
  "endpointJSON e =
     JObj [(''name'', JStr (ep_Name e)), (''address'', JStr (ep_Address e)), (''port'', JNum (ep_Port e))]"

definition serverStatusJSON :: "GameServerStatus \<Rightarrow> json" where
  "serverStatusJSON s =
     JObj (str_field ''state'' (gst_State s) @ str_field ''agentVersion'' (gst_AgentVersion s) @
       num_field ''players'' (gst_Players s) @ num_field ''playerCapacity'' (gst_PlayerCapacity s) @
       ptr_field ''lastActivity'' JTime (gst_LastActivity s) @
       (if gst_Endpoints s = [] then [] else [(''endpoints'', JList (map endpointJSON (gst_Endpoints s)))]))"

definition serverJSON :: "GameServer \<Rightarrow> json" where
  "serverJSON s =
     JObj [(''metadata'', metaJSON (server_meta s)), (''spec'', serverSpecJSON (server_spec s)),
           (''status'', serverStatusJSON (server_status s))]"

definition executionJSON :: "ActionExecution \<Rightarrow> json" where
  "executionJSON x =
     JObj [(''metadata'', metaJSON (exec_meta x)),
       (''spec'', JObj ([(''actionName'', JStr (ae_ActionName (exec_spec x)))] @
          map_field ''params'' (ae_Params (exec_spec x)) @ str_field ''caller'' (ae_Caller (exec_spec x)))),
       (''status'', JObj (str_field ''state'' (aes_State (exec_status x)) @
          ptr_field ''startedAt'' JTime (aes_StartedAt (exec_status x)) @
          ptr_field ''endedAt'' JTime (aes_EndedAt (exec_status x)) @
          str_field ''agentResponse'' (aes_AgentResponse (exec_status x)) @
          str_field ''error'' (aes_Error (exec_status x))))]"

definition snapshotJSON :: "GameSnapshot \<Rightarrow> json" where
  "snapshotJSON s =
     JObj [(''metadata'', metaJSON (snap_meta s)),
       (''spec'', JObj ((''gameServerRef'', JStr (sn_GameServerRef (snap_spec s))) #
          str_field ''schedule'' (sn_Schedule (snap_spec s)))),
       (''status'', JObj (
          (if sns_Snapshots (snap_status s) = [] then []
           else [(''snapshots'', JList (map (\<lambda>e. JObj ([(''name'', JStr (se_Name e)), (''createdAt'', JTime (se_CreatedAt e)),
                   (''volumeSnapshotRef'', JStr (se_VolumeSnapshotRef e))] @ num_field ''sizeBytes'' (se_SizeBytes e)))
                   (sns_Snapshots (snap_status s))))]) @
          ptr_field ''lastSnapshotAt'' JTime (sns_LastSnapshotAt (snap_status s))))]"

definition fleetJSON :: "GameServerFleet \<Rightarrow> json" where
  "fleetJSON f =
     JObj [(''metadata'', metaJSON (fleet_meta f)),
       (''spec'', JObj [(''profile'', JStr (fl_Profile (fleet_spec f))), (''replicas'', JNum (fl_Replicas (fleet_spec f)))]),
       (''status'', JObj (num_field ''replicas'' (fls_Replicas (fleet_status f)) @
          num_field ''readyReplicas'' (fls_ReadyReplicas (fleet_status f)) @
          num_field ''updatedReplicas'' (fls_UpdatedReplicas (fleet_status f))))]"

definition genMeta :: "json \<Rightarrow> GenMeta" where
  "genMeta j = \<lparr>gm_Name = str_at ''name'' j, gm_Namespace = str_at ''namespace'' j, gm_Labels = map_at ''labels'' j\<rparr>"

definition genStorage :: "json \<Rightarrow> GenStorage" where
  "genStorage j =
     \<lparr>gsto_Size = str_at ''size'' j, gsto_StorageClass = str_at ''storageClass'' j,
      gsto_SnapshotRef = map_option (\<lambda>r. \<lparr>gr_Name = str_at ''name'' r, gr_Namespace = str_at ''namespace'' r\<rparr>)
        (at ''snapshotRef'' j)\<rparr>"

definition genServerSpec :: "json \<Rightarrow> GenServerSpec" where
  "genServerSpec j =
     \<lparr>gsp_Profile = str_at ''profile'' j, gsp_Env = map_at ''env'' j,
      gsp_Storage = map_option genStorage (at ''storage'' j),
      gsp_Lifecycle = map_option (\<lambda>l. \<lparr>gl_AutoStart = bool_at ''autoStart'' l,
        gl_IdleTimeoutSeconds = num_at ''idleTimeoutSeconds'' l\<rparr>) (at ''lifecycle'' j),
      gsp_LoadBalancerIP = str_at ''loadBalancerIP'' j\<rparr>"

definition genServerStatus :: "json \<Rightarrow> GenServerStatus" where
  "genServerStatus j =
     \<lparr>gsx_State = str_at ''state'' j, gsx_AgentVersion = str_at ''agentVersion'' j,
      gsx_Players = num_at ''players'' j, gsx_PlayerCapacity = num_at ''playerCapacity'' j,
      gsx_Endpoints = map_option (map (\<lambda>e. \<lparr>ge_Name = str_at ''name'' e, ge_Address = str_at ''address'' e,
        ge_Port = num_at ''port'' e\<rparr>)) (list_at ''endpoints'' j)\<rparr>"

definition genServer :: "json \<Rightarrow> GenServer" where
  "genServer j =
     \<lparr>g_ApiVersion = str_at ''apiVersion'' j, g_Kind = str_at ''kind'' j,
      g_Metadata = map_option genMeta (at ''metadata'' j), g_Spec = map_option genServerSpec (at ''spec'' j),
      g_Status = map_option genServerStatus (at ''status'' j)\<rparr>"

definition genExecution :: "json \<Rightarrow> GenExecution" where
  "genExecution j =
     \<lparr>gx_Metadata = map_option genMeta (at ''metadata'' j),
      gx_Spec = map_option (\<lambda>s. \<lparr>gxs_ActionName = str_at ''actionName'' s, gxs_Caller = str_at ''caller'' s,
        gxs_Params = map_at ''params'' s\<rparr>) (at ''spec'' j),
      gx_Status = map_option (\<lambda>s. \<lparr>gxt_State = str_at ''state'' s, gxt_Result = str_at ''result'' s,
        gxt_Error = str_at ''error'' s, gxt_StartedAt = time_at ''startedAt'' s,
        gxt_CompletedAt = time_at ''completedAt'' s\<rparr>) (at ''status'' j)\<rparr>"

definition genSnapshot :: "json \<Rightarrow> GenSnapshot" where
  "genSnapshot j =
     \<lparr>gn_Metadata = map_option genMeta (at ''metadata'' j),
      gn_Spec = map_option (\<lambda>s. \<lparr>gns_GameServerRef = str_at ''gameServerRef'' s, gns_Schedule = str_at ''schedule'' s\<rparr>)
        (at ''spec'' j),
      gn_Status = map_option (\<lambda>s. \<lparr>gnt_State = str_at ''state'' s, gnt_ReadyAt = time_at ''readyAt'' s,
        gnt_Size = str_at ''size'' s\<rparr>) (at ''status'' j)\<rparr>"

definition genFleet :: "json \<Rightarrow> GenFleet" where
  "genFleet j =
     \<lparr>gf_ApiVersion = str_at ''apiVersion'' j, gf_Kind = str_at ''kind'' j,
      gf_Metadata = map_option genMeta (at ''metadata'' j),
      gf_Spec = map_option (\<lambda>s. \<lparr>gfs_Profile = str_at ''profile'' s, gfs_Replicas = num_at ''replicas'' s\<rparr>) (at ''spec'' j),
      gf_Status = map_option (\<lambda>s. \<lparr>gft_Replicas = num_at ''replicas'' s, gft_ReadyReplicas = num_at ''readyReplicas'' s,
        gft_UpdatedReplicas = num_at ''updatedReplicas'' s, gft_AvailableReplicas = num_at ''availableReplicas'' s\<rparr>)
        (at ''status'' j)\<rparr>"


section \<open>What the client writes and the control plane reads\<close>

definition genMetaJSON :: "GenMeta \<Rightarrow> json" where
  "genMetaJSON m =
     JObj (ptr_field ''name'' JStr (gm_Name m) @ ptr_field ''namespace'' JStr (gm_Namespace m) @
       ptr_field ''labels'' map_json (gm_Labels m))"

definition genStorageJSON :: "GenStorage \<Rightarrow> json" where
  "genStorageJSON st =
     JObj (ptr_field ''size'' JStr (gsto_Size st) @ ptr_field ''storageClass'' JStr (gsto_StorageClass st) @
       ptr_field ''snapshotRef'' (\<lambda>r. JObj (ptr_field ''name'' JStr (gr_Name r) @
         ptr_field ''namespace'' JStr (gr_Namespace r))) (gsto_SnapshotRef st))"

definition genLifecycleJSON :: "GenLifecycle \<Rightarrow> json" where
  "genLifecycleJSON l =
     JObj (ptr_field ''autoStart'' JBool (gl_AutoStart l) @
       ptr_field ''idleTimeoutSeconds'' JNum (gl_IdleTimeoutSeconds l))"

definition genSpecJSON :: "GenServerSpec \<Rightarrow> json" where
  "genSpecJSON s =
     JObj (ptr_field ''profile'' JStr (gsp_Profile s) @ ptr_field ''env'' map_json (gsp_Env s) @
       ptr_field ''storage'' genStorageJSON (gsp_Storage s) @ ptr_field ''lifecycle'' genLifecycleJSON (gsp_Lifecycle s) @
       ptr_field ''loadBalancerIP'' JStr (gsp_LoadBalancerIP s))"

definition genServerJSON :: "GenServer \<Rightarrow> json" where
  "genServerJSON g =
     JObj (ptr_field ''apiVersion'' JStr (g_ApiVersion g) @ ptr_field ''kind'' JStr (g_Kind g) @
       ptr_field ''metadata'' genMetaJSON (g_Metadata g) @ ptr_field ''spec'' genSpecJSON (g_Spec g))"

definition str_or :: "string option \<Rightarrow> string" where
  "str_or p = (case p of None \<Rightarrow> [] | Some s \<Rightarrow> s)"

text \<open>The specification and the name that \<^verbatim>\<open>json.NewDecoder\<close> puts into an empty GameServer.\<close>

definition decodeServerSpec :: "json \<Rightarrow> GameServerSpec" where
  "decodeServerSpec server =
     (let j = (case at ''spec'' server of None \<Rightarrow> JObj [] | Some s \<Rightarrow> s);
          storage = (case at ''storage'' j of None \<Rightarrow> JObj [] | Some s \<Rightarrow> s);
          lifecycle = (case at ''lifecycle'' j of None \<Rightarrow> JObj [] | Some l \<Rightarrow> l)
      in \<lparr>gs_Profile = str_or (str_at ''profile'' j), gs_Tier = str_or (str_at ''tier'' j),
          gs_Env = (case map_at ''env'' j of None \<Rightarrow> [] | Some m \<Rightarrow> m),
          gs_Storage =
            \<lparr>gss_Size = str_or (str_at ''size'' storage), gss_StorageClass = str_or (str_at ''storageClass'' storage),
             gss_SnapshotRef = map_option (\<lambda>r. \<lparr>sr_Name = str_or (str_at ''name'' r), sr_Namespace = str_or (str_at ''namespace'' r)\<rparr>)
               (at ''snapshotRef'' storage)\<rparr>,
          gs_Lifecycle =
            \<lparr>lc_IdleTimeoutSeconds = (case num_at ''idleTimeoutSeconds'' lifecycle of None \<Rightarrow> 0 | Some n \<Rightarrow> n),
             lc_AutoStart = bool_at ''autoStart'' lifecycle\<rparr>,
          gs_PriorityClassName = str_or (str_at ''priorityClassName'' j), gs_TopologySpreadConstraints = [],
          gs_LoadBalancerIP = str_or (str_at ''loadBalancerIP'' j)\<rparr>)"

definition decodeServerName :: "json \<Rightarrow> string" where
  "decodeServerName j = str_or (Option.bind (at ''metadata'' j) (str_at ''name''))"

end
