(* ===== verification/SDK_Properties.thy ===== *)
theory SDK_Properties
  imports SDK_Wire
begin

text \<open>
  Properties of the Go client: what survives the way of an object through JSON and the conversions, what the control
  plane makes of a created server, and when a method panics.
\<close>

lemmas field_defs = str_field_def num_field_def ptr_field_def map_field_def at_def deref_def str_or_def ptrOrNil_def
  mapOrNil_def deref_int32_def

lemma as_map_json [simp]: "as_map (map_json m) = Some m"
  by (simp add: map_json_def comp_def case_prod_beta)


section \<open>Conversions\<close>

lemma fromGenMeta_to:
  "fromGenMeta (g_Metadata (toGenGameServer gs)) = k_Metadata gs"
  by (simp add: fromGenMeta_def toGenGameServer_def Let_def field_defs)

lemma fromGenSpec_to:
  "int32_ok (kss_IdleTimeoutSeconds (k_Spec gs)) \<Longrightarrow>
     map_option fromGenSpec (g_Spec (toGenGameServer gs)) = Some (k_Spec gs)"
  by (cases "kss_SnapshotRef (k_Spec gs)")
    (auto simp: fromGenSpec_def toGenGameServer_def Let_def field_defs int32_id split: option.splits)

text \<open>
  Turning a server of the client into the generated model and back loses nothing of it but the status, which a
  client does not send: names, labels, environment, storage with its snapshot reference, lifecycle and address come
  back as they were.
\<close>

theorem sdk_server_roundtrip:
  assumes "int32_ok (kss_IdleTimeoutSeconds (k_Spec gs))"
  shows "fromGenGameServer (Some (toGenGameServer gs)) = gs\<lparr>k_Status := no_status\<rparr>"
proof -
  have "g_ApiVersion (toGenGameServer gs) = ptrOrNil (k_APIVersion gs)" "g_Kind (toGenGameServer gs) = ptrOrNil (k_Kind gs)"
    "g_Status (toGenGameServer gs) = None"
    by (simp_all add: toGenGameServer_def Let_def ptrOrNil_def)
  then show ?thesis
    using fromGenSpec_to [OF assms]
    by (auto simp: fromGenGameServer_def fromGenMeta_to deref_def ptrOrNil_def split: option.splits)
qed


definition ex_sdk_server :: "bool \<Rightarrow> int \<Rightarrow> SdkServer" where
  "ex_sdk_server auto idle =
     \<lparr>k_APIVersion = [], k_Kind = [], k_Metadata = no_meta\<lparr>km_Name := ''smp''\<rparr>,
      k_Spec = no_spec\<lparr>kss_Profile := ''paper'', kss_AutoStart := auto, kss_IdleTimeoutSeconds := idle\<rparr>,
      k_Status = no_status\<rparr>"

theorem sdk_server_roundtrip_witness:
  "fromGenGameServer (Some (toGenGameServer (ex_sdk_server False 300))) = (ex_sdk_server False 300)\<lparr>k_Status := no_status\<rparr>"
  using sdk_server_roundtrip [of "ex_sdk_server False 300"] by (simp add: ex_sdk_server_def int32_ok_def)


section \<open>How the client sees the objects of the control plane\<close>

lemma sees_meta:
  "fromGenMeta (Some (genMeta (metaJSON m))) =
     \<lparr>km_Name = om_Name m, km_Namespace = om_Namespace m,
      km_Labels = (if om_Labels m = [] then None else Some (om_Labels m))\<rparr>"
  by (simp add: fromGenMeta_def genMeta_def metaJSON_def field_defs)

lemma sees_endpoints:
  assumes "\<forall>e\<in>set es. int32_ok (ep_Port e)"
  shows "map ((\<lambda>e. \<lparr>ke_Name = deref (ge_Name e), ke_Address = deref (ge_Address e), ke_Port = deref_int32 (ge_Port e)\<rparr>) \<circ>
      (\<lambda>e. \<lparr>ge_Name = str_at ''name'' e, ge_Address = str_at ''address'' e, ge_Port = num_at ''port'' e\<rparr>) \<circ> endpointJSON) es =
    map (\<lambda>e. \<lparr>ke_Name = ep_Name e, ke_Address = ep_Address e, ke_Port = ep_Port e\<rparr>) es"
  using assms by (simp add: endpointJSON_def field_defs int32_id)

lemma sees_status:
  assumes "int32_ok (gst_Players st)" "int32_ok (gst_PlayerCapacity st)" "\<forall>e\<in>set (gst_Endpoints st). int32_ok (ep_Port e)"
  shows "fromGenStatus (genServerStatus (serverStatusJSON st)) =
    \<lparr>kst_State = gst_State st, kst_AgentVersion = gst_AgentVersion st, kst_Players = gst_Players st,
     kst_PlayerCapacity = gst_PlayerCapacity st,
     kst_Endpoints = map (\<lambda>e. \<lparr>ke_Name = ep_Name e, ke_Address = ep_Address e, ke_Port = ep_Port e\<rparr>) (gst_Endpoints st)\<rparr>"
proof -
  have "list_at ''endpoints'' (serverStatusJSON st) =
      (if gst_Endpoints st = [] then None else Some (map endpointJSON (gst_Endpoints st)))"
    by (simp add: serverStatusJSON_def field_defs split: option.splits)
  moreover have "deref (str_at ''state'' (serverStatusJSON st)) = gst_State st"
    "deref (str_at ''agentVersion'' (serverStatusJSON st)) = gst_AgentVersion st"
    "deref_int32 (num_at ''players'' (serverStatusJSON st)) = gst_Players st"
    "deref_int32 (num_at ''playerCapacity'' (serverStatusJSON st)) = gst_PlayerCapacity st"
    using assms by (auto simp: serverStatusJSON_def field_defs int32_id split: option.splits)
  ultimately show ?thesis
    using sees_endpoints [OF assms(3)] by (simp add: fromGenStatus_def genServerStatus_def comp_def)
qed

lemma sees_spec:
  assumes "int32_ok (lc_IdleTimeoutSeconds (gs_Lifecycle s))"
  shows "fromGenSpec (genServerSpec (serverSpecJSON s)) =
    \<lparr>kss_Profile = gs_Profile s, kss_Env = (if gs_Env s = [] then None else Some (gs_Env s)),
     kss_Size = gss_Size (gs_Storage s), kss_StorageClass = gss_StorageClass (gs_Storage s),
     kss_SnapshotRef = map_option (\<lambda>r. \<lparr>kr_Name = sr_Name r, kr_Namespace = sr_Namespace r\<rparr>) (gss_SnapshotRef (gs_Storage s)),
     kss_IdleTimeoutSeconds = lc_IdleTimeoutSeconds (gs_Lifecycle s),
     kss_AutoStart = (lc_AutoStart (gs_Lifecycle s) = Some True), kss_LoadBalancerIP = gs_LoadBalancerIP s\<rparr>"
proof -
  let ?j = "serverSpecJSON s"
  have "at ''storage'' ?j = Some (storageJSON (gs_Storage s))" "at ''lifecycle'' ?j = Some (lifecycleJSON (gs_Lifecycle s))"
    "str_at ''profile'' ?j = Some (gs_Profile s)"
    "map_at ''env'' ?j = (if gs_Env s = [] then None else Some (gs_Env s))"
    "deref (str_at ''loadBalancerIP'' ?j) = gs_LoadBalancerIP s"
    by (simp_all add: serverSpecJSON_def field_defs)
  moreover have "deref (gsto_Size (genStorage (storageJSON st))) = gss_Size st"
    "deref (gsto_StorageClass (genStorage (storageJSON st))) = gss_StorageClass st"
    "map_option (\<lambda>ref. \<lparr>kr_Name = deref (gr_Name ref), kr_Namespace = deref (gr_Namespace ref)\<rparr>)
       (gsto_SnapshotRef (genStorage (storageJSON st))) =
     map_option (\<lambda>r. \<lparr>kr_Name = sr_Name r, kr_Namespace = sr_Namespace r\<rparr>) (gss_SnapshotRef st)" for st
    by (cases "gss_SnapshotRef st"; simp add: genStorage_def storageJSON_def field_defs)+
  moreover have "deref_int32 (num_at ''idleTimeoutSeconds'' (lifecycleJSON (gs_Lifecycle s))) = lc_IdleTimeoutSeconds (gs_Lifecycle s)"
    "bool_at ''autoStart'' (lifecycleJSON (gs_Lifecycle s)) = lc_AutoStart (gs_Lifecycle s)"
    using assms by (cases "lc_AutoStart (gs_Lifecycle s)"; simp add: lifecycleJSON_def field_defs int32_id)+
  ultimately show ?thesis
    by (auto simp: fromGenSpec_def genServerSpec_def deref_def split: option.splits)
qed

text \<open>
  The client sees a server as it is: the metadata, the profile, environment, storage, idle timeout and address of
  its specification and the whole published status arrive unchanged. The exception is autoStart: a server that leaves
  it out, and so is meant to run, is shown with autoStart off.
\<close>

theorem sdk_sees_server:
  assumes "int32_ok (lc_IdleTimeoutSeconds (gs_Lifecycle (server_spec s)))"
    and "int32_ok (gst_Players (server_status s))" "int32_ok (gst_PlayerCapacity (server_status s))"
    and "\<forall>e\<in>set (gst_Endpoints (server_status s)). int32_ok (ep_Port e)"
    and "v = fromGenGameServer (Some (genServer (serverJSON s)))"
  shows "km_Name (k_Metadata v) = server_name s \<and> km_Namespace (k_Metadata v) = server_namespace s \<and>
    kss_Profile (k_Spec v) = gs_Profile (server_spec s) \<and>
    kss_Env (k_Spec v) = (if gs_Env (server_spec s) = [] then None else Some (gs_Env (server_spec s))) \<and>
    kss_Size (k_Spec v) = gss_Size (gs_Storage (server_spec s)) \<and>
    kss_IdleTimeoutSeconds (k_Spec v) = lc_IdleTimeoutSeconds (gs_Lifecycle (server_spec s)) \<and>
    kst_State (k_Status v) = gst_State (server_status s) \<and> kst_Players (k_Status v) = gst_Players (server_status s) \<and>
    kst_Endpoints (k_Status v) =
      map (\<lambda>e. \<lparr>ke_Name = ep_Name e, ke_Address = ep_Address e, ke_Port = ep_Port e\<rparr>) (gst_Endpoints (server_status s)) \<and>
    (kss_AutoStart (k_Spec v) \<noteq> AutoStartEnabled (gs_Lifecycle (server_spec s)) \<longleftrightarrow>
       lc_AutoStart (gs_Lifecycle (server_spec s)) = None)"
proof -
  have "v = \<lparr>k_APIVersion = [], k_Kind = [], k_Metadata = fromGenMeta (Some (genMeta (metaJSON (server_meta s)))),
      k_Spec = fromGenSpec (genServerSpec (serverSpecJSON (server_spec s))),
      k_Status = fromGenStatus (genServerStatus (serverStatusJSON (server_status s)))\<rparr>"
    by (simp add: assms(5) fromGenGameServer_def genServer_def serverJSON_def field_defs)
  then show ?thesis
    by (simp add: sees_meta sees_spec [OF assms(1)] sees_status [OF assms(2-4)] AutoStartEnabled_def split: option.splits)
qed


definition ex_crd_server :: GameServer where
  "ex_crd_server =
     \<lparr>server_meta = new_meta ''smp'' ''tenant-a'',
      server_spec = \<lparr>gs_Profile = ''paper'', gs_Tier = [], gs_Env = [(''EULA'', ''true'')],
        gs_Storage = \<lparr>gss_Size = ''10Gi'', gss_StorageClass = [], gss_SnapshotRef = None\<rparr>,
        gs_Lifecycle = \<lparr>lc_IdleTimeoutSeconds = 300, lc_AutoStart = None\<rparr>, gs_PriorityClassName = [],
        gs_TopologySpreadConstraints = [], gs_LoadBalancerIP = []\<rparr>,
      server_status = \<lparr>gst_State = ''Running'', gst_AgentVersion = ''1.0'', gst_Players = 3, gst_PlayerCapacity = 20,
        gst_LastActivity = None, gst_Endpoints = [\<lparr>ep_Name = ''game'', ep_Address = ''10.0.0.9'', ep_Port = 25565\<rparr>],
        gst_Conditions = []\<rparr>\<rparr>"

theorem sdk_sees_server_witness:
  "kst_Players (k_Status (fromGenGameServer (Some (genServer (serverJSON ex_crd_server))))) = 3 \<and>
   \<not> kss_AutoStart (k_Spec (fromGenGameServer (Some (genServer (serverJSON ex_crd_server)))))"
  using sdk_sees_server [of ex_crd_server, OF _ _ _ _ refl]
  by (simp add: ex_crd_server_def int32_ok_def AutoStartEnabled_def)

text \<open>
  The client never learns how an action or a snapshot ended: whatever the control plane knows, the result and the
  completion time of an execution are empty, and so are the state, readiness and size of a snapshot and the available
  replicas of a fleet, because the client reads fields the custom resources do not have. The state and the error of
  an execution do arrive.
\<close>

theorem sdk_results_lost:
  "kx_Result (fromGenExecution (genExecution (executionJSON x))) = [] \<and>
   kx_CompletedAt (fromGenExecution (genExecution (executionJSON x))) = None \<and>
   kx_State (fromGenExecution (genExecution (executionJSON x))) = aes_State (exec_status x) \<and>
   kx_Error (fromGenExecution (genExecution (executionJSON x))) = aes_Error (exec_status x) \<and>
   kn_State (fromGenSnapshot (genSnapshot (snapshotJSON s))) = [] \<and>
   kn_ReadyAt (fromGenSnapshot (genSnapshot (snapshotJSON s))) = None \<and>
   kn_Size (fromGenSnapshot (genSnapshot (snapshotJSON s))) = [] \<and>
   kf_AvailableReplicas (fromGenFleet (genFleet (fleetJSON f))) = 0"
proof -
  have "kx_Result (fromGenExecution (genExecution (executionJSON x))) = []"
    "kx_CompletedAt (fromGenExecution (genExecution (executionJSON x))) = None"
    "kx_State (fromGenExecution (genExecution (executionJSON x))) = aes_State (exec_status x)"
    "kx_Error (fromGenExecution (genExecution (executionJSON x))) = aes_Error (exec_status x)"
    by (simp_all add: fromGenExecution_def genExecution_def executionJSON_def field_defs split: option.splits)
  moreover have "kn_State (fromGenSnapshot (genSnapshot (snapshotJSON s))) = []"
    "kn_ReadyAt (fromGenSnapshot (genSnapshot (snapshotJSON s))) = None"
    "kn_Size (fromGenSnapshot (genSnapshot (snapshotJSON s))) = []"
    by (simp_all add: fromGenSnapshot_def genSnapshot_def snapshotJSON_def field_defs split: option.splits)
  moreover have "kf_AvailableReplicas (fromGenFleet (genFleet (fleetJSON f))) = 0"
    by (simp add: fromGenFleet_def genFleet_def fleetJSON_def field_defs)
  ultimately show ?thesis by simp
qed


section \<open>What the control plane makes of a created server\<close>

lemma at_ptr_field [simp]:
  "at k (JObj (ptr_field k' f p @ fs)) = (if k = k' \<and> p \<noteq> None then map_option f p else at k (JObj fs))"
  "at k (JObj (ptr_field k' f p)) = (if k = k' then map_option f p else None)"
  "at k (JObj []) = None"
  by (auto simp: at_def ptr_field_def split: option.splits)

lemma created_parts:
  "at ''metadata'' (genServerJSON g) = map_option genMetaJSON (g_Metadata g)"
  "at ''spec'' (genServerJSON g) = map_option genSpecJSON (g_Spec g)"
  by (simp_all add: genServerJSON_def)

lemma created_lifecycle:
  "gs_Lifecycle (decodeServerSpec (genServerJSON (toGenGameServer gs))) =
    \<lparr>lc_IdleTimeoutSeconds = kss_IdleTimeoutSeconds (k_Spec gs),
     lc_AutoStart = (if kss_AutoStart (k_Spec gs) \<or> kss_IdleTimeoutSeconds (k_Spec gs) \<noteq> 0
       then Some (kss_AutoStart (k_Spec gs)) else None)\<rparr>"
  by (simp add: decodeServerSpec_def created_parts toGenGameServer_def Let_def genSpecJSON_def genLifecycleJSON_def)

lemma created_storage:
  "gs_Storage (decodeServerSpec (genServerJSON (toGenGameServer gs))) =
    \<lparr>gss_Size = kss_Size (k_Spec gs), gss_StorageClass = kss_StorageClass (k_Spec gs),
     gss_SnapshotRef = map_option (\<lambda>r. \<lparr>sr_Name = kr_Name r, sr_Namespace = kr_Namespace r\<rparr>) (kss_SnapshotRef (k_Spec gs))\<rparr>"
  by (cases "kss_SnapshotRef (k_Spec gs)")
    (auto simp: decodeServerSpec_def created_parts toGenGameServer_def Let_def genSpecJSON_def genStorageJSON_def ptrOrNil_def
      str_or_def)

text \<open>
  C37. A server created through the client reaches the control plane with the name, profile, environment, storage and
  address the caller set. Its autoStart does not always: the server runs when the caller set autoStart, but also when
  the caller left it off together with the idle timeout; so the client cannot create a stopped server without an idle
  timeout, and setting only an idle timeout creates a stopped one.
\<close>

theorem sdk_created_server:
  "decodeServerName (genServerJSON (toGenGameServer gs)) = km_Name (k_Metadata gs) \<and>
   decodeServerSpec (genServerJSON (toGenGameServer gs)) =
     \<lparr>gs_Profile = kss_Profile (k_Spec gs), gs_Tier = [],
      gs_Env = (case kss_Env (k_Spec gs) of None \<Rightarrow> [] | Some m \<Rightarrow> m),
      gs_Storage = \<lparr>gss_Size = kss_Size (k_Spec gs), gss_StorageClass = kss_StorageClass (k_Spec gs),
        gss_SnapshotRef =
          map_option (\<lambda>r. \<lparr>sr_Name = kr_Name r, sr_Namespace = kr_Namespace r\<rparr>) (kss_SnapshotRef (k_Spec gs))\<rparr>,
      gs_Lifecycle = gs_Lifecycle (decodeServerSpec (genServerJSON (toGenGameServer gs))),
      gs_PriorityClassName = [], gs_TopologySpreadConstraints = [], gs_LoadBalancerIP = kss_LoadBalancerIP (k_Spec gs)\<rparr> \<and>
   lc_IdleTimeoutSeconds (gs_Lifecycle (decodeServerSpec (genServerJSON (toGenGameServer gs)))) =
     kss_IdleTimeoutSeconds (k_Spec gs) \<and>
   (AutoStartEnabled (gs_Lifecycle (decodeServerSpec (genServerJSON (toGenGameServer gs)))) \<longleftrightarrow>
      kss_AutoStart (k_Spec gs) \<or> kss_IdleTimeoutSeconds (k_Spec gs) = 0)"
proof -
  let ?s = "decodeServerSpec (genServerJSON (toGenGameServer gs))"
  have "gs_Profile ?s = kss_Profile (k_Spec gs)" "gs_Tier ?s = []" "gs_PriorityClassName ?s = []"
    "gs_TopologySpreadConstraints ?s = []" "gs_LoadBalancerIP ?s = kss_LoadBalancerIP (k_Spec gs)"
    "gs_Env ?s = (case kss_Env (k_Spec gs) of None \<Rightarrow> [] | Some m \<Rightarrow> m)"
    by (cases "kss_Env (k_Spec gs)"; simp add: decodeServerSpec_def created_parts toGenGameServer_def Let_def genSpecJSON_def
        ptrOrNil_def mapOrNil_def str_or_def)+
  moreover have "decodeServerName (genServerJSON (toGenGameServer gs)) = km_Name (k_Metadata gs)"
    by (simp add: decodeServerName_def created_parts toGenGameServer_def Let_def genMetaJSON_def str_or_def)
  ultimately show ?thesis
    using created_lifecycle [of gs] created_storage [of gs]
    by (cases ?s) (simp add: AutoStartEnabled_def)
qed


section \<open>Errors and panics\<close>

lemma result_exchange:
  "result (exchange E answer c expected use) w =
     (case answer E (calls w) c of
        Inl err \<Rightarrow> Returned (Inl err)
      | Inr r \<Rightarrow>
          if rsp_StatusCode r = expected then use (rsp_JSON r)
          else Returned (Inl (sdkApiError (sk_errorField E) (rsp_StatusCode r) (rsp_Body r))))"
  by (simp add: exchange_def result_fmap result_perform split: sum.splits)

text \<open>
  A method that reads a list, a profile or a reference panics exactly when the control plane (or a proxy before it)
  answers with the expected status and a body that is not JSON; reading one server does not panic there, but returns
  an empty server as if it existed. Every other status, and every transport error, is returned as an error.
\<close>

theorem sdk_panics_iff:
  "((\<exists>m. result (sdkListGameServers E) w = Panicked m) \<longleftrightarrow>
      (\<exists>r. sk_servers E (calls w) SdkListServers = Inr r \<and> rsp_StatusCode r = 200 \<and> rsp_JSON r = None)) \<and>
   ((\<exists>m. result (sdkGetProfile E name) w = Panicked m) \<longleftrightarrow>
      (\<exists>r. sk_profile E (calls w) (SdkGetProfile name) = Inr r \<and> rsp_StatusCode r = 200 \<and> rsp_JSON r = None)) \<and>
   ((\<exists>m. result (sdkExecuteAction E ns name action params) w = Panicked m) \<longleftrightarrow>
      (\<exists>r. sk_ref E (calls w) (SdkExecuteAction ns name action params) = Inr r \<and> rsp_StatusCode r = 201 \<and> rsp_JSON r = None)) \<and>
   (\<forall>m. result (sdkGetGameServer E ns name) w \<noteq> Panicked m) \<and>
   (\<forall>r. sk_server E (calls w) (SdkGetServer ns name) = Inr r \<and> rsp_StatusCode r = 200 \<and> rsp_JSON r = None \<longrightarrow>
      result (sdkGetGameServer E ns name) w = Returned (Inr (fromGenGameServer None)))"
  by (auto simp: sdkListGameServers_def sdkGetProfile_def sdkExecuteAction_def sdkGetGameServer_def result_exchange
      pointee_def split: sum.splits option.splits)

definition ex_sdk_env :: sdk_env where
  "ex_sdk_env =
     (let page = (\<lambda>_ _. Inr \<lparr>rsp_StatusCode = 200, rsp_Body = ''<html>'', rsp_JSON = None\<rparr>)
      in \<lparr>sk_servers = page, sk_server = (\<lambda>_ _. Inr \<lparr>rsp_StatusCode = 200, rsp_Body = ''<html>'', rsp_JSON = None\<rparr>),
          sk_sftp = (\<lambda>_ _. Inl (new_error ''down'')), sk_actions = (\<lambda>_ _. Inl (new_error ''down'')),
          sk_ref = (\<lambda>_ _. Inl (new_error ''down'')), sk_execution = (\<lambda>_ _. Inl (new_error ''down'')),
          sk_snapshots = (\<lambda>_ _. Inl (new_error ''down'')), sk_snapshot = (\<lambda>_ _. Inl (new_error ''down'')),
          sk_profiles = (\<lambda>_ _. Inl (new_error ''down'')), sk_profile = (\<lambda>_ _. Inl (new_error ''down'')),
          sk_fleets = (\<lambda>_ _. Inl (new_error ''down'')), sk_fleet = (\<lambda>_ _. Inl (new_error ''down'')),
          sk_empty = (\<lambda>_ _. Inl (new_error ''down'')), sk_errorField = (\<lambda>_. None)\<rparr>)"

theorem sdk_panics_iff_witness:
  "(\<exists>m. result (sdkListGameServers ex_sdk_env) \<lparr>calls = []\<rparr> = Panicked m) \<and>
   result (sdkGetGameServer ex_sdk_env ''a'' ''b'') \<lparr>calls = []\<rparr> = Returned (Inr (fromGenGameServer None))"
  using sdk_panics_iff [of ex_sdk_env "\<lparr>calls = []\<rparr>" "''b''" "''a''" "''x''" "[]"]
  by (simp add: ex_sdk_env_def Let_def)

end
