(* ===== verification/Cloud_Client.thy ===== *)
theory Cloud_Client
  imports SDK_Client
begin

text \<open>
  The client of the cloud API (\<^verbatim>\<open>internal/cloudapi/client.go\<close>). The generated HTTP client is an environment over the
  history of requests, as for the client of the control plane; of the generated models, the fields that the client
  and the command line tool read or set are modelled (the live part that \<^verbatim>\<open>GetServer\<close> adds to a server is only
  printed, and is left out).
\<close>

section \<open>Models\<close>

record CloudTenant =
  ct_Id :: string
  ct_Slug :: string
  ct_Name :: string

record CloudServer =
  cs_Id :: string
  cs_Name :: string
  cs_Profile :: string
  cs_Tier :: "string option"
  cs_Status :: string
  cs_Suspended :: "bool option"

record CreateServerRequest =
  csr_Name :: string
  csr_Profile :: string
  csr_Tier :: "string option"
  csr_Region :: "string option"
  csr_StorageSize :: "string option"
  csr_Env :: "labels option"

record CloudSnapshotStatus =
  css_State :: "string option"
  css_Size :: "string option"
  css_ReadyAt :: "time option"

record CloudSnapshot =
  csn_Name :: "string option option"
  csn_Status :: "CloudSnapshotStatus option"

record CloudAction =
  ca_Name :: "string option"
  ca_Description :: "string option"
  ca_Params :: "string list option"

record CatalogEntry =
  ce_Name :: string
  ce_DisplayName :: string
  ce_Category :: "string option"
  ce_Tiers :: "string list"
  ce_Regions :: "string list"

record CloudPlan =
  cp_Id :: string
  cp_DisplayName :: string
  cp_MaxServers :: int
  cp_MaxStorageGb :: int
  cp_Isolation :: string
  cp_MonthlyPriceCents :: "int option"

record CloudSubscription =
  cu_TenantId :: string
  cu_PlanId :: string
  cu_Status :: string
  cu_CurrentPeriodEnd :: "time option"
  cu_GraceUntil :: "time option"

record CloudAPIKey =
  ck_Id :: string
  ck_Name :: string
  ck_Prefix :: string
  ck_Scopes :: "string list"
  ck_ExpiresAt :: "time option"
  ck_CreatedAt :: time

record CreateAPIKeyRequest =
  ckr_Name :: string
  ckr_Scopes :: "string list option"

record APIKeyCreated =
  ckc_Name :: string
  ckc_Key :: string


section \<open>Requests\<close>

datatype cloud_call =
    ClListTenants
  | ClListServers string
  | ClGetServer string string
  | ClCreateServer string CreateServerRequest
  | ClDeleteServer string string
  | ClListSnapshots string string
  | ClCreateSnapshot string string
  | ClListActions string string
  | ClExecuteAction string string string labels
  | ClGetCatalog string
  | ClListPlans
  | ClGetSubscription string
  | ClListKeys string
  | ClCreateKey string CreateAPIKeyRequest
  | ClDeleteKey string string

type_synonym 'j cloud_answer = "cloud_call list \<Rightarrow> cloud_call \<Rightarrow> kerr + 'j response"

record cloud_api =
  cl_tenants :: "CloudTenant list cloud_answer"
  cl_servers :: "CloudServer list cloud_answer"
  cl_server :: "CloudServer cloud_answer"
  cl_snapshots :: "CloudSnapshot list cloud_answer"
  cl_snapshot :: "CloudSnapshot cloud_answer"
  cl_actions :: "CloudAction list cloud_answer"
  cl_ref :: "string cloud_answer"
  cl_catalog :: "CatalogEntry list cloud_answer"
  cl_plans :: "CloudPlan list cloud_answer"
  cl_subscription :: "CloudSubscription cloud_answer"
  cl_keys :: "CloudAPIKey list cloud_answer"
  cl_key :: "APIKeyCreated cloud_answer"
  cl_empty :: "unit cloud_answer"
  cl_errorField :: "string \<Rightarrow> string option"

text \<open>An error of the client: one from below, or the \<^verbatim>\<open>APIError\<close> of an unexpected status.\<close>

datatype cloud_err = CloudFault kerr | CloudAPIError int string

type_synonym ('m, 'a) cloud_prog = "((cloud_call, 'm) world_scheme, cloud_err + 'a) state"

definition cloudApiError :: "(string \<Rightarrow> string option) \<Rightarrow> int \<Rightarrow> string \<Rightarrow> cloud_err" where
  "cloudApiError errorField status body =
     CloudAPIError status (case errorField body of Some e \<Rightarrow> if e \<noteq> [] then e else body | None \<Rightarrow> body)"

definition errorText :: "cloud_err \<Rightarrow> kerr" where
  "errorText e =
     (case e of
        CloudFault err \<Rightarrow> err
      | CloudAPIError status msg \<Rightarrow> new_error (''cloudapi: status '' @ show_int status @ '': '' @ msg))"

definition NewCloudClient :: "(string \<Rightarrow> kerr option) \<Rightarrow> string \<Rightarrow> string \<Rightarrow> kerr + string \<times> labels" where
  "NewCloudClient parseRequestURI baseURL token =
     (case parseRequestURI baseURL of
        Some err \<Rightarrow> Inl (wrap_error (''cloudapi: invalid base URL '' @ quoted baseURL @ '': '') err)
      | None \<Rightarrow> Inr (TrimSuffix baseURL ''/'', sdkHeaders token))"

text \<open>The frame of a method; the model is the one decoded for the expected status, or nil.\<close>

definition cloudExchange :: "cloud_api \<Rightarrow> (cloud_api \<Rightarrow> 'j cloud_answer) \<Rightarrow> cloud_call \<Rightarrow> int \<Rightarrow> ('m, 'j option) cloud_prog" where
  "cloudExchange C answer c expected =
     fmap (\<lambda>resp. case resp of
         Inl err \<Rightarrow> Inl (CloudFault err)
       | Inr r \<Rightarrow>
           if rsp_StatusCode r \<noteq> expected then Inl (cloudApiError (cl_errorField C) (rsp_StatusCode r) (rsp_Body r))
           else Inr (rsp_JSON r))
       (perform c (\<lambda>h. answer C h c))"

text \<open>Methods that return a list give the empty list for nil.\<close>

definition cloudList :: "cloud_api \<Rightarrow> (cloud_api \<Rightarrow> 'j list cloud_answer) \<Rightarrow> cloud_call \<Rightarrow> ('m, 'j list) cloud_prog" where
  "cloudList C answer c =
     bindE (cloudExchange C answer c 200) (\<lambda>json.
       State_Monad.return (Inr (case json of None \<Rightarrow> [] | Some xs \<Rightarrow> xs)))"


section \<open>Methods\<close>

definition ListMyTenants :: "cloud_api \<Rightarrow> ('m, CloudTenant list) cloud_prog" where
  "ListMyTenants C = cloudList C cl_tenants ClListTenants"

text \<open>\<^verbatim>\<open>strings.EqualFold\<close> on ASCII text.\<close>

definition EqualFold :: "string \<Rightarrow> string \<Rightarrow> bool" where
  "EqualFold a b \<longleftrightarrow> ToLower a = ToLower b"

definition matchesTenant :: "string \<Rightarrow> CloudTenant \<Rightarrow> bool" where
  "matchesTenant ref t \<longleftrightarrow> ct_Id t = ref \<or> ct_Slug t = ref \<or> EqualFold (ct_Name t) ref"

definition joinNames :: "string list \<Rightarrow> string" where
  "joinNames names = (case names of [] \<Rightarrow> [] | n # ns \<Rightarrow> n @ concat (map (\<lambda>m. '', '' @ m) ns))"

definition chooseTenant :: "string \<Rightarrow> CloudTenant list \<Rightarrow> kerr + CloudTenant" where
  "chooseTenant ref tenants =
     (if ref = [] then
        (case tenants of
           [] \<Rightarrow> Inl (new_error ''cloudapi: you are not a member of any tenant'')
         | [t] \<Rightarrow> Inr t
         | _ \<Rightarrow> Inl (new_error (''cloudapi: multiple tenants - pass --tenant with one of: '' @
                  joinNames (map (\<lambda>t. ct_Slug t @ '' ('' @ ct_Id t @ '')'') tenants))))
      else (case find (matchesTenant ref) tenants of
          Some t \<Rightarrow> Inr t
        | None \<Rightarrow> Inl (new_error (''cloudapi: no tenant matching '' @ quoted ref @ '' (id, slug or name)''))))"

definition ResolveTenant :: "cloud_api \<Rightarrow> string \<Rightarrow> ('m, CloudTenant) cloud_prog" where
  "ResolveTenant C ref =
     bindE (ListMyTenants C) (\<lambda>tenants. State_Monad.return (map_err CloudFault (chooseTenant ref tenants)))"

definition cloudListServers :: "cloud_api \<Rightarrow> string \<Rightarrow> ('m, CloudServer list) cloud_prog" where
  "cloudListServers C tenantID = cloudList C cl_servers (ClListServers tenantID)"

definition cloudGetServer :: "cloud_api \<Rightarrow> string \<Rightarrow> string \<Rightarrow> ('m, CloudServer option) cloud_prog" where
  "cloudGetServer C tenantID serverID = cloudExchange C cl_server (ClGetServer tenantID serverID) 200"

definition cloudCreateServer :: "cloud_api \<Rightarrow> string \<Rightarrow> CreateServerRequest \<Rightarrow> ('m, CloudServer option) cloud_prog" where
  "cloudCreateServer C tenantID req = cloudExchange C cl_server (ClCreateServer tenantID req) 201"

definition cloudDeleteServer :: "cloud_api \<Rightarrow> string \<Rightarrow> string \<Rightarrow> ('m, unit) cloud_prog" where
  "cloudDeleteServer C tenantID serverID =
     bindE (cloudExchange C cl_empty (ClDeleteServer tenantID serverID) 204) (\<lambda>_. State_Monad.return (Inr ()))"

definition cloudListSnapshots :: "cloud_api \<Rightarrow> string \<Rightarrow> string \<Rightarrow> ('m, CloudSnapshot list) cloud_prog" where
  "cloudListSnapshots C tenantID serverID = cloudList C cl_snapshots (ClListSnapshots tenantID serverID)"

definition cloudCreateSnapshot :: "cloud_api \<Rightarrow> string \<Rightarrow> string \<Rightarrow> ('m, CloudSnapshot option) cloud_prog" where
  "cloudCreateSnapshot C tenantID serverID = cloudExchange C cl_snapshot (ClCreateSnapshot tenantID serverID) 201"

definition cloudListActions :: "cloud_api \<Rightarrow> string \<Rightarrow> string \<Rightarrow> ('m, CloudAction list) cloud_prog" where
  "cloudListActions C tenantID serverID = cloudList C cl_actions (ClListActions tenantID serverID)"

definition cloudExecuteAction :: "cloud_api \<Rightarrow> string \<Rightarrow> string \<Rightarrow> string \<Rightarrow> labels \<Rightarrow> ('m, string option) cloud_prog" where
  "cloudExecuteAction C tenantID serverID action params =
     cloudExchange C cl_ref (ClExecuteAction tenantID serverID action params) 202"

definition cloudGetCatalog :: "cloud_api \<Rightarrow> string \<Rightarrow> ('m, CatalogEntry list) cloud_prog" where
  "cloudGetCatalog C tenantID = cloudList C cl_catalog (ClGetCatalog tenantID)"

definition cloudListPlans :: "cloud_api \<Rightarrow> ('m, CloudPlan list) cloud_prog" where
  "cloudListPlans C = cloudList C cl_plans ClListPlans"

definition cloudGetSubscription :: "cloud_api \<Rightarrow> string \<Rightarrow> ('m, CloudSubscription option) cloud_prog" where
  "cloudGetSubscription C tenantID = cloudExchange C cl_subscription (ClGetSubscription tenantID) 200"

definition cloudListAPIKeys :: "cloud_api \<Rightarrow> string \<Rightarrow> ('m, CloudAPIKey list) cloud_prog" where
  "cloudListAPIKeys C tenantID = cloudList C cl_keys (ClListKeys tenantID)"

definition cloudCreateAPIKey :: "cloud_api \<Rightarrow> string \<Rightarrow> CreateAPIKeyRequest \<Rightarrow> ('m, APIKeyCreated option) cloud_prog" where
  "cloudCreateAPIKey C tenantID req = cloudExchange C cl_key (ClCreateKey tenantID req) 201"

definition cloudDeleteAPIKey :: "cloud_api \<Rightarrow> string \<Rightarrow> string \<Rightarrow> ('m, unit) cloud_prog" where
  "cloudDeleteAPIKey C tenantID keyID =
     bindE (cloudExchange C cl_empty (ClDeleteKey tenantID keyID) 204) (\<lambda>_. State_Monad.return (Inr ()))"

end
