(* ===== verification/Command_Line.thy ===== *)
theory Command_Line
  imports Cloud_Client
begin

text \<open>
  The command line tool (\<^verbatim>\<open>cmd/minato-ctl\<close>): the stored configuration of \<^verbatim>\<open>minato-ctl cloud\<close>, how the URL, the
  credential and the tenant of a command are found, and the commands. The world holds the stored configuration beside
  the requests to the cloud; flags, environment variables and the answers of the cloud (which depend on the URL and the
  credential that the client was made with) are the environment of a command. What a command prints is its result.
\<close>

section \<open>Configuration (cloud_config.go)\<close>

record cloudConfig =
  cc_URL :: string
  cc_APIKey :: string
  cc_SessionToken :: string

definition defaultCloudURL :: string where "defaultCloudURL = ''http://localhost:8080''"

text \<open>The configuration file: \<open>None\<close> when it does not exist.\<close>

record ctl_world = "cloud_call world" +
  cw_config :: "cloudConfig option"

record ctl_env =
  ct_api :: "string \<Rightarrow> string \<Rightarrow> cloud_api"
  ct_getenv :: "string \<Rightarrow> string"
  ct_urlFlag :: string
  ct_tenantFlag :: string
  ct_jsonFlag :: bool
  ct_parseURI :: "string \<Rightarrow> kerr option"
  ct_configPath :: string
  ct_readError :: "kerr option"
  ct_parseError :: "kerr option"
  ct_saveError :: "kerr option"
  ct_prompt :: "kerr + string"
  ct_formatTime :: "time \<Rightarrow> string"
  ct_formatDate :: "time \<Rightarrow> string"

type_synonym 'a ctl_prog = "(ctl_world, kerr + 'a) state"

text \<open>\<open>ct_readError\<close> and \<open>ct_parseError\<close> are failures with a file that exists, \<open>ct_saveError\<close> one to write it.\<close>

definition loadCloudConfig :: "ctl_env \<Rightarrow> cloudConfig ctl_prog" where
  "loadCloudConfig E = State (\<lambda>w.
     ((case cw_config w of
         None \<Rightarrow> Inr \<lparr>cc_URL = [], cc_APIKey = [], cc_SessionToken = []\<rparr>
       | Some cfg \<Rightarrow>
           (case ct_readError E of
              Some err \<Rightarrow> Inl (wrap_error (''read config '' @ ct_configPath E @ '': '') err)
            | None \<Rightarrow>
                (case ct_parseError E of
                   Some err \<Rightarrow> Inl (wrap_error (''parse config '' @ ct_configPath E @ '': '') err)
                 | None \<Rightarrow> Inr cfg))), w))"

definition saveCloudConfig :: "ctl_env \<Rightarrow> cloudConfig \<Rightarrow> unit ctl_prog" where
  "saveCloudConfig E cfg = State (\<lambda>w.
     (case ct_saveError E of
        Some err \<Rightarrow> (Inl err, w)
      | None \<Rightarrow> (Inr (), w\<lparr>cw_config := Some cfg\<rparr>)))"

definition resolveCloudURL :: "ctl_env \<Rightarrow> cloudConfig \<Rightarrow> string" where
  "resolveCloudURL E cfg =
     (if ct_urlFlag E \<noteq> [] then ct_urlFlag E
      else if ct_getenv E ''MINATO_CLOUD_URL'' \<noteq> [] then ct_getenv E ''MINATO_CLOUD_URL''
      else if cc_URL cfg \<noteq> [] then cc_URL cfg
      else defaultCloudURL)"

definition resolveCloudToken :: "ctl_env \<Rightarrow> cloudConfig \<Rightarrow> string \<times> string" where
  "resolveCloudToken E cfg =
     (if ct_getenv E ''MINATO_CLOUD_API_KEY'' \<noteq> [] then (ct_getenv E ''MINATO_CLOUD_API_KEY'', ''api-key (env)'')
      else if cc_APIKey cfg \<noteq> [] then (cc_APIKey cfg, ''api-key'')
      else if cc_SessionToken cfg \<noteq> [] then (cc_SessionToken cfg, ''session'')
      else ([], ''none''))"


section \<open>Clients and errors (cloud.go)\<close>

definition clientFor :: "ctl_env \<Rightarrow> string \<Rightarrow> string \<Rightarrow> kerr + cloud_api" where
  "clientFor E url token =
     (case NewCloudClient (ct_parseURI E) url token of Inl err \<Rightarrow> Inl err | Inr _ \<Rightarrow> Inr (ct_api E url token))"

definition newCloudClient :: "ctl_env \<Rightarrow> cloud_api ctl_prog" where
  "newCloudClient E =
     bindE (loadCloudConfig E) (\<lambda>cfg.
       State_Monad.return (clientFor E (resolveCloudURL E cfg) (fst (resolveCloudToken E cfg))))"

definition cloudErr :: "cloud_err \<Rightarrow> kerr" where
  "cloudErr err =
     (case err of
        CloudFault e \<Rightarrow> e
      | CloudAPIError status msg \<Rightarrow>
          if status = 401 then new_error (''not authenticated ('' @ msg @ '') - run `minato-ctl cloud login`'')
          else if status = 402 then
            new_error (''payment required ('' @ msg @ '') - subscribe to a plan first (see `minato-ctl cloud plans`)'')
          else if status = 403 then
            new_error (''forbidden ('' @ msg @ '') - check your tenant role, quota or API key scopes'')
          else if status = 404 then new_error (''not found: '' @ msg)
          else errorText err)"

definition mapped :: "(ctl_world, cloud_err + 'a) state \<Rightarrow> 'a ctl_prog" where
  "mapped m = fmap (map_err cloudErr) m"

definition newCloudClientForTenant :: "ctl_env \<Rightarrow> (cloud_api \<times> string) ctl_prog" where
  "newCloudClientForTenant E =
     bindE (newCloudClient E) (\<lambda>c.
     bindE (mapped (ResolveTenant c (ct_tenantFlag E))) (\<lambda>t.
       State_Monad.return (Inr (c, ct_Id t))))"


section \<open>Output\<close>

datatype cloud_value =
    CvTenants string string "CloudTenant list"
  | CvServers "CloudServer list"
  | CvServer "CloudServer option"
  | CvSnapshots "CloudSnapshot list"
  | CvSnapshot "CloudSnapshot option"
  | CvActions "CloudAction list"
  | CvRef "string option"
  | CvCatalog "CatalogEntry list"
  | CvPlans "CloudPlan list"
  | CvSubscription "CloudSubscription option"
  | CvKeys "CloudAPIKey list"
  | CvKey "APIKeyCreated option"

datatype ctl_output = OutJSON cloud_value | OutLine string | OutTable "string list" "string list list"

definition derefStr :: "string option \<Rightarrow> string" where
  "derefStr s = (case s of None \<Rightarrow> [] | Some v \<Rightarrow> v)"

definition derefTime :: "ctl_env \<Rightarrow> time option \<Rightarrow> string" where
  "derefTime E t = (case t of None \<Rightarrow> [] | Some v \<Rightarrow> ct_formatTime E v)"

definition derefBool :: "bool option \<Rightarrow> bool" where
  "derefBool b = (case b of None \<Rightarrow> False | Some v \<Rightarrow> v)"

definition FormatBool :: "bool \<Rightarrow> string" where
  "FormatBool b = (if b then ''true'' else ''false'')"

type_synonym command = "(ctl_world, ctl_output list outcome) state"

text \<open>A command runs a program and prints its value; its error is the command's error.\<close>

definition printing :: "'a ctl_prog \<Rightarrow> ('a \<Rightarrow> ctl_output list outcome) \<Rightarrow> command" where
  "printing m out = fmap (\<lambda>r. case r of Inl err \<Rightarrow> Returned (Inl err) | Inr a \<Rightarrow> out a) m"

definition printed :: "ctl_output list \<Rightarrow> ctl_output list outcome" where
  "printed os = Returned (Inr os)"

definition listing :: "ctl_env \<Rightarrow> cloud_value \<Rightarrow> string list \<Rightarrow> string list list \<Rightarrow> ctl_output list outcome" where
  "listing E v header rows = printed [if ct_jsonFlag E then OutJSON v else OutTable header rows]"

text \<open>The answer to a request for one object: printed as JSON, or read through its pointer.\<close>

definition reporting :: "ctl_env \<Rightarrow> cloud_value \<Rightarrow> ('j \<Rightarrow> ctl_output list) \<Rightarrow> 'j option \<Rightarrow> ctl_output list outcome" where
  "reporting E v out json =
     (if ct_jsonFlag E then printed [OutJSON v]
      else (case json of None \<Rightarrow> Panicked nil_dereference | Some j \<Rightarrow> printed (out j)))"

definition forTenant :: "ctl_env \<Rightarrow> (cloud_api \<Rightarrow> string \<Rightarrow> (ctl_world, cloud_err + 'a) state) \<Rightarrow> 'a ctl_prog" where
  "forTenant E request = bindE (newCloudClientForTenant E) (\<lambda>(c, tenantID). mapped (request c tenantID))"


section \<open>Login, logout, whoami (cloud.go)\<close>

definition acquireSessionToken :: "ctl_env \<Rightarrow> kerr + string" where
  "acquireSessionToken E =
     (case ct_prompt E of
        Inl err \<Rightarrow> Inl err
      | Inr line \<Rightarrow> if TrimSpace line = [] then Inl (new_error ''no token provided'') else Inr (TrimSpace line))"

definition withCredential :: "ctl_env \<Rightarrow> string \<Rightarrow> cloudConfig \<Rightarrow> kerr + cloudConfig" where
  "withCredential E apiKeyFlag cfg =
     (if apiKeyFlag \<noteq> [] then
        (if \<not> HasPrefix apiKeyFlag ''mk_''
         then Inl (new_error (''tenant API keys start with mk_ - got '' @ quoted apiKeyFlag))
         else Inr (cfg\<lparr>cc_APIKey := apiKeyFlag, cc_SessionToken := []\<rparr>))
      else (case acquireSessionToken E of
          Inl err \<Rightarrow> Inl err
        | Inr tok \<Rightarrow> Inr (cfg\<lparr>cc_SessionToken := tok, cc_APIKey := []\<rparr>)))"

definition tenantRows :: "CloudTenant list \<Rightarrow> ctl_output" where
  "tenantRows tenants =
     OutTable [''TENANT ID'', ''SLUG'', ''NAME''] (map (\<lambda>t. [ct_Id t, ct_Slug t, ct_Name t]) tenants)"

definition login :: "ctl_env \<Rightarrow> string \<Rightarrow> (string \<times> string \<times> CloudTenant list) ctl_prog" where
  "login E apiKeyFlag =
     bindE (loadCloudConfig E) (\<lambda>cfg.
       let url = resolveCloudURL E cfg
       in bindE (State_Monad.return (withCredential E apiKeyFlag (cfg\<lparr>cc_URL := url\<rparr>))) (\<lambda>cfg.
          bindE (State_Monad.return (clientFor E url (fst (resolveCloudToken E cfg)))) (\<lambda>c.
          bindE (mapped (ListMyTenants c)) (\<lambda>tenants.
          bindE (saveCloudConfig E cfg) (\<lambda>_.
            State_Monad.return (Inr (url, snd (resolveCloudToken E cfg), tenants)))))))"

definition cloudLoginCmd :: "ctl_env \<Rightarrow> string \<Rightarrow> command" where
  "cloudLoginCmd E apiKeyFlag =
     printing (login E apiKeyFlag) (\<lambda>(url, mode, tenants). printed
       [OutLine (''Logged in to '' @ url @ '' ('' @ mode @ ''). Credentials stored in '' @ ct_configPath E),
        tenantRows tenants])"

definition cloudLogoutCmd :: "ctl_env \<Rightarrow> command" where
  "cloudLogoutCmd E =
     printing (bindE (loadCloudConfig E) (\<lambda>cfg. saveCloudConfig E (cfg\<lparr>cc_APIKey := [], cc_SessionToken := []\<rparr>)))
       (\<lambda>_. printed [OutLine ''Logged out; stored credentials removed.''])"

definition cloudWhoamiCmd :: "ctl_env \<Rightarrow> command" where
  "cloudWhoamiCmd E =
     printing
       (bindE (loadCloudConfig E) (\<lambda>cfg.
        bindE (State_Monad.return (clientFor E (resolveCloudURL E cfg) (fst (resolveCloudToken E cfg)))) (\<lambda>c.
        bindE (mapped (ListMyTenants c)) (\<lambda>tenants.
          State_Monad.return (Inr (resolveCloudURL E cfg, snd (resolveCloudToken E cfg), tenants))))))
       (\<lambda>(url, mode, tenants).
          printed (if ct_jsonFlag E then [OutJSON (CvTenants url mode tenants)]
                   else [OutLine (''URL:  '' @ url), OutLine (''Auth: '' @ mode), tenantRows tenants]))"


section \<open>Servers (cloud_servers.go)\<close>

definition cloudServersListCmd :: "ctl_env \<Rightarrow> command" where
  "cloudServersListCmd E =
     printing (forTenant E (\<lambda>c tenantID. cloudListServers c tenantID)) (\<lambda>servers.
       listing E (CvServers servers) [''ID'', ''NAME'', ''PROFILE'', ''TIER'', ''STATUS'', ''SUSPENDED'']
         (map (\<lambda>s. [cs_Id s, cs_Name s, cs_Profile s, derefStr (cs_Tier s), cs_Status s,
                     FormatBool (derefBool (cs_Suspended s))]) servers))"

definition cloudServersGetCmd :: "ctl_env \<Rightarrow> string \<Rightarrow> command" where
  "cloudServersGetCmd E serverID =
     printing (forTenant E (\<lambda>c tenantID. cloudGetServer c tenantID serverID)) (\<lambda>server. printed [OutJSON (CvServer server)])"

definition createRequest :: "string \<Rightarrow> string \<Rightarrow> string \<Rightarrow> string \<Rightarrow> string \<Rightarrow> labels \<Rightarrow> CreateServerRequest" where
  "createRequest name profile tier region storage env =
     \<lparr>csr_Name = name, csr_Profile = profile,
      csr_Tier = (if tier \<noteq> [] then Some tier else None),
      csr_Region = (if region \<noteq> [] then Some region else None),
      csr_StorageSize = (if storage \<noteq> [] then Some storage else None),
      csr_Env = (if length env > 0 then Some env else None)\<rparr>"

definition cloudServerCreateCmd ::
    "ctl_env \<Rightarrow> string \<Rightarrow> string \<Rightarrow> string \<Rightarrow> string \<Rightarrow> string \<Rightarrow> labels \<Rightarrow> command" where
  "cloudServerCreateCmd E name profile tier region storage env =
     printing (forTenant E (\<lambda>c tenantID. cloudCreateServer c tenantID (createRequest name profile tier region storage env)))
       (\<lambda>server. reporting E (CvServer server) (\<lambda>s. [OutLine (''Server '' @ cs_Name s @ '' ('' @ cs_Id s @
          '') created: profile='' @ cs_Profile s @ '' status='' @ cs_Status s)]) server)"

definition cloudServersDeleteCmd :: "ctl_env \<Rightarrow> string \<Rightarrow> command" where
  "cloudServersDeleteCmd E serverID =
     printing (forTenant E (\<lambda>c tenantID. cloudDeleteServer c tenantID serverID))
       (\<lambda>_. printed [OutLine (''Server '' @ serverID @ '' deleted.'')])"


section \<open>Snapshots (cloud_snapshots.go)\<close>

definition snapshotName :: "CloudSnapshot \<Rightarrow> string" where
  "snapshotName s = (case csn_Name s of None \<Rightarrow> [] | Some n \<Rightarrow> derefStr n)"

definition cloudSnapshotsListCmd :: "ctl_env \<Rightarrow> string \<Rightarrow> command" where
  "cloudSnapshotsListCmd E serverID =
     printing (forTenant E (\<lambda>c tenantID. cloudListSnapshots c tenantID serverID)) (\<lambda>snapshots.
       listing E (CvSnapshots snapshots) [''NAME'', ''STATE'', ''SIZE'', ''READY AT'']
         (map (\<lambda>s. snapshotName s #
            (case csn_Status s of
               None \<Rightarrow> [[], [], []]
             | Some st \<Rightarrow> [derefStr (css_State st), derefStr (css_Size st), derefTime E (css_ReadyAt st)])) snapshots))"

definition cloudSnapshotsCreateCmd :: "ctl_env \<Rightarrow> string \<Rightarrow> command" where
  "cloudSnapshotsCreateCmd E serverID =
     printing (forTenant E (\<lambda>c tenantID. cloudCreateSnapshot c tenantID serverID)) (\<lambda>snapshot.
       reporting E (CvSnapshot snapshot) (\<lambda>s. [OutLine (''Snapshot '' @ snapshotName s @ '' created.'')]) snapshot)"


section \<open>Actions (cloud_actions.go)\<close>

definition cloudActionsListCmd :: "ctl_env \<Rightarrow> string \<Rightarrow> command" where
  "cloudActionsListCmd E serverID =
     printing (forTenant E (\<lambda>c tenantID. cloudListActions c tenantID serverID)) (\<lambda>actions.
       listing E (CvActions actions) [''NAME'', ''DESCRIPTION'', ''PARAMS'']
         (map (\<lambda>a. [derefStr (ca_Name a), derefStr (ca_Description a),
            join_char (CHR '','') (case ca_Params a of None \<Rightarrow> [] | Some ps \<Rightarrow> sort ps)]) actions))"

definition cloudActionsRunCmd :: "ctl_env \<Rightarrow> string \<Rightarrow> string \<Rightarrow> labels \<Rightarrow> command" where
  "cloudActionsRunCmd E serverID action params =
     printing (forTenant E (\<lambda>c tenantID. cloudExecuteAction c tenantID serverID action params)) (\<lambda>ref.
       reporting E (CvRef ref) (\<lambda>name. [OutLine (''Action '' @ quoted action @ '' started on server '' @ serverID @
         '' (execution '' @ name @ '').'')]) ref)"


section \<open>Catalogue, plans, subscription (cloud_billing.go)\<close>

definition cloudCatalogCmd :: "ctl_env \<Rightarrow> command" where
  "cloudCatalogCmd E =
     printing (forTenant E (\<lambda>c tenantID. cloudGetCatalog c tenantID)) (\<lambda>entries.
       listing E (CvCatalog entries) [''NAME'', ''DISPLAY NAME'', ''CATEGORY'', ''TIERS'', ''REGIONS'']
         (map (\<lambda>e. [ce_Name e, ce_DisplayName e, derefStr (ce_Category e), join_char (CHR '','') (ce_Tiers e),
                     join_char (CHR '','') (ce_Regions e)]) entries))"

text \<open>Cents as a decimal with two places, exact for the prices a float64 holds.\<close>

definition showPrice :: "int \<Rightarrow> string" where
  "showPrice cents =
     (if cents < 0 then ''-'' else []) @ show_int (\<bar>cents\<bar> div 100) @ ''.'' @
     show_int (\<bar>cents\<bar> mod 100 div 10) @ show_int (\<bar>cents\<bar> mod 10)"

definition cloudPlansCmd :: "ctl_env \<Rightarrow> command" where
  "cloudPlansCmd E =
     printing (bindE (newCloudClient E) (\<lambda>c. mapped (cloudListPlans c))) (\<lambda>plans.
       listing E (CvPlans plans) [''ID'', ''NAME'', ''MAX SERVERS'', ''MAX STORAGE (GB)'', ''ISOLATION'', ''PRICE/MONTH'']
         (map (\<lambda>p. [cp_Id p, cp_DisplayName p, show_int (cp_MaxServers p), show_int (cp_MaxStorageGb p), cp_Isolation p,
                     (case cp_MonthlyPriceCents p of None \<Rightarrow> [] | Some cents \<Rightarrow> showPrice cents)]) plans))"

definition cloudSubscriptionCmd :: "ctl_env \<Rightarrow> command" where
  "cloudSubscriptionCmd E =
     printing (forTenant E (\<lambda>c tenantID. cloudGetSubscription c tenantID)) (\<lambda>sub.
       reporting E (CvSubscription sub) (\<lambda>s. [OutTable [''TENANT'', ''PLAN'', ''STATUS'', ''PERIOD END'', ''GRACE UNTIL'']
         [[cu_TenantId s, cu_PlanId s, cu_Status s, derefTime E (cu_CurrentPeriodEnd s), derefTime E (cu_GraceUntil s)]]]) sub)"


section \<open>API keys (cloud_apikeys.go)\<close>

definition cloudAPIKeysListCmd :: "ctl_env \<Rightarrow> command" where
  "cloudAPIKeysListCmd E =
     printing (forTenant E (\<lambda>c tenantID. cloudListAPIKeys c tenantID)) (\<lambda>keys.
       listing E (CvKeys keys) [''ID'', ''NAME'', ''PREFIX'', ''SCOPES'', ''EXPIRES'', ''CREATED'']
         (map (\<lambda>k. [ck_Id k, ck_Name k, ck_Prefix k, join_char (CHR '','') (ck_Scopes k), derefTime E (ck_ExpiresAt k),
                     ct_formatDate E (ck_CreatedAt k)]) keys))"

definition cloudAPIKeyCreateCmd :: "ctl_env \<Rightarrow> string \<Rightarrow> string list \<Rightarrow> command" where
  "cloudAPIKeyCreateCmd E name scopes =
     printing (forTenant E (\<lambda>c tenantID. cloudCreateAPIKey c tenantID
         \<lparr>ckr_Name = name, ckr_Scopes = (if length scopes > 0 then Some scopes else None)\<rparr>)) (\<lambda>key.
       reporting E (CvKey key) (\<lambda>k. [OutLine (''API key '' @ quoted (ckc_Name k) @
         '' created. Store this key now - it is shown only once:''), OutLine (ckc_Key k)]) key)"

definition cloudAPIKeysDeleteCmd :: "ctl_env \<Rightarrow> string \<Rightarrow> command" where
  "cloudAPIKeysDeleteCmd E keyID =
     printing (forTenant E (\<lambda>c tenantID. cloudDeleteAPIKey c tenantID keyID))
       (\<lambda>_. printed [OutLine (''API key '' @ keyID @ '' deleted.'')])"


section \<open>Commands of the control plane (main.go)\<close>

text \<open>The persistent flags; the answers of the control plane depend on the address and the key of the client.\<close>

record cp_flags =
  cf_serverAddr :: string
  cf_namespace :: string
  cf_apiKey :: string
  cf_parseURI :: "string \<Rightarrow> kerr option"
  cf_api :: "string \<Rightarrow> string \<Rightarrow> sdk_env"

datatype sdk_value =
    SvServers "SdkServer list"
  | SvServer SdkServer
  | SvRef string
  | SvFleets "SdkFleet list"
  | SvFleet SdkFleet
  | SvProfiles "SdkProfile list"
  | SvProfile SdkProfile
  | SvSnapshots "SdkSnapshot list"
  | SvSnapshot SdkSnapshot

definition shownAs :: "('a \<Rightarrow> sdk_value) \<Rightarrow> 'a outcome \<Rightarrow> sdk_value outcome" where
  "shownAs f r = (case r of Returned (Inl err) \<Rightarrow> Returned (Inl err) | Returned (Inr a) \<Rightarrow> Returned (Inr (f a)) | Panicked m \<Rightarrow> Panicked m)"

definition withClient :: "cp_flags \<Rightarrow> ('a \<Rightarrow> sdk_value) \<Rightarrow> (sdk_env \<Rightarrow> 'a sdk_prog) \<Rightarrow> sdk_value sdk_prog" where
  "withClient F f m =
     (case NewSDKClient (cf_parseURI F) (cf_serverAddr F) (cf_apiKey F) of
        Inl err \<Rightarrow> State_Monad.return (Returned (Inl err))
      | Inr _ \<Rightarrow> fmap (shownAs f) (m (cf_api F (cf_serverAddr F) (cf_apiKey F))))"

definition serverListCmd :: "cp_flags \<Rightarrow> sdk_value sdk_prog" where
  "serverListCmd F = withClient F SvServers sdkListGameServers"

definition serverGetCmd :: "cp_flags \<Rightarrow> string \<Rightarrow> sdk_value sdk_prog" where
  "serverGetCmd F name = withClient F SvServer (\<lambda>E. sdkGetGameServer E (cf_namespace F) name)"

text \<open>The arguments \<^verbatim>\<open>key=value\<close> after the server and the action; an argument without \<^verbatim>\<open>=\<close> is dropped.\<close>

definition actionParams :: "string list \<Rightarrow> labels" where
  "actionParams args =
     fold (\<lambda>arg params. case SplitN2 ''='' arg of None \<Rightarrow> params | Some (k, v) \<Rightarrow> map_put k v params) args []"

definition serverActionCmd :: "cp_flags \<Rightarrow> string \<Rightarrow> string \<Rightarrow> string list \<Rightarrow> sdk_value sdk_prog" where
  "serverActionCmd F name action args =
     withClient F SvRef (\<lambda>E. sdkExecuteAction E (cf_namespace F) name action (actionParams args))"

definition fleetListCmd :: "cp_flags \<Rightarrow> sdk_value sdk_prog" where
  "fleetListCmd F = withClient F SvFleets sdkListGameServerFleets"

definition fleetGetCmd :: "cp_flags \<Rightarrow> string \<Rightarrow> sdk_value sdk_prog" where
  "fleetGetCmd F name = withClient F SvFleet (\<lambda>E. sdkGetGameServerFleet E (cf_namespace F) name)"

definition profileListCmd :: "cp_flags \<Rightarrow> sdk_value sdk_prog" where
  "profileListCmd F = withClient F SvProfiles sdkListProfiles"

definition profileGetCmd :: "cp_flags \<Rightarrow> string \<Rightarrow> sdk_value sdk_prog" where
  "profileGetCmd F name = withClient F SvProfile (\<lambda>E. sdkGetProfile E name)"

definition snapshotListCmd :: "cp_flags \<Rightarrow> string \<Rightarrow> sdk_value sdk_prog" where
  "snapshotListCmd F server = withClient F SvSnapshots (\<lambda>E. sdkListSnapshots E (cf_namespace F) server)"

definition snapshotCreateCmd :: "cp_flags \<Rightarrow> string \<Rightarrow> sdk_value sdk_prog" where
  "snapshotCreateCmd F server = withClient F SvSnapshot (\<lambda>E. sdkCreateSnapshot E (cf_namespace F) server)"

end
