(* ===== verification/Command_Line_Properties.thy ===== *)
theory Command_Line_Properties
  imports Command_Line
begin

text \<open>
  Properties of the command line tool: which tenant the cloud commands touch, and which credential a login verifies
  and stores.
\<close>

section \<open>The tenant of a command\<close>

fun call_tenant :: "cloud_call \<Rightarrow> string option" where
  "call_tenant ClListTenants = None"
| "call_tenant (ClListServers t) = Some t"
| "call_tenant (ClGetServer t _) = Some t"
| "call_tenant (ClCreateServer t _) = Some t"
| "call_tenant (ClDeleteServer t _) = Some t"
| "call_tenant (ClListSnapshots t _) = Some t"
| "call_tenant (ClCreateSnapshot t _) = Some t"
| "call_tenant (ClListActions t _) = Some t"
| "call_tenant (ClExecuteAction t _ _ _) = Some t"
| "call_tenant (ClGetCatalog t) = Some t"
| "call_tenant ClListPlans = None"
| "call_tenant (ClGetSubscription t) = Some t"
| "call_tenant (ClListKeys t) = Some t"
| "call_tenant (ClCreateKey t _) = Some t"
| "call_tenant (ClDeleteKey t _) = Some t"

text \<open>The commands that work on a tenant.\<close>

definition tenant_commands :: "ctl_env \<Rightarrow> command set" where
  "tenant_commands E =
     {cloudServersListCmd E, cloudCatalogCmd E, cloudSubscriptionCmd E, cloudAPIKeysListCmd E} \<union>
     (\<Union>i. {cloudServersGetCmd E i, cloudServersDeleteCmd E i, cloudSnapshotsListCmd E i, cloudSnapshotsCreateCmd E i,
            cloudActionsListCmd E i, cloudAPIKeysDeleteCmd E i}) \<union>
     (\<Union>n p t r s e. {cloudServerCreateCmd E n p t r s e}) \<union>
     (\<Union>i a ps. {cloudActionsRunCmd E i a ps}) \<union> (\<Union>n ss. {cloudAPIKeyCreateCmd E n ss})"

text \<open>The tenant that the flag names among those the cloud lists for the stored credential.\<close>

definition designated :: "ctl_env \<Rightarrow> ctl_world \<Rightarrow> string \<Rightarrow> bool" where
  "designated E w tenantID \<longleftrightarrow>
     (\<exists>cfg r tenants t.
        result (loadCloudConfig E) w = Inr cfg \<and>
        cl_tenants (ct_api E (resolveCloudURL E cfg) (fst (resolveCloudToken E cfg))) (calls w) ClListTenants = Inr r \<and>
        rsp_StatusCode r = 200 \<and> rsp_JSON r = Some tenants \<and> t \<in> set tenants \<and> ct_Id t = tenantID \<and>
        (if ct_tenantFlag E = [] then tenants = [t] else matchesTenant (ct_tenantFlag E) t))"

lemma run_load: "run_state (loadCloudConfig E) w = (result (loadCloudConfig E) w, w)"
  by (simp add: loadCloudConfig_def result_def)

lemma run_tenants:
  "run_state (ListMyTenants C) w =
     ((case cl_tenants C (calls w) ClListTenants of
         Inl err \<Rightarrow> Inl (CloudFault err)
       | Inr r \<Rightarrow>
           if rsp_StatusCode r = 200 then Inr (case rsp_JSON r of None \<Rightarrow> [] | Some ts \<Rightarrow> ts)
           else Inl (cloudApiError (cl_errorField C) (rsp_StatusCode r) (rsp_Body r))),
      w\<lparr>calls := calls w @ [ClListTenants]\<rparr>)"
  by (simp add: ListMyTenants_def cloudList_def cloudExchange_def io_simps split: sum.splits)

lemma chooseTenant_Inr:
  "chooseTenant ref tenants = Inr t \<Longrightarrow>
     t \<in> set tenants \<and> (if ref = [] then tenants = [t] else matchesTenant ref t)"
  by (auto simp: chooseTenant_def find_Some_iff split: if_splits list.splits option.splits)

lemma run_forTenant_client:
  "(\<exists>err w' cs. run_state (newCloudClientForTenant E) w = (Inl err, w') \<and> calls w' = calls w @ cs \<and> set cs \<subseteq> {ClListTenants}) \<or>
   (\<exists>C tid. run_state (newCloudClientForTenant E) w = (Inr (C, tid), w\<lparr>calls := calls w @ [ClListTenants]\<rparr>) \<and> designated E w tid)"
proof (cases "result (loadCloudConfig E) w")
  case (Inl err)
  then show ?thesis
    by (auto simp: newCloudClientForTenant_def newCloudClient_def io_simps run_load)
next
  case (Inr cfg)
  let ?url = "resolveCloudURL E cfg" and ?token = "fst (resolveCloudToken E cfg)"
  let ?C = "ct_api E ?url ?token"
  show ?thesis
  proof (cases "clientFor E ?url ?token")
    case (Inl err)
    with Inr show ?thesis
      by (auto simp: newCloudClientForTenant_def newCloudClient_def io_simps run_load)
  next
    case (Inr C)
    then have C: "C = ?C" by (auto simp: clientFor_def split: sum.splits)
    show ?thesis
    proof (cases "cl_tenants ?C (calls w) ClListTenants")
      case (Inl err)
      with Inr C \<open>result (loadCloudConfig E) w = Inr cfg\<close> show ?thesis
        by (auto simp: newCloudClientForTenant_def newCloudClient_def mapped_def ResolveTenant_def io_simps run_load run_tenants
            map_err_def)
    next
      case (Inr r)
      let ?ts = "case rsp_JSON r of None \<Rightarrow> [] | Some ts \<Rightarrow> ts"
      have run: "run_state (newCloudClientForTenant E) w =
          ((if rsp_StatusCode r = 200
            then (case chooseTenant (ct_tenantFlag E) ?ts of Inl err \<Rightarrow> Inl err | Inr t \<Rightarrow> Inr (?C, ct_Id t))
            else Inl (cloudErr (cloudApiError (cl_errorField ?C) (rsp_StatusCode r) (rsp_Body r)))),
           w\<lparr>calls := calls w @ [ClListTenants]\<rparr>)"
        using Inr C \<open>clientFor E ?url ?token = Inr C\<close> \<open>result (loadCloudConfig E) w = Inr cfg\<close>
        by (auto simp: newCloudClientForTenant_def newCloudClient_def mapped_def ResolveTenant_def io_simps run_load run_tenants
            map_err_def cloudErr_def split: sum.splits option.splits)
      have "designated E w (ct_Id t)" if "rsp_StatusCode r = 200" "chooseTenant (ct_tenantFlag E) ?ts = Inr t" for t
        using chooseTenant_Inr [OF that(2)] that(1) Inr \<open>result (loadCloudConfig E) w = Inr cfg\<close>
        by (fastforce simp: designated_def split: option.splits)
      with run show ?thesis by (auto split: sum.splits if_splits)
    qed
  qed
qed


lemma issued_forTenant:
  assumes request: "\<And>C tid v. \<exists>cs. calls (snd (run_state (request C tid) v)) = calls v @ cs \<and> (\<forall>c\<in>set cs. call_tenant c = Some tid)"
    and c: "c \<in> set (issued (printing (forTenant E request) out) w)" "call_tenant c = Some tid"
  shows "designated E w tid"
  using run_forTenant_client [of E w]
proof (elim disjE exE conjE)
  fix err w' cs
  assume "run_state (newCloudClientForTenant E) w = (Inl err, w')" "calls w' = calls w @ cs" "set cs \<subseteq> {ClListTenants}"
  with c show ?thesis
    by (auto simp: issued_def final_def printing_def forTenant_def io_simps)
next
  fix C tid'
  assume run: "run_state (newCloudClientForTenant E) w = (Inr (C, tid'), w\<lparr>calls := calls w @ [ClListTenants]\<rparr>)"
    and "designated E w tid'"
  obtain cs where cs: "calls (snd (run_state (request C tid') (w\<lparr>calls := calls w @ [ClListTenants]\<rparr>))) =
      calls w @ ClListTenants # cs" "\<forall>c\<in>set cs. call_tenant c = Some tid'"
    using request [of C tid' "w\<lparr>calls := calls w @ [ClListTenants]\<rparr>"] by auto
  have "issued (printing (forTenant E request) out) w = ClListTenants # cs"
    using run cs(1) by (auto simp: issued_def final_def printing_def forTenant_def mapped_def io_simps split: prod.splits)
  with c cs(2) \<open>designated E w tid'\<close> show ?thesis by auto
qed

lemma cloudExchange_calls:
  "calls (snd (run_state (cloudExchange C answer c expected) v)) = calls v @ [c]"
  by (simp add: cloudExchange_def io_simps)

lemma cloudList_calls: "calls (snd (run_state (cloudList C answer c) v)) = calls v @ [c]"
  using cloudExchange_calls [of C answer c 200 v] by (auto simp: cloudList_def io_simps split: prod.splits sum.splits)

lemmas cloud_requests = cloudListServers_def cloudGetServer_def cloudCreateServer_def cloudDeleteServer_def
  cloudListSnapshots_def cloudCreateSnapshot_def cloudListActions_def cloudExecuteAction_def cloudGetCatalog_def
  cloudGetSubscription_def cloudListAPIKeys_def cloudCreateAPIKey_def cloudDeleteAPIKey_def

lemma deletes_calls:
  "calls (snd (run_state (bindE (cloudExchange C answer c expected) (\<lambda>_. State_Monad.return (Inr ()))) v)) = calls v @ [c]"
  using cloudExchange_calls [of C answer c expected v] by (auto simp: io_simps split: prod.splits sum.splits)

text \<open>
  C29. A cloud command touches one tenant only, the one it was told to: every request of a tenant command, except the
  listing of the tenants itself, names a tenant that the cloud lists for the caller's credential, and it is the one
  whose id, slug or name the flag gives, or the caller's only tenant when there is no flag.
\<close>

theorem cloud_commands_confined:
  assumes "m \<in> tenant_commands E" "c \<in> set (issued m w)" "call_tenant c = Some tenantID"
  shows "designated E w tenantID"
  using assms(1)
  unfolding tenant_commands_def cloudServersListCmd_def cloudCatalogCmd_def cloudSubscriptionCmd_def cloudAPIKeysListCmd_def
    cloudServersGetCmd_def cloudServersDeleteCmd_def cloudSnapshotsListCmd_def cloudSnapshotsCreateCmd_def
    cloudActionsListCmd_def cloudAPIKeysDeleteCmd_def cloudServerCreateCmd_def cloudActionsRunCmd_def
    cloudAPIKeyCreateCmd_def
  by (elim UnE insertE emptyE UN_E; use assms(2,3) in \<open>auto elim!: issued_forTenant [rotated]
      simp: cloud_requests cloudList_calls cloudExchange_calls deletes_calls\<close>)


definition ex_cloud_api :: "CloudTenant list \<Rightarrow> cloud_api" where
  "ex_cloud_api tenants =
     \<lparr>cl_tenants = (\<lambda>_ _. Inr \<lparr>rsp_StatusCode = 200, rsp_Body = [], rsp_JSON = Some tenants\<rparr>),
      cl_servers = (\<lambda>_ _. Inr \<lparr>rsp_StatusCode = 200, rsp_Body = [], rsp_JSON = Some []\<rparr>),
      cl_server = (\<lambda>_ _. Inl (new_error ''down'')), cl_snapshots = (\<lambda>_ _. Inl (new_error ''down'')),
      cl_snapshot = (\<lambda>_ _. Inl (new_error ''down'')), cl_actions = (\<lambda>_ _. Inl (new_error ''down'')),
      cl_ref = (\<lambda>_ _. Inl (new_error ''down'')), cl_catalog = (\<lambda>_ _. Inl (new_error ''down'')),
      cl_plans = (\<lambda>_ _. Inl (new_error ''down'')), cl_subscription = (\<lambda>_ _. Inl (new_error ''down'')),
      cl_keys = (\<lambda>_ _. Inl (new_error ''down'')), cl_key = (\<lambda>_ _. Inl (new_error ''down'')),
      cl_empty = (\<lambda>_ _. Inl (new_error ''down'')), cl_errorField = (\<lambda>_. None)\<rparr>"

text \<open>A cloud that knows one token, and refuses the listing of tenants for any other.\<close>

definition ex_ctl :: "string \<Rightarrow> ctl_env" where
  "ex_ctl envKey =
     \<lparr>ct_api = (\<lambda>url token. if token = ''good'' then ex_cloud_api [\<lparr>ct_Id = ''t1'', ct_Slug = ''acme'', ct_Name = ''Acme''\<rparr>]
        else (ex_cloud_api [])\<lparr>cl_tenants := (\<lambda>_ _. Inr \<lparr>rsp_StatusCode = 401, rsp_Body = ''bad token'', rsp_JSON = None\<rparr>)\<rparr>),
      ct_getenv = (\<lambda>k. if k = ''MINATO_CLOUD_API_KEY'' then envKey else []), ct_urlFlag = [], ct_tenantFlag = ''acme'',
      ct_jsonFlag = False, ct_parseURI = (\<lambda>_. None), ct_configPath = ''config.json'', ct_readError = None,
      ct_parseError = None, ct_saveError = None, ct_prompt = Inr ''good'', ct_formatTime = show_int,
      ct_formatDate = show_int\<rparr>"

definition ex_ctl_world :: ctl_world where
  "ex_ctl_world = \<lparr>calls = [], cw_config = None\<rparr>"

lemma ex_list_calls:
  "issued (cloudServersListCmd (ex_ctl ''good'')) ex_ctl_world = [ClListTenants, ClListServers ''t1'']"
  by (simp add: issued_def final_def cloudServersListCmd_def printing_def forTenant_def newCloudClientForTenant_def
      newCloudClient_def loadCloudConfig_def clientFor_def NewCloudClient_def resolveCloudToken_def mapped_def
      ResolveTenant_def run_tenants chooseTenant_def matchesTenant_def ex_ctl_def ex_cloud_api_def ex_ctl_world_def
      cloudListServers_def cloudList_def cloudExchange_def map_err_def EqualFold_def io_simps)

theorem cloud_commands_confined_witness: "designated (ex_ctl ''good'') ex_ctl_world ''t1''"
  by (rule cloud_commands_confined [where m = "cloudServersListCmd (ex_ctl ''good'')" and c = "ClListServers ''t1''"])
    (simp_all add: tenant_commands_def ex_list_calls)


section \<open>Credentials\<close>

lemma login_success:
  assumes "run_state (login E flag) w = (Inr x, w')"
  obtains cfg stored where "result (loadCloudConfig E) w = Inr cfg"
    "withCredential E flag (cfg\<lparr>cc_URL := resolveCloudURL E cfg\<rparr>) = Inr stored" "cw_config w' = Some stored"
    "fst x = resolveCloudURL E cfg"
    "run_state (ListMyTenants (ct_api E (resolveCloudURL E cfg) (fst (resolveCloudToken E stored)))) w =
       (Inr (snd (snd x)), w\<lparr>calls := calls w @ [ClListTenants]\<rparr>)"
  using assms
  by (auto simp: login_def saveCloudConfig_def clientFor_def mapped_def map_err_def Let_def io_simps run_load run_tenants
      split: sum.splits option.splits if_splits)

lemma withCredential_token:
  assumes "withCredential E flag cfg = Inr stored" "ct_getenv E ''MINATO_CLOUD_API_KEY'' = []"
  shows "fst (resolveCloudToken E stored) = (if flag \<noteq> [] then flag else cc_SessionToken stored)"
  using assms by (auto simp: withCredential_def resolveCloudToken_def acquireSessionToken_def split: if_splits sum.splits)

text \<open>
  C38. A login stores only a credential the cloud has accepted, unless a key is set in the environment: after a
  successful login without \<^verbatim>\<open>MINATO_CLOUD_API_KEY\<close>, the cloud listed the tenants for exactly the stored credential,
  and that is the credential the next command uses, until a logout leaves none.
\<close>

theorem login_verifies_stored_credential:
  assumes "run_state (login E flag) w = (Inr (url, mode, tenants), w')" "ct_getenv E ''MINATO_CLOUD_API_KEY'' = []"
  shows "\<exists>stored r. cw_config w' = Some stored \<and> cc_URL stored = url \<and>
    fst (resolveCloudToken E stored) = (if flag \<noteq> [] then flag else cc_SessionToken stored) \<and>
    cl_tenants (ct_api E url (fst (resolveCloudToken E stored))) (calls w) ClListTenants = Inr r \<and> rsp_StatusCode r = 200 \<and>
    fst (resolveCloudToken E (stored\<lparr>cc_APIKey := [], cc_SessionToken := []\<rparr>)) = []"
proof -
  obtain cfg stored where s: "withCredential E flag (cfg\<lparr>cc_URL := resolveCloudURL E cfg\<rparr>) = Inr stored"
      "cw_config w' = Some stored"
      "run_state (ListMyTenants (ct_api E (resolveCloudURL E cfg) (fst (resolveCloudToken E stored)))) w =
         (Inr tenants, w\<lparr>calls := calls w @ [ClListTenants]\<rparr>)"
      and url: "url = resolveCloudURL E cfg"
    by (rule login_success [OF assms(1)]) (simp add: that)
  have "cc_URL stored = resolveCloudURL E cfg"
    using s(1) by (auto simp: withCredential_def split: if_splits sum.splits)
  moreover have "\<exists>r. cl_tenants (ct_api E url (fst (resolveCloudToken E stored))) (calls w) ClListTenants = Inr r \<and> rsp_StatusCode r = 200"
    using s(3) unfolding run_tenants url by (auto split: sum.splits if_splits)
  moreover have "fst (resolveCloudToken E (stored\<lparr>cc_APIKey := [], cc_SessionToken := []\<rparr>)) = []"
    using assms(2) by (simp add: resolveCloudToken_def)
  ultimately show ?thesis
    using withCredential_token [OF s(1) assms(2)] s(2) url by auto
qed


definition ex_login_env :: ctl_env where
  "ex_login_env = (ex_ctl [])\<lparr>ct_api := (\<lambda>_ token. if token = ''mk_a'' then ex_cloud_api [] else
     (ex_cloud_api [])\<lparr>cl_tenants := (\<lambda>_ _. Inl (new_error ''refused''))\<rparr>)\<rparr>"

lemma ex_login:
  "run_state (login ex_login_env ''mk_a'') ex_ctl_world =
     (Inr (defaultCloudURL, ''api-key'', []),
      \<lparr>calls = [ClListTenants], cw_config = Some \<lparr>cc_URL = defaultCloudURL, cc_APIKey = ''mk_a'', cc_SessionToken = []\<rparr>\<rparr>)"
  by (simp add: ex_login_env_def login_def loadCloudConfig_def resolveCloudURL_def withCredential_def HasPrefix_def clientFor_def
      NewCloudClient_def resolveCloudToken_def mapped_def run_tenants saveCloudConfig_def ex_ctl_def
      ex_ctl_world_def ex_cloud_api_def defaultCloudURL_def map_err_def Let_def io_simps)

theorem login_verifies_stored_credential_witness:
  "fst (resolveCloudToken ex_login_env \<lparr>cc_URL = defaultCloudURL, cc_APIKey = ''mk_a'', cc_SessionToken = []\<rparr>) = ''mk_a'' \<and>
   (\<exists>r. cl_tenants (ct_api ex_login_env defaultCloudURL ''mk_a'') [] ClListTenants = Inr r \<and> rsp_StatusCode r = 200)"
proof -
  have "ct_getenv ex_login_env ''MINATO_CLOUD_API_KEY'' = []" by (simp add: ex_login_env_def ex_ctl_def)
  from login_verifies_stored_credential [OF ex_login this] show ?thesis
    by (auto simp: ex_ctl_world_def)
qed

text \<open>
  With a key in the environment a login verifies the wrong credential: whatever key is given on the command line,
  the cloud is asked with the key of the environment, and when that one is good the given key is stored, even if the
  cloud would refuse it.
\<close>

theorem login_env_unverified:
  assumes "ct_getenv E ''MINATO_CLOUD_API_KEY'' = envKey" "envKey \<noteq> []" "HasPrefix flag ''mk_''"
    and "result (loadCloudConfig E) w = Inr cfg" "ct_parseURI E (resolveCloudURL E cfg) = None" "ct_saveError E = None"
    and "cl_tenants (ct_api E (resolveCloudURL E cfg) envKey) (calls w) ClListTenants = Inr r" "rsp_StatusCode r = 200"
  shows "(\<exists>x. result (login E flag) w = Inr x) \<and>
    cw_config (final (login E flag) w) = Some \<lparr>cc_URL = resolveCloudURL E cfg, cc_APIKey = flag, cc_SessionToken = []\<rparr>"
proof -
  let ?url = "resolveCloudURL E cfg"
  let ?stored = "\<lparr>cc_URL = ?url, cc_APIKey = flag, cc_SessionToken = []\<rparr>"
  have load: "run_state (loadCloudConfig E) w = (Inr cfg, w)" using run_load assms(4) by metis
  have "flag \<noteq> []" using assms(3) by (auto simp: HasPrefix_def)
  then have stored: "withCredential E flag (cfg\<lparr>cc_URL := ?url\<rparr>) = Inr ?stored"
    using assms(3) by (simp add: withCredential_def)
  have token: "resolveCloudToken E ?stored = (envKey, ''api-key (env)'')"
    using assms(1,2) by (simp add: resolveCloudToken_def)
  have client: "clientFor E ?url envKey = Inr (ct_api E ?url envKey)"
    using assms(5) by (simp add: clientFor_def NewCloudClient_def)
  show ?thesis
    using assms(6-8)
    by (simp add: result_def final_def login_def load stored token client mapped_def run_tenants saveCloudConfig_def
        map_err_def Let_def io_simps)
qed

theorem login_env_unverified_witness:
  "\<exists>E. cw_config (final (login E ''mk_a'') ex_ctl_world) =
         Some \<lparr>cc_URL = defaultCloudURL, cc_APIKey = ''mk_a'', cc_SessionToken = []\<rparr> \<and>
       cl_tenants (ct_api E defaultCloudURL ''mk_a'') [] ClListTenants = Inr \<lparr>rsp_StatusCode = 401, rsp_Body = ''bad token'', rsp_JSON = None\<rparr>"
proof (intro exI conjI)
  let ?E = "ex_ctl ''good''" and ?cfg = "\<lparr>cc_URL = [], cc_APIKey = [], cc_SessionToken = []\<rparr>"
  have "resolveCloudURL ?E ?cfg = defaultCloudURL" by (simp add: resolveCloudURL_def ex_ctl_def)
  then show "cw_config (final (login ?E ''mk_a'') ex_ctl_world) =
      Some \<lparr>cc_URL = defaultCloudURL, cc_APIKey = ''mk_a'', cc_SessionToken = []\<rparr>"
    using login_env_unverified [of ?E "''good''" "''mk_a''" ex_ctl_world ?cfg]
    by (simp add: ex_ctl_def ex_cloud_api_def HasPrefix_def loadCloudConfig_def result_def ex_ctl_world_def)
  show "cl_tenants (ct_api ?E defaultCloudURL ''mk_a'') [] ClListTenants = Inr \<lparr>rsp_StatusCode = 401, rsp_Body = ''bad token'', rsp_JSON = None\<rparr>"
    by (simp add: ex_ctl_def)
qed

end
