(* ===== verification/Console.thy ===== *)
theory Console
  imports Call_History "HOL-Library.Sublist"
begin

text \<open>
  The interactive console: the frames of its WebSocket protocol (\<^verbatim>\<open>sdk/controlplane/console.go\<close>), the proxy of the
  control plane between a browser and a game agent (\<^verbatim>\<open>cmd/controlplane/console.go\<close>) and the console of the command
  line tool (\<^verbatim>\<open>cmd/minato-ctl/main.go\<close>). The two goroutines of the proxy and its caller are a step relation whose
  steps interleave in any order.
\<close>

section \<open>Frames and their translation\<close>

record ConsoleMessage =
  cm_Type :: string
  cm_TS :: int
  cm_Line :: string
  cm_ID :: string
  cm_Data :: string

definition ConsoleTypeRcon :: string where "ConsoleTypeRcon = ''rcon''"
definition ConsoleTypePing :: string where "ConsoleTypePing = ''ping''"
definition ConsoleTypeLog :: string where "ConsoleTypeLog = ''log''"
definition ConsoleTypeRconResponse :: string where "ConsoleTypeRconResponse = ''rcon-response''"
definition ConsoleTypeStatus :: string where "ConsoleTypeStatus = ''status''"
definition ConsoleTypeError :: string where "ConsoleTypeError = ''error''"

definition frame :: "string \<Rightarrow> string \<Rightarrow> ConsoleMessage" where
  "frame t data = \<lparr>cm_Type = t, cm_TS = 0, cm_Line = [], cm_ID = [], cm_Data = data\<rparr>"

text \<open>What the agent's stream carries in the two directions; a server message may have no payload.\<close>

datatype ConsoleClientMessage = ClientCommand string | ClientPing string

datatype ConsoleServerMessage =
    ServerLog string
  | ServerResponse string
  | ServerStatus string
  | ServerError string
  | ServerNone

definition clientToAgent :: "ConsoleMessage \<Rightarrow> ConsoleClientMessage option" where
  "clientToAgent msg =
     (if cm_Type msg = ''rcon'' then Some (ClientCommand (cm_Data msg))
      else if cm_Type msg = ''ping'' then Some (ClientPing (cm_Data msg))
      else None)"

definition agentToClient :: "time \<Rightarrow> ConsoleServerMessage \<Rightarrow> ConsoleMessage" where
  "agentToClient now resp =
     (case resp of
        ServerLog line \<Rightarrow> (frame ''log'' [])\<lparr>cm_TS := unixTime now, cm_Line := line\<rparr>
      | ServerResponse r \<Rightarrow> frame ''rcon-response'' r
      | ServerStatus s \<Rightarrow> frame ''status'' s
      | ServerError m \<Rightarrow> frame ''error'' m
      | ServerNone \<Rightarrow> frame [] [])"


section \<open>The proxy\<close>

text \<open>\<^verbatim>\<open>upgrader.CheckOrigin\<close>, and the address of the agent behind a server's Service.\<close>

definition CheckOrigin :: "string list \<Rightarrow> string \<Rightarrow> bool" where
  "CheckOrigin allowedOrigins origin \<longleftrightarrow> length allowedOrigins = 0 \<or> origin \<in> set allowedOrigins"

definition defaultAgentGRPCPort :: int where "defaultAgentGRPCPort = 9876"

definition consoleAddress :: "string \<Rightarrow> string \<Rightarrow> string" where
  "consoleAddress svcName svcNamespace =
     svcName @ ''.'' @ svcNamespace @ ''.svc.cluster.local:'' @ show_int defaultAgentGRPCPort"

text \<open>
  Opening the session: the server must exist, the upgrade must succeed, and then the Service, the connection and the
  stream; every later failure is reported to the client as an error frame.
\<close>

record console_env =
  con_getServer :: "kerr + string \<times> string"
  con_upgrade :: "kerr + unit"
  con_getService :: "kerr + string \<times> string"
  con_newClient :: "string \<Rightarrow> kerr + unit"
  con_stream :: "string \<Rightarrow> kerr + unit"

definition openStream :: "console_env \<Rightarrow> kerr + string" where
  "openStream E =
     (case con_getService E of
        Inl err \<Rightarrow> Inl (wrap_error ''failed to get service: '' err)
      | Inr (name, ns) \<Rightarrow>
          (let addr = consoleAddress name ns
           in case con_newClient E addr of
                Inl err \<Rightarrow> Inl (wrap_error ''failed to connect to agent: '' err)
              | Inr _ \<Rightarrow>
                  (case con_stream E addr of
                     Inl err \<Rightarrow> Inl (wrap_error ''failed to start console stream: '' err)
                   | Inr _ \<Rightarrow> Inr addr)))"

datatype console_start = HttpError int string | SessionError ConsoleMessage | SessionOpen string

definition serveConsole :: "console_env \<Rightarrow> console_start" where
  "serveConsole E =
     (case con_getServer E of
        Inl err \<Rightarrow> HttpError 404 (err_msg err)
      | Inr _ \<Rightarrow>
          (case con_upgrade E of
             Inl err \<Rightarrow> HttpError 500 (err_msg err)
           | Inr _ \<Rightarrow>
               (case openStream E of
                  Inl err \<Rightarrow> SessionError (frame ''error'' (err_msg err))
                | Inr addr \<Rightarrow> SessionOpen addr)))"

text \<open>
  An open session: the frames the client has yet to send and the messages the agent has yet to send, what was
  forwarded to each side, the errors in the channel, and where the two goroutines and the caller stand. A goroutine
  that ended has put its error into the channel, which has room for both. The caller takes the first error, writes it to
  the client as a frame, which may fail, and then closes the connection, after which nothing more can be written to it.
\<close>

datatype forwarder = Idle | Writing ConsoleMessage | Ended

datatype caller = Waiting | Reporting ConsoleMessage | Closing | Closed

record session =
  s_client :: "ConsoleMessage list"
  s_agent :: "ConsoleServerMessage list"
  s_toAgent :: "ConsoleClientMessage list"
  s_toClient :: "ConsoleMessage list"
  s_errors :: "kerr list"
  s_up :: forwarder
  s_down :: forwarder
  s_caller :: caller

definition opened :: "ConsoleMessage list \<Rightarrow> ConsoleServerMessage list \<Rightarrow> session" where
  "opened client agent =
     \<lparr>s_client = client, s_agent = agent, s_toAgent = [], s_toClient = [], s_errors = [], s_up = Idle, s_down = Idle,
      s_caller = Waiting\<rparr>"

inductive proxy_step :: "session \<Rightarrow> session \<Rightarrow> bool" where
  up_forward: "s_up s = Idle \<Longrightarrow> s_client s = msg # rest \<Longrightarrow> clientToAgent msg = Some m \<Longrightarrow>
     proxy_step s (s\<lparr>s_client := rest, s_toAgent := s_toAgent s @ [m]\<rparr>)"
| up_skip: "s_up s = Idle \<Longrightarrow> s_client s = msg # rest \<Longrightarrow> clientToAgent msg = None \<Longrightarrow>
     proxy_step s (s\<lparr>s_client := rest\<rparr>)"
| up_read_error: "s_up s = Idle \<Longrightarrow> proxy_step s (s\<lparr>s_up := Ended, s_errors := s_errors s @ [err]\<rparr>)"
| up_send_error: "s_up s = Idle \<Longrightarrow> s_client s = msg # rest \<Longrightarrow> clientToAgent msg = Some m \<Longrightarrow>
     proxy_step s (s\<lparr>s_client := rest, s_up := Ended, s_errors := s_errors s @ [err]\<rparr>)"
| down_receive: "s_down s = Idle \<Longrightarrow> s_agent s = resp # rest \<Longrightarrow>
     proxy_step s (s\<lparr>s_agent := rest, s_down := Writing (agentToClient now resp)\<rparr>)"
| down_written: "s_down s = Writing msg \<Longrightarrow> s_caller s \<noteq> Closed \<Longrightarrow>
     proxy_step s (s\<lparr>s_down := Idle, s_toClient := s_toClient s @ [msg]\<rparr>)"
| down_receive_error: "s_down s = Idle \<Longrightarrow> proxy_step s (s\<lparr>s_down := Ended, s_errors := s_errors s @ [err]\<rparr>)"
| down_write_error: "s_down s = Writing msg \<Longrightarrow> proxy_step s (s\<lparr>s_down := Ended, s_errors := s_errors s @ [err]\<rparr>)"
| report: "s_caller s = Waiting \<Longrightarrow> s_errors s = err # errs \<Longrightarrow>
     proxy_step s (s\<lparr>s_errors := errs, s_caller := Reporting (frame ''error'' (err_msg err))\<rparr>)"
| reported: "s_caller s = Reporting msg \<Longrightarrow>
     proxy_step s (s\<lparr>s_caller := Closing, s_toClient := s_toClient s @ [msg]\<rparr>)"
| report_failed: "s_caller s = Reporting msg \<Longrightarrow> proxy_step s (s\<lparr>s_caller := Closing\<rparr>)"
| close: "s_caller s = Closing \<Longrightarrow> proxy_step s (s\<lparr>s_caller := Closed\<rparr>)"

inductive_cases proxy_stepE: "proxy_step s s'"


section \<open>The console of the command line tool\<close>

definition consoleURL :: "string \<Rightarrow> string \<Rightarrow> string \<Rightarrow> string \<Rightarrow> string" where
  "consoleURL scheme host namespace serverName =
     (if scheme = ''https'' then ''wss'' else ''ws'') @ ''://'' @ host @ ''/api/v1/gameservers/'' @ namespace @ ''/'' @
     serverName @ ''/console''"

definition consoleHeader :: "string \<Rightarrow> labels" where
  "consoleHeader apiKey = (if apiKey \<noteq> [] then [(''Authorization'', ''Bearer '' @ apiKey)] else [])"

text \<open>What the tool prints for a frame; other types print nothing.\<close>

definition shownFrame :: "(int \<Rightarrow> string) \<Rightarrow> ConsoleMessage \<Rightarrow> string option" where
  "shownFrame clockTime msg =
     (if cm_Type msg = ConsoleTypeLog then Some (''['' @ clockTime (cm_TS msg) @ ''] '' @ cm_Line msg)
      else if cm_Type msg = ConsoleTypeRconResponse then Some (''> '' @ cm_Data msg)
      else if cm_Type msg = ConsoleTypeError then Some (''Error: '' @ cm_Data msg)
      else if cm_Type msg = ConsoleTypeStatus then Some (''[Status: '' @ cm_Data msg @ '']'')
      else None)"

text \<open>\<^verbatim>\<open>fmt.Scanln(&input)\<close> on a line: one word, and nothing but blanks after it.\<close>

definition Scanln :: "string \<Rightarrow> kerr + string" where
  "Scanln line =
     (let word = takeWhile (\<lambda>c. \<not> is_space c) (dropWhile is_space line);
          rest = dropWhile (\<lambda>c. \<not> is_space c) (dropWhile is_space line)
      in if word = [] then Inl (new_error ''unexpected newline'')
         else if list_all is_space rest then Inr word
         else Inl (new_error ''expected newline''))"

text \<open>The loop over the lines of the input: the frames it sends, until a line or a write fails.\<close>

fun readInput :: "(ConsoleMessage \<Rightarrow> bool) \<Rightarrow> string list \<Rightarrow> ConsoleMessage list" where
  "readInput writes [] = []"
| "readInput writes (line # lines) =
     (case Scanln line of
        Inl _ \<Rightarrow> []
      | Inr input \<Rightarrow>
          (let msg = frame ConsoleTypeRcon input
           in if writes msg then msg # readInput writes lines else []))"


section \<open>Sessions\<close>

definition up_inv :: "ConsoleMessage list \<Rightarrow> session \<Rightarrow> bool" where
  "up_inv client s \<longleftrightarrow>
     (case s_up s of
        Idle \<Rightarrow> s_toAgent s @ List.map_filter clientToAgent (s_client s) = List.map_filter clientToAgent client
      | Writing _ \<Rightarrow> False
      | Ended \<Rightarrow> prefix (s_toAgent s) (List.map_filter clientToAgent client))"

text \<open>
  What reached the client, against what was relayed from the agent: the same, or, once the caller has reported, with one
  error frame put in between.
\<close>

definition with_report :: "caller \<Rightarrow> ConsoleMessage list \<Rightarrow> ConsoleMessage list \<Rightarrow> bool" where
  "with_report c relayed got \<longleftrightarrow>
     got = relayed \<or>
     c \<in> {Closing, Closed} \<and> (\<exists>before after e. relayed = before @ after \<and> got = before @ frame ''error'' e # after)"

definition down_inv :: "ConsoleServerMessage list \<Rightarrow> session \<Rightarrow> bool" where
  "down_inv agent s \<longleftrightarrow>
     (\<forall>m. s_caller s = Reporting m \<longrightarrow> (\<exists>e. m = frame ''error'' e)) \<and>
     (\<exists>got ts relayed. agent = got @ s_agent s \<and> length ts = length got \<and>
        with_report (s_caller s) relayed (s_toClient s) \<and>
        (case s_down s of
           Idle \<Rightarrow> relayed = map2 agentToClient ts got
         | Writing m \<Rightarrow> relayed @ [m] = map2 agentToClient ts got
         | Ended \<Rightarrow> prefix relayed (map2 agentToClient ts got)))"

definition channel_inv :: "session \<Rightarrow> bool" where
  "channel_inv s \<longleftrightarrow>
     length (s_errors s) + (if s_caller s = Waiting then 0 else 1) =
       (if s_up s = Ended then 1 else 0) + (if s_down s = Ended then 1 else 0)"

lemma prefix_of_append: "xs @ ys = zs \<Longrightarrow> prefix xs zs"
  by (auto intro: prefixI)

lemma up_inv_step: "proxy_step s s' \<Longrightarrow> up_inv client s \<Longrightarrow> up_inv client s'"
  by (induction rule: proxy_step.induct)
    (auto simp: up_inv_def List.map_filter_def split: forwarder.splits dest: prefix_of_append)

lemma with_report_snoc: "with_report c relayed got \<Longrightarrow> with_report c (relayed @ [m]) (got @ [m])"
  unfolding with_report_def by (metis append.assoc append_Cons)

lemma with_report_new:
  "with_report c relayed got \<Longrightarrow> c \<notin> {Closing, Closed} \<Longrightarrow> with_report Closing relayed (got @ [frame ''error'' e])"
  unfolding with_report_def by (metis append_Nil2 insertI1)

lemma with_report_later:
  "with_report c relayed got \<Longrightarrow> c \<notin> {Closing, Closed} \<or> c' \<in> {Closing, Closed} \<Longrightarrow> with_report c' relayed got"
  unfolding with_report_def by blast

text \<open>A step of the caller keeps what was relayed; a step of the other direction changes nothing here.\<close>

lemma down_inv_caller:
  assumes "down_inv agent s" "\<forall>m. c \<noteq> Reporting m \<or> (\<exists>e. m = frame ''error'' e)"
    and "\<And>relayed. with_report (s_caller s) relayed (s_toClient s) \<Longrightarrow> with_report c relayed out"
  shows "down_inv agent (s\<lparr>s_caller := c, s_toClient := out\<rparr>)"
  unfolding down_inv_def
proof (intro conjI)
  show "\<forall>m. s_caller (s\<lparr>s_caller := c, s_toClient := out\<rparr>) = Reporting m \<longrightarrow> (\<exists>e. m = frame ''error'' e)"
    using assms(2) by auto
qed (use assms(1,3) in \<open>simp add: down_inv_def; blast\<close>)

lemma down_inv_step:
  assumes "proxy_step s s'" "down_inv agent s"
  shows "down_inv agent s'"
  using assms
proof (induction rule: proxy_step.induct)
  case (down_receive s resp rest now)
  then obtain got ts where "agent = got @ resp # rest" "length ts = length got"
    "with_report (s_caller s) (map2 agentToClient ts got) (s_toClient s)"
    by (auto simp: down_inv_def)
  with down_receive show ?case
    by (auto simp: down_inv_def intro!: exI [of _ "got @ [resp]"] exI [of _ "ts @ [now]"])
next
  case (down_written s msg)
  then obtain got ts relayed where "agent = got @ s_agent s" "length ts = length got"
    "with_report (s_caller s) relayed (s_toClient s)" "relayed @ [msg] = map2 agentToClient ts got"
    by (auto simp: down_inv_def)
  with down_written with_report_snoc [of "s_caller s" relayed "s_toClient s" msg] show ?case
    by (auto simp: down_inv_def)
next
  case (down_write_error s msg err)
  then obtain got ts relayed where "agent = got @ s_agent s" "length ts = length got"
    "with_report (s_caller s) relayed (s_toClient s)" "relayed @ [msg] = map2 agentToClient ts got"
    by (auto simp: down_inv_def)
  moreover from this have "prefix relayed (map2 agentToClient ts got)" by (blast dest: prefix_of_append)
  ultimately show ?case using down_write_error(2) unfolding down_inv_def by auto
next
  case (report s err errs)
  then have "down_inv agent (s\<lparr>s_caller := Reporting (frame ''error'' (err_msg err)), s_toClient := s_toClient s\<rparr>)"
    by (intro down_inv_caller) (auto intro: with_report_later)
  then show ?case by (simp add: down_inv_def)
next
  case (reported s msg)
  then obtain e where "msg = frame ''error'' e" by (auto simp: down_inv_def)
  with reported show ?case by (intro down_inv_caller) (auto dest: with_report_new)
next
  case (report_failed s msg)
  then have "down_inv agent (s\<lparr>s_caller := Closing, s_toClient := s_toClient s\<rparr>)"
    by (intro down_inv_caller) (auto intro: with_report_later)
  then show ?case by simp
next
  case (close s)
  then have "down_inv agent (s\<lparr>s_caller := Closed, s_toClient := s_toClient s\<rparr>)"
    by (intro down_inv_caller) (auto intro: with_report_later)
  then show ?case by simp
qed (auto simp: down_inv_def split: forwarder.splits)

lemma channel_inv_step: "proxy_step s s' \<Longrightarrow> channel_inv s \<Longrightarrow> channel_inv s'"
  by (induction rule: proxy_step.induct) (auto simp: channel_inv_def split: if_splits)

lemma session_inv:
  assumes "proxy_step\<^sup>*\<^sup>* (opened client agent) s"
  shows "up_inv client s" "down_inv agent s" "channel_inv s"
proof -
  have "up_inv client s \<and> down_inv agent s \<and> channel_inv s"
    using assms
  proof (induction rule: rtranclp_induct)
    case base
    show ?case by (auto simp: opened_def up_inv_def down_inv_def channel_inv_def with_report_def)
  next
    case (step s s')
    then show ?case using up_inv_step down_inv_step channel_inv_step by blast
  qed
  then show "up_inv client s" "down_inv agent s" "channel_inv s" by auto
qed



definition ex_frame :: ConsoleMessage where "ex_frame = frame ConsoleTypeRcon ''list''"

definition ex_racing :: session where
  "ex_racing = (opened [ex_frame] [ServerLog ''x''])
     \<lparr>s_client := [], s_toAgent := [ClientCommand ''list''], s_agent := [], s_up := Ended,
      s_down := Writing (agentToClient 7 (ServerLog ''x'')), s_caller := Reporting (frame ''error'' ''EOF'')\<rparr>"

lemma ex_racing_reached: "proxy_step\<^sup>*\<^sup>* (opened [ex_frame] [ServerLog ''x'']) ex_racing"
proof -
  let ?s0 = "opened [ex_frame] [ServerLog ''x'']"
  let ?s1 = "?s0\<lparr>s_client := [], s_toAgent := [ClientCommand ''list'']\<rparr>"
  let ?s2 = "?s1\<lparr>s_agent := [], s_down := Writing (agentToClient 7 (ServerLog ''x''))\<rparr>"
  let ?s3 = "?s2\<lparr>s_up := Ended, s_errors := [new_error ''EOF'']\<rparr>"
  have "proxy_step ?s0 ?s1"
    using proxy_step.up_forward [of ?s0 ex_frame "[]" "ClientCommand ''list''"]
    by (simp add: opened_def ex_frame_def frame_def clientToAgent_def ConsoleTypeRcon_def)
  moreover have "proxy_step ?s1 ?s2"
    using proxy_step.down_receive [of ?s1 "ServerLog ''x''" "[]" 7] by (simp add: opened_def)
  moreover have "proxy_step ?s2 ?s3"
    using proxy_step.up_read_error [of ?s2 "new_error ''EOF''"] by (simp add: opened_def)
  moreover have "proxy_step ?s3 ex_racing"
    using proxy_step.report [of ?s3 "new_error ''EOF''" "[]"] by (simp add: opened_def ex_racing_def new_error_def)
  ultimately show ?thesis by (meson converse_rtranclp_into_rtranclp rtranclp.rtrancl_refl)
qed


text \<open>
  The proxy can write to one WebSocket from two goroutines at once: a session can reach a state in which the
  direction towards the client is in the middle of writing a frame while the caller, told that the other direction
  ended, writes its error frame. (The WebSocket library allows one writer at a time.)
\<close>

theorem console_two_writers:
  "\<exists>client agent s m e. proxy_step\<^sup>*\<^sup>* (opened client agent) s \<and> s_down s = Writing m \<and> s_caller s = Reporting e"
proof (intro exI conjI)
  show "proxy_step\<^sup>*\<^sup>* (opened [ex_frame] [ServerLog ''x'']) ex_racing" by (rule ex_racing_reached)
  show "s_down ex_racing = Writing (agentToClient 7 (ServerLog ''x''))" by (simp add: ex_racing_def)
  show "s_caller ex_racing = Reporting (frame ''error'' ''EOF'')" by (simp add: ex_racing_def)
qed


section \<open>Input of the command line tool\<close>

lemma Scanln_word: "Scanln line = Inr w \<Longrightarrow> w \<noteq> [] \<and> list_all (\<lambda>c. \<not> is_space c) w"
  using set_takeWhileD [of _ "\<lambda>c. \<not> is_space c" "dropWhile is_space line"]
  unfolding Scanln_def Let_def list_all_iff by (metis Inl_Inr_False Inr_inject)

lemma readInput_frames:
  "msg \<in> set (readInput writes lines) \<Longrightarrow>
     \<exists>w. msg = frame ConsoleTypeRcon w \<and> w \<noteq> [] \<and> list_all (\<lambda>c. \<not> is_space c) w"
proof (induction lines)
  case (Cons line lines)
  then show ?case
    by (cases "Scanln line") (auto simp: Let_def dest: Scanln_word split: if_splits)
qed simp

lemma readInput_stops:
  "Scanln line = Inl err \<Longrightarrow> readInput writes (before @ line # after) = readInput writes before"
  by (induction before) (simp_all add: Let_def split: sum.splits)

lemma Scanln_two_words:
  assumes "w \<noteq> []" "list_all (\<lambda>c. \<not> is_space c) w" "v \<noteq> []" "\<not> is_space (hd v)"
  shows "\<exists>err. Scanln (w @ '' '' @ v) = Inl err"
proof -
  have blank: "is_space (CHR '' '')" by (simp add: is_space_def)
  have "dropWhile is_space (w @ '' '' @ v) = w @ '' '' @ v" using assms by (cases w) auto
  moreover have "takeWhile (\<lambda>c. \<not> is_space c) (w @ '' '' @ v) = w" "dropWhile (\<lambda>c. \<not> is_space c) (w @ '' '' @ v) = '' '' @ v"
    using assms blank by (simp_all add: list_all_iff takeWhile_append2 dropWhile_append2)
  ultimately show ?thesis
    using assms by (cases v) (auto simp: Scanln_def Let_def)
qed

text \<open>
  The console of the command line tool sends single words only: every frame it sends carries one word, and a line
  with a second word ends the input, so that neither this command nor any later one is sent.
\<close>

theorem cli_console_single_words:
  "(\<forall>msg\<in>set (readInput writes lines). cm_Type msg = ConsoleTypeRcon \<and> cm_Data msg \<noteq> [] \<and>
      list_all (\<lambda>c. \<not> is_space c) (cm_Data msg)) \<and>
   (\<forall>before w v after. w \<noteq> [] \<and> list_all (\<lambda>c. \<not> is_space c) w \<and> v \<noteq> [] \<and> \<not> is_space (hd v) \<longrightarrow>
      readInput writes (before @ (w @ '' '' @ v) # after) = readInput writes before)"
proof (intro conjI ballI allI impI)
  fix msg assume "msg \<in> set (readInput writes lines)"
  from readInput_frames [OF this] show "cm_Type msg = ConsoleTypeRcon" "cm_Data msg \<noteq> []"
    "list_all (\<lambda>c. \<not> is_space c) (cm_Data msg)"
    by (auto simp: frame_def)
next
  fix before :: "string list" and w v :: string and after :: "string list"
  assume "w \<noteq> [] \<and> list_all (\<lambda>c. \<not> is_space c) w \<and> v \<noteq> [] \<and> \<not> is_space (hd v)"
  then show "readInput writes (before @ (w @ '' '' @ v) # after) = readInput writes before"
    using Scanln_two_words readInput_stops by blast
qed

theorem cli_console_single_words_witness:
  "readInput (\<lambda>_. True) [''list'', ''say hello'', ''stop''] = readInput (\<lambda>_. True) [''list'']"
proof -
  have words: "''say'' \<noteq> [] \<and> list_all (\<lambda>c. \<not> is_space c) ''say'' \<and> ''hello'' \<noteq> [] \<and> \<not> is_space (hd ''hello'')"
    by (simp add: is_space_def)
  have "readInput (\<lambda>_. True) ([''list''] @ (''say'' @ '' '' @ ''hello'') # [''stop'']) = readInput (\<lambda>_. True) [''list'']"
    using cli_console_single_words [of "\<lambda>_. True" "[]"] words by blast
  then show ?thesis by (simp only: append_Cons append_Nil)
qed

end
