(* ===== verification/Api_Routes.thy ===== *)
theory Api_Routes
  imports Tenant_Properties
begin

text \<open>
  How requests reach the handlers of the control plane: the routes that \<^verbatim>\<open>HandlerWithOptions\<close> mounts
  (\<^verbatim>\<open>internal/controlplane/oapi/gen.go\<close>) and, as a specification of the generated server, one table of the path
  parameters and the method of each operation. The generated wrappers themselves are in theory \<open>Api_Wrappers\<close>, where
  they are shown to do what the table says. Matching a path against the mounted patterns (chi) and unescaping a parameter
  (the oapi-codegen runtime) are parameters. chi matches the raw path of a request when it has one, while the guards
  look at the decoded one.
\<close>

section \<open>Routes (gen.go)\<close>

datatype operation =
    OpListAPIKeys | OpCreateAPIKey | OpDeleteAPIKey
  | OpListGameServerFleets | OpCreateGameServerFleet | OpDeleteGameServerFleet | OpGetGameServerFleet
  | OpUpdateGameServerFleet
  | OpListGameServers | OpCreateGameServer | OpDeleteGameServer | OpGetGameServer | OpUpdateGameServerLifecycle
  | OpListActions | OpExecuteAction | OpGetConsole | OpGetActionExecution | OpGetSFTPInfo
  | OpListSnapshots | OpCreateSnapshot
  | OpListProfiles | OpGetProfile | OpGetAuthConfig | OpGetHealthz | OpGetReadyz

definition HandlerWithOptions :: "(string \<times> string \<times> operation) list" where
  "HandlerWithOptions =
     [(''GET'', ''/api/v1/apikeys'', OpListAPIKeys),
      (''POST'', ''/api/v1/apikeys'', OpCreateAPIKey),
      (''DELETE'', ''/api/v1/apikeys/{keyId}'', OpDeleteAPIKey),
      (''GET'', ''/api/v1/gameserverfleets'', OpListGameServerFleets),
      (''POST'', ''/api/v1/gameserverfleets/{namespace}'', OpCreateGameServerFleet),
      (''DELETE'', ''/api/v1/gameserverfleets/{namespace}/{name}'', OpDeleteGameServerFleet),
      (''GET'', ''/api/v1/gameserverfleets/{namespace}/{name}'', OpGetGameServerFleet),
      (''PATCH'', ''/api/v1/gameserverfleets/{namespace}/{name}'', OpUpdateGameServerFleet),
      (''GET'', ''/api/v1/gameservers'', OpListGameServers),
      (''POST'', ''/api/v1/gameservers/{namespace}'', OpCreateGameServer),
      (''DELETE'', ''/api/v1/gameservers/{namespace}/{name}'', OpDeleteGameServer),
      (''GET'', ''/api/v1/gameservers/{namespace}/{name}'', OpGetGameServer),
      (''PATCH'', ''/api/v1/gameservers/{namespace}/{name}'', OpUpdateGameServerLifecycle),
      (''GET'', ''/api/v1/gameservers/{namespace}/{name}/actions'', OpListActions),
      (''POST'', ''/api/v1/gameservers/{namespace}/{name}/actions/{action}'', OpExecuteAction),
      (''GET'', ''/api/v1/gameservers/{namespace}/{name}/console'', OpGetConsole),
      (''GET'', ''/api/v1/gameservers/{namespace}/{name}/executions/{executionId}'', OpGetActionExecution),
      (''GET'', ''/api/v1/gameservers/{namespace}/{name}/sftp'', OpGetSFTPInfo),
      (''GET'', ''/api/v1/gameservers/{namespace}/{name}/snapshots'', OpListSnapshots),
      (''POST'', ''/api/v1/gameservers/{namespace}/{name}/snapshots'', OpCreateSnapshot),
      (''GET'', ''/api/v1/profiles'', OpListProfiles),
      (''GET'', ''/api/v1/profiles/{name}'', OpGetProfile),
      (''GET'', ''/auth/config'', OpGetAuthConfig),
      (''GET'', ''/healthz'', OpGetHealthz),
      (''GET'', ''/readyz'', OpGetReadyz)]"

text \<open>The specification: the path parameters of an operation, in order.\<close>

fun pathParams :: "operation \<Rightarrow> string list" where
  "pathParams OpDeleteAPIKey = [''keyId'']"
| "pathParams OpCreateGameServerFleet = [''namespace'']"
| "pathParams OpDeleteGameServerFleet = [''namespace'', ''name'']"
| "pathParams OpGetGameServerFleet = [''namespace'', ''name'']"
| "pathParams OpUpdateGameServerFleet = [''namespace'', ''name'']"
| "pathParams OpCreateGameServer = [''namespace'']"
| "pathParams OpDeleteGameServer = [''namespace'', ''name'']"
| "pathParams OpGetGameServer = [''namespace'', ''name'']"
| "pathParams OpUpdateGameServerLifecycle = [''namespace'', ''name'']"
| "pathParams OpListActions = [''namespace'', ''name'']"
| "pathParams OpExecuteAction = [''namespace'', ''name'', ''action'']"
| "pathParams OpGetConsole = [''namespace'', ''name'']"
| "pathParams OpGetActionExecution = [''namespace'', ''name'', ''executionId'']"
| "pathParams OpGetSFTPInfo = [''namespace'', ''name'']"
| "pathParams OpListSnapshots = [''namespace'', ''name'']"
| "pathParams OpCreateSnapshot = [''namespace'', ''name'']"
| "pathParams OpGetProfile = [''name'']"
| "pathParams _ = []"

text \<open>The router, and the binding of one required parameter.\<close>

record router_lib =
  rl_route :: "string \<Rightarrow> string \<Rightarrow> http_response + operation \<times> labels"
  rl_bind :: "string \<Rightarrow> kerr + string"

fun bindPathParams :: "router_lib \<Rightarrow> labels \<Rightarrow> string list \<Rightarrow> http_response + labels" where
  "bindPathParams X raw [] = Inr []"
| "bindPathParams X raw (param # params) =
     (case rl_bind X (map_str raw param) of
        Inl err \<Rightarrow> Inl (http_error 400 (''Invalid format for parameter '' @ param @ '': '' @ err_msg err))
      | Inr v \<Rightarrow> map_sum id (Cons (param, v)) (bindPathParams X raw params))"

text \<open>What decoding the body of a request gives, and whether it can be upgraded to a WebSocket.\<close>

record request_bodies =
  bd_server :: "http_request \<Rightarrow> kerr + GameServer"
  bd_lifecycle :: "http_request \<Rightarrow> kerr + lifecycle_patch"
  bd_params :: "http_request \<Rightarrow> kerr + labels"
  bd_fleet :: "http_request \<Rightarrow> kerr + GameServerFleet"
  bd_replicas :: "http_request \<Rightarrow> kerr + int option"
  bd_key :: "http_request \<Rightarrow> kerr + key_request"
  bd_upgrade :: "http_request \<Rightarrow> kerr + unit"

text \<open>The HTTP part of the console; the session after the upgrade is in theory \<open>Console\<close>.\<close>

definition ApiGetConsole :: "cp_env \<Rightarrow> request_bodies \<Rightarrow> string \<Rightarrow> string \<Rightarrow> handler" where
  "ApiGetConsole E B namespace name r =
     or_error 404 (perform (CpGetServer (ns_key namespace name)) (\<lambda>h. cp_getServer E h (ns_key namespace name))) (\<lambda>_.
       State_Monad.return (case bd_upgrade B r of
         Inl err \<Rightarrow> http_error 500 (err_msg err)
       | Inr _ \<Rightarrow> \<lparr>rs_Status = 101, rs_Body = NoBody\<rparr>))"

text \<open>The specification: the method that an operation stands for, given the values of its parameters.\<close>

definition dispatch ::
    "klib \<Rightarrow> authlib \<Rightarrow> cp_env \<Rightarrow> controlPlaneAPI \<Rightarrow> request_bodies \<Rightarrow> operation \<Rightarrow> labels \<Rightarrow> handler" where
  "dispatch L A E api B op vals r =
     (let namespace = map_str vals ''namespace''; name = map_str vals ''name''
      in case op of
           OpListAPIKeys \<Rightarrow> ApiListAPIKeys A E api r
         | OpCreateAPIKey \<Rightarrow> ApiCreateAPIKey A E api (bd_key B r) r
         | OpDeleteAPIKey \<Rightarrow> ApiDeleteAPIKey E api (map_str vals ''keyId'') r
         | OpListGameServerFleets \<Rightarrow> ApiListGameServerFleets E r
         | OpCreateGameServerFleet \<Rightarrow> ApiCreateGameServerFleet L E api namespace (bd_fleet B r) r
         | OpDeleteGameServerFleet \<Rightarrow> ApiDeleteGameServerFleet E namespace name r
         | OpGetGameServerFleet \<Rightarrow> ApiGetGameServerFleet E namespace name r
         | OpUpdateGameServerFleet \<Rightarrow> ApiUpdateGameServerFleet E namespace name (bd_replicas B r) r
         | OpListGameServers \<Rightarrow> ApiListGameServers E r
         | OpCreateGameServer \<Rightarrow> ApiCreateGameServer L E api namespace (bd_server B r) r
         | OpDeleteGameServer \<Rightarrow> ApiDeleteGameServer E namespace name r
         | OpGetGameServer \<Rightarrow> ApiGetGameServer E namespace name r
         | OpUpdateGameServerLifecycle \<Rightarrow> ApiUpdateGameServerLifecycle E namespace name (bd_lifecycle B r) r
         | OpListActions \<Rightarrow> ApiListActions E namespace name r
         | OpExecuteAction \<Rightarrow> ApiExecuteAction E namespace name (map_str vals ''action'') (bd_params B r) r
         | OpGetConsole \<Rightarrow> ApiGetConsole E B namespace name r
         | OpGetActionExecution \<Rightarrow> ApiGetActionExecution E namespace name (map_str vals ''executionId'') r
         | OpGetSFTPInfo \<Rightarrow> ApiGetSFTPInfo E namespace name r
         | OpListSnapshots \<Rightarrow> ApiListSnapshots E namespace name r
         | OpCreateSnapshot \<Rightarrow> ApiCreateSnapshot E namespace name r
         | OpListProfiles \<Rightarrow> ApiListProfiles E r
         | OpGetProfile \<Rightarrow> ApiGetProfile E name r
         | OpGetAuthConfig \<Rightarrow> State_Monad.return (GetAuthConfig api)
         | OpGetHealthz \<Rightarrow> State_Monad.return GetHealthz
         | OpGetReadyz \<Rightarrow> State_Monad.return GetReadyz)"

text \<open>The path that chi matches: the raw path of a request that has one, else the decoded path.\<close>

definition routePath :: "http_request \<Rightarrow> string" where
  "routePath r = (if rq_RawPath r \<noteq> [] then rq_RawPath r else rq_Path r)"

text \<open>The specification of the mounted API.\<close>

definition routedApi ::
    "router_lib \<Rightarrow> klib \<Rightarrow> authlib \<Rightarrow> cp_env \<Rightarrow> controlPlaneAPI \<Rightarrow> request_bodies \<Rightarrow> handler" where
  "routedApi X L A E api B r =
     (case rl_route X (rq_Method r) (routePath r) of
        Inl resp \<Rightarrow> State_Monad.return resp
      | Inr (op, raw) \<Rightarrow>
          (case bindPathParams X raw (pathParams op) of
             Inl resp \<Rightarrow> State_Monad.return resp
           | Inr vals \<Rightarrow> dispatch L A E api B op vals r))"


section \<open>What is assumed of the libraries\<close>

text \<open>
  The router chooses a mounted route of the request's method whose pattern becomes the path when its parameters are
  filled in; an empty parameter does not bind, and one without a percent sign, in which nothing is escaped, binds to its
  own text. The API server answers a Get with an object of the requested namespace.
\<close>

definition fill :: "labels \<Rightarrow> string \<Rightarrow> string" where
  "fill raw seg = (if templated seg then map_str raw (butlast (tl seg)) else seg)"

definition routes_as_mounted :: "router_lib \<Rightarrow> bool" where
  "routes_as_mounted X \<longleftrightarrow>
     (\<forall>m path op raw. rl_route X m path = Inr (op, raw) \<longrightarrow>
        (\<exists>pattern. (m, pattern, op) \<in> set HandlerWithOptions \<and>
           split_char (CHR ''/'') path = map (fill raw) (split_char (CHR ''/'') pattern))) \<and>
     (\<forall>v v'. rl_bind X v = Inr v' \<longrightarrow> v \<noteq> [] \<and> (CHR ''%'' \<notin> set v \<longrightarrow> v' = v))"

definition gets_keyed :: "cp_env \<Rightarrow> bool" where
  "gets_keyed E \<longleftrightarrow>
     (\<forall>h k s. cp_getServer E h k = Inr s \<longrightarrow> server_namespace s = nn_Namespace k) \<and>
     (\<forall>h k f. cp_getFleet E h k = Inr f \<longrightarrow> om_Namespace (fleet_meta f) = nn_Namespace k)"

end
