(* ===== verification/Api_Wrappers.thy ===== *)
theory Api_Wrappers
  imports Api_Routes
begin

text \<open>
  The generated server side of the API as it is written (\<^verbatim>\<open>internal/controlplane/oapi/gen.go\<close>): the interface of a
  server, the wrapper of each operation that binds its path parameters and runs the middlewares of the options, the
  errors of binding, and mounting. The mounted server is shown to meet the table of theory \<open>Api_Routes\<close>, through which the
  properties of the control plane reach it. The scopes that a wrapper puts into the context of a request are left out:
  nothing reads them.
\<close>

section \<open>The interface and its default\<close>

record ServerInterface =
  si_ListAPIKeys :: "handler"
  si_CreateAPIKey :: "handler"
  si_DeleteAPIKey :: "string \<Rightarrow> handler"
  si_ListGameServerFleets :: "handler"
  si_CreateGameServerFleet :: "string \<Rightarrow> handler"
  si_DeleteGameServerFleet :: "string \<Rightarrow> string \<Rightarrow> handler"
  si_GetGameServerFleet :: "string \<Rightarrow> string \<Rightarrow> handler"
  si_UpdateGameServerFleet :: "string \<Rightarrow> string \<Rightarrow> handler"
  si_ListGameServers :: "handler"
  si_CreateGameServer :: "string \<Rightarrow> handler"
  si_DeleteGameServer :: "string \<Rightarrow> string \<Rightarrow> handler"
  si_GetGameServer :: "string \<Rightarrow> string \<Rightarrow> handler"
  si_UpdateGameServerLifecycle :: "string \<Rightarrow> string \<Rightarrow> handler"
  si_ListActions :: "string \<Rightarrow> string \<Rightarrow> handler"
  si_ExecuteAction :: "string \<Rightarrow> string \<Rightarrow> string \<Rightarrow> handler"
  si_GetConsole :: "string \<Rightarrow> string \<Rightarrow> handler"
  si_GetActionExecution :: "string \<Rightarrow> string \<Rightarrow> string \<Rightarrow> handler"
  si_GetSFTPInfo :: "string \<Rightarrow> string \<Rightarrow> handler"
  si_ListSnapshots :: "string \<Rightarrow> string \<Rightarrow> handler"
  si_CreateSnapshot :: "string \<Rightarrow> string \<Rightarrow> handler"
  si_ListProfiles :: "handler"
  si_GetProfile :: "string \<Rightarrow> handler"
  si_GetAuthConfig :: "handler"
  si_GetHealthz :: "handler"
  si_GetReadyz :: "handler"

definition notImplemented :: handler where
  "notImplemented r = State_Monad.return \<lparr>rs_Status = 501, rs_Body = NoBody\<rparr>"

definition Unimplemented :: ServerInterface where
  "Unimplemented =
     \<lparr>si_ListAPIKeys = notImplemented,
      si_CreateAPIKey = notImplemented,
      si_DeleteAPIKey = (\<lambda>keyId. notImplemented),
      si_ListGameServerFleets = notImplemented,
      si_CreateGameServerFleet = (\<lambda>namespace. notImplemented),
      si_DeleteGameServerFleet = (\<lambda>namespace name. notImplemented),
      si_GetGameServerFleet = (\<lambda>namespace name. notImplemented),
      si_UpdateGameServerFleet = (\<lambda>namespace name. notImplemented),
      si_ListGameServers = notImplemented,
      si_CreateGameServer = (\<lambda>namespace. notImplemented),
      si_DeleteGameServer = (\<lambda>namespace name. notImplemented),
      si_GetGameServer = (\<lambda>namespace name. notImplemented),
      si_UpdateGameServerLifecycle = (\<lambda>namespace name. notImplemented),
      si_ListActions = (\<lambda>namespace name. notImplemented),
      si_ExecuteAction = (\<lambda>namespace name action. notImplemented),
      si_GetConsole = (\<lambda>namespace name. notImplemented),
      si_GetActionExecution = (\<lambda>namespace name executionId. notImplemented),
      si_GetSFTPInfo = (\<lambda>namespace name. notImplemented),
      si_ListSnapshots = (\<lambda>namespace name. notImplemented),
      si_CreateSnapshot = (\<lambda>namespace name. notImplemented),
      si_ListProfiles = notImplemented,
      si_GetProfile = (\<lambda>name. notImplemented),
      si_GetAuthConfig = notImplemented,
      si_GetHealthz = notImplemented,
      si_GetReadyz = notImplemented\<rparr>"

text \<open>The errors that binding parameters can report, and their texts.\<close>

datatype param_error =
    UnescapedCookieParamError string kerr
  | UnmarshalingParamError string kerr
  | RequiredParamError string
  | RequiredHeaderError string kerr
  | InvalidParamFormatError string kerr
  | TooManyValuesForParamError string int

fun paramErrorText :: "param_error \<Rightarrow> string" where
  "paramErrorText (UnescapedCookieParamError name err) =
     ''error unescaping cookie parameter '' @ [CHR 0x27] @ name @ [CHR 0x27]"
| "paramErrorText (UnmarshalingParamError name err) =
     ''Error unmarshaling parameter '' @ name @ '' as JSON: '' @ err_msg err"
| "paramErrorText (RequiredParamError name) = ''Query argument '' @ name @ '' is required, but not found''"
| "paramErrorText (RequiredHeaderError name err) = ''Header parameter '' @ name @ '' is required, but not found''"
| "paramErrorText (InvalidParamFormatError name err) =
     ''Invalid format for parameter '' @ name @ '': '' @ err_msg err"
| "paramErrorText (TooManyValuesForParamError name n) =
     ''Expected one value for '' @ name @ '', got '' @ show_int n"

text \<open>What \<^verbatim>\<open>Unwrap\<close> gives.\<close>

fun paramErrorCause :: "param_error \<Rightarrow> kerr option" where
  "paramErrorCause (UnescapedCookieParamError name err) = Some err"
| "paramErrorCause (UnmarshalingParamError name err) = Some err"
| "paramErrorCause (RequiredHeaderError name err) = Some err"
| "paramErrorCause (InvalidParamFormatError name err) = Some err"
| "paramErrorCause _ = None"

record ServerInterfaceWrapper =
  siw_Handler :: ServerInterface
  siw_HandlerMiddlewares :: "(handler \<Rightarrow> handler) list"
  siw_ErrorHandlerFunc :: "param_error \<Rightarrow> handler"

text \<open>The end of every wrapper: the handler behind the middlewares, the last one outermost.\<close>

definition throughMiddlewares :: "ServerInterfaceWrapper \<Rightarrow> handler \<Rightarrow> handler" where
  "throughMiddlewares siw h = fold (\<lambda>middleware h. middleware h) (siw_HandlerMiddlewares siw) h"

text \<open>One parameter: the request goes on with its value or ends with an error.\<close>

definition bindParam ::
    "router_lib \<Rightarrow> ServerInterfaceWrapper \<Rightarrow> labels \<Rightarrow> string \<Rightarrow> (string \<Rightarrow> handler) \<Rightarrow> handler" where
  "bindParam X siw raw param next' r =
     (case rl_bind X (map_str raw param) of
        Inl err \<Rightarrow> siw_ErrorHandlerFunc siw (InvalidParamFormatError param err) r
      | Inr v \<Rightarrow> next' v r)"


section \<open>The wrappers\<close>

definition wrapListAPIKeys :: "router_lib \<Rightarrow> ServerInterfaceWrapper \<Rightarrow> labels \<Rightarrow> handler" where
  "wrapListAPIKeys X siw raw = throughMiddlewares siw (si_ListAPIKeys (siw_Handler siw))"

definition wrapCreateAPIKey :: "router_lib \<Rightarrow> ServerInterfaceWrapper \<Rightarrow> labels \<Rightarrow> handler" where
  "wrapCreateAPIKey X siw raw = throughMiddlewares siw (si_CreateAPIKey (siw_Handler siw))"

definition wrapDeleteAPIKey :: "router_lib \<Rightarrow> ServerInterfaceWrapper \<Rightarrow> labels \<Rightarrow> handler" where
  "wrapDeleteAPIKey X siw raw =
     bindParam X siw raw ''keyId'' (\<lambda>keyId.
       throughMiddlewares siw (si_DeleteAPIKey (siw_Handler siw) keyId))"

definition wrapListGameServerFleets :: "router_lib \<Rightarrow> ServerInterfaceWrapper \<Rightarrow> labels \<Rightarrow> handler" where
  "wrapListGameServerFleets X siw raw = throughMiddlewares siw (si_ListGameServerFleets (siw_Handler siw))"

definition wrapCreateGameServerFleet :: "router_lib \<Rightarrow> ServerInterfaceWrapper \<Rightarrow> labels \<Rightarrow> handler" where
  "wrapCreateGameServerFleet X siw raw =
     bindParam X siw raw ''namespace'' (\<lambda>namespace.
       throughMiddlewares siw (si_CreateGameServerFleet (siw_Handler siw) namespace))"

definition wrapDeleteGameServerFleet :: "router_lib \<Rightarrow> ServerInterfaceWrapper \<Rightarrow> labels \<Rightarrow> handler" where
  "wrapDeleteGameServerFleet X siw raw =
     bindParam X siw raw ''namespace'' (\<lambda>namespace.
     bindParam X siw raw ''name'' (\<lambda>name.
       throughMiddlewares siw (si_DeleteGameServerFleet (siw_Handler siw) namespace name)))"

definition wrapGetGameServerFleet :: "router_lib \<Rightarrow> ServerInterfaceWrapper \<Rightarrow> labels \<Rightarrow> handler" where
  "wrapGetGameServerFleet X siw raw =
     bindParam X siw raw ''namespace'' (\<lambda>namespace.
     bindParam X siw raw ''name'' (\<lambda>name.
       throughMiddlewares siw (si_GetGameServerFleet (siw_Handler siw) namespace name)))"

definition wrapUpdateGameServerFleet :: "router_lib \<Rightarrow> ServerInterfaceWrapper \<Rightarrow> labels \<Rightarrow> handler" where
  "wrapUpdateGameServerFleet X siw raw =
     bindParam X siw raw ''namespace'' (\<lambda>namespace.
     bindParam X siw raw ''name'' (\<lambda>name.
       throughMiddlewares siw (si_UpdateGameServerFleet (siw_Handler siw) namespace name)))"

definition wrapListGameServers :: "router_lib \<Rightarrow> ServerInterfaceWrapper \<Rightarrow> labels \<Rightarrow> handler" where
  "wrapListGameServers X siw raw = throughMiddlewares siw (si_ListGameServers (siw_Handler siw))"

definition wrapCreateGameServer :: "router_lib \<Rightarrow> ServerInterfaceWrapper \<Rightarrow> labels \<Rightarrow> handler" where
  "wrapCreateGameServer X siw raw =
     bindParam X siw raw ''namespace'' (\<lambda>namespace.
       throughMiddlewares siw (si_CreateGameServer (siw_Handler siw) namespace))"

definition wrapDeleteGameServer :: "router_lib \<Rightarrow> ServerInterfaceWrapper \<Rightarrow> labels \<Rightarrow> handler" where
  "wrapDeleteGameServer X siw raw =
     bindParam X siw raw ''namespace'' (\<lambda>namespace.
     bindParam X siw raw ''name'' (\<lambda>name.
       throughMiddlewares siw (si_DeleteGameServer (siw_Handler siw) namespace name)))"

definition wrapGetGameServer :: "router_lib \<Rightarrow> ServerInterfaceWrapper \<Rightarrow> labels \<Rightarrow> handler" where
  "wrapGetGameServer X siw raw =
     bindParam X siw raw ''namespace'' (\<lambda>namespace.
     bindParam X siw raw ''name'' (\<lambda>name.
       throughMiddlewares siw (si_GetGameServer (siw_Handler siw) namespace name)))"

definition wrapUpdateGameServerLifecycle :: "router_lib \<Rightarrow> ServerInterfaceWrapper \<Rightarrow> labels \<Rightarrow> handler" where
  "wrapUpdateGameServerLifecycle X siw raw =
     bindParam X siw raw ''namespace'' (\<lambda>namespace.
     bindParam X siw raw ''name'' (\<lambda>name.
       throughMiddlewares siw (si_UpdateGameServerLifecycle (siw_Handler siw) namespace name)))"

definition wrapListActions :: "router_lib \<Rightarrow> ServerInterfaceWrapper \<Rightarrow> labels \<Rightarrow> handler" where
  "wrapListActions X siw raw =
     bindParam X siw raw ''namespace'' (\<lambda>namespace.
     bindParam X siw raw ''name'' (\<lambda>name.
       throughMiddlewares siw (si_ListActions (siw_Handler siw) namespace name)))"

definition wrapExecuteAction :: "router_lib \<Rightarrow> ServerInterfaceWrapper \<Rightarrow> labels \<Rightarrow> handler" where
  "wrapExecuteAction X siw raw =
     bindParam X siw raw ''namespace'' (\<lambda>namespace.
     bindParam X siw raw ''name'' (\<lambda>name.
     bindParam X siw raw ''action'' (\<lambda>action.
       throughMiddlewares siw (si_ExecuteAction (siw_Handler siw) namespace name action))))"

definition wrapGetConsole :: "router_lib \<Rightarrow> ServerInterfaceWrapper \<Rightarrow> labels \<Rightarrow> handler" where
  "wrapGetConsole X siw raw =
     bindParam X siw raw ''namespace'' (\<lambda>namespace.
     bindParam X siw raw ''name'' (\<lambda>name.
       throughMiddlewares siw (si_GetConsole (siw_Handler siw) namespace name)))"

definition wrapGetActionExecution :: "router_lib \<Rightarrow> ServerInterfaceWrapper \<Rightarrow> labels \<Rightarrow> handler" where
  "wrapGetActionExecution X siw raw =
     bindParam X siw raw ''namespace'' (\<lambda>namespace.
     bindParam X siw raw ''name'' (\<lambda>name.
     bindParam X siw raw ''executionId'' (\<lambda>executionId.
       throughMiddlewares siw (si_GetActionExecution (siw_Handler siw) namespace name executionId))))"

definition wrapGetSFTPInfo :: "router_lib \<Rightarrow> ServerInterfaceWrapper \<Rightarrow> labels \<Rightarrow> handler" where
  "wrapGetSFTPInfo X siw raw =
     bindParam X siw raw ''namespace'' (\<lambda>namespace.
     bindParam X siw raw ''name'' (\<lambda>name.
       throughMiddlewares siw (si_GetSFTPInfo (siw_Handler siw) namespace name)))"

definition wrapListSnapshots :: "router_lib \<Rightarrow> ServerInterfaceWrapper \<Rightarrow> labels \<Rightarrow> handler" where
  "wrapListSnapshots X siw raw =
     bindParam X siw raw ''namespace'' (\<lambda>namespace.
     bindParam X siw raw ''name'' (\<lambda>name.
       throughMiddlewares siw (si_ListSnapshots (siw_Handler siw) namespace name)))"

definition wrapCreateSnapshot :: "router_lib \<Rightarrow> ServerInterfaceWrapper \<Rightarrow> labels \<Rightarrow> handler" where
  "wrapCreateSnapshot X siw raw =
     bindParam X siw raw ''namespace'' (\<lambda>namespace.
     bindParam X siw raw ''name'' (\<lambda>name.
       throughMiddlewares siw (si_CreateSnapshot (siw_Handler siw) namespace name)))"

definition wrapListProfiles :: "router_lib \<Rightarrow> ServerInterfaceWrapper \<Rightarrow> labels \<Rightarrow> handler" where
  "wrapListProfiles X siw raw = throughMiddlewares siw (si_ListProfiles (siw_Handler siw))"

definition wrapGetProfile :: "router_lib \<Rightarrow> ServerInterfaceWrapper \<Rightarrow> labels \<Rightarrow> handler" where
  "wrapGetProfile X siw raw =
     bindParam X siw raw ''name'' (\<lambda>name.
       throughMiddlewares siw (si_GetProfile (siw_Handler siw) name))"

definition wrapGetAuthConfig :: "router_lib \<Rightarrow> ServerInterfaceWrapper \<Rightarrow> labels \<Rightarrow> handler" where
  "wrapGetAuthConfig X siw raw = throughMiddlewares siw (si_GetAuthConfig (siw_Handler siw))"

definition wrapGetHealthz :: "router_lib \<Rightarrow> ServerInterfaceWrapper \<Rightarrow> labels \<Rightarrow> handler" where
  "wrapGetHealthz X siw raw = throughMiddlewares siw (si_GetHealthz (siw_Handler siw))"

definition wrapGetReadyz :: "router_lib \<Rightarrow> ServerInterfaceWrapper \<Rightarrow> labels \<Rightarrow> handler" where
  "wrapGetReadyz X siw raw = throughMiddlewares siw (si_GetReadyz (siw_Handler siw))"

lemmas wrapper_defs =
  wrapListAPIKeys_def wrapCreateAPIKey_def wrapDeleteAPIKey_def wrapListGameServerFleets_def
  wrapCreateGameServerFleet_def wrapDeleteGameServerFleet_def wrapGetGameServerFleet_def
  wrapUpdateGameServerFleet_def wrapListGameServers_def wrapCreateGameServer_def wrapDeleteGameServer_def
  wrapGetGameServer_def wrapUpdateGameServerLifecycle_def wrapListActions_def wrapExecuteAction_def
  wrapGetConsole_def wrapGetActionExecution_def wrapGetSFTPInfo_def wrapListSnapshots_def
  wrapCreateSnapshot_def wrapListProfiles_def wrapGetProfile_def wrapGetAuthConfig_def wrapGetHealthz_def
  wrapGetReadyz_def

section \<open>Mounting\<close>

text \<open>The function that each route is mounted with.\<close>

definition wrapperFor :: "operation \<Rightarrow> router_lib \<Rightarrow> ServerInterfaceWrapper \<Rightarrow> labels \<Rightarrow> handler" where
  "wrapperFor op =
     (case op of
          OpListAPIKeys \<Rightarrow> wrapListAPIKeys
        | OpCreateAPIKey \<Rightarrow> wrapCreateAPIKey
        | OpDeleteAPIKey \<Rightarrow> wrapDeleteAPIKey
        | OpListGameServerFleets \<Rightarrow> wrapListGameServerFleets
        | OpCreateGameServerFleet \<Rightarrow> wrapCreateGameServerFleet
        | OpDeleteGameServerFleet \<Rightarrow> wrapDeleteGameServerFleet
        | OpGetGameServerFleet \<Rightarrow> wrapGetGameServerFleet
        | OpUpdateGameServerFleet \<Rightarrow> wrapUpdateGameServerFleet
        | OpListGameServers \<Rightarrow> wrapListGameServers
        | OpCreateGameServer \<Rightarrow> wrapCreateGameServer
        | OpDeleteGameServer \<Rightarrow> wrapDeleteGameServer
        | OpGetGameServer \<Rightarrow> wrapGetGameServer
        | OpUpdateGameServerLifecycle \<Rightarrow> wrapUpdateGameServerLifecycle
        | OpListActions \<Rightarrow> wrapListActions
        | OpExecuteAction \<Rightarrow> wrapExecuteAction
        | OpGetConsole \<Rightarrow> wrapGetConsole
        | OpGetActionExecution \<Rightarrow> wrapGetActionExecution
        | OpGetSFTPInfo \<Rightarrow> wrapGetSFTPInfo
        | OpListSnapshots \<Rightarrow> wrapListSnapshots
        | OpCreateSnapshot \<Rightarrow> wrapCreateSnapshot
        | OpListProfiles \<Rightarrow> wrapListProfiles
        | OpGetProfile \<Rightarrow> wrapGetProfile
        | OpGetAuthConfig \<Rightarrow> wrapGetAuthConfig
        | OpGetHealthz \<Rightarrow> wrapGetHealthz
        | OpGetReadyz \<Rightarrow> wrapGetReadyz)"

record ChiServerOptions =
  opt_Middlewares :: "(handler \<Rightarrow> handler) list"
  opt_ErrorHandlerFunc :: "(param_error \<Rightarrow> handler) option"

definition defaultErrorHandler :: "param_error \<Rightarrow> handler" where
  "defaultErrorHandler err r = State_Monad.return (http_error 400 (paramErrorText err))"

definition mountedHandler :: "router_lib \<Rightarrow> ServerInterface \<Rightarrow> ChiServerOptions \<Rightarrow> handler" where
  "mountedHandler X si options r =
     (let wrapper = \<lparr>siw_Handler = si, siw_HandlerMiddlewares = opt_Middlewares options,
                     siw_ErrorHandlerFunc = (case opt_ErrorHandlerFunc options of
                                               None \<Rightarrow> defaultErrorHandler | Some f \<Rightarrow> f)\<rparr>
      in case rl_route X (rq_Method r) (routePath r) of
           Inl resp \<Rightarrow> State_Monad.return resp
         | Inr (op, raw) \<Rightarrow> wrapperFor op X wrapper raw r)"

definition HandlerFromMux :: "router_lib \<Rightarrow> ServerInterface \<Rightarrow> handler" where
  "HandlerFromMux X si = mountedHandler X si \<lparr>opt_Middlewares = [], opt_ErrorHandlerFunc = None\<rparr>"

text \<open>The methods of the control plane as a server.\<close>

definition controlPlaneServer ::
    "klib \<Rightarrow> authlib \<Rightarrow> cp_env \<Rightarrow> controlPlaneAPI \<Rightarrow> request_bodies \<Rightarrow> ServerInterface" where
  "controlPlaneServer L A E api B =
     \<lparr>si_ListAPIKeys = ApiListAPIKeys A E api,
      si_CreateAPIKey = (\<lambda>r. ApiCreateAPIKey A E api (bd_key B r) r),
      si_DeleteAPIKey = (\<lambda>keyId. ApiDeleteAPIKey E api keyId),
      si_ListGameServerFleets = ApiListGameServerFleets E,
      si_CreateGameServerFleet = (\<lambda>namespace r. ApiCreateGameServerFleet L E api namespace (bd_fleet B r) r),
      si_DeleteGameServerFleet = (\<lambda>namespace name. ApiDeleteGameServerFleet E namespace name),
      si_GetGameServerFleet = (\<lambda>namespace name. ApiGetGameServerFleet E namespace name),
      si_UpdateGameServerFleet = (\<lambda>namespace name r. ApiUpdateGameServerFleet E namespace name (bd_replicas B r) r),
      si_ListGameServers = ApiListGameServers E,
      si_CreateGameServer = (\<lambda>namespace r. ApiCreateGameServer L E api namespace (bd_server B r) r),
      si_DeleteGameServer = (\<lambda>namespace name. ApiDeleteGameServer E namespace name),
      si_GetGameServer = (\<lambda>namespace name. ApiGetGameServer E namespace name),
      si_UpdateGameServerLifecycle = (\<lambda>namespace name r. ApiUpdateGameServerLifecycle E namespace name (bd_lifecycle B r) r),
      si_ListActions = (\<lambda>namespace name. ApiListActions E namespace name),
      si_ExecuteAction = (\<lambda>namespace name action r. ApiExecuteAction E namespace name action (bd_params B r) r),
      si_GetConsole = (\<lambda>namespace name. ApiGetConsole E B namespace name),
      si_GetActionExecution = (\<lambda>namespace name executionId. ApiGetActionExecution E namespace name executionId),
      si_GetSFTPInfo = (\<lambda>namespace name. ApiGetSFTPInfo E namespace name),
      si_ListSnapshots = (\<lambda>namespace name. ApiListSnapshots E namespace name),
      si_CreateSnapshot = (\<lambda>namespace name. ApiCreateSnapshot E namespace name),
      si_ListProfiles = ApiListProfiles E,
      si_GetProfile = (\<lambda>name. ApiGetProfile E name),
      si_GetAuthConfig = (\<lambda>r. State_Monad.return (GetAuthConfig api)),
      si_GetHealthz = (\<lambda>r. State_Monad.return GetHealthz),
      si_GetReadyz = (\<lambda>r. State_Monad.return GetReadyz)\<rparr>"


section \<open>The wrappers meet the table\<close>

definition plainWrapper :: "ServerInterface \<Rightarrow> ServerInterfaceWrapper" where
  "plainWrapper si =
     \<lparr>siw_Handler = si, siw_HandlerMiddlewares = [], siw_ErrorHandlerFunc = defaultErrorHandler\<rparr>"

lemma bindParam_default:
  "bindParam X (plainWrapper si) raw param next' r =
     (case rl_bind X (map_str raw param) of
        Inl err \<Rightarrow> State_Monad.return (http_error 400 (''Invalid format for parameter '' @ param @ '': '' @ err_msg err))
      | Inr v \<Rightarrow> next' v r)"
  by (simp add: bindParam_def plainWrapper_def defaultErrorHandler_def split: sum.splits)

lemma plainWrapper_runs:
  "siw_Handler (plainWrapper si) = si" "throughMiddlewares (plainWrapper si) h = h"
  by (simp_all add: plainWrapper_def throughMiddlewares_def)

lemma wrapperFor_table:
  "wrapperFor op X (plainWrapper (controlPlaneServer L A E api B)) raw r =
     (case bindPathParams X raw (pathParams op) of
        Inl resp \<Rightarrow> State_Monad.return resp
      | Inr vals \<Rightarrow> dispatch L A E api B op vals r)"
  by (cases op)
    (simp_all add: wrapperFor_def wrapper_defs bindParam_default plainWrapper_runs dispatch_def map_str_def
      controlPlaneServer_def split: sum.splits)

text \<open>
  Mounting the control plane's methods with the default options gives, for every router, request and state, the handler
  of the table: each wrapper binds exactly the parameters of its operation, in order, ends with 400 and the name of the
  parameter at the first that does not bind, without calling anything, and otherwise runs the method of the same name
  with the values bound.
\<close>

lemma wrappers_follow_routes:
  "HandlerFromMux X (controlPlaneServer L A E api B) = routedApi X L A E api B"
  by (simp add: fun_eq_iff HandlerFromMux_def mountedHandler_def routedApi_def Let_def
      wrapperFor_table [unfolded plainWrapper_def] split: sum.splits)

text \<open>A server without methods of its own answers every routed request whose parameters bind with 501.\<close>

lemma unimplemented_answers:
  assumes "rl_route X (rq_Method r) (routePath r) = Inr (op, raw)" "\<forall>v. \<exists>v'. rl_bind X v = Inr v'"
  shows "HandlerFromMux X Unimplemented r = State_Monad.return \<lparr>rs_Status = 501, rs_Body = NoBody\<rparr>"
proof -
  obtain bnd where "rl_bind X = (\<lambda>v. Inr (bnd v))" using assms(2) by metis
  then show ?thesis
    using assms(1)
    by (cases op) (simp_all add: HandlerFromMux_def mountedHandler_def wrapperFor_def wrapper_defs bindParam_def
        throughMiddlewares_def Unimplemented_def notImplemented_def)
qed

text \<open>A middleware of the options sees a request only after its parameters are bound.\<close>

lemma middlewares_after_binding:
  assumes "rl_bind X (map_str raw ''namespace'') = Inl err"
  shows "wrapGetGameServer X siw raw r =
    siw_ErrorHandlerFunc siw (InvalidParamFormatError ''namespace'' err) r"
  using assms by (simp add: wrapGetGameServer_def bindParam_def)

end
