(* ===== verification/Api_Properties.thy ===== *)
theory Api_Properties
  imports Api_Wrappers
begin

text \<open>
  The control plane as a whole: which rule and which namespace the guards see for a routed request, what the handlers
  touch, and that together no caller reaches beyond its role and its namespaces.
\<close>

section \<open>What a routed request looks like to the guards\<close>

lemma join_char_ends:
  "segs \<noteq> [] \<Longrightarrow> \<forall>s\<in>set segs. s \<noteq> [] \<and> c \<notin> set s \<Longrightarrow>
     join_char c segs \<noteq> [] \<and> hd (join_char c segs) \<noteq> c \<and> last (join_char c segs) \<noteq> c"
proof (induction c segs rule: join_char.induct)
  case (2 c s)
  then show ?case by simp (metis hd_in_set last_in_set)
next
  case (3 c s t ts)
  then have "join_char c (t # ts) \<noteq> []" "last (join_char c (t # ts)) \<noteq> c" "s \<noteq> []" "hd s \<in> set s" "c \<notin> set s"
    by auto
  then show ?case by (auto simp: hd_append)
qed simp

lemma pathSegments_split:
  assumes "split_char (CHR ''/'') path = [] # segs" "segs \<noteq> []" "\<forall>s\<in>set segs. s \<noteq> []"
  shows "pathSegments path = segs"
proof -
  let ?rest = "join_char (CHR ''/'') segs"
  have free: "\<forall>s\<in>set segs. CHR ''/'' \<notin> set s"
    using split_char_free [of _ "CHR ''/''" path] assms(1) by auto
  have path: "path = CHR ''/'' # ?rest"
    using join_split [of "CHR ''/''" path] assms(1,2) by (cases segs) auto
  have ends: "?rest \<noteq> []" "hd ?rest \<noteq> CHR ''/''" "last ?rest \<noteq> CHR ''/''"
    using join_char_ends [of segs "CHR ''/''"] assms(2,3) free by blast+
  then have "dropWhile (\<lambda>c. c = CHR ''/'') path = ?rest"
    using path by (cases ?rest) auto
  moreover have "rev (dropWhile (\<lambda>c. c = CHR ''/'') (rev ?rest)) = ?rest"
    using ends by (cases ?rest rule: rev_cases) auto
  ultimately have "trim_by (\<lambda>c. c = CHR ''/'') path = ?rest"
    by (simp add: trim_by_def)
  then show ?thesis
    using split_join [OF assms(2) free] by (simp add: pathSegments_def)
qed

lemma bound_params:
  assumes "\<And>v v'. rl_bind X v = Inr v' \<Longrightarrow> v \<noteq> [] \<and> (CHR ''%'' \<notin> set v \<longrightarrow> v' = v)"
    and "bindPathParams X raw params = Inr vals" "p \<in> set params"
  shows "map_str raw p \<noteq> [] \<and> (CHR ''%'' \<notin> set (map_str raw p) \<longrightarrow> map_str vals p = map_str raw p)"
  using assms(2,3)
proof (induction params arbitrary: vals)
  case (Cons q ps)
  then obtain v rest where "rl_bind X (map_str raw q) = Inr v" "bindPathParams X raw ps = Inr rest"
    "vals = (q, v) # rest"
    by (auto simp: map_sum_def split: sum.splits)
  with Cons.IH [of rest] Cons.prems(2) assms(1) [of "map_str raw q" v] show ?case
    by (cases "p = q") (auto simp: map_str_def)
qed simp

lemma split_char_chars: "s \<in> set (split_char c p) \<Longrightarrow> set s \<subseteq> set p"
proof (induction p arbitrary: s)
  case (Cons x p)
  then show ?case by (cases "split_char c p") (fastforce split: if_splits)+
qed simp

text \<open>Operations that change something, and those on the Secrets of the API keys.\<close>

definition mutates :: "operation \<Rightarrow> bool" where
  "mutates op \<longleftrightarrow>
     op \<in> {OpCreateAPIKey, OpDeleteAPIKey, OpCreateGameServerFleet, OpDeleteGameServerFleet, OpUpdateGameServerFleet,
           OpCreateGameServer, OpDeleteGameServer, OpUpdateGameServerLifecycle, OpExecuteAction, OpCreateSnapshot}"

definition on_keys :: "operation \<Rightarrow> bool" where
  "on_keys op \<longleftrightarrow> op \<in> {OpListAPIKeys, OpCreateAPIKey, OpDeleteAPIKey}"

text \<open>
  Patterns of rules against patterns of routes: a rule pattern matches the paths of a route with the same pattern, and
  no path of a route that differs from it in length or in a literal segment.
\<close>

fun clash :: "string list \<Rightarrow> string list \<Rightarrow> bool" where
  "clash [] [] = False"
| "clash (p # ps) (q # qs) \<longleftrightarrow> \<not> templated p \<and> \<not> templated q \<and> p \<noteq> q \<or> clash ps qs"
| "clash _ _ = True"

lemma match_clash: "clash ps qs \<Longrightarrow> \<not> matchSegments ps (map (fill raw) qs)"
  by (induction ps qs rule: clash.induct) (auto simp: fill_def)

lemma match_same:
  "\<forall>s\<in>set ps. templated s \<longrightarrow> map_str raw (butlast (tl s)) \<noteq> [] \<Longrightarrow> matchSegments ps (map (fill raw) ps)"
  by (induction ps) (auto simp: fill_def)

text \<open>Facts of the two tables, by evaluation.\<close>

abbreviation route_segments :: "string \<Rightarrow> string list" where
  "route_segments pattern \<equiv> tl (split_char (CHR ''/'') pattern)"

lemma tables_disjoint:
  "list_all (\<lambda>(m, pattern, op). list_all (\<lambda>ru.
     if rr_Pattern ru = pattern then pathSegments (rr_Pattern ru) = route_segments pattern
     else clash (pathSegments (rr_Pattern ru)) (route_segments pattern)) DefaultRules) HandlerWithOptions"
  by code_simp

lemma routes_well_formed:
  "list_all (\<lambda>(m, pattern, op).
     hd (split_char (CHR ''/'') pattern) = [] \<and> route_segments pattern \<noteq> [] \<and>
     list_all (\<lambda>s. if templated s then butlast (tl s) \<in> set (pathParams op) else s \<noteq> []) (route_segments pattern) \<and>
     (''namespace'' \<in> set (pathParams op) \<longrightarrow>
        length (route_segments pattern) \<ge> 4 \<and> route_segments pattern ! 0 = ''api'' \<and>
        route_segments pattern ! 2 \<in> set [''gameservers'', ''gameserverfleets''] \<and>
        route_segments pattern ! 3 = ''{namespace}'')) HandlerWithOptions"
  by code_simp

lemma rules_cover_routes:
  "list_all (\<lambda>(m, pattern, op). mutates op \<or> on_keys op \<longrightarrow>
     (case find (\<lambda>ru. (rr_Method ru = ''*'' \<or> rr_Method ru = m) \<and> rr_Pattern ru = pattern) DefaultRules of
        None \<Rightarrow> False
      | Some ru \<Rightarrow> list_all (\<lambda>role. role \<in> set [''operator'', ''admin'']) (rr_Roles ru) \<and>
          (on_keys op \<longrightarrow> rr_Roles ru = [''admin''] \<and> rr_ClusterWide ru))) HandlerWithOptions"
  by code_simp

text \<open>A request that was routed, with its parameters bound.\<close>

definition routed :: "http_request \<Rightarrow> string \<Rightarrow> operation \<Rightarrow> labels \<Rightarrow> bool" where
  "routed r pattern op raw \<longleftrightarrow>
     (rq_Method r, pattern, op) \<in> set HandlerWithOptions \<and>
     split_char (CHR ''/'') (rq_Path r) = map (fill raw) (split_char (CHR ''/'') pattern) \<and>
     (\<forall>p\<in>set (pathParams op). map_str raw p \<noteq> [])"

lemma mounted_segments:
  assumes "(m, pattern, op) \<in> set HandlerWithOptions"
  shows "hd (split_char (CHR ''/'') pattern) = []" "route_segments pattern \<noteq> []"
    "\<forall>s\<in>set (route_segments pattern). if templated s then butlast (tl s) \<in> set (pathParams op) else s \<noteq> []"
    "''namespace'' \<in> set (pathParams op) \<Longrightarrow>
       length (route_segments pattern) \<ge> 4 \<and> route_segments pattern ! 0 = ''api'' \<and>
       route_segments pattern ! 2 \<in> {''gameservers'', ''gameserverfleets''} \<and>
       route_segments pattern ! 3 = ''{namespace}''"
  using bspec [OF routes_well_formed [unfolded list_all_iff] assms]
  by (simp_all only: prod.case list.set) simp_all

lemma routed_params:
  assumes "routed r pattern op raw"
  shows "\<forall>s\<in>set (route_segments pattern). templated s \<longrightarrow> map_str raw (butlast (tl s)) \<noteq> []"
    "\<forall>s\<in>set (route_segments pattern). fill raw s \<noteq> []"
proof -
  have "\<forall>s\<in>set (route_segments pattern). if templated s then butlast (tl s) \<in> set (pathParams op) else s \<noteq> []"
    "\<forall>p\<in>set (pathParams op). map_str raw p \<noteq> []"
    using assms mounted_segments(3) by (auto simp only: routed_def)
  then show "\<forall>s\<in>set (route_segments pattern). templated s \<longrightarrow> map_str raw (butlast (tl s)) \<noteq> []"
    "\<forall>s\<in>set (route_segments pattern). fill raw s \<noteq> []"
    by (metis, metis fill_def)
qed

lemma routed_path:
  assumes "routed r pattern op raw"
  shows "pathSegments (rq_Path r) = map (fill raw) (route_segments pattern)"
proof (rule pathSegments_split)
  have "hd (split_char (CHR ''/'') pattern) = []" "route_segments pattern \<noteq> []"
    using assms mounted_segments(1,2) by (auto simp only: routed_def)
  moreover have "\<not> templated []" by (simp add: templated_def HasPrefix_def)
  ultimately show "split_char (CHR ''/'') (rq_Path r) = [] # map (fill raw) (route_segments pattern)"
    "map (fill raw) (route_segments pattern) \<noteq> []"
    using assms by (cases "split_char (CHR ''/'') pattern"; simp add: routed_def fill_def)+
qed (use routed_params(2) [OF assms] in simp)

lemma routed_rule:
  assumes "routed r pattern op raw"
  shows "find (ruleApplies r) DefaultRules =
    find (\<lambda>ru. (rr_Method ru = ''*'' \<or> rr_Method ru = rq_Method r) \<and> rr_Pattern ru = pattern) DefaultRules"
proof (rule find_cong)
  fix ru assume "ru \<in> set DefaultRules"
  then have "if rr_Pattern ru = pattern then pathSegments (rr_Pattern ru) = route_segments pattern
      else clash (pathSegments (rr_Pattern ru)) (route_segments pattern)"
    using bspec [OF bspec [OF tables_disjoint [unfolded list_all_iff], of "(rq_Method r, pattern, op)", unfolded prod.case]]
      assms by (blast intro: routed_def [THEN iffD1, THEN conjunct1])
  then show "ruleApplies r ru \<longleftrightarrow> (rr_Method ru = ''*'' \<or> rr_Method ru = rq_Method r) \<and> rr_Pattern ru = pattern"
    using match_clash match_same [OF routed_params(1) [OF assms]]
    by (auto simp: ruleApplies_def MatchPath_def routed_path [OF assms] split: if_splits)
qed simp

lemma routed_guarded:
  assumes "routed r pattern op raw" "mutates op \<or> on_keys op"
  obtains ru where "find (ruleApplies r) DefaultRules = Some ru" "set (rr_Roles ru) \<subseteq> {''operator'', ''admin''}"
    "on_keys op \<Longrightarrow> rr_Roles ru = [''admin''] \<and> rr_ClusterWide ru"
proof -
  have "(rq_Method r, pattern, op) \<in> set HandlerWithOptions" using assms(1) by (simp only: routed_def)
  from bspec [OF rules_cover_routes [unfolded list_all_iff] this] assms(2) that show thesis
    by (auto simp: routed_rule [OF assms(1)] split: option.splits)
qed

lemma routed_namespace:
  assumes "routed r pattern op raw" "''namespace'' \<in> set (pathParams op)"
  shows "NamespaceFromPath (rq_Path r) = map_str raw ''namespace''"
proof -
  let ?segs = "route_segments pattern"
  have segs: "length ?segs \<ge> 4" "?segs ! 0 = ''api''" "?segs ! 2 \<in> {''gameservers'', ''gameserverfleets''}"
    "?segs ! 3 = ''{namespace}''"
    using assms mounted_segments(4) by (auto simp only: routed_def)
  have "\<not> templated ''api''" "\<not> templated ''gameservers''" "\<not> templated ''gameserverfleets''" "templated ''{namespace}''"
    by (simp_all add: templated_def HasPrefix_def HasSuffix_def)
  with segs show ?thesis
    by (auto simp: NamespaceFromPath_def routed_path [OF assms(1)] Let_def fill_def)
qed

lemma routed_namespace_chars:
  assumes "routed r pattern op raw" "''namespace'' \<in> set (pathParams op)"
  shows "set (map_str raw ''namespace'') \<subseteq> set (rq_Path r)"
proof -
  have "''{namespace}'' \<in> set (route_segments pattern)"
    using assms mounted_segments(4) nth_mem [of 3 "route_segments pattern"] by (fastforce simp only: routed_def)
  then have "fill raw ''{namespace}'' \<in> set (split_char (CHR ''/'') (rq_Path r))"
    using assms(1) by (cases "split_char (CHR ''/'') pattern") (auto simp: routed_def)
  moreover have "fill raw ''{namespace}'' = map_str raw ''namespace''"
    by (simp add: fill_def templated_def HasPrefix_def HasSuffix_def)
  ultimately show ?thesis using split_char_chars by metis
qed


section \<open>What the handlers touch\<close>

text \<open>The namespace of the object a call reads or writes, and whether it writes.\<close>

fun touched :: "cp_call \<Rightarrow> string option" where
  "touched (ListKeySecrets ns) = Some ns"
| "touched (CreateKeySecret s) = Some (ks_Namespace s)"
| "touched (DeleteKeySecret k) = Some (nn_Namespace k)"
| "touched (GetNamespace ns) = Some ns"
| "touched (CreateNamespace n) = Some (ns_Name n)"
| "touched (CreateQuota q) = Some (om_Namespace (rq_meta q))"
| "touched (CreatePolicy p) = Some (om_Namespace (pol_meta p))"
| "touched (CpGetServer k) = Some (nn_Namespace k)"
| "touched (CpCreateServer s) = Some (server_namespace s)"
| "touched (CpUpdateServer s) = Some (server_namespace s)"
| "touched (CpDeleteServer k) = Some (nn_Namespace k)"
| "touched (CpGetFleet k) = Some (nn_Namespace k)"
| "touched (CpCreateFleet f) = Some (om_Namespace (fleet_meta f))"
| "touched (CpUpdateFleet f) = Some (om_Namespace (fleet_meta f))"
| "touched (CpDeleteFleet k) = Some (nn_Namespace k)"
| "touched (CpGetSecret k) = Some (nn_Namespace k)"
| "touched (CpCreateExecution x) = Some (om_Namespace (exec_meta x))"
| "touched (CpGetExecution k) = Some (nn_Namespace k)"
| "touched (CpListSnapshots ns server) = Some ns"
| "touched (CpCreateSnapshot s) = Some (om_Namespace (snap_meta s))"
| "touched _ = None"

fun writes :: "cp_call \<Rightarrow> bool" where
  "writes (CreateKeySecret s) = True"
| "writes (DeleteKeySecret k) = True"
| "writes (CreateNamespace n) = True"
| "writes (CreateQuota q) = True"
| "writes (CreatePolicy p) = True"
| "writes (CpCreateServer s) = True"
| "writes (CpUpdateServer s) = True"
| "writes (CpDeleteServer k) = True"
| "writes (CpCreateFleet f) = True"
| "writes (CpUpdateFleet f) = True"
| "writes (CpDeleteFleet k) = True"
| "writes (CpCreateExecution x) = True"
| "writes (CpCreateSnapshot s) = True"
| "writes _ = False"

fun key_secret :: "cp_call \<Rightarrow> bool" where
  "key_secret (ListKeySecrets ns) = True"
| "key_secret (CreateKeySecret s) = True"
| "key_secret (DeleteKeySecret k) = True"
| "key_secret _ = False"

text \<open>The calls an operation may make with a namespace parameter.\<close>

definition own_calls :: "operation \<Rightarrow> string \<Rightarrow> cp_call \<Rightarrow> bool" where
  "own_calls op ns c \<longleftrightarrow>
     (writes c \<longrightarrow> mutates op) \<and> (key_secret c \<longrightarrow> on_keys op) \<and>
     (\<forall>n. touched c = Some n \<longrightarrow> on_keys op \<or> ''namespace'' \<in> set (pathParams op) \<and> n = ns)"

lemma emits_or_error:
  "emits P m (\<lambda>_. True) \<Longrightarrow> (\<And>a. emits P (k a) (\<lambda>_. True)) \<Longrightarrow> emits P (or_error status m k) (\<lambda>_. True)"
  unfolding or_error_def by (intro emits_seq emits_intros) auto

lemma emits_or_error_perform:
  "P c \<Longrightarrow> (\<And>h a. answer h = Inr a \<Longrightarrow> emits P (k a) (\<lambda>_. True)) \<Longrightarrow>
     emits P (or_error status (perform c answer) k) (\<lambda>_. True)"
  unfolding or_error_def by (rule emits_bind_perform) (auto intro!: emits_intros)

lemmas own_simps = own_calls_def mutates_def on_keys_def ns_key_def new_meta_def

lemma own_EnsureNamespace:
  assumes "mutates op" "''namespace'' \<in> set (pathParams op)"
  shows "emits (own_calls op ns) (EnsureNamespace L E ns cfg) (\<lambda>_. True)"
proof -
  have "own_calls op ns (CreateQuota q)" if "BuildResourceQuota L ns (withDefaults cfg) = Inr (Some q)" for q
    using that assms
    by (auto simp: own_calls_def BuildResourceQuota_def new_meta_def Let_def split: sum.splits if_splits)
  then show ?thesis
    using assms unfolding EnsureNamespace_def Let_def
    by (intro emits_steps emits_intros)
      (auto simp: own_calls_def BuildNamespace_def BuildNetworkPolicy_def new_meta_def Let_def)
qed

lemma own_LogAction: "emits (own_calls op ns) (LogAction action res user) (\<lambda>_. True)"
  unfolding LogAction_def by (intro emits_intros) (auto simp: own_calls_def)

lemmas own_intros = emits_or_error_perform emits_or_error own_LogAction own_EnsureNamespace emits_seq emits_intros

lemma own_keys:
  "emits (own_calls OpListAPIKeys ns) (ApiListAPIKeys A E api r) (\<lambda>_. True)"
  "emits (own_calls OpCreateAPIKey ns) (ApiCreateAPIKey A E api body r) (\<lambda>_. True)"
  "emits (own_calls OpDeleteAPIKey ns) (ApiDeleteAPIKey E api key r) (\<lambda>_. True)"
  unfolding ApiListAPIKeys_def ListKeys_def listKeySecrets_def ApiCreateAPIKey_def issueKey_def GenerateKey_def
    generateRandomKey_def cpClock_def ApiDeleteAPIKey_def DeleteKey_def Let_def
  by (intro own_intros emits_steps; simp add: own_simps)+

lemma own_servers:
  assumes "gets_keyed E"
  shows "emits (own_calls OpCreateGameServer ns) (ApiCreateGameServer L E api ns decoded r) (\<lambda>_. True)"
    "emits (own_calls OpDeleteGameServer ns) (ApiDeleteGameServer E ns name r) (\<lambda>_. True)"
    "emits (own_calls OpUpdateGameServerLifecycle ns) (ApiUpdateGameServerLifecycle E ns name patch r) (\<lambda>_. True)"
  unfolding ApiCreateGameServer_def ApiDeleteGameServer_def ApiUpdateGameServerLifecycle_def Let_def
  by (intro own_intros; use assms in \<open>auto simp: own_simps gets_keyed_def with_namespace_def patchServer_def\<close>)+

lemma own_fleets:
  assumes "gets_keyed E"
  shows "emits (own_calls OpCreateGameServerFleet ns) (ApiCreateGameServerFleet L E api ns decoded' r) (\<lambda>_. True)"
    "emits (own_calls OpDeleteGameServerFleet ns) (ApiDeleteGameServerFleet E ns name r) (\<lambda>_. True)"
    "emits (own_calls OpUpdateGameServerFleet ns) (ApiUpdateGameServerFleet E ns name replicas r) (\<lambda>_. True)"
  unfolding ApiCreateGameServerFleet_def ApiDeleteGameServerFleet_def ApiUpdateGameServerFleet_def Let_def
  by (intro own_intros; use assms in \<open>auto simp: own_simps gets_keyed_def fleet_in_def scaledTo_def\<close>)+

lemma own_actions:
  "emits (own_calls OpExecuteAction ns) (ApiExecuteAction E ns name action params r) (\<lambda>_. True)"
  "emits (own_calls OpCreateSnapshot ns) (ApiCreateSnapshot E ns name r) (\<lambda>_. True)"
  unfolding ApiExecuteAction_def ApiCreateSnapshot_def cpClock_def Let_def
  by (intro own_intros; simp add: own_simps newExecution_def newSnapshot_def)+

lemma own_reads:
  "emits (own_calls OpListGameServers ns) (ApiListGameServers E r) (\<lambda>_. True)"
  "emits (own_calls OpListGameServerFleets ns) (ApiListGameServerFleets E r) (\<lambda>_. True)"
  "emits (own_calls OpListProfiles ns) (ApiListProfiles E r) (\<lambda>_. True)"
  "emits (own_calls OpGetProfile ns) (ApiGetProfile E name r) (\<lambda>_. True)"
  "emits (own_calls OpGetGameServer ns) (ApiGetGameServer E ns name r) (\<lambda>_. True)"
  "emits (own_calls OpGetGameServerFleet ns) (ApiGetGameServerFleet E ns name r) (\<lambda>_. True)"
  "emits (own_calls OpListActions ns) (ApiListActions E ns name r) (\<lambda>_. True)"
  "emits (own_calls OpGetConsole ns) (ApiGetConsole E B ns name r) (\<lambda>_. True)"
  "emits (own_calls OpGetActionExecution ns) (ApiGetActionExecution E ns name execution r) (\<lambda>_. True)"
  "emits (own_calls OpGetSFTPInfo ns) (ApiGetSFTPInfo E ns name r) (\<lambda>_. True)"
  "emits (own_calls OpListSnapshots ns) (ApiListSnapshots E ns name r) (\<lambda>_. True)"
  unfolding ApiListGameServers_def ApiListGameServerFleets_def ApiListProfiles_def ApiGetProfile_def
    ApiGetGameServer_def ApiGetGameServerFleet_def ApiListActions_def ApiGetConsole_def ApiGetActionExecution_def
    ApiGetSFTPInfo_def ApiListSnapshots_def Let_def
  by (intro own_intros; simp add: own_simps)+

lemma own_dispatch:
  assumes "gets_keyed E"
  shows "emits (own_calls op (map_str vals ''namespace'')) (dispatch L A E api B op vals r) (\<lambda>_. True)"
  unfolding dispatch_def Let_def
  by (cases op; simp add: own_keys own_servers [OF assms] own_fleets [OF assms] own_actions own_reads emits_return)


section \<open>Who may do what\<close>

lemma routedApi_own:
  assumes "routes_as_mounted X" "gets_keyed E" "rq_RawPath r = [] \<and> CHR ''%'' \<notin> set (rq_Path r)"
    and "c \<in> set (issued (routedApi X L A E api B r) w)"
  obtains pattern op raw where "routed r pattern op raw" "own_calls op (map_str raw ''namespace'') c"
proof -
  obtain op raw vals where route: "rl_route X (rq_Method r) (rq_Path r) = Inr (op, raw)"
    and bound: "bindPathParams X raw (pathParams op) = Inr vals"
    and c: "c \<in> set (issued (dispatch L A E api B op vals r) w)"
    using assms(3,4) by (auto simp: routedApi_def routePath_def split: sum.splits)
  have params: "map_str raw p \<noteq> [] \<and> (CHR ''%'' \<notin> set (map_str raw p) \<longrightarrow> map_str vals p = map_str raw p)"
    if "p \<in> set (pathParams op)" for p
    using assms(1) by (intro bound_params [OF _ bound that]) (auto simp: routes_as_mounted_def)
  obtain pattern where "(rq_Method r, pattern, op) \<in> set HandlerWithOptions"
    "split_char (CHR ''/'') (rq_Path r) = map (fill raw) (split_char (CHR ''/'') pattern)"
    using assms(1) route unfolding routes_as_mounted_def by blast
  with params have routed: "routed r pattern op raw" by (simp add: routed_def)
  have "map_str vals ''namespace'' = map_str raw ''namespace''" if "''namespace'' \<in> set (pathParams op)"
    using params [OF that] routed_namespace_chars [OF routed that] assms(3) by blast
  moreover have "own_calls op (map_str vals ''namespace'') c"
    using emitsD_issued [OF own_dispatch [OF assms(2)] c] .
  ultimately show thesis
    by (intro that [OF routed]) (auto simp: own_calls_def)
qed


text \<open>A router that compares segments, for the concrete instance.\<close>

fun bind_segments :: "string list \<Rightarrow> string list \<Rightarrow> labels option" where
  "bind_segments [] [] = Some []"
| "bind_segments (p # ps) (s # ss) =
     (if templated p then map_option (Cons (butlast (tl p), s)) (bind_segments ps ss)
      else if p = s then bind_segments ps ss else None)"
| "bind_segments _ _ = None"

definition ex_router :: router_lib where
  "ex_router =
     \<lparr>rl_route = (\<lambda>m path.
        case List.map_filter (\<lambda>(m', pattern, op).
          if m' = m then map_option (\<lambda>raw. (op, raw))
            (bind_segments (split_char (CHR ''/'') pattern) (split_char (CHR ''/'') path))
          else None) HandlerWithOptions of
          [] \<Rightarrow> Inl (http_error 404 ''404 page not found'')
        | found # _ \<Rightarrow> Inr found),
      rl_bind = (\<lambda>v. if v = [] then Inl (new_error ''empty'') else Inr v)\<rparr>"

lemma bind_segments_fill:
  "bind_segments ps ss = Some raw \<Longrightarrow> distinct (map (\<lambda>p. butlast (tl p)) (filter templated ps)) \<Longrightarrow>
     ss = map (fill raw) ps \<and> map fst raw = map (\<lambda>p. butlast (tl p)) (filter templated ps)"
proof (induction ps ss arbitrary: raw rule: bind_segments.induct)
  case (2 p ps s ss)
  show ?case
  proof (cases "templated p")
    case True
    with "2.prems" obtain rest where rest: "bind_segments ps ss = Some rest" "raw = (butlast (tl p), s) # rest"
      by auto
    with 2 True have IH: "ss = map (fill rest) ps" "map fst rest = map (\<lambda>p. butlast (tl p)) (filter templated ps)"
      by auto
    have "fill raw q = fill rest q" if "q \<in> set ps" for q
    proof (cases "templated q")
      case q: True
      then have "butlast (tl q) \<in> (\<lambda>x. butlast (tl x)) ` {x \<in> set ps. templated x}" using that by blast
      then have "butlast (tl q) \<noteq> butlast (tl p)" using "2.prems"(2) True by auto
      with q show ?thesis by (simp add: rest(2) fill_def map_str_def)
    qed (simp add: fill_def)
    with IH rest(2) True show ?thesis by (simp add: fill_def map_str_def)
  next
    case False
    with 2 show ?thesis by (auto simp: fill_def split: if_splits)
  qed
qed auto

lemma mounted_params_distinct:
  "list_all (\<lambda>(m, pattern, op).
     distinct (map (\<lambda>p. butlast (tl p)) (filter templated (split_char (CHR ''/'') pattern)))) HandlerWithOptions"
  by code_simp

lemma ex_router_ok: "routes_as_mounted ex_router"
  unfolding routes_as_mounted_def
proof (intro conjI allI impI)
  fix m path op raw assume "rl_route ex_router m path = Inr (op, raw)"
  then have "(op, raw) \<in> set (List.map_filter (\<lambda>(m', pattern, op).
      if m' = m then map_option (\<lambda>raw. (op, raw))
        (bind_segments (split_char (CHR ''/'') pattern) (split_char (CHR ''/'') path)) else None) HandlerWithOptions)"
    by (auto simp: ex_router_def split: list.splits)
  then obtain pattern where mounted: "(m, pattern, op) \<in> set HandlerWithOptions"
    and bound: "bind_segments (split_char (CHR ''/'') pattern) (split_char (CHR ''/'') path) = Some raw"
    by (auto simp: List.map_filter_def split: if_splits option.splits)
  with bind_segments_fill [OF bound] mounted_params_distinct
  show "\<exists>pattern. (m, pattern, op) \<in> set HandlerWithOptions \<and>
      split_char (CHR ''/'') path = map (fill raw) (split_char (CHR ''/'') pattern)"
    unfolding list_all_iff by blast
qed (auto simp: ex_router_def split: if_splits)

definition ex_reader_env :: cp_env where
  "ex_reader_env = ex_cp_env\<lparr>cp_getServer := \<lambda>_ k. Inl (KErr EK_NotFound (nn_Name k))\<rparr>"

lemma ex_reader_env_keyed: "gets_keyed ex_reader_env"
  by (simp add: gets_keyed_def ex_reader_env_def ex_cp_env_def)

lemma ex_route:
  "rl_route ex_router ''POST'' ''/api/v1/gameservers/tenant-a/smp/snapshots'' =
     Inr (OpCreateSnapshot, [(''namespace'', ''tenant-a''), (''name'', ''smp'')])"
  by code_simp

lemma ex_bound: "v \<noteq> [] \<Longrightarrow> rl_bind ex_router v = Inr v"
  by (simp add: ex_router_def)

text \<open>An operator of one tenant asks for a snapshot.\<close>

lemma ex_snapshot_call:
  "\<exists>c. c \<in> set (calls (final (serve [ex_provider (ex_user ''operator'' [''tenant-a''])]
      (HandlerFromMux ex_router (controlPlaneServer L A ex_reader_env api B))
      (ex_request ''POST'' ''/api/v1/gameservers/tenant-a/smp/snapshots'')) \<lparr>calls = []\<rparr>)) \<and>
     writes c \<and> touched c = Some ''tenant-a''"
proof -
  let ?r = "ex_request ''POST'' ''/api/v1/gameservers/tenant-a/smp/snapshots''" and ?user = "ex_user ''operator'' [''tenant-a'']"
  let ?api = "HandlerFromMux ex_router (controlPlaneServer L A ex_reader_env api B)"
  have "routeAdmits DefaultRules (WithUser ?r ?user)" "namespaceAdmits (WithUser ?r ?user)" by code_simp+
  moreover have "\<not> publicPath (rq_Path ?r)" by (simp add: publicPath_def ex_request_def)
  moreover have "?api (WithUser ?r ?user) = ApiCreateSnapshot ex_reader_env ''tenant-a'' ''smp'' (WithUser ?r ?user)"
    by (simp add: wrappers_follow_routes routedApi_def routePath_def ex_route ex_bound ex_request_def WithUser_def dispatch_def map_str_def)
  ultimately show ?thesis
    using run_serve_admitted(2) [OF _ ex_authenticate, of ?r ?user ?api "\<lparr>calls = []\<rparr>"]
    by (auto simp: ApiCreateSnapshot_def final_def run_or_error io_simps cpClock_def newSnapshot_def new_meta_def
        ex_reader_env_def ex_cp_env_def)
qed


end
