(* ===== verification/Operator_Main.thy ===== *)
theory Operator_Main
  imports GameServer_Controller Fleet_Controller Action_Controller Snapshot_Controller
begin

text \<open>
  The entry point of the operator (\<^verbatim>\<open>cmd/operator/main.go\<close>) with the registration of controllers and webhooks
  (the \<^verbatim>\<open>SetupWithManager\<close> methods of \<^verbatim>\<open>internal/controllers\<close> and \<^verbatim>\<open>internal/webhook\<close>) and the loop of the clean-up
  task. The values of the flags after parsing are an argument; controller-runtime and the file system answer through
  an environment. Every step that fails ends the process with status 1.
\<close>

section \<open>Paths\<close>

text \<open>\<^verbatim>\<open>filepath.Clean\<close> and \<^verbatim>\<open>filepath.Join\<close>: the elements that are left, the last one first.\<close>

fun clean_elems :: "bool \<Rightarrow> string list \<Rightarrow> string list \<Rightarrow> string list" where
  "clean_elems rooted acc [] = rev acc"
| "clean_elems rooted acc (s # ss) =
     (if s = [] \<or> s = ''.'' then clean_elems rooted acc ss
      else if s = ''..'' then
        (case acc of
           [] \<Rightarrow> clean_elems rooted (if rooted then [] else [s]) ss
         | a # as \<Rightarrow> clean_elems rooted (if a = ''..'' then s # acc else as) ss)
      else clean_elems rooted (s # acc) ss)"

definition filepathClean :: "string \<Rightarrow> string" where
  "filepathClean path =
     (let rooted = HasPrefix path ''/'';
          body = join_char (CHR ''/'') (clean_elems rooted [] (split_char (CHR ''/'') path))
      in if rooted then CHR ''/'' # body else if body = [] then ''.'' else body)"

definition filepathJoin :: "string list \<Rightarrow> string" where
  "filepathJoin elems =
     (let given = filter (\<lambda>e. e \<noteq> []) elems
      in if given = [] then [] else filepathClean (join_char (CHR ''/'') given))"


section \<open>Flags and options\<close>

record operator_flags =
  of_metricsAddr :: string
  of_probeAddr :: string
  of_enableLeaderElection :: bool
  of_secureMetrics :: bool
  of_webhookCertPath :: string
  of_webhookCertName :: string
  of_webhookCertKey :: string
  of_metricsCertPath :: string
  of_metricsCertName :: string
  of_metricsCertKey :: string
  of_enableHTTP2 :: bool
  of_disableWebhooks :: bool

definition operatorDefaults :: operator_flags where
  "operatorDefaults =
     \<lparr>of_metricsAddr = ''0'', of_probeAddr = '':8081'', of_enableLeaderElection = True, of_secureMetrics = True,
      of_webhookCertPath = [], of_webhookCertName = ''tls.crt'', of_webhookCertKey = ''tls.key'',
      of_metricsCertPath = [], of_metricsCertName = ''tls.crt'', of_metricsCertKey = ''tls.key'',
      of_enableHTTP2 = False, of_disableWebhooks = False\<rparr>"

record tls_config =
  tls_NextProtos :: "string list"

definition disableHTTP2 :: "tls_config \<Rightarrow> tls_config" where
  "disableHTTP2 c = c\<lparr>tls_NextProtos := [''http/1.1'']\<rparr>"

definition operatorTLSOpts :: "operator_flags \<Rightarrow> (tls_config \<Rightarrow> tls_config) list" where
  "operatorTLSOpts flags = (if of_enableHTTP2 flags then [] else [disableHTTP2])"

text \<open>The options of the two servers; an empty directory leaves the choice of the files to controller-runtime.\<close>

record serving_options =
  so_TLSOpts :: "(tls_config \<Rightarrow> tls_config) list"
  so_CertDir :: string
  so_CertName :: string
  so_KeyName :: string

record metrics_options = serving_options +
  mo_BindAddress :: string
  mo_SecureServing :: bool
  mo_FilterProvider :: bool

record manager_options =
  mgr_Metrics :: metrics_options
  mgr_WebhookServer :: "serving_options option"
  mgr_HealthProbeBindAddress :: string
  mgr_LeaderElection :: bool
  mgr_LeaderElectionID :: string

definition webhookServerOptions :: "operator_flags \<Rightarrow> serving_options" where
  "webhookServerOptions flags =
     (let opts = \<lparr>so_TLSOpts = operatorTLSOpts flags, so_CertDir = [], so_CertName = [], so_KeyName = []\<rparr>
      in if of_webhookCertPath flags \<noteq> []
         then opts\<lparr>so_CertDir := of_webhookCertPath flags, so_CertName := of_webhookCertName flags,
                   so_KeyName := of_webhookCertKey flags\<rparr>
         else opts)"

definition metricsServerOptions :: "operator_flags \<Rightarrow> metrics_options" where
  "metricsServerOptions flags =
     (let opts = \<lparr>so_TLSOpts = operatorTLSOpts flags, so_CertDir = [], so_CertName = [], so_KeyName = [],
                  mo_BindAddress = of_metricsAddr flags, mo_SecureServing = of_secureMetrics flags,
                  mo_FilterProvider = False\<rparr>;
          opts = (if of_secureMetrics flags then opts\<lparr>mo_FilterProvider := True\<rparr> else opts)
      in if of_metricsCertPath flags \<noteq> []
         then opts\<lparr>so_CertDir := of_metricsCertPath flags, so_CertName := of_metricsCertName flags,
                   so_KeyName := of_metricsCertKey flags\<rparr>
         else opts)"

definition managerOptions :: "operator_flags \<Rightarrow> manager_options" where
  "managerOptions flags =
     \<lparr>mgr_Metrics = metricsServerOptions flags,
      mgr_WebhookServer = (if of_disableWebhooks flags then None else Some (webhookServerOptions flags)),
      mgr_HealthProbeBindAddress = of_probeAddr flags,
      mgr_LeaderElection = of_enableLeaderElection flags,
      mgr_LeaderElectionID = ''c0f56da2.minato.io''\<rparr>"


section \<open>Controllers and checks\<close>

datatype watched_kind =
    WGameServer | WGameServerFleet | WActionExecution | WGameSnapshot | WGameProfile
  | WStatefulSet | WPersistentVolumeClaim | WService

record controller_spec =
  ctl_For :: watched_kind
  ctl_Owns :: "watched_kind list"

definition GameServerSetup :: controller_spec where
  "GameServerSetup = \<lparr>ctl_For = WGameServer, ctl_Owns = [WStatefulSet, WPersistentVolumeClaim, WService]\<rparr>"

definition ActionExecutionSetup :: controller_spec where
  "ActionExecutionSetup = \<lparr>ctl_For = WActionExecution, ctl_Owns = []\<rparr>"

definition GameServerFleetSetup :: controller_spec where
  "GameServerFleetSetup = \<lparr>ctl_For = WGameServerFleet, ctl_Owns = [WGameServer]\<rparr>"

definition GameSnapshotSetup :: controller_spec where
  "GameSnapshotSetup = \<lparr>ctl_For = WGameSnapshot, ctl_Owns = []\<rparr>"

text \<open>A check of the probe endpoint, run when it is asked: what \<^verbatim>\<open>os.Stat\<close> says then is its argument.\<close>

type_synonym checker = "(string \<Rightarrow> kerr + unit) \<Rightarrow> kerr + unit"

definition Ping :: checker where
  "Ping stat = Inr ()"

fun combineReadinessChecks :: "checker list \<Rightarrow> checker" where
  "combineReadinessChecks [] stat = Inr ()"
| "combineReadinessChecks (check # checks) stat =
     (case check stat of Inl err \<Rightarrow> Inl err | Inr _ \<Rightarrow> combineReadinessChecks checks stat)"

definition webhookCertReadinessChecker :: "string \<Rightarrow> string \<Rightarrow> checker" where
  "webhookCertReadinessChecker certDir certName stat =
     (let certPath = filepathJoin [certDir, certName]
      in map_err (wrap_error (''webhook certificate not ready at '' @ certPath @ '': '')) (stat certPath))"

definition readinessChecks :: "operator_flags \<Rightarrow> checker list" where
  "readinessChecks flags =
     Ping # (if of_disableWebhooks flags then []
             else [webhookCertReadinessChecker
                     (if of_webhookCertPath flags = [] then ''/tmp/k8s-webhook-server/serving-certs''
                      else of_webhookCertPath flags) (of_webhookCertName flags)])"

definition operatorPullSecrets :: "string \<Rightarrow> string list" where
  "operatorPullSecrets v =
     (if v = [] then [] else filter (\<lambda>name. name \<noteq> []) (map TrimSpace (split_char (CHR '','') v)))"

definition gameServerReconcilerFor :: "(string \<Rightarrow> string) \<Rightarrow> GameServerReconciler" where
  "gameServerReconcilerFor getenv =
     \<lparr>gr_OperatorNamespace = getenv ''POD_NAMESPACE'',
      gr_ImagePullSecrets = operatorPullSecrets (getenv ''IMAGE_PULL_SECRETS''),
      gr_ExternalDNSZone = getenv ''EXTERNAL_DNS_ZONE'', gr_Recorder = True\<rparr>"


section \<open>Start-up\<close>

datatype main_call =
    LoadKubeConfig
  | NewManager manager_options
  | RegisterGameServers GameServerReconciler controller_spec
  | RegisterActions controller_spec
  | AddCleanupTask
  | RegisterFleets GameServerFleetReconciler controller_spec
  | RegisterSnapshots controller_spec
  | RegisterWebhook watched_kind
  | AddHealthzCheck string checker
  | AddReadyzCheck string checker
  | StartManager

record operator_env =
  oe_getenv :: "string \<Rightarrow> string"
  oe_answer :: "main_call list \<Rightarrow> main_call \<Rightarrow> kerr + unit"

text \<open>The exit status and the message that is logged before it.\<close>

type_synonym 'a main_prog = "(main_call world, (int \<times> string) + 'a) state"

definition orExit :: "operator_env \<Rightarrow> main_call \<Rightarrow> string \<Rightarrow> unit main_prog" where
  "orExit E c msg = fmap (map_err (\<lambda>_. (1, msg))) (perform c (\<lambda>h. oe_answer E h c))"

definition registerWebhooks :: "operator_env \<Rightarrow> operator_flags \<Rightarrow> unit main_prog" where
  "registerWebhooks E flags =
     (if of_disableWebhooks flags then State_Monad.return (Inr ())
      else bindE (orExit E (RegisterWebhook WGameServer) ''unable to create webhook'') (\<lambda>_.
           orExit E (RegisterWebhook WGameProfile) ''unable to create webhook''))"

definition operatorMain :: "operator_env \<Rightarrow> operator_flags \<Rightarrow> unit main_prog" where
  "operatorMain E flags =
     bindE (orExit E LoadKubeConfig ''unable to get kubeconfig'') (\<lambda>_.
     bindE (orExit E (NewManager (managerOptions flags)) ''Failed to start manager'') (\<lambda>_.
     bindE (orExit E (RegisterGameServers (gameServerReconcilerFor (oe_getenv E)) GameServerSetup)
              ''Failed to create controller'') (\<lambda>_.
     bindE (orExit E (RegisterActions ActionExecutionSetup) ''Failed to create controller'') (\<lambda>_.
     bindE (orExit E AddCleanupTask ''Failed to create ActionExecution cleanup task'') (\<lambda>_.
     bindE (orExit E (RegisterFleets \<lparr>fr_Recorder = True\<rparr> GameServerFleetSetup) ''Failed to create controller'') (\<lambda>_.
     bindE (orExit E (RegisterSnapshots GameSnapshotSetup) ''Failed to create controller'') (\<lambda>_.
     bindE (registerWebhooks E flags) (\<lambda>_.
     bindE (orExit E (AddHealthzCheck ''healthz'' Ping) ''Failed to set up health check'') (\<lambda>_.
     bindE (orExit E (AddReadyzCheck ''readyz'' (combineReadinessChecks (readinessChecks flags)))
              ''Failed to set up ready check'') (\<lambda>_.
     orExit E StartManager ''Failed to run manager''))))))))))"


section \<open>The loop of the clean-up task\<close>

text \<open>What the \<^verbatim>\<open>select\<close> of the loop receives; the task is still running when the events are used up.\<close>

datatype task_event = TaskDone | TaskTick

fun cleanupTaskStart :: "act_env \<Rightarrow> task_event list \<Rightarrow> (kerr + unit) option act_prog" where
  "cleanupTaskStart E [] = State_Monad.return None"
| "cleanupTaskStart E (TaskDone # events) = State_Monad.return (Some (Inr ()))"
| "cleanupTaskStart E (TaskTick # events) =
     do { err \<leftarrow> cleanupExecutions E; cleanupTaskStart E events }"


section \<open>Properties\<close>

text \<open>A loop whose body is one call, seen from its result: it stops at the first error.\<close>

lemma forE_stops:
  assumes body: "\<And>x w. run_state (f x) w = (r x (calls w), w\<lparr>calls := calls w @ [x]\<rparr>)"
  shows "\<exists>n\<le>length xs. calls (final (forE f xs) w) = calls w @ take n xs \<and>
    (\<forall>i. Suc i < n \<longrightarrow> r (xs ! i) (calls w @ take i xs) = Inr ()) \<and>
    (case result (forE f xs) w of
       Inr _ \<Rightarrow> n = length xs \<and> (\<forall>i<n. r (xs ! i) (calls w @ take i xs) = Inr ())
     | Inl e \<Rightarrow> n > 0 \<and> r (xs ! (n - 1)) (calls w @ take (n - 1) xs) = Inl e)"
proof (induction xs arbitrary: w)
  case Nil
  show ?case by (simp add: final_def result_def)
next
  case (Cons x xs)
  let ?w = "w\<lparr>calls := calls w @ [x]\<rparr>"
  show ?case
  proof (cases "r x (calls w)")
    case (Inl e)
    then show ?thesis
      by (intro exI [of _ 1]) (simp add: final_def result_def run_bindE body)
  next
    case (Inr u)
    then have step: "final (forE f (x # xs)) w = final (forE f xs) ?w" "result (forE f (x # xs)) w = result (forE f xs) ?w"
      by (simp_all add: final_def result_def run_bindE body)
    have cw: "calls ?w @ ys = calls w @ x # ys" for ys by simp
    from Cons.IH [of ?w, unfolded cw] obtain n where n: "n \<le> length xs"
      "calls (final (forE f xs) ?w) = calls w @ x # take n xs"
      "\<forall>i. Suc i < n \<longrightarrow> r (xs ! i) (calls w @ x # take i xs) = Inr ()"
      "case result (forE f xs) ?w of
         Inr _ \<Rightarrow> n = length xs \<and> (\<forall>i<n. r (xs ! i) (calls w @ x # take i xs) = Inr ())
       | Inl e \<Rightarrow> n > 0 \<and> r (xs ! (n - 1)) (calls w @ x # take (n - 1) xs) = Inl e"
      by blast
    with Inr show ?thesis
      unfolding step
      by (intro exI [of _ "Suc n"]) (auto simp: less_Suc_eq_0_disj nth_Cons' take_Cons' split: sum.splits)
  qed
qed

text \<open>Everything the operator sets up, in order.\<close>

definition startup :: "operator_env \<Rightarrow> operator_flags \<Rightarrow> main_call list" where
  "startup E flags =
     [LoadKubeConfig, NewManager (managerOptions flags),
      RegisterGameServers (gameServerReconcilerFor (oe_getenv E)) GameServerSetup,
      RegisterActions ActionExecutionSetup, AddCleanupTask,
      RegisterFleets \<lparr>fr_Recorder = True\<rparr> GameServerFleetSetup, RegisterSnapshots GameSnapshotSetup] @
     (if of_disableWebhooks flags then [] else [RegisterWebhook WGameServer, RegisterWebhook WGameProfile]) @
     [AddHealthzCheck ''healthz'' Ping, AddReadyzCheck ''readyz'' (combineReadinessChecks (readinessChecks flags)),
      StartManager]"

fun exitMessage :: "main_call \<Rightarrow> string" where
  "exitMessage LoadKubeConfig = ''unable to get kubeconfig''"
| "exitMessage (NewManager opts) = ''Failed to start manager''"
| "exitMessage AddCleanupTask = ''Failed to create ActionExecution cleanup task''"
| "exitMessage (RegisterWebhook k) = ''unable to create webhook''"
| "exitMessage (AddHealthzCheck name check) = ''Failed to set up health check''"
| "exitMessage (AddReadyzCheck name check) = ''Failed to set up ready check''"
| "exitMessage StartManager = ''Failed to run manager''"
| "exitMessage _ = ''Failed to create controller''"

lemma bindE_assoc: "bindE (bindE m f) g = bindE m (\<lambda>a. bindE (f a) g)"
  by (rule state.expand) (auto simp: fun_eq_iff run_bindE split: prod.splits sum.splits)

lemma bindE_return: "bindE (State_Monad.return (Inr a)) f = f a"
  by (simp add: bindE_def)

lemma bindE_unit: "bindE m (\<lambda>_. State_Monad.return (Inr ())) = m"
  by (rule state.expand) (auto simp: fun_eq_iff run_bindE split: prod.splits sum.splits)

lemma operatorMain_loop:
  "operatorMain E flags = forE (\<lambda>c. orExit E c (exitMessage c)) (startup E flags)"
  by (simp add: operatorMain_def startup_def registerWebhooks_def bindE_assoc bindE_return bindE_unit)

text \<open>
  C18. The operator starts its manager only when everything is set up. The calls of the entry point are a prefix of one
  fixed list (the manager, the GameServer, ActionExecution, fleet and snapshot controllers with the clean-up task, the
  two webhooks unless they are switched off, the health and readiness checks, the start); all but the last one made
  have succeeded; the process ends without an error exactly when the whole list was run successfully, and otherwise
  with status 1 at the first call that fails, the manager not started unless its start is that call.
\<close>

theorem operator_starts_complete:
  "\<exists>n\<le>length (startup E flags).
     issued (operatorMain E flags) w = take n (startup E flags) \<and>
     (\<forall>i. Suc i < n \<longrightarrow> oe_answer E (calls w @ take i (startup E flags)) (startup E flags ! i) = Inr ()) \<and>
     (StartManager \<in> set (issued (operatorMain E flags) w) \<longleftrightarrow> n = length (startup E flags)) \<and>
     (case result (operatorMain E flags) w of
        Inr _ \<Rightarrow> n = length (startup E flags) \<and>
          oe_answer E (calls w @ take (n - 1) (startup E flags)) StartManager = Inr ()
      | Inl (status, msg) \<Rightarrow> status = 1 \<and> n > 0 \<and> msg = exitMessage (startup E flags ! (n - 1)) \<and>
          (\<exists>err. oe_answer E (calls w @ take (n - 1) (startup E flags)) (startup E flags ! (n - 1)) = Inl err))"
proof -
  let ?plan = "startup E flags" and ?m = "operatorMain E flags"
  let ?r = "\<lambda>c h. map_err (\<lambda>_. (1::int, exitMessage c)) (oe_answer E h c)"
  have ok: "?r c h = Inr () \<longleftrightarrow> oe_answer E h c = Inr ()" for c h
    by (simp add: map_err_def split: sum.splits)
  have bad: "?r c h = Inl e \<Longrightarrow> e = (1, exitMessage c) \<and> (\<exists>err. oe_answer E h c = Inl err)" for c h e
    by (auto simp: map_err_def split: sum.splits)
  obtain n where n: "n \<le> length ?plan" "calls (final ?m w) = calls w @ take n ?plan"
    "\<forall>i. Suc i < n \<longrightarrow> ?r (?plan ! i) (calls w @ take i ?plan) = Inr ()"
    "case result ?m w of
       Inr _ \<Rightarrow> n = length ?plan \<and> (\<forall>i<n. ?r (?plan ! i) (calls w @ take i ?plan) = Inr ())
     | Inl e \<Rightarrow> n > 0 \<and> ?r (?plan ! (n - 1)) (calls w @ take (n - 1) ?plan) = Inl e"
    using forE_stops [of "\<lambda>c. orExit E c (exitMessage c)" ?r ?plan w]
    by (auto simp: operatorMain_loop orExit_def io_simps)
  have start: "?plan ! (length ?plan - 1) = StartManager" "StartManager \<notin> set (butlast ?plan)"
    by (simp_all add: startup_def nth_append)
  have started: "StartManager \<in> set (take n ?plan) \<longleftrightarrow> n = length ?plan"
  proof
    assume "StartManager \<in> set (take n ?plan)"
    then have "\<not> n \<le> length ?plan - 1"
      using start(2) set_take_subset_set_take [of n "length ?plan - 1" ?plan] by (auto simp: butlast_conv_take)
    with n(1) show "n = length ?plan" by simp
  next
    assume "n = length ?plan"
    then show "StartManager \<in> set (take n ?plan)" by (simp add: startup_def)
  qed
  have "?plan \<noteq> []" by (simp add: startup_def)
  then have "n = length ?plan \<Longrightarrow> n - 1 < n \<and> ?plan ! (n - 1) = StartManager" using start(1) by auto
  with n(4) have "case result ?m w of
        Inr _ \<Rightarrow> n = length ?plan \<and> oe_answer E (calls w @ take (n - 1) ?plan) StartManager = Inr ()
      | Inl (status, msg) \<Rightarrow> status = 1 \<and> n > 0 \<and> msg = exitMessage (?plan ! (n - 1)) \<and>
          (\<exists>err. oe_answer E (calls w @ take (n - 1) ?plan) (?plan ! (n - 1)) = Inl err)"
    unfolding ok by (auto dest!: bad split: sum.splits)
  with n(1-3) started show ?thesis by (intro exI [of _ n]) (auto simp: issued_def ok)
qed

text \<open>An operator whose second webhook cannot be registered.\<close>

definition ex_operator :: operator_env where
  "ex_operator =
     \<lparr>oe_getenv = (\<lambda>k. if k = ''IMAGE_PULL_SECRETS'' then '' a,, b '' else []),
      oe_answer = (\<lambda>h c. case c of RegisterWebhook WGameProfile \<Rightarrow> Inl (new_error ''no'') | _ \<Rightarrow> Inr ())\<rparr>"

theorem operator_starts_complete_witness:
  "result (operatorMain ex_operator operatorDefaults) \<lparr>calls = []\<rparr> = Inl (1, ''unable to create webhook'') \<and>
   StartManager \<notin> set (issued (operatorMain ex_operator operatorDefaults) \<lparr>calls = []\<rparr>) \<and>
   (\<exists>n\<le>length (startup ex_operator operatorDefaults). n = 9 \<and>
      issued (operatorMain ex_operator operatorDefaults) \<lparr>calls = []\<rparr> = take n (startup ex_operator operatorDefaults))"
proof -
  let ?plan = "startup ex_operator operatorDefaults"
  have run: "result (operatorMain ex_operator operatorDefaults) \<lparr>calls = []\<rparr> = Inl (1, ''unable to create webhook'')"
    "length (issued (operatorMain ex_operator operatorDefaults) \<lparr>calls = []\<rparr>) = 9"
    by (simp_all add: operatorMain_def registerWebhooks_def orExit_def operatorDefaults_def ex_operator_def result_def
        issued_def final_def map_err_def io_simps)
  moreover have "length ?plan = 12" by (simp add: startup_def operatorDefaults_def)
  ultimately show ?thesis
    using operator_starts_complete [of ex_operator operatorDefaults "\<lparr>calls = []\<rparr>"] by auto
qed

text \<open>
  Readiness: the probe succeeds exactly when the webhooks are off or the certificate file is there. With a directory
  given, that file is the one the webhook server reads.
\<close>

lemma operator_ready_iff:
  "combineReadinessChecks (readinessChecks flags) stat = Inr () \<longleftrightarrow>
     of_disableWebhooks flags \<or>
     stat (filepathJoin [if of_webhookCertPath flags = [] then ''/tmp/k8s-webhook-server/serving-certs''
                         else of_webhookCertPath flags, of_webhookCertName flags]) = Inr ()"
  by (auto simp: readinessChecks_def Ping_def webhookCertReadinessChecker_def map_err_def Let_def split: sum.splits)

lemma operator_serves_checked_file:
  "of_webhookCertPath flags \<noteq> [] \<Longrightarrow>
     so_CertDir (webhookServerOptions flags) = of_webhookCertPath flags \<and>
     so_CertName (webhookServerOptions flags) = of_webhookCertName flags"
  by (simp add: webhookServerOptions_def)

text \<open>
  Without a directory the name of the certificate is not passed on: the server falls back to its default name, while
  the readiness probe waits for the name of the flag.
\<close>

lemma operator_ignores_cert_name:
  "of_webhookCertPath flags = [] \<Longrightarrow>
     so_CertName (webhookServerOptions flags) = [] \<and>
     (combineReadinessChecks (readinessChecks (flags\<lparr>of_disableWebhooks := False, of_webhookCertName := ''other.crt''\<rparr>))
        (\<lambda>path. if path = ''/tmp/k8s-webhook-server/serving-certs/tls.crt'' then Inr ()
                 else Inl (new_error ''no such file'')) \<noteq> Inr ())"
  unfolding operator_ready_iff
  by (simp add: webhookServerOptions_def filepathJoin_def filepathClean_def HasPrefix_def Let_def)

text \<open>Both servers offer HTTP/1.1 only unless HTTP/2 is asked for, and secure metrics are always filtered.\<close>

lemma operator_tls:
  assumes "\<not> of_enableHTTP2 flags"
  shows "tls_NextProtos (fold (\<lambda>f. f) (so_TLSOpts (metricsServerOptions flags)) c) = [''http/1.1'']"
    "tls_NextProtos (fold (\<lambda>f. f) (so_TLSOpts (webhookServerOptions flags)) c) = [''http/1.1'']"
  using assms
  by (simp_all add: metricsServerOptions_def webhookServerOptions_def operatorTLSOpts_def disableHTTP2_def Let_def)

lemma operator_metrics_filtered:
  "mo_FilterProvider (metricsServerOptions flags) = of_secureMetrics flags \<and>
   mo_SecureServing (metricsServerOptions flags) = of_secureMetrics flags"
  by (simp add: metricsServerOptions_def Let_def)

text \<open>The pull secrets are the trimmed, non-empty entries of the list, so no Secret with an empty name is looked up.\<close>

lemma operator_pull_secrets:
  "set (operatorPullSecrets v) = TrimSpace ` set (split_char (CHR '','') v) - {[]}"
proof -
  have "TrimSpace [] = []" by (simp add: TrimSpace_def trim_by_def)
  then show ?thesis by (auto simp: operatorPullSecrets_def)
qed

text \<open>A round of the clean-up that fails does not end the task: each tick before the end runs one round.\<close>

lemma cleanup_task_runs:
  "run_state (cleanupTaskStart E events) w =
     (if TaskDone \<in> set events then Some (Inr ()) else None,
      fold (\<lambda>_. final (cleanupExecutions E)) (takeWhile (\<lambda>e. e \<noteq> TaskDone) events) w)"
  by (induction E events arbitrary: w rule: cleanupTaskStart.induct)
    (auto simp: io_simps final_def split: prod.splits)

end
