(* ===== verification/Agent_Server.thy ===== *)
theory Agent_Server
  imports Agent_Actions
begin

text \<open>
  Starting and stopping the agent (\<^verbatim>\<open>sdk/agent/server/server.go\<close>). The two servers (gRPC for the operator, HTTP for
  probes and metrics) run in goroutines of their own; what the entry points do to them is the history of calls. The
  event that the \<^verbatim>\<open>select\<close> of \<^verbatim>\<open>Shutdown\<close> receives is an argument, either one being possible when both are ready.
\<close>

section \<open>The server\<close>

datatype agent_call =
    AgentListen string
  | GoServeMetrics string
  | GoServeGRPC string
  | GoGracefulStop
  | GRPCStop
  | MetricsShutdown

record agent_env =
  ag_listen :: "agent_call list \<Rightarrow> string \<Rightarrow> kerr + unit"
  ag_shutdown :: "agent_call list \<Rightarrow> kerr + unit"

record agent_server =
  as_listener :: string
  as_metricsAddr :: string

type_synonym 'a agent_prog = "(agent_call world, kerr + 'a) state"

text \<open>The handler of the second server, for paths that are clean already.\<close>

definition metricsMux :: "string \<Rightarrow> int \<times> string" where
  "metricsMux path =
     (if path = ''/healthz'' then (200, ''ok'')
      else if path = ''/metrics'' then (200, [])
      else (404, ''404 page not found''))"

definition ServeAgent :: "agent_env \<Rightarrow> Options \<Rightarrow> agent_server agent_prog" where
  "ServeAgent E opts =
     (let opts = serveOptions opts
      in bindE (perform (AgentListen (opt_GRPCAddr opts)) (\<lambda>h. ag_listen E h (opt_GRPCAddr opts))) (\<lambda>_. do {
           perform (GoServeMetrics (opt_MetricsAddr opts)) (\<lambda>_. ());
           perform (GoServeGRPC (opt_GRPCAddr opts)) (\<lambda>_. ());
           State_Monad.return (Inr \<lparr>as_listener = opt_GRPCAddr opts, as_metricsAddr = opt_MetricsAddr opts\<rparr>)
         }))"

datatype stop_event = ContextDone | GracefullyStopped

definition ShutdownAgent :: "agent_env \<Rightarrow> agent_server option \<Rightarrow> stop_event \<Rightarrow> unit agent_prog" where
  "ShutdownAgent E s event =
     (case s of
        None \<Rightarrow> State_Monad.return (Inl (new_error ''server is nil''))
      | Some _ \<Rightarrow> do {
          perform GoGracefulStop (\<lambda>_. ());
          (case event of
             ContextDone \<Rightarrow> perform GRPCStop (\<lambda>_. ())
           | GracefullyStopped \<Rightarrow> State_Monad.return ());
          perform MetricsShutdown (ag_shutdown E);
          State_Monad.return (Inr ())
        })"


section \<open>Properties\<close>

text \<open>
  An agent either fails to listen, and then nothing runs, or both servers run on the configured addresses or the
  defaults; it never runs one of them alone.
\<close>

lemma agent_serves_both:
  "case result (ServeAgent E opts) w of
     Inl err \<Rightarrow> issued (ServeAgent E opts) w = [AgentListen (opt_GRPCAddr (serveOptions opts))]
   | Inr s \<Rightarrow> issued (ServeAgent E opts) w =
       [AgentListen (as_listener s), GoServeMetrics (as_metricsAddr s), GoServeGRPC (as_listener s)] \<and>
       as_listener s \<noteq> [] \<and> as_metricsAddr s \<noteq> []"
  by (auto simp: ServeAgent_def result_def issued_def final_def io_simps serveOptions_def Let_def split: sum.splits)

text \<open>
  Shutting down never fails for a running agent, an error of the second server included, and stops gRPC by force
  exactly when the context ends first.
\<close>

lemma agent_shutdown:
  "result (ShutdownAgent E (Some s) event) w = Inr ()"
  "issued (ShutdownAgent E (Some s) event) w =
     GoGracefulStop # (if event = ContextDone then [GRPCStop] else []) @ [MetricsShutdown]"
  by (auto simp: ShutdownAgent_def result_def issued_def final_def io_simps split: stop_event.splits)

text \<open>The grace period of the options has no effect on anything the server does.\<close>

lemma agent_grace_unused:
  "ServeAgent E (opts\<lparr>opt_ShutdownGrace := d\<rparr>) = ServeAgent E opts"
  by (simp add: ServeAgent_def serveOptions_def)

end
