(* ===== verification/Agent_Rpc.thy ===== *)
theory Agent_Rpc
  imports Agent_Server Action_Properties
begin

text \<open>
  The gRPC service of an agent: the messages (\<^verbatim>\<open>agent.pb.go\<close>), the generated client, service description and method
  handlers (\<^verbatim>\<open>agent_grpc.pb.go\<close>) and the handlers of \<^verbatim>\<open>sdk/agent/server/server.go\<close> that pass a call on to the agent.
  An agent is a record of programs over a state of its own that may panic. The gRPC library between a client and
  a server is a parameter, and what is assumed of it is \<open>grpc_serves\<close>.
\<close>

section \<open>Messages\<close>

text \<open>The messages without fields are the unit value; \<open>ExecuteActionResponse\<close> is that of the operator.\<close>

record RpcParamSchema =
  rps_Type :: string
  rps_Required :: bool
  rps_Description :: string
  rps_Default :: string

record RpcActionSchema =
  ras_Name :: string
  ras_Description :: string
  ras_Params :: "(string, RpcParamSchema) gomap"

record MetricDescriptor =
  md_Name :: string
  md_Description :: string
  md_Unit :: string

record InfoResponse =
  ir_Name :: string
  ir_Version :: string
  ir_Actions :: "RpcActionSchema list"
  ir_Metrics :: "MetricDescriptor list"

record HealthResponse =
  hr_Ready :: bool
  hr_Message :: string
  hr_Details :: labels

record ShutdownRequest =
  sr_TimeoutSeconds :: int
  sr_DrainReason :: string

record ShutdownResponse =
  sp_Success :: bool
  sp_Error :: string

record Player =
  pl_Name :: string
  pl_Id :: string
  pl_JoinedAt :: "time option"

record PlayersResponse =
  pr_Online :: int
  pr_Capacity :: int
  pr_Players :: "Player list"

record ExecuteActionRequest =
  er_ActionName :: string
  er_Params :: labels
  er_ExecutionId :: string


section \<open>The service\<close>

text \<open>The interface of an agent; the stream of the console belongs to its state.\<close>

record 's Agent =
  agent_Info :: "unit \<Rightarrow> ('s, InfoResponse outcome) state"
  agent_HealthCheck :: "unit \<Rightarrow> ('s, HealthResponse outcome) state"
  agent_PrepareShutdown :: "ShutdownRequest \<Rightarrow> ('s, ShutdownResponse outcome) state"
  agent_GetPlayers :: "unit \<Rightarrow> ('s, PlayersResponse outcome) state"
  agent_ExecuteAction :: "ExecuteActionRequest \<Rightarrow> ('s, ExecuteActionResponse outcome) state"
  agent_Console :: "('s, unit outcome) state"

text \<open>The methods of the type \<^verbatim>\<open>handler\<close>.\<close>

definition agentHandler :: "'s Agent \<Rightarrow> 's Agent" where
  "agentHandler agent =
     \<lparr>agent_Info = (\<lambda>req. agent_Info agent req),
      agent_HealthCheck = (\<lambda>req. agent_HealthCheck agent req),
      agent_PrepareShutdown = (\<lambda>req. agent_PrepareShutdown agent req),
      agent_GetPlayers = (\<lambda>req. agent_GetPlayers agent req),
      agent_ExecuteAction = (\<lambda>req. agent_ExecuteAction agent req),
      agent_Console = agent_Console agent\<rparr>"

text \<open>The text of \<^verbatim>\<open>status.Errorf\<close>.\<close>

definition status_error :: "string \<Rightarrow> string \<Rightarrow> kerr" where
  "status_error code desc = new_error (''rpc error: code = '' @ code @ '' desc = '' @ desc)"

definition unimplemented :: "string \<Rightarrow> ('s, 'a outcome) state" where
  "unimplemented name =
     State_Monad.return (Returned (Inl (status_error ''Unimplemented'' (''method '' @ name @ '' not implemented''))))"

definition UnimplementedAgentServer :: "'s Agent" where
  "UnimplementedAgentServer =
     \<lparr>agent_Info = (\<lambda>_. unimplemented ''Info''),
      agent_HealthCheck = (\<lambda>_. unimplemented ''HealthCheck''),
      agent_PrepareShutdown = (\<lambda>_. unimplemented ''PrepareShutdown''),
      agent_GetPlayers = (\<lambda>_. unimplemented ''GetPlayers''),
      agent_ExecuteAction = (\<lambda>_. unimplemented ''ExecuteAction''),
      agent_Console = unimplemented ''Console''\<rparr>"

definition Agent_Info_FullMethodName :: string where
  "Agent_Info_FullMethodName = ''/minato.agent.v1.Agent/Info''"
definition Agent_HealthCheck_FullMethodName :: string where
  "Agent_HealthCheck_FullMethodName = ''/minato.agent.v1.Agent/HealthCheck''"
definition Agent_PrepareShutdown_FullMethodName :: string where
  "Agent_PrepareShutdown_FullMethodName = ''/minato.agent.v1.Agent/PrepareShutdown''"
definition Agent_GetPlayers_FullMethodName :: string where
  "Agent_GetPlayers_FullMethodName = ''/minato.agent.v1.Agent/GetPlayers''"
definition Agent_ExecuteAction_FullMethodName :: string where
  "Agent_ExecuteAction_FullMethodName = ''/minato.agent.v1.Agent/ExecuteAction''"
definition Agent_Console_FullMethodName :: string where
  "Agent_Console_FullMethodName = ''/minato.agent.v1.Agent/Console''"

text \<open>An interceptor gets the name of the method and the rest of the call.\<close>

type_synonym ('s, 'a) interceptor = "string \<Rightarrow> ('s, 'a outcome) state \<Rightarrow> ('s, 'a outcome) state"

definition recoverUnary :: "('s, 'a) interceptor" where
  "recoverUnary fullMethod call = fmap (\<lambda>out. Returned (recoverInterceptor out)) call"

text \<open>A generated handler: the decoded request, or the error of the decoder, is its second argument.\<close>

definition Agent_Info_Handler ::
    "'s Agent \<Rightarrow> kerr + unit \<Rightarrow> ('s, InfoResponse) interceptor option \<Rightarrow> ('s, InfoResponse outcome) state" where
  "Agent_Info_Handler srv dec interceptor =
     (case dec of
        Inl err \<Rightarrow> State_Monad.return (Returned (Inl err))
      | Inr req \<Rightarrow>
          (case interceptor of
             None \<Rightarrow> agent_Info srv req
           | Some f \<Rightarrow> f Agent_Info_FullMethodName (agent_Info srv req)))"

definition Agent_HealthCheck_Handler ::
    "'s Agent \<Rightarrow> kerr + unit \<Rightarrow> ('s, HealthResponse) interceptor option \<Rightarrow> ('s, HealthResponse outcome) state" where
  "Agent_HealthCheck_Handler srv dec interceptor =
     (case dec of
        Inl err \<Rightarrow> State_Monad.return (Returned (Inl err))
      | Inr req \<Rightarrow>
          (case interceptor of
             None \<Rightarrow> agent_HealthCheck srv req
           | Some f \<Rightarrow> f Agent_HealthCheck_FullMethodName (agent_HealthCheck srv req)))"

definition Agent_PrepareShutdown_Handler ::
    "'s Agent \<Rightarrow> kerr + ShutdownRequest \<Rightarrow> ('s, ShutdownResponse) interceptor option \<Rightarrow>
     ('s, ShutdownResponse outcome) state" where
  "Agent_PrepareShutdown_Handler srv dec interceptor =
     (case dec of
        Inl err \<Rightarrow> State_Monad.return (Returned (Inl err))
      | Inr req \<Rightarrow>
          (case interceptor of
             None \<Rightarrow> agent_PrepareShutdown srv req
           | Some f \<Rightarrow> f Agent_PrepareShutdown_FullMethodName (agent_PrepareShutdown srv req)))"

definition Agent_GetPlayers_Handler ::
    "'s Agent \<Rightarrow> kerr + unit \<Rightarrow> ('s, PlayersResponse) interceptor option \<Rightarrow> ('s, PlayersResponse outcome) state" where
  "Agent_GetPlayers_Handler srv dec interceptor =
     (case dec of
        Inl err \<Rightarrow> State_Monad.return (Returned (Inl err))
      | Inr req \<Rightarrow>
          (case interceptor of
             None \<Rightarrow> agent_GetPlayers srv req
           | Some f \<Rightarrow> f Agent_GetPlayers_FullMethodName (agent_GetPlayers srv req)))"

definition Agent_ExecuteAction_Handler ::
    "'s Agent \<Rightarrow> kerr + ExecuteActionRequest \<Rightarrow> ('s, ExecuteActionResponse) interceptor option \<Rightarrow>
     ('s, ExecuteActionResponse outcome) state" where
  "Agent_ExecuteAction_Handler srv dec interceptor =
     (case dec of
        Inl err \<Rightarrow> State_Monad.return (Returned (Inl err))
      | Inr req \<Rightarrow>
          (case interceptor of
             None \<Rightarrow> agent_ExecuteAction srv req
           | Some f \<Rightarrow> f Agent_ExecuteAction_FullMethodName (agent_ExecuteAction srv req)))"

text \<open>The handler of the stream takes no interceptor.\<close>

definition Agent_Console_Handler :: "'s Agent \<Rightarrow> ('s, unit outcome) state" where
  "Agent_Console_Handler srv = agent_Console srv"

text \<open>The description of the service: its name, and which handler serves which method.\<close>

datatype rpc_handler = HInfo | HHealthCheck | HPrepareShutdown | HGetPlayers | HExecuteAction | HConsole

record service_desc =
  sd_ServiceName :: string
  sd_Methods :: "(string \<times> rpc_handler) list"
  sd_Streams :: "(string \<times> rpc_handler) list"

definition Agent_ServiceDesc :: service_desc where
  "Agent_ServiceDesc =
     \<lparr>sd_ServiceName = ''minato.agent.v1.Agent'',
      sd_Methods = [(''Info'', HInfo), (''HealthCheck'', HHealthCheck), (''PrepareShutdown'', HPrepareShutdown),
                    (''GetPlayers'', HGetPlayers), (''ExecuteAction'', HExecuteAction)],
      sd_Streams = [(''Console'', HConsole)]\<rparr>"


section \<open>The client\<close>

text \<open>
  A connection: \<^verbatim>\<open>Invoke\<close> with the name of the method, for each type of request and response; the errors that gRPC
  makes itself when a call is lost (the deadline of the call has passed, the server cannot be reached, a message cannot
  be encoded or is too large); and the error that a client gets for one of the server.
\<close>

record 's agent_conn =
  ac_lost :: "kerr \<Rightarrow> bool"
  ac_status :: "kerr \<Rightarrow> kerr"
  ac_info :: "string \<Rightarrow> unit \<Rightarrow> ('s, kerr + InfoResponse) state"
  ac_health :: "string \<Rightarrow> unit \<Rightarrow> ('s, kerr + HealthResponse) state"
  ac_shutdown :: "string \<Rightarrow> ShutdownRequest \<Rightarrow> ('s, kerr + ShutdownResponse) state"
  ac_players :: "string \<Rightarrow> unit \<Rightarrow> ('s, kerr + PlayersResponse) state"
  ac_execute :: "string \<Rightarrow> ExecuteActionRequest \<Rightarrow> ('s, kerr + ExecuteActionResponse) state"

definition agentClientInfo :: "'s agent_conn \<Rightarrow> unit \<Rightarrow> ('s, kerr + InfoResponse) state" where
  "agentClientInfo cc req = bindE (ac_info cc Agent_Info_FullMethodName req) (\<lambda>out. State_Monad.return (Inr out))"

definition agentClientHealthCheck :: "'s agent_conn \<Rightarrow> unit \<Rightarrow> ('s, kerr + HealthResponse) state" where
  "agentClientHealthCheck cc req =
     bindE (ac_health cc Agent_HealthCheck_FullMethodName req) (\<lambda>out. State_Monad.return (Inr out))"

definition agentClientPrepareShutdown ::
    "'s agent_conn \<Rightarrow> ShutdownRequest \<Rightarrow> ('s, kerr + ShutdownResponse) state" where
  "agentClientPrepareShutdown cc req =
     bindE (ac_shutdown cc Agent_PrepareShutdown_FullMethodName req) (\<lambda>out. State_Monad.return (Inr out))"

definition agentClientGetPlayers :: "'s agent_conn \<Rightarrow> unit \<Rightarrow> ('s, kerr + PlayersResponse) state" where
  "agentClientGetPlayers cc req =
     bindE (ac_players cc Agent_GetPlayers_FullMethodName req) (\<lambda>out. State_Monad.return (Inr out))"

definition agentClientExecuteAction ::
    "'s agent_conn \<Rightarrow> ExecuteActionRequest \<Rightarrow> ('s, kerr + ExecuteActionResponse) state" where
  "agentClientExecuteAction cc req =
     bindE (ac_execute cc Agent_ExecuteAction_FullMethodName req) (\<lambda>out. State_Monad.return (Inr out))"


section \<open>What is assumed of gRPC\<close>

text \<open>
  How a call ends for the client. Either it is lost, with an error that gRPC makes itself, and then the handler may have
  run or not, and may have ended in any way. Or it ends by what the handler does: a response arrives as it is, an error
  as its status; nothing is assumed when the handler panics, which ends the process of the server.
\<close>

definition answered_by :: "'s agent_conn \<Rightarrow> ('s, kerr + 'r) state \<Rightarrow> ('s, 'r outcome) state \<Rightarrow> bool" where
  "answered_by cc call handler \<longleftrightarrow>
     (\<forall>s. (\<exists>err. result call s = Inl err \<and> ac_lost cc err) \<or>
          (case run_state handler s of
             (Returned (Inr out), s') \<Rightarrow> run_state call s = (Inr out, s')
           | (Returned (Inl err), s') \<Rightarrow> run_state call s = (Inl (ac_status cc err), s')
           | (Panicked v, s') \<Rightarrow> True))"

definition methodPath :: "string \<Rightarrow> string" where
  "methodPath name = ''/'' @ sd_ServiceName Agent_ServiceDesc @ ''/'' @ name"

text \<open>
  A server that was set up by \<^const>\<open>ServeAgent\<close> answers the calls of a connection that are not lost: by the handlers of
  its service description, behind the interceptor; and an error that is a status stays what it is.
\<close>

definition grpc_serves :: "'s agent_conn \<Rightarrow> 's Agent \<Rightarrow> bool" where
  "grpc_serves cc srv \<longleftrightarrow>
     (\<forall>name req. (name, HInfo) \<in> set (sd_Methods Agent_ServiceDesc) \<longrightarrow>
        answered_by cc (ac_info cc (methodPath name) req) (Agent_Info_Handler srv (Inr req) (Some recoverUnary))) \<and>
     (\<forall>name req. (name, HHealthCheck) \<in> set (sd_Methods Agent_ServiceDesc) \<longrightarrow>
        answered_by cc (ac_health cc (methodPath name) req)
          (Agent_HealthCheck_Handler srv (Inr req) (Some recoverUnary))) \<and>
     (\<forall>name req. (name, HPrepareShutdown) \<in> set (sd_Methods Agent_ServiceDesc) \<longrightarrow>
        answered_by cc (ac_shutdown cc (methodPath name) req)
          (Agent_PrepareShutdown_Handler srv (Inr req) (Some recoverUnary))) \<and>
     (\<forall>name req. (name, HGetPlayers) \<in> set (sd_Methods Agent_ServiceDesc) \<longrightarrow>
        answered_by cc (ac_players cc (methodPath name) req)
          (Agent_GetPlayers_Handler srv (Inr req) (Some recoverUnary))) \<and>
     (\<forall>name req. (name, HExecuteAction) \<in> set (sd_Methods Agent_ServiceDesc) \<longrightarrow>
        answered_by cc (ac_execute cc (methodPath name) req)
          (Agent_ExecuteAction_Handler srv (Inr req) (Some recoverUnary))) \<and>
     (\<forall>code desc. ac_status cc (status_error code desc) = status_error code desc)"


section \<open>Properties\<close>

text \<open>What a client gets for the outcome of the agent's method.\<close>

definition clientView :: "'s agent_conn \<Rightarrow> 'r outcome \<Rightarrow> kerr + 'r" where
  "clientView cc out =
     (case out of
        Returned (Inr r) \<Rightarrow> Inr r
      | Returned (Inl err) \<Rightarrow> Inl (ac_status cc err)
      | Panicked v \<Rightarrow> Inl (status_error ''Internal'' (''panic: '' @ v)))"

lemma agentHandler_same: "agentHandler agent = agent"
  by (simp add: agentHandler_def)

lemma recoverInterceptor_outcome:
  "recoverInterceptor (Returned r) = r"
  "recoverInterceptor (Panicked v) = Inl (status_error ''Internal'' (''panic: '' @ v))"
  by (simp_all add: recoverInterceptor_def status_error_def)

lemma answered_recovering:
  assumes "answered_by cc call (recoverUnary name m)"
    and "\<And>code desc. ac_status cc (status_error code desc) = status_error code desc"
    and "run_state m s = (out, s')"
  shows "run_state call s = (clientView cc out, s') \<or> (\<exists>err. result call s = Inl err \<and> ac_lost cc err)"
proof (cases "\<exists>err. result call s = Inl err \<and> ac_lost cc err")
  case False
  have "case run_state (recoverUnary name m) s of
      (Returned (Inr out), s') \<Rightarrow> run_state call s = (Inr out, s')
    | (Returned (Inl err), s') \<Rightarrow> run_state call s = (Inl (ac_status cc err), s')
    | (Panicked v, s') \<Rightarrow> True"
    using spec [OF assms(1) [unfolded answered_by_def], of s] False by (elim disjE) (erule notE, assumption)
  with assms(3) show ?thesis
    by (cases out) (auto simp: recoverUnary_def recoverInterceptor_outcome clientView_def io_simps assms(2)
        split: sum.splits)
qed simp

lemma bindE_Inr: "bindE m (\<lambda>out. State_Monad.return (Inr out)) = m"
  by (rule state.expand) (auto simp: fun_eq_iff run_bindE split: prod.splits sum.splits)

lemma service_methods:
  "methodPath ''Info'' = Agent_Info_FullMethodName" "methodPath ''HealthCheck'' = Agent_HealthCheck_FullMethodName"
  "methodPath ''PrepareShutdown'' = Agent_PrepareShutdown_FullMethodName"
  "methodPath ''GetPlayers'' = Agent_GetPlayers_FullMethodName"
  "methodPath ''ExecuteAction'' = Agent_ExecuteAction_FullMethodName"
  by (simp_all add: methodPath_def Agent_ServiceDesc_def Agent_Info_FullMethodName_def Agent_HealthCheck_FullMethodName_def
      Agent_PrepareShutdown_FullMethodName_def Agent_GetPlayers_FullMethodName_def Agent_ExecuteAction_FullMethodName_def)

lemmas client_method_defs =
  agentClientInfo_def agentClientHealthCheck_def agentClientPrepareShutdown_def agentClientGetPlayers_def
  agentClientExecuteAction_def Agent_Info_Handler_def Agent_HealthCheck_Handler_def Agent_PrepareShutdown_Handler_def
  Agent_GetPlayers_Handler_def Agent_ExecuteAction_Handler_def

text \<open>
  The names the client uses are those of the service description, so that each of its calls is answered by the method
  of the agent it is named after, behind the interceptor.
\<close>

lemma client_answered:
  assumes "grpc_serves cc (agentHandler agent)"
  shows "answered_by cc (agentClientInfo cc ()) (recoverUnary Agent_Info_FullMethodName (agent_Info agent ()))"
    "answered_by cc (agentClientHealthCheck cc ()) (recoverUnary Agent_HealthCheck_FullMethodName (agent_HealthCheck agent ()))"
    "answered_by cc (agentClientPrepareShutdown cc q) (recoverUnary Agent_PrepareShutdown_FullMethodName (agent_PrepareShutdown agent q))"
    "answered_by cc (agentClientGetPlayers cc ()) (recoverUnary Agent_GetPlayers_FullMethodName (agent_GetPlayers agent ()))"
    "answered_by cc (agentClientExecuteAction cc r) (recoverUnary Agent_ExecuteAction_FullMethodName (agent_ExecuteAction agent r))"
    "ac_status cc (status_error code desc) = status_error code desc"
proof -
  have "(''Info'', HInfo) \<in> set (sd_Methods Agent_ServiceDesc)"
    "(''HealthCheck'', HHealthCheck) \<in> set (sd_Methods Agent_ServiceDesc)"
    "(''PrepareShutdown'', HPrepareShutdown) \<in> set (sd_Methods Agent_ServiceDesc)"
    "(''GetPlayers'', HGetPlayers) \<in> set (sd_Methods Agent_ServiceDesc)"
    "(''ExecuteAction'', HExecuteAction) \<in> set (sd_Methods Agent_ServiceDesc)"
    by (simp_all add: Agent_ServiceDesc_def)
  note serves = assms [unfolded grpc_serves_def agentHandler_same] and methods = this
  have "answered_by cc (ac_info cc (methodPath ''Info'') ()) (Agent_Info_Handler agent (Inr ()) (Some recoverUnary))"
    using serves methods(1) by blast
  then show "answered_by cc (agentClientInfo cc ()) (recoverUnary Agent_Info_FullMethodName (agent_Info agent ()))"
    by (simp only: service_methods client_method_defs bindE_Inr sum.case option.case)
  have "answered_by cc (ac_health cc (methodPath ''HealthCheck'') ()) (Agent_HealthCheck_Handler agent (Inr ()) (Some recoverUnary))"
    using serves methods(2) by blast
  then show "answered_by cc (agentClientHealthCheck cc ()) (recoverUnary Agent_HealthCheck_FullMethodName (agent_HealthCheck agent ()))"
    by (simp only: service_methods client_method_defs bindE_Inr sum.case option.case)
  have "answered_by cc (ac_shutdown cc (methodPath ''PrepareShutdown'') q) (Agent_PrepareShutdown_Handler agent (Inr q) (Some recoverUnary))"
    using serves methods(3) by blast
  then show "answered_by cc (agentClientPrepareShutdown cc q) (recoverUnary Agent_PrepareShutdown_FullMethodName (agent_PrepareShutdown agent q))"
    by (simp only: service_methods client_method_defs bindE_Inr sum.case option.case)
  have "answered_by cc (ac_players cc (methodPath ''GetPlayers'') ()) (Agent_GetPlayers_Handler agent (Inr ()) (Some recoverUnary))"
    using serves methods(4) by blast
  then show "answered_by cc (agentClientGetPlayers cc ()) (recoverUnary Agent_GetPlayers_FullMethodName (agent_GetPlayers agent ()))"
    by (simp only: service_methods client_method_defs bindE_Inr sum.case option.case)
  have "answered_by cc (ac_execute cc (methodPath ''ExecuteAction'') r) (Agent_ExecuteAction_Handler agent (Inr r) (Some recoverUnary))"
    using serves methods(5) by blast
  then show "answered_by cc (agentClientExecuteAction cc r) (recoverUnary Agent_ExecuteAction_FullMethodName (agent_ExecuteAction agent r))"
    by (simp only: service_methods client_method_defs bindE_Inr sum.case option.case)
  show "ac_status cc (status_error code desc) = status_error code desc" using serves by blast
qed

text \<open>
  A call of the generated client that is not lost runs the agent's method once and sees its outcome: the response, the
  status of the error, or, when the agent panics, an internal error.
\<close>

lemma client_call_outcome:
  assumes "grpc_serves cc (agentHandler agent)" "run_state (agent_ExecuteAction agent r) s = (out, s')"
  shows "run_state (agentClientExecuteAction cc r) s = (clientView cc out, s') \<or>
    (\<exists>err. result (agentClientExecuteAction cc r) s = Inl err \<and> ac_lost cc err)"
  by (rule answered_recovering [OF client_answered(5) [OF assms(1)] client_answered(6) [OF assms(1)] assms(2)])

text \<open>The same for a health check; the agent's panic makes the server unhealthy and nothing worse.\<close>

lemma client_health_outcome:
  assumes "grpc_serves cc (agentHandler agent)" "run_state (agent_HealthCheck agent ()) s = (out, s')"
  shows "run_state (agentClientHealthCheck cc ()) s = (clientView cc out, s') \<or>
    (\<exists>err. result (agentClientHealthCheck cc ()) s = Inl err \<and> ac_lost cc err)"
  by (rule answered_recovering [OF client_answered(2) [OF assms(1)] client_answered(6) [OF assms(1)] assms(2)])

text \<open>The console is not protected: its handler ends as the agent's method does, with its panic.\<close>

lemma console_unprotected: "Agent_Console_Handler (agentHandler agent) = agent_Console agent"
  by (simp add: Agent_Console_Handler_def agentHandler_same)


section \<open>An action from the operator to the agent\<close>

definition executeRequest :: "ActionExecution \<Rightarrow> ExecuteActionRequest" where
  "executeRequest exec =
     \<lparr>er_ActionName = ae_ActionName (exec_spec exec), er_Params = ae_Params (exec_spec exec),
      er_ExecutionId = om_Name (exec_meta exec)\<rparr>"

text \<open>The state, response and error that are recorded for an outcome of the agent's method.\<close>

definition recordedFor :: "'s agent_conn \<Rightarrow> ExecuteActionResponse outcome \<Rightarrow> string \<times> string \<times> string" where
  "recordedFor cc out =
     (case out of
        Returned (Inr resp) \<Rightarrow>
          if ar_State resp = ACTION_STATE_FAILED
            then (ActionExecutionFailed, [], ''agent reported failure: '' @ ar_Error resp)
          else if ar_State resp = ACTION_STATE_REJECTED
            then (ActionExecutionFailed, [], ''agent rejected action: '' @ ar_Error resp)
          else (ActionExecutionSucceeded, ar_Result resp, [])
      | Returned (Inl err) \<Rightarrow> (ActionExecutionFailed, [], ''agent execution failed: '' @ err_msg (ac_status cc err))
      | Panicked v \<Rightarrow>
          (ActionExecutionFailed, [], ''agent execution failed: rpc error: code = Internal desc = panic: '' @ v))"

definition recorded :: "ActionExecution \<Rightarrow> string \<times> string \<times> string" where
  "recorded x = (aes_State (exec_status x), aes_AgentResponse (exec_status x), aes_Error (exec_status x))"

text \<open>A status update keeps name and specification: the status of an execution is a subresource.\<close>

definition status_only :: "act_env \<Rightarrow> bool" where
  "status_only E \<longleftrightarrow>
     (\<forall>h x y. xe_updateStatus E h x = Inr y \<longrightarrow> exec_spec y = exec_spec x \<and> om_Name (exec_meta y) = om_Name (exec_meta x))"

lemma setState_same_request:
  assumes "status_only E" "run_state (setState E exec st res msg) w = (x, w')"
  shows "executeRequest x = executeRequest exec"
proof -
  let ?y = "stateStatus exec st res msg (xe_now E (calls w))"
  have "executeRequest ?y = executeRequest exec" by (simp add: executeRequest_def stateStatus_def)
  moreover obtain h where "x = (case xe_updateStatus E h ?y of Inl _ \<Rightarrow> ?y | Inr z \<Rightarrow> z)"
    using assms(2) by (fastforce simp: setState_def io_simps split: if_splits)
  ultimately show ?thesis
    using assms(1) by (auto simp: status_only_def executeRequest_def split: sum.splits)
qed

text \<open>What the dispatch calls and returns, by the answers to its three calls.\<close>

definition dispatch_calls ::
    "act_env \<Rightarrow> act_call list \<Rightarrow> GameServer \<Rightarrow> ExecuteActionRequest \<Rightarrow> duration \<Rightarrow> act_call list" where
  "dispatch_calls E h server q t =
     (let k = key_of (server_meta server)
      in case xe_getService E h k of
           Inl _ \<Rightarrow> [GetTargetService k]
         | Inr svc \<Rightarrow>
             (let a = actionAddress svc
              in case xe_connect E (h @ [GetTargetService k]) a of
                   Inl _ \<Rightarrow> [GetTargetService k, Connect a]
                 | Inr _ \<Rightarrow> [GetTargetService k, Connect a,
                     ExecuteAction a (er_ActionName q) (er_Params q) (er_ExecutionId q) t]))"

definition dispatch_result ::
    "act_env \<Rightarrow> act_call list \<Rightarrow> GameServer \<Rightarrow> ExecuteActionRequest \<Rightarrow> kerr + string" where
  "dispatch_result E h server q =
     (let k = key_of (server_meta server)
      in case xe_getService E h k of
           Inl err \<Rightarrow> Inl (wrap_error ''failed to get service: '' err)
         | Inr svc \<Rightarrow>
             (let a = actionAddress svc
              in case xe_connect E (h @ [GetTargetService k]) a of
                   Inl err \<Rightarrow> Inl (wrap_error ''failed to connect to agent: '' err)
                 | Inr _ \<Rightarrow>
                     (case xe_execute E (h @ [GetTargetService k, Connect a]) a (er_ActionName q) of
                        Inl err \<Rightarrow> Inl (wrap_error ''agent execution failed: '' err)
                      | Inr resp \<Rightarrow> responseResult resp)))"

lemma run_dispatch:
  "\<exists>w'. run_state (dispatchToAgent E server exec t) w = (dispatch_result E (calls w) server (executeRequest exec), w') \<and>
     calls w' = calls w @ dispatch_calls E (calls w) server (executeRequest exec) t"
  by (auto simp: dispatchToAgent_def dispatch_result_def dispatch_calls_def Let_def io_simps map_err_def
      executeRequest_def split: sum.splits)

lemma recordedFor_result:
  "(case (case clientView cc out of
            Inl err \<Rightarrow> Inl (wrap_error ''agent execution failed: '' err) | Inr resp \<Rightarrow> responseResult resp) of
      Inl err \<Rightarrow> (ActionExecutionFailed, [], err_msg err)
    | Inr res \<Rightarrow> (ActionExecutionSucceeded, res, [])) = recordedFor cc out"
  by (auto simp: recordedFor_def clientView_def responseResult_def wrap_error_def new_error_def status_error_def
      split: outcome.splits sum.splits AgentActionState.splits)

lemma run_finishAction:
  "\<exists>w' x. run_state (finishAction E exec r) w = ((), w') \<and> calls w' = calls w @ [ANow, UpdateExecStatus x] \<and>
     recorded x = (case r of Inl err \<Rightarrow> (ActionExecutionFailed, [], err_msg err)
                   | Inr res \<Rightarrow> (ActionExecutionSucceeded, res, []))"
proof -
  have state: "recorded (stateStatus exec st res msg t) = (st, res, msg)" for st res msg t
    by (simp add: recorded_def stateStatus_def)
  show ?thesis
  proof (cases r)
    case (Inl err)
    obtain x w' where "run_state (setState E exec ActionExecutionFailed [] (err_msg err)) w = (x, w')"
      "calls w' = calls w @ [ANow, UpdateExecStatus (stateStatus exec ActionExecutionFailed [] (err_msg err) (xe_now E (calls w)))]"
      using run_setState by blast
    with Inl state show ?thesis by (auto simp: finishAction_def io_simps)
  next
    case (Inr res)
    obtain x w' where "run_state (setState E exec ActionExecutionSucceeded res []) w = (x, w')"
      "calls w' = calls w @ [ANow, UpdateExecStatus (stateStatus exec ActionExecutionSucceeded res [] (xe_now E (calls w)))]"
      using run_setState by blast
    with Inr state show ?thesis by (auto simp: finishAction_def io_simps)
  qed
qed

lemma run_action_recorded:
  assumes "status_only E"
  shows "\<exists>y x. issued (runAction E exec server decl) w =
      [ANow, UpdateExecStatus y] @
      dispatch_calls E (calls w @ [ANow, UpdateExecStatus y]) server (executeRequest exec) (actionTimeout decl) @
      [ANow, UpdateExecStatus x] \<and>
    recorded x = (case dispatch_result E (calls w @ [ANow, UpdateExecStatus y]) server (executeRequest exec) of
                    Inl err \<Rightarrow> (ActionExecutionFailed, [], err_msg err)
                  | Inr res \<Rightarrow> (ActionExecutionSucceeded, res, []))"
proof -
  let ?r = "executeRequest exec"
  obtain z w1 where first: "run_state (setState E exec ActionExecutionRunning [] []) w = (z, w1)"
    and c1: "calls w1 = calls w @ [ANow, UpdateExecStatus (stateStatus exec ActionExecutionRunning [] [] (xe_now E (calls w)))]"
    using run_setState by blast
  have same: "executeRequest z = ?r" by (rule setState_same_request [OF assms first])
  obtain w2 where second: "run_state (dispatchToAgent E server z (actionTimeout decl)) w1 =
      (dispatch_result E (calls w1) server ?r, w2)"
    and c2: "calls w2 = calls w1 @ dispatch_calls E (calls w1) server ?r (actionTimeout decl)"
    using run_dispatch [of E server z "actionTimeout decl" w1] unfolding same by blast
  obtain x w3 where third: "run_state (finishAction E z (dispatch_result E (calls w1) server ?r)) w2 = ((), w3)"
      "calls w3 = calls w2 @ [ANow, UpdateExecStatus x]"
    and rec: "recorded x = (case dispatch_result E (calls w1) server ?r of
        Inl err \<Rightarrow> (ActionExecutionFailed, [], err_msg err) | Inr res \<Rightarrow> (ActionExecutionSucceeded, res, []))"
    using run_finishAction by blast
  show ?thesis
  proof (intro exI conjI)
    show "issued (runAction E exec server decl) w =
        [ANow, UpdateExecStatus (stateStatus exec ActionExecutionRunning [] [] (xe_now E (calls w)))] @
        dispatch_calls E (calls w @ [ANow, UpdateExecStatus (stateStatus exec ActionExecutionRunning [] [] (xe_now E (calls w)))])
          server ?r (actionTimeout decl) @ [ANow, UpdateExecStatus x]"
      by (rule issued_eqI) (simp add: runAction_parts final_def first second third c2, simp add: c1)
    show "recorded x = (case dispatch_result E (calls w @ [ANow, UpdateExecStatus (stateStatus exec ActionExecutionRunning
        [] [] (xe_now E (calls w)))]) server ?r of
        Inl err \<Rightarrow> (ActionExecutionFailed, [], err_msg err) | Inr res \<Rightarrow> (ActionExecutionSucceeded, res, []))"
      using rec unfolding c1 .
  qed
qed

text \<open>
  C12. What the agent does is what the cluster records. For an execution that may run (the server, its profile and the
  executions of the namespace were read), the operator writes \<^verbatim>\<open>Running\<close> and looks up the Service. When that fails, or
  no connection can be made, the agent is not called and the execution is recorded as failed with that error. Otherwise
  the agent is called exactly once, with the name, parameters and id of the execution and the timeout of the action,
  through the generated client, the service description, the interceptor and the handler; and the last thing written is
  the state that fits the outcome of the agent's method in the state the agent is then in: a response that is neither
  failed nor rejected makes the execution succeed with the agent's result, anything else makes it fail with the agent's
  message, and an agent that panics fails the action and not the operator. The exception is a call that gRPC loses, as it
  does when the deadline that the operator sets has passed: then the execution is recorded as failed with the error of
  gRPC, whatever the agent did.
\<close>

theorem action_outcome_recorded:
  assumes "xe_getServer E (calls w) (serverKey req exec) = Inr server"
    and "xe_getProfile E (calls w @ [GetTarget (serverKey req exec)])
           (gs_Profile (server_spec server)) = Inr profile"
    and "xe_list E (calls w @ [GetTarget (serverKey req exec),
           GetTargetProfile (gs_Profile (server_spec server))]) (Some (server_namespace server)) = Inr items"
    and "may_run exec server profile items" "status_only E"
    and "\<And>h a. xe_execute E h a (ae_ActionName (exec_spec exec)) =
           result (agentClientExecuteAction cc (executeRequest exec)) (st h)"
    and "grpc_serves cc (agentHandler agent)"
  shows "\<exists>decl before cs x. findAction profile (ae_ActionName (exec_spec exec)) = Some decl \<and>
    issued (reconcilePending E req exec) w = before @ cs @ [ANow, UpdateExecStatus x] \<and>
    list_all (\<lambda>c. \<not> is_execute c) before \<and>
    (let h = calls w @ before; k = key_of (server_meta server); q = executeRequest exec
     in case xe_getService E h k of
          Inl err \<Rightarrow> cs = [GetTargetService k] \<and>
            recorded x = (ActionExecutionFailed, [], ''failed to get service: '' @ err_msg err)
        | Inr svc \<Rightarrow>
            (case xe_connect E (h @ [GetTargetService k]) (actionAddress svc) of
               Inl err \<Rightarrow> cs = [GetTargetService k, Connect (actionAddress svc)] \<and>
                 recorded x = (ActionExecutionFailed, [], ''failed to connect to agent: '' @ err_msg err)
             | Inr _ \<Rightarrow> cs = [GetTargetService k, Connect (actionAddress svc), ExecuteAction (actionAddress svc)
                   (er_ActionName q) (er_Params q) (er_ExecutionId q) (actionTimeout decl)] \<and>
                 (let s = st (h @ [GetTargetService k, Connect (actionAddress svc)])
                  in recorded x = recordedFor cc (result (agent_ExecuteAction agent q) s) \<or>
                     (\<exists>err. result (agentClientExecuteAction cc q) s = Inl err \<and> ac_lost cc err \<and>
                        recorded x = (ActionExecutionFailed, [], ''agent execution failed: '' @ err_msg err)))))"
proof -
  let ?q = "executeRequest exec"
  have seen: "xe_execute E h a (er_ActionName ?q) = clientView cc (result (agent_ExecuteAction agent ?q) (st h)) \<or>
      (\<exists>err. result (agentClientExecuteAction cc ?q) (st h) = Inl err \<and> ac_lost cc err \<and>
        xe_execute E h a (er_ActionName ?q) = Inl err)" for h a
  proof -
    obtain out s' where run: "run_state (agent_ExecuteAction agent ?q) (st h) = (out, s')" by fastforce
    have "xe_execute E h a (er_ActionName ?q) = result (agentClientExecuteAction cc ?q) (st h)"
      using assms(6) by (simp add: executeRequest_def)
    with client_call_outcome [OF assms(7) run] run show ?thesis by (auto simp: result_def)
  qed
  obtain decl where decl: "findAction profile (ae_ActionName (exec_spec exec)) = Some decl"
    and fin: "final (reconcilePending E req exec) w =
      final (runAction E exec server decl) (w\<lparr>calls := calls w @ check_calls req exec server\<rparr>)"
    using run_checks [OF assms(1-3)] assms(4) by blast
  let ?w = "w\<lparr>calls := calls w @ check_calls req exec server\<rparr>"
  have all: "issued (reconcilePending E req exec) w = check_calls req exec server @ issued (runAction E exec server decl) ?w"
    by (rule issued_eqI) (simp add: fin calls_final [OF emits_runAction])
  obtain y x where run: "issued (runAction E exec server decl) ?w = [ANow, UpdateExecStatus y] @
      dispatch_calls E (calls ?w @ [ANow, UpdateExecStatus y]) server ?q (actionTimeout decl) @ [ANow, UpdateExecStatus x]"
    and rec: "recorded x = (case dispatch_result E (calls ?w @ [ANow, UpdateExecStatus y]) server ?q of
        Inl err \<Rightarrow> (ActionExecutionFailed, [], err_msg err) | Inr res \<Rightarrow> (ActionExecutionSucceeded, res, []))"
    using run_action_recorded [OF assms(5)] by blast
  let ?before = "check_calls req exec server @ [ANow, UpdateExecStatus y]"
  let ?h = "calls w @ ?before" and ?k = "key_of (server_meta server)"
  have "issued (reconcilePending E req exec) w =
      ?before @ dispatch_calls E ?h server ?q (actionTimeout decl) @ [ANow, UpdateExecStatus x]"
    unfolding all run by simp
  moreover have "list_all (\<lambda>c. \<not> is_execute c) ?before" by (simp add: check_calls_def is_execute_def)
  moreover have "case xe_getService E ?h ?k of
      Inl err \<Rightarrow> dispatch_calls E ?h server ?q (actionTimeout decl) = [GetTargetService ?k] \<and>
        recorded x = (ActionExecutionFailed, [], ''failed to get service: '' @ err_msg err)
    | Inr svc \<Rightarrow>
        (case xe_connect E (?h @ [GetTargetService ?k]) (actionAddress svc) of
           Inl err \<Rightarrow> dispatch_calls E ?h server ?q (actionTimeout decl) = [GetTargetService ?k, Connect (actionAddress svc)] \<and>
             recorded x = (ActionExecutionFailed, [], ''failed to connect to agent: '' @ err_msg err)
         | Inr _ \<Rightarrow> dispatch_calls E ?h server ?q (actionTimeout decl) =
             [GetTargetService ?k, Connect (actionAddress svc), ExecuteAction (actionAddress svc)
               (er_ActionName ?q) (er_Params ?q) (er_ExecutionId ?q) (actionTimeout decl)] \<and>
             (let s = st (?h @ [GetTargetService ?k, Connect (actionAddress svc)])
              in recorded x = recordedFor cc (result (agent_ExecuteAction agent ?q) s) \<or>
                 (\<exists>err. result (agentClientExecuteAction cc ?q) s = Inl err \<and> ac_lost cc err \<and>
                    recorded x = (ActionExecutionFailed, [], ''agent execution failed: '' @ err_msg err))))"
  proof (cases "xe_getService E ?h ?k")
    case (Inl err)
    with rec show ?thesis by (simp add: dispatch_calls_def dispatch_result_def Let_def wrap_error_def)
  next
    case svc: (Inr svc)
    show ?thesis
    proof (cases "xe_connect E (?h @ [GetTargetService ?k]) (actionAddress svc)")
      case (Inl err)
      with svc rec show ?thesis by (simp add: dispatch_calls_def dispatch_result_def Let_def wrap_error_def)
    next
      case conn: (Inr u)
      let ?hx = "?h @ [GetTargetService ?k, Connect (actionAddress svc)]"
      have rec': "recorded x = (case (case xe_execute E ?hx (actionAddress svc) (er_ActionName ?q) of
            Inl err \<Rightarrow> Inl (wrap_error ''agent execution failed: '' err) | Inr resp \<Rightarrow> responseResult resp) of
          Inl err \<Rightarrow> (ActionExecutionFailed, [], err_msg err) | Inr res \<Rightarrow> (ActionExecutionSucceeded, res, []))"
        using rec svc conn by (simp add: dispatch_result_def Let_def)
      from seen [of ?hx "actionAddress svc"]
      have "recorded x = recordedFor cc (result (agent_ExecuteAction agent ?q) (st ?hx)) \<or>
          (\<exists>err. result (agentClientExecuteAction cc ?q) (st ?hx) = Inl err \<and> ac_lost cc err \<and>
             recorded x = (ActionExecutionFailed, [], ''agent execution failed: '' @ err_msg err))"
        using rec' recordedFor_result [of cc "result (agent_ExecuteAction agent ?q) (st ?hx)"]
        by (auto simp: wrap_error_def)
      with svc conn show ?thesis by (simp add: dispatch_calls_def Let_def)
    qed
  qed
  ultimately show ?thesis unfolding Let_def using decl by blast
qed

text \<open>A connection that runs the handlers at once, and an agent that panics when it is asked to run an action.\<close>

definition endedCall :: "'a outcome \<Rightarrow> kerr + 'a" where
  "endedCall out = (case out of Returned r \<Rightarrow> r | Panicked v \<Rightarrow> Inl (new_error v))"

definition ex_conn :: "'s Agent \<Rightarrow> 's agent_conn" where
  "ex_conn srv =
     \<lparr>ac_lost = (\<lambda>_. False), ac_status = id,
      ac_info = (\<lambda>_ req. fmap endedCall (Agent_Info_Handler srv (Inr req) (Some recoverUnary))),
      ac_health = (\<lambda>_ req. fmap endedCall (Agent_HealthCheck_Handler srv (Inr req) (Some recoverUnary))),
      ac_shutdown = (\<lambda>_ req. fmap endedCall (Agent_PrepareShutdown_Handler srv (Inr req) (Some recoverUnary))),
      ac_players = (\<lambda>_ req. fmap endedCall (Agent_GetPlayers_Handler srv (Inr req) (Some recoverUnary))),
      ac_execute = (\<lambda>_ req. fmap endedCall (Agent_ExecuteAction_Handler srv (Inr req) (Some recoverUnary)))\<rparr>"

definition ex_agent :: "unit Agent" where
  "ex_agent = UnimplementedAgentServer\<lparr>agent_ExecuteAction := (\<lambda>_. State_Monad.return (Panicked ''no world''))\<rparr>"

lemma answered_at_once:
  assumes "ac_status cc = id"
  shows "answered_by cc (fmap endedCall m) m"
  using assms by (auto simp: answered_by_def io_simps endedCall_def split: prod.splits outcome.splits sum.splits)

lemma ex_conn_simps:
  "\<not> ac_lost (ex_conn srv) e" "ac_status (ex_conn srv) = id"
  "ac_info (ex_conn srv) m req = fmap endedCall (Agent_Info_Handler srv (Inr req) (Some recoverUnary))"
  "ac_health (ex_conn srv) m req = fmap endedCall (Agent_HealthCheck_Handler srv (Inr req) (Some recoverUnary))"
  "ac_shutdown (ex_conn srv) m q = fmap endedCall (Agent_PrepareShutdown_Handler srv (Inr q) (Some recoverUnary))"
  "ac_players (ex_conn srv) m req = fmap endedCall (Agent_GetPlayers_Handler srv (Inr req) (Some recoverUnary))"
  "ac_execute (ex_conn srv) m r = fmap endedCall (Agent_ExecuteAction_Handler srv (Inr r) (Some recoverUnary))"
  by (simp_all add: ex_conn_def)

lemma ex_conn_serves: "grpc_serves (ex_conn srv) srv"
  by (simp add: grpc_serves_def ex_conn_simps answered_at_once)

theorem action_outcome_recorded_witness:
  "\<exists>cs x. issued (reconcilePending ((ex_act_env (ex_exec ''e'' ActionExecutionPending None) [] ACTION_STATE_SUCCEEDED)
       \<lparr>xe_execute := \<lambda>_ _ _. result (agentClientExecuteAction (ex_conn ex_agent)
          (executeRequest (ex_exec ''e'' ActionExecutionPending None))) ()\<rparr>)
       ex_key (ex_exec ''e'' ActionExecutionPending None)) ex_act_world = cs @ [UpdateExecStatus x] \<and>
     recorded x = (ActionExecutionFailed, [],
       ''agent execution failed: rpc error: code = Internal desc = panic: no world'')"
proof -
  let ?x = "ex_exec ''e'' ActionExecutionPending None" and ?s = "ex_server True stateRunning None"
  let ?cc = "ex_conn ex_agent" and ?out = "Panicked ''no world'' :: ExecuteActionResponse outcome"
  let ?E = "(ex_act_env ?x [] ACTION_STATE_SUCCEEDED)
     \<lparr>xe_execute := \<lambda>_ _ _. result (agentClientExecuteAction ?cc (executeRequest ?x)) ()\<rparr>"
  let ?svc = "buildHeadlessService ?s []"
  have "may_run ?x ?s (ex_action_profile ActionConcurrencyExclusive) []"
    using ex_findAction(2) [of "''e''" ActionExecutionPending None ActionConcurrencyExclusive]
    by (simp add: may_run_def ex_findAction(1) validateParams_iff)
  moreover have "status_only ?E" by (simp add: status_only_def)
  moreover have out: "result (agent_ExecuteAction ex_agent (executeRequest ?x)) () = ?out"
    by (simp add: ex_agent_def result_def)
  moreover have "xe_getService ?E h k = Inr ?svc" "xe_connect ?E h a = Inr ()" for h k a
    by (simp_all add: ex_act_env_def)
  ultimately obtain before cs y where
    "issued (reconcilePending ?E ex_key ?x) ex_act_world = before @ cs @ [ANow, UpdateExecStatus y]"
    "recorded y = recordedFor ?cc ?out"
    using action_outcome_recorded [where E = ?E and req = ex_key and exec = ?x and w = ex_act_world and agent = ex_agent and
        cc = ?cc and st = "\<lambda>_. ()" and server = ?s and items = "[]" and profile = "ex_action_profile ActionConcurrencyExclusive"]
    by (auto simp: agentHandler_same ex_conn_serves ex_conn_simps Let_def)
  then show ?thesis
    by (intro exI [of _ "before @ cs @ [ANow]"] exI [of _ y]) (simp add: recordedFor_def)
qed

end
