(* ===== verification/Control_Plane_Main.thy ===== *)
theory Control_Plane_Main
  imports Api_Properties
begin

text \<open>
  The entry point of the control plane (\<^verbatim>\<open>main\<close> of \<^verbatim>\<open>cmd/controlplane/main.go\<close>): configuration from the environment,
  the order of the middleware and the address. The middlewares of chi (recovery of panics, time out, size limit) are
  parameters; listening and the shutdown on a signal are left out.
\<close>

section \<open>Middleware\<close>

definition securityHeaders :: labels where
  "securityHeaders =
     [(''X-Content-Type-Options'', ''nosniff''), (''X-Frame-Options'', ''DENY''), (''X-XSS-Protection'', ''1; mode=block''),
      (''Referrer-Policy'', ''strict-origin-when-cross-origin''),
      (''Content-Security-Policy'', ''default-src '' @ [CHR 0x27] @ ''self'' @ [CHR 0x27])]"

text \<open>A handler that also sets headers of the response.\<close>

type_synonym outer_handler = "http_request \<Rightarrow> (labels \<times> http_response) cp_prog"

definition securityHeadersMiddleware :: "handler \<Rightarrow> outer_handler" where
  "securityHeadersMiddleware next' r = fmap (\<lambda>resp. (securityHeaders, resp)) (next' r)"

record chi_middleware =
  chi_Recoverer :: "outer_handler \<Rightarrow> outer_handler"
  chi_Timeout :: "outer_handler \<Rightarrow> outer_handler"
  chi_RequestSize :: "handler \<Rightarrow> handler"

definition timeoutUnlessConsole :: "(outer_handler \<Rightarrow> outer_handler) \<Rightarrow> outer_handler \<Rightarrow> outer_handler" where
  "timeoutUnlessConsole timeout next' r =
     (if HasSuffix (rq_Path r) ''/console'' then next' r else timeout next' r)"

definition controlPlaneRouter :: "chi_middleware \<Rightarrow> Provider list \<Rightarrow> handler \<Rightarrow> outer_handler" where
  "controlPlaneRouter M chain api =
     chi_Recoverer M (timeoutUnlessConsole (chi_Timeout M)
       (securityHeadersMiddleware (chi_RequestSize M (serve chain api))))"


section \<open>Start-up\<close>

record control_plane =
  srv_Addr :: string
  srv_Handler :: outer_handler
  srv_Chain :: "Provider list"
  srv_Api :: controlPlaneAPI

text \<open>
  The message of \<^verbatim>\<open>log.Fatalf\<close>, or the server that listens. The creation of the Kubernetes client is an argument.
\<close>

definition controlPlaneMain ::
    "kerr + unit \<Rightarrow> labels \<Rightarrow> klib \<Rightarrow> authlib \<Rightarrow> (string \<Rightarrow> kerr + unit) \<Rightarrow> cp_env \<Rightarrow> router_lib \<Rightarrow> request_bodies \<Rightarrow>
     chi_middleware \<Rightarrow> string + control_plane" where
  "controlPlaneMain newClient env L A discover E X B M =
     (case newClient of
        Inl err \<Rightarrow> Inl (''failed to create k8s client: '' @ err_msg err)
      | Inr _ \<Rightarrow>
          (let authCfg = LoadConfig env; keyNamespace = map_str env ''POD_NAMESPACE''
           in case BuildChainWithStorage A discover E authCfg (Some keyNamespace) of
                Inl err \<Rightarrow> Inl (''failed to build auth chain: '' @ err_msg err)
              | Inr chain \<Rightarrow>
                  (case LoadTenantConfig L env of
                     Inl err \<Rightarrow> Inl (''invalid tenant quota configuration: '' @ err_msg err)
                   | Inr tenantCfg \<Rightarrow>
                       (let api = \<lparr>api_authCfg = authCfg, api_keyNamespace = keyNamespace, api_tenantCfg = tenantCfg\<rparr>;
                            port = (if map_str env ''PORT'' = [] then ''8080'' else map_str env ''PORT'')
                        in Inr \<lparr>srv_Addr = CHR '':'' # port,
                                srv_Handler = controlPlaneRouter M chain (HandlerFromMux X (controlPlaneServer L A E api B)),
                                srv_Chain = chain, srv_Api = api\<rparr>))))"


section \<open>Properties\<close>

text \<open>A control plane that starts has a usable configuration and never an empty chain of providers.\<close>

lemma control_plane_started:
  assumes "controlPlaneMain newClient env L A discover E X B M = Inr srv"
  shows "srv_Chain srv \<noteq> []" "LoadTenantConfig L env = Inr (api_tenantCfg (srv_Api srv))"
    "srv_Handler srv = controlPlaneRouter M (srv_Chain srv) (HandlerFromMux X (controlPlaneServer L A E (srv_Api srv) B))"
  using assms
  by (auto simp: controlPlaneMain_def BuildChainWithStorage_def Let_def split: sum.splits if_splits)

text \<open>
  Behind middlewares that pass a request on, the server answers as the guarded API does, with the headers set; in
  particular it makes the same calls, so that the rights of the caller bound what it does.
\<close>

lemma control_plane_serves:
  assumes "chi_Recoverer M = id" "chi_Timeout M = id" "chi_RequestSize M = id"
  shows "run_state (controlPlaneRouter M chain api r) w =
    (case run_state (serve chain api r) w of (resp, w') \<Rightarrow> ((securityHeaders, resp), w'))"
  using assms
  by (simp add: controlPlaneRouter_def timeoutUnlessConsole_def securityHeadersMiddleware_def io_simps)

text \<open>A request for the console of a server never passes the time out.\<close>

lemma console_never_times_out:
  "HasSuffix (rq_Path r) ''/console'' \<Longrightarrow> chi_Recoverer M = id \<Longrightarrow>
     controlPlaneRouter M chain api r = controlPlaneRouter (M\<lparr>chi_Timeout := t\<rparr>) chain api r"
  by (simp add: controlPlaneRouter_def timeoutUnlessConsole_def)

end
