(* ===== verification/Http_Client.thy ===== *)
theory Http_Client
  imports SDK_Wire "HOL-Library.Countable"
begin

text \<open>
  What the two generated HTTP clients share (\<^verbatim>\<open>sdk/controlplane/gen/client.go\<close>,
  \<^verbatim>\<open>internal/cloudapi/gen/client.gen.go\<close>): path parameters, the URL of a request, the request editors and the
  decoding of a response by status and content type. Of Go's \<^verbatim>\<open>net/url\<close>, the escaping of a path segment and the
  resolution of a relative path are modelled; parsing of the base URL is a parameter that gives the part before the
  path and the escaped path. The generated code escapes a parameter with the oapi-codegen runtime and marshals with
  \<^verbatim>\<open>encoding/json\<close>, which are parameters too.
\<close>

section \<open>Escaping of path segments (net/url)\<close>

definition upperhex :: "nat \<Rightarrow> char" where
  "upperhex n = char_of (if n < 10 then 48 + n else 55 + n)"

definition unhex :: "char \<Rightarrow> nat option" where
  "unhex c =
     (let n = of_char c :: nat
      in if 48 \<le> n \<and> n \<le> 57 then Some (n - 48)
         else if 65 \<le> n \<and> n \<le> 70 then Some (n - 55)
         else if 97 \<le> n \<and> n \<le> 102 then Some (n - 87) else None)"

text \<open>Letters, digits and the marks that may stand for themselves in a segment.\<close>

definition unreserved :: "char \<Rightarrow> bool" where
  "unreserved c \<longleftrightarrow>
     (let n = of_char c :: nat in 48 \<le> n \<and> n \<le> 57 \<or> 65 \<le> n \<and> n \<le> 90 \<or> 97 \<le> n \<and> n \<le> 122) \<or>
     c \<in> set ''-_.~''"

definition shouldEscape :: "char \<Rightarrow> bool" where
  "shouldEscape c \<longleftrightarrow> \<not> unreserved c \<and> c \<notin> set ''$&+:=@''"

definition escape_char :: "char \<Rightarrow> string" where
  "escape_char c =
     (if shouldEscape c then [CHR ''%'', upperhex (of_char c div 16), upperhex (of_char c mod 16)] else [c])"

definition PathEscape :: "string \<Rightarrow> string" where
  "PathEscape s = concat (map escape_char s)"

fun PathUnescape :: "string \<Rightarrow> string option" where
  "PathUnescape [] = Some []"
| "PathUnescape (c # s) =
     (if c \<noteq> CHR ''%'' then map_option (Cons c) (PathUnescape s)
      else (case s of
          a # b # rest \<Rightarrow>
            (case (unhex a, unhex b) of
               (Some x, Some y) \<Rightarrow> map_option (Cons (char_of (16 * x + y))) (PathUnescape rest)
             | _ \<Rightarrow> None)
        | _ \<Rightarrow> None))"

lemma unhex_upperhex: "n < 16 \<Longrightarrow> unhex (upperhex n) = Some n"
  by (auto simp: unhex_def upperhex_def Let_def)

lemma escape_char_free: "CHR ''/'' \<notin> set (escape_char c)"
proof -
  have hex: "CHR ''/'' \<noteq> upperhex n" if "n < 16" for n
  proof -
    have "unhex (CHR ''/'') = None" by (simp add: unhex_def Let_def)
    with unhex_upperhex [OF that] show ?thesis by (metis option.distinct(1))
  qed
  have "(of_char c :: nat) div 16 < 16" "(of_char c :: nat) mod 16 < 16"
    using nat_of_char_less_256 [of c] by (simp_all add: less_mult_imp_div_less)
  from this [THEN hex] show ?thesis
    by (auto simp: escape_char_def shouldEscape_def unreserved_def)
qed

lemma PathEscape_free: "CHR ''/'' \<notin> set (PathEscape s)"
  by (simp add: PathEscape_def escape_char_free)

lemma escape_not_percent: "\<not> shouldEscape c \<Longrightarrow> c \<noteq> CHR ''%''"
  by (auto simp: shouldEscape_def unreserved_def)

lemma unescape_escape_char: "PathUnescape (escape_char c @ s) = map_option (Cons c) (PathUnescape s)"
proof (cases "shouldEscape c")
  case True
  have "(of_char c :: nat) div 16 < 16" "(of_char c :: nat) mod 16 < 16"
    using nat_of_char_less_256 [of c] by (simp_all add: less_mult_imp_div_less)
  moreover have "char_of (16 * (of_char c div 16) + of_char c mod 16 :: nat) = c"
    by (simp add: mult_div_mod_eq)
  ultimately show ?thesis using True by (simp add: escape_char_def unhex_upperhex)
qed (use escape_not_percent in \<open>simp add: escape_char_def\<close>)

lemma unescape_escape: "PathUnescape (PathEscape s) = Some s"
  by (induction s) (simp_all add: PathEscape_def unescape_escape_char)

lemma PathEscape_plain: "\<forall>c\<in>set s. unreserved c \<Longrightarrow> PathEscape s = s"
  by (induction s) (auto simp: PathEscape_def escape_char_def shouldEscape_def)

text \<open>A segment that is nothing but dots stays one, and no other segment becomes one.\<close>

lemma escape_char_dot: "escape_char c = ''.'' \<longleftrightarrow> c = CHR ''.''"
  by (auto simp: escape_char_def shouldEscape_def unreserved_def)

lemma escape_char_not_Nil: "escape_char c \<noteq> []"
  by (simp add: escape_char_def)

lemma escape_char_eq_iff: "[c] = escape_char d \<Longrightarrow> d = c"
  by (auto simp: escape_char_def split: if_splits)

lemma PathEscape_eq_dots:
  assumes "s \<in> {[], ''.'', ''..''}"
  shows "PathEscape t = s \<longleftrightarrow> t = s"
proof
  have "PathEscape s = s" using assms by (intro PathEscape_plain) (auto simp: unreserved_def)
  then show "t = s \<Longrightarrow> PathEscape t = s" by simp
  assume "PathEscape t = s"
  with \<open>PathEscape s = s\<close> have "PathUnescape (PathEscape t) = PathUnescape (PathEscape s)" by simp
  then show "t = s" by (simp only: unescape_escape option.inject)
qed


section \<open>Relative paths (net/url)\<close>

text \<open>The elements of a path with dots resolved, the last one first while they are collected.\<close>

fun resolveElems :: "string list \<Rightarrow> string list \<Rightarrow> string list" where
  "resolveElems acc [] = rev acc"
| "resolveElems acc (e # es) =
     (if e = ''.'' then resolveElems acc es
      else if e = ''..'' then resolveElems (tl acc) es
      else resolveElems (e # acc) es)"

text \<open>\<^verbatim>\<open>base[:strings.LastIndex(base, "/")+1]\<close>\<close>

definition upToSlash :: "string \<Rightarrow> string" where
  "upToSlash base = rev (dropWhile (\<lambda>c. c \<noteq> CHR ''/'') (rev base))"

definition resolvePath :: "string \<Rightarrow> string \<Rightarrow> string" where
  "resolvePath base ref =
     (let full = (if ref = [] then base else if hd ref \<noteq> CHR ''/'' then upToSlash base @ ref else ref)
      in if full = [] then []
         else (let elems = split_char (CHR ''/'') full;
                   r = CHR ''/'' # join_char (CHR ''/'') (resolveElems [] elems) @
                       (if last elems \<in> set [''.'', ''..''] then ''/'' else [])
               in if length r > 1 \<and> r ! 1 = CHR ''/'' then tl r else r))"


section \<open>Requests\<close>

record server_url =
  su_Origin :: string
  su_Path :: string

record client_lib =
  lib_style :: "string \<Rightarrow> string \<Rightarrow> kerr + string"
  lib_parseURL :: "string \<Rightarrow> kerr + server_url"
  lib_marshal :: "json \<Rightarrow> kerr + string"
  lib_unmarshal :: "string \<Rightarrow> kerr + json"

record out_request =
  or_Method :: string
  or_Origin :: string
  or_Path :: string
  or_Header :: labels
  or_Body :: string

text \<open>\<^verbatim>\<open>fmt.Sprintf\<close> with \<^verbatim>\<open>%s\<close> verbs.\<close>

fun Sprintf_s :: "string \<Rightarrow> string list \<Rightarrow> string" where
  "Sprintf_s [] args = []"
| "Sprintf_s (c # f) args =
     (if c = CHR ''%'' \<and> f \<noteq> [] \<and> hd f = CHR ''s'' \<and> args \<noteq> [] then hd args @ Sprintf_s (tl f) (tl args)
      else c # Sprintf_s f args)"

fun styleParams :: "client_lib \<Rightarrow> (string \<times> string) list \<Rightarrow> kerr + string list" where
  "styleParams C [] = Inr []"
| "styleParams C ((param, v) # params) =
     (case lib_style C param v of
        Inl err \<Rightarrow> Inl err
      | Inr s \<Rightarrow> map_sum id (Cons s) (styleParams C params))"

text \<open>
  The body of every request builder: style the parameters in order, parse the server, resolve the operation's path
  against it. The optional body comes with its content type.
\<close>

definition newRequest ::
    "client_lib \<Rightarrow> string \<Rightarrow> string \<Rightarrow> string \<Rightarrow> (string \<times> string) list \<Rightarrow> (string \<times> string) option \<Rightarrow> kerr + out_request" where
  "newRequest C server meth form params body =
     (case styleParams C params of
        Inl err \<Rightarrow> Inl err
      | Inr styled \<Rightarrow>
          (case lib_parseURL C server of
             Inl err \<Rightarrow> Inl err
           | Inr url \<Rightarrow>
               (let path = Sprintf_s form styled;
                    operationPath = (if path \<noteq> [] \<and> hd path = CHR ''/'' then CHR ''.'' # path else path)
                in Inr \<lparr>or_Method = meth, or_Origin = su_Origin url, or_Path = resolvePath (su_Path url) operationPath,
                        or_Header = (case body of None \<Rightarrow> [] | Some (contentType, _) \<Rightarrow> [(''Content-Type'', contentType)]),
                        or_Body = (case body of None \<Rightarrow> [] | Some (_, content) \<Rightarrow> content)\<rparr>)))"

text \<open>The builder for a JSON body over the builder for any body.\<close>

definition withJSON ::
    "client_lib \<Rightarrow> json \<Rightarrow> (string \<Rightarrow> string \<Rightarrow> kerr + out_request) \<Rightarrow> kerr + out_request" where
  "withJSON C body build =
     (case lib_marshal C body of Inl err \<Rightarrow> Inl err | Inr buf \<Rightarrow> build ''application/json'' buf)"

text \<open>\<^verbatim>\<open>NewClient\<close> ends the server with a slash; the editor sets headers on each request.\<close>

definition genServerURL :: "string \<Rightarrow> string" where
  "genServerURL server = (if HasSuffix server ''/'' then server else server @ ''/'')"

definition applyEditors :: "labels \<Rightarrow> out_request \<Rightarrow> out_request" where
  "applyEditors headers r = r\<lparr>or_Header := or_Header r @ headers\<rparr>"


section \<open>Responses\<close>

record raw_response =
  raw_Status :: int
  raw_ContentType :: string
  raw_Body :: "kerr + string"

text \<open>
  What a parser returns: the status and body, and the field \<^verbatim>\<open>JSON<status>\<close> that was set if one was, which holds the
  error envelope or the payload.
\<close>

record 'j parsed =
  pa_Status :: int
  pa_Body :: string
  pa_JSON :: "(int \<times> (string + 'j)) option"

definition errorBody :: "client_lib \<Rightarrow> string \<Rightarrow> kerr + (string + 'j)" where
  "errorBody C body = map_sum id (\<lambda>j. Inl (str_or (str_at ''error'' j))) (lib_unmarshal C body)"

definition payload :: "client_lib \<Rightarrow> (json \<Rightarrow> 'j) \<Rightarrow> string \<Rightarrow> kerr + (string + 'j)" where
  "payload C f body = map_sum id (\<lambda>j. Inr (f j)) (lib_unmarshal C body)"

definition payloads :: "client_lib \<Rightarrow> (json \<Rightarrow> 'j) \<Rightarrow> string \<Rightarrow> kerr + (string + 'j list)" where
  "payloads C f body =
     (case lib_unmarshal C body of
        Inl err \<Rightarrow> Inl err
      | Inr j \<Rightarrow>
          (case as_list j of
             None \<Rightarrow> Inl (new_error ''json: cannot unmarshal value into Go value of type slice'')
           | Some js \<Rightarrow> Inr (Inr (map f js))))"

text \<open>The switch of a parser: the first case whose status fits, and only for a JSON content type.\<close>

definition parseResponse ::
    "(int \<times> (string \<Rightarrow> kerr + (string + 'j))) list \<Rightarrow> raw_response \<Rightarrow> kerr + 'j parsed" where
  "parseResponse cases rsp =
     (case raw_Body rsp of
        Inl err \<Rightarrow> Inl err
      | Inr body \<Rightarrow>
          (case find (\<lambda>(status, _). str_contains (raw_ContentType rsp) ''json'' \<and> raw_Status rsp = status) cases of
             None \<Rightarrow> Inr \<lparr>pa_Status = raw_Status rsp, pa_Body = body, pa_JSON = None\<rparr>
           | Some (status, unmarshal) \<Rightarrow>
               (case unmarshal body of
                  Inl err \<Rightarrow> Inl err
                | Inr dest \<Rightarrow> Inr \<lparr>pa_Status = raw_Status rsp, pa_Body = body, pa_JSON = Some (status, dest)\<rparr>)))"

text \<open>The part of a parsed response that the hand-written clients look at.\<close>

definition seen :: "'j parsed \<Rightarrow> 'j response" where
  "seen p =
     \<lparr>rsp_StatusCode = pa_Status p, rsp_Body = pa_Body p,
      rsp_JSON = (case pa_JSON p of Some (_, Inr j) \<Rightarrow> Some j | _ \<Rightarrow> None)\<rparr>"


section \<open>Paths of requests\<close>

text \<open>
  The elements of an operation's path between the slashes: a literal, or a parameter that is escaped. When no element
  is a dot segment, resolving the path against a base that ends in a slash just appends it.
\<close>

lemma resolveElems_plain:
  "set es \<inter> {''.'', ''..''} = {} \<Longrightarrow> resolveElems acc es = rev acc @ es"
  by (induction es arbitrary: acc) auto

lemma resolveElems_append: "resolveElems acc (xs @ ys) = resolveElems (rev (resolveElems acc xs)) ys"
  by (induction acc xs rule: resolveElems.induct) auto

lemma join_char_append:
  "xs \<noteq> [] \<Longrightarrow> ys \<noteq> [] \<Longrightarrow> join_char c (xs @ ys) = join_char c xs @ c # join_char c ys"
proof (induction c xs rule: join_char.induct)
  case (2 c x)
  then show ?case by (cases ys) auto
qed auto

lemma set_join_char: "set (join_char c ss) \<subseteq> insert c (\<Union> (set ` set ss))"
  by (induction c ss rule: join_char.induct) auto

definition dir_path :: "string list \<Rightarrow> string" where
  "dir_path bs = CHR ''/'' # concat (map (\<lambda>b. b @ ''/'') bs)"

lemma dir_path_join: "xs \<noteq> [] \<Longrightarrow> dir_path bs @ join_char (CHR ''/'') xs = join_char (CHR ''/'') ([] # bs @ xs)"
proof (induction bs)
  case Nil
  then show ?case by (cases xs) (auto simp: dir_path_def)
next
  case (Cons b bs)
  then show ?case by (cases "bs @ xs") (auto simp: dir_path_def)
qed

lemma upToSlash_dir_path: "upToSlash (dir_path bs) = dir_path bs"
proof (cases bs rule: rev_cases)
  case (snoc cs b)
  then have "dir_path bs = (CHR ''/'' # concat (map (\<lambda>b. b @ ''/'') cs) @ b) @ ''/''" by (simp add: dir_path_def)
  then show ?thesis by (simp add: upToSlash_def)
qed (simp add: dir_path_def upToSlash_def)

lemma resolvePath_join:
  assumes "segs \<noteq> []" "\<forall>s\<in>set (bs @ segs). CHR ''/'' \<notin> set s"
  shows "resolvePath (dir_path bs) (''./'' @ join_char (CHR ''/'') segs) =
    (let r = CHR ''/'' # join_char (CHR ''/'') (resolveElems [] ([] # bs @ ''.'' # segs)) @
           (if last segs \<in> {''.'', ''..''} then ''/'' else [])
     in if length r > 1 \<and> r ! 1 = CHR ''/'' then tl r else r)"
proof -
  have "''./'' @ join_char (CHR ''/'') segs = join_char (CHR ''/'') (''.'' # segs)"
    using assms(1) by (cases segs) auto
  then have full: "upToSlash (dir_path bs) @ ''./'' @ join_char (CHR ''/'') segs =
      join_char (CHR ''/'') ([] # bs @ ''.'' # segs)"
    by (simp only: upToSlash_dir_path) (subst dir_path_join, simp_all)
  have elems: "split_char (CHR ''/'') (join_char (CHR ''/'') ([] # bs @ ''.'' # segs)) = [] # bs @ ''.'' # segs"
    using assms(2) by (intro split_join) auto
  moreover have "join_char (CHR ''/'') ([] # bs @ ''.'' # segs) \<noteq> []" using elems by auto
  ultimately show ?thesis
    using full assms(1)
    by (simp add: resolvePath_def Let_def del: split_char.simps join_char.simps)
qed

lemma resolvePath_dir:
  assumes "segs \<noteq> []" "\<forall>s\<in>set (bs @ segs). CHR ''/'' \<notin> set s" "set (bs @ segs) \<inter> {''.'', ''..''} = {}"
  shows "resolvePath (dir_path bs) (''./'' @ join_char (CHR ''/'') segs) = CHR ''/'' # join_char (CHR ''/'') (bs @ segs)"
proof -
  have "resolveElems [] ([] # bs @ ''.'' # segs) = [] # bs @ segs"
    using assms(3) by (simp add: resolveElems_append resolveElems_plain Int_Un_distrib2)
  moreover have "join_char (CHR ''/'') ([] # bs @ segs) = CHR ''/'' # join_char (CHR ''/'') (bs @ segs)"
    using assms(1) by (cases "bs @ segs") auto
  moreover have "last segs \<notin> {''.'', ''..''}" using assms(1,3) last_in_set by fastforce
  ultimately show ?thesis
    unfolding resolvePath_join [OF assms(1,2)] by (simp add: Let_def del: join_char.simps)
qed

text \<open>
  What is assumed of the oapi-codegen runtime: it escapes a path parameter as a segment. A parameter that is a lone dot
  or two dots is the exception of the properties that follow.
\<close>

definition styles_by_escaping :: "client_lib \<Rightarrow> bool" where
  "styles_by_escaping C \<longleftrightarrow> (\<forall>param v. lib_style C param v = Inr (PathEscape v))"

definition dotted :: "string \<Rightarrow> bool" where
  "dotted s \<longleftrightarrow> s \<in> {''.'', ''..''}"

lemma styleParams_escaped:
  "styles_by_escaping C \<Longrightarrow> styleParams C params = Inr (map (\<lambda>(_, v). PathEscape v) params)"
  by (induction C params rule: styleParams.induct) (auto simp: styles_by_escaping_def)

lemma newRequest_path:
  assumes "styles_by_escaping C" "lib_parseURL C server = Inr url" "newRequest C server m form params body = Inr r"
    and "Sprintf_s form (map (\<lambda>(_, v). PathEscape v) params) = CHR ''/'' # path"
  shows "or_Method r = m \<and> or_Path r = resolvePath (su_Path url) (''./'' @ path)"
  using assms by (auto simp: newRequest_def styleParams_escaped Let_def)

lemma withJSON_built: "withJSON C j build = Inr r \<Longrightarrow> \<exists>buf. build ''application/json'' buf = Inr r"
  by (auto simp: withJSON_def split: sum.splits)

text \<open>
  Libraries for concrete instances. JSON values are countable, so that encoding one as the string of its number is a
  codec; a base URL is taken for an origin.
\<close>

instance json :: countable
  by countable_datatype

definition ex_lib :: client_lib where
  "ex_lib =
     \<lparr>lib_style = (\<lambda>_ v. Inr (PathEscape v)), lib_parseURL = (\<lambda>s. Inr \<lparr>su_Origin = s, su_Path = ''/''\<rparr>),
      lib_marshal = (\<lambda>j. Inr (replicate (to_nat j) (CHR ''x''))),
      lib_unmarshal = (\<lambda>s. if set (butlast s) \<subseteq> {CHR ''x''} then Inr (from_nat (length s - 1))
                            else Inl (new_error ''invalid character''))\<rparr>"

lemma ex_lib_styles: "styles_by_escaping ex_lib"
  by (simp add: styles_by_escaping_def ex_lib_def)

text \<open>The elements that a request's path is made of, when none of them is a dot segment.\<close>

lemma request_split:
  assumes "or_Path r = resolvePath (dir_path bs) (''./'' @ join_char (CHR ''/'') (map PathEscape segs))"
    and "\<forall>b\<in>set bs. \<not> dotted b \<and> (\<forall>c\<in>set b. unreserved c)" "\<forall>s\<in>set segs. \<not> dotted s" "segs \<noteq> []"
  shows "or_Path r = join_char (CHR ''/'') ([] # bs @ map PathEscape segs)"
    "split_char (CHR ''/'') (or_Path r) = [] # bs @ map PathEscape segs"
    "map PathUnescape (split_char (CHR ''/'') (or_Path r)) = map Some ([] # bs @ segs)"
proof -
  let ?segs = "map PathEscape segs"
  have free: "\<forall>s\<in>set (bs @ ?segs). CHR ''/'' \<notin> set s"
    using assms(2) PathEscape_plain PathEscape_free by (metis Un_iff imageE list.set_map set_append)
  have "\<not> dotted (PathEscape s)" if "s \<in> set segs" for s
    using assms(3) that by (auto simp: dotted_def PathEscape_eq_dots)
  with assms(2) have dots: "set (bs @ ?segs) \<inter> {''.'', ''..''} = {}"
    unfolding dotted_def by fastforce
  from resolvePath_dir [OF _ free dots]
  have "or_Path r = CHR ''/'' # join_char (CHR ''/'') (bs @ ?segs)"
    using assms(1,4) by simp
  then show path: "or_Path r = join_char (CHR ''/'') ([] # bs @ ?segs)"
    using assms(4) by (cases "bs @ ?segs") auto
  show split: "split_char (CHR ''/'') (or_Path r) = [] # bs @ ?segs"
    unfolding path using free by (intro split_join) auto
  have "map PathUnescape bs = map Some bs"
    using assms(2) PathEscape_plain unescape_escape by (metis (no_types, lifting) map_eq_conv)
  then show "map PathUnescape (split_char (CHR ''/'') (or_Path r)) = map Some ([] # bs @ segs)"
    unfolding split by (simp add: unescape_escape comp_def)
qed

end
