(* ===== verification/Cloud_Transport.thy ===== *)
theory Cloud_Transport
  imports Http_Client Cloud_Client
begin

text \<open>
  The generated client of the cloud API (\<^verbatim>\<open>internal/cloudapi/gen/client.gen.go\<close>), for the operations that the
  hand-written client (theory \<open>Cloud_Client\<close>) calls: request builders and response parsers (\<open>cloud\<close> before the name
  of the function), the models they encode and decode, and the environment they make of an HTTP transport. The other
  operations, which nothing in the repository calls, are in theory \<open>Cloud_Operations\<close>.
\<close>

section \<open>Models\<close>

definition createServerJSON :: "CreateServerRequest \<Rightarrow> json" where
  "createServerJSON req =
     JObj (ptr_field ''env'' map_json (csr_Env req) @ [(''name'', JStr (csr_Name req)), (''profile'', JStr (csr_Profile req))] @
       ptr_field ''region'' JStr (csr_Region req) @ ptr_field ''storageSize'' JStr (csr_StorageSize req) @
       ptr_field ''tier'' JStr (csr_Tier req))"

definition createAPIKeyJSON :: "CreateAPIKeyRequest \<Rightarrow> json" where
  "createAPIKeyJSON req =
     JObj ((''name'', JStr (ckr_Name req)) # ptr_field ''scopes'' (\<lambda>ss. JList (map JStr ss)) (ckr_Scopes req))"

definition zeroTime :: time where "zeroTime = - (62135596800 * second)"

definition strs_at :: "string \<Rightarrow> json \<Rightarrow> string list" where
  "strs_at k j = (case list_at k j of None \<Rightarrow> [] | Some js \<Rightarrow> map (\<lambda>x. str_or (as_str x)) js)"

definition cloudTenant :: "json \<Rightarrow> CloudTenant" where
  "cloudTenant j =
     \<lparr>ct_Id = str_or (str_at ''id'' j), ct_Slug = str_or (str_at ''slug'' j), ct_Name = str_or (str_at ''name'' j)\<rparr>"

definition cloudServer :: "json \<Rightarrow> CloudServer" where
  "cloudServer j =
     \<lparr>cs_Id = str_or (str_at ''id'' j), cs_Name = str_or (str_at ''name'' j), cs_Profile = str_or (str_at ''profile'' j),
      cs_Tier = str_at ''tier'' j, cs_Status = str_or (str_at ''status'' j), cs_Suspended = bool_at ''suspended'' j\<rparr>"

definition cloudServerWithLive :: "json \<Rightarrow> CloudServer" where
  "cloudServerWithLive j = cloudServer (case at ''server'' j of None \<Rightarrow> JObj [] | Some s \<Rightarrow> s)"

definition cloudSnapshot :: "json \<Rightarrow> CloudSnapshot" where
  "cloudSnapshot j =
     \<lparr>csn_Name = map_option (str_at ''name'') (at ''metadata'' j),
      csn_Status = map_option (\<lambda>s. \<lparr>css_State = str_at ''state'' s, css_Size = str_at ''size'' s,
        css_ReadyAt = time_at ''readyAt'' s\<rparr>) (at ''status'' j)\<rparr>"

text \<open>Of the parameters of an action, their names.\<close>

definition cloudAction :: "json \<Rightarrow> CloudAction" where
  "cloudAction j =
     \<lparr>ca_Name = str_at ''name'' j, ca_Description = str_at ''description'' j,
      ca_Params = (case at ''params'' j of Some (JObj fs) \<Rightarrow> Some (map fst fs) | _ \<Rightarrow> None)\<rparr>"

definition cloudExecutionRef :: "json \<Rightarrow> string" where
  "cloudExecutionRef j = str_or (str_at ''name'' j)"

definition catalogEntry :: "json \<Rightarrow> CatalogEntry" where
  "catalogEntry j =
     \<lparr>ce_Name = str_or (str_at ''name'' j), ce_DisplayName = str_or (str_at ''displayName'' j),
      ce_Category = str_at ''category'' j,
      ce_Tiers = (case list_at ''tiers'' j of None \<Rightarrow> [] | Some ts \<Rightarrow> map (\<lambda>t. str_or (str_at ''name'' t)) ts),
      ce_Regions = strs_at ''regions'' j\<rparr>"

definition cloudPlan :: "json \<Rightarrow> CloudPlan" where
  "cloudPlan j =
     \<lparr>cp_Id = str_or (str_at ''id'' j), cp_DisplayName = str_or (str_at ''display_name'' j),
      cp_MaxServers = (case num_at ''max_servers'' j of None \<Rightarrow> 0 | Some n \<Rightarrow> n),
      cp_MaxStorageGb = (case num_at ''max_storage_gb'' j of None \<Rightarrow> 0 | Some n \<Rightarrow> n),
      cp_Isolation = str_or (str_at ''isolation'' j), cp_MonthlyPriceCents = num_at ''monthly_price_cents'' j\<rparr>"

definition cloudSubscription :: "json \<Rightarrow> CloudSubscription" where
  "cloudSubscription j =
     \<lparr>cu_TenantId = str_or (str_at ''tenant_id'' j), cu_PlanId = str_or (str_at ''plan_id'' j),
      cu_Status = str_or (str_at ''status'' j), cu_CurrentPeriodEnd = time_at ''current_period_end'' j,
      cu_GraceUntil = time_at ''grace_until'' j\<rparr>"

definition cloudAPIKey :: "json \<Rightarrow> CloudAPIKey" where
  "cloudAPIKey j =
     \<lparr>ck_Id = str_or (str_at ''id'' j), ck_Name = str_or (str_at ''name'' j), ck_Prefix = str_or (str_at ''prefix'' j),
      ck_Scopes = strs_at ''scopes'' j, ck_ExpiresAt = time_at ''expires_at'' j,
      ck_CreatedAt = (case time_at ''created_at'' j of None \<Rightarrow> zeroTime | Some t \<Rightarrow> t)\<rparr>"

definition cloudKeyCreated :: "json \<Rightarrow> APIKeyCreated" where
  "cloudKeyCreated j = \<lparr>ckc_Name = str_or (str_at ''name'' j), ckc_Key = str_or (str_at ''key'' j)\<rparr>"


section \<open>Requests\<close>

definition cloudNewListMyTenantsRequest :: "client_lib \<Rightarrow> string \<Rightarrow> kerr + out_request" where
  "cloudNewListMyTenantsRequest C server =
     newRequest C server ''GET'' ''/api/v1/me/tenants''
       [] None"

definition cloudNewListServersRequest :: "client_lib \<Rightarrow> string \<Rightarrow> string \<Rightarrow> kerr + out_request" where
  "cloudNewListServersRequest C server tenantID =
     newRequest C server ''GET'' ''/api/v1/tenants/%s/servers''
       [(''tenantID'', tenantID)] None"

definition cloudNewGetServerRequest :: "client_lib \<Rightarrow> string \<Rightarrow> string \<Rightarrow> string \<Rightarrow> kerr + out_request" where
  "cloudNewGetServerRequest C server tenantID serverID =
     newRequest C server ''GET'' ''/api/v1/tenants/%s/servers/%s''
       [(''tenantID'', tenantID), (''serverID'', serverID)] None"

definition cloudNewCreateServerRequestWithBody ::
    "client_lib \<Rightarrow> string \<Rightarrow> string \<Rightarrow> string \<Rightarrow> string \<Rightarrow> kerr + out_request" where
  "cloudNewCreateServerRequestWithBody C server tenantID contentType body =
     newRequest C server ''POST'' ''/api/v1/tenants/%s/servers''
       [(''tenantID'', tenantID)] (Some (contentType, body))"

definition cloudNewCreateServerRequest :: "client_lib \<Rightarrow> string \<Rightarrow> string \<Rightarrow> CreateServerRequest \<Rightarrow> kerr + out_request" where
  "cloudNewCreateServerRequest C server tenantID body =
     withJSON C (createServerJSON body) (cloudNewCreateServerRequestWithBody C server tenantID)"

definition cloudNewDeleteServerRequest :: "client_lib \<Rightarrow> string \<Rightarrow> string \<Rightarrow> string \<Rightarrow> kerr + out_request" where
  "cloudNewDeleteServerRequest C server tenantID serverID =
     newRequest C server ''DELETE'' ''/api/v1/tenants/%s/servers/%s''
       [(''tenantID'', tenantID), (''serverID'', serverID)] None"

definition cloudNewListSnapshotsRequest :: "client_lib \<Rightarrow> string \<Rightarrow> string \<Rightarrow> string \<Rightarrow> kerr + out_request" where
  "cloudNewListSnapshotsRequest C server tenantID serverID =
     newRequest C server ''GET'' ''/api/v1/tenants/%s/servers/%s/snapshots''
       [(''tenantID'', tenantID), (''serverID'', serverID)] None"

definition cloudNewCreateSnapshotRequest :: "client_lib \<Rightarrow> string \<Rightarrow> string \<Rightarrow> string \<Rightarrow> kerr + out_request" where
  "cloudNewCreateSnapshotRequest C server tenantID serverID =
     newRequest C server ''POST'' ''/api/v1/tenants/%s/servers/%s/snapshots''
       [(''tenantID'', tenantID), (''serverID'', serverID)] None"

definition cloudNewListActionsRequest :: "client_lib \<Rightarrow> string \<Rightarrow> string \<Rightarrow> string \<Rightarrow> kerr + out_request" where
  "cloudNewListActionsRequest C server tenantID serverID =
     newRequest C server ''GET'' ''/api/v1/tenants/%s/servers/%s/actions''
       [(''tenantID'', tenantID), (''serverID'', serverID)] None"

definition cloudNewExecuteActionRequestWithBody ::
    "client_lib \<Rightarrow> string \<Rightarrow> string \<Rightarrow> string \<Rightarrow> string \<Rightarrow> string \<Rightarrow> string \<Rightarrow> kerr + out_request" where
  "cloudNewExecuteActionRequestWithBody C server tenantID serverID action contentType body =
     newRequest C server ''POST'' ''/api/v1/tenants/%s/servers/%s/actions/%s''
       [(''tenantID'', tenantID), (''serverID'', serverID), (''action'', action)] (Some (contentType, body))"

definition cloudNewExecuteActionRequest :: "client_lib \<Rightarrow> string \<Rightarrow> string \<Rightarrow> string \<Rightarrow> string \<Rightarrow> labels \<Rightarrow> kerr + out_request" where
  "cloudNewExecuteActionRequest C server tenantID serverID action body =
     withJSON C (map_json body) (cloudNewExecuteActionRequestWithBody C server tenantID serverID action)"

definition cloudNewGetCatalogRequest :: "client_lib \<Rightarrow> string \<Rightarrow> string \<Rightarrow> kerr + out_request" where
  "cloudNewGetCatalogRequest C server tenantID =
     newRequest C server ''GET'' ''/api/v1/tenants/%s/catalog''
       [(''tenantID'', tenantID)] None"

definition cloudNewListPlansRequest :: "client_lib \<Rightarrow> string \<Rightarrow> kerr + out_request" where
  "cloudNewListPlansRequest C server =
     newRequest C server ''GET'' ''/api/v1/plans''
       [] None"

definition cloudNewGetSubscriptionRequest :: "client_lib \<Rightarrow> string \<Rightarrow> string \<Rightarrow> kerr + out_request" where
  "cloudNewGetSubscriptionRequest C server tenantID =
     newRequest C server ''GET'' ''/api/v1/tenants/%s/subscription''
       [(''tenantID'', tenantID)] None"

definition cloudNewListAPIKeysRequest :: "client_lib \<Rightarrow> string \<Rightarrow> string \<Rightarrow> kerr + out_request" where
  "cloudNewListAPIKeysRequest C server tenantID =
     newRequest C server ''GET'' ''/api/v1/tenants/%s/apikeys''
       [(''tenantID'', tenantID)] None"

definition cloudNewCreateAPIKeyRequestWithBody ::
    "client_lib \<Rightarrow> string \<Rightarrow> string \<Rightarrow> string \<Rightarrow> string \<Rightarrow> kerr + out_request" where
  "cloudNewCreateAPIKeyRequestWithBody C server tenantID contentType body =
     newRequest C server ''POST'' ''/api/v1/tenants/%s/apikeys''
       [(''tenantID'', tenantID)] (Some (contentType, body))"

definition cloudNewCreateAPIKeyRequest :: "client_lib \<Rightarrow> string \<Rightarrow> string \<Rightarrow> CreateAPIKeyRequest \<Rightarrow> kerr + out_request" where
  "cloudNewCreateAPIKeyRequest C server tenantID body =
     withJSON C (createAPIKeyJSON body) (cloudNewCreateAPIKeyRequestWithBody C server tenantID)"

definition cloudNewDeleteAPIKeyRequest :: "client_lib \<Rightarrow> string \<Rightarrow> string \<Rightarrow> string \<Rightarrow> kerr + out_request" where
  "cloudNewDeleteAPIKeyRequest C server tenantID keyID =
     newRequest C server ''DELETE'' ''/api/v1/tenants/%s/apikeys/%s''
       [(''tenantID'', tenantID), (''keyID'', keyID)] None"


section \<open>Responses\<close>

definition cloudParseListMyTenantsResponse :: "client_lib \<Rightarrow> raw_response \<Rightarrow> kerr + (CloudTenant list) parsed" where
  "cloudParseListMyTenantsResponse C =
     parseResponse [(200, payloads C cloudTenant)]"

definition cloudParseListServersResponse :: "client_lib \<Rightarrow> raw_response \<Rightarrow> kerr + (CloudServer list) parsed" where
  "cloudParseListServersResponse C =
     parseResponse [(200, payloads C cloudServer)]"

definition cloudParseGetServerResponse :: "client_lib \<Rightarrow> raw_response \<Rightarrow> kerr + CloudServer parsed" where
  "cloudParseGetServerResponse C =
     parseResponse [(200, payload C cloudServerWithLive), (404, errorBody C)]"

definition cloudParseCreateServerResponse :: "client_lib \<Rightarrow> raw_response \<Rightarrow> kerr + CloudServer parsed" where
  "cloudParseCreateServerResponse C =
     parseResponse [(201, payload C cloudServer), (400, errorBody C), (402, errorBody C), (403, errorBody C), (503, errorBody C)]"

definition cloudParseDeleteServerResponse :: "client_lib \<Rightarrow> raw_response \<Rightarrow> kerr + unit parsed" where
  "cloudParseDeleteServerResponse C =
     parseResponse [(404, errorBody C)]"

definition cloudParseListSnapshotsResponse :: "client_lib \<Rightarrow> raw_response \<Rightarrow> kerr + (CloudSnapshot list) parsed" where
  "cloudParseListSnapshotsResponse C =
     parseResponse [(200, payloads C cloudSnapshot)]"

definition cloudParseCreateSnapshotResponse :: "client_lib \<Rightarrow> raw_response \<Rightarrow> kerr + CloudSnapshot parsed" where
  "cloudParseCreateSnapshotResponse C =
     parseResponse [(201, payload C cloudSnapshot)]"

definition cloudParseListActionsResponse :: "client_lib \<Rightarrow> raw_response \<Rightarrow> kerr + (CloudAction list) parsed" where
  "cloudParseListActionsResponse C =
     parseResponse [(200, payloads C cloudAction)]"

definition cloudParseExecuteActionResponse :: "client_lib \<Rightarrow> raw_response \<Rightarrow> kerr + string parsed" where
  "cloudParseExecuteActionResponse C =
     parseResponse [(202, payload C cloudExecutionRef)]"

definition cloudParseGetCatalogResponse :: "client_lib \<Rightarrow> raw_response \<Rightarrow> kerr + (CatalogEntry list) parsed" where
  "cloudParseGetCatalogResponse C =
     parseResponse [(200, payloads C catalogEntry)]"

definition cloudParseListPlansResponse :: "client_lib \<Rightarrow> raw_response \<Rightarrow> kerr + (CloudPlan list) parsed" where
  "cloudParseListPlansResponse C =
     parseResponse [(200, payloads C cloudPlan)]"

definition cloudParseGetSubscriptionResponse :: "client_lib \<Rightarrow> raw_response \<Rightarrow> kerr + CloudSubscription parsed" where
  "cloudParseGetSubscriptionResponse C =
     parseResponse [(200, payload C cloudSubscription), (404, errorBody C)]"

definition cloudParseListAPIKeysResponse :: "client_lib \<Rightarrow> raw_response \<Rightarrow> kerr + (CloudAPIKey list) parsed" where
  "cloudParseListAPIKeysResponse C =
     parseResponse [(200, payloads C cloudAPIKey), (403, errorBody C)]"

definition cloudParseCreateAPIKeyResponse :: "client_lib \<Rightarrow> raw_response \<Rightarrow> kerr + APIKeyCreated parsed" where
  "cloudParseCreateAPIKeyResponse C =
     parseResponse [(201, payload C cloudKeyCreated), (400, errorBody C), (403, errorBody C)]"

definition cloudParseDeleteAPIKeyResponse :: "client_lib \<Rightarrow> raw_response \<Rightarrow> kerr + unit parsed" where
  "cloudParseDeleteAPIKeyResponse C =
     parseResponse [(403, errorBody C), (404, errorBody C)]"


section \<open>The environment of the client\<close>

record cloud_transport =
  ctr_lib :: client_lib
  ctr_server :: string
  ctr_headers :: labels
  ctr_do :: "out_request list \<Rightarrow> out_request \<Rightarrow> kerr + raw_response"

fun cloudRequest :: "client_lib \<Rightarrow> string \<Rightarrow> cloud_call \<Rightarrow> kerr + out_request" where
  "cloudRequest C server ClListTenants = cloudNewListMyTenantsRequest C server"
| "cloudRequest C server (ClListServers t) = cloudNewListServersRequest C server t"
| "cloudRequest C server (ClGetServer t s) = cloudNewGetServerRequest C server t s"
| "cloudRequest C server (ClCreateServer t body) = cloudNewCreateServerRequest C server t body"
| "cloudRequest C server (ClDeleteServer t s) = cloudNewDeleteServerRequest C server t s"
| "cloudRequest C server (ClListSnapshots t s) = cloudNewListSnapshotsRequest C server t s"
| "cloudRequest C server (ClCreateSnapshot t s) = cloudNewCreateSnapshotRequest C server t s"
| "cloudRequest C server (ClListActions t s) = cloudNewListActionsRequest C server t s"
| "cloudRequest C server (ClExecuteAction t s action params) = cloudNewExecuteActionRequest C server t s action params"
| "cloudRequest C server (ClGetCatalog t) = cloudNewGetCatalogRequest C server t"
| "cloudRequest C server ClListPlans = cloudNewListPlansRequest C server"
| "cloudRequest C server (ClGetSubscription t) = cloudNewGetSubscriptionRequest C server t"
| "cloudRequest C server (ClListKeys t) = cloudNewListAPIKeysRequest C server t"
| "cloudRequest C server (ClCreateKey t body) = cloudNewCreateAPIKeyRequest C server t body"
| "cloudRequest C server (ClDeleteKey t k) = cloudNewDeleteAPIKeyRequest C server t k"

definition cloudRequestFor :: "cloud_transport \<Rightarrow> cloud_call \<Rightarrow> kerr + out_request" where
  "cloudRequestFor T c =
     map_sum id (applyEditors (ctr_headers T)) (cloudRequest (ctr_lib T) (genServerURL (ctr_server T)) c)"

definition cloudSent :: "cloud_transport \<Rightarrow> cloud_call list \<Rightarrow> out_request list" where
  "cloudSent T h = List.map_filter (\<lambda>c. case cloudRequestFor T c of Inl _ \<Rightarrow> None | Inr r \<Rightarrow> Some r) h"

definition cloudWithResponse ::
    "cloud_transport \<Rightarrow> (client_lib \<Rightarrow> raw_response \<Rightarrow> kerr + 'j parsed) \<Rightarrow> cloud_call list \<Rightarrow> cloud_call \<Rightarrow> kerr + 'j response" where
  "cloudWithResponse T parse h c =
     (case cloudRequestFor T c of
        Inl err \<Rightarrow> Inl err
      | Inr r \<Rightarrow>
          (case ctr_do T (cloudSent T h) r of
             Inl err \<Rightarrow> Inl err
           | Inr rsp \<Rightarrow> map_sum id seen (parse (ctr_lib T) rsp)))"

definition cloudServerParser :: "cloud_call \<Rightarrow> client_lib \<Rightarrow> raw_response \<Rightarrow> kerr + CloudServer parsed" where
  "cloudServerParser c =
     (case c of ClCreateServer _ _ \<Rightarrow> cloudParseCreateServerResponse | _ \<Rightarrow> cloudParseGetServerResponse)"

definition cloudEmptyParser :: "cloud_call \<Rightarrow> client_lib \<Rightarrow> raw_response \<Rightarrow> kerr + unit parsed" where
  "cloudEmptyParser c =
     (case c of ClDeleteKey _ _ \<Rightarrow> cloudParseDeleteAPIKeyResponse | _ \<Rightarrow> cloudParseDeleteServerResponse)"

definition generatedCloud :: "cloud_transport \<Rightarrow> cloud_api" where
  "generatedCloud T =
     \<lparr>cl_tenants = cloudWithResponse T cloudParseListMyTenantsResponse,
      cl_servers = cloudWithResponse T cloudParseListServersResponse,
      cl_server = (\<lambda>h c. cloudWithResponse T (cloudServerParser c) h c),
      cl_snapshots = cloudWithResponse T cloudParseListSnapshotsResponse,
      cl_snapshot = cloudWithResponse T cloudParseCreateSnapshotResponse,
      cl_actions = cloudWithResponse T cloudParseListActionsResponse,
      cl_ref = cloudWithResponse T cloudParseExecuteActionResponse,
      cl_catalog = cloudWithResponse T cloudParseGetCatalogResponse,
      cl_plans = cloudWithResponse T cloudParseListPlansResponse,
      cl_subscription = cloudWithResponse T cloudParseGetSubscriptionResponse,
      cl_keys = cloudWithResponse T cloudParseListAPIKeysResponse,
      cl_key = cloudWithResponse T cloudParseCreateAPIKeyResponse,
      cl_empty = (\<lambda>h c. cloudWithResponse T (cloudEmptyParser c) h c),
      cl_errorField = (\<lambda>body. case lib_unmarshal (ctr_lib T) body of Inl _ \<Rightarrow> None | Inr j \<Rightarrow> str_at ''error'' j)\<rparr>"


section \<open>Properties\<close>

text \<open>The method and the path, element by element, that a call stands for.\<close>

fun cloudRoute :: "cloud_call \<Rightarrow> string \<times> string list" where
  "cloudRoute ClListTenants = (''GET'', [''me'', ''tenants''])"
| "cloudRoute (ClListServers t) = (''GET'', [''tenants'', t, ''servers''])"
| "cloudRoute (ClGetServer t s) = (''GET'', [''tenants'', t, ''servers'', s])"
| "cloudRoute (ClCreateServer t req) = (''POST'', [''tenants'', t, ''servers''])"
| "cloudRoute (ClDeleteServer t s) = (''DELETE'', [''tenants'', t, ''servers'', s])"
| "cloudRoute (ClListSnapshots t s) = (''GET'', [''tenants'', t, ''servers'', s, ''snapshots''])"
| "cloudRoute (ClCreateSnapshot t s) = (''POST'', [''tenants'', t, ''servers'', s, ''snapshots''])"
| "cloudRoute (ClListActions t s) = (''GET'', [''tenants'', t, ''servers'', s, ''actions''])"
| "cloudRoute (ClExecuteAction t s action params) = (''POST'', [''tenants'', t, ''servers'', s, ''actions'', action])"
| "cloudRoute (ClGetCatalog t) = (''GET'', [''tenants'', t, ''catalog''])"
| "cloudRoute ClListPlans = (''GET'', [''plans''])"
| "cloudRoute (ClGetSubscription t) = (''GET'', [''tenants'', t, ''subscription''])"
| "cloudRoute (ClListKeys t) = (''GET'', [''tenants'', t, ''apikeys''])"
| "cloudRoute (ClCreateKey t req) = (''POST'', [''tenants'', t, ''apikeys''])"
| "cloudRoute (ClDeleteKey t k) = (''DELETE'', [''tenants'', t, ''apikeys'', k])"

lemmas cloud_request_defs = cloudNewListMyTenantsRequest_def cloudNewListServersRequest_def cloudNewGetServerRequest_def
  cloudNewCreateServerRequest_def cloudNewCreateServerRequestWithBody_def cloudNewDeleteServerRequest_def
  cloudNewListSnapshotsRequest_def cloudNewCreateSnapshotRequest_def cloudNewListActionsRequest_def
  cloudNewExecuteActionRequest_def cloudNewExecuteActionRequestWithBody_def cloudNewGetCatalogRequest_def
  cloudNewListPlansRequest_def cloudNewGetSubscriptionRequest_def cloudNewListAPIKeysRequest_def
  cloudNewCreateAPIKeyRequest_def cloudNewCreateAPIKeyRequestWithBody_def cloudNewDeleteAPIKeyRequest_def

lemma cloud_escaped_literals:
  "PathEscape ''api'' = ''api''" "PathEscape ''v1'' = ''v1''" "PathEscape ''me'' = ''me''" "PathEscape ''tenants'' = ''tenants''"
  "PathEscape ''servers'' = ''servers''" "PathEscape ''snapshots'' = ''snapshots''" "PathEscape ''actions'' = ''actions''"
  "PathEscape ''catalog'' = ''catalog''" "PathEscape ''plans'' = ''plans''" "PathEscape ''subscription'' = ''subscription''"
  "PathEscape ''apikeys'' = ''apikeys''"
  by code_simp+

lemma cloudRequest_built:
  assumes "cloudRequest C server c = Inr r"
  shows "\<exists>form params body. newRequest C server (fst (cloudRoute c)) form params body = Inr r \<and>
    Sprintf_s form (map (\<lambda>(_, v). PathEscape v) params) =
      CHR ''/'' # join_char (CHR ''/'') (map PathEscape (''api'' # ''v1'' # snd (cloudRoute c)))"
  using assms
  by (cases c; hypsubst; simp only: cloudRequest.simps cloud_request_defs cloudRoute.simps fst_conv snd_conv)
    ((drule withJSON_built, erule exE, simp only: cloud_request_defs)?, intro exI conjI, assumption,
      simp add: cloud_escaped_literals)+

lemma cloudRequest_path:
  assumes "styles_by_escaping C" "lib_parseURL C server = Inr url" "cloudRequest C server c = Inr r"
  shows "or_Method r = fst (cloudRoute c)"
    "or_Path r = resolvePath (su_Path url) (''./'' @ join_char (CHR ''/'') (map PathEscape (''api'' # ''v1'' # snd (cloudRoute c))))"
  using cloudRequest_built [OF assms(3)] newRequest_path [OF assms(1,2)] by blast+

text \<open>
  A request of the cloud client for a tenant, whatever bytes the identifiers hold, addresses that tenant and nothing
  else: unescaping the elements of its path gives back the route with the identifiers themselves. Identifiers that are
  a lone dot or two dots are the exception.
\<close>

lemma cloud_requests_exact:
  assumes "styles_by_escaping C" "lib_parseURL C server = Inr url" "cloudRequest C server c = Inr r"
    and "su_Path url = dir_path bs" "\<forall>b\<in>set bs. \<not> dotted b \<and> (\<forall>c\<in>set b. unreserved c)"
    and "\<forall>s\<in>set (snd (cloudRoute c)). \<not> dotted s"
  shows "or_Method r = fst (cloudRoute c) \<and>
    map PathUnescape (split_char (CHR ''/'') (or_Path r)) = map Some ([] # bs @ ''api'' # ''v1'' # snd (cloudRoute c))"
proof -
  have "\<forall>s\<in>set (''api'' # ''v1'' # snd (cloudRoute c)). \<not> dotted s" using assms(6) by (simp add: dotted_def)
  from request_split(3) [OF cloudRequest_path(2) [OF assms(1-3), unfolded assms(4)] assms(5) this]
  show ?thesis using cloudRequest_path(1) [OF assms(1-3)] by simp
qed

text \<open>
  C40. Deleting a server or a key named by two dots addresses the tenant itself. Two dots are not escaped, and resolving
  the path removes them together with the element before: the request that the client sends is a DELETE of the
  tenant's own path, with a slash at its end.
\<close>

theorem cloud_dots_address_tenant:
  assumes "styles_by_escaping C" "lib_parseURL C server = Inr url" "su_Path url = ''/''"
    and "\<not> dotted t" "c = ClDeleteServer t ''..'' \<or> c = ClDeleteKey t ''..''" "cloudRequest C server c = Inr r"
  shows "or_Method r = ''DELETE'' \<and> or_Path r = ''/api/v1/tenants/'' @ PathEscape t @ ''/''"
proof -
  have route: "cloudRoute c = (''DELETE'', [''tenants'', t, last (butlast (snd (cloudRoute c))), ''..''])"
    "last (butlast (snd (cloudRoute c))) \<in> {''servers'', ''apikeys''}" using assms(5) by auto
  let ?kind = "last (butlast (snd (cloudRoute c)))"
  let ?segs = "[''api'', ''v1'', ''tenants'', PathEscape t, ?kind, ''..'']"
  have "map PathEscape (''api'' # ''v1'' # snd (cloudRoute c)) = ?segs"
    using assms(5) by (auto simp: cloud_escaped_literals PathEscape_eq_dots)
  with cloudRequest_path [OF assms(1,2,6)] route(1) assms(3)
  have r: "or_Method r = ''DELETE''" "or_Path r = resolvePath (dir_path []) (''./'' @ join_char (CHR ''/'') ?segs)"
    by (simp_all add: dir_path_def del: join_char.simps) (metis fst_conv)
  have "\<forall>s\<in>set ([] @ ?segs). CHR ''/'' \<notin> set s" using route(2) PathEscape_free by auto
  moreover have "PathEscape t \<noteq> ''.''" "PathEscape t \<noteq> ''..''"
    using assms(4) by (auto simp: dotted_def PathEscape_eq_dots)
  moreover have "?kind \<noteq> ''.''" "?kind \<noteq> ''..''" using route(2) by auto
  ultimately show ?thesis
    using r resolvePath_join [of ?segs "[]"] by (simp add: Let_def del: upt.simps)
qed

theorem cloud_dots_address_tenant_witness:
  "\<exists>r. cloudRequest ex_lib ''https://cloud'' (ClDeleteServer ''t1'' ''..'') = Inr r \<and>
     or_Method r = ''DELETE'' \<and> or_Path r = ''/api/v1/tenants/t1/''"
proof -
  let ?c = "ClDeleteServer ''t1'' ''..''"
  obtain r where r: "cloudRequest ex_lib ''https://cloud'' ?c = Inr r"
    by (simp add: cloudNewDeleteServerRequest_def newRequest_def ex_lib_def)
  have url: "lib_parseURL ex_lib ''https://cloud'' = Inr \<lparr>su_Origin = ''https://cloud'', su_Path = ''/''\<rparr>"
    by (simp add: ex_lib_def)
  have "PathEscape ''t1'' = ''t1''" by code_simp
  with cloud_dots_address_tenant [OF ex_lib_styles url _ _ _ r, of "''t1''"] r show ?thesis
    by (simp add: dotted_def)
qed

end
