(* ===== verification/SDK_Transport.thy ===== *)
theory SDK_Transport
  imports Http_Client
begin

text \<open>
  The generated client of the control plane (\<^verbatim>\<open>sdk/controlplane/gen/client.go\<close>): the request builder and the response
  parser of each of its 25 operations, and the environment of the hand-written client (theory \<open>SDK_Client\<close>) that
  they make of an HTTP transport. Models the hand-written client does not use (API keys, the auth configuration) stay
  JSON values.
\<close>

section \<open>Models\<close>

text \<open>The JSON of the bodies sent, and the models decoded that theory \<open>SDK_Wire\<close> does not have.\<close>

definition genFleetJSON :: "GenFleet \<Rightarrow> json" where
  "genFleetJSON f =
     JObj (ptr_field ''apiVersion'' JStr (gf_ApiVersion f) @ ptr_field ''kind'' JStr (gf_Kind f) @
       ptr_field ''metadata'' genMetaJSON (gf_Metadata f) @
       ptr_field ''spec'' (\<lambda>s. JObj (ptr_field ''profile'' JStr (gfs_Profile s) @
         ptr_field ''replicas'' JNum (gfs_Replicas s))) (gf_Spec f))"

definition fleetPatchJSON :: "int \<Rightarrow> json" where
  "fleetPatchJSON replicas = JObj [(''spec'', JObj [(''replicas'', JNum replicas)])]"

definition lifecyclePatchJSON :: "GenLifecycle \<Rightarrow> json" where
  "lifecyclePatchJSON l = JObj [(''spec'', JObj [(''lifecycle'', genLifecycleJSON l)])]"

definition genActionParam :: "json \<Rightarrow> GenActionParam" where
  "genActionParam j =
     \<lparr>gap_Type = str_at ''type'' j, gap_Required = bool_at ''required'' j, gap_Default = str_at ''default'' j\<rparr>"

definition genAction :: "json \<Rightarrow> GenAction" where
  "genAction j =
     \<lparr>ga_Name = str_at ''name'' j, ga_Description = str_at ''description'' j, ga_Concurrency = str_at ''concurrency'' j,
      ga_Timeout = str_at ''timeout'' j,
      ga_Params = (case at ''params'' j of
          Some (JObj fs) \<Rightarrow> Some (map (\<lambda>(k, v). (k, genActionParam v)) fs) | _ \<Rightarrow> None)\<rparr>"

definition genProfile :: "json \<Rightarrow> GenProfile" where
  "genProfile j =
     \<lparr>gpr_Metadata = map_option genMeta (at ''metadata'' j),
      gpr_Spec = map_option (\<lambda>s. \<lparr>gps_DisplayName = str_at ''displayName'' s, gps_Image = str_at ''image'' s,
        gps_Actions = map_option (map genAction) (list_at ''actions'' s)\<rparr>) (at ''spec'' j)\<rparr>"

definition genExecutionRef :: "json \<Rightarrow> string" where
  "genExecutionRef j = str_or (str_at ''name'' j)"

definition genSFTPInfo :: "json \<Rightarrow> GenSFTPInfo" where
  "genSFTPInfo j =
     \<lparr>gsf_Host = str_or (str_at ''host'' j), gsf_Port = (case num_at ''port'' j of None \<Rightarrow> 0 | Some n \<Rightarrow> n),
      gsf_Username = str_or (str_at ''username'' j), gsf_Password = str_or (str_at ''password'' j)\<rparr>"


section \<open>Requests\<close>

definition NewListAPIKeysRequest :: "client_lib \<Rightarrow> string \<Rightarrow> kerr + out_request" where
  "NewListAPIKeysRequest C server =
     newRequest C server ''GET'' ''/api/v1/apikeys''
       [] None"

definition NewCreateAPIKeyRequestWithBody ::
    "client_lib \<Rightarrow> string \<Rightarrow> string \<Rightarrow> string \<Rightarrow> kerr + out_request" where
  "NewCreateAPIKeyRequestWithBody C server contentType body =
     newRequest C server ''POST'' ''/api/v1/apikeys''
       [] (Some (contentType, body))"

definition NewCreateAPIKeyRequest :: "client_lib \<Rightarrow> string \<Rightarrow> json \<Rightarrow> kerr + out_request" where
  "NewCreateAPIKeyRequest C server body =
     withJSON C body (NewCreateAPIKeyRequestWithBody C server)"

definition NewDeleteAPIKeyRequest :: "client_lib \<Rightarrow> string \<Rightarrow> string \<Rightarrow> kerr + out_request" where
  "NewDeleteAPIKeyRequest C server keyId =
     newRequest C server ''DELETE'' ''/api/v1/apikeys/%s''
       [(''keyId'', keyId)] None"

definition NewListGameServerFleetsRequest :: "client_lib \<Rightarrow> string \<Rightarrow> kerr + out_request" where
  "NewListGameServerFleetsRequest C server =
     newRequest C server ''GET'' ''/api/v1/gameserverfleets''
       [] None"

definition NewCreateGameServerFleetRequestWithBody ::
    "client_lib \<Rightarrow> string \<Rightarrow> string \<Rightarrow> string \<Rightarrow> string \<Rightarrow> kerr + out_request" where
  "NewCreateGameServerFleetRequestWithBody C server namespace contentType body =
     newRequest C server ''POST'' ''/api/v1/gameserverfleets/%s''
       [(''namespace'', namespace)] (Some (contentType, body))"

definition NewCreateGameServerFleetRequest :: "client_lib \<Rightarrow> string \<Rightarrow> string \<Rightarrow> GenFleet \<Rightarrow> kerr + out_request" where
  "NewCreateGameServerFleetRequest C server namespace body =
     withJSON C (genFleetJSON body) (NewCreateGameServerFleetRequestWithBody C server namespace)"

definition NewDeleteGameServerFleetRequest :: "client_lib \<Rightarrow> string \<Rightarrow> string \<Rightarrow> string \<Rightarrow> kerr + out_request" where
  "NewDeleteGameServerFleetRequest C server namespace name =
     newRequest C server ''DELETE'' ''/api/v1/gameserverfleets/%s/%s''
       [(''namespace'', namespace), (''name'', name)] None"

definition NewGetGameServerFleetRequest :: "client_lib \<Rightarrow> string \<Rightarrow> string \<Rightarrow> string \<Rightarrow> kerr + out_request" where
  "NewGetGameServerFleetRequest C server namespace name =
     newRequest C server ''GET'' ''/api/v1/gameserverfleets/%s/%s''
       [(''namespace'', namespace), (''name'', name)] None"

definition NewUpdateGameServerFleetRequestWithBody ::
    "client_lib \<Rightarrow> string \<Rightarrow> string \<Rightarrow> string \<Rightarrow> string \<Rightarrow> string \<Rightarrow> kerr + out_request" where
  "NewUpdateGameServerFleetRequestWithBody C server namespace name contentType body =
     newRequest C server ''PATCH'' ''/api/v1/gameserverfleets/%s/%s''
       [(''namespace'', namespace), (''name'', name)] (Some (contentType, body))"

definition NewUpdateGameServerFleetRequest :: "client_lib \<Rightarrow> string \<Rightarrow> string \<Rightarrow> string \<Rightarrow> int \<Rightarrow> kerr + out_request" where
  "NewUpdateGameServerFleetRequest C server namespace name body =
     withJSON C (fleetPatchJSON body) (NewUpdateGameServerFleetRequestWithBody C server namespace name)"

definition NewListGameServersRequest :: "client_lib \<Rightarrow> string \<Rightarrow> kerr + out_request" where
  "NewListGameServersRequest C server =
     newRequest C server ''GET'' ''/api/v1/gameservers''
       [] None"

definition NewCreateGameServerRequestWithBody ::
    "client_lib \<Rightarrow> string \<Rightarrow> string \<Rightarrow> string \<Rightarrow> string \<Rightarrow> kerr + out_request" where
  "NewCreateGameServerRequestWithBody C server namespace contentType body =
     newRequest C server ''POST'' ''/api/v1/gameservers/%s''
       [(''namespace'', namespace)] (Some (contentType, body))"

definition NewCreateGameServerRequest :: "client_lib \<Rightarrow> string \<Rightarrow> string \<Rightarrow> GenServer \<Rightarrow> kerr + out_request" where
  "NewCreateGameServerRequest C server namespace body =
     withJSON C (genServerJSON body) (NewCreateGameServerRequestWithBody C server namespace)"

definition NewDeleteGameServerRequest :: "client_lib \<Rightarrow> string \<Rightarrow> string \<Rightarrow> string \<Rightarrow> kerr + out_request" where
  "NewDeleteGameServerRequest C server namespace name =
     newRequest C server ''DELETE'' ''/api/v1/gameservers/%s/%s''
       [(''namespace'', namespace), (''name'', name)] None"

definition NewGetGameServerRequest :: "client_lib \<Rightarrow> string \<Rightarrow> string \<Rightarrow> string \<Rightarrow> kerr + out_request" where
  "NewGetGameServerRequest C server namespace name =
     newRequest C server ''GET'' ''/api/v1/gameservers/%s/%s''
       [(''namespace'', namespace), (''name'', name)] None"

definition NewUpdateGameServerLifecycleRequestWithBody ::
    "client_lib \<Rightarrow> string \<Rightarrow> string \<Rightarrow> string \<Rightarrow> string \<Rightarrow> string \<Rightarrow> kerr + out_request" where
  "NewUpdateGameServerLifecycleRequestWithBody C server namespace name contentType body =
     newRequest C server ''PATCH'' ''/api/v1/gameservers/%s/%s''
       [(''namespace'', namespace), (''name'', name)] (Some (contentType, body))"

definition NewUpdateGameServerLifecycleRequest :: "client_lib \<Rightarrow> string \<Rightarrow> string \<Rightarrow> string \<Rightarrow> GenLifecycle \<Rightarrow> kerr + out_request" where
  "NewUpdateGameServerLifecycleRequest C server namespace name body =
     withJSON C (lifecyclePatchJSON body) (NewUpdateGameServerLifecycleRequestWithBody C server namespace name)"

definition NewListActionsRequest :: "client_lib \<Rightarrow> string \<Rightarrow> string \<Rightarrow> string \<Rightarrow> kerr + out_request" where
  "NewListActionsRequest C server namespace name =
     newRequest C server ''GET'' ''/api/v1/gameservers/%s/%s/actions''
       [(''namespace'', namespace), (''name'', name)] None"

definition NewExecuteActionRequestWithBody ::
    "client_lib \<Rightarrow> string \<Rightarrow> string \<Rightarrow> string \<Rightarrow> string \<Rightarrow> string \<Rightarrow> string \<Rightarrow> kerr + out_request" where
  "NewExecuteActionRequestWithBody C server namespace name action contentType body =
     newRequest C server ''POST'' ''/api/v1/gameservers/%s/%s/actions/%s''
       [(''namespace'', namespace), (''name'', name), (''action'', action)] (Some (contentType, body))"

definition NewExecuteActionRequest :: "client_lib \<Rightarrow> string \<Rightarrow> string \<Rightarrow> string \<Rightarrow> string \<Rightarrow> labels \<Rightarrow> kerr + out_request" where
  "NewExecuteActionRequest C server namespace name action body =
     withJSON C (map_json body) (NewExecuteActionRequestWithBody C server namespace name action)"

definition NewGetConsoleRequest :: "client_lib \<Rightarrow> string \<Rightarrow> string \<Rightarrow> string \<Rightarrow> kerr + out_request" where
  "NewGetConsoleRequest C server namespace name =
     newRequest C server ''GET'' ''/api/v1/gameservers/%s/%s/console''
       [(''namespace'', namespace), (''name'', name)] None"

definition NewGetActionExecutionRequest :: "client_lib \<Rightarrow> string \<Rightarrow> string \<Rightarrow> string \<Rightarrow> string \<Rightarrow> kerr + out_request" where
  "NewGetActionExecutionRequest C server namespace name executionId =
     newRequest C server ''GET'' ''/api/v1/gameservers/%s/%s/executions/%s''
       [(''namespace'', namespace), (''name'', name), (''executionId'', executionId)] None"

definition NewGetSFTPInfoRequest :: "client_lib \<Rightarrow> string \<Rightarrow> string \<Rightarrow> string \<Rightarrow> kerr + out_request" where
  "NewGetSFTPInfoRequest C server namespace name =
     newRequest C server ''GET'' ''/api/v1/gameservers/%s/%s/sftp''
       [(''namespace'', namespace), (''name'', name)] None"

definition NewListSnapshotsRequest :: "client_lib \<Rightarrow> string \<Rightarrow> string \<Rightarrow> string \<Rightarrow> kerr + out_request" where
  "NewListSnapshotsRequest C server namespace name =
     newRequest C server ''GET'' ''/api/v1/gameservers/%s/%s/snapshots''
       [(''namespace'', namespace), (''name'', name)] None"

definition NewCreateSnapshotRequest :: "client_lib \<Rightarrow> string \<Rightarrow> string \<Rightarrow> string \<Rightarrow> kerr + out_request" where
  "NewCreateSnapshotRequest C server namespace name =
     newRequest C server ''POST'' ''/api/v1/gameservers/%s/%s/snapshots''
       [(''namespace'', namespace), (''name'', name)] None"

definition NewListProfilesRequest :: "client_lib \<Rightarrow> string \<Rightarrow> kerr + out_request" where
  "NewListProfilesRequest C server =
     newRequest C server ''GET'' ''/api/v1/profiles''
       [] None"

definition NewGetProfileRequest :: "client_lib \<Rightarrow> string \<Rightarrow> string \<Rightarrow> kerr + out_request" where
  "NewGetProfileRequest C server name =
     newRequest C server ''GET'' ''/api/v1/profiles/%s''
       [(''name'', name)] None"

definition NewGetAuthConfigRequest :: "client_lib \<Rightarrow> string \<Rightarrow> kerr + out_request" where
  "NewGetAuthConfigRequest C server =
     newRequest C server ''GET'' ''/auth/config''
       [] None"

definition NewGetHealthzRequest :: "client_lib \<Rightarrow> string \<Rightarrow> kerr + out_request" where
  "NewGetHealthzRequest C server =
     newRequest C server ''GET'' ''/healthz''
       [] None"

definition NewGetReadyzRequest :: "client_lib \<Rightarrow> string \<Rightarrow> kerr + out_request" where
  "NewGetReadyzRequest C server =
     newRequest C server ''GET'' ''/readyz''
       [] None"


section \<open>Responses\<close>

definition ParseListAPIKeysResponse :: "client_lib \<Rightarrow> raw_response \<Rightarrow> kerr + (json list) parsed" where
  "ParseListAPIKeysResponse C =
     parseResponse [(200, payloads C id), (401, errorBody C), (403, errorBody C)]"

definition ParseCreateAPIKeyResponse :: "client_lib \<Rightarrow> raw_response \<Rightarrow> kerr + json parsed" where
  "ParseCreateAPIKeyResponse C =
     parseResponse [(201, payload C id), (400, errorBody C), (401, errorBody C), (403, errorBody C)]"

definition ParseDeleteAPIKeyResponse :: "client_lib \<Rightarrow> raw_response \<Rightarrow> kerr + unit parsed" where
  "ParseDeleteAPIKeyResponse C =
     parseResponse [(401, errorBody C), (403, errorBody C), (404, errorBody C)]"

definition ParseListGameServerFleetsResponse :: "client_lib \<Rightarrow> raw_response \<Rightarrow> kerr + (GenFleet list) parsed" where
  "ParseListGameServerFleetsResponse C =
     parseResponse [(200, payloads C genFleet), (401, errorBody C)]"

definition ParseCreateGameServerFleetResponse :: "client_lib \<Rightarrow> raw_response \<Rightarrow> kerr + GenFleet parsed" where
  "ParseCreateGameServerFleetResponse C =
     parseResponse [(201, payload C genFleet), (400, errorBody C), (401, errorBody C), (403, errorBody C)]"

definition ParseDeleteGameServerFleetResponse :: "client_lib \<Rightarrow> raw_response \<Rightarrow> kerr + unit parsed" where
  "ParseDeleteGameServerFleetResponse C =
     parseResponse [(401, errorBody C), (403, errorBody C), (404, errorBody C)]"

definition ParseGetGameServerFleetResponse :: "client_lib \<Rightarrow> raw_response \<Rightarrow> kerr + GenFleet parsed" where
  "ParseGetGameServerFleetResponse C =
     parseResponse [(200, payload C genFleet), (404, errorBody C)]"

definition ParseUpdateGameServerFleetResponse :: "client_lib \<Rightarrow> raw_response \<Rightarrow> kerr + GenFleet parsed" where
  "ParseUpdateGameServerFleetResponse C =
     parseResponse [(200, payload C genFleet), (400, errorBody C), (401, errorBody C), (403, errorBody C), (404, errorBody C)]"

definition ParseListGameServersResponse :: "client_lib \<Rightarrow> raw_response \<Rightarrow> kerr + (GenServer list) parsed" where
  "ParseListGameServersResponse C =
     parseResponse [(200, payloads C genServer), (401, errorBody C)]"

definition ParseCreateGameServerResponse :: "client_lib \<Rightarrow> raw_response \<Rightarrow> kerr + GenServer parsed" where
  "ParseCreateGameServerResponse C =
     parseResponse [(201, payload C genServer), (400, errorBody C), (401, errorBody C), (403, errorBody C)]"

definition ParseDeleteGameServerResponse :: "client_lib \<Rightarrow> raw_response \<Rightarrow> kerr + unit parsed" where
  "ParseDeleteGameServerResponse C =
     parseResponse [(401, errorBody C), (403, errorBody C), (404, errorBody C)]"

definition ParseGetGameServerResponse :: "client_lib \<Rightarrow> raw_response \<Rightarrow> kerr + GenServer parsed" where
  "ParseGetGameServerResponse C =
     parseResponse [(200, payload C genServer), (404, errorBody C)]"

definition ParseUpdateGameServerLifecycleResponse :: "client_lib \<Rightarrow> raw_response \<Rightarrow> kerr + GenServer parsed" where
  "ParseUpdateGameServerLifecycleResponse C =
     parseResponse [(200, payload C genServer), (400, errorBody C), (401, errorBody C), (403, errorBody C), (404, errorBody C)]"

definition ParseListActionsResponse :: "client_lib \<Rightarrow> raw_response \<Rightarrow> kerr + (GenAction list) parsed" where
  "ParseListActionsResponse C =
     parseResponse [(200, payloads C genAction), (404, errorBody C)]"

definition ParseExecuteActionResponse :: "client_lib \<Rightarrow> raw_response \<Rightarrow> kerr + string parsed" where
  "ParseExecuteActionResponse C =
     parseResponse [(201, payload C genExecutionRef), (401, errorBody C), (403, errorBody C)]"

definition ParseGetConsoleResponse :: "client_lib \<Rightarrow> raw_response \<Rightarrow> kerr + unit parsed" where
  "ParseGetConsoleResponse C =
     parseResponse [(400, errorBody C), (401, errorBody C), (403, errorBody C), (404, errorBody C)]"

definition ParseGetActionExecutionResponse :: "client_lib \<Rightarrow> raw_response \<Rightarrow> kerr + GenExecution parsed" where
  "ParseGetActionExecutionResponse C =
     parseResponse [(200, payload C genExecution), (404, errorBody C)]"

definition ParseGetSFTPInfoResponse :: "client_lib \<Rightarrow> raw_response \<Rightarrow> kerr + GenSFTPInfo parsed" where
  "ParseGetSFTPInfoResponse C =
     parseResponse [(200, payload C genSFTPInfo), (401, errorBody C), (403, errorBody C), (404, errorBody C)]"

definition ParseListSnapshotsResponse :: "client_lib \<Rightarrow> raw_response \<Rightarrow> kerr + (GenSnapshot list) parsed" where
  "ParseListSnapshotsResponse C =
     parseResponse [(200, payloads C genSnapshot)]"

definition ParseCreateSnapshotResponse :: "client_lib \<Rightarrow> raw_response \<Rightarrow> kerr + GenSnapshot parsed" where
  "ParseCreateSnapshotResponse C =
     parseResponse [(201, payload C genSnapshot), (401, errorBody C), (403, errorBody C)]"

definition ParseListProfilesResponse :: "client_lib \<Rightarrow> raw_response \<Rightarrow> kerr + (GenProfile list) parsed" where
  "ParseListProfilesResponse C =
     parseResponse [(200, payloads C genProfile), (401, errorBody C)]"

definition ParseGetProfileResponse :: "client_lib \<Rightarrow> raw_response \<Rightarrow> kerr + GenProfile parsed" where
  "ParseGetProfileResponse C =
     parseResponse [(200, payload C genProfile), (404, errorBody C)]"

definition ParseGetAuthConfigResponse :: "client_lib \<Rightarrow> raw_response \<Rightarrow> kerr + json parsed" where
  "ParseGetAuthConfigResponse C =
     parseResponse [(200, payload C id)]"

definition ParseGetHealthzResponse :: "client_lib \<Rightarrow> raw_response \<Rightarrow> kerr + unit parsed" where
  "ParseGetHealthzResponse C =
     parseResponse []"

definition ParseGetReadyzResponse :: "client_lib \<Rightarrow> raw_response \<Rightarrow> kerr + unit parsed" where
  "ParseGetReadyzResponse C =
     parseResponse []"


section \<open>The environment of the client\<close>

record sdk_transport =
  tr_lib :: client_lib
  tr_server :: string
  tr_headers :: labels
  tr_do :: "out_request list \<Rightarrow> out_request \<Rightarrow> kerr + raw_response"

fun sdkRequest :: "client_lib \<Rightarrow> string \<Rightarrow> sdk_call \<Rightarrow> kerr + out_request" where
  "sdkRequest C server SdkListServers = NewListGameServersRequest C server"
| "sdkRequest C server (SdkGetServer ns name) = NewGetGameServerRequest C server ns name"
| "sdkRequest C server (SdkCreateServer ns body) = NewCreateGameServerRequest C server ns body"
| "sdkRequest C server (SdkDeleteServer ns name) = NewDeleteGameServerRequest C server ns name"
| "sdkRequest C server (SdkGetSFTP ns name) = NewGetSFTPInfoRequest C server ns name"
| "sdkRequest C server (SdkPatchLifecycle ns name body) = NewUpdateGameServerLifecycleRequest C server ns name body"
| "sdkRequest C server (SdkListActions ns name) = NewListActionsRequest C server ns name"
| "sdkRequest C server (SdkExecuteAction ns name action params) = NewExecuteActionRequest C server ns name action params"
| "sdkRequest C server (SdkGetExecution ns name ident) = NewGetActionExecutionRequest C server ns name ident"
| "sdkRequest C server (SdkListSnapshots ns name) = NewListSnapshotsRequest C server ns name"
| "sdkRequest C server (SdkCreateSnapshot ns name) = NewCreateSnapshotRequest C server ns name"
| "sdkRequest C server SdkListProfiles = NewListProfilesRequest C server"
| "sdkRequest C server (SdkGetProfile name) = NewGetProfileRequest C server name"
| "sdkRequest C server SdkListFleets = NewListGameServerFleetsRequest C server"
| "sdkRequest C server (SdkGetFleet ns name) = NewGetGameServerFleetRequest C server ns name"
| "sdkRequest C server (SdkCreateFleet ns body) = NewCreateGameServerFleetRequest C server ns body"
| "sdkRequest C server (SdkPatchFleet ns name replicas) = NewUpdateGameServerFleetRequest C server ns name replicas"
| "sdkRequest C server (SdkDeleteFleet ns name) = NewDeleteGameServerFleetRequest C server ns name"

text \<open>
  One method of the generated client: build the request, apply the editors, send it and parse the answer. The requests
  sent before are those of the calls before that could be built.
\<close>

definition requestFor :: "sdk_transport \<Rightarrow> sdk_call \<Rightarrow> kerr + out_request" where
  "requestFor T c =
     map_sum id (applyEditors (tr_headers T)) (sdkRequest (tr_lib T) (genServerURL (tr_server T)) c)"

definition sentRequests :: "sdk_transport \<Rightarrow> sdk_call list \<Rightarrow> out_request list" where
  "sentRequests T h = List.map_filter (\<lambda>c. case requestFor T c of Inl _ \<Rightarrow> None | Inr r \<Rightarrow> Some r) h"

definition withResponse ::
    "sdk_transport \<Rightarrow> (client_lib \<Rightarrow> raw_response \<Rightarrow> kerr + 'j parsed) \<Rightarrow> sdk_call list \<Rightarrow> sdk_call \<Rightarrow> kerr + 'j response" where
  "withResponse T parse h c =
     (case requestFor T c of
        Inl err \<Rightarrow> Inl err
      | Inr r \<Rightarrow>
          (case tr_do T (sentRequests T h) r of
             Inl err \<Rightarrow> Inl err
           | Inr rsp \<Rightarrow> map_sum id seen (parse (tr_lib T) rsp)))"

definition serverParser :: "sdk_call \<Rightarrow> client_lib \<Rightarrow> raw_response \<Rightarrow> kerr + GenServer parsed" where
  "serverParser c =
     (case c of
        SdkCreateServer _ _ \<Rightarrow> ParseCreateGameServerResponse
      | SdkPatchLifecycle _ _ _ \<Rightarrow> ParseUpdateGameServerLifecycleResponse
      | _ \<Rightarrow> ParseGetGameServerResponse)"

definition fleetParser :: "sdk_call \<Rightarrow> client_lib \<Rightarrow> raw_response \<Rightarrow> kerr + GenFleet parsed" where
  "fleetParser c =
     (case c of
        SdkCreateFleet _ _ \<Rightarrow> ParseCreateGameServerFleetResponse
      | SdkPatchFleet _ _ _ \<Rightarrow> ParseUpdateGameServerFleetResponse
      | _ \<Rightarrow> ParseGetGameServerFleetResponse)"

definition emptyParser :: "sdk_call \<Rightarrow> client_lib \<Rightarrow> raw_response \<Rightarrow> kerr + unit parsed" where
  "emptyParser c =
     (case c of SdkDeleteFleet _ _ \<Rightarrow> ParseDeleteGameServerFleetResponse | _ \<Rightarrow> ParseDeleteGameServerResponse)"

text \<open>The field \<^verbatim>\<open>error\<close> that \<^verbatim>\<open>apiError\<close> looks for in a body.\<close>

definition errorField :: "client_lib \<Rightarrow> string \<Rightarrow> string option" where
  "errorField C body = (case lib_unmarshal C body of Inl _ \<Rightarrow> None | Inr j \<Rightarrow> str_at ''error'' j)"

definition generatedClient :: "sdk_transport \<Rightarrow> sdk_env" where
  "generatedClient T =
     \<lparr>sk_servers = withResponse T ParseListGameServersResponse,
      sk_server = (\<lambda>h c. withResponse T (serverParser c) h c),
      sk_sftp = withResponse T ParseGetSFTPInfoResponse,
      sk_actions = withResponse T ParseListActionsResponse,
      sk_ref = withResponse T ParseExecuteActionResponse,
      sk_execution = withResponse T ParseGetActionExecutionResponse,
      sk_snapshots = withResponse T ParseListSnapshotsResponse,
      sk_snapshot = withResponse T ParseCreateSnapshotResponse,
      sk_profiles = withResponse T ParseListProfilesResponse,
      sk_profile = withResponse T ParseGetProfileResponse,
      sk_fleets = withResponse T ParseListGameServerFleetsResponse,
      sk_fleet = (\<lambda>h c. withResponse T (fleetParser c) h c),
      sk_empty = (\<lambda>h c. withResponse T (emptyParser c) h c),
      sk_errorField = errorField (tr_lib T)\<rparr>"

end
