(* ===== verification/Transport_Properties.thy ===== *)
theory Transport_Properties
  imports SDK_Transport Api_Properties
begin

text \<open>
  The client and the control plane together: every request that the generated client builds carries exactly the
  parameters it was given, and the control plane routes it to the operation the client meant, with these parameters.
\<close>

section \<open>Calls, routes and parameters\<close>

text \<open>The route a call of the client is meant for, and the values of its path parameters.\<close>

fun routeOf :: "sdk_call \<Rightarrow> string \<times> string \<times> operation" where
  "routeOf SdkListServers = (''GET'', ''/api/v1/gameservers'', OpListGameServers)"
| "routeOf (SdkGetServer ns name) = (''GET'', ''/api/v1/gameservers/{namespace}/{name}'', OpGetGameServer)"
| "routeOf (SdkCreateServer ns body) = (''POST'', ''/api/v1/gameservers/{namespace}'', OpCreateGameServer)"
| "routeOf (SdkDeleteServer ns name) = (''DELETE'', ''/api/v1/gameservers/{namespace}/{name}'', OpDeleteGameServer)"
| "routeOf (SdkGetSFTP ns name) = (''GET'', ''/api/v1/gameservers/{namespace}/{name}/sftp'', OpGetSFTPInfo)"
| "routeOf (SdkPatchLifecycle ns name body) =
     (''PATCH'', ''/api/v1/gameservers/{namespace}/{name}'', OpUpdateGameServerLifecycle)"
| "routeOf (SdkListActions ns name) = (''GET'', ''/api/v1/gameservers/{namespace}/{name}/actions'', OpListActions)"
| "routeOf (SdkExecuteAction ns name action params) =
     (''POST'', ''/api/v1/gameservers/{namespace}/{name}/actions/{action}'', OpExecuteAction)"
| "routeOf (SdkGetExecution ns name ident) =
     (''GET'', ''/api/v1/gameservers/{namespace}/{name}/executions/{executionId}'', OpGetActionExecution)"
| "routeOf (SdkListSnapshots ns name) = (''GET'', ''/api/v1/gameservers/{namespace}/{name}/snapshots'', OpListSnapshots)"
| "routeOf (SdkCreateSnapshot ns name) = (''POST'', ''/api/v1/gameservers/{namespace}/{name}/snapshots'', OpCreateSnapshot)"
| "routeOf SdkListProfiles = (''GET'', ''/api/v1/profiles'', OpListProfiles)"
| "routeOf (SdkGetProfile name) = (''GET'', ''/api/v1/profiles/{name}'', OpGetProfile)"
| "routeOf SdkListFleets = (''GET'', ''/api/v1/gameserverfleets'', OpListGameServerFleets)"
| "routeOf (SdkGetFleet ns name) = (''GET'', ''/api/v1/gameserverfleets/{namespace}/{name}'', OpGetGameServerFleet)"
| "routeOf (SdkCreateFleet ns body) = (''POST'', ''/api/v1/gameserverfleets/{namespace}'', OpCreateGameServerFleet)"
| "routeOf (SdkPatchFleet ns name replicas) =
     (''PATCH'', ''/api/v1/gameserverfleets/{namespace}/{name}'', OpUpdateGameServerFleet)"
| "routeOf (SdkDeleteFleet ns name) = (''DELETE'', ''/api/v1/gameserverfleets/{namespace}/{name}'', OpDeleteGameServerFleet)"

fun paramValues :: "sdk_call \<Rightarrow> string list" where
  "paramValues SdkListServers = []"
| "paramValues (SdkGetServer ns name) = [ns, name]"
| "paramValues (SdkCreateServer ns body) = [ns]"
| "paramValues (SdkDeleteServer ns name) = [ns, name]"
| "paramValues (SdkGetSFTP ns name) = [ns, name]"
| "paramValues (SdkPatchLifecycle ns name body) = [ns, name]"
| "paramValues (SdkListActions ns name) = [ns, name]"
| "paramValues (SdkExecuteAction ns name action params) = [ns, name, action]"
| "paramValues (SdkGetExecution ns name ident) = [ns, name, ident]"
| "paramValues (SdkListSnapshots ns name) = [ns, name]"
| "paramValues (SdkCreateSnapshot ns name) = [ns, name]"
| "paramValues SdkListProfiles = []"
| "paramValues (SdkGetProfile name) = [name]"
| "paramValues SdkListFleets = []"
| "paramValues (SdkGetFleet ns name) = [ns, name]"
| "paramValues (SdkCreateFleet ns body) = [ns]"
| "paramValues (SdkPatchFleet ns name replicas) = [ns, name]"
| "paramValues (SdkDeleteFleet ns name) = [ns, name]"

definition operationOf :: "sdk_call \<Rightarrow> operation" where
  "operationOf c = snd (snd (routeOf c))"

definition paramsOf :: "sdk_call \<Rightarrow> labels" where
  "paramsOf c = zip (pathParams (operationOf c)) (paramValues c)"

text \<open>The elements of the route's pattern with the parameters of a call filled in.\<close>

definition segmentsOf :: "sdk_call \<Rightarrow> string list" where
  "segmentsOf c = map (fill (paramsOf c)) (route_segments (fst (snd (routeOf c))))"

lemma routeOf_mounted: "routeOf c \<in> set HandlerWithOptions"
  by (cases c) (simp_all add: HandlerWithOptions_def)

lemmas request_defs = NewListGameServersRequest_def NewGetGameServerRequest_def NewCreateGameServerRequest_def
  NewCreateGameServerRequestWithBody_def NewDeleteGameServerRequest_def NewGetSFTPInfoRequest_def
  NewUpdateGameServerLifecycleRequest_def NewUpdateGameServerLifecycleRequestWithBody_def NewListActionsRequest_def
  NewExecuteActionRequest_def NewExecuteActionRequestWithBody_def NewGetActionExecutionRequest_def
  NewListSnapshotsRequest_def NewCreateSnapshotRequest_def NewListProfilesRequest_def NewGetProfileRequest_def
  NewListGameServerFleetsRequest_def NewGetGameServerFleetRequest_def NewCreateGameServerFleetRequest_def
  NewCreateGameServerFleetRequestWithBody_def NewUpdateGameServerFleetRequest_def
  NewUpdateGameServerFleetRequestWithBody_def NewDeleteGameServerFleetRequest_def NewListAPIKeysRequest_def
  NewCreateAPIKeyRequest_def NewCreateAPIKeyRequestWithBody_def NewDeleteAPIKeyRequest_def NewGetConsoleRequest_def
  NewGetAuthConfigRequest_def NewGetHealthzRequest_def NewGetReadyzRequest_def

lemma segmentsOf_simps:
  "segmentsOf SdkListServers = [''api'', ''v1'', ''gameservers'']"
  "segmentsOf (SdkGetServer ns name) = [''api'', ''v1'', ''gameservers'', ns, name]"
  "segmentsOf (SdkCreateServer ns server) = [''api'', ''v1'', ''gameservers'', ns]"
  "segmentsOf (SdkDeleteServer ns name) = [''api'', ''v1'', ''gameservers'', ns, name]"
  "segmentsOf (SdkGetSFTP ns name) = [''api'', ''v1'', ''gameservers'', ns, name, ''sftp'']"
  "segmentsOf (SdkPatchLifecycle ns name patch) = [''api'', ''v1'', ''gameservers'', ns, name]"
  "segmentsOf (SdkListActions ns name) = [''api'', ''v1'', ''gameservers'', ns, name, ''actions'']"
  "segmentsOf (SdkExecuteAction ns name action params) =
     [''api'', ''v1'', ''gameservers'', ns, name, ''actions'', action]"
  "segmentsOf (SdkGetExecution ns name ident) = [''api'', ''v1'', ''gameservers'', ns, name, ''executions'', ident]"
  "segmentsOf (SdkListSnapshots ns name) = [''api'', ''v1'', ''gameservers'', ns, name, ''snapshots'']"
  "segmentsOf (SdkCreateSnapshot ns name) = [''api'', ''v1'', ''gameservers'', ns, name, ''snapshots'']"
  "segmentsOf SdkListProfiles = [''api'', ''v1'', ''profiles'']"
  "segmentsOf (SdkGetProfile name) = [''api'', ''v1'', ''profiles'', name]"
  "segmentsOf SdkListFleets = [''api'', ''v1'', ''gameserverfleets'']"
  "segmentsOf (SdkGetFleet ns name) = [''api'', ''v1'', ''gameserverfleets'', ns, name]"
  "segmentsOf (SdkCreateFleet ns fleet) = [''api'', ''v1'', ''gameserverfleets'', ns]"
  "segmentsOf (SdkPatchFleet ns name replicas) = [''api'', ''v1'', ''gameserverfleets'', ns, name]"
  "segmentsOf (SdkDeleteFleet ns name) = [''api'', ''v1'', ''gameserverfleets'', ns, name]"
  by (simp_all add: segmentsOf_def paramsOf_def operationOf_def fill_def templated_def HasPrefix_def HasSuffix_def
      map_str_def)

lemma escaped_literals:
  "PathEscape ''api'' = ''api''" "PathEscape ''v1'' = ''v1''" "PathEscape ''gameservers'' = ''gameservers''"
  "PathEscape ''gameserverfleets'' = ''gameserverfleets''" "PathEscape ''profiles'' = ''profiles''"
  "PathEscape ''sftp'' = ''sftp''" "PathEscape ''actions'' = ''actions''" "PathEscape ''executions'' = ''executions''"
  "PathEscape ''snapshots'' = ''snapshots''"
  by code_simp+

text \<open>Every builder makes the path of its route, with the parameters escaped, and leaves it to be resolved.\<close>

lemma sdkRequest_built:
  assumes "sdkRequest C server c = Inr r"
  shows "\<exists>form params body. newRequest C server (fst (routeOf c)) form params body = Inr r \<and>
    Sprintf_s form (map (\<lambda>(_, v). PathEscape v) params) =
      CHR ''/'' # join_char (CHR ''/'') (map PathEscape (segmentsOf c))"
  using assms
  by (cases c; hypsubst; simp only: sdkRequest.simps request_defs routeOf.simps fst_conv segmentsOf_simps)
    ((drule withJSON_built, erule exE, simp only: request_defs)?, intro exI conjI, assumption,
      simp add: escaped_literals)+

lemma sdkRequest_path:
  assumes "styles_by_escaping C" "lib_parseURL C server = Inr url" "sdkRequest C server c = Inr r"
  shows "or_Method r = fst (routeOf c) \<and>
    or_Path r = resolvePath (su_Path url) (''./'' @ join_char (CHR ''/'') (map PathEscape (segmentsOf c)))"
  using sdkRequest_built [OF assms(3)] newRequest_path [OF assms(1,2)] by blast

section \<open>What arrives\<close>

lemma segmentsOf_values:
  "s \<in> set (segmentsOf c) \<Longrightarrow> s \<in> set (paramValues c) \<or>
     s \<in> {''api'', ''v1'', ''gameservers'', ''gameserverfleets'', ''profiles'', ''sftp'', ''actions'', ''executions'', ''snapshots''}"
  by (cases c) (auto simp: segmentsOf_simps)

lemma segmentsOf_not_Nil: "segmentsOf c \<noteq> []"
  by (cases c; simp add: segmentsOf_simps)

lemma sdkRequest_split:
  assumes "styles_by_escaping C" "lib_parseURL C server = Inr url" "sdkRequest C server c = Inr r"
    and "su_Path url = dir_path bs" "\<forall>b\<in>set bs. \<not> dotted b \<and> (\<forall>c\<in>set b. unreserved c)"
    and "\<forall>v\<in>set (paramValues c). \<not> dotted v"
  shows "or_Method r = fst (routeOf c)" "or_Path r = join_char (CHR ''/'') ([] # bs @ map PathEscape (segmentsOf c))"
    "map PathUnescape (split_char (CHR ''/'') (or_Path r)) = map Some ([] # bs @ segmentsOf c)"
proof -
  have "\<forall>s\<in>set (segmentsOf c). \<not> dotted s" using segmentsOf_values assms(6) by (auto simp: dotted_def)
  note path = sdkRequest_path [OF assms(1-3)]
  show "or_Method r = fst (routeOf c)" using path by blast
  show "or_Path r = join_char (CHR ''/'') ([] # bs @ map PathEscape (segmentsOf c))"
    "map PathUnescape (split_char (CHR ''/'') (or_Path r)) = map Some ([] # bs @ segmentsOf c)"
    using request_split [OF conjunct2 [OF path, unfolded assms(4)] assms(5) \<open>\<forall>s\<in>set (segmentsOf c). \<not> dotted s\<close>
        segmentsOf_not_Nil] by blast+
qed

text \<open>
  All 25 operations of the generated client: the 18 that the hand-written client calls, and the API keys, the console,
  the auth configuration and the probes. A call has a route, the values of its path parameters and, where its operation
  takes one, the JSON of its body.
\<close>

datatype gen_call =
    GenCall sdk_call
  | GenListAPIKeys
  | GenCreateAPIKey json
  | GenDeleteAPIKey string
  | GenGetConsole string string
  | GenGetAuthConfig
  | GenGetHealthz
  | GenGetReadyz

fun genRequest :: "client_lib \<Rightarrow> string \<Rightarrow> gen_call \<Rightarrow> kerr + out_request" where
  "genRequest C server (GenCall c) = sdkRequest C server c"
| "genRequest C server GenListAPIKeys = NewListAPIKeysRequest C server"
| "genRequest C server (GenCreateAPIKey body) = NewCreateAPIKeyRequest C server body"
| "genRequest C server (GenDeleteAPIKey keyId) = NewDeleteAPIKeyRequest C server keyId"
| "genRequest C server (GenGetConsole ns name) = NewGetConsoleRequest C server ns name"
| "genRequest C server GenGetAuthConfig = NewGetAuthConfigRequest C server"
| "genRequest C server GenGetHealthz = NewGetHealthzRequest C server"
| "genRequest C server GenGetReadyz = NewGetReadyzRequest C server"

fun genRouteOf :: "gen_call \<Rightarrow> string \<times> string \<times> operation" where
  "genRouteOf (GenCall c) = routeOf c"
| "genRouteOf GenListAPIKeys = (''GET'', ''/api/v1/apikeys'', OpListAPIKeys)"
| "genRouteOf (GenCreateAPIKey body) = (''POST'', ''/api/v1/apikeys'', OpCreateAPIKey)"
| "genRouteOf (GenDeleteAPIKey keyId) = (''DELETE'', ''/api/v1/apikeys/{keyId}'', OpDeleteAPIKey)"
| "genRouteOf (GenGetConsole ns name) = (''GET'', ''/api/v1/gameservers/{namespace}/{name}/console'', OpGetConsole)"
| "genRouteOf GenGetAuthConfig = (''GET'', ''/auth/config'', OpGetAuthConfig)"
| "genRouteOf GenGetHealthz = (''GET'', ''/healthz'', OpGetHealthz)"
| "genRouteOf GenGetReadyz = (''GET'', ''/readyz'', OpGetReadyz)"

fun genParamValues :: "gen_call \<Rightarrow> string list" where
  "genParamValues (GenCall c) = paramValues c"
| "genParamValues (GenDeleteAPIKey keyId) = [keyId]"
| "genParamValues (GenGetConsole ns name) = [ns, name]"
| "genParamValues _ = []"

fun genBody :: "gen_call \<Rightarrow> json option" where
  "genBody (GenCall (SdkCreateServer ns body)) = Some (genServerJSON body)"
| "genBody (GenCall (SdkPatchLifecycle ns name body)) = Some (lifecyclePatchJSON body)"
| "genBody (GenCall (SdkExecuteAction ns name action params)) = Some (map_json params)"
| "genBody (GenCall (SdkCreateFleet ns body)) = Some (genFleetJSON body)"
| "genBody (GenCall (SdkPatchFleet ns name replicas)) = Some (fleetPatchJSON replicas)"
| "genBody (GenCreateAPIKey body) = Some body"
| "genBody _ = None"

definition genSegments :: "gen_call \<Rightarrow> string list" where
  "genSegments c = map (fill (zip (pathParams (snd (snd (genRouteOf c)))) (genParamValues c)))
     (route_segments (fst (snd (genRouteOf c))))"

lemma genSegments_simps:
  "genSegments (GenCall c) = segmentsOf c"
  "genSegments GenListAPIKeys = [''api'', ''v1'', ''apikeys'']"
  "genSegments (GenCreateAPIKey body) = [''api'', ''v1'', ''apikeys'']"
  "genSegments (GenDeleteAPIKey keyId) = [''api'', ''v1'', ''apikeys'', keyId]"
  "genSegments (GenGetConsole ns name) = [''api'', ''v1'', ''gameservers'', ns, name, ''console'']"
  "genSegments GenGetAuthConfig = [''auth'', ''config'']"
  "genSegments GenGetHealthz = [''healthz'']"
  "genSegments GenGetReadyz = [''readyz'']"
  by (simp_all add: genSegments_def segmentsOf_def paramsOf_def operationOf_def fill_def templated_def HasPrefix_def
      HasSuffix_def map_str_def)

lemma genRouteOf_mounted: "genRouteOf c \<in> set HandlerWithOptions"
  by (cases c) (simp_all only: genRouteOf.simps routeOf_mounted, simp_all add: HandlerWithOptions_def)

lemma genRequest_built:
  assumes "genRequest C server c = Inr r"
  shows "\<exists>form params body. newRequest C server (fst (genRouteOf c)) form params body = Inr r \<and>
    Sprintf_s form (map (\<lambda>(_, v). PathEscape v) params) =
      CHR ''/'' # join_char (CHR ''/'') (map PathEscape (genSegments c))"
proof -
  have "PathEscape ''apikeys'' = ''apikeys''" "PathEscape ''console'' = ''console''" "PathEscape ''auth'' = ''auth''"
    "PathEscape ''config'' = ''config''" "PathEscape ''healthz'' = ''healthz''" "PathEscape ''readyz'' = ''readyz''"
    by code_simp+
  note escaped = this escaped_literals
  show ?thesis
  proof (cases c)
    case (GenCall d)
    with assms sdkRequest_built [of C server d r] show ?thesis by (simp only: genRequest.simps genRouteOf.simps genSegments_simps)
  next
    case (GenCreateAPIKey body)
    with assms have "withJSON C body (NewCreateAPIKeyRequestWithBody C server) = Inr r"
      by (simp add: NewCreateAPIKeyRequest_def)
    then obtain buf where "NewCreateAPIKeyRequestWithBody C server ''application/json'' buf = Inr r"
      using withJSON_built [of C body "NewCreateAPIKeyRequestWithBody C server" r] by blast
    then show ?thesis
      unfolding GenCreateAPIKey NewCreateAPIKeyRequestWithBody_def genRouteOf.simps fst_conv genSegments_simps
      by (intro exI conjI, assumption) (simp add: escaped)
  qed (insert assms, (simp only: genRequest.simps request_defs genRouteOf.simps fst_conv genSegments_simps,
      intro exI conjI, assumption, simp add: escaped)+)
qed

lemma newRequest_content:
  "newRequest C server m form params body = Inr r \<Longrightarrow>
     or_Header r = (case body of None \<Rightarrow> [] | Some (contentType, _) \<Rightarrow> [(''Content-Type'', contentType)]) \<and>
     or_Body r = (case body of None \<Rightarrow> [] | Some (_, content) \<Rightarrow> content)"
  by (auto simp: newRequest_def Let_def split: sum.splits)

lemma withJSON_marshalled:
  "withJSON C j build = Inr r \<Longrightarrow> \<exists>buf. lib_marshal C j = Inr buf \<and> build ''application/json'' buf = Inr r"
  by (auto simp: withJSON_def split: sum.splits)

definition carries :: "client_lib \<Rightarrow> json option \<Rightarrow> out_request \<Rightarrow> bool" where
  "carries C body r \<longleftrightarrow>
     (case body of
        None \<Rightarrow> or_Header r = [] \<and> or_Body r = []
      | Some j \<Rightarrow> lib_marshal C j = Inr (or_Body r) \<and> or_Header r = [(''Content-Type'', ''application/json'')])"

lemma carries_none: "newRequest C server m form params None = Inr r \<Longrightarrow> carries C None r"
  by (auto simp: carries_def dest: newRequest_content)

lemma carries_json:
  assumes "withJSON C j build = Inr r" "\<And>ct buf. build ct buf = newRequest C server m form params (Some (ct, buf))"
  shows "carries C (Some j) r"
  using withJSON_marshalled [OF assms(1)] by (auto simp: carries_def assms(2) dest: newRequest_content)

lemma sdkRequest_carries:
  assumes "sdkRequest C server c = Inr r"
  shows "carries C (genBody (GenCall c)) r"
  using assms
  by (cases c; hypsubst; simp only: sdkRequest.simps genBody.simps request_defs)
    (erule carries_none | erule carries_json, simp only: request_defs)+

lemma genRequest_carries:
  assumes "genRequest C server c = Inr r"
  shows "carries C (genBody c) r"
  using assms sdkRequest_carries
  by (cases c; hypsubst; simp only: genRequest.simps genBody.simps request_defs)
    (blast | erule carries_none | erule carries_json, simp only: request_defs)+

lemma genSegments_literals:
  "s \<in> set (genSegments c) \<Longrightarrow> s \<in> set (genParamValues c) \<or> \<not> dotted s"
  by (cases c) (use segmentsOf_values in \<open>fastforce simp: genSegments_simps dotted_def\<close>)+

lemma genSegments_not_Nil: "genSegments c \<noteq> []"
  by (cases c) (simp_all add: genSegments_simps segmentsOf_not_Nil)

text \<open>
  C17. The requests of the generated client carry exactly what they were given. For each of its 25 operations and all
  values of the path parameters, whatever bytes they hold, except a lone dot or two dots, and for a base URL whose path
  consists of plain unreserved elements: the request built goes to the method and, below the path of the base URL, to
  the path of the operation's route; between the slashes, unescaping gives back the literal elements of the route and
  the parameters themselves, so that no parameter reaches into another element; and it carries the encoded JSON body
  with its content type where the operation takes a body, and nothing else where it does not.
\<close>

theorem sdk_requests_exact:
  assumes "styles_by_escaping C" "lib_parseURL C server = Inr url" "genRequest C server c = Inr r"
    and "su_Path url = dir_path bs" "\<forall>b\<in>set bs. \<not> dotted b \<and> (\<forall>c\<in>set b. unreserved c)"
    and "\<forall>v\<in>set (genParamValues c). \<not> dotted v"
  shows "genRouteOf c \<in> set HandlerWithOptions \<and> or_Method r = fst (genRouteOf c) \<and>
    map PathUnescape (split_char (CHR ''/'') (or_Path r)) = map Some ([] # bs @ genSegments c) \<and>
    carries C (genBody c) r"
proof -
  have path: "or_Method r = fst (genRouteOf c) \<and>
      or_Path r = resolvePath (dir_path bs) (''./'' @ join_char (CHR ''/'') (map PathEscape (genSegments c)))"
    using genRequest_built [OF assms(3)] newRequest_path [OF assms(1,2)] unfolding assms(4) by blast
  have "\<forall>s\<in>set (genSegments c). \<not> dotted s" using genSegments_literals assms(6) by blast
  from path request_split(3) [OF conjunct2 [OF path] assms(5) this genSegments_not_Nil]
    genRequest_carries [OF assms(3)] genRouteOf_mounted
  show ?thesis by blast
qed

lemma ex_get_request:
  "sdkRequest ex_lib server (SdkGetServer ns name) =
     Inr \<lparr>or_Method = ''GET'', or_Origin = server,
          or_Path = resolvePath ''/'' (''./api/v1/gameservers/'' @ PathEscape ns @ ''/'' @ PathEscape name),
          or_Header = [], or_Body = []\<rparr>"
  by (simp add: NewGetGameServerRequest_def newRequest_def ex_lib_def)

theorem sdk_requests_exact_witness:
  "\<exists>r. genRequest ex_lib ''http://cp'' (GenCall (SdkGetServer ''a/../b'' ''50%'')) = Inr r \<and>
     map PathUnescape (split_char (CHR ''/'') (or_Path r)) =
       map Some [[], ''api'', ''v1'', ''gameservers'', ''a/../b'', ''50%'']"
proof -
  let ?c = "GenCall (SdkGetServer ''a/../b'' ''50%'')"
  obtain r where r: "genRequest ex_lib ''http://cp'' ?c = Inr r" using ex_get_request by auto
  have "lib_parseURL ex_lib ''http://cp'' = Inr \<lparr>su_Origin = ''http://cp'', su_Path = ''/''\<rparr>" by (simp add: ex_lib_def)
  from sdk_requests_exact [OF ex_lib_styles this r, of "[]"] r show ?thesis
    by (simp add: dir_path_def dotted_def genSegments_simps segmentsOf_simps)
qed

section \<open>Where it is routed\<close>

text \<open>
  What the router must do besides \<open>routes_as_mounted\<close>: it finds a route for every instance of a mounted pattern, and a
  parameter without a percent sign binds.
\<close>

definition routes_complete :: "router_lib \<Rightarrow> bool" where
  "routes_complete X \<longleftrightarrow>
     (\<forall>m pattern op raw. (m, pattern, op) \<in> set HandlerWithOptions \<and>
        (\<forall>p\<in>set (pathParams op). map_str raw p \<noteq> [] \<and> CHR ''/'' \<notin> set (map_str raw p)) \<longrightarrow>
        (\<exists>found. rl_route X m (join_char (CHR ''/'') (map (fill raw) (split_char (CHR ''/'') pattern))) = Inr found)) \<and>
     (\<forall>v. v \<noteq> [] \<and> CHR ''%'' \<notin> set v \<longrightarrow> rl_bind X v = Inr v)"

text \<open>No two routes of one method match the same path.\<close>

lemma routes_unambiguous:
  "list_all (\<lambda>(m, pattern, op). list_all (\<lambda>(m', pattern', op').
     m = m' \<longrightarrow> pattern = pattern' \<and> op = op' \<or> clash (route_segments pattern) (route_segments pattern'))
     HandlerWithOptions) HandlerWithOptions"
  by code_simp

lemma params_in_pattern:
  "list_all (\<lambda>(m, pattern, op). list_all (\<lambda>p. (CHR ''{'' # p @ ''}'') \<in> set (route_segments pattern)) (pathParams op))
     HandlerWithOptions"
  by code_simp

lemma clash_fill: "clash ps qs \<Longrightarrow> map (fill raw) ps \<noteq> map (fill raw') qs"
  by (induction ps qs rule: clash.induct) (auto simp: fill_def)

lemma fill_param: "fill raw (CHR ''{'' # p @ ''}'') = map_str raw p"
  by (simp add: fill_def templated_def HasPrefix_def HasSuffix_def)

lemma mounted_once:
  assumes "(m, pattern, op) \<in> set HandlerWithOptions" "(m, pattern', op') \<in> set HandlerWithOptions"
    and "map (fill raw) (split_char (CHR ''/'') pattern) = map (fill raw') (split_char (CHR ''/'') pattern')"
  shows "op' = op \<and> (\<forall>p\<in>set (pathParams op). map_str raw' p = map_str raw p)"
proof -
  have segs: "map (fill raw) (route_segments pattern) = map (fill raw') (route_segments pattern')"
    using assms(3) by (metis map_tl)
  then have same: "pattern' = pattern \<and> op' = op"
    using bspec [OF bspec [OF routes_unambiguous [unfolded list_all_iff] assms(1), unfolded prod.case] assms(2),
        unfolded prod.case] clash_fill by blast
  have "map_str raw' p = map_str raw p" if "p \<in> set (pathParams op)" for p
  proof -
    have "CHR ''{'' # p @ ''}'' \<in> set (route_segments pattern)"
      using bspec [OF params_in_pattern [unfolded list_all_iff] assms(1), unfolded prod.case] that by blast
    with segs same show ?thesis by (metis fill_param map_eq_conv)
  qed
  with same show ?thesis by blast
qed

lemma bind_all:
  assumes "\<forall>p\<in>set params. rl_bind X (map_str raw p) = Inr (f p)"
  shows "bindPathParams X raw params = Inr (map (\<lambda>p. (p, f p)) params)"
  using assms by (induction params) auto

lemma fill_free:
  assumes "(m, pattern, op) \<in> set HandlerWithOptions" "\<forall>p\<in>set (pathParams op). CHR ''/'' \<notin> set (map_str raw p)"
    and "s \<in> set (split_char (CHR ''/'') pattern)"
  shows "CHR ''/'' \<notin> set (fill raw s)"
proof (cases "templated s")
  case True
  then have "s \<noteq> []" by (auto simp: templated_def HasPrefix_def)
  with mounted_segments(1) [OF assms(1)] assms(3) have "s \<in> set (route_segments pattern)"
    by (cases "split_char (CHR ''/'') pattern") auto
  with mounted_segments(3) [OF assms(1)] True have "butlast (tl s) \<in> set (pathParams op)" by auto
  with assms(2) True show ?thesis by (simp add: fill_def)
next
  case False
  with split_char_free [OF assms(3)] show ?thesis by (simp add: fill_def)
qed

lemma routedApi_bound:
  assumes "routes_as_mounted X" "routes_complete X" "(rq_Method r, pattern, op) \<in> set HandlerWithOptions"
    and "routePath r = join_char (CHR ''/'') (map (fill raw) (split_char (CHR ''/'') pattern))"
    and "\<forall>p\<in>set (pathParams op). map_str raw p \<noteq> [] \<and> CHR ''/'' \<notin> set (map_str raw p)"
    and "\<forall>p\<in>set (pathParams op). rl_bind X (map_str raw p) = Inr (f p)"
  shows "routedApi X L A E api B r = dispatch L A E api B op (map (\<lambda>p. (p, f p)) (pathParams op)) r"
proof -
  obtain op' raw' where route: "rl_route X (rq_Method r) (routePath r) = Inr (op', raw')"
    using assms(2-5) unfolding routes_complete_def by (metis surj_pair)
  then obtain pattern' where "(rq_Method r, pattern', op') \<in> set HandlerWithOptions"
    "split_char (CHR ''/'') (routePath r) = map (fill raw') (split_char (CHR ''/'') pattern')"
    using assms(1) unfolding routes_as_mounted_def by blast
  moreover have "split_char (CHR ''/'') (routePath r) = map (fill raw) (split_char (CHR ''/'') pattern)"
    unfolding assms(4) using fill_free [OF assms(3)] assms(5) by (intro split_join) auto
  ultimately have found: "op' = op" "\<forall>p\<in>set (pathParams op). map_str raw' p = map_str raw p"
    using mounted_once [OF assms(3)] by metis+
  with assms(6) have "bindPathParams X raw' (pathParams op) = Inr (map (\<lambda>p. (p, f p)) (pathParams op))"
    by (intro bind_all) auto
  with route found show ?thesis by (simp add: routedApi_def)
qed

text \<open>
  The request as the control plane sees it; of the connection only the address of the client is left. \<open>escapedPath\<close> is
  the default encoding of a path in \<^verbatim>\<open>net/url\<close>: a path that was sent in another encoding is kept as the raw path.
\<close>

definition escapedPath :: "string \<Rightarrow> string" where
  "escapedPath s = concat (map (\<lambda>c. if c \<in> set ''/;,'' then [c] else escape_char c) s)"

definition arriving :: "string \<Rightarrow> out_request \<Rightarrow> http_request" where
  "arriving addr r =
     (let path = (case PathUnescape (or_Path r) of None \<Rightarrow> [] | Some p \<Rightarrow> p)
      in \<lparr>rq_Method = or_Method r, rq_Path = path,
          rq_RawPath = (if escapedPath path = or_Path r then [] else or_Path r),
          rq_Header = or_Header r, rq_BasicAuth = None, rq_RemoteAddr = addr, rq_User = None\<rparr>)"

lemma escapedPath_plain: "\<forall>c\<in>set s. unreserved c \<or> c = CHR ''/'' \<Longrightarrow> escapedPath s = s"
  by (induction s) (auto simp: escapedPath_def escape_char_def shouldEscape_def)

text \<open>Names of Kubernetes objects are of this kind.\<close>

definition plain_name :: "string \<Rightarrow> bool" where
  "plain_name v \<longleftrightarrow> v \<noteq> [] \<and> \<not> dotted v \<and> (\<forall>c\<in>set v. unreserved c)"

lemma PathUnescape_plain: "CHR ''%'' \<notin> set s \<Longrightarrow> PathUnescape s = Some s"
  by (induction s) auto

lemma plain_name_chars:
  assumes "plain_name v"
  shows "PathEscape v = v \<and> CHR ''%'' \<notin> set v \<and> CHR ''/'' \<notin> set v"
proof -
  have "\<forall>c\<in>set v. unreserved c" using assms by (simp add: plain_name_def)
  moreover have "\<not> unreserved (CHR ''%'')" "\<not> unreserved (CHR ''/'')" by (simp_all add: unreserved_def)
  ultimately show ?thesis using PathEscape_plain by blast
qed

lemma plain_literals:
  "list_all plain_name [''api'', ''v1'', ''gameservers'', ''gameserverfleets'', ''profiles'', ''sftp'', ''actions'',
     ''executions'', ''snapshots'']"
  by code_simp

lemma paramsOf_keyed: "map (\<lambda>p. (p, map_str (paramsOf c) p)) (pathParams (operationOf c)) = paramsOf c"
  by (cases c) (simp_all add: paramsOf_def operationOf_def map_str_def)

lemma paramsOf_values: "p \<in> set (pathParams (operationOf c)) \<Longrightarrow> map_str (paramsOf c) p \<in> set (paramValues c)"
  by (cases c) (auto simp: paramsOf_def operationOf_def map_str_def)

lemma segmentsOf_fill:
  "map (fill (paramsOf c)) (split_char (CHR ''/'') (fst (snd (routeOf c)))) = [] # segmentsOf c"
proof -
  have "hd (split_char (CHR ''/'') (fst (snd (routeOf c)))) = []"
    using mounted_segments(1) routeOf_mounted by (metis prod.collapse)
  moreover have "fill (paramsOf c) [] = []" by (simp add: fill_def templated_def HasPrefix_def)
  ultimately show ?thesis
    by (cases "split_char (CHR ''/'') (fst (snd (routeOf c)))") (auto simp: segmentsOf_def)
qed

lemma arriving_path:
  assumes "styles_by_escaping C" "lib_parseURL C server = Inr url" "su_Path url = ''/''"
    and "sdkRequest C server c = Inr r" "\<forall>v\<in>set (paramValues c). plain_name v"
  shows "rq_Method (arriving addr r) = fst (routeOf c)"
    "rq_Path (arriving addr r) = join_char (CHR ''/'') ([] # segmentsOf c)"
    "rq_RawPath (arriving addr r) = []"
proof -
  have plain: "plain_name s" if "s \<in> set (segmentsOf c)" for s
    using segmentsOf_values [OF that] assms(5) plain_literals by auto
  have "map PathEscape (segmentsOf c) = segmentsOf c"
    using plain plain_name_chars by (simp add: map_idI)
  then have path: "or_Method r = fst (routeOf c)" "or_Path r = join_char (CHR ''/'') ([] # segmentsOf c)"
    using sdkRequest_split [OF assms(1,2,4), of "[]"] assms(3,5) by (auto simp: dir_path_def plain_name_def)
  have clean: "CHR ''%'' \<notin> set (or_Path r)"
    using set_join_char [of "CHR ''/''" "[] # segmentsOf c"] plain plain_name_chars unfolding path(2) by fastforce
  have "\<forall>c\<in>set (or_Path r). unreserved c \<or> c = CHR ''/''"
    using set_join_char [of "CHR ''/''" "[] # segmentsOf c"] plain unfolding path(2) plain_name_def by fastforce
  with clean path show "rq_Method (arriving addr r) = fst (routeOf c)"
    "rq_Path (arriving addr r) = join_char (CHR ''/'') ([] # segmentsOf c)"
    "rq_RawPath (arriving addr r) = []"
    by (simp_all add: arriving_def Let_def PathUnescape_plain escapedPath_plain del: join_char.simps)
qed

lemma routedApi_call:
  assumes "routes_as_mounted X" "routes_complete X"
    and "styles_by_escaping C" "lib_parseURL C server = Inr url" "su_Path url = ''/''"
    and "sdkRequest C server c = Inr r" "\<forall>v\<in>set (paramValues c). plain_name v"
    and "rq_Method req = rq_Method (arriving addr r)" "rq_Path req = rq_Path (arriving addr r)"
    and "rq_RawPath req = rq_RawPath (arriving addr r)"
  shows "routedApi X L A E api B req = dispatch L A E api B (operationOf c) (paramsOf c) req"
proof -
  have "routedApi X L A E api B req =
      dispatch L A E api B (operationOf c) (map (\<lambda>p. (p, map_str (paramsOf c) p)) (pathParams (operationOf c))) req"
  proof (rule routedApi_bound [OF assms(1,2)])
    show "(rq_Method req, fst (snd (routeOf c)), operationOf c) \<in> set HandlerWithOptions"
      using routeOf_mounted [of c] arriving_path(1) [OF assms(3-7)] assms(8) by (simp add: operationOf_def)
    show "routePath req = join_char (CHR ''/'') (map (fill (paramsOf c)) (split_char (CHR ''/'') (fst (snd (routeOf c)))))"
      unfolding segmentsOf_fill routePath_def assms(9,10)
      using arriving_path(2,3) [OF assms(3-7), of addr] by (simp only: if_False simp_thms)
    have "plain_name (map_str (paramsOf c) p)" if "p \<in> set (pathParams (operationOf c))" for p
      using assms(7) paramsOf_values [OF that] by blast
    then show "\<forall>p\<in>set (pathParams (operationOf c)). map_str (paramsOf c) p \<noteq> [] \<and>
        CHR ''/'' \<notin> set (map_str (paramsOf c) p)"
      "\<forall>p\<in>set (pathParams (operationOf c)). rl_bind X (map_str (paramsOf c) p) = Inr (map_str (paramsOf c) p)"
      using plain_name_chars plain_name_def assms(2) unfolding routes_complete_def by blast+
  qed
  then show ?thesis by (simp only: paramsOf_keyed)
qed

section \<open>What the client gets\<close>

text \<open>Who may make a call: the rule of its route, and the namespace among its parameters.\<close>

definition allowed :: "sdk_call \<Rightarrow> User \<Rightarrow> bool" where
  "allowed c user \<longleftrightarrow>
     (case routeOf c of (m, pattern, op) \<Rightarrow>
        (case find (\<lambda>ru. (rr_Method ru = ''*'' \<or> rr_Method ru = m) \<and> rr_Pattern ru = pattern) DefaultRules of
           None \<Rightarrow> True
         | Some ru \<Rightarrow> u_Role user \<in> set (rr_Roles ru) \<and> (rr_ClusterWide ru \<longrightarrow> u_Namespaces user = [])) \<and>
        (''namespace'' \<in> set (pathParams op) \<longrightarrow>
           u_Namespaces user = [] \<or> (\<exists>p\<in>set (u_Namespaces user). pattern_covers p (map_str (paramsOf c) ''namespace''))))"

lemma requestFor_built:
  assumes "requestFor T c = Inr r"
  obtains r' where "sdkRequest (tr_lib T) (genServerURL (tr_server T)) c = Inr r'"
    "or_Method r = or_Method r'" "or_Path r = or_Path r'" "\<And>addr. rq_Path (arriving addr r) = rq_Path (arriving addr r')"
    "\<And>addr. rq_Method (arriving addr r) = rq_Method (arriving addr r')"
    "\<And>addr. rq_RawPath (arriving addr r) = rq_RawPath (arriving addr r')"
  using assms by (auto simp: requestFor_def map_sum_def applyEditors_def arriving_def Let_def split: sum.splits)

lemma segmentsOf_plain:
  "\<forall>v\<in>set (paramValues c). plain_name v \<Longrightarrow> s \<in> set (segmentsOf c) \<Longrightarrow> plain_name s"
  using segmentsOf_values [of s c] plain_literals by auto

lemma no_namespace:
  "''namespace'' \<notin> set (pathParams (operationOf c)) \<Longrightarrow> pathSegments p = segmentsOf c \<Longrightarrow> NamespaceFromPath p = []"
  by (cases c) (simp_all add: operationOf_def NamespaceFromPath_def segmentsOf_simps Let_def)

lemma call_admitted:
  assumes "\<forall>v\<in>set (paramValues c). plain_name v" "rq_Method r = fst (routeOf c)"
    and "rq_Path r = join_char (CHR ''/'') ([] # segmentsOf c)" "GetUser r = Some user"
  shows "routeAdmits DefaultRules r \<and> namespaceAdmits r \<longleftrightarrow> allowed c user"
proof -
  let ?pattern = "fst (snd (routeOf c))"
  have "\<forall>s\<in>set ([] # segmentsOf c). CHR ''/'' \<notin> set s"
    using segmentsOf_plain [OF assms(1)] plain_name_chars by auto
  then have split: "split_char (CHR ''/'') (rq_Path r) = [] # segmentsOf c"
    unfolding assms(3) by (intro split_join) auto
  have params: "map_str (paramsOf c) p \<noteq> []" if "p \<in> set (pathParams (operationOf c))" for p
    using assms(1) paramsOf_values [OF that] by (auto simp: plain_name_def)
  then have routed: "routed r ?pattern (operationOf c) (paramsOf c)"
    using routeOf_mounted [of c] split assms(2) by (simp add: routed_def segmentsOf_fill operationOf_def)
  have "pathSegments (rq_Path r) = segmentsOf c"
    using split segmentsOf_not_Nil [of c] segmentsOf_plain [OF assms(1)]
    by (intro pathSegments_split) (auto simp: plain_name_def)
  then have "namespaceAdmits r \<longleftrightarrow> (''namespace'' \<in> set (pathParams (operationOf c)) \<longrightarrow>
      u_Namespaces user = [] \<or> (\<exists>p\<in>set (u_Namespaces user). pattern_covers p (map_str (paramsOf c) ''namespace'')))"
    using no_namespace [of c "rq_Path r"] routed_namespace [OF routed] params [of "''namespace''"] assms(4)
    by (cases "''namespace'' \<in> set (pathParams (operationOf c))") (simp_all add: namespaceAdmits_def AllowsNamespace_iff)
  moreover have "routeAdmits DefaultRules r \<longleftrightarrow>
      (case find (\<lambda>ru. (rr_Method ru = ''*'' \<or> rr_Method ru = fst (routeOf c)) \<and> rr_Pattern ru = ?pattern) DefaultRules of
         None \<Rightarrow> True
       | Some ru \<Rightarrow> u_Role user \<in> set (rr_Roles ru) \<and> (rr_ClusterWide ru \<longrightarrow> u_Namespaces user = []))"
    using routed_rule [OF routed] assms(2,4) by (simp add: routeAdmits_def ClusterWide_def split: option.splits)
  ultimately show ?thesis by (simp add: allowed_def operationOf_def case_prod_beta)
qed

lemma call_served:
  assumes "routes_as_mounted X" "routes_complete X"
    and "styles_by_escaping (tr_lib T)" "lib_parseURL (tr_lib T) (genServerURL (tr_server T)) = Inr url" "su_Path url = ''/''"
    and "\<forall>v\<in>set (paramValues c). plain_name v" "requestFor T c = Inr r"
    and "run_state (Authenticate chain (arriving addr r)) w = (Inr user, w')"
  shows "result (serve chain (HandlerFromMux X (controlPlaneServer L A E api B)) (arriving addr r)) w =
    (if allowed c user
     then result (dispatch L A E api B (operationOf c) (paramsOf c) (WithUser (arriving addr r) user)) w'
     else http_error 403 ''Forbidden'')"
proof -
  let ?r = "arriving addr r" and ?api = "HandlerFromMux X (controlPlaneServer L A E api B)"
  obtain r' where r': "sdkRequest (tr_lib T) (genServerURL (tr_server T)) c = Inr r'"
    "rq_Path ?r = rq_Path (arriving addr r')" "rq_Method ?r = rq_Method (arriving addr r')"
    "rq_RawPath ?r = rq_RawPath (arriving addr r')"
    using requestFor_built [OF assms(7)] by metis
  note arrived = arriving_path [OF assms(3-5) r'(1) assms(6), of addr, folded r'(2,3)]
  have "?api (WithUser ?r user) = dispatch L A E api B (operationOf c) (paramsOf c) (WithUser ?r user)"
    unfolding wrappers_follow_routes
    by (rule routedApi_call [OF assms(1-5) r'(1) assms(6)]) (simp_all add: r'(2,3,4) WithUser_def)
  moreover have "routeAdmits DefaultRules (WithUser ?r user) \<and> namespaceAdmits (WithUser ?r user) \<longleftrightarrow> allowed c user"
    using arrived by (intro call_admitted [OF assms(6)]) (simp_all add: WithUser_def GetUser_def del: join_char.simps)
  moreover have "\<not> publicPath (rq_Path ?r)"
    unfolding arrived(2) by (cases c) (simp_all add: publicPath_def segmentsOf_simps)
  ultimately show ?thesis
    using run_serve_admitted(1) [OF _ assms(8), of ?api] run_serve_refused [OF _ assms(8), of ?api]
    by (auto simp: result_def)
qed

text \<open>
  C6. What a client asks for is what the control plane does. For every call all of whose path parameters are plain
  names of the kind Kubernetes uses (not empty, no lone dots, made of unreserved characters, so without a slash or a
  percent sign), sent to a control plane at the root of its base URL: when the request that arrives is authenticated,
  the answer of the generated server behind the guards is that of the operation the call stands for, with exactly the
  parameters of the call, if the rule of its route and the namespaces of the user allow it, and 403 otherwise.
\<close>

theorem client_call_served:
  assumes "routes_as_mounted X" "routes_complete X"
    and "styles_by_escaping (tr_lib T)" "lib_parseURL (tr_lib T) (genServerURL (tr_server T)) = Inr url" "su_Path url = ''/''"
    and "\<forall>v\<in>set (paramValues c). plain_name v" "requestFor T c = Inr r"
    and "run_state (Authenticate chain (arriving addr r)) w = (Inr user, w')"
  shows "result (serve chain (HandlerFromMux X (controlPlaneServer L A E api B)) (arriving addr r)) w =
    (if allowed c user
     then result (dispatch L A E api B (operationOf c) (paramsOf c) (WithUser (arriving addr r) user)) w'
     else http_error 403 ''Forbidden'')"
  using assms by (rule call_served)

lemma bind_segments_instance: "\<exists>raw'. bind_segments ps (map (fill raw) ps) = Some raw'"
  by (induction ps) (auto simp: fill_def)

lemma ex_router_complete: "routes_complete ex_router"
  unfolding routes_complete_def
proof (intro conjI allI impI)
  fix m pattern op raw
  let ?segs = "map (fill raw) (split_char (CHR ''/'') pattern)"
  assume assm: "(m, pattern, op) \<in> set HandlerWithOptions \<and>
    (\<forall>p\<in>set (pathParams op). map_str raw p \<noteq> [] \<and> CHR ''/'' \<notin> set (map_str raw p))"
  then have "split_char (CHR ''/'') (join_char (CHR ''/'') ?segs) = ?segs"
    using fill_free by (intro split_join) auto
  moreover obtain raw' where "bind_segments (split_char (CHR ''/'') pattern) ?segs = Some raw'"
    using bind_segments_instance by blast
  ultimately have "(op, raw') \<in> set (List.map_filter (\<lambda>(m', pattern, op).
      if m' = m then map_option (\<lambda>raw. (op, raw)) (bind_segments (split_char (CHR ''/'') pattern)
        (split_char (CHR ''/'') (join_char (CHR ''/'') ?segs))) else None) HandlerWithOptions)"
    using assm by (force simp: List.map_filter_def image_iff)
  then show "\<exists>found. rl_route ex_router m (join_char (CHR ''/'') ?segs) = Inr found"
    by (auto simp: ex_router_def split: list.splits)
qed (simp add: ex_bound)

definition ex_transport :: "(out_request list \<Rightarrow> out_request \<Rightarrow> kerr + raw_response) \<Rightarrow> sdk_transport" where
  "ex_transport answer = \<lparr>tr_lib = ex_lib, tr_server = ''http://cp'', tr_headers = [], tr_do = answer\<rparr>"

lemma ex_transport_simps:
  "tr_lib (ex_transport answer) = ex_lib" "tr_do (ex_transport answer) = answer"
  "lib_parseURL ex_lib (genServerURL (tr_server (ex_transport answer))) =
     Inr \<lparr>su_Origin = ''http://cp/'', su_Path = ''/''\<rparr>"
  "\<exists>r. requestFor (ex_transport answer) (SdkGetServer ns name) = Inr r"
  by (simp_all add: ex_transport_def requestFor_def NewGetGameServerRequest_def newRequest_def ex_lib_def
      genServerURL_def HasSuffix_def HasPrefix_def)

lemma ex_plain_names: "plain_name ''tenant-a''" "plain_name ''smp''"
  by code_simp+

text \<open>A viewer of another tenant asks for a server.\<close>

theorem client_call_served_witness:
  "\<forall>answer addr L A E api B. \<exists>r. requestFor (ex_transport answer) (SdkGetServer ''tenant-a'' ''smp'') = Inr r \<and>
     result (serve [ex_provider (ex_user ''viewer'' [''tenant-b''])] (HandlerFromMux ex_router (controlPlaneServer L A E api B)) (arriving addr r))
       \<lparr>calls = []\<rparr> = http_error 403 ''Forbidden''"
proof (intro allI)
  fix answer addr L A E api B
  let ?T = "ex_transport answer" and ?c = "SdkGetServer ''tenant-a'' ''smp''" and ?user = "ex_user ''viewer'' [''tenant-b'']"
  obtain r where r: "requestFor ?T ?c = Inr r" using ex_transport_simps(4) by blast
  have "\<not> pattern_covers ''tenant-b'' ''tenant-a''"
    by (simp add: MatchNamespacePattern_iff [symmetric] MatchNamespacePattern_def HasSuffix_def HasPrefix_def)
  then have "\<not> allowed ?c ?user"
    by (simp add: allowed_def ex_user_def paramsOf_def operationOf_def map_str_def)
  with client_call_served [where url = "\<lparr>su_Origin = ''http://cp/'', su_Path = ''/''\<rparr>" and L = L and A = A and E = E and
      api = api and B = B, OF ex_router_ok ex_router_complete _ _ _ _ r ex_authenticate, of ?user addr "\<lparr>calls = []\<rparr>"] r
  show "\<exists>r. requestFor ?T ?c = Inr r \<and>
     result (serve [ex_provider ?user] (HandlerFromMux ex_router (controlPlaneServer L A E api B)) (arriving addr r)) \<lparr>calls = []\<rparr> =
       http_error 403 ''Forbidden''"
    by (auto simp: ex_transport_simps(1,3) ex_lib_styles ex_plain_names)
qed


section \<open>A slash inside an action\<close>

text \<open>
  The binding of a parameter as the runtime of oapi-codegen does it: a parameter of the path is unescaped.
\<close>

definition binds_unescaped :: "router_lib \<Rightarrow> bool" where
  "binds_unescaped X \<longleftrightarrow> (\<forall>v v'. v \<noteq> [] \<and> PathUnescape v = Some v' \<longrightarrow> rl_bind X v = Inr v')"

lemma unescape_append: "PathUnescape (PathEscape s @ t) = map_option ((@) s) (PathUnescape t)"
  by (induction s) (simp_all add: PathEscape_def unescape_escape_char option.map_comp comp_def option.map_ident)

lemma unescape_join:
  "PathUnescape (join_char (CHR ''/'') (map PathEscape segs)) = Some (join_char (CHR ''/'') segs)"
proof (induction segs rule: induct_list012)
  case (2 s)
  then show ?case by (simp add: unescape_escape)
next
  case (3 s t ts)
  then show ?case by (simp add: unescape_append)
qed simp

abbreviation slashed :: "string \<Rightarrow> string \<Rightarrow> string" where
  "slashed a b \<equiv> a @ CHR ''/'' # b"

lemma slashed_escaped:
  assumes "plain_name a" "plain_name b"
  shows "PathEscape (slashed a b) = a @ ''%2F'' @ b" "\<not> dotted (slashed a b)"
proof -
  have "PathEscape a = a" "PathEscape b = b" using assms plain_name_chars by auto
  moreover have "escape_char (CHR ''/'') = ''%2F''" by code_simp
  ultimately show "PathEscape (slashed a b) = a @ ''%2F'' @ b" by (simp add: PathEscape_def)
  show "\<not> dotted (slashed a b)" using assms by (auto simp: dotted_def plain_name_def Cons_eq_append_conv append_eq_Cons_conv)
qed

lemma arriving_slashed:
  assumes "styles_by_escaping C" "lib_parseURL C server = Inr url" "su_Path url = ''/''"
    and "plain_name ns" "plain_name name" "plain_name a" "plain_name b"
    and "sdkRequest C server (SdkExecuteAction ns name (slashed a b) params) = Inr r"
  shows "rq_Method (arriving addr r) = ''POST''"
    "rq_Path (arriving addr r) =
       join_char (CHR ''/'') [[], ''api'', ''v1'', ''gameservers'', ns, name, ''actions'', a, b]"
    "rq_RawPath (arriving addr r) =
       join_char (CHR ''/'') [[], ''api'', ''v1'', ''gameservers'', ns, name, ''actions'', a @ ''%2F'' @ b]"
proof -
  let ?c = "SdkExecuteAction ns name (slashed a b) params"
  let ?path = "join_char (CHR ''/'') [[], ''api'', ''v1'', ''gameservers'', ns, name, ''actions'', a, b]"
  let ?raw = "join_char (CHR ''/'') [[], ''api'', ''v1'', ''gameservers'', ns, name, ''actions'', a @ ''%2F'' @ b]"
  have plain: "plain_name x \<Longrightarrow> \<not> dotted x" for x by (simp add: plain_name_def)
  have escaped: "PathEscape ns = ns" "PathEscape name = name" using assms(4,5) plain_name_chars by auto
  have built: "or_Method r = fst (routeOf ?c)" "or_Path r = join_char (CHR ''/'') ([] # map PathEscape (segmentsOf ?c))"
    using sdkRequest_split(1,2) [OF assms(1,2,8), of "[]"] assms(3-7) plain slashed_escaped(2)
    by (auto simp: dir_path_def)
  then have raw: "or_Path r = ?raw"
    by (simp add: segmentsOf_simps escaped_literals escaped slashed_escaped(1) [OF assms(6,7)])
  have "PathUnescape (or_Path r) = Some (join_char (CHR ''/'') ([] # segmentsOf ?c))"
    using built(2) unescape_join [of "[] # segmentsOf ?c"] by (simp add: PathEscape_def)
  then have unescaped: "PathUnescape (or_Path r) = Some ?path" by (simp add: segmentsOf_simps)
  have "\<forall>c\<in>set ?path. unreserved c \<or> c = CHR ''/''"
    using assms(4-7) by (auto simp: plain_name_def unreserved_def)
  then have "escapedPath ?path = ?path" by (rule escapedPath_plain)
  moreover have "?path \<noteq> ?raw" using arg_cong [of ?path ?raw set] assms(4-7) plain_name_chars by auto
  ultimately show "rq_Method (arriving addr r) = ''POST''" "rq_Path (arriving addr r) = ?path"
    "rq_RawPath (arriving addr r) = ?raw"
    using built(1) raw unescaped by (simp_all add: arriving_def Let_def del: join_char.simps)
qed

lemma no_rule_of_eight:
  "list_all (\<lambda>ru. length (pathSegments (rr_Pattern ru)) \<noteq> 8) DefaultRules"
  by code_simp

lemma matchSegments_length: "matchSegments ps segs \<Longrightarrow> length ps = length segs"
  by (induction ps segs rule: matchSegments.induct) auto

lemma slashed_admitted:
  assumes "rq_Path r = join_char (CHR ''/'') [[], ''api'', ''v1'', ''gameservers'', ns, name, ''actions'', a, b]"
    and "\<forall>s\<in>{ns, name, a, b}. plain_name s" "GetUser r = Some user"
    and "u_Namespaces user = [] \<or> (\<exists>p\<in>set (u_Namespaces user). pattern_covers p ns)"
  shows "routeAdmits DefaultRules r" "namespaceAdmits r"
proof -
  let ?segs = "[''api'', ''v1'', ''gameservers'', ns, name, ''actions'', a, b]"
  have "\<forall>s\<in>set ([] # ?segs). CHR ''/'' \<notin> set s" using assms(2) plain_name_chars by auto
  then have "split_char (CHR ''/'') (rq_Path r) = [] # ?segs" unfolding assms(1) by (intro split_join) auto
  then have segs: "pathSegments (rq_Path r) = ?segs"
    using assms(2) by (intro pathSegments_split) (auto simp: plain_name_def)
  then have "\<forall>ru\<in>set DefaultRules. \<not> ruleApplies r ru"
    using no_rule_of_eight matchSegments_length unfolding list_all_iff ruleApplies_def MatchPath_def by fastforce
  then have "find (ruleApplies r) DefaultRules = None" by (simp add: find_None_iff)
  then show "routeAdmits DefaultRules r" using assms(3) by (simp add: routeAdmits_def)
  have "NamespaceFromPath (rq_Path r) = ns" by (simp add: NamespaceFromPath_def segs Let_def)
  then show "namespaceAdmits r" using assms(3,4) by (simp add: namespaceAdmits_def AllowsNamespace_iff)
qed


text \<open>A router that unescapes its parameters.\<close>

definition ex_unescaping_router :: router_lib where
  "ex_unescaping_router = ex_router\<lparr>rl_bind := \<lambda>v.
     if v = [] then Inl (new_error ''empty'')
     else (case PathUnescape v of None \<Rightarrow> Inl (new_error ''invalid URL escape'') | Some v' \<Rightarrow> Inr v')\<rparr>"

lemma ex_unescaping_router_ok:
  "routes_as_mounted ex_unescaping_router" "routes_complete ex_unescaping_router" "binds_unescaped ex_unescaping_router"
proof -
  let ?bind = "rl_bind ex_unescaping_router"
  have same: "rl_route ex_unescaping_router = rl_route ex_router" by (simp add: ex_unescaping_router_def)
  have bind: "?bind v = Inr v' \<longleftrightarrow> v \<noteq> [] \<and> PathUnescape v = Some v'" for v v'
    by (simp add: ex_unescaping_router_def split: option.splits)
  have "\<forall>v v'. ?bind v = Inr v' \<longrightarrow> v \<noteq> [] \<and> (CHR ''%'' \<notin> set v \<longrightarrow> v' = v)"
    "\<forall>v. v \<noteq> [] \<and> CHR ''%'' \<notin> set v \<longrightarrow> ?bind v = Inr v"
    by (auto simp: bind PathUnescape_plain)
  then show "routes_as_mounted ex_unescaping_router" "routes_complete ex_unescaping_router"
    using ex_router_ok ex_router_complete unfolding routes_as_mounted_def routes_complete_def same by blast+
  show "binds_unescaped ex_unescaping_router" by (simp add: binds_unescaped_def bind)
qed

lemma ex_action_request:
  "\<exists>r. requestFor (ex_transport answer) (SdkExecuteAction ns name action params) = Inr r"
  by (simp add: ex_transport_def requestFor_def NewExecuteActionRequest_def NewExecuteActionRequestWithBody_def
      withJSON_def newRequest_def ex_lib_def)


end
