(* ===== verification/End_To_End.thy ===== *)
theory End_To_End
  imports Transport_Properties SDK_Properties
begin

text \<open>
  The whole way of a call: the hand-written client over the generated one, over HTTP, through the middleware of the
  control plane to its handlers and back. A connection hands the request to the control plane in some world and brings
  back its answer as JSON or plain text.
\<close>

section \<open>The wire\<close>

definition newline :: string where "newline = [CHR 0x0A]"

text \<open>The bodies of the handlers as JSON; profiles, actions, keys and the auth configuration are an argument.\<close>

fun bodyJSON :: "(body \<Rightarrow> json) \<Rightarrow> body \<Rightarrow> json" where
  "bodyJSON other (ErrorJSON e) = JObj [(''error'', JStr e)]"
| "bodyJSON other (BodyServers ss) = JList (map serverJSON ss)"
| "bodyJSON other (BodyServer s) = serverJSON s"
| "bodyJSON other (BodyFleets fs) = JList (map fleetJSON fs)"
| "bodyJSON other (BodyFleet f) = fleetJSON f"
| "bodyJSON other (BodyExecution x) = executionJSON x"
| "bodyJSON other (BodyExecutionName n) = JObj [(''name'', JStr n)]"
| "bodyJSON other (BodySnapshots ss) = JList (map snapshotJSON ss)"
| "bodyJSON other (BodySnapshot s) = snapshotJSON s"
| "bodyJSON other (BodySFTP host port user pw) =
     JObj [(''host'', JStr host), (''port'', JNum port), (''username'', JStr user), (''password'', JStr pw)]"
| "bodyJSON other b = other b"

text \<open>
  \<^verbatim>\<open>json.Encoder\<close> and \<^verbatim>\<open>http.Error\<close> end a body with a newline; an encoder that fails leaves it empty.
\<close>

definition onWire :: "client_lib \<Rightarrow> (body \<Rightarrow> json) \<Rightarrow> http_response \<Rightarrow> raw_response" where
  "onWire C other resp =
     (case rs_Body resp of
        NoBody \<Rightarrow> \<lparr>raw_Status = rs_Status resp, raw_ContentType = [], raw_Body = Inr []\<rparr>
      | PlainText s \<Rightarrow>
          \<lparr>raw_Status = rs_Status resp, raw_ContentType = ''text/plain; charset=utf-8'',
           raw_Body = Inr (if rs_Status resp < 400 then s else s @ newline)\<rparr>
      | b \<Rightarrow>
          \<lparr>raw_Status = rs_Status resp, raw_ContentType = ''application/json'',
           raw_Body = Inr (case lib_marshal C (bodyJSON other b) of Inl _ \<Rightarrow> [] | Inr buf \<Rightarrow> buf @ newline)\<rparr>)"

text \<open>What is assumed of \<^verbatim>\<open>encoding/json\<close>: what was encoded is decoded, and the refusal of a guard is not JSON.\<close>

definition json_ok :: "client_lib \<Rightarrow> bool" where
  "json_ok C \<longleftrightarrow>
     (\<forall>j. \<exists>buf. lib_marshal C j = Inr buf \<and> lib_unmarshal C (buf @ newline) = Inr j) \<and>
     (\<exists>err. lib_unmarshal C (''Forbidden'' @ newline) = Inl err)"

definition connects ::
    "sdk_transport \<Rightarrow> (http_request \<Rightarrow> http_response) \<Rightarrow> string \<Rightarrow> (body \<Rightarrow> json) \<Rightarrow> bool" where
  "connects T respond addr other \<longleftrightarrow>
     (\<forall>h r. tr_do T h r = Inr (onWire (tr_lib T) other (respond (arriving addr r))))"


section \<open>What the client sees\<close>

lemma withResponse_connected:
  assumes "connects T respond addr other" "requestFor T c = Inr r"
  shows "withResponse T parse h c =
    map_sum id seen (parse (tr_lib T) (onWire (tr_lib T) other (respond (arriving addr r))))"
  using assms by (simp add: withResponse_def connects_def)

lemma contains_json: "str_contains ''application/json'' ''json''" "\<not> str_contains ''text/plain; charset=utf-8'' ''json''"
  by code_simp+

text \<open>Parsing a JSON body of a status that has a case, and a plain text one.\<close>

lemma parse_json_body:
  assumes "json_ok C" "\<not> (\<exists>s. b = PlainText s)" "b \<noteq> NoBody"
    and "find (\<lambda>(s, _). status = s) cases = Some (status, unmarshal)"
  obtains buf where "lib_unmarshal C (buf @ newline) = Inr (bodyJSON other b)"
    "parseResponse cases (onWire C other \<lparr>rs_Status = status, rs_Body = b\<rparr>) =
       map_sum id (\<lambda>dest. \<lparr>pa_Status = status, pa_Body = buf @ newline, pa_JSON = Some (status, dest)\<rparr>)
         (unmarshal (buf @ newline))"
proof -
  obtain buf where buf: "lib_marshal C (bodyJSON other b) = Inr buf"
    "lib_unmarshal C (buf @ newline) = Inr (bodyJSON other b)"
    using assms(1) unfolding json_ok_def by blast
  have wire: "onWire C other \<lparr>rs_Status = status, rs_Body = b\<rparr> =
      \<lparr>raw_Status = status, raw_ContentType = ''application/json'', raw_Body = Inr (buf @ newline)\<rparr>"
    using assms(2,3) buf(1) by (cases b) (simp_all add: onWire_def)
  have "find (\<lambda>(s, _). str_contains ''application/json'' ''json'' \<and> status = s) cases = Some (status, unmarshal)"
    using assms(4) contains_json(1) by (simp only: simp_thms)
  then show thesis
    using that [OF buf(2)] unfolding wire
    by (auto simp: parseResponse_def map_sum_def simp del: str_contains.simps split: sum.splits)
qed

text \<open>The two answers of the handler with a JSON body, as the client for a single server parses them.\<close>

lemma get_server_parsed:
  assumes "json_ok C"
  shows "\<exists>buf. lib_unmarshal C (buf @ newline) = Inr (JObj [(''error'', JStr e)]) \<and>
      ParseGetGameServerResponse C (onWire C other \<lparr>rs_Status = 404, rs_Body = ErrorJSON e\<rparr>) =
        Inr \<lparr>pa_Status = 404, pa_Body = buf @ newline, pa_JSON = Some (404, Inl e)\<rparr>" (is ?error)
    and "\<exists>buf. ParseGetGameServerResponse C (onWire C other \<lparr>rs_Status = 200, rs_Body = BodyServer server\<rparr>) =
        Inr \<lparr>pa_Status = 200, pa_Body = buf @ newline, pa_JSON = Some (200, Inr (genServer (serverJSON server)))\<rparr>"
      (is ?found)
proof -
  let ?cases = "[(200 :: int, payload C genServer), (404, errorBody C)]"
  have "find (\<lambda>(s, _). 404 = s) ?cases = Some (404, errorBody C)"
    "find (\<lambda>(s, _). 200 = s) ?cases = Some (200, payload C genServer)" by simp_all
  note parse = parse_json_body [OF assms _ _ this(1), of "ErrorJSON e" other]
    parse_json_body [OF assms _ _ this(2), of "BodyServer server" other]
  show ?error
    by (rule parse(1)) (auto simp: ParseGetGameServerResponse_def errorBody_def at_def str_or_def)
  show ?found
    by (rule parse(2)) (auto simp: ParseGetGameServerResponse_def payload_def)
qed

lemma parse_plain_error:
  assumes "status \<ge> 400"
  shows "parseResponse cases (onWire C other (http_error status msg)) =
    Inr \<lparr>pa_Status = status, pa_Body = msg @ newline, pa_JSON = None\<rparr>"
proof -
  have "find (\<lambda>(s, _). str_contains ''text/plain; charset=utf-8'' ''json'' \<and> status = s) cases = None"
    using contains_json(2) by (simp only: find_None_iff case_prod_beta) blast
  with assms show ?thesis
    by (simp add: onWire_def http_error_def parseResponse_def del: str_contains.simps)
qed

lemma show_codes: "show_int 403 = ''403''" "show_int 404 = ''404''"
  by code_simp+

lemma get_server_unguarded:
  "find (\<lambda>ru. (rr_Method ru = ''*'' \<or> rr_Method ru = ''GET'') \<and> rr_Pattern ru = ''/api/v1/gameservers/{namespace}/{name}'')
     DefaultRules = None"
  by code_simp

lemma allowed_get_server:
  "allowed (SdkGetServer ns name) user \<longleftrightarrow>
     u_Namespaces user = [] \<or> (\<exists>p\<in>set (u_Namespaces user). pattern_covers p ns)"
  by (simp add: allowed_def get_server_unguarded paramsOf_def operationOf_def map_str_def del: find.simps)

lemma sdkGetGameServer_connected:
  assumes "connects T respond addr other" "requestFor T (SdkGetServer ns name) = Inr r"
  shows "result (sdkGetGameServer (generatedClient T) ns name) v =
    (case ParseGetGameServerResponse (tr_lib T) (onWire (tr_lib T) other (respond (arriving addr r))) of
       Inl err \<Rightarrow> Returned (Inl err)
     | Inr p \<Rightarrow>
         if pa_Status p \<noteq> 200 then Returned (Inl (sdkApiError (errorField (tr_lib T)) (pa_Status p) (pa_Body p)))
         else Returned (Inr (fromGenGameServer (rsp_JSON (seen p)))))"
  by (simp add: sdkGetGameServer_def exchange_def result_def io_simps generatedClient_def serverParser_def
      withResponse_connected [OF assms] seen_def map_sum_def split: sum.splits)

text \<open>
  C5. What a client sees of a server is what the cluster stores. For a name and namespace of the kind Kubernetes uses,
  over a connection to the control plane: a client that is authenticated and whose namespaces cover the server's gets
  the stored server, as far as it survives the way through JSON and the generated model, or the error of the API
  server with status 404; any other authenticated client gets the error of status 403, and nothing of the server.
\<close>

theorem client_sees_stored_server:
  assumes "routes_as_mounted X" "routes_complete X"
    and "styles_by_escaping (tr_lib T)" "lib_parseURL (tr_lib T) (genServerURL (tr_server T)) = Inr url" "su_Path url = ''/''"
    and "json_ok (tr_lib T)" "plain_name ns" "plain_name name"
    and "connects T (\<lambda>req. result (serve chain (HandlerFromMux X (controlPlaneServer L A E api B)) req) w) addr other"
    and "requestFor T (SdkGetServer ns name) = Inr r"
    and "run_state (Authenticate chain (arriving addr r)) w = (Inr user, w')"
    and "\<forall>err. cp_getServer E (calls w') (ns_key ns name) = Inl err \<longrightarrow> err_msg err \<noteq> []"
  shows "result (sdkGetGameServer (generatedClient T) ns name) v =
    Returned (if u_Namespaces user = [] \<or> (\<exists>p\<in>set (u_Namespaces user). pattern_covers p ns)
      then (case cp_getServer E (calls w') (ns_key ns name) of
              Inr server \<Rightarrow> Inr (fromGenGameServer (Some (genServer (serverJSON server))))
            | Inl err \<Rightarrow> Inl (new_error (''controlplane: status 404: '' @ err_msg err)))
      else Inl (new_error (''controlplane: status 403: Forbidden'' @ newline)))"
proof -
  let ?c = "SdkGetServer ns name" and ?C = "tr_lib T"
  let ?resp = "result (serve chain (HandlerFromMux X (controlPlaneServer L A E api B)) (arriving addr r)) w"
  note view = sdkGetGameServer_connected [OF assms(9,10), of v]
  have params: "\<forall>v\<in>set (paramValues ?c). plain_name v" using assms(7,8) by simp
  have "dispatch L A E api B (operationOf ?c) (paramsOf ?c) = ApiGetGameServer E ns name"
    by (simp add: fun_eq_iff dispatch_def paramsOf_def operationOf_def map_str_def)
  then have resp: "?resp = (if allowed ?c user
      then (case cp_getServer E (calls w') (ns_key ns name) of
              Inl err \<Rightarrow> \<lparr>rs_Status = 404, rs_Body = ErrorJSON (err_msg err)\<rparr>
            | Inr server \<Rightarrow> \<lparr>rs_Status = 200, rs_Body = BodyServer server\<rparr>)
      else http_error 403 ''Forbidden'')"
    using call_served [OF assms(1-5) params assms(10,11), of L A E api B]
    by (simp add: ApiGetGameServer_def result_def run_or_error io_simps respondJSON_def writeError_def split: sum.splits)
  show ?thesis
  proof (cases "allowed ?c user")
    case False
    obtain err where "lib_unmarshal ?C (''Forbidden'' @ newline) = Inl err" using assms(6) by (auto simp: json_ok_def)
    then have "sdkApiError (errorField ?C) 403 (''Forbidden'' @ newline) =
        new_error (''controlplane: status 403: Forbidden'' @ newline)"
      by (simp add: sdkApiError_def errorField_def show_codes)
    moreover have "ParseGetGameServerResponse ?C (onWire ?C other ?resp) =
        Inr \<lparr>pa_Status = 403, pa_Body = ''Forbidden'' @ newline, pa_JSON = None\<rparr>"
      unfolding resp ParseGetGameServerResponse_def using False by (simp only: if_False parse_plain_error)
    ultimately show ?thesis unfolding view using False by (simp add: allowed_get_server)
  next
    case True
    show ?thesis
    proof (cases "cp_getServer E (calls w') (ns_key ns name)")
      case (Inl err)
      with get_server_parsed(1) [OF assms(6), of "err_msg err" other] resp True
      obtain buf where buf: "lib_unmarshal ?C (buf @ newline) = Inr (JObj [(''error'', JStr (err_msg err))])"
        "ParseGetGameServerResponse ?C (onWire ?C other ?resp) =
           Inr \<lparr>pa_Status = 404, pa_Body = buf @ newline, pa_JSON = Some (404, Inl (err_msg err))\<rparr>" by auto
      moreover from buf(1) have "sdkApiError (errorField ?C) 404 (buf @ newline) =
          new_error (''controlplane: status 404: '' @ err_msg err)"
        using assms(12) Inl by (simp add: sdkApiError_def errorField_def at_def show_codes)
      ultimately show ?thesis unfolding view using True Inl by (simp add: allowed_get_server)
    next
      case (Inr server)
      with get_server_parsed(2) [OF assms(6), of other server] resp True
      obtain buf where "ParseGetGameServerResponse ?C (onWire ?C other ?resp) =
           Inr \<lparr>pa_Status = 200, pa_Body = buf @ newline, pa_JSON = Some (200, Inr (genServer (serverJSON server)))\<rparr>" by auto
      with Inr show ?thesis unfolding view using True by (simp add: allowed_get_server seen_def)
    qed
  qed
qed

lemma ex_lib_json: "json_ok ex_lib"
proof -
  have "butlast (replicate n (CHR ''x'') @ newline) = replicate n (CHR ''x'')" for n
    by (simp add: newline_def butlast_append)
  then show ?thesis
    by (auto simp: json_ok_def ex_lib_def newline_def)
qed

text \<open>A client of the server's tenant, connected to a control plane over an example cluster.\<close>

theorem client_sees_stored_server_witness:
  "\<forall>L A api B other. \<exists>T. \<forall>v. result (sdkGetGameServer (generatedClient T) ''tenant-a'' ''smp'') v =
     Returned (Inr (fromGenGameServer (Some (genServer (serverJSON (ex_server True [] None))))))"
proof (intro allI)
  fix L A api B other
  let ?user = "ex_user ''viewer'' [''tenant-a'']"
  let ?respond = "\<lambda>req. result (serve [ex_provider ?user] (HandlerFromMux ex_router (controlPlaneServer L A ex_cp_env api B)) req) \<lparr>calls = []\<rparr>"
  let ?T = "ex_transport (\<lambda>h r. Inr (onWire ex_lib other (?respond (arriving ''10.0.0.1'' r))))"
  obtain r where r: "requestFor ?T (SdkGetServer ''tenant-a'' ''smp'') = Inr r" using ex_transport_simps(4) by blast
  have connected: "connects ?T ?respond ''10.0.0.1'' other" by (simp add: connects_def ex_transport_simps)
  have "pattern_covers ''tenant-a'' ''tenant-a''"
    by (simp add: MatchNamespacePattern_iff [symmetric] MatchNamespacePattern_def HasSuffix_def HasPrefix_def)
  then have "result (sdkGetGameServer (generatedClient ?T) ''tenant-a'' ''smp'') v =
     Returned (Inr (fromGenGameServer (Some (genServer (serverJSON (ex_server True [] None))))))" for v
    using client_sees_stored_server [where url = "\<lparr>su_Origin = ''http://cp/'', su_Path = ''/''\<rparr>" and v = v,
        OF ex_router_ok ex_router_complete _ _ _ _ ex_plain_names connected r ex_authenticate] ex_lib_json
    by (simp add: ex_transport_simps(1,3) ex_lib_styles ex_user_def ex_cp_env_def)
  then show "\<exists>T. \<forall>v. result (sdkGetGameServer (generatedClient T) ''tenant-a'' ''smp'') v =
     Returned (Inr (fromGenGameServer (Some (genServer (serverJSON (ex_server True [] None))))))" by blast
qed

end
