(* ===== verification/Go_Heap.thy ===== *)
theory Go_Heap
  imports Call_History
begin

text \<open>
  Go values with references, for code whose point is what is shared: structs are values, pointers, slices and maps
  refer to cells of a heap. A slice stands for its whole array. The idioms of deep-copy functions are programs over
  the heap, and \<open>deep\<close> is their contract: the copy has the same content, lives in new cells only, and no old cell is
  touched. Types of other packages are opaque; how they are copied is a parameter (\<open>ext_lib\<close>).
\<close>

named_theorems deep_rules \<open>which copiers satisfy the contract\<close>

section \<open>Values, types and content\<close>

datatype scalar = ScStr string | ScInt int | ScBool bool

datatype gval =
    GPrim scalar
  | GStruct "(string \<times> gval) list"
  | GNil
  | GRef nat

datatype cell = CVal gval | CArr "gval list" | CMap "(string \<times> gval) list"

text \<open>All addresses below the limit may be in use, none above is.\<close>

record heap =
  mem :: "nat \<Rightarrow> cell option"
  lim :: nat

datatype gtype =
    TPrim
  | TStruct "(string \<times> gtype) list"
  | TPtr gtype
  | TSlice gtype
  | TMap gtype
  | TExt string

text \<open>What a value stands for, without addresses.\<close>

datatype content =
    LPrim scalar
  | LStruct "(string \<times> content) list"
  | LNil
  | LPtr content
  | LArr "content list"
  | LMap "(string \<times> content) list"
  | LExt string

type_synonym copier = "gval \<Rightarrow> (heap, gval) state"

text \<open>For a type of another package: what its values stand for, with the cells they use, and its deep copy.\<close>

record ext_lib =
  ext_holds :: "string \<Rightarrow> heap \<Rightarrow> gval \<Rightarrow> string \<Rightarrow> nat set \<Rightarrow> bool"
  ext_copy :: "string \<Rightarrow> copier"

text \<open>
  \<open>holds X h t v a S\<close>: in the heap \<open>h\<close> the value \<open>v\<close> of type \<open>t\<close> stands for \<open>a\<close>, and \<open>S\<close> are the cells it
  reaches.
\<close>

inductive holds :: "ext_lib \<Rightarrow> heap \<Rightarrow> gtype \<Rightarrow> gval \<Rightarrow> content \<Rightarrow> nat set \<Rightarrow> bool" for X h where
  prim: "holds X h TPrim (GPrim s) (LPrim s) {}"
| struct: "map fst fs = map fst F \<Longrightarrow> length as = length F \<Longrightarrow>
    \<forall>i<length F. holds X h (snd (F ! i)) (snd (fs ! i)) (as ! i) (Ss i) \<Longrightarrow>
    holds X h (TStruct F) (GStruct fs) (LStruct (zip (map fst F) as)) (\<Union>i<length F. Ss i)"
| nil_ptr: "holds X h (TPtr t) GNil LNil {}"
| ptr: "mem h r = Some (CVal v) \<Longrightarrow> holds X h t v a S \<Longrightarrow> holds X h (TPtr t) (GRef r) (LPtr a) (insert r S)"
| nil_slice: "holds X h (TSlice t) GNil LNil {}"
| slice: "mem h r = Some (CArr vs) \<Longrightarrow> length as = length vs \<Longrightarrow>
    \<forall>i<length vs. holds X h t (vs ! i) (as ! i) (Ss i) \<Longrightarrow>
    holds X h (TSlice t) (GRef r) (LArr as) (insert r (\<Union>i<length vs. Ss i))"
| nil_map: "holds X h (TMap t) GNil LNil {}"
| map: "mem h r = Some (CMap kvs) \<Longrightarrow> length as = length kvs \<Longrightarrow>
    \<forall>i<length kvs. holds X h t (snd (kvs ! i)) (as ! i) (Ss i) \<Longrightarrow>
    holds X h (TMap t) (GRef r) (LMap (zip (map fst kvs) as)) (insert r (\<Union>i<length kvs. Ss i))"
| ext: "ext_holds X n h v a S \<Longrightarrow> holds X h (TExt n) v (LExt a) S"

inductive_cases holds_primE: "holds X h TPrim v a S"
inductive_cases holds_structE: "holds X h (TStruct F) v a S"
inductive_cases holds_ptrE: "holds X h (TPtr t) v a S"
inductive_cases holds_sliceE: "holds X h (TSlice t) v a S"
inductive_cases holds_mapE: "holds X h (TMap t) v a S"
inductive_cases holds_extE: "holds X h (TExt n) v a S"

text \<open>Types whose values hold no reference: an assignment copies them.\<close>

fun plain :: "gtype \<Rightarrow> bool" where
  "plain TPrim = True"
| "plain (TStruct F) = list_all (\<lambda>(n, t). plain t) F"
| "plain t = False"

lemma plain_reaches_nothing:
  assumes "plain t" "holds X h t v a S"
  shows "S = {}"
  using assms(2,1)
proof (induction rule: holds.induct)
  case (struct fs F as Ss)
  then have "plain (snd (F ! i))" if "i < length F" for i
    using that nth_mem [of i F] by (auto simp: list_all_iff split_beta)
  with struct show ?case by auto
qed auto


section \<open>The idioms of deep copies\<close>

definition alloc :: "cell \<Rightarrow> (heap, gval) state" where
  "alloc c = State (\<lambda>h. (GRef (lim h), h\<lparr>mem := (mem h)(lim h \<mapsto> c), lim := Suc (lim h)\<rparr>))"

definition readCell :: "nat \<Rightarrow> (heap, cell option) state" where
  "readCell r = State (\<lambda>h. (mem h r, h))"

lemma run_alloc [io_simps]:
  "run_state (alloc c) h = (GRef (lim h), h\<lparr>mem := (mem h)(lim h \<mapsto> c), lim := Suc (lim h)\<rparr>)"
  by (simp add: alloc_def)

lemma run_readCell [io_simps]: "run_state (readCell r) h = (mem h r, h)"
  by (simp add: readCell_def)

text \<open>\<^verbatim>\<open>*out = *in\<close>, for a field\<close>

definition assign :: copier where
  "assign v = State_Monad.return v"

text \<open>\<^verbatim>\<open>if in.F != nil { ... }\<close>\<close>

definition ifNotNil :: "copier \<Rightarrow> copier" where
  "ifNotNil f v = (if v = GNil then State_Monad.return GNil else f v)"

text \<open>
  \<^verbatim>\<open>*out = new(T); (*in).DeepCopyInto(*out)\<close>. Reading through a reference of another kind cannot happen in a typed
  program; the reference is left as it is then.
\<close>

definition newPtr :: "copier \<Rightarrow> copier" where
  "newPtr f v =
     (case v of
        GRef r \<Rightarrow> do {
          c \<leftarrow> readCell r;
          case c of
            Some (CVal w) \<Rightarrow> do { w' \<leftarrow> f w; alloc (CVal w') }
          | _ \<Rightarrow> State_Monad.return v
        }
      | _ \<Rightarrow> State_Monad.return v)"

fun copyAll :: "copier \<Rightarrow> gval list \<Rightarrow> (heap, gval list) state" where
  "copyAll f [] = State_Monad.return []"
| "copyAll f (v # vs) = do { v' \<leftarrow> f v; vs' \<leftarrow> copyAll f vs; State_Monad.return (v' # vs') }"

text \<open>\<^verbatim>\<open>*out = make([]T, len(*in)); for i := range *in { ... }\<close>\<close>

definition makeSlice :: "copier \<Rightarrow> copier" where
  "makeSlice f v =
     (case v of
        GRef r \<Rightarrow> do {
          c \<leftarrow> readCell r;
          case c of
            Some (CArr vs) \<Rightarrow> do { vs' \<leftarrow> copyAll f vs; alloc (CArr vs') }
          | _ \<Rightarrow> State_Monad.return v
        }
      | _ \<Rightarrow> State_Monad.return v)"

text \<open>\<^verbatim>\<open>*out = make(map[string]T, len(*in)); for key, val := range *in { (*out)[key] = ... }\<close>\<close>

definition makeMap :: "copier \<Rightarrow> copier" where
  "makeMap f v =
     (case v of
        GRef r \<Rightarrow> do {
          c \<leftarrow> readCell r;
          case c of
            Some (CMap kvs) \<Rightarrow> do { vs' \<leftarrow> copyAll f (map snd kvs); alloc (CMap (zip (map fst kvs) vs')) }
          | _ \<Rightarrow> State_Monad.return v
        }
      | _ \<Rightarrow> State_Monad.return v)"

definition fieldOf :: "string \<Rightarrow> (string \<times> gval) list \<Rightarrow> gval" where
  "fieldOf name fs = (case map_of fs name of None \<Rightarrow> GNil | Some v \<Rightarrow> v)"

definition setField :: "string \<Rightarrow> gval \<Rightarrow> (string \<times> gval) list \<Rightarrow> (string \<times> gval) list" where
  "setField name x fs = map (\<lambda>(n, v). (n, if n = name then x else v)) fs"

fun intoFields ::
    "(string \<times> copier) list \<Rightarrow> (string \<times> gval) list \<Rightarrow> (string \<times> gval) list \<Rightarrow> (heap, (string \<times> gval) list) state" where
  "intoFields [] in' out = State_Monad.return out"
| "intoFields ((name, f) # ss) in' out =
     do { x \<leftarrow> f (fieldOf name in'); intoFields ss in' (setField name x out) }"

text \<open>\<^verbatim>\<open>*out = *in\<close> and then one statement per field that needs it.\<close>

definition deepCopyInto :: "(string \<times> copier) list \<Rightarrow> copier" where
  "deepCopyInto ss v =
     (case v of GStruct fs \<Rightarrow> fmap GStruct (intoFields ss fs fs) | _ \<Rightarrow> State_Monad.return v)"

text \<open>\<^verbatim>\<open>DeepCopy\<close> and \<^verbatim>\<open>DeepCopyObject\<close>, of a pointer.\<close>

definition deepCopyPtr :: "copier \<Rightarrow> copier" where
  "deepCopyPtr into v = (if v = GNil then State_Monad.return GNil else newPtr into v)"

definition deepCopyObject :: "copier \<Rightarrow> copier" where
  "deepCopyObject into v =
     do { c \<leftarrow> deepCopyPtr into v; State_Monad.return (if c \<noteq> GNil then c else GNil) }"


section \<open>The contract\<close>

definition extends :: "heap \<Rightarrow> heap \<Rightarrow> bool" where
  "extends h h' \<longleftrightarrow> lim h \<le> lim h' \<and> (\<forall>r<lim h. mem h' r = mem h r)"

definition deep :: "ext_lib \<Rightarrow> gtype \<Rightarrow> copier \<Rightarrow> bool" where
  "deep X t f \<longleftrightarrow>
     (\<forall>h v a S. holds X h t v a S \<longrightarrow> S \<subseteq> {..<lim h} \<longrightarrow>
        (\<exists>v' h' S'. run_state (f v) h = (v', h') \<and> extends h h' \<and> holds X h' t v' a S' \<and> S' \<subseteq> {lim h..<lim h'}))"

text \<open>What is assumed of other packages: their deep copies are, and what a value stands for depends on its cells.\<close>

definition ext_ok :: "ext_lib \<Rightarrow> bool" where
  "ext_ok X \<longleftrightarrow>
     (\<forall>n h h' v a S. ext_holds X n h v a S \<longrightarrow> (\<forall>r\<in>S. mem h' r = mem h r) \<longrightarrow> ext_holds X n h' v a S) \<and>
     (\<forall>n h v a S. ext_holds X n h v a S \<longrightarrow> S \<subseteq> {..<lim h} \<longrightarrow>
        (\<exists>v' h' S'. run_state (ext_copy X n v) h = (v', h') \<and> extends h h' \<and> ext_holds X n h' v' a S' \<and>
           S' \<subseteq> {lim h..<lim h'}))"

lemma extends_refl [simp]: "extends h h"
  by (simp add: extends_def)

lemma extends_trans: "extends h h' \<Longrightarrow> extends h' h'' \<Longrightarrow> extends h h''"
  by (auto simp: extends_def)

lemma extends_alloc: "extends h (h\<lparr>mem := (mem h)(lim h \<mapsto> c), lim := Suc (lim h)\<rparr>)"
  by (simp add: extends_def)

lemma holds_frame:
  assumes "holds X h t v a S" "ext_ok X" "\<forall>r\<in>S. mem h' r = mem h r"
  shows "holds X h' t v a S"
  using assms(1,3)
proof (induction rule: holds.induct)
  case (struct fs F as Ss)
  then show ?case by (intro holds.struct) auto
next
  case (slice r vs as t Ss)
  then show ?case by (intro holds.slice) auto
next
  case (map r kvs as t Ss)
  then show ?case by (intro holds.map) auto
next
  case (ext n v a S)
  then show ?case using assms(2) unfolding ext_ok_def by (blast intro: holds.ext)
qed (auto intro: holds.intros)

lemma holds_extends:
  assumes "holds X h t v a S" "ext_ok X" "extends h h'" "S \<subseteq> {..<lim h}"
  shows "holds X h' t v a S"
  using assms by (intro holds_frame [OF assms(1,2)]) (auto simp: extends_def)

lemma below: "S \<subseteq> {k..<m :: nat} \<Longrightarrow> S \<subseteq> {..<m}"
  by auto

lemma deepD:
  assumes "deep X t f" "holds X h t v a S" "S \<subseteq> {..<lim h}"
  obtains v' h' S' where "run_state (f v) h = (v', h')" "extends h h'" "holds X h' t v' a S'" "S' \<subseteq> {lim h..<lim h'}"
  using assms unfolding deep_def by blast

lemma deep_assign [deep_rules]: "plain t \<Longrightarrow> deep X t assign"
  unfolding deep_def assign_def by (fastforce dest: plain_reaches_nothing)

lemma deep_ext [deep_rules]:
  assumes "ext_ok X"
  shows "deep X (TExt n) (ext_copy X n)"
  unfolding deep_def
proof (intro allI impI)
  fix h v a S
  assume "holds X h (TExt n) v a S" "S \<subseteq> {..<lim h}"
  then obtain b where b: "a = LExt b" "ext_holds X n h v b S" by (auto elim: holds_extE)
  with \<open>S \<subseteq> _\<close> assms obtain v' h' S' where "run_state (ext_copy X n v) h = (v', h')" "extends h h'"
    "ext_holds X n h' v' b S'" "S' \<subseteq> {lim h..<lim h'}" unfolding ext_ok_def by meson
  with b(1) show "\<exists>v' h' S'. run_state (ext_copy X n v) h = (v', h') \<and> extends h h' \<and> holds X h' (TExt n) v' a S' \<and>
      S' \<subseteq> {lim h..<lim h'}" by (blast intro: holds.ext)
qed

lemma deep_newPtr [deep_rules]:
  assumes "ext_ok X" "deep X t f"
  shows "deep X (TPtr t) (ifNotNil (newPtr f))"
  unfolding deep_def
proof (intro allI impI)
  fix h v a S
  assume v: "holds X h (TPtr t) v a S" "S \<subseteq> {..<lim h}"
  show "\<exists>v' h' S'. run_state (ifNotNil (newPtr f) v) h = (v', h') \<and> extends h h' \<and> holds X h' (TPtr t) v' a S' \<and>
      S' \<subseteq> {lim h..<lim h'}"
  proof (cases "v = GNil")
    case True
    then show ?thesis using v by (auto simp: ifNotNil_def elim!: holds_ptrE intro: holds.nil_ptr)
  next
    case False
    then obtain r w b T where r: "v = GRef r" "mem h r = Some (CVal w)" "a = LPtr b" "S = insert r T" "holds X h t w b T"
      using v(1) by (auto elim: holds_ptrE)
    have "T \<subseteq> {..<lim h}" using v(2) r(4) by simp
    from deepD [OF assms(2) r(5) this] obtain w' h' T' where
      w': "run_state (f w) h = (w', h')" "extends h h'" "holds X h' t w' b T'" "T' \<subseteq> {lim h..<lim h'}" by blast
    let ?h = "h'\<lparr>mem := (mem h')(lim h' \<mapsto> CVal w'), lim := Suc (lim h')\<rparr>"
    have "holds X ?h t w' b T'"
      by (rule holds_extends [OF w'(3) assms(1) extends_alloc below [OF w'(4)]])
    then have "holds X ?h (TPtr t) (GRef (lim h')) a (insert (lim h') T')"
      unfolding r(3) by (intro holds.ptr) simp_all
    moreover have "run_state (ifNotNil (newPtr f) v) h = (GRef (lim h'), ?h)"
      by (simp add: ifNotNil_def newPtr_def r(1,2) io_simps w'(1))
    moreover have "lim h \<le> lim h'" using w'(2) by (simp add: extends_def)
    ultimately show ?thesis
      using w'(4) extends_trans [OF w'(2) extends_alloc] by (intro exI conjI) (assumption+, auto)
  qed
qed

text \<open>Copying the elements one after the other: each copy stays as it is while the next ones are made.\<close>

lemma run_copyAll:
  assumes "ext_ok X" "deep X t f"
    and "\<forall>i<length vs. holds X h t (vs ! i) (as ! i) (Ss i) \<and> Ss i \<subseteq> {..<lim h}" "length as = length vs"
  shows "\<exists>vs' h' Ss'. run_state (copyAll f vs) h = (vs', h') \<and> extends h h' \<and> length vs' = length vs \<and>
    (\<forall>i<length vs. holds X h' t (vs' ! i) (as ! i) (Ss' i) \<and> Ss' i \<subseteq> {lim h..<lim h'})"
  using assms(3,4)
proof (induction vs arbitrary: h as Ss)
  case Nil
  then show ?case by simp
next
  case (Cons v vs)
  then obtain a as' where as: "as = a # as'" by (cases as) auto
  have "holds X h t v a (Ss 0)" "Ss 0 \<subseteq> {..<lim h}" using Cons.prems(1) as by auto
  from deepD [OF assms(2) this] obtain v' h1 S1 where
    v': "run_state (f v) h = (v', h1)" "extends h h1" "holds X h1 t v' a S1" "S1 \<subseteq> {lim h..<lim h1}" by blast
  have mono: "lim h \<le> lim h1" using v'(2) by (simp add: extends_def)
  have rest: "\<forall>i<length vs. holds X h1 t (vs ! i) (as' ! i) (Ss (Suc i)) \<and> Ss (Suc i) \<subseteq> {..<lim h1}"
  proof (intro allI impI)
    fix i assume "i < length vs"
    then have "holds X h t (vs ! i) (as' ! i) (Ss (Suc i))" "Ss (Suc i) \<subseteq> {..<lim h}" using Cons.prems(1) as by auto
    then show "holds X h1 t (vs ! i) (as' ! i) (Ss (Suc i)) \<and> Ss (Suc i) \<subseteq> {..<lim h1}"
      using holds_extends [OF _ assms(1) v'(2)] mono by auto
  qed
  have "length as' = length vs" using Cons.prems(2) as by simp
  from Cons.IH [OF rest this] obtain vs' h2 Ss' where
    IH: "run_state (copyAll f vs) h1 = (vs', h2)" "extends h1 h2" "length vs' = length vs"
    "\<forall>i<length vs. holds X h2 t (vs' ! i) (as' ! i) (Ss' i) \<and> Ss' i \<subseteq> {lim h1..<lim h2}" by blast
  have mono': "lim h1 \<le> lim h2" using IH(2) by (simp add: extends_def)
  have "holds X h2 t v' a S1" by (rule holds_extends [OF v'(3) assms(1) IH(2) below [OF v'(4)]])
  then have "\<forall>i<length (v # vs). holds X h2 t ((v' # vs') ! i) (as ! i) (case i of 0 \<Rightarrow> S1 | Suc j \<Rightarrow> Ss' j) \<and>
      (case i of 0 \<Rightarrow> S1 | Suc j \<Rightarrow> Ss' j) \<subseteq> {lim h..<lim h2}"
    using IH(4) v'(4) mono mono' as by (auto simp: less_Suc_eq_0_disj) force+
  then show ?case
    using v'(1) IH(1,3) extends_trans [OF v'(2) IH(2)] by (intro exI conjI) (auto simp: io_simps)
qed

lemma fresh_cell:
  assumes "ext_ok X" "\<forall>i<n. holds X h' t (vs' i) (as i) (Ss' i) \<and> Ss' i \<subseteq> {k..<lim h'}"
  shows "\<forall>i<n. holds X (h'\<lparr>mem := (mem h')(lim h' \<mapsto> c), lim := Suc (lim h')\<rparr>) t (vs' i) (as i) (Ss' i)"
  using assms(2) below by (blast intro: holds_extends [OF _ assms(1) extends_alloc])

lemma deep_makeSlice [deep_rules]:
  assumes "ext_ok X" "deep X t f"
  shows "deep X (TSlice t) (ifNotNil (makeSlice f))"
  unfolding deep_def
proof (intro allI impI)
  fix h v a S
  assume v: "holds X h (TSlice t) v a S" "S \<subseteq> {..<lim h}"
  show "\<exists>v' h' S'. run_state (ifNotNil (makeSlice f) v) h = (v', h') \<and> extends h h' \<and> holds X h' (TSlice t) v' a S' \<and>
      S' \<subseteq> {lim h..<lim h'}"
  proof (cases "v = GNil")
    case True
    then show ?thesis using v by (auto simp: ifNotNil_def elim!: holds_sliceE intro: holds.nil_slice)
  next
    case False
    then obtain r vs as Ss where r: "v = GRef r" "mem h r = Some (CArr vs)" "a = LArr as" "length as = length vs"
      "S = insert r (\<Union>i<length vs. Ss i)" "\<forall>i<length vs. holds X h t (vs ! i) (as ! i) (Ss i)"
      using v(1) by (auto elim: holds_sliceE)
    have "\<forall>i<length vs. holds X h t (vs ! i) (as ! i) (Ss i) \<and> Ss i \<subseteq> {..<lim h}" using v(2) r(5,6) by auto
    from run_copyAll [OF assms this r(4)] obtain vs' h' Ss' where c: "run_state (copyAll f vs) h = (vs', h')" "extends h h'"
      "length vs' = length vs" "\<forall>i<length vs. holds X h' t (vs' ! i) (as ! i) (Ss' i) \<and> Ss' i \<subseteq> {lim h..<lim h'}" by blast
    let ?h = "h'\<lparr>mem := (mem h')(lim h' \<mapsto> CArr vs'), lim := Suc (lim h')\<rparr>"
    have "holds X ?h (TSlice t) (GRef (lim h')) (LArr as) (insert (lim h') (\<Union>i<length vs'. Ss' i))"
      using fresh_cell [OF assms(1) c(4)] r(4) c(3) by (intro holds.slice) simp_all
    moreover have "run_state (ifNotNil (makeSlice f) v) h = (GRef (lim h'), ?h)"
      by (simp add: ifNotNil_def makeSlice_def r(1,2) io_simps c(1))
    moreover have "insert (lim h') (\<Union>i<length vs'. Ss' i) \<subseteq> {lim h..<lim ?h}"
      using c(2-4) by (auto simp: extends_def) force+
    ultimately show ?thesis using extends_trans [OF c(2) extends_alloc] r(3) by blast
  qed
qed

lemma deep_makeMap [deep_rules]:
  assumes "ext_ok X" "deep X t f"
  shows "deep X (TMap t) (ifNotNil (makeMap f))"
  unfolding deep_def
proof (intro allI impI)
  fix h v a S
  assume v: "holds X h (TMap t) v a S" "S \<subseteq> {..<lim h}"
  show "\<exists>v' h' S'. run_state (ifNotNil (makeMap f) v) h = (v', h') \<and> extends h h' \<and> holds X h' (TMap t) v' a S' \<and>
      S' \<subseteq> {lim h..<lim h'}"
  proof (cases "v = GNil")
    case True
    then show ?thesis using v by (auto simp: ifNotNil_def elim!: holds_mapE intro: holds.nil_map)
  next
    case False
    then obtain r kvs as Ss where r: "v = GRef r" "mem h r = Some (CMap kvs)" "a = LMap (zip (map fst kvs) as)"
      "length as = length kvs" "S = insert r (\<Union>i<length kvs. Ss i)"
      "\<forall>i<length kvs. holds X h t (snd (kvs ! i)) (as ! i) (Ss i)"
      using v(1) by (auto elim: holds_mapE)
    have "\<forall>i<length (map snd kvs). holds X h t (map snd kvs ! i) (as ! i) (Ss i) \<and> Ss i \<subseteq> {..<lim h}"
      using v(2) r(5,6) by auto
    from run_copyAll [OF assms this] r(4) obtain vs' h' Ss' where
      c: "run_state (copyAll f (map snd kvs)) h = (vs', h')" "extends h h'" "length vs' = length kvs"
      "\<forall>i<length kvs. holds X h' t (vs' ! i) (as ! i) (Ss' i) \<and> Ss' i \<subseteq> {lim h..<lim h'}" by auto
    let ?kvs = "zip (map fst kvs) vs'"
    let ?h = "h'\<lparr>mem := (mem h')(lim h' \<mapsto> CMap ?kvs), lim := Suc (lim h')\<rparr>"
    have keys: "map fst ?kvs = map fst kvs" "length ?kvs = length kvs" using c(3) by simp_all
    have "holds X ?h (TMap t) (GRef (lim h')) (LMap (zip (map fst ?kvs) as)) (insert (lim h') (\<Union>i<length ?kvs. Ss' i))"
      using fresh_cell [OF assms(1) c(4)] r(4) c(3) by (intro holds.map) simp_all
    moreover have "run_state (ifNotNil (makeMap f) v) h = (GRef (lim h'), ?h)"
      by (simp add: ifNotNil_def makeMap_def r(1,2) io_simps c(1))
    moreover have "insert (lim h') (\<Union>i<length ?kvs. Ss' i) \<subseteq> {lim h..<lim ?h}"
      using c(2-4) by (auto simp: extends_def) force+
    ultimately show ?thesis using extends_trans [OF c(2) extends_alloc] r(3) keys(1) by metis
  qed
qed

text \<open>Fields by position, for structs of a type without duplicate names.\<close>

lemma fieldOf_nth:
  assumes "map fst fs = map fst F" "distinct (map fst F)" "j < length F"
  shows "fieldOf (fst (F ! j)) fs = snd (fs ! j)"
proof -
  have len: "length fs = length F" using assms(1) by (rule map_eq_imp_length_eq)
  then have "fst (fs ! j) = fst (F ! j)" using assms(1,3) by (metis nth_map)
  then have "(fst (F ! j), snd (fs ! j)) \<in> set fs" using nth_mem [of j fs] assms(3) len by (metis prod.collapse)
  moreover have "distinct (map fst fs)" using assms(1,2) by simp
  ultimately show ?thesis by (simp add: fieldOf_def)
qed

lemma setField_nth:
  assumes "map fst fs = map fst F" "distinct (map fst F)" "j < length F" "i < length F"
  shows "snd (setField (fst (F ! j)) x fs ! i) = (if i = j then x else snd (fs ! i))"
proof -
  have len: "length fs = length F" using assms(1) by (rule map_eq_imp_length_eq)
  then have "fst (fs ! i) = fst (F ! i)" using assms(1,4) by (metis nth_map)
  moreover have "fst (F ! i) = fst (F ! j) \<longleftrightarrow> i = j"
    using nth_eq_iff_index_eq [OF assms(2), of i j] assms(3,4) by simp
  ultimately show ?thesis using len assms(4) by (auto simp: setField_def split_beta)
qed

lemma setField_names: "map fst (setField name x fs) = map fst fs"
  by (simp add: setField_def split_beta)

lemma run_intoFields:
  assumes ok: "ext_ok X" and F: "distinct (map fst F)" "map fst in' = map fst F"
    and "distinct (map fst ss)" "fst ` set ss \<subseteq> fst ` set F"
    and "\<forall>i<length F. \<forall>f. (fst (F ! i), f) \<in> set ss \<longrightarrow> deep X (snd (F ! i)) f"
    and "\<forall>i<length F. holds X h (snd (F ! i)) (snd (in' ! i)) (as ! i) (Ss i) \<and> Ss i \<subseteq> {..<k}" "k \<le> lim h"
    and "map fst out = map fst F"
    and "\<forall>i<length F. fst (F ! i) \<in> fst ` set ss \<or>
           (\<exists>T. holds X h (snd (F ! i)) (snd (out ! i)) (as ! i) T \<and> T \<subseteq> {k..<lim h})"
  shows "\<exists>out' h'. run_state (intoFields ss in' out) h = (out', h') \<and> extends h h' \<and> map fst out' = map fst F \<and>
    (\<forall>i<length F. \<exists>T. holds X h' (snd (F ! i)) (snd (out' ! i)) (as ! i) T \<and> T \<subseteq> {k..<lim h'})"
  using assms(4-)
proof (induction ss arbitrary: h out)
  case Nil
  then show ?case by simp
next
  case (Cons s ss)
  obtain name f where s: "s = (name, f)" by fastforce
  have "name \<in> fst ` set F" using Cons.prems(2) s by simp
  then obtain j where j: "j < length F" "name = fst (F ! j)" by (auto simp: in_set_conv_nth)
  have orig: "holds X h (snd (F ! j)) (snd (in' ! j)) (as ! j) (Ss j)" "Ss j \<subseteq> {..<lim h}"
    using Cons.prems(4,5) j(1) by force+
  have "deep X (snd (F ! j)) f" using Cons.prems(3) j s by auto
  from deepD [OF this orig] obtain x h1 S1 where
    x: "run_state (f (snd (in' ! j))) h = (x, h1)" "extends h h1" "holds X h1 (snd (F ! j)) x (as ! j) S1"
    "S1 \<subseteq> {lim h..<lim h1}" by blast
  have lim: "lim h \<le> lim h1" using x(2) by (simp add: extends_def)
  have later: "holds X h1 t v a T" if "holds X h t v a T" "T \<subseteq> {..<lim h}" for t v a T
    by (rule holds_extends [OF that(1) ok x(2) that(2)])
  have prems: "\<forall>i<length F. holds X h1 (snd (F ! i)) (snd (in' ! i)) (as ! i) (Ss i) \<and> Ss i \<subseteq> {..<k}"
    using Cons.prems(4,5) later by force
  have done_: "\<forall>i<length F. fst (F ! i) \<in> fst ` set ss \<or>
      (\<exists>T. holds X h1 (snd (F ! i)) (snd (setField name x out ! i)) (as ! i) T \<and> T \<subseteq> {k..<lim h1})"
  proof (intro allI impI)
    fix i assume i: "i < length F"
    have out_i: "snd (setField name x out ! i) = (if i = j then x else snd (out ! i))"
      unfolding j(2) by (rule setField_nth [OF Cons.prems(6) F(1) j(1) i])
    show "fst (F ! i) \<in> fst ` set ss \<or>
      (\<exists>T. holds X h1 (snd (F ! i)) (snd (setField name x out ! i)) (as ! i) T \<and> T \<subseteq> {k..<lim h1})"
    proof (cases "i = j")
      case True
      have "S1 \<subseteq> {k..<lim h1}" using x(4) Cons.prems(5) by auto
      with x(3) out_i True show ?thesis by auto
    next
      case False
      then have "fst (F ! i) \<noteq> name" using nth_eq_iff_index_eq [OF F(1), of i j] i j by simp
      then consider "fst (F ! i) \<in> fst ` set ss"
        | T where "holds X h (snd (F ! i)) (snd (out ! i)) (as ! i) T" "T \<subseteq> {k..<lim h}"
        using Cons.prems(7) [rule_format, OF i] s by fastforce
      then show ?thesis
      proof cases
        case (2 T)
        then have "holds X h1 (snd (F ! i)) (snd (out ! i)) (as ! i) T" "T \<subseteq> {k..<lim h1}"
          using later [OF 2(1) below [OF 2(2)]] lim by auto
        with out_i False show ?thesis by auto
      qed simp
    qed
  qed
  have "distinct (map fst ss)" "fst ` set ss \<subseteq> fst ` set F"
    "\<forall>i<length F. \<forall>f. (fst (F ! i), f) \<in> set ss \<longrightarrow> deep X (snd (F ! i)) f" "k \<le> lim h1"
    "map fst (setField name x out) = map fst F"
    using Cons.prems lim by (auto simp: setField_names)
  from Cons.IH [OF this(1-3) prems this(4,5) done_]
  obtain out' h' where r: "run_state (intoFields ss in' (setField name x out)) h1 = (out', h')" "extends h1 h'"
    "map fst out' = map fst F"
    "\<forall>i<length F. \<exists>T. holds X h' (snd (F ! i)) (snd (out' ! i)) (as ! i) T \<and> T \<subseteq> {k..<lim h'}" by blast
  have "run_state (intoFields (s # ss) in' out) h = (out', h')"
    using x(1) r(1) fieldOf_nth [OF F(2,1) j(1)] by (simp add: s j(2) io_simps)
  then show ?case using r(2-4) extends_trans [OF x(2) r(2)] by blast
qed

text \<open>
  A generated \<^verbatim>\<open>DeepCopyInto\<close> is right when its statements copy their fields deeply and every other field holds no
  reference.
\<close>

definition covers :: "ext_lib \<Rightarrow> (string \<times> gtype) list \<Rightarrow> (string \<times> copier) list \<Rightarrow> bool" where
  "covers X F ss \<longleftrightarrow>
     list_all (\<lambda>(n, t). case map_of ss n of None \<Rightarrow> plain t | Some f \<Rightarrow> deep X t f) F"

lemma deep_struct:
  assumes ok: "ext_ok X" and names: "distinct (map fst F)" "distinct (map fst ss)" "list_all (\<lambda>s. fst s \<in> fst ` set F) ss"
    and "covers X F ss"
  shows "deep X (TStruct F) (deepCopyInto ss)"
  unfolding deep_def
proof (intro allI impI)
  fix h v a S
  assume v: "holds X h (TStruct F) v a S" "S \<subseteq> {..<lim h}"
  then obtain fs as Ss where fs: "v = GStruct fs" "a = LStruct (zip (map fst F) as)" "map fst fs = map fst F"
    "length as = length F" "S = (\<Union>i<length F. Ss i)"
    "\<forall>i<length F. holds X h (snd (F ! i)) (snd (fs ! i)) (as ! i) (Ss i)"
    by (auto elim: holds_structE)
  have field: "case map_of ss (fst (F ! i)) of None \<Rightarrow> plain (snd (F ! i)) | Some f \<Rightarrow> deep X (snd (F ! i)) f"
    if "i < length F" for i
    using assms(5) nth_mem [OF that] unfolding covers_def list_all_iff by (metis (mono_tags, lifting) case_prod_beta)
  have stmts: "\<forall>i<length F. \<forall>f. (fst (F ! i), f) \<in> set ss \<longrightarrow> deep X (snd (F ! i)) f"
    using field map_of_is_SomeI [OF names(2)] by force
  have orig: "\<forall>i<length F. holds X h (snd (F ! i)) (snd (fs ! i)) (as ! i) (Ss i) \<and> Ss i \<subseteq> {..<lim h}"
    using fs(5,6) v(2) by auto
  have start: "\<forall>i<length F. fst (F ! i) \<in> fst ` set ss \<or>
      (\<exists>T. holds X h (snd (F ! i)) (snd (fs ! i)) (as ! i) T \<and> T \<subseteq> {lim h..<lim h})"
  proof (intro allI impI)
    fix i assume i: "i < length F"
    show "fst (F ! i) \<in> fst ` set ss \<or> (\<exists>T. holds X h (snd (F ! i)) (snd (fs ! i)) (as ! i) T \<and> T \<subseteq> {lim h..<lim h})"
    proof (cases "map_of ss (fst (F ! i))")
      case None
      then have "plain (snd (F ! i))" using field [OF i] by simp
      then show ?thesis using plain_reaches_nothing fs(6) i by fastforce
    next
      case (Some f)
      then show ?thesis using map_of_SomeD by force
    qed
  qed
  have "fst ` set ss \<subseteq> fst ` set F" using names(3) by (auto simp: list_all_iff)
  from run_intoFields [OF ok names(1) fs(3) names(2) this stmts orig order_refl fs(3) start]
  obtain out h' where r: "run_state (intoFields ss fs fs) h = (out, h')" "extends h h'" "map fst out = map fst F"
    "\<forall>i<length F. \<exists>T. holds X h' (snd (F ! i)) (snd (out ! i)) (as ! i) T \<and> T \<subseteq> {lim h..<lim h'}" by blast
  from r(4) obtain Ts where Ts: "\<forall>i<length F. holds X h' (snd (F ! i)) (snd (out ! i)) (as ! i) (Ts i) \<and>
      Ts i \<subseteq> {lim h..<lim h'}" by metis
  then have "holds X h' (TStruct F) (GStruct out) a (\<Union>i<length F. Ts i)"
    unfolding fs(2) using r(3) fs(4) by (intro holds.struct) auto
  moreover have "(\<Union>i<length F. Ts i) \<subseteq> {lim h..<lim h'}" using Ts by blast
  moreover have "run_state (deepCopyInto ss v) h = (GStruct out, h')" by (simp add: deepCopyInto_def fs(1) io_simps r(1))
  ultimately show "\<exists>v' h' S'. run_state (deepCopyInto ss v) h = (v', h') \<and> extends h h' \<and> holds X h' (TStruct F) v' a S' \<and>
      S' \<subseteq> {lim h..<lim h'}" using r(2) by blast
qed


section \<open>Copies through pointers\<close>

lemma deepCopyPtr_new: "deepCopyPtr into = ifNotNil (newPtr into)"
  by (simp add: fun_eq_iff deepCopyPtr_def ifNotNil_def)

lemma deepCopyObject_same: "deepCopyObject into = deepCopyPtr into"
proof
  fix v
  have "(\<lambda>c. State_Monad.return (if c \<noteq> GNil then c else GNil)) = (State_Monad.return :: gval \<Rightarrow> (heap, gval) state)" by auto
  then show "deepCopyObject into v = deepCopyPtr into v" by (simp add: deepCopyObject_def)
qed

text \<open>
  Two values are independent in a heap when they share no cell: whatever is written to the cells of the one, the other
  keeps its content.
\<close>

definition independent :: "ext_lib \<Rightarrow> heap \<Rightarrow> gtype \<Rightarrow> content \<Rightarrow> gval \<Rightarrow> gval \<Rightarrow> bool" where
  "independent X h t a v v' \<longleftrightarrow>
     (\<exists>S S'. holds X h t v a S \<and> holds X h t v' a S' \<and> S \<inter> S' = {} \<and>
        (\<forall>h'. (\<forall>r. r \<notin> S' \<longrightarrow> mem h' r = mem h r) \<longrightarrow> holds X h' t v a S) \<and>
        (\<forall>h'. (\<forall>r. r \<notin> S \<longrightarrow> mem h' r = mem h r) \<longrightarrow> holds X h' t v' a S'))"

lemma deep_independent:
  assumes "ext_ok X" "deep X t f" "holds X h t v a S" "S \<subseteq> {..<lim h}"
  shows "\<exists>v' h'. run_state (f v) h = (v', h') \<and> extends h h' \<and> independent X h' t a v v'"
proof -
  from deepD [OF assms(2-4)] obtain v' h' S' where c: "run_state (f v) h = (v', h')" "extends h h'" "holds X h' t v' a S'"
    "S' \<subseteq> {lim h..<lim h'}" by blast
  have old: "holds X h' t v a S" by (rule holds_extends [OF assms(3,1) c(2) assms(4)])
  moreover have "S \<inter> S' = {}" using assms(4) c(4) by fastforce
  moreover have "holds X h'' t v a S" if "\<forall>r. r \<notin> S' \<longrightarrow> mem h'' r = mem h' r" for h''
    using that \<open>S \<inter> S' = {}\<close> by (intro holds_frame [OF old assms(1)]) blast
  moreover have "holds X h'' t v' a S'" if "\<forall>r. r \<notin> S \<longrightarrow> mem h'' r = mem h' r" for h''
    using that \<open>S \<inter> S' = {}\<close> by (intro holds_frame [OF c(3) assms(1)]) blast
  ultimately show ?thesis using c(1-3) unfolding independent_def by blast
qed

text \<open>The interface of a type with generated deep copies.\<close>

locale deep_copy =
  fixes ty :: gtype and into :: "ext_lib \<Rightarrow> copier"
  assumes into_deep: "ext_ok X \<Longrightarrow> deep X ty (into X)"
begin

lemma ptr_deep: "ext_ok X \<Longrightarrow> deep X (TPtr ty) (deepCopyPtr (into X))"
  unfolding deepCopyPtr_new by (intro deep_newPtr into_deep)

lemma object_independent:
  assumes "ext_ok X" "holds X h (TPtr ty) p a S" "S \<subseteq> {..<lim h}"
  shows "\<exists>p' h'. run_state (deepCopyObject (into X) p) h = (p', h') \<and> extends h h' \<and> independent X h' (TPtr ty) a p p'"
  unfolding deepCopyObject_same by (rule deep_independent [OF assms(1) ptr_deep [OF assms(1)] assms(2,3)])

end

end
