(* ===== verification/Deep_Copy.thy ===== *)
theory Deep_Copy
  imports Go_Heap
begin

text \<open>
  The deep copies of the custom resources (\<^verbatim>\<open>api/operator/v1/zz_generated.deepcopy.go\<close>) over the heap of theory
  \<open>Go_Heap\<close>: for each struct its type, as its declaration has it, and the three generated functions. A deep copy is
  what lets the controllers change an object they were given by the cache of controller-runtime.
\<close>

section \<open>Types\<close>

text \<open>\<^verbatim>\<open>metav1.TypeMeta\<close> holds two strings; the other structs of Kubernetes packages are opaque.\<close>

definition TypeMeta_type :: gtype where
  "TypeMeta_type = TStruct [(''Kind'', TPrim), (''APIVersion'', TPrim)]"

definition ActionParamSchema_type :: gtype where
  "ActionParamSchema_type =
     TStruct [(''Type'', TPrim), (''Required'', TPrim), (''Description'', TPrim), (''Default'', TPrim)]"

definition TargetRef_type :: gtype where
  "TargetRef_type =
     TStruct [(''APIVersion'', TPrim), (''Kind'', TPrim), (''Name'', TPrim), (''Namespace'', TPrim)]"

definition ActionExecutionStatus_type :: gtype where
  "ActionExecutionStatus_type =
     TStruct [(''State'', TPrim), (''StartedAt'', TPtr (TExt ''metav1.Time'')), (''EndedAt'', TPtr (TExt ''metav1.Time'')),
              (''AgentResponse'', TPrim), (''Error'', TPrim), (''Conditions'', TSlice (TExt ''metav1.Condition''))]"

definition AgentSpec_type :: gtype where
  "AgentSpec_type =
     TStruct [(''Image'', TPrim), (''Version'', TPrim)]"

definition PortSpec_type :: gtype where
  "PortSpec_type =
     TStruct [(''Name'', TPrim), (''ContainerPort'', TPrim), (''Protocol'', TPrim), (''Exposed'', TPtr TPrim)]"

definition EnvironmentSpec_type :: gtype where
  "EnvironmentSpec_type =
     TStruct [(''Key'', TPrim), (''Default'', TPrim), (''Required'', TPrim), (''Description'', TPrim)]"

definition StorageSpec_type :: gtype where
  "StorageSpec_type =
     TStruct [(''MountPath'', TPrim), (''SizeDefault'', TPrim), (''SizeMin'', TPrim), (''SizeMax'', TPrim)]"

definition CapabilitiesSpec_type :: gtype where
  "CapabilitiesSpec_type =
     TStruct [(''Files'', TPrim), (''SFTP'', TPrim), (''Backup'', TPrim), (''RestoreFromSnapshot'', TPrim)]"

definition AgentMetricsSpec_type :: gtype where
  "AgentMetricsSpec_type =
     TStruct [(''Port'', TPrim), (''Path'', TPrim)]"

definition ServiceMonitorSpec_type :: gtype where
  "ServiceMonitorSpec_type =
     TStruct [(''Enabled'', TPrim), (''Interval'', TPrim)]"

definition ResourcesSpec_type :: gtype where
  "ResourcesSpec_type =
     TStruct [(''ResourceRequirements'', TExt ''corev1.ResourceRequirements''),
              (''Tiers'', TMap (TExt ''corev1.ResourceRequirements'')), (''Default'', TPrim)]"

definition GameProfileStatus_type :: gtype where
  "GameProfileStatus_type =
     TStruct [(''Conditions'', TSlice (TExt ''metav1.Condition''))]"

definition LifecycleSpec_type :: gtype where
  "LifecycleSpec_type =
     TStruct [(''IdleTimeoutSeconds'', TPrim), (''AutoStart'', TPtr TPrim)]"

definition SnapshotRef_type :: gtype where
  "SnapshotRef_type =
     TStruct [(''Name'', TPrim), (''Namespace'', TPrim)]"

definition Endpoint_type :: gtype where
  "Endpoint_type =
     TStruct [(''Name'', TPrim), (''Address'', TPrim), (''Port'', TPrim)]"

definition RollingUpdateSpec_type :: gtype where
  "RollingUpdateSpec_type =
     TStruct [(''MaxUnavailable'', TPtr TPrim), (''MaxSurge'', TPtr TPrim), (''DrainTimeoutSeconds'', TPrim)]"

definition GameServerTemplateMetadata_type :: gtype where
  "GameServerTemplateMetadata_type =
     TStruct [(''Labels'', TMap TPrim), (''Annotations'', TMap TPrim)]"

definition FleetGameServerSpec_type :: gtype where
  "FleetGameServerSpec_type =
     TStruct [(''Env'', TMap TPrim)]"

definition GameServerFleetStatus_type :: gtype where
  "GameServerFleetStatus_type =
     TStruct [(''Replicas'', TPrim), (''ReadyReplicas'', TPrim), (''UpdatedReplicas'', TPrim),
              (''Conditions'', TSlice (TExt ''metav1.Condition''))]"

definition SnapshotRetention_type :: gtype where
  "SnapshotRetention_type =
     TStruct [(''Count'', TPrim), (''Duration'', TPrim)]"

definition SnapshotEntry_type :: gtype where
  "SnapshotEntry_type =
     TStruct [(''Name'', TPrim), (''CreatedAt'', TExt ''metav1.Time''), (''VolumeSnapshotRef'', TPrim), (''SizeBytes'', TPrim)]"

definition ActionDecl_type :: gtype where
  "ActionDecl_type =
     TStruct [(''Name'', TPrim), (''Description'', TPrim), (''Params'', TMap ActionParamSchema_type), (''Returns'', TPrim),
              (''Concurrency'', TPrim), (''Timeout'', TPrim)]"

definition ActionExecutionSpec_type :: gtype where
  "ActionExecutionSpec_type =
     TStruct [(''TargetRef'', TargetRef_type), (''ActionName'', TPrim), (''Params'', TMap TPrim), (''Caller'', TPrim)]"

definition ObservabilitySpec_type :: gtype where
  "ObservabilitySpec_type =
     TStruct [(''AgentMetrics'', TPtr AgentMetricsSpec_type), (''ServiceMonitor'', TPtr ServiceMonitorSpec_type)]"

definition GameServerStorage_type :: gtype where
  "GameServerStorage_type =
     TStruct [(''Size'', TPrim), (''StorageClass'', TPrim), (''SnapshotRef'', TPtr SnapshotRef_type)]"

definition GameServerStatus_type :: gtype where
  "GameServerStatus_type =
     TStruct [(''State'', TPrim), (''AgentVersion'', TPrim), (''Players'', TPrim), (''PlayerCapacity'', TPrim),
              (''LastActivity'', TPtr (TExt ''metav1.Time'')), (''Endpoints'', TSlice Endpoint_type),
              (''Conditions'', TSlice (TExt ''metav1.Condition''))]"

definition FleetUpdateStrategy_type :: gtype where
  "FleetUpdateStrategy_type =
     TStruct [(''Type'', TPrim), (''RollingUpdate'', TPtr RollingUpdateSpec_type)]"

definition GameServerTemplateSpec_type :: gtype where
  "GameServerTemplateSpec_type =
     TStruct [(''Metadata'', GameServerTemplateMetadata_type), (''Spec'', FleetGameServerSpec_type)]"

definition GameSnapshotSpec_type :: gtype where
  "GameSnapshotSpec_type =
     TStruct [(''GameServerRef'', TPrim), (''Schedule'', TPrim), (''Retention'', SnapshotRetention_type)]"

definition GameSnapshotStatus_type :: gtype where
  "GameSnapshotStatus_type =
     TStruct [(''Snapshots'', TSlice SnapshotEntry_type), (''LastSnapshotAt'', TPtr (TExt ''metav1.Time'')),
              (''Conditions'', TSlice (TExt ''metav1.Condition''))]"

definition ActionExecution_type :: gtype where
  "ActionExecution_type =
     TStruct [(''TypeMeta'', TypeMeta_type), (''ObjectMeta'', TExt ''metav1.ObjectMeta''),
              (''Spec'', ActionExecutionSpec_type), (''Status'', ActionExecutionStatus_type)]"

definition GameProfileSpec_type :: gtype where
  "GameProfileSpec_type =
     TStruct [(''DisplayName'', TPrim), (''Category'', TPrim), (''Icon'', TPrim), (''Description'', TPrim),
              (''Image'', TPrim), (''ImagePullPolicy'', TPrim), (''Ports'', TSlice PortSpec_type),
              (''Environment'', TSlice EnvironmentSpec_type), (''Resources'', ResourcesSpec_type),
              (''Storage'', StorageSpec_type), (''Agent'', AgentSpec_type), (''Actions'', TSlice ActionDecl_type),
              (''Capabilities'', TPtr CapabilitiesSpec_type), (''Observability'', TPtr ObservabilitySpec_type)]"

definition GameServerSpec_type :: gtype where
  "GameServerSpec_type =
     TStruct [(''Profile'', TPrim), (''Tier'', TPrim), (''Env'', TMap TPrim), (''Storage'', GameServerStorage_type),
              (''Lifecycle'', LifecycleSpec_type), (''PriorityClassName'', TPrim),
              (''TopologySpreadConstraints'', TSlice (TExt ''corev1.TopologySpreadConstraint'')), (''LoadBalancerIP'', TPrim)]"

definition GameServerFleetSpec_type :: gtype where
  "GameServerFleetSpec_type =
     TStruct [(''Profile'', TPrim), (''Replicas'', TPrim), (''Template'', GameServerTemplateSpec_type),
              (''UpdateStrategy'', FleetUpdateStrategy_type), (''PriorityClassName'', TPrim),
              (''TopologySpreadConstraints'', TSlice (TExt ''corev1.TopologySpreadConstraint''))]"

definition GameSnapshot_type :: gtype where
  "GameSnapshot_type =
     TStruct [(''TypeMeta'', TypeMeta_type), (''ObjectMeta'', TExt ''metav1.ObjectMeta''), (''Spec'', GameSnapshotSpec_type),
              (''Status'', GameSnapshotStatus_type)]"

definition ActionExecutionList_type :: gtype where
  "ActionExecutionList_type =
     TStruct [(''TypeMeta'', TypeMeta_type), (''ListMeta'', TExt ''metav1.ListMeta''),
              (''Items'', TSlice ActionExecution_type)]"

definition GameProfile_type :: gtype where
  "GameProfile_type =
     TStruct [(''TypeMeta'', TypeMeta_type), (''ObjectMeta'', TExt ''metav1.ObjectMeta''), (''Spec'', GameProfileSpec_type),
              (''Status'', GameProfileStatus_type)]"

definition GameServer_type :: gtype where
  "GameServer_type =
     TStruct [(''TypeMeta'', TypeMeta_type), (''ObjectMeta'', TExt ''metav1.ObjectMeta''), (''Spec'', GameServerSpec_type),
              (''Status'', GameServerStatus_type)]"

definition GameServerFleet_type :: gtype where
  "GameServerFleet_type =
     TStruct [(''TypeMeta'', TypeMeta_type), (''ObjectMeta'', TExt ''metav1.ObjectMeta''),
              (''Spec'', GameServerFleetSpec_type), (''Status'', GameServerFleetStatus_type)]"

definition GameSnapshotList_type :: gtype where
  "GameSnapshotList_type =
     TStruct [(''TypeMeta'', TypeMeta_type), (''ListMeta'', TExt ''metav1.ListMeta''), (''Items'', TSlice GameSnapshot_type)]"

definition GameProfileList_type :: gtype where
  "GameProfileList_type =
     TStruct [(''TypeMeta'', TypeMeta_type), (''ListMeta'', TExt ''metav1.ListMeta''), (''Items'', TSlice GameProfile_type)]"

definition GameServerList_type :: gtype where
  "GameServerList_type =
     TStruct [(''TypeMeta'', TypeMeta_type), (''ListMeta'', TExt ''metav1.ListMeta''), (''Items'', TSlice GameServer_type)]"

definition GameServerFleetList_type :: gtype where
  "GameServerFleetList_type =
     TStruct [(''TypeMeta'', TypeMeta_type), (''ListMeta'', TExt ''metav1.ListMeta''),
              (''Items'', TSlice GameServerFleet_type)]"

lemmas resource_types =
  TypeMeta_type_def ActionParamSchema_type_def TargetRef_type_def ActionExecutionStatus_type_def
  AgentSpec_type_def PortSpec_type_def EnvironmentSpec_type_def StorageSpec_type_def
  CapabilitiesSpec_type_def AgentMetricsSpec_type_def ServiceMonitorSpec_type_def ResourcesSpec_type_def
  GameProfileStatus_type_def LifecycleSpec_type_def SnapshotRef_type_def Endpoint_type_def
  RollingUpdateSpec_type_def GameServerTemplateMetadata_type_def FleetGameServerSpec_type_def
  GameServerFleetStatus_type_def SnapshotRetention_type_def SnapshotEntry_type_def ActionDecl_type_def
  ActionExecutionSpec_type_def ObservabilitySpec_type_def GameServerStorage_type_def
  GameServerStatus_type_def FleetUpdateStrategy_type_def GameServerTemplateSpec_type_def
  GameSnapshotSpec_type_def GameSnapshotStatus_type_def ActionExecution_type_def GameProfileSpec_type_def
  GameServerSpec_type_def GameServerFleetSpec_type_def GameSnapshot_type_def ActionExecutionList_type_def
  GameProfile_type_def GameServer_type_def GameServerFleet_type_def GameSnapshotList_type_def
  GameProfileList_type_def GameServerList_type_def GameServerFleetList_type_def

lemma plain_resources:
  "plain TypeMeta_type"
  "plain ActionParamSchema_type"
  "plain TargetRef_type"
  "plain AgentSpec_type"
  "plain EnvironmentSpec_type"
  "plain StorageSpec_type"
  "plain CapabilitiesSpec_type"
  "plain AgentMetricsSpec_type"
  "plain ServiceMonitorSpec_type"
  "plain SnapshotRef_type"
  "plain Endpoint_type"
  "plain SnapshotRetention_type"
  "plain GameSnapshotSpec_type"
  by (simp_all add: resource_types)


section \<open>The generated functions\<close>

definition ActionParamSchema_DeepCopyInto :: "ext_lib \<Rightarrow> copier" where
  "ActionParamSchema_DeepCopyInto X = deepCopyInto []"

definition ActionParamSchema_DeepCopy :: "ext_lib \<Rightarrow> copier" where
  "ActionParamSchema_DeepCopy X = deepCopyPtr (ActionParamSchema_DeepCopyInto X)"

definition TargetRef_DeepCopyInto :: "ext_lib \<Rightarrow> copier" where
  "TargetRef_DeepCopyInto X = deepCopyInto []"

definition TargetRef_DeepCopy :: "ext_lib \<Rightarrow> copier" where
  "TargetRef_DeepCopy X = deepCopyPtr (TargetRef_DeepCopyInto X)"

definition ActionExecutionStatus_DeepCopyInto :: "ext_lib \<Rightarrow> copier" where
  "ActionExecutionStatus_DeepCopyInto X =
     deepCopyInto
       [(''StartedAt'', ifNotNil (newPtr (ext_copy X ''metav1.Time''))),
        (''EndedAt'', ifNotNil (newPtr (ext_copy X ''metav1.Time''))),
        (''Conditions'', ifNotNil (makeSlice (ext_copy X ''metav1.Condition'')))]"

definition ActionExecutionStatus_DeepCopy :: "ext_lib \<Rightarrow> copier" where
  "ActionExecutionStatus_DeepCopy X = deepCopyPtr (ActionExecutionStatus_DeepCopyInto X)"

definition AgentSpec_DeepCopyInto :: "ext_lib \<Rightarrow> copier" where
  "AgentSpec_DeepCopyInto X = deepCopyInto []"

definition AgentSpec_DeepCopy :: "ext_lib \<Rightarrow> copier" where
  "AgentSpec_DeepCopy X = deepCopyPtr (AgentSpec_DeepCopyInto X)"

definition PortSpec_DeepCopyInto :: "ext_lib \<Rightarrow> copier" where
  "PortSpec_DeepCopyInto X =
     deepCopyInto
       [(''Exposed'', ifNotNil (newPtr assign))]"

definition PortSpec_DeepCopy :: "ext_lib \<Rightarrow> copier" where
  "PortSpec_DeepCopy X = deepCopyPtr (PortSpec_DeepCopyInto X)"

definition EnvironmentSpec_DeepCopyInto :: "ext_lib \<Rightarrow> copier" where
  "EnvironmentSpec_DeepCopyInto X = deepCopyInto []"

definition EnvironmentSpec_DeepCopy :: "ext_lib \<Rightarrow> copier" where
  "EnvironmentSpec_DeepCopy X = deepCopyPtr (EnvironmentSpec_DeepCopyInto X)"

definition StorageSpec_DeepCopyInto :: "ext_lib \<Rightarrow> copier" where
  "StorageSpec_DeepCopyInto X = deepCopyInto []"

definition StorageSpec_DeepCopy :: "ext_lib \<Rightarrow> copier" where
  "StorageSpec_DeepCopy X = deepCopyPtr (StorageSpec_DeepCopyInto X)"

definition CapabilitiesSpec_DeepCopyInto :: "ext_lib \<Rightarrow> copier" where
  "CapabilitiesSpec_DeepCopyInto X = deepCopyInto []"

definition CapabilitiesSpec_DeepCopy :: "ext_lib \<Rightarrow> copier" where
  "CapabilitiesSpec_DeepCopy X = deepCopyPtr (CapabilitiesSpec_DeepCopyInto X)"

definition AgentMetricsSpec_DeepCopyInto :: "ext_lib \<Rightarrow> copier" where
  "AgentMetricsSpec_DeepCopyInto X = deepCopyInto []"

definition AgentMetricsSpec_DeepCopy :: "ext_lib \<Rightarrow> copier" where
  "AgentMetricsSpec_DeepCopy X = deepCopyPtr (AgentMetricsSpec_DeepCopyInto X)"

definition ServiceMonitorSpec_DeepCopyInto :: "ext_lib \<Rightarrow> copier" where
  "ServiceMonitorSpec_DeepCopyInto X = deepCopyInto []"

definition ServiceMonitorSpec_DeepCopy :: "ext_lib \<Rightarrow> copier" where
  "ServiceMonitorSpec_DeepCopy X = deepCopyPtr (ServiceMonitorSpec_DeepCopyInto X)"

definition ResourcesSpec_DeepCopyInto :: "ext_lib \<Rightarrow> copier" where
  "ResourcesSpec_DeepCopyInto X =
     deepCopyInto
       [(''ResourceRequirements'', ext_copy X ''corev1.ResourceRequirements''),
        (''Tiers'', ifNotNil (makeMap (ext_copy X ''corev1.ResourceRequirements'')))]"

definition ResourcesSpec_DeepCopy :: "ext_lib \<Rightarrow> copier" where
  "ResourcesSpec_DeepCopy X = deepCopyPtr (ResourcesSpec_DeepCopyInto X)"

definition GameProfileStatus_DeepCopyInto :: "ext_lib \<Rightarrow> copier" where
  "GameProfileStatus_DeepCopyInto X =
     deepCopyInto
       [(''Conditions'', ifNotNil (makeSlice (ext_copy X ''metav1.Condition'')))]"

definition GameProfileStatus_DeepCopy :: "ext_lib \<Rightarrow> copier" where
  "GameProfileStatus_DeepCopy X = deepCopyPtr (GameProfileStatus_DeepCopyInto X)"

definition LifecycleSpec_DeepCopyInto :: "ext_lib \<Rightarrow> copier" where
  "LifecycleSpec_DeepCopyInto X =
     deepCopyInto
       [(''AutoStart'', ifNotNil (newPtr assign))]"

definition LifecycleSpec_DeepCopy :: "ext_lib \<Rightarrow> copier" where
  "LifecycleSpec_DeepCopy X = deepCopyPtr (LifecycleSpec_DeepCopyInto X)"

definition SnapshotRef_DeepCopyInto :: "ext_lib \<Rightarrow> copier" where
  "SnapshotRef_DeepCopyInto X = deepCopyInto []"

definition SnapshotRef_DeepCopy :: "ext_lib \<Rightarrow> copier" where
  "SnapshotRef_DeepCopy X = deepCopyPtr (SnapshotRef_DeepCopyInto X)"

definition Endpoint_DeepCopyInto :: "ext_lib \<Rightarrow> copier" where
  "Endpoint_DeepCopyInto X = deepCopyInto []"

definition Endpoint_DeepCopy :: "ext_lib \<Rightarrow> copier" where
  "Endpoint_DeepCopy X = deepCopyPtr (Endpoint_DeepCopyInto X)"

definition RollingUpdateSpec_DeepCopyInto :: "ext_lib \<Rightarrow> copier" where
  "RollingUpdateSpec_DeepCopyInto X =
     deepCopyInto
       [(''MaxUnavailable'', ifNotNil (newPtr assign)), (''MaxSurge'', ifNotNil (newPtr assign))]"

definition RollingUpdateSpec_DeepCopy :: "ext_lib \<Rightarrow> copier" where
  "RollingUpdateSpec_DeepCopy X = deepCopyPtr (RollingUpdateSpec_DeepCopyInto X)"

definition GameServerTemplateMetadata_DeepCopyInto :: "ext_lib \<Rightarrow> copier" where
  "GameServerTemplateMetadata_DeepCopyInto X =
     deepCopyInto
       [(''Labels'', ifNotNil (makeMap assign)), (''Annotations'', ifNotNil (makeMap assign))]"

definition GameServerTemplateMetadata_DeepCopy :: "ext_lib \<Rightarrow> copier" where
  "GameServerTemplateMetadata_DeepCopy X = deepCopyPtr (GameServerTemplateMetadata_DeepCopyInto X)"

definition FleetGameServerSpec_DeepCopyInto :: "ext_lib \<Rightarrow> copier" where
  "FleetGameServerSpec_DeepCopyInto X =
     deepCopyInto
       [(''Env'', ifNotNil (makeMap assign))]"

definition FleetGameServerSpec_DeepCopy :: "ext_lib \<Rightarrow> copier" where
  "FleetGameServerSpec_DeepCopy X = deepCopyPtr (FleetGameServerSpec_DeepCopyInto X)"

definition GameServerFleetStatus_DeepCopyInto :: "ext_lib \<Rightarrow> copier" where
  "GameServerFleetStatus_DeepCopyInto X =
     deepCopyInto
       [(''Conditions'', ifNotNil (makeSlice (ext_copy X ''metav1.Condition'')))]"

definition GameServerFleetStatus_DeepCopy :: "ext_lib \<Rightarrow> copier" where
  "GameServerFleetStatus_DeepCopy X = deepCopyPtr (GameServerFleetStatus_DeepCopyInto X)"

definition SnapshotRetention_DeepCopyInto :: "ext_lib \<Rightarrow> copier" where
  "SnapshotRetention_DeepCopyInto X = deepCopyInto []"

definition SnapshotRetention_DeepCopy :: "ext_lib \<Rightarrow> copier" where
  "SnapshotRetention_DeepCopy X = deepCopyPtr (SnapshotRetention_DeepCopyInto X)"

definition SnapshotEntry_DeepCopyInto :: "ext_lib \<Rightarrow> copier" where
  "SnapshotEntry_DeepCopyInto X =
     deepCopyInto
       [(''CreatedAt'', ext_copy X ''metav1.Time'')]"

definition SnapshotEntry_DeepCopy :: "ext_lib \<Rightarrow> copier" where
  "SnapshotEntry_DeepCopy X = deepCopyPtr (SnapshotEntry_DeepCopyInto X)"

definition ActionDecl_DeepCopyInto :: "ext_lib \<Rightarrow> copier" where
  "ActionDecl_DeepCopyInto X =
     deepCopyInto
       [(''Params'', ifNotNil (makeMap assign))]"

definition ActionDecl_DeepCopy :: "ext_lib \<Rightarrow> copier" where
  "ActionDecl_DeepCopy X = deepCopyPtr (ActionDecl_DeepCopyInto X)"

definition ActionExecutionSpec_DeepCopyInto :: "ext_lib \<Rightarrow> copier" where
  "ActionExecutionSpec_DeepCopyInto X =
     deepCopyInto
       [(''TargetRef'', assign), (''Params'', ifNotNil (makeMap assign))]"

definition ActionExecutionSpec_DeepCopy :: "ext_lib \<Rightarrow> copier" where
  "ActionExecutionSpec_DeepCopy X = deepCopyPtr (ActionExecutionSpec_DeepCopyInto X)"

definition ObservabilitySpec_DeepCopyInto :: "ext_lib \<Rightarrow> copier" where
  "ObservabilitySpec_DeepCopyInto X =
     deepCopyInto
       [(''AgentMetrics'', ifNotNil (newPtr assign)), (''ServiceMonitor'', ifNotNil (newPtr assign))]"

definition ObservabilitySpec_DeepCopy :: "ext_lib \<Rightarrow> copier" where
  "ObservabilitySpec_DeepCopy X = deepCopyPtr (ObservabilitySpec_DeepCopyInto X)"

definition GameServerStorage_DeepCopyInto :: "ext_lib \<Rightarrow> copier" where
  "GameServerStorage_DeepCopyInto X =
     deepCopyInto
       [(''SnapshotRef'', ifNotNil (newPtr assign))]"

definition GameServerStorage_DeepCopy :: "ext_lib \<Rightarrow> copier" where
  "GameServerStorage_DeepCopy X = deepCopyPtr (GameServerStorage_DeepCopyInto X)"

definition GameServerStatus_DeepCopyInto :: "ext_lib \<Rightarrow> copier" where
  "GameServerStatus_DeepCopyInto X =
     deepCopyInto
       [(''LastActivity'', ifNotNil (newPtr (ext_copy X ''metav1.Time''))),
        (''Endpoints'', ifNotNil (makeSlice assign)),
        (''Conditions'', ifNotNil (makeSlice (ext_copy X ''metav1.Condition'')))]"

definition GameServerStatus_DeepCopy :: "ext_lib \<Rightarrow> copier" where
  "GameServerStatus_DeepCopy X = deepCopyPtr (GameServerStatus_DeepCopyInto X)"

definition FleetUpdateStrategy_DeepCopyInto :: "ext_lib \<Rightarrow> copier" where
  "FleetUpdateStrategy_DeepCopyInto X =
     deepCopyInto
       [(''RollingUpdate'', ifNotNil (newPtr (RollingUpdateSpec_DeepCopyInto X)))]"

definition FleetUpdateStrategy_DeepCopy :: "ext_lib \<Rightarrow> copier" where
  "FleetUpdateStrategy_DeepCopy X = deepCopyPtr (FleetUpdateStrategy_DeepCopyInto X)"

definition GameServerTemplateSpec_DeepCopyInto :: "ext_lib \<Rightarrow> copier" where
  "GameServerTemplateSpec_DeepCopyInto X =
     deepCopyInto
       [(''Metadata'', GameServerTemplateMetadata_DeepCopyInto X), (''Spec'', FleetGameServerSpec_DeepCopyInto X)]"

definition GameServerTemplateSpec_DeepCopy :: "ext_lib \<Rightarrow> copier" where
  "GameServerTemplateSpec_DeepCopy X = deepCopyPtr (GameServerTemplateSpec_DeepCopyInto X)"

definition GameSnapshotSpec_DeepCopyInto :: "ext_lib \<Rightarrow> copier" where
  "GameSnapshotSpec_DeepCopyInto X =
     deepCopyInto
       [(''Retention'', assign)]"

definition GameSnapshotSpec_DeepCopy :: "ext_lib \<Rightarrow> copier" where
  "GameSnapshotSpec_DeepCopy X = deepCopyPtr (GameSnapshotSpec_DeepCopyInto X)"

definition GameSnapshotStatus_DeepCopyInto :: "ext_lib \<Rightarrow> copier" where
  "GameSnapshotStatus_DeepCopyInto X =
     deepCopyInto
       [(''Snapshots'', ifNotNil (makeSlice (SnapshotEntry_DeepCopyInto X))),
        (''LastSnapshotAt'', ifNotNil (newPtr (ext_copy X ''metav1.Time''))),
        (''Conditions'', ifNotNil (makeSlice (ext_copy X ''metav1.Condition'')))]"

definition GameSnapshotStatus_DeepCopy :: "ext_lib \<Rightarrow> copier" where
  "GameSnapshotStatus_DeepCopy X = deepCopyPtr (GameSnapshotStatus_DeepCopyInto X)"

definition ActionExecution_DeepCopyInto :: "ext_lib \<Rightarrow> copier" where
  "ActionExecution_DeepCopyInto X =
     deepCopyInto
       [(''TypeMeta'', assign), (''ObjectMeta'', ext_copy X ''metav1.ObjectMeta''),
        (''Spec'', ActionExecutionSpec_DeepCopyInto X), (''Status'', ActionExecutionStatus_DeepCopyInto X)]"

definition ActionExecution_DeepCopy :: "ext_lib \<Rightarrow> copier" where
  "ActionExecution_DeepCopy X = deepCopyPtr (ActionExecution_DeepCopyInto X)"

definition ActionExecution_DeepCopyObject :: "ext_lib \<Rightarrow> copier" where
  "ActionExecution_DeepCopyObject X = deepCopyObject (ActionExecution_DeepCopyInto X)"

definition GameProfileSpec_DeepCopyInto :: "ext_lib \<Rightarrow> copier" where
  "GameProfileSpec_DeepCopyInto X =
     deepCopyInto
       [(''Ports'', ifNotNil (makeSlice (PortSpec_DeepCopyInto X))), (''Environment'', ifNotNil (makeSlice assign)),
        (''Resources'', ResourcesSpec_DeepCopyInto X), (''Storage'', assign), (''Agent'', assign),
        (''Actions'', ifNotNil (makeSlice (ActionDecl_DeepCopyInto X))), (''Capabilities'', ifNotNil (newPtr assign)),
        (''Observability'', ifNotNil (newPtr (ObservabilitySpec_DeepCopyInto X)))]"

definition GameProfileSpec_DeepCopy :: "ext_lib \<Rightarrow> copier" where
  "GameProfileSpec_DeepCopy X = deepCopyPtr (GameProfileSpec_DeepCopyInto X)"

definition GameServerSpec_DeepCopyInto :: "ext_lib \<Rightarrow> copier" where
  "GameServerSpec_DeepCopyInto X =
     deepCopyInto
       [(''Env'', ifNotNil (makeMap assign)), (''Storage'', GameServerStorage_DeepCopyInto X),
        (''Lifecycle'', LifecycleSpec_DeepCopyInto X),
        (''TopologySpreadConstraints'', ifNotNil (makeSlice (ext_copy X ''corev1.TopologySpreadConstraint'')))]"

definition GameServerSpec_DeepCopy :: "ext_lib \<Rightarrow> copier" where
  "GameServerSpec_DeepCopy X = deepCopyPtr (GameServerSpec_DeepCopyInto X)"

definition GameServerFleetSpec_DeepCopyInto :: "ext_lib \<Rightarrow> copier" where
  "GameServerFleetSpec_DeepCopyInto X =
     deepCopyInto
       [(''Template'', GameServerTemplateSpec_DeepCopyInto X),
        (''UpdateStrategy'', FleetUpdateStrategy_DeepCopyInto X),
        (''TopologySpreadConstraints'', ifNotNil (makeSlice (ext_copy X ''corev1.TopologySpreadConstraint'')))]"

definition GameServerFleetSpec_DeepCopy :: "ext_lib \<Rightarrow> copier" where
  "GameServerFleetSpec_DeepCopy X = deepCopyPtr (GameServerFleetSpec_DeepCopyInto X)"

definition GameSnapshot_DeepCopyInto :: "ext_lib \<Rightarrow> copier" where
  "GameSnapshot_DeepCopyInto X =
     deepCopyInto
       [(''TypeMeta'', assign), (''ObjectMeta'', ext_copy X ''metav1.ObjectMeta''), (''Spec'', assign),
        (''Status'', GameSnapshotStatus_DeepCopyInto X)]"

definition GameSnapshot_DeepCopy :: "ext_lib \<Rightarrow> copier" where
  "GameSnapshot_DeepCopy X = deepCopyPtr (GameSnapshot_DeepCopyInto X)"

definition GameSnapshot_DeepCopyObject :: "ext_lib \<Rightarrow> copier" where
  "GameSnapshot_DeepCopyObject X = deepCopyObject (GameSnapshot_DeepCopyInto X)"

definition ActionExecutionList_DeepCopyInto :: "ext_lib \<Rightarrow> copier" where
  "ActionExecutionList_DeepCopyInto X =
     deepCopyInto
       [(''TypeMeta'', assign), (''ListMeta'', ext_copy X ''metav1.ListMeta''),
        (''Items'', ifNotNil (makeSlice (ActionExecution_DeepCopyInto X)))]"

definition ActionExecutionList_DeepCopy :: "ext_lib \<Rightarrow> copier" where
  "ActionExecutionList_DeepCopy X = deepCopyPtr (ActionExecutionList_DeepCopyInto X)"

definition ActionExecutionList_DeepCopyObject :: "ext_lib \<Rightarrow> copier" where
  "ActionExecutionList_DeepCopyObject X = deepCopyObject (ActionExecutionList_DeepCopyInto X)"

definition GameProfile_DeepCopyInto :: "ext_lib \<Rightarrow> copier" where
  "GameProfile_DeepCopyInto X =
     deepCopyInto
       [(''TypeMeta'', assign), (''ObjectMeta'', ext_copy X ''metav1.ObjectMeta''),
        (''Spec'', GameProfileSpec_DeepCopyInto X), (''Status'', GameProfileStatus_DeepCopyInto X)]"

definition GameProfile_DeepCopy :: "ext_lib \<Rightarrow> copier" where
  "GameProfile_DeepCopy X = deepCopyPtr (GameProfile_DeepCopyInto X)"

definition GameProfile_DeepCopyObject :: "ext_lib \<Rightarrow> copier" where
  "GameProfile_DeepCopyObject X = deepCopyObject (GameProfile_DeepCopyInto X)"

definition GameServer_DeepCopyInto :: "ext_lib \<Rightarrow> copier" where
  "GameServer_DeepCopyInto X =
     deepCopyInto
       [(''TypeMeta'', assign), (''ObjectMeta'', ext_copy X ''metav1.ObjectMeta''),
        (''Spec'', GameServerSpec_DeepCopyInto X), (''Status'', GameServerStatus_DeepCopyInto X)]"

definition GameServer_DeepCopy :: "ext_lib \<Rightarrow> copier" where
  "GameServer_DeepCopy X = deepCopyPtr (GameServer_DeepCopyInto X)"

definition GameServer_DeepCopyObject :: "ext_lib \<Rightarrow> copier" where
  "GameServer_DeepCopyObject X = deepCopyObject (GameServer_DeepCopyInto X)"

definition GameServerFleet_DeepCopyInto :: "ext_lib \<Rightarrow> copier" where
  "GameServerFleet_DeepCopyInto X =
     deepCopyInto
       [(''TypeMeta'', assign), (''ObjectMeta'', ext_copy X ''metav1.ObjectMeta''),
        (''Spec'', GameServerFleetSpec_DeepCopyInto X), (''Status'', GameServerFleetStatus_DeepCopyInto X)]"

definition GameServerFleet_DeepCopy :: "ext_lib \<Rightarrow> copier" where
  "GameServerFleet_DeepCopy X = deepCopyPtr (GameServerFleet_DeepCopyInto X)"

definition GameServerFleet_DeepCopyObject :: "ext_lib \<Rightarrow> copier" where
  "GameServerFleet_DeepCopyObject X = deepCopyObject (GameServerFleet_DeepCopyInto X)"

definition GameSnapshotList_DeepCopyInto :: "ext_lib \<Rightarrow> copier" where
  "GameSnapshotList_DeepCopyInto X =
     deepCopyInto
       [(''TypeMeta'', assign), (''ListMeta'', ext_copy X ''metav1.ListMeta''),
        (''Items'', ifNotNil (makeSlice (GameSnapshot_DeepCopyInto X)))]"

definition GameSnapshotList_DeepCopy :: "ext_lib \<Rightarrow> copier" where
  "GameSnapshotList_DeepCopy X = deepCopyPtr (GameSnapshotList_DeepCopyInto X)"

definition GameSnapshotList_DeepCopyObject :: "ext_lib \<Rightarrow> copier" where
  "GameSnapshotList_DeepCopyObject X = deepCopyObject (GameSnapshotList_DeepCopyInto X)"

definition GameProfileList_DeepCopyInto :: "ext_lib \<Rightarrow> copier" where
  "GameProfileList_DeepCopyInto X =
     deepCopyInto
       [(''TypeMeta'', assign), (''ListMeta'', ext_copy X ''metav1.ListMeta''),
        (''Items'', ifNotNil (makeSlice (GameProfile_DeepCopyInto X)))]"

definition GameProfileList_DeepCopy :: "ext_lib \<Rightarrow> copier" where
  "GameProfileList_DeepCopy X = deepCopyPtr (GameProfileList_DeepCopyInto X)"

definition GameProfileList_DeepCopyObject :: "ext_lib \<Rightarrow> copier" where
  "GameProfileList_DeepCopyObject X = deepCopyObject (GameProfileList_DeepCopyInto X)"

definition GameServerList_DeepCopyInto :: "ext_lib \<Rightarrow> copier" where
  "GameServerList_DeepCopyInto X =
     deepCopyInto
       [(''TypeMeta'', assign), (''ListMeta'', ext_copy X ''metav1.ListMeta''),
        (''Items'', ifNotNil (makeSlice (GameServer_DeepCopyInto X)))]"

definition GameServerList_DeepCopy :: "ext_lib \<Rightarrow> copier" where
  "GameServerList_DeepCopy X = deepCopyPtr (GameServerList_DeepCopyInto X)"

definition GameServerList_DeepCopyObject :: "ext_lib \<Rightarrow> copier" where
  "GameServerList_DeepCopyObject X = deepCopyObject (GameServerList_DeepCopyInto X)"

definition GameServerFleetList_DeepCopyInto :: "ext_lib \<Rightarrow> copier" where
  "GameServerFleetList_DeepCopyInto X =
     deepCopyInto
       [(''TypeMeta'', assign), (''ListMeta'', ext_copy X ''metav1.ListMeta''),
        (''Items'', ifNotNil (makeSlice (GameServerFleet_DeepCopyInto X)))]"

definition GameServerFleetList_DeepCopy :: "ext_lib \<Rightarrow> copier" where
  "GameServerFleetList_DeepCopy X = deepCopyPtr (GameServerFleetList_DeepCopyInto X)"

definition GameServerFleetList_DeepCopyObject :: "ext_lib \<Rightarrow> copier" where
  "GameServerFleetList_DeepCopyObject X = deepCopyObject (GameServerFleetList_DeepCopyInto X)"

lemmas deepCopy_defs =
  ActionParamSchema_DeepCopy_def TargetRef_DeepCopy_def ActionExecutionStatus_DeepCopy_def
  AgentSpec_DeepCopy_def PortSpec_DeepCopy_def EnvironmentSpec_DeepCopy_def StorageSpec_DeepCopy_def
  CapabilitiesSpec_DeepCopy_def AgentMetricsSpec_DeepCopy_def ServiceMonitorSpec_DeepCopy_def
  ResourcesSpec_DeepCopy_def GameProfileStatus_DeepCopy_def LifecycleSpec_DeepCopy_def
  SnapshotRef_DeepCopy_def Endpoint_DeepCopy_def RollingUpdateSpec_DeepCopy_def
  GameServerTemplateMetadata_DeepCopy_def FleetGameServerSpec_DeepCopy_def GameServerFleetStatus_DeepCopy_def
  SnapshotRetention_DeepCopy_def SnapshotEntry_DeepCopy_def ActionDecl_DeepCopy_def
  ActionExecutionSpec_DeepCopy_def ObservabilitySpec_DeepCopy_def GameServerStorage_DeepCopy_def
  GameServerStatus_DeepCopy_def FleetUpdateStrategy_DeepCopy_def GameServerTemplateSpec_DeepCopy_def
  GameSnapshotSpec_DeepCopy_def GameSnapshotStatus_DeepCopy_def ActionExecution_DeepCopy_def
  GameProfileSpec_DeepCopy_def GameServerSpec_DeepCopy_def GameServerFleetSpec_DeepCopy_def
  GameSnapshot_DeepCopy_def ActionExecutionList_DeepCopy_def GameProfile_DeepCopy_def GameServer_DeepCopy_def
  GameServerFleet_DeepCopy_def GameSnapshotList_DeepCopy_def GameProfileList_DeepCopy_def
  GameServerList_DeepCopy_def GameServerFleetList_DeepCopy_def


section \<open>Every generated function copies deeply\<close>

text \<open>In the order of nesting: structs without other structs of this package first.\<close>

lemma deep_layer_1 [deep_rules]:
  assumes "ext_ok X"
  shows "deep X ActionParamSchema_type (ActionParamSchema_DeepCopyInto X)"
    "deep X TargetRef_type (TargetRef_DeepCopyInto X)"
    "deep X ActionExecutionStatus_type (ActionExecutionStatus_DeepCopyInto X)"
    "deep X AgentSpec_type (AgentSpec_DeepCopyInto X)"
    "deep X PortSpec_type (PortSpec_DeepCopyInto X)"
    "deep X EnvironmentSpec_type (EnvironmentSpec_DeepCopyInto X)"
    "deep X StorageSpec_type (StorageSpec_DeepCopyInto X)"
    "deep X CapabilitiesSpec_type (CapabilitiesSpec_DeepCopyInto X)"
    "deep X AgentMetricsSpec_type (AgentMetricsSpec_DeepCopyInto X)"
    "deep X ServiceMonitorSpec_type (ServiceMonitorSpec_DeepCopyInto X)"
    "deep X ResourcesSpec_type (ResourcesSpec_DeepCopyInto X)"
    "deep X GameProfileStatus_type (GameProfileStatus_DeepCopyInto X)"
    "deep X LifecycleSpec_type (LifecycleSpec_DeepCopyInto X)"
    "deep X SnapshotRef_type (SnapshotRef_DeepCopyInto X)"
    "deep X Endpoint_type (Endpoint_DeepCopyInto X)"
    "deep X RollingUpdateSpec_type (RollingUpdateSpec_DeepCopyInto X)"
    "deep X GameServerTemplateMetadata_type (GameServerTemplateMetadata_DeepCopyInto X)"
    "deep X FleetGameServerSpec_type (FleetGameServerSpec_DeepCopyInto X)"
    "deep X GameServerFleetStatus_type (GameServerFleetStatus_DeepCopyInto X)"
    "deep X SnapshotRetention_type (SnapshotRetention_DeepCopyInto X)"
    "deep X SnapshotEntry_type (SnapshotEntry_DeepCopyInto X)"
  unfolding ActionParamSchema_type_def TargetRef_type_def ActionExecutionStatus_type_def AgentSpec_type_def
    PortSpec_type_def EnvironmentSpec_type_def StorageSpec_type_def CapabilitiesSpec_type_def
    AgentMetricsSpec_type_def ServiceMonitorSpec_type_def ResourcesSpec_type_def GameProfileStatus_type_def
    LifecycleSpec_type_def SnapshotRef_type_def Endpoint_type_def RollingUpdateSpec_type_def
    GameServerTemplateMetadata_type_def FleetGameServerSpec_type_def GameServerFleetStatus_type_def
    SnapshotRetention_type_def SnapshotEntry_type_def
    ActionParamSchema_DeepCopyInto_def TargetRef_DeepCopyInto_def ActionExecutionStatus_DeepCopyInto_def
    AgentSpec_DeepCopyInto_def PortSpec_DeepCopyInto_def EnvironmentSpec_DeepCopyInto_def
    StorageSpec_DeepCopyInto_def CapabilitiesSpec_DeepCopyInto_def AgentMetricsSpec_DeepCopyInto_def
    ServiceMonitorSpec_DeepCopyInto_def ResourcesSpec_DeepCopyInto_def GameProfileStatus_DeepCopyInto_def
    LifecycleSpec_DeepCopyInto_def SnapshotRef_DeepCopyInto_def Endpoint_DeepCopyInto_def
    RollingUpdateSpec_DeepCopyInto_def GameServerTemplateMetadata_DeepCopyInto_def
    FleetGameServerSpec_DeepCopyInto_def GameServerFleetStatus_DeepCopyInto_def
    SnapshotRetention_DeepCopyInto_def SnapshotEntry_DeepCopyInto_def
  by (rule deep_struct [OF assms]; simp add: covers_def plain_resources deep_rules assms)+

lemma deep_layer_2 [deep_rules]:
  assumes "ext_ok X"
  shows "deep X ActionDecl_type (ActionDecl_DeepCopyInto X)"
    "deep X ActionExecutionSpec_type (ActionExecutionSpec_DeepCopyInto X)"
    "deep X ObservabilitySpec_type (ObservabilitySpec_DeepCopyInto X)"
    "deep X GameServerStorage_type (GameServerStorage_DeepCopyInto X)"
    "deep X GameServerStatus_type (GameServerStatus_DeepCopyInto X)"
    "deep X FleetUpdateStrategy_type (FleetUpdateStrategy_DeepCopyInto X)"
    "deep X GameServerTemplateSpec_type (GameServerTemplateSpec_DeepCopyInto X)"
    "deep X GameSnapshotSpec_type (GameSnapshotSpec_DeepCopyInto X)"
    "deep X GameSnapshotStatus_type (GameSnapshotStatus_DeepCopyInto X)"
  unfolding ActionDecl_type_def ActionExecutionSpec_type_def ObservabilitySpec_type_def GameServerStorage_type_def
    GameServerStatus_type_def FleetUpdateStrategy_type_def GameServerTemplateSpec_type_def
    GameSnapshotSpec_type_def GameSnapshotStatus_type_def
    ActionDecl_DeepCopyInto_def ActionExecutionSpec_DeepCopyInto_def ObservabilitySpec_DeepCopyInto_def
    GameServerStorage_DeepCopyInto_def GameServerStatus_DeepCopyInto_def FleetUpdateStrategy_DeepCopyInto_def
    GameServerTemplateSpec_DeepCopyInto_def GameSnapshotSpec_DeepCopyInto_def GameSnapshotStatus_DeepCopyInto_def
  by (rule deep_struct [OF assms]; simp add: covers_def plain_resources deep_rules assms)+

lemma deep_layer_3 [deep_rules]:
  assumes "ext_ok X"
  shows "deep X ActionExecution_type (ActionExecution_DeepCopyInto X)"
    "deep X GameProfileSpec_type (GameProfileSpec_DeepCopyInto X)"
    "deep X GameServerSpec_type (GameServerSpec_DeepCopyInto X)"
    "deep X GameServerFleetSpec_type (GameServerFleetSpec_DeepCopyInto X)"
    "deep X GameSnapshot_type (GameSnapshot_DeepCopyInto X)"
  unfolding ActionExecution_type_def GameProfileSpec_type_def GameServerSpec_type_def GameServerFleetSpec_type_def
    GameSnapshot_type_def
    ActionExecution_DeepCopyInto_def GameProfileSpec_DeepCopyInto_def GameServerSpec_DeepCopyInto_def
    GameServerFleetSpec_DeepCopyInto_def GameSnapshot_DeepCopyInto_def
  by (rule deep_struct [OF assms]; simp add: covers_def plain_resources deep_rules assms)+

lemma deep_layer_4 [deep_rules]:
  assumes "ext_ok X"
  shows "deep X ActionExecutionList_type (ActionExecutionList_DeepCopyInto X)"
    "deep X GameProfile_type (GameProfile_DeepCopyInto X)"
    "deep X GameServer_type (GameServer_DeepCopyInto X)"
    "deep X GameServerFleet_type (GameServerFleet_DeepCopyInto X)"
    "deep X GameSnapshotList_type (GameSnapshotList_DeepCopyInto X)"
  unfolding ActionExecutionList_type_def GameProfile_type_def GameServer_type_def GameServerFleet_type_def
    GameSnapshotList_type_def
    ActionExecutionList_DeepCopyInto_def GameProfile_DeepCopyInto_def GameServer_DeepCopyInto_def
    GameServerFleet_DeepCopyInto_def GameSnapshotList_DeepCopyInto_def
  by (rule deep_struct [OF assms]; simp add: covers_def plain_resources deep_rules assms)+

lemma deep_layer_5 [deep_rules]:
  assumes "ext_ok X"
  shows "deep X GameProfileList_type (GameProfileList_DeepCopyInto X)"
    "deep X GameServerList_type (GameServerList_DeepCopyInto X)"
    "deep X GameServerFleetList_type (GameServerFleetList_DeepCopyInto X)"
  unfolding GameProfileList_type_def GameServerList_type_def GameServerFleetList_type_def
    GameProfileList_DeepCopyInto_def GameServerList_DeepCopyInto_def GameServerFleetList_DeepCopyInto_def
  by (rule deep_struct [OF assms]; simp add: covers_def plain_resources deep_rules assms)+


section \<open>Copies of the API objects\<close>

text \<open>The kinds that are stored in the API server and their lists satisfy the interface of deep copies.\<close>

interpretation action_execution_copy: deep_copy ActionExecution_type ActionExecution_DeepCopyInto
  by unfold_locales (rule deep_rules)

interpretation game_snapshot_copy: deep_copy GameSnapshot_type GameSnapshot_DeepCopyInto
  by unfold_locales (rule deep_rules)

interpretation action_execution_list_copy: deep_copy ActionExecutionList_type ActionExecutionList_DeepCopyInto
  by unfold_locales (rule deep_rules)

interpretation game_profile_copy: deep_copy GameProfile_type GameProfile_DeepCopyInto
  by unfold_locales (rule deep_rules)

interpretation game_server_copy: deep_copy GameServer_type GameServer_DeepCopyInto
  by unfold_locales (rule deep_rules)

interpretation game_server_fleet_copy: deep_copy GameServerFleet_type GameServerFleet_DeepCopyInto
  by unfold_locales (rule deep_rules)

interpretation game_snapshot_list_copy: deep_copy GameSnapshotList_type GameSnapshotList_DeepCopyInto
  by unfold_locales (rule deep_rules)

interpretation game_profile_list_copy: deep_copy GameProfileList_type GameProfileList_DeepCopyInto
  by unfold_locales (rule deep_rules)

interpretation game_server_list_copy: deep_copy GameServerList_type GameServerList_DeepCopyInto
  by unfold_locales (rule deep_rules)

interpretation game_server_fleet_list_copy: deep_copy GameServerFleetList_type GameServerFleetList_DeepCopyInto
  by unfold_locales (rule deep_rules)

text \<open>All generated \<^verbatim>\<open>DeepCopy\<close> functions with the types they are for.\<close>

definition deepCopies :: "ext_lib \<Rightarrow> (gtype \<times> copier) list" where
  "deepCopies X =
     [(ActionParamSchema_type, ActionParamSchema_DeepCopy X), (TargetRef_type, TargetRef_DeepCopy X),
      (ActionExecutionStatus_type, ActionExecutionStatus_DeepCopy X), (AgentSpec_type, AgentSpec_DeepCopy X),
      (PortSpec_type, PortSpec_DeepCopy X), (EnvironmentSpec_type, EnvironmentSpec_DeepCopy X),
      (StorageSpec_type, StorageSpec_DeepCopy X), (CapabilitiesSpec_type, CapabilitiesSpec_DeepCopy X),
      (AgentMetricsSpec_type, AgentMetricsSpec_DeepCopy X), (ServiceMonitorSpec_type, ServiceMonitorSpec_DeepCopy X),
      (ResourcesSpec_type, ResourcesSpec_DeepCopy X), (GameProfileStatus_type, GameProfileStatus_DeepCopy X),
      (LifecycleSpec_type, LifecycleSpec_DeepCopy X), (SnapshotRef_type, SnapshotRef_DeepCopy X),
      (Endpoint_type, Endpoint_DeepCopy X), (RollingUpdateSpec_type, RollingUpdateSpec_DeepCopy X),
      (GameServerTemplateMetadata_type, GameServerTemplateMetadata_DeepCopy X),
      (FleetGameServerSpec_type, FleetGameServerSpec_DeepCopy X),
      (GameServerFleetStatus_type, GameServerFleetStatus_DeepCopy X),
      (SnapshotRetention_type, SnapshotRetention_DeepCopy X), (SnapshotEntry_type, SnapshotEntry_DeepCopy X),
      (ActionDecl_type, ActionDecl_DeepCopy X), (ActionExecutionSpec_type, ActionExecutionSpec_DeepCopy X),
      (ObservabilitySpec_type, ObservabilitySpec_DeepCopy X), (GameServerStorage_type, GameServerStorage_DeepCopy X),
      (GameServerStatus_type, GameServerStatus_DeepCopy X),
      (FleetUpdateStrategy_type, FleetUpdateStrategy_DeepCopy X),
      (GameServerTemplateSpec_type, GameServerTemplateSpec_DeepCopy X),
      (GameSnapshotSpec_type, GameSnapshotSpec_DeepCopy X), (GameSnapshotStatus_type, GameSnapshotStatus_DeepCopy X),
      (ActionExecution_type, ActionExecution_DeepCopy X), (GameProfileSpec_type, GameProfileSpec_DeepCopy X),
      (GameServerSpec_type, GameServerSpec_DeepCopy X), (GameServerFleetSpec_type, GameServerFleetSpec_DeepCopy X),
      (GameSnapshot_type, GameSnapshot_DeepCopy X), (ActionExecutionList_type, ActionExecutionList_DeepCopy X),
      (GameProfile_type, GameProfile_DeepCopy X), (GameServer_type, GameServer_DeepCopy X),
      (GameServerFleet_type, GameServerFleet_DeepCopy X), (GameSnapshotList_type, GameSnapshotList_DeepCopy X),
      (GameProfileList_type, GameProfileList_DeepCopy X), (GameServerList_type, GameServerList_DeepCopy X),
      (GameServerFleetList_type, GameServerFleetList_DeepCopy X)]"

lemma deepCopies_deep: "ext_ok X \<Longrightarrow> list_all (\<lambda>(ty, copy). deep X (TPtr ty) copy) (deepCopies X)"
  by (simp add: deepCopies_def deepCopy_defs deepCopyPtr_new deep_rules)

text \<open>
  C21. A deep copy shares nothing with its original. For every struct of the API, whatever object a pointer refers to:
  the generated function returns a pointer to an object of the same content, changes no cell that existed before, and
  the two objects have no cell in common, so that nothing written through the one is ever seen through the other. For that,
  every field with a pointer, a slice or a map in it has its statement in the generated code.
\<close>

theorem deep_copies_independent:
  assumes "ext_ok X" "(ty, copy) \<in> set (deepCopies X)" "holds X h (TPtr ty) p a S" "S \<subseteq> {..<lim h}"
  shows "\<exists>p' h'. run_state (copy p) h = (p', h') \<and> extends h h' \<and> independent X h' (TPtr ty) a p p'"
proof (rule deep_independent [OF assms(1) _ assms(3,4)])
  show "deep X (TPtr ty) copy" using deepCopies_deep [OF assms(1)] assms(2) by (auto simp: list_all_iff)
qed

text \<open>Types of other packages that are values, and the lifecycle of a server with \<^verbatim>\<open>autoStart\<close> set.\<close>

definition ex_ext :: ext_lib where
  "ex_ext = \<lparr>ext_holds = (\<lambda>n h v a S. v = GPrim (ScStr a) \<and> S = {}), ext_copy = (\<lambda>n. assign)\<rparr>"

definition ex_heap :: heap where
  "ex_heap =
     \<lparr>mem = [0 \<mapsto> CVal (GPrim (ScBool True)),
             1 \<mapsto> CVal (GStruct [(''IdleTimeoutSeconds'', GPrim (ScInt 600)), (''AutoStart'', GRef 0)])], lim = 2\<rparr>"

lemma ex_ext_ok: "ext_ok ex_ext"
  by (auto simp: ext_ok_def ex_ext_def assign_def)

lemma ex_heap_holds:
  "holds ex_ext ex_heap (TPtr LifecycleSpec_type) (GRef 1)
     (LPtr (LStruct [(''IdleTimeoutSeconds'', LPrim (ScInt 600)), (''AutoStart'', LPtr (LPrim (ScBool True)))])) {1, 0}"
proof -
  let ?F = "[(''IdleTimeoutSeconds'', TPrim), (''AutoStart'', TPtr TPrim)]"
  let ?as = "[LPrim (ScInt 600), LPtr (LPrim (ScBool True))]"
  have "holds ex_ext ex_heap (TPtr TPrim) (GRef 0) (LPtr (LPrim (ScBool True))) (insert 0 {})"
    by (rule holds.ptr [OF _ holds.prim]) (simp add: ex_heap_def)
  then have "\<forall>i<length ?F. holds ex_ext ex_heap (snd (?F ! i))
      (snd ([(''IdleTimeoutSeconds'', GPrim (ScInt 600)), (''AutoStart'', GRef 0)] ! i)) (?as ! i) (if i = 0 then {} else {0})"
    by (auto simp: less_Suc_eq intro: holds.prim)
  then have "holds ex_ext ex_heap LifecycleSpec_type
      (GStruct [(''IdleTimeoutSeconds'', GPrim (ScInt 600)), (''AutoStart'', GRef 0)])
      (LStruct (zip (map fst ?F) ?as)) (\<Union>i<length ?F. if i = 0 then {} else {0})"
    unfolding LifecycleSpec_type_def by (intro holds.struct) simp_all
  moreover have "(\<Union>i<length ?F. if i = 0 then {} else {0}) = {0 :: nat}" by (auto simp: less_Suc_eq)
  ultimately show ?thesis by (intro holds.ptr) (simp_all add: ex_heap_def)
qed

theorem deep_copies_independent_witness:
  "\<exists>p' h'. run_state (LifecycleSpec_DeepCopy ex_ext (GRef 1)) ex_heap = (p', h') \<and> extends ex_heap h' \<and>
     independent ex_ext h' (TPtr LifecycleSpec_type)
       (LPtr (LStruct [(''IdleTimeoutSeconds'', LPrim (ScInt 600)), (''AutoStart'', LPtr (LPrim (ScBool True)))])) (GRef 1) p'"
  using deep_copies_independent [OF ex_ext_ok _ ex_heap_holds, of "LifecycleSpec_DeepCopy ex_ext"]
  by (auto simp: deepCopies_def ex_heap_def)

end
