(* ===== verification/Cloud_Operations.thy ===== *)
theory Cloud_Operations
  imports Cloud_Transport
begin

text \<open>
  The rest of the generated client of the cloud API (\<^verbatim>\<open>internal/cloudapi/gen/client.gen.go\<close>): the models, request
  builders and response parsers of the operations that the hand-written client does not call, and all operations of the
  API against its OpenAPI document. One request has a query parameter; the query is then part of its path.
\<close>

section \<open>Models\<close>

record CreateClusterRequest =
  ccr_ApiKey :: string
  ccr_CapacityMax :: "int option"
  ccr_ClusterFingerprint :: "string option"
  ccr_ControlplaneUrl :: string
  ccr_DedicatedTenantId :: "string option"
  ccr_Name :: string
  ccr_Region :: "string option"

definition createClusterJSON :: "CreateClusterRequest \<Rightarrow> json" where
  "createClusterJSON req =
     JObj ([(''apiKey'', JStr (ccr_ApiKey req))] @ ptr_field ''capacityMax'' JNum (ccr_CapacityMax req) @
       ptr_field ''clusterFingerprint'' JStr (ccr_ClusterFingerprint req) @
       [(''controlplaneUrl'', JStr (ccr_ControlplaneUrl req))] @
       ptr_field ''dedicatedTenantId'' JStr (ccr_DedicatedTenantId req) @ [(''name'', JStr (ccr_Name req))] @
       ptr_field ''region'' JStr (ccr_Region req))"

record HeartbeatRequest =
  hbr_CapacityMax :: "int option"
  hbr_ClusterFingerprint :: "string option"

definition heartbeatJSON :: "HeartbeatRequest \<Rightarrow> json" where
  "heartbeatJSON req =
     JObj (ptr_field ''capacityMax'' JNum (hbr_CapacityMax req) @
       ptr_field ''clusterFingerprint'' JStr (hbr_ClusterFingerprint req))"

record AcceptInviteRequest =
  air_Token :: string

definition acceptInviteJSON :: "AcceptInviteRequest \<Rightarrow> json" where
  "acceptInviteJSON req =
     JObj ([(''token'', JStr (air_Token req))])"

record CreateTenantRequest =
  ctq_Name :: string
  ctq_Slug :: string

definition createTenantJSON :: "CreateTenantRequest \<Rightarrow> json" where
  "createTenantJSON req =
     JObj ([(''name'', JStr (ctq_Name req))] @ [(''slug'', JStr (ctq_Slug req))])"

record UpdateTenantRequest =
  utr_Name :: string

definition updateTenantJSON :: "UpdateTenantRequest \<Rightarrow> json" where
  "updateTenantJSON req =
     JObj ([(''name'', JStr (utr_Name req))])"

record CheckoutRequest =
  chr_PlanId :: string

definition checkoutJSON :: "CheckoutRequest \<Rightarrow> json" where
  "checkoutJSON req =
     JObj ([(''planId'', JStr (chr_PlanId req))])"

record CreateInviteRequest =
  cir_Email :: string
  cir_Role :: string

definition createInviteJSON :: "CreateInviteRequest \<Rightarrow> json" where
  "createInviteJSON req =
     JObj ([(''email'', JStr (cir_Email req))] @ [(''role'', JStr (cir_Role req))])"

record AddMemberRequest =
  amr_Email :: "string option"
  amr_Role :: string
  amr_UserSub :: string

definition addMemberJSON :: "AddMemberRequest \<Rightarrow> json" where
  "addMemberJSON req =
     JObj (ptr_field ''email'' JStr (amr_Email req) @ [(''role'', JStr (amr_Role req))] @
       [(''userSub'', JStr (amr_UserSub req))])"

record UpdatePlanPricesRequest =
  upp_StripeMeteredPriceId :: "string option"
  upp_StripePriceId :: "string option"

definition updatePlanPricesJSON :: "UpdatePlanPricesRequest \<Rightarrow> json" where
  "updatePlanPricesJSON req =
     JObj (ptr_field ''stripeMeteredPriceId'' JStr (upp_StripeMeteredPriceId req) @
       ptr_field ''stripePriceId'' JStr (upp_StripePriceId req))"

record CloudCluster =
  clu_CapacityMax :: "int option"
  clu_ControlplaneUrl :: string
  clu_DedicatedTenantId :: "string option"
  clu_Healthy :: "bool option"
  clu_Id :: string
  clu_LastHeartbeat :: "time option"
  clu_Name :: string
  clu_Region :: "string option"

definition cloudCluster :: "json \<Rightarrow> CloudCluster" where
  "cloudCluster j =
     \<lparr>clu_CapacityMax = num_at ''capacityMax'' j, clu_ControlplaneUrl = str_or (str_at ''controlplaneUrl'' j),
      clu_DedicatedTenantId = str_at ''dedicatedTenantId'' j, clu_Healthy = bool_at ''healthy'' j,
      clu_Id = str_or (str_at ''id'' j), clu_LastHeartbeat = time_at ''lastHeartbeat'' j,
      clu_Name = str_or (str_at ''name'' j), clu_Region = str_at ''region'' j\<rparr>"

record CloudMembership =
  mem_CreatedAt :: "time option"
  mem_Email :: "string option"
  mem_Role :: string
  mem_TenantId :: string
  mem_UserSub :: string

definition cloudMembership :: "json \<Rightarrow> CloudMembership" where
  "cloudMembership j =
     \<lparr>mem_CreatedAt = time_at ''created_at'' j, mem_Email = str_at ''email'' j, mem_Role = str_or (str_at ''role'' j),
      mem_TenantId = str_or (str_at ''tenant_id'' j), mem_UserSub = str_or (str_at ''user_sub'' j)\<rparr>"

record CloudAuditEvent =
  aev_Action :: string
  aev_CreatedAt :: "time option"
  aev_Id :: int
  aev_Payload :: "string option"
  aev_Target :: "string option"
  aev_TenantId :: string
  aev_UserSub :: "string option"

definition cloudAuditEvent :: "json \<Rightarrow> CloudAuditEvent" where
  "cloudAuditEvent j =
     \<lparr>aev_Action = str_or (str_at ''action'' j), aev_CreatedAt = time_at ''created_at'' j,
      aev_Id = (case num_at ''id'' j of None \<Rightarrow> 0 | Some n \<Rightarrow> n),
      aev_Payload = str_at ''payload'' j, aev_Target = str_at ''target'' j,
      aev_TenantId = str_or (str_at ''tenant_id'' j), aev_UserSub = str_at ''user_sub'' j\<rparr>"

record CloudInvoice =
  ivc_AmountDueCents :: "int option"
  ivc_CreatedAt :: "time option"
  ivc_Currency :: "string option"
  ivc_Id :: string
  ivc_Number :: "string option"
  ivc_PdfUrl :: "string option"
  ivc_PeriodEnd :: "time option"
  ivc_PeriodStart :: "time option"
  ivc_Status :: "string option"
  ivc_TenantId :: string

definition cloudInvoice :: "json \<Rightarrow> CloudInvoice" where
  "cloudInvoice j =
     \<lparr>ivc_AmountDueCents = num_at ''amount_due_cents'' j, ivc_CreatedAt = time_at ''created_at'' j,
      ivc_Currency = str_at ''currency'' j, ivc_Id = str_or (str_at ''id'' j), ivc_Number = str_at ''number'' j,
      ivc_PdfUrl = str_at ''pdf_url'' j, ivc_PeriodEnd = time_at ''period_end'' j,
      ivc_PeriodStart = time_at ''period_start'' j, ivc_Status = str_at ''status'' j,
      ivc_TenantId = str_or (str_at ''tenant_id'' j)\<rparr>"

record CloudInvite =
  ivt_AcceptedAt :: "time option"
  ivt_CreatedAt :: "time option"
  ivt_DevToken :: "string option"
  ivt_Email :: string
  ivt_ExpiresAt :: time
  ivt_Id :: string
  ivt_InvitedBy :: string
  ivt_Role :: string
  ivt_TenantId :: string

definition cloudInvite :: "json \<Rightarrow> CloudInvite" where
  "cloudInvite j =
     \<lparr>ivt_AcceptedAt = time_at ''accepted_at'' j, ivt_CreatedAt = time_at ''created_at'' j,
      ivt_DevToken = str_at ''devToken'' j, ivt_Email = str_or (str_at ''email'' j),
      ivt_ExpiresAt = (case time_at ''expires_at'' j of None \<Rightarrow> zeroTime | Some t \<Rightarrow> t),
      ivt_Id = str_or (str_at ''id'' j), ivt_InvitedBy = str_or (str_at ''invited_by'' j),
      ivt_Role = str_or (str_at ''role'' j), ivt_TenantId = str_or (str_at ''tenant_id'' j)\<rparr>"

definition cloudRedirectURL :: "json \<Rightarrow> string" where
  "cloudRedirectURL j = str_or (str_at ''url'' j)"

text \<open>Anonymous structs behind pointers are records of their own, or their only field.\<close>

record cloud_profile_spec =
  cps_Actions :: "CloudAction list option"
  cps_DisplayName :: "string option"
  cps_Image :: "string option"

record CloudGameProfile =
  cgp_Metadata :: "string option option"
  cgp_Spec :: "cloud_profile_spec option"

definition cloudGameProfile :: "json \<Rightarrow> CloudGameProfile" where
  "cloudGameProfile j =
     \<lparr>cgp_Metadata = map_option (str_at ''name'') (at ''metadata'' j),
      cgp_Spec = map_option (\<lambda>s. \<lparr>cps_Actions = map_option (map cloudAction) (list_at ''actions'' s),
        cps_DisplayName = str_at ''displayName'' s, cps_Image = str_at ''image'' s\<rparr>) (at ''spec'' j)\<rparr>"

record cloud_execution_spec =
  ces_ActionName :: "string option"
  ces_Caller :: "string option"
  ces_Params :: "labels option"

record cloud_execution_status =
  cet_CompletedAt :: "time option"
  cet_Error :: "string option"
  cet_Result :: "string option"
  cet_StartedAt :: "time option"
  cet_State :: "string option"

record CloudExecution =
  cex_Metadata :: "(string option \<times> string option) option"
  cex_Spec :: "cloud_execution_spec option"
  cex_Status :: "cloud_execution_status option"

definition cloudExecution :: "json \<Rightarrow> CloudExecution" where
  "cloudExecution j =
     \<lparr>cex_Metadata = map_option (\<lambda>m. (str_at ''name'' m, str_at ''namespace'' m)) (at ''metadata'' j),
      cex_Spec = map_option (\<lambda>s. \<lparr>ces_ActionName = str_at ''actionName'' s, ces_Caller = str_at ''caller'' s,
        ces_Params = map_at ''params'' s\<rparr>) (at ''spec'' j),
      cex_Status = map_option (\<lambda>s. \<lparr>cet_CompletedAt = time_at ''completedAt'' s, cet_Error = str_at ''error'' s,
        cet_Result = str_at ''result'' s, cet_StartedAt = time_at ''startedAt'' s, cet_State = str_at ''state'' s\<rparr>)
        (at ''status'' j)\<rparr>"


section \<open>Requests\<close>

definition cloudNewAdminListClustersRequest :: "client_lib \<Rightarrow> string \<Rightarrow> kerr + out_request" where
  "cloudNewAdminListClustersRequest C server =
     newRequest C server ''GET'' ''/api/v1/admin/clusters''
       [] None"

definition cloudNewAdminCreateClusterRequestWithBody ::
    "client_lib \<Rightarrow> string \<Rightarrow> string \<Rightarrow> string \<Rightarrow> kerr + out_request" where
  "cloudNewAdminCreateClusterRequestWithBody C server contentType body =
     newRequest C server ''POST'' ''/api/v1/admin/clusters''
       [] (Some (contentType, body))"

definition cloudNewAdminCreateClusterRequest :: "client_lib \<Rightarrow> string \<Rightarrow> CreateClusterRequest \<Rightarrow> kerr + out_request" where
  "cloudNewAdminCreateClusterRequest C server body =
     withJSON C (createClusterJSON body) (cloudNewAdminCreateClusterRequestWithBody C server)"

definition cloudNewAdminDeleteClusterRequest :: "client_lib \<Rightarrow> string \<Rightarrow> string \<Rightarrow> kerr + out_request" where
  "cloudNewAdminDeleteClusterRequest C server clusterID =
     newRequest C server ''DELETE'' ''/api/v1/admin/clusters/%s''
       [(''clusterID'', clusterID)] None"

definition cloudNewAdminUpdatePlanPricesRequestWithBody ::
    "client_lib \<Rightarrow> string \<Rightarrow> string \<Rightarrow> string \<Rightarrow> string \<Rightarrow> kerr + out_request" where
  "cloudNewAdminUpdatePlanPricesRequestWithBody C server planID contentType body =
     newRequest C server ''PUT'' ''/api/v1/admin/plans/%s''
       [(''planID'', planID)] (Some (contentType, body))"

definition cloudNewAdminUpdatePlanPricesRequest :: "client_lib \<Rightarrow> string \<Rightarrow> string \<Rightarrow> UpdatePlanPricesRequest \<Rightarrow> kerr + out_request" where
  "cloudNewAdminUpdatePlanPricesRequest C server planID body =
     withJSON C (updatePlanPricesJSON body) (cloudNewAdminUpdatePlanPricesRequestWithBody C server planID)"

definition cloudNewStripeWebhookRequest :: "client_lib \<Rightarrow> string \<Rightarrow> kerr + out_request" where
  "cloudNewStripeWebhookRequest C server =
     newRequest C server ''POST'' ''/api/v1/billing/webhook''
       [] None"

definition cloudNewRegisterClusterRequestWithBody ::
    "client_lib \<Rightarrow> string \<Rightarrow> string \<Rightarrow> string \<Rightarrow> kerr + out_request" where
  "cloudNewRegisterClusterRequestWithBody C server contentType body =
     newRequest C server ''POST'' ''/api/v1/clusters/register''
       [] (Some (contentType, body))"

definition cloudNewRegisterClusterRequest :: "client_lib \<Rightarrow> string \<Rightarrow> CreateClusterRequest \<Rightarrow> kerr + out_request" where
  "cloudNewRegisterClusterRequest C server body =
     withJSON C (createClusterJSON body) (cloudNewRegisterClusterRequestWithBody C server)"

definition cloudNewClusterHeartbeatRequestWithBody ::
    "client_lib \<Rightarrow> string \<Rightarrow> string \<Rightarrow> string \<Rightarrow> string \<Rightarrow> kerr + out_request" where
  "cloudNewClusterHeartbeatRequestWithBody C server name contentType body =
     newRequest C server ''POST'' ''/api/v1/clusters/%s/heartbeat''
       [(''name'', name)] (Some (contentType, body))"

definition cloudNewClusterHeartbeatRequest :: "client_lib \<Rightarrow> string \<Rightarrow> string \<Rightarrow> HeartbeatRequest \<Rightarrow> kerr + out_request" where
  "cloudNewClusterHeartbeatRequest C server name body =
     withJSON C (heartbeatJSON body) (cloudNewClusterHeartbeatRequestWithBody C server name)"

definition cloudNewAcceptInviteRequestWithBody ::
    "client_lib \<Rightarrow> string \<Rightarrow> string \<Rightarrow> string \<Rightarrow> kerr + out_request" where
  "cloudNewAcceptInviteRequestWithBody C server contentType body =
     newRequest C server ''POST'' ''/api/v1/invites/accept''
       [] (Some (contentType, body))"

definition cloudNewAcceptInviteRequest :: "client_lib \<Rightarrow> string \<Rightarrow> AcceptInviteRequest \<Rightarrow> kerr + out_request" where
  "cloudNewAcceptInviteRequest C server body =
     withJSON C (acceptInviteJSON body) (cloudNewAcceptInviteRequestWithBody C server)"

definition cloudNewListRegionsRequest :: "client_lib \<Rightarrow> string \<Rightarrow> kerr + out_request" where
  "cloudNewListRegionsRequest C server =
     newRequest C server ''GET'' ''/api/v1/regions''
       [] None"

definition cloudNewCreateTenantRequestWithBody ::
    "client_lib \<Rightarrow> string \<Rightarrow> string \<Rightarrow> string \<Rightarrow> kerr + out_request" where
  "cloudNewCreateTenantRequestWithBody C server contentType body =
     newRequest C server ''POST'' ''/api/v1/tenants''
       [] (Some (contentType, body))"

definition cloudNewCreateTenantRequest :: "client_lib \<Rightarrow> string \<Rightarrow> CreateTenantRequest \<Rightarrow> kerr + out_request" where
  "cloudNewCreateTenantRequest C server body =
     withJSON C (createTenantJSON body) (cloudNewCreateTenantRequestWithBody C server)"

definition cloudNewGetTenantRequest :: "client_lib \<Rightarrow> string \<Rightarrow> string \<Rightarrow> kerr + out_request" where
  "cloudNewGetTenantRequest C server tenantID =
     newRequest C server ''GET'' ''/api/v1/tenants/%s''
       [(''tenantID'', tenantID)] None"

definition cloudNewUpdateTenantRequestWithBody ::
    "client_lib \<Rightarrow> string \<Rightarrow> string \<Rightarrow> string \<Rightarrow> string \<Rightarrow> kerr + out_request" where
  "cloudNewUpdateTenantRequestWithBody C server tenantID contentType body =
     newRequest C server ''PATCH'' ''/api/v1/tenants/%s''
       [(''tenantID'', tenantID)] (Some (contentType, body))"

definition cloudNewUpdateTenantRequest :: "client_lib \<Rightarrow> string \<Rightarrow> string \<Rightarrow> UpdateTenantRequest \<Rightarrow> kerr + out_request" where
  "cloudNewUpdateTenantRequest C server tenantID body =
     withJSON C (updateTenantJSON body) (cloudNewUpdateTenantRequestWithBody C server tenantID)"

definition cloudNewListAuditRequest :: "client_lib \<Rightarrow> string \<Rightarrow> string \<Rightarrow> kerr + out_request" where
  "cloudNewListAuditRequest C server tenantID =
     newRequest C server ''GET'' ''/api/v1/tenants/%s/audit''
       [(''tenantID'', tenantID)] None"

definition cloudNewCreateCheckoutRequestWithBody ::
    "client_lib \<Rightarrow> string \<Rightarrow> string \<Rightarrow> string \<Rightarrow> string \<Rightarrow> kerr + out_request" where
  "cloudNewCreateCheckoutRequestWithBody C server tenantID contentType body =
     newRequest C server ''POST'' ''/api/v1/tenants/%s/billing/checkout''
       [(''tenantID'', tenantID)] (Some (contentType, body))"

definition cloudNewCreateCheckoutRequest :: "client_lib \<Rightarrow> string \<Rightarrow> string \<Rightarrow> CheckoutRequest \<Rightarrow> kerr + out_request" where
  "cloudNewCreateCheckoutRequest C server tenantID body =
     withJSON C (checkoutJSON body) (cloudNewCreateCheckoutRequestWithBody C server tenantID)"

definition cloudNewListInvoicesRequest :: "client_lib \<Rightarrow> string \<Rightarrow> string \<Rightarrow> kerr + out_request" where
  "cloudNewListInvoicesRequest C server tenantID =
     newRequest C server ''GET'' ''/api/v1/tenants/%s/billing/invoices''
       [(''tenantID'', tenantID)] None"

definition cloudNewCreatePortalRequest :: "client_lib \<Rightarrow> string \<Rightarrow> string \<Rightarrow> kerr + out_request" where
  "cloudNewCreatePortalRequest C server tenantID =
     newRequest C server ''POST'' ''/api/v1/tenants/%s/billing/portal''
       [(''tenantID'', tenantID)] None"

definition cloudNewListInvitesRequest :: "client_lib \<Rightarrow> string \<Rightarrow> string \<Rightarrow> kerr + out_request" where
  "cloudNewListInvitesRequest C server tenantID =
     newRequest C server ''GET'' ''/api/v1/tenants/%s/invites''
       [(''tenantID'', tenantID)] None"

definition cloudNewCreateInviteRequestWithBody ::
    "client_lib \<Rightarrow> string \<Rightarrow> string \<Rightarrow> string \<Rightarrow> string \<Rightarrow> kerr + out_request" where
  "cloudNewCreateInviteRequestWithBody C server tenantID contentType body =
     newRequest C server ''POST'' ''/api/v1/tenants/%s/invites''
       [(''tenantID'', tenantID)] (Some (contentType, body))"

definition cloudNewCreateInviteRequest :: "client_lib \<Rightarrow> string \<Rightarrow> string \<Rightarrow> CreateInviteRequest \<Rightarrow> kerr + out_request" where
  "cloudNewCreateInviteRequest C server tenantID body =
     withJSON C (createInviteJSON body) (cloudNewCreateInviteRequestWithBody C server tenantID)"

definition cloudNewRevokeInviteRequest :: "client_lib \<Rightarrow> string \<Rightarrow> string \<Rightarrow> string \<Rightarrow> kerr + out_request" where
  "cloudNewRevokeInviteRequest C server tenantID inviteID =
     newRequest C server ''DELETE'' ''/api/v1/tenants/%s/invites/%s''
       [(''tenantID'', tenantID), (''inviteID'', inviteID)] None"

definition cloudNewListMembersRequest :: "client_lib \<Rightarrow> string \<Rightarrow> string \<Rightarrow> kerr + out_request" where
  "cloudNewListMembersRequest C server tenantID =
     newRequest C server ''GET'' ''/api/v1/tenants/%s/members''
       [(''tenantID'', tenantID)] None"

definition cloudNewAddMemberRequestWithBody ::
    "client_lib \<Rightarrow> string \<Rightarrow> string \<Rightarrow> string \<Rightarrow> string \<Rightarrow> kerr + out_request" where
  "cloudNewAddMemberRequestWithBody C server tenantID contentType body =
     newRequest C server ''POST'' ''/api/v1/tenants/%s/members''
       [(''tenantID'', tenantID)] (Some (contentType, body))"

definition cloudNewAddMemberRequest :: "client_lib \<Rightarrow> string \<Rightarrow> string \<Rightarrow> AddMemberRequest \<Rightarrow> kerr + out_request" where
  "cloudNewAddMemberRequest C server tenantID body =
     withJSON C (addMemberJSON body) (cloudNewAddMemberRequestWithBody C server tenantID)"

definition cloudNewRemoveMemberRequest :: "client_lib \<Rightarrow> string \<Rightarrow> string \<Rightarrow> string \<Rightarrow> kerr + out_request" where
  "cloudNewRemoveMemberRequest C server tenantID userSub =
     newRequest C server ''DELETE'' ''/api/v1/tenants/%s/members/%s''
       [(''tenantID'', tenantID), (''userSub'', userSub)] None"

definition cloudNewListProfilesRequest :: "client_lib \<Rightarrow> string \<Rightarrow> string \<Rightarrow> kerr + out_request" where
  "cloudNewListProfilesRequest C server tenantID =
     newRequest C server ''GET'' ''/api/v1/tenants/%s/profiles''
       [(''tenantID'', tenantID)] None"

definition cloudNewGetProfileRequest :: "client_lib \<Rightarrow> string \<Rightarrow> string \<Rightarrow> string \<Rightarrow> kerr + out_request" where
  "cloudNewGetProfileRequest C server tenantID name =
     newRequest C server ''GET'' ''/api/v1/tenants/%s/profiles/%s''
       [(''tenantID'', tenantID), (''name'', name)] None"

definition cloudNewGetConsoleRequest :: "client_lib \<Rightarrow> string \<Rightarrow> string \<Rightarrow> string \<Rightarrow> kerr + out_request" where
  "cloudNewGetConsoleRequest C server tenantID serverID =
     newRequest C server ''GET'' ''/api/v1/tenants/%s/servers/%s/console''
       [(''tenantID'', tenantID), (''serverID'', serverID)] None"

definition cloudNewGetActionExecutionRequest :: "client_lib \<Rightarrow> string \<Rightarrow> string \<Rightarrow> string \<Rightarrow> string \<Rightarrow> kerr + out_request" where
  "cloudNewGetActionExecutionRequest C server tenantID serverID executionID =
     newRequest C server ''GET'' ''/api/v1/tenants/%s/servers/%s/executions/%s''
       [(''tenantID'', tenantID), (''serverID'', serverID), (''executionID'', executionID)] None"

definition cloudNewGetHealthzRequest :: "client_lib \<Rightarrow> string \<Rightarrow> kerr + out_request" where
  "cloudNewGetHealthzRequest C server =
     newRequest C server ''GET'' ''/healthz''
       [] None"

definition cloudNewGetReadyzRequest :: "client_lib \<Rightarrow> string \<Rightarrow> kerr + out_request" where
  "cloudNewGetReadyzRequest C server =
     newRequest C server ''GET'' ''/readyz''
       [] None"


section \<open>Query parameters (net/url)\<close>

type_synonym url_values = "(string \<times> string list) list"

text \<open>How the oapi-codegen runtime writes a query parameter of type bool.\<close>

type_synonym query_style = "string \<Rightarrow> bool \<Rightarrow> kerr + string"

definition QueryEscape :: "string \<Rightarrow> string" where
  "QueryEscape s =
     concat (map (\<lambda>c. if c = CHR '' '' then ''+'' else if unreserved c then [c]
       else [CHR ''%'', upperhex (of_char c div 16), upperhex (of_char c mod 16)]) s)"

text \<open>On the left the sequence that is not an escape.\<close>

fun QueryUnescape :: "string \<Rightarrow> string + string" where
  "QueryUnescape [] = Inr []"
| "QueryUnescape (c # s) =
     (if c = CHR ''+'' then map_sum id (Cons (CHR '' '')) (QueryUnescape s)
      else if c \<noteq> CHR ''%'' then map_sum id (Cons c) (QueryUnescape s)
      else (case s of
          a # b # rest \<Rightarrow>
            (case (unhex a, unhex b) of
               (Some x, Some y) \<Rightarrow> map_sum id (Cons (char_of (16 * x + y))) (QueryUnescape rest)
             | _ \<Rightarrow> Inl [c, a, b])
        | _ \<Rightarrow> Inl (c # s)))"

definition queryAdd :: "string \<Rightarrow> string \<Rightarrow> url_values \<Rightarrow> url_values" where
  "queryAdd k v m = AList.update k ((case map_of m k of None \<Rightarrow> [] | Some vs \<Rightarrow> vs) @ [v]) m"

definition escapeError :: "string \<Rightarrow> kerr" where
  "escapeError bad = new_error (''invalid URL escape '' @ quoted bad)"

text \<open>
  The loop of \<^verbatim>\<open>ParseQuery\<close> over the parts between ampersands: a semicolon replaces an error found before, a bad escape
  does not.
\<close>

fun queryParts :: "kerr option \<Rightarrow> url_values \<Rightarrow> string list \<Rightarrow> kerr + url_values" where
  "queryParts err m [] = (case err of None \<Rightarrow> Inr m | Some e \<Rightarrow> Inl e)"
| "queryParts err m (part # parts) =
     (if CHR '';'' \<in> set part then queryParts (Some (new_error ''invalid semicolon separator in query'')) m parts
      else if part = [] then queryParts err m parts
      else (let key = takeWhile (\<lambda>c. c \<noteq> CHR ''='') part; v = drop (Suc (length key)) part in
        case QueryUnescape key of
          Inl bad \<Rightarrow> queryParts (Some (case err of None \<Rightarrow> escapeError bad | Some e \<Rightarrow> e)) m parts
        | Inr k \<Rightarrow>
            (case QueryUnescape v of
               Inl bad \<Rightarrow> queryParts (Some (case err of None \<Rightarrow> escapeError bad | Some e \<Rightarrow> e)) m parts
             | Inr x \<Rightarrow> queryParts err (queryAdd k x m) parts)))"

definition ParseQuery :: "string \<Rightarrow> kerr + url_values" where
  "ParseQuery query = queryParts None [] (split_char (CHR ''&'') query)"

definition encodeValues :: "url_values \<Rightarrow> string" where
  "encodeValues m =
     join_char (CHR ''&'')
       (concat (map (\<lambda>k. map (\<lambda>v. QueryEscape k @ ''='' @ QueryEscape v) (case map_of m k of None \<Rightarrow> [] | Some vs \<Rightarrow> vs))
         (sort (map fst m))))"

definition withQuery :: "url_values \<Rightarrow> out_request \<Rightarrow> out_request" where
  "withQuery m r =
     r\<lparr>or_Path := or_Path r @ (if encodeValues m = [] then [] else CHR ''?'' # encodeValues m)\<rparr>"

record DeleteTenantParams =
  dtp_Force :: "bool option"

definition cloudNewDeleteTenantRequest ::
    "client_lib \<Rightarrow> query_style \<Rightarrow> string \<Rightarrow> string \<Rightarrow> DeleteTenantParams option \<Rightarrow> kerr + out_request" where
  "cloudNewDeleteTenantRequest C style server tenantID params =
     (case newRequest C server ''DELETE'' ''/api/v1/tenants/%s'' [(''tenantID'', tenantID)] None of
        Inl err \<Rightarrow> Inl err
      | Inr r \<Rightarrow>
          (case params of
             None \<Rightarrow> Inr r
           | Some p \<Rightarrow>
               (case dtp_Force p of
                  None \<Rightarrow> Inr (withQuery [] r)
                | Some force \<Rightarrow>
                    (case style ''force'' force of
                       Inl err \<Rightarrow> Inl err
                     | Inr queryFrag \<Rightarrow>
                         (case ParseQuery queryFrag of
                            Inl err \<Rightarrow> Inl err
                          | Inr parsed \<Rightarrow>
                              Inr (withQuery (fold (\<lambda>(k, vs). fold (queryAdd k) vs) parsed []) r))))))"


section \<open>Responses\<close>

definition cloudParseAdminListClustersResponse :: "client_lib \<Rightarrow> raw_response \<Rightarrow> kerr + (CloudCluster list) parsed" where
  "cloudParseAdminListClustersResponse C =
     parseResponse [(200, payloads C cloudCluster)]"

definition cloudParseAdminCreateClusterResponse :: "client_lib \<Rightarrow> raw_response \<Rightarrow> kerr + CloudCluster parsed" where
  "cloudParseAdminCreateClusterResponse C =
     parseResponse [(201, payload C cloudCluster)]"

definition cloudParseAdminDeleteClusterResponse :: "client_lib \<Rightarrow> raw_response \<Rightarrow> kerr + unit parsed" where
  "cloudParseAdminDeleteClusterResponse C =
     parseResponse []"

definition cloudParseAdminUpdatePlanPricesResponse :: "client_lib \<Rightarrow> raw_response \<Rightarrow> kerr + CloudPlan parsed" where
  "cloudParseAdminUpdatePlanPricesResponse C =
     parseResponse [(200, payload C cloudPlan), (404, errorBody C)]"

definition cloudParseStripeWebhookResponse :: "client_lib \<Rightarrow> raw_response \<Rightarrow> kerr + unit parsed" where
  "cloudParseStripeWebhookResponse C =
     parseResponse [(400, errorBody C)]"

definition cloudParseRegisterClusterResponse :: "client_lib \<Rightarrow> raw_response \<Rightarrow> kerr + CloudCluster parsed" where
  "cloudParseRegisterClusterResponse C =
     parseResponse [(200, payload C cloudCluster), (400, errorBody C)]"

definition cloudParseClusterHeartbeatResponse :: "client_lib \<Rightarrow> raw_response \<Rightarrow> kerr + unit parsed" where
  "cloudParseClusterHeartbeatResponse C =
     parseResponse [(404, errorBody C)]"

definition cloudParseAcceptInviteResponse :: "client_lib \<Rightarrow> raw_response \<Rightarrow> kerr + CloudMembership parsed" where
  "cloudParseAcceptInviteResponse C =
     parseResponse [(200, payload C cloudMembership), (400, errorBody C), (404, errorBody C), (409, errorBody C), (410, errorBody C)]"

definition cloudParseListRegionsResponse :: "client_lib \<Rightarrow> raw_response \<Rightarrow> kerr + (string list) parsed" where
  "cloudParseListRegionsResponse C =
     parseResponse [(200, payloads C (\<lambda>j. str_or (as_str j)))]"

definition cloudParseCreateTenantResponse :: "client_lib \<Rightarrow> raw_response \<Rightarrow> kerr + CloudTenant parsed" where
  "cloudParseCreateTenantResponse C =
     parseResponse [(201, payload C cloudTenant), (400, errorBody C)]"

definition cloudParseDeleteTenantResponse :: "client_lib \<Rightarrow> raw_response \<Rightarrow> kerr + unit parsed" where
  "cloudParseDeleteTenantResponse C =
     parseResponse [(403, errorBody C), (404, errorBody C), (409, errorBody C)]"

definition cloudParseGetTenantResponse :: "client_lib \<Rightarrow> raw_response \<Rightarrow> kerr + CloudTenant parsed" where
  "cloudParseGetTenantResponse C =
     parseResponse [(200, payload C cloudTenant), (403, errorBody C), (404, errorBody C)]"

definition cloudParseUpdateTenantResponse :: "client_lib \<Rightarrow> raw_response \<Rightarrow> kerr + CloudTenant parsed" where
  "cloudParseUpdateTenantResponse C =
     parseResponse [(200, payload C cloudTenant), (400, errorBody C), (403, errorBody C), (404, errorBody C)]"

definition cloudParseListAuditResponse :: "client_lib \<Rightarrow> raw_response \<Rightarrow> kerr + (CloudAuditEvent list) parsed" where
  "cloudParseListAuditResponse C =
     parseResponse [(200, payloads C cloudAuditEvent)]"

definition cloudParseCreateCheckoutResponse :: "client_lib \<Rightarrow> raw_response \<Rightarrow> kerr + string parsed" where
  "cloudParseCreateCheckoutResponse C =
     parseResponse [(200, payload C cloudRedirectURL)]"

definition cloudParseListInvoicesResponse :: "client_lib \<Rightarrow> raw_response \<Rightarrow> kerr + (CloudInvoice list) parsed" where
  "cloudParseListInvoicesResponse C =
     parseResponse [(200, payloads C cloudInvoice)]"

definition cloudParseCreatePortalResponse :: "client_lib \<Rightarrow> raw_response \<Rightarrow> kerr + string parsed" where
  "cloudParseCreatePortalResponse C =
     parseResponse [(200, payload C cloudRedirectURL)]"

definition cloudParseListInvitesResponse :: "client_lib \<Rightarrow> raw_response \<Rightarrow> kerr + (CloudInvite list) parsed" where
  "cloudParseListInvitesResponse C =
     parseResponse [(200, payloads C cloudInvite), (403, errorBody C)]"

definition cloudParseCreateInviteResponse :: "client_lib \<Rightarrow> raw_response \<Rightarrow> kerr + CloudInvite parsed" where
  "cloudParseCreateInviteResponse C =
     parseResponse [(201, payload C cloudInvite), (400, errorBody C), (403, errorBody C)]"

definition cloudParseRevokeInviteResponse :: "client_lib \<Rightarrow> raw_response \<Rightarrow> kerr + unit parsed" where
  "cloudParseRevokeInviteResponse C =
     parseResponse [(403, errorBody C), (404, errorBody C)]"

definition cloudParseListMembersResponse :: "client_lib \<Rightarrow> raw_response \<Rightarrow> kerr + (CloudMembership list) parsed" where
  "cloudParseListMembersResponse C =
     parseResponse [(200, payloads C cloudMembership)]"

definition cloudParseAddMemberResponse :: "client_lib \<Rightarrow> raw_response \<Rightarrow> kerr + CloudMembership parsed" where
  "cloudParseAddMemberResponse C =
     parseResponse [(201, payload C cloudMembership), (403, errorBody C)]"

definition cloudParseRemoveMemberResponse :: "client_lib \<Rightarrow> raw_response \<Rightarrow> kerr + unit parsed" where
  "cloudParseRemoveMemberResponse C =
     parseResponse [(403, errorBody C), (404, errorBody C)]"

definition cloudParseListProfilesResponse :: "client_lib \<Rightarrow> raw_response \<Rightarrow> kerr + (CloudGameProfile list) parsed" where
  "cloudParseListProfilesResponse C =
     parseResponse [(200, payloads C cloudGameProfile)]"

definition cloudParseGetProfileResponse :: "client_lib \<Rightarrow> raw_response \<Rightarrow> kerr + CatalogEntry parsed" where
  "cloudParseGetProfileResponse C =
     parseResponse [(200, payload C catalogEntry), (404, errorBody C), (502, errorBody C)]"

definition cloudParseGetConsoleResponse :: "client_lib \<Rightarrow> raw_response \<Rightarrow> kerr + unit parsed" where
  "cloudParseGetConsoleResponse C =
     parseResponse [(401, errorBody C)]"

definition cloudParseGetActionExecutionResponse :: "client_lib \<Rightarrow> raw_response \<Rightarrow> kerr + CloudExecution parsed" where
  "cloudParseGetActionExecutionResponse C =
     parseResponse [(200, payload C cloudExecution), (404, errorBody C)]"

definition cloudParseGetHealthzResponse :: "client_lib \<Rightarrow> raw_response \<Rightarrow> kerr + unit parsed" where
  "cloudParseGetHealthzResponse C =
     parseResponse []"

definition cloudParseGetReadyzResponse :: "client_lib \<Rightarrow> raw_response \<Rightarrow> kerr + unit parsed" where
  "cloudParseGetReadyzResponse C =
     parseResponse []"


section \<open>The document of the API\<close>

text \<open>Every operation with its path parameters, and the request that is built for it.\<close>

datatype cloud_operation =
    CoAdminListClusters | CoAdminCreateCluster | CoAdminDeleteCluster string | CoAdminUpdatePlanPrices string
  | CoStripeWebhook | CoRegisterCluster | CoClusterHeartbeat string | CoAcceptInvite | CoListMyTenants
  | CoListPlans | CoListRegions | CoCreateTenant | CoDeleteTenant string | CoGetTenant string
  | CoUpdateTenant string | CoListAPIKeys string | CoCreateAPIKey string | CoDeleteAPIKey string string
  | CoListAudit string | CoCreateCheckout string | CoListInvoices string | CoCreatePortal string
  | CoGetCatalog string | CoListInvites string | CoCreateInvite string | CoRevokeInvite string string
  | CoListMembers string | CoAddMember string | CoRemoveMember string string | CoListProfiles string
  | CoGetProfile string string | CoListServers string | CoCreateServer string | CoDeleteServer string string
  | CoGetServer string string | CoListActions string string | CoExecuteAction string string string
  | CoGetConsole string string | CoGetActionExecution string string string | CoListSnapshots string string
  | CoCreateSnapshot string string | CoGetSubscription string | CoGetHealthz | CoGetReadyz

fun cloudOperationRequest :: "client_lib \<Rightarrow> query_style \<Rightarrow> string \<Rightarrow> string \<Rightarrow> string \<Rightarrow> cloud_operation \<Rightarrow> kerr + out_request" where
  "cloudOperationRequest C style server ct body CoAdminListClusters = cloudNewAdminListClustersRequest C server"
| "cloudOperationRequest C style server ct body CoAdminCreateCluster = cloudNewAdminCreateClusterRequestWithBody C server ct body"
| "cloudOperationRequest C style server ct body (CoAdminDeleteCluster clusterID) = cloudNewAdminDeleteClusterRequest C server clusterID"
| "cloudOperationRequest C style server ct body (CoAdminUpdatePlanPrices planID) = cloudNewAdminUpdatePlanPricesRequestWithBody C server planID ct body"
| "cloudOperationRequest C style server ct body CoStripeWebhook = cloudNewStripeWebhookRequest C server"
| "cloudOperationRequest C style server ct body CoRegisterCluster = cloudNewRegisterClusterRequestWithBody C server ct body"
| "cloudOperationRequest C style server ct body (CoClusterHeartbeat name) = cloudNewClusterHeartbeatRequestWithBody C server name ct body"
| "cloudOperationRequest C style server ct body CoAcceptInvite = cloudNewAcceptInviteRequestWithBody C server ct body"
| "cloudOperationRequest C style server ct body CoListMyTenants = cloudNewListMyTenantsRequest C server"
| "cloudOperationRequest C style server ct body CoListPlans = cloudNewListPlansRequest C server"
| "cloudOperationRequest C style server ct body CoListRegions = cloudNewListRegionsRequest C server"
| "cloudOperationRequest C style server ct body CoCreateTenant = cloudNewCreateTenantRequestWithBody C server ct body"
| "cloudOperationRequest C style server ct body (CoDeleteTenant t) = cloudNewDeleteTenantRequest C style server t None"
| "cloudOperationRequest C style server ct body (CoGetTenant t) = cloudNewGetTenantRequest C server t"
| "cloudOperationRequest C style server ct body (CoUpdateTenant t) = cloudNewUpdateTenantRequestWithBody C server t ct body"
| "cloudOperationRequest C style server ct body (CoListAPIKeys t) = cloudNewListAPIKeysRequest C server t"
| "cloudOperationRequest C style server ct body (CoCreateAPIKey t) = cloudNewCreateAPIKeyRequestWithBody C server t ct body"
| "cloudOperationRequest C style server ct body (CoDeleteAPIKey t keyID) = cloudNewDeleteAPIKeyRequest C server t keyID"
| "cloudOperationRequest C style server ct body (CoListAudit t) = cloudNewListAuditRequest C server t"
| "cloudOperationRequest C style server ct body (CoCreateCheckout t) = cloudNewCreateCheckoutRequestWithBody C server t ct body"
| "cloudOperationRequest C style server ct body (CoListInvoices t) = cloudNewListInvoicesRequest C server t"
| "cloudOperationRequest C style server ct body (CoCreatePortal t) = cloudNewCreatePortalRequest C server t"
| "cloudOperationRequest C style server ct body (CoGetCatalog t) = cloudNewGetCatalogRequest C server t"
| "cloudOperationRequest C style server ct body (CoListInvites t) = cloudNewListInvitesRequest C server t"
| "cloudOperationRequest C style server ct body (CoCreateInvite t) = cloudNewCreateInviteRequestWithBody C server t ct body"
| "cloudOperationRequest C style server ct body (CoRevokeInvite t inviteID) = cloudNewRevokeInviteRequest C server t inviteID"
| "cloudOperationRequest C style server ct body (CoListMembers t) = cloudNewListMembersRequest C server t"
| "cloudOperationRequest C style server ct body (CoAddMember t) = cloudNewAddMemberRequestWithBody C server t ct body"
| "cloudOperationRequest C style server ct body (CoRemoveMember t userSub) = cloudNewRemoveMemberRequest C server t userSub"
| "cloudOperationRequest C style server ct body (CoListProfiles t) = cloudNewListProfilesRequest C server t"
| "cloudOperationRequest C style server ct body (CoGetProfile t name) = cloudNewGetProfileRequest C server t name"
| "cloudOperationRequest C style server ct body (CoListServers t) = cloudNewListServersRequest C server t"
| "cloudOperationRequest C style server ct body (CoCreateServer t) = cloudNewCreateServerRequestWithBody C server t ct body"
| "cloudOperationRequest C style server ct body (CoDeleteServer t s) = cloudNewDeleteServerRequest C server t s"
| "cloudOperationRequest C style server ct body (CoGetServer t s) = cloudNewGetServerRequest C server t s"
| "cloudOperationRequest C style server ct body (CoListActions t s) = cloudNewListActionsRequest C server t s"
| "cloudOperationRequest C style server ct body (CoExecuteAction t s action) = cloudNewExecuteActionRequestWithBody C server t s action ct body"
| "cloudOperationRequest C style server ct body (CoGetConsole t s) = cloudNewGetConsoleRequest C server t s"
| "cloudOperationRequest C style server ct body (CoGetActionExecution t s executionID) = cloudNewGetActionExecutionRequest C server t s executionID"
| "cloudOperationRequest C style server ct body (CoListSnapshots t s) = cloudNewListSnapshotsRequest C server t s"
| "cloudOperationRequest C style server ct body (CoCreateSnapshot t s) = cloudNewCreateSnapshotRequest C server t s"
| "cloudOperationRequest C style server ct body (CoGetSubscription t) = cloudNewGetSubscriptionRequest C server t"
| "cloudOperationRequest C style server ct body CoGetHealthz = cloudNewGetHealthzRequest C server"
| "cloudOperationRequest C style server ct body CoGetReadyz = cloudNewGetReadyzRequest C server"

text \<open>Method and path, element by element, as \<^verbatim>\<open>api/minato-cloud.openapi.yaml\<close> has them for an operation.\<close>

fun cloudDocumented :: "cloud_operation \<Rightarrow> string \<times> string list" where
  "cloudDocumented CoAdminListClusters = (''GET'', [''api'', ''v1'', ''admin'', ''clusters''])"
| "cloudDocumented CoAdminCreateCluster = (''POST'', [''api'', ''v1'', ''admin'', ''clusters''])"
| "cloudDocumented (CoAdminDeleteCluster clusterID) = (''DELETE'', [''api'', ''v1'', ''admin'', ''clusters'', clusterID])"
| "cloudDocumented (CoAdminUpdatePlanPrices planID) = (''PUT'', [''api'', ''v1'', ''admin'', ''plans'', planID])"
| "cloudDocumented CoStripeWebhook = (''POST'', [''api'', ''v1'', ''billing'', ''webhook''])"
| "cloudDocumented CoRegisterCluster = (''POST'', [''api'', ''v1'', ''clusters'', ''register''])"
| "cloudDocumented (CoClusterHeartbeat name) = (''POST'', [''api'', ''v1'', ''clusters'', name, ''heartbeat''])"
| "cloudDocumented CoAcceptInvite = (''POST'', [''api'', ''v1'', ''invites'', ''accept''])"
| "cloudDocumented CoListMyTenants = (''GET'', [''api'', ''v1'', ''me'', ''tenants''])"
| "cloudDocumented CoListPlans = (''GET'', [''api'', ''v1'', ''plans''])"
| "cloudDocumented CoListRegions = (''GET'', [''api'', ''v1'', ''regions''])"
| "cloudDocumented CoCreateTenant = (''POST'', [''api'', ''v1'', ''tenants''])"
| "cloudDocumented (CoDeleteTenant t) = (''DELETE'', [''api'', ''v1'', ''tenants'', t])"
| "cloudDocumented (CoGetTenant t) = (''GET'', [''api'', ''v1'', ''tenants'', t])"
| "cloudDocumented (CoUpdateTenant t) = (''PATCH'', [''api'', ''v1'', ''tenants'', t])"
| "cloudDocumented (CoListAPIKeys t) = (''GET'', [''api'', ''v1'', ''tenants'', t, ''apikeys''])"
| "cloudDocumented (CoCreateAPIKey t) = (''POST'', [''api'', ''v1'', ''tenants'', t, ''apikeys''])"
| "cloudDocumented (CoDeleteAPIKey t keyID) = (''DELETE'', [''api'', ''v1'', ''tenants'', t, ''apikeys'', keyID])"
| "cloudDocumented (CoListAudit t) = (''GET'', [''api'', ''v1'', ''tenants'', t, ''audit''])"
| "cloudDocumented (CoCreateCheckout t) = (''POST'', [''api'', ''v1'', ''tenants'', t, ''billing'', ''checkout''])"
| "cloudDocumented (CoListInvoices t) = (''GET'', [''api'', ''v1'', ''tenants'', t, ''billing'', ''invoices''])"
| "cloudDocumented (CoCreatePortal t) = (''POST'', [''api'', ''v1'', ''tenants'', t, ''billing'', ''portal''])"
| "cloudDocumented (CoGetCatalog t) = (''GET'', [''api'', ''v1'', ''tenants'', t, ''catalog''])"
| "cloudDocumented (CoListInvites t) = (''GET'', [''api'', ''v1'', ''tenants'', t, ''invites''])"
| "cloudDocumented (CoCreateInvite t) = (''POST'', [''api'', ''v1'', ''tenants'', t, ''invites''])"
| "cloudDocumented (CoRevokeInvite t inviteID) = (''DELETE'', [''api'', ''v1'', ''tenants'', t, ''invites'', inviteID])"
| "cloudDocumented (CoListMembers t) = (''GET'', [''api'', ''v1'', ''tenants'', t, ''members''])"
| "cloudDocumented (CoAddMember t) = (''POST'', [''api'', ''v1'', ''tenants'', t, ''members''])"
| "cloudDocumented (CoRemoveMember t userSub) = (''DELETE'', [''api'', ''v1'', ''tenants'', t, ''members'', userSub])"
| "cloudDocumented (CoListProfiles t) = (''GET'', [''api'', ''v1'', ''tenants'', t, ''profiles''])"
| "cloudDocumented (CoGetProfile t name) = (''GET'', [''api'', ''v1'', ''tenants'', t, ''profiles'', name])"
| "cloudDocumented (CoListServers t) = (''GET'', [''api'', ''v1'', ''tenants'', t, ''servers''])"
| "cloudDocumented (CoCreateServer t) = (''POST'', [''api'', ''v1'', ''tenants'', t, ''servers''])"
| "cloudDocumented (CoDeleteServer t s) = (''DELETE'', [''api'', ''v1'', ''tenants'', t, ''servers'', s])"
| "cloudDocumented (CoGetServer t s) = (''GET'', [''api'', ''v1'', ''tenants'', t, ''servers'', s])"
| "cloudDocumented (CoListActions t s) = (''GET'', [''api'', ''v1'', ''tenants'', t, ''servers'', s, ''actions''])"
| "cloudDocumented (CoExecuteAction t s action) = (''POST'', [''api'', ''v1'', ''tenants'', t, ''servers'', s, ''actions'', action])"
| "cloudDocumented (CoGetConsole t s) = (''GET'', [''api'', ''v1'', ''tenants'', t, ''servers'', s, ''console''])"
| "cloudDocumented (CoGetActionExecution t s executionID) = (''GET'', [''api'', ''v1'', ''tenants'', t, ''servers'', s, ''executions'', executionID])"
| "cloudDocumented (CoListSnapshots t s) = (''GET'', [''api'', ''v1'', ''tenants'', t, ''servers'', s, ''snapshots''])"
| "cloudDocumented (CoCreateSnapshot t s) = (''POST'', [''api'', ''v1'', ''tenants'', t, ''servers'', s, ''snapshots''])"
| "cloudDocumented (CoGetSubscription t) = (''GET'', [''api'', ''v1'', ''tenants'', t, ''subscription''])"
| "cloudDocumented CoGetHealthz = (''GET'', [''healthz''])"
| "cloudDocumented CoGetReadyz = (''GET'', [''readyz''])"

text \<open>Whether the document has a request body for an operation.\<close>

fun cloudTakesBody :: "cloud_operation \<Rightarrow> bool" where
  "cloudTakesBody CoAdminCreateCluster = True"
| "cloudTakesBody (CoAdminUpdatePlanPrices planID) = True"
| "cloudTakesBody CoRegisterCluster = True"
| "cloudTakesBody (CoClusterHeartbeat name) = True"
| "cloudTakesBody CoAcceptInvite = True"
| "cloudTakesBody CoCreateTenant = True"
| "cloudTakesBody (CoUpdateTenant t) = True"
| "cloudTakesBody (CoCreateAPIKey t) = True"
| "cloudTakesBody (CoCreateCheckout t) = True"
| "cloudTakesBody (CoCreateInvite t) = True"
| "cloudTakesBody (CoAddMember t) = True"
| "cloudTakesBody (CoCreateServer t) = True"
| "cloudTakesBody (CoExecuteAction t s action) = True"
| "cloudTakesBody _ = False"

lemmas cloud_operation_defs =
  cloudNewAdminListClustersRequest_def cloudNewAdminCreateClusterRequestWithBody_def
  cloudNewAdminCreateClusterRequest_def cloudNewAdminDeleteClusterRequest_def
  cloudNewAdminUpdatePlanPricesRequestWithBody_def cloudNewAdminUpdatePlanPricesRequest_def
  cloudNewStripeWebhookRequest_def cloudNewRegisterClusterRequestWithBody_def
  cloudNewRegisterClusterRequest_def cloudNewClusterHeartbeatRequestWithBody_def
  cloudNewClusterHeartbeatRequest_def cloudNewAcceptInviteRequestWithBody_def cloudNewAcceptInviteRequest_def
  cloudNewListRegionsRequest_def cloudNewCreateTenantRequestWithBody_def cloudNewCreateTenantRequest_def
  cloudNewGetTenantRequest_def cloudNewUpdateTenantRequestWithBody_def cloudNewUpdateTenantRequest_def
  cloudNewListAuditRequest_def cloudNewCreateCheckoutRequestWithBody_def cloudNewCreateCheckoutRequest_def
  cloudNewListInvoicesRequest_def cloudNewCreatePortalRequest_def cloudNewListInvitesRequest_def
  cloudNewCreateInviteRequestWithBody_def cloudNewCreateInviteRequest_def cloudNewRevokeInviteRequest_def
  cloudNewListMembersRequest_def cloudNewAddMemberRequestWithBody_def cloudNewAddMemberRequest_def
  cloudNewRemoveMemberRequest_def cloudNewListProfilesRequest_def cloudNewGetProfileRequest_def
  cloudNewGetConsoleRequest_def cloudNewGetActionExecutionRequest_def cloudNewGetHealthzRequest_def
  cloudNewGetReadyzRequest_def

lemma cloud_operation_literals:
  "PathEscape ''admin'' = ''admin''" "PathEscape ''clusters'' = ''clusters''" "PathEscape ''billing'' = ''billing''"
  "PathEscape ''webhook'' = ''webhook''" "PathEscape ''register'' = ''register''" "PathEscape ''heartbeat'' = ''heartbeat''"
  "PathEscape ''invites'' = ''invites''" "PathEscape ''accept'' = ''accept''" "PathEscape ''regions'' = ''regions''"
  "PathEscape ''audit'' = ''audit''" "PathEscape ''checkout'' = ''checkout''" "PathEscape ''invoices'' = ''invoices''"
  "PathEscape ''portal'' = ''portal''" "PathEscape ''members'' = ''members''" "PathEscape ''profiles'' = ''profiles''"
  "PathEscape ''console'' = ''console''" "PathEscape ''executions'' = ''executions''" "PathEscape ''healthz'' = ''healthz''"
  "PathEscape ''readyz'' = ''readyz''"
  by code_simp+

lemma delete_tenant_plain:
  "cloudNewDeleteTenantRequest C style server t None =
     newRequest C server ''DELETE'' ''/api/v1/tenants/%s'' [(''tenantID'', t)] None"
  by (simp add: cloudNewDeleteTenantRequest_def split: sum.splits)

lemma cloudOperation_built:
  "\<exists>form params content. cloudOperationRequest C style server ct body op =
      newRequest C server (fst (cloudDocumented op)) form params content \<and>
    content = (if cloudTakesBody op then Some (ct, body) else None) \<and>
    Sprintf_s form (map (\<lambda>(_, v). PathEscape v) params) =
      CHR ''/'' # join_char (CHR ''/'') (map PathEscape (snd (cloudDocumented op)))"
  by (cases op; hypsubst; simp only: cloudOperationRequest.simps cloudDocumented.simps cloudTakesBody.simps if_True if_False
      cloud_operation_defs cloud_request_defs delete_tenant_plain fst_conv snd_conv)
    (rule exI, rule exI, rule exI, rule conjI, rule refl,
      simp add: cloud_escaped_literals cloud_operation_literals)+

text \<open>
  C23. The cloud client follows the document of the API. For every one of its 44 operations (deleting a tenant without its
  optional query parameter), whatever bytes the path parameters hold, lone dots excepted, and for a server whose path
  consists of plain unreserved elements: the builder returns a request to the documented method and path below the path
  of the server, unescaping its elements gives back the parameters, and it carries the given body with its content type
  exactly when the document has a request body for the operation, and nothing otherwise.
\<close>

theorem cloud_requests_follow_document:
  assumes "styles_by_escaping C" "lib_parseURL C server = Inr url" "su_Path url = dir_path bs"
    and "\<forall>b\<in>set bs. \<not> dotted b \<and> (\<forall>c\<in>set b. unreserved c)" "\<forall>s\<in>set (snd (cloudDocumented op)). \<not> dotted s"
  shows "\<exists>r. cloudOperationRequest C style server ct body op = Inr r \<and> or_Origin r = su_Origin url \<and>
    or_Method r = fst (cloudDocumented op) \<and>
    map PathUnescape (split_char (CHR ''/'') (or_Path r)) = map Some ([] # bs @ snd (cloudDocumented op)) \<and>
    (or_Header r, or_Body r) = (if cloudTakesBody op then ([(''Content-Type'', ct)], body) else ([], []))"
proof -
  obtain form params content where b: "cloudOperationRequest C style server ct body op =
      newRequest C server (fst (cloudDocumented op)) form params content"
    "content = (if cloudTakesBody op then Some (ct, body) else None)"
    "Sprintf_s form (map (\<lambda>(_, v). PathEscape v) params) =
      CHR ''/'' # join_char (CHR ''/'') (map PathEscape (snd (cloudDocumented op)))"
    using cloudOperation_built by blast
  then obtain r where r: "cloudOperationRequest C style server ct body op = Inr r" "or_Origin r = su_Origin url"
    "(or_Header r, or_Body r) = (if cloudTakesBody op then ([(''Content-Type'', ct)], body) else ([], []))"
    using assms(1,2) by (auto simp: newRequest_def styleParams_escaped Let_def)
  have p: "or_Method r = fst (cloudDocumented op)"
    "or_Path r = resolvePath (dir_path bs) (''./'' @ join_char (CHR ''/'') (map PathEscape (snd (cloudDocumented op))))"
    using newRequest_path [OF assms(1,2) _ b(3)] b(1) r(1) assms(3) by auto
  have "snd (cloudDocumented op) \<noteq> []" by (cases op) simp_all
  from request_split(3) [OF p(2) assms(4,5) this] r p(1) show ?thesis by blast
qed

theorem cloud_requests_follow_document_witness:
  "\<exists>r. cloudOperationRequest ex_lib (\<lambda>_ _. Inr []) ''https://cloud'' [] [] (CoRevokeInvite ''a/b'' ''i 1'') = Inr r \<and>
     or_Method r = ''DELETE'' \<and>
     map PathUnescape (split_char (CHR ''/'') (or_Path r)) =
       map Some [[], ''api'', ''v1'', ''tenants'', ''a/b'', ''invites'', ''i 1'']"
proof -
  have url: "lib_parseURL ex_lib ''https://cloud'' = Inr \<lparr>su_Origin = ''https://cloud'', su_Path = ''/''\<rparr>"
    by (simp add: ex_lib_def)
  show ?thesis
    using cloud_requests_follow_document [OF ex_lib_styles url, of "[]" "CoRevokeInvite ''a/b'' ''i 1''"
        "\<lambda>_ _. Inr []" "[]" "[]"]
    by (fastforce simp: dir_path_def dotted_def)
qed

text \<open>Deleting a tenant with force sends the parameter in the query, and only then.\<close>

lemma delete_tenant_query:
  assumes "cloudNewDeleteTenantRequest C style server t None = Inr r"
  shows "cloudNewDeleteTenantRequest C style server t (Some \<lparr>dtp_Force = None\<rparr>) = Inr r"
    "style ''force'' True = Inr ''force=true'' \<Longrightarrow>
      cloudNewDeleteTenantRequest C style server t (Some \<lparr>dtp_Force = Some True\<rparr>) =
        Inr (r\<lparr>or_Path := or_Path r @ ''?force=true''\<rparr>)"
proof -
  have "encodeValues [] = []" by (simp add: encodeValues_def)
  with assms show "cloudNewDeleteTenantRequest C style server t (Some \<lparr>dtp_Force = None\<rparr>) = Inr r"
    by (simp add: cloudNewDeleteTenantRequest_def withQuery_def split: sum.splits)
  have "ParseQuery ''force=true'' = Inr [(''force'', [''true''])]"
    "encodeValues (fold (\<lambda>(k, vs). fold (queryAdd k) vs) [(''force'', [''true''])] []) = ''force=true''"
    by code_simp+
  then show "cloudNewDeleteTenantRequest C style server t (Some \<lparr>dtp_Force = Some True\<rparr>) =
      Inr (r\<lparr>or_Path := or_Path r @ ''?force=true''\<rparr>)" if "style ''force'' True = Inr ''force=true''"
    using assms that by (simp add: cloudNewDeleteTenantRequest_def withQuery_def split: sum.splits)
qed

end
