(* ===== verification/SDK_Methods.thy ===== *)
theory SDK_Methods
  imports SDK_Transport
begin

text \<open>
  The methods of the generated client of the control plane as they are written (\<^verbatim>\<open>sdk/controlplane/gen/client.go\<close>): for
  each operation the method of \<^verbatim>\<open>Client\<close> (\<open>client\<close> before its name), which builds a request, applies the editors and
  sends it, and the one of \<^verbatim>\<open>ClientWithResponses\<close>, which parses the answer. The environment that theory
  \<open>SDK_Transport\<close> gives the hand-written client is shown to be made of them. The requests sent before are an argument.
\<close>

definition sdkSend :: "sdk_transport \<Rightarrow> out_request list \<Rightarrow> kerr + out_request \<Rightarrow> kerr + raw_response" where
  "sdkSend T sent req =
     (case req of
        Inl err \<Rightarrow> Inl err
      | Inr r \<Rightarrow> tr_do T sent (applyEditors (tr_headers T) r))"

definition parsedBy :: "(raw_response \<Rightarrow> kerr + 'j parsed) \<Rightarrow> kerr + raw_response \<Rightarrow> kerr + 'j parsed" where
  "parsedBy parse rsp = (case rsp of Inl err \<Rightarrow> Inl err | Inr r \<Rightarrow> parse r)"


section \<open>Methods\<close>

definition clientListAPIKeys ::
    "sdk_transport \<Rightarrow> out_request list \<Rightarrow> kerr + raw_response" where
  "clientListAPIKeys T sent = sdkSend T sent (NewListAPIKeysRequest (tr_lib T) (genServerURL (tr_server T)))"

definition ListAPIKeysWithResponse ::
    "sdk_transport \<Rightarrow> out_request list \<Rightarrow> kerr + (json list) parsed" where
  "ListAPIKeysWithResponse T sent = parsedBy (ParseListAPIKeysResponse (tr_lib T)) (clientListAPIKeys T sent)"

definition clientCreateAPIKeyWithBody ::
    "sdk_transport \<Rightarrow> out_request list \<Rightarrow> string \<Rightarrow> string \<Rightarrow> kerr + raw_response" where
  "clientCreateAPIKeyWithBody T sent contentType body = sdkSend T sent (NewCreateAPIKeyRequestWithBody (tr_lib T) (genServerURL (tr_server T)) contentType body)"

definition CreateAPIKeyWithBodyWithResponse ::
    "sdk_transport \<Rightarrow> out_request list \<Rightarrow> string \<Rightarrow> string \<Rightarrow> kerr + json parsed" where
  "CreateAPIKeyWithBodyWithResponse T sent contentType body = parsedBy (ParseCreateAPIKeyResponse (tr_lib T)) (clientCreateAPIKeyWithBody T sent contentType body)"

definition clientCreateAPIKey ::
    "sdk_transport \<Rightarrow> out_request list \<Rightarrow> json \<Rightarrow> kerr + raw_response" where
  "clientCreateAPIKey T sent body = sdkSend T sent (NewCreateAPIKeyRequest (tr_lib T) (genServerURL (tr_server T)) body)"

definition CreateAPIKeyWithResponse ::
    "sdk_transport \<Rightarrow> out_request list \<Rightarrow> json \<Rightarrow> kerr + json parsed" where
  "CreateAPIKeyWithResponse T sent body = parsedBy (ParseCreateAPIKeyResponse (tr_lib T)) (clientCreateAPIKey T sent body)"

definition clientDeleteAPIKey ::
    "sdk_transport \<Rightarrow> out_request list \<Rightarrow> string \<Rightarrow> kerr + raw_response" where
  "clientDeleteAPIKey T sent keyId = sdkSend T sent (NewDeleteAPIKeyRequest (tr_lib T) (genServerURL (tr_server T)) keyId)"

definition DeleteAPIKeyWithResponse ::
    "sdk_transport \<Rightarrow> out_request list \<Rightarrow> string \<Rightarrow> kerr + unit parsed" where
  "DeleteAPIKeyWithResponse T sent keyId = parsedBy (ParseDeleteAPIKeyResponse (tr_lib T)) (clientDeleteAPIKey T sent keyId)"

definition clientListGameServerFleets ::
    "sdk_transport \<Rightarrow> out_request list \<Rightarrow> kerr + raw_response" where
  "clientListGameServerFleets T sent = sdkSend T sent (NewListGameServerFleetsRequest (tr_lib T) (genServerURL (tr_server T)))"

definition ListGameServerFleetsWithResponse ::
    "sdk_transport \<Rightarrow> out_request list \<Rightarrow> kerr + (GenFleet list) parsed" where
  "ListGameServerFleetsWithResponse T sent = parsedBy (ParseListGameServerFleetsResponse (tr_lib T)) (clientListGameServerFleets T sent)"

definition clientCreateGameServerFleetWithBody ::
    "sdk_transport \<Rightarrow> out_request list \<Rightarrow> string \<Rightarrow> string \<Rightarrow> string \<Rightarrow> kerr + raw_response" where
  "clientCreateGameServerFleetWithBody T sent namespace contentType body = sdkSend T sent (NewCreateGameServerFleetRequestWithBody (tr_lib T) (genServerURL (tr_server T)) namespace contentType body)"

definition CreateGameServerFleetWithBodyWithResponse ::
    "sdk_transport \<Rightarrow> out_request list \<Rightarrow> string \<Rightarrow> string \<Rightarrow> string \<Rightarrow> kerr + GenFleet parsed" where
  "CreateGameServerFleetWithBodyWithResponse T sent namespace contentType body = parsedBy (ParseCreateGameServerFleetResponse (tr_lib T)) (clientCreateGameServerFleetWithBody T sent namespace contentType body)"

definition clientCreateGameServerFleet ::
    "sdk_transport \<Rightarrow> out_request list \<Rightarrow> string \<Rightarrow> GenFleet \<Rightarrow> kerr + raw_response" where
  "clientCreateGameServerFleet T sent namespace body = sdkSend T sent (NewCreateGameServerFleetRequest (tr_lib T) (genServerURL (tr_server T)) namespace body)"

definition CreateGameServerFleetWithResponse ::
    "sdk_transport \<Rightarrow> out_request list \<Rightarrow> string \<Rightarrow> GenFleet \<Rightarrow> kerr + GenFleet parsed" where
  "CreateGameServerFleetWithResponse T sent namespace body = parsedBy (ParseCreateGameServerFleetResponse (tr_lib T)) (clientCreateGameServerFleet T sent namespace body)"

definition clientDeleteGameServerFleet ::
    "sdk_transport \<Rightarrow> out_request list \<Rightarrow> string \<Rightarrow> string \<Rightarrow> kerr + raw_response" where
  "clientDeleteGameServerFleet T sent namespace name = sdkSend T sent (NewDeleteGameServerFleetRequest (tr_lib T) (genServerURL (tr_server T)) namespace name)"

definition DeleteGameServerFleetWithResponse ::
    "sdk_transport \<Rightarrow> out_request list \<Rightarrow> string \<Rightarrow> string \<Rightarrow> kerr + unit parsed" where
  "DeleteGameServerFleetWithResponse T sent namespace name = parsedBy (ParseDeleteGameServerFleetResponse (tr_lib T)) (clientDeleteGameServerFleet T sent namespace name)"

definition clientGetGameServerFleet ::
    "sdk_transport \<Rightarrow> out_request list \<Rightarrow> string \<Rightarrow> string \<Rightarrow> kerr + raw_response" where
  "clientGetGameServerFleet T sent namespace name = sdkSend T sent (NewGetGameServerFleetRequest (tr_lib T) (genServerURL (tr_server T)) namespace name)"

definition GetGameServerFleetWithResponse ::
    "sdk_transport \<Rightarrow> out_request list \<Rightarrow> string \<Rightarrow> string \<Rightarrow> kerr + GenFleet parsed" where
  "GetGameServerFleetWithResponse T sent namespace name = parsedBy (ParseGetGameServerFleetResponse (tr_lib T)) (clientGetGameServerFleet T sent namespace name)"

definition clientUpdateGameServerFleetWithBody ::
    "sdk_transport \<Rightarrow> out_request list \<Rightarrow> string \<Rightarrow> string \<Rightarrow> string \<Rightarrow> string \<Rightarrow> kerr + raw_response" where
  "clientUpdateGameServerFleetWithBody T sent namespace name contentType body = sdkSend T sent (NewUpdateGameServerFleetRequestWithBody (tr_lib T) (genServerURL (tr_server T)) namespace name contentType body)"

definition UpdateGameServerFleetWithBodyWithResponse ::
    "sdk_transport \<Rightarrow> out_request list \<Rightarrow> string \<Rightarrow> string \<Rightarrow> string \<Rightarrow> string \<Rightarrow> kerr + GenFleet parsed" where
  "UpdateGameServerFleetWithBodyWithResponse T sent namespace name contentType body = parsedBy (ParseUpdateGameServerFleetResponse (tr_lib T)) (clientUpdateGameServerFleetWithBody T sent namespace name contentType body)"

definition clientUpdateGameServerFleet ::
    "sdk_transport \<Rightarrow> out_request list \<Rightarrow> string \<Rightarrow> string \<Rightarrow> int \<Rightarrow> kerr + raw_response" where
  "clientUpdateGameServerFleet T sent namespace name body = sdkSend T sent (NewUpdateGameServerFleetRequest (tr_lib T) (genServerURL (tr_server T)) namespace name body)"

definition UpdateGameServerFleetWithResponse ::
    "sdk_transport \<Rightarrow> out_request list \<Rightarrow> string \<Rightarrow> string \<Rightarrow> int \<Rightarrow> kerr + GenFleet parsed" where
  "UpdateGameServerFleetWithResponse T sent namespace name body = parsedBy (ParseUpdateGameServerFleetResponse (tr_lib T)) (clientUpdateGameServerFleet T sent namespace name body)"

definition clientListGameServers ::
    "sdk_transport \<Rightarrow> out_request list \<Rightarrow> kerr + raw_response" where
  "clientListGameServers T sent = sdkSend T sent (NewListGameServersRequest (tr_lib T) (genServerURL (tr_server T)))"

definition ListGameServersWithResponse ::
    "sdk_transport \<Rightarrow> out_request list \<Rightarrow> kerr + (GenServer list) parsed" where
  "ListGameServersWithResponse T sent = parsedBy (ParseListGameServersResponse (tr_lib T)) (clientListGameServers T sent)"

definition clientCreateGameServerWithBody ::
    "sdk_transport \<Rightarrow> out_request list \<Rightarrow> string \<Rightarrow> string \<Rightarrow> string \<Rightarrow> kerr + raw_response" where
  "clientCreateGameServerWithBody T sent namespace contentType body = sdkSend T sent (NewCreateGameServerRequestWithBody (tr_lib T) (genServerURL (tr_server T)) namespace contentType body)"

definition CreateGameServerWithBodyWithResponse ::
    "sdk_transport \<Rightarrow> out_request list \<Rightarrow> string \<Rightarrow> string \<Rightarrow> string \<Rightarrow> kerr + GenServer parsed" where
  "CreateGameServerWithBodyWithResponse T sent namespace contentType body = parsedBy (ParseCreateGameServerResponse (tr_lib T)) (clientCreateGameServerWithBody T sent namespace contentType body)"

definition clientCreateGameServer ::
    "sdk_transport \<Rightarrow> out_request list \<Rightarrow> string \<Rightarrow> GenServer \<Rightarrow> kerr + raw_response" where
  "clientCreateGameServer T sent namespace body = sdkSend T sent (NewCreateGameServerRequest (tr_lib T) (genServerURL (tr_server T)) namespace body)"

definition CreateGameServerWithResponse ::
    "sdk_transport \<Rightarrow> out_request list \<Rightarrow> string \<Rightarrow> GenServer \<Rightarrow> kerr + GenServer parsed" where
  "CreateGameServerWithResponse T sent namespace body = parsedBy (ParseCreateGameServerResponse (tr_lib T)) (clientCreateGameServer T sent namespace body)"

definition clientDeleteGameServer ::
    "sdk_transport \<Rightarrow> out_request list \<Rightarrow> string \<Rightarrow> string \<Rightarrow> kerr + raw_response" where
  "clientDeleteGameServer T sent namespace name = sdkSend T sent (NewDeleteGameServerRequest (tr_lib T) (genServerURL (tr_server T)) namespace name)"

definition DeleteGameServerWithResponse ::
    "sdk_transport \<Rightarrow> out_request list \<Rightarrow> string \<Rightarrow> string \<Rightarrow> kerr + unit parsed" where
  "DeleteGameServerWithResponse T sent namespace name = parsedBy (ParseDeleteGameServerResponse (tr_lib T)) (clientDeleteGameServer T sent namespace name)"

definition clientGetGameServer ::
    "sdk_transport \<Rightarrow> out_request list \<Rightarrow> string \<Rightarrow> string \<Rightarrow> kerr + raw_response" where
  "clientGetGameServer T sent namespace name = sdkSend T sent (NewGetGameServerRequest (tr_lib T) (genServerURL (tr_server T)) namespace name)"

definition GetGameServerWithResponse ::
    "sdk_transport \<Rightarrow> out_request list \<Rightarrow> string \<Rightarrow> string \<Rightarrow> kerr + GenServer parsed" where
  "GetGameServerWithResponse T sent namespace name = parsedBy (ParseGetGameServerResponse (tr_lib T)) (clientGetGameServer T sent namespace name)"

definition clientUpdateGameServerLifecycleWithBody ::
    "sdk_transport \<Rightarrow> out_request list \<Rightarrow> string \<Rightarrow> string \<Rightarrow> string \<Rightarrow> string \<Rightarrow> kerr + raw_response" where
  "clientUpdateGameServerLifecycleWithBody T sent namespace name contentType body = sdkSend T sent (NewUpdateGameServerLifecycleRequestWithBody (tr_lib T) (genServerURL (tr_server T)) namespace name contentType body)"

definition UpdateGameServerLifecycleWithBodyWithResponse ::
    "sdk_transport \<Rightarrow> out_request list \<Rightarrow> string \<Rightarrow> string \<Rightarrow> string \<Rightarrow> string \<Rightarrow> kerr + GenServer parsed" where
  "UpdateGameServerLifecycleWithBodyWithResponse T sent namespace name contentType body = parsedBy (ParseUpdateGameServerLifecycleResponse (tr_lib T)) (clientUpdateGameServerLifecycleWithBody T sent namespace name contentType body)"

definition clientUpdateGameServerLifecycle ::
    "sdk_transport \<Rightarrow> out_request list \<Rightarrow> string \<Rightarrow> string \<Rightarrow> GenLifecycle \<Rightarrow> kerr + raw_response" where
  "clientUpdateGameServerLifecycle T sent namespace name body = sdkSend T sent (NewUpdateGameServerLifecycleRequest (tr_lib T) (genServerURL (tr_server T)) namespace name body)"

definition UpdateGameServerLifecycleWithResponse ::
    "sdk_transport \<Rightarrow> out_request list \<Rightarrow> string \<Rightarrow> string \<Rightarrow> GenLifecycle \<Rightarrow> kerr + GenServer parsed" where
  "UpdateGameServerLifecycleWithResponse T sent namespace name body = parsedBy (ParseUpdateGameServerLifecycleResponse (tr_lib T)) (clientUpdateGameServerLifecycle T sent namespace name body)"

definition clientListActions ::
    "sdk_transport \<Rightarrow> out_request list \<Rightarrow> string \<Rightarrow> string \<Rightarrow> kerr + raw_response" where
  "clientListActions T sent namespace name = sdkSend T sent (NewListActionsRequest (tr_lib T) (genServerURL (tr_server T)) namespace name)"

definition ListActionsWithResponse ::
    "sdk_transport \<Rightarrow> out_request list \<Rightarrow> string \<Rightarrow> string \<Rightarrow> kerr + (GenAction list) parsed" where
  "ListActionsWithResponse T sent namespace name = parsedBy (ParseListActionsResponse (tr_lib T)) (clientListActions T sent namespace name)"

definition clientExecuteActionWithBody ::
    "sdk_transport \<Rightarrow> out_request list \<Rightarrow> string \<Rightarrow> string \<Rightarrow> string \<Rightarrow> string \<Rightarrow> string \<Rightarrow> kerr + raw_response" where
  "clientExecuteActionWithBody T sent namespace name action contentType body = sdkSend T sent (NewExecuteActionRequestWithBody (tr_lib T) (genServerURL (tr_server T)) namespace name action contentType body)"

definition ExecuteActionWithBodyWithResponse ::
    "sdk_transport \<Rightarrow> out_request list \<Rightarrow> string \<Rightarrow> string \<Rightarrow> string \<Rightarrow> string \<Rightarrow> string \<Rightarrow> kerr + string parsed" where
  "ExecuteActionWithBodyWithResponse T sent namespace name action contentType body = parsedBy (ParseExecuteActionResponse (tr_lib T)) (clientExecuteActionWithBody T sent namespace name action contentType body)"

definition clientExecuteAction ::
    "sdk_transport \<Rightarrow> out_request list \<Rightarrow> string \<Rightarrow> string \<Rightarrow> string \<Rightarrow> labels \<Rightarrow> kerr + raw_response" where
  "clientExecuteAction T sent namespace name action body = sdkSend T sent (NewExecuteActionRequest (tr_lib T) (genServerURL (tr_server T)) namespace name action body)"

definition ExecuteActionWithResponse ::
    "sdk_transport \<Rightarrow> out_request list \<Rightarrow> string \<Rightarrow> string \<Rightarrow> string \<Rightarrow> labels \<Rightarrow> kerr + string parsed" where
  "ExecuteActionWithResponse T sent namespace name action body = parsedBy (ParseExecuteActionResponse (tr_lib T)) (clientExecuteAction T sent namespace name action body)"

definition clientGetConsole ::
    "sdk_transport \<Rightarrow> out_request list \<Rightarrow> string \<Rightarrow> string \<Rightarrow> kerr + raw_response" where
  "clientGetConsole T sent namespace name = sdkSend T sent (NewGetConsoleRequest (tr_lib T) (genServerURL (tr_server T)) namespace name)"

definition GetConsoleWithResponse ::
    "sdk_transport \<Rightarrow> out_request list \<Rightarrow> string \<Rightarrow> string \<Rightarrow> kerr + unit parsed" where
  "GetConsoleWithResponse T sent namespace name = parsedBy (ParseGetConsoleResponse (tr_lib T)) (clientGetConsole T sent namespace name)"

definition clientGetActionExecution ::
    "sdk_transport \<Rightarrow> out_request list \<Rightarrow> string \<Rightarrow> string \<Rightarrow> string \<Rightarrow> kerr + raw_response" where
  "clientGetActionExecution T sent namespace name executionId = sdkSend T sent (NewGetActionExecutionRequest (tr_lib T) (genServerURL (tr_server T)) namespace name executionId)"

definition GetActionExecutionWithResponse ::
    "sdk_transport \<Rightarrow> out_request list \<Rightarrow> string \<Rightarrow> string \<Rightarrow> string \<Rightarrow> kerr + GenExecution parsed" where
  "GetActionExecutionWithResponse T sent namespace name executionId = parsedBy (ParseGetActionExecutionResponse (tr_lib T)) (clientGetActionExecution T sent namespace name executionId)"

definition clientGetSFTPInfo ::
    "sdk_transport \<Rightarrow> out_request list \<Rightarrow> string \<Rightarrow> string \<Rightarrow> kerr + raw_response" where
  "clientGetSFTPInfo T sent namespace name = sdkSend T sent (NewGetSFTPInfoRequest (tr_lib T) (genServerURL (tr_server T)) namespace name)"

definition GetSFTPInfoWithResponse ::
    "sdk_transport \<Rightarrow> out_request list \<Rightarrow> string \<Rightarrow> string \<Rightarrow> kerr + GenSFTPInfo parsed" where
  "GetSFTPInfoWithResponse T sent namespace name = parsedBy (ParseGetSFTPInfoResponse (tr_lib T)) (clientGetSFTPInfo T sent namespace name)"

definition clientListSnapshots ::
    "sdk_transport \<Rightarrow> out_request list \<Rightarrow> string \<Rightarrow> string \<Rightarrow> kerr + raw_response" where
  "clientListSnapshots T sent namespace name = sdkSend T sent (NewListSnapshotsRequest (tr_lib T) (genServerURL (tr_server T)) namespace name)"

definition ListSnapshotsWithResponse ::
    "sdk_transport \<Rightarrow> out_request list \<Rightarrow> string \<Rightarrow> string \<Rightarrow> kerr + (GenSnapshot list) parsed" where
  "ListSnapshotsWithResponse T sent namespace name = parsedBy (ParseListSnapshotsResponse (tr_lib T)) (clientListSnapshots T sent namespace name)"

definition clientCreateSnapshot ::
    "sdk_transport \<Rightarrow> out_request list \<Rightarrow> string \<Rightarrow> string \<Rightarrow> kerr + raw_response" where
  "clientCreateSnapshot T sent namespace name = sdkSend T sent (NewCreateSnapshotRequest (tr_lib T) (genServerURL (tr_server T)) namespace name)"

definition CreateSnapshotWithResponse ::
    "sdk_transport \<Rightarrow> out_request list \<Rightarrow> string \<Rightarrow> string \<Rightarrow> kerr + GenSnapshot parsed" where
  "CreateSnapshotWithResponse T sent namespace name = parsedBy (ParseCreateSnapshotResponse (tr_lib T)) (clientCreateSnapshot T sent namespace name)"

definition clientListProfiles ::
    "sdk_transport \<Rightarrow> out_request list \<Rightarrow> kerr + raw_response" where
  "clientListProfiles T sent = sdkSend T sent (NewListProfilesRequest (tr_lib T) (genServerURL (tr_server T)))"

definition ListProfilesWithResponse ::
    "sdk_transport \<Rightarrow> out_request list \<Rightarrow> kerr + (GenProfile list) parsed" where
  "ListProfilesWithResponse T sent = parsedBy (ParseListProfilesResponse (tr_lib T)) (clientListProfiles T sent)"

definition clientGetProfile ::
    "sdk_transport \<Rightarrow> out_request list \<Rightarrow> string \<Rightarrow> kerr + raw_response" where
  "clientGetProfile T sent name = sdkSend T sent (NewGetProfileRequest (tr_lib T) (genServerURL (tr_server T)) name)"

definition GetProfileWithResponse ::
    "sdk_transport \<Rightarrow> out_request list \<Rightarrow> string \<Rightarrow> kerr + GenProfile parsed" where
  "GetProfileWithResponse T sent name = parsedBy (ParseGetProfileResponse (tr_lib T)) (clientGetProfile T sent name)"

definition clientGetAuthConfig ::
    "sdk_transport \<Rightarrow> out_request list \<Rightarrow> kerr + raw_response" where
  "clientGetAuthConfig T sent = sdkSend T sent (NewGetAuthConfigRequest (tr_lib T) (genServerURL (tr_server T)))"

definition GetAuthConfigWithResponse ::
    "sdk_transport \<Rightarrow> out_request list \<Rightarrow> kerr + json parsed" where
  "GetAuthConfigWithResponse T sent = parsedBy (ParseGetAuthConfigResponse (tr_lib T)) (clientGetAuthConfig T sent)"

definition clientGetHealthz ::
    "sdk_transport \<Rightarrow> out_request list \<Rightarrow> kerr + raw_response" where
  "clientGetHealthz T sent = sdkSend T sent (NewGetHealthzRequest (tr_lib T) (genServerURL (tr_server T)))"

definition GetHealthzWithResponse ::
    "sdk_transport \<Rightarrow> out_request list \<Rightarrow> kerr + unit parsed" where
  "GetHealthzWithResponse T sent = parsedBy (ParseGetHealthzResponse (tr_lib T)) (clientGetHealthz T sent)"

definition clientGetReadyz ::
    "sdk_transport \<Rightarrow> out_request list \<Rightarrow> kerr + raw_response" where
  "clientGetReadyz T sent = sdkSend T sent (NewGetReadyzRequest (tr_lib T) (genServerURL (tr_server T)))"

definition GetReadyzWithResponse ::
    "sdk_transport \<Rightarrow> out_request list \<Rightarrow> kerr + unit parsed" where
  "GetReadyzWithResponse T sent = parsedBy (ParseGetReadyzResponse (tr_lib T)) (clientGetReadyz T sent)"

lemmas sdk_method_defs =
  clientListAPIKeys_def ListAPIKeysWithResponse_def clientCreateAPIKeyWithBody_def
  CreateAPIKeyWithBodyWithResponse_def clientCreateAPIKey_def CreateAPIKeyWithResponse_def
  clientDeleteAPIKey_def DeleteAPIKeyWithResponse_def clientListGameServerFleets_def
  ListGameServerFleetsWithResponse_def clientCreateGameServerFleetWithBody_def
  CreateGameServerFleetWithBodyWithResponse_def clientCreateGameServerFleet_def
  CreateGameServerFleetWithResponse_def clientDeleteGameServerFleet_def DeleteGameServerFleetWithResponse_def
  clientGetGameServerFleet_def GetGameServerFleetWithResponse_def clientUpdateGameServerFleetWithBody_def
  UpdateGameServerFleetWithBodyWithResponse_def clientUpdateGameServerFleet_def
  UpdateGameServerFleetWithResponse_def clientListGameServers_def ListGameServersWithResponse_def
  clientCreateGameServerWithBody_def CreateGameServerWithBodyWithResponse_def clientCreateGameServer_def
  CreateGameServerWithResponse_def clientDeleteGameServer_def DeleteGameServerWithResponse_def
  clientGetGameServer_def GetGameServerWithResponse_def clientUpdateGameServerLifecycleWithBody_def
  UpdateGameServerLifecycleWithBodyWithResponse_def clientUpdateGameServerLifecycle_def
  UpdateGameServerLifecycleWithResponse_def clientListActions_def ListActionsWithResponse_def
  clientExecuteActionWithBody_def ExecuteActionWithBodyWithResponse_def clientExecuteAction_def
  ExecuteActionWithResponse_def clientGetConsole_def GetConsoleWithResponse_def clientGetActionExecution_def
  GetActionExecutionWithResponse_def clientGetSFTPInfo_def GetSFTPInfoWithResponse_def clientListSnapshots_def
  ListSnapshotsWithResponse_def clientCreateSnapshot_def CreateSnapshotWithResponse_def clientListProfiles_def
  ListProfilesWithResponse_def clientGetProfile_def GetProfileWithResponse_def clientGetAuthConfig_def
  GetAuthConfigWithResponse_def clientGetHealthz_def GetHealthzWithResponse_def clientGetReadyz_def
  GetReadyzWithResponse_def


section \<open>The environment of the hand-written client\<close>

lemma withResponse_method:
  "withResponse T parse h c =
     map_sum id seen (parsedBy (parse (tr_lib T))
       (sdkSend T (sentRequests T h) (sdkRequest (tr_lib T) (genServerURL (tr_server T)) c)))"
  by (simp add: withResponse_def requestFor_def parsedBy_def sdkSend_def split: sum.splits)

text \<open>
  Each method of the hand-written client goes through the generated method of its name, with its arguments and the
  parser for its answers.
\<close>

lemma generatedClient_methods:
  "sk_servers (generatedClient T) h SdkListServers = map_sum id seen (ListGameServersWithResponse T (sentRequests T h))"
  "sk_server (generatedClient T) h (SdkGetServer ns name) =
     map_sum id seen (GetGameServerWithResponse T (sentRequests T h) ns name)"
  "sk_server (generatedClient T) h (SdkCreateServer ns server) =
     map_sum id seen (CreateGameServerWithResponse T (sentRequests T h) ns server)"
  "sk_server (generatedClient T) h (SdkPatchLifecycle ns name l) =
     map_sum id seen (UpdateGameServerLifecycleWithResponse T (sentRequests T h) ns name l)"
  "sk_empty (generatedClient T) h (SdkDeleteServer ns name) =
     map_sum id seen (DeleteGameServerWithResponse T (sentRequests T h) ns name)"
  "sk_sftp (generatedClient T) h (SdkGetSFTP ns name) =
     map_sum id seen (GetSFTPInfoWithResponse T (sentRequests T h) ns name)"
  "sk_actions (generatedClient T) h (SdkListActions ns name) =
     map_sum id seen (ListActionsWithResponse T (sentRequests T h) ns name)"
  "sk_ref (generatedClient T) h (SdkExecuteAction ns name action params) =
     map_sum id seen (ExecuteActionWithResponse T (sentRequests T h) ns name action params)"
  "sk_execution (generatedClient T) h (SdkGetExecution ns name ident) =
     map_sum id seen (GetActionExecutionWithResponse T (sentRequests T h) ns name ident)"
  "sk_snapshots (generatedClient T) h (SdkListSnapshots ns name) =
     map_sum id seen (ListSnapshotsWithResponse T (sentRequests T h) ns name)"
  "sk_snapshot (generatedClient T) h (SdkCreateSnapshot ns name) =
     map_sum id seen (CreateSnapshotWithResponse T (sentRequests T h) ns name)"
  "sk_profiles (generatedClient T) h SdkListProfiles = map_sum id seen (ListProfilesWithResponse T (sentRequests T h))"
  "sk_profile (generatedClient T) h (SdkGetProfile name) =
     map_sum id seen (GetProfileWithResponse T (sentRequests T h) name)"
  "sk_fleets (generatedClient T) h SdkListFleets = map_sum id seen (ListGameServerFleetsWithResponse T (sentRequests T h))"
  "sk_fleet (generatedClient T) h (SdkGetFleet ns name) =
     map_sum id seen (GetGameServerFleetWithResponse T (sentRequests T h) ns name)"
  "sk_fleet (generatedClient T) h (SdkCreateFleet ns fleet) =
     map_sum id seen (CreateGameServerFleetWithResponse T (sentRequests T h) ns fleet)"
  "sk_fleet (generatedClient T) h (SdkPatchFleet ns name replicas) =
     map_sum id seen (UpdateGameServerFleetWithResponse T (sentRequests T h) ns name replicas)"
  "sk_empty (generatedClient T) h (SdkDeleteFleet ns name) =
     map_sum id seen (DeleteGameServerFleetWithResponse T (sentRequests T h) ns name)"
  by (simp_all add: generatedClient_def withResponse_method sdk_method_defs serverParser_def fleetParser_def emptyParser_def)

end
