(* ===== verification/Cloud_Methods.thy ===== *)
theory Cloud_Methods
  imports Cloud_Operations SDK_Methods
begin

text \<open>
  The methods of the generated client of the cloud API as they are written (\<^verbatim>\<open>internal/cloudapi/gen/client.gen.go\<close>):
  those of \<^verbatim>\<open>Client\<close> (\<open>cloudClient\<close> before the name), which send a request, and those of \<^verbatim>\<open>ClientWithResponses\<close>
  (\<open>cloud\<close> before the name), which parse its answer. The requests sent before are an argument.
\<close>

definition cloudSend :: "cloud_transport \<Rightarrow> out_request list \<Rightarrow> kerr + out_request \<Rightarrow> kerr + raw_response" where
  "cloudSend T sent req =
     (case req of
        Inl err \<Rightarrow> Inl err
      | Inr r \<Rightarrow> ctr_do T sent (applyEditors (ctr_headers T) r))"


section \<open>Methods\<close>

definition cloudClientAdminListClusters ::
    "cloud_transport \<Rightarrow> out_request list \<Rightarrow> kerr + raw_response" where
  "cloudClientAdminListClusters T sent =
     cloudSend T sent (cloudNewAdminListClustersRequest (ctr_lib T) (genServerURL (ctr_server T)))"

definition cloudAdminListClustersWithResponse ::
    "cloud_transport \<Rightarrow> out_request list \<Rightarrow> kerr + (CloudCluster list) parsed" where
  "cloudAdminListClustersWithResponse T sent =
     parsedBy (cloudParseAdminListClustersResponse (ctr_lib T)) (cloudClientAdminListClusters T sent)"

definition cloudClientAdminCreateClusterWithBody ::
    "cloud_transport \<Rightarrow> out_request list \<Rightarrow> string \<Rightarrow> string \<Rightarrow> kerr + raw_response" where
  "cloudClientAdminCreateClusterWithBody T sent contentType body =
     cloudSend T sent (cloudNewAdminCreateClusterRequestWithBody (ctr_lib T) (genServerURL (ctr_server T)) contentType body)"

definition cloudAdminCreateClusterWithBodyWithResponse ::
    "cloud_transport \<Rightarrow> out_request list \<Rightarrow> string \<Rightarrow> string \<Rightarrow> kerr + CloudCluster parsed" where
  "cloudAdminCreateClusterWithBodyWithResponse T sent contentType body =
     parsedBy (cloudParseAdminCreateClusterResponse (ctr_lib T)) (cloudClientAdminCreateClusterWithBody T sent contentType body)"

definition cloudClientAdminCreateCluster ::
    "cloud_transport \<Rightarrow> out_request list \<Rightarrow> CreateClusterRequest \<Rightarrow> kerr + raw_response" where
  "cloudClientAdminCreateCluster T sent body =
     cloudSend T sent (cloudNewAdminCreateClusterRequest (ctr_lib T) (genServerURL (ctr_server T)) body)"

definition cloudAdminCreateClusterWithResponse ::
    "cloud_transport \<Rightarrow> out_request list \<Rightarrow> CreateClusterRequest \<Rightarrow> kerr + CloudCluster parsed" where
  "cloudAdminCreateClusterWithResponse T sent body =
     parsedBy (cloudParseAdminCreateClusterResponse (ctr_lib T)) (cloudClientAdminCreateCluster T sent body)"

definition cloudClientAdminDeleteCluster ::
    "cloud_transport \<Rightarrow> out_request list \<Rightarrow> string \<Rightarrow> kerr + raw_response" where
  "cloudClientAdminDeleteCluster T sent clusterID =
     cloudSend T sent (cloudNewAdminDeleteClusterRequest (ctr_lib T) (genServerURL (ctr_server T)) clusterID)"

definition cloudAdminDeleteClusterWithResponse ::
    "cloud_transport \<Rightarrow> out_request list \<Rightarrow> string \<Rightarrow> kerr + unit parsed" where
  "cloudAdminDeleteClusterWithResponse T sent clusterID =
     parsedBy (cloudParseAdminDeleteClusterResponse (ctr_lib T)) (cloudClientAdminDeleteCluster T sent clusterID)"

definition cloudClientAdminUpdatePlanPricesWithBody ::
    "cloud_transport \<Rightarrow> out_request list \<Rightarrow> string \<Rightarrow> string \<Rightarrow> string \<Rightarrow> kerr + raw_response" where
  "cloudClientAdminUpdatePlanPricesWithBody T sent planID contentType body =
     cloudSend T sent (cloudNewAdminUpdatePlanPricesRequestWithBody (ctr_lib T) (genServerURL (ctr_server T)) planID contentType body)"

definition cloudAdminUpdatePlanPricesWithBodyWithResponse ::
    "cloud_transport \<Rightarrow> out_request list \<Rightarrow> string \<Rightarrow> string \<Rightarrow> string \<Rightarrow> kerr + CloudPlan parsed" where
  "cloudAdminUpdatePlanPricesWithBodyWithResponse T sent planID contentType body =
     parsedBy (cloudParseAdminUpdatePlanPricesResponse (ctr_lib T)) (cloudClientAdminUpdatePlanPricesWithBody T sent planID contentType body)"

definition cloudClientAdminUpdatePlanPrices ::
    "cloud_transport \<Rightarrow> out_request list \<Rightarrow> string \<Rightarrow> UpdatePlanPricesRequest \<Rightarrow> kerr + raw_response" where
  "cloudClientAdminUpdatePlanPrices T sent planID body =
     cloudSend T sent (cloudNewAdminUpdatePlanPricesRequest (ctr_lib T) (genServerURL (ctr_server T)) planID body)"

definition cloudAdminUpdatePlanPricesWithResponse ::
    "cloud_transport \<Rightarrow> out_request list \<Rightarrow> string \<Rightarrow> UpdatePlanPricesRequest \<Rightarrow> kerr + CloudPlan parsed" where
  "cloudAdminUpdatePlanPricesWithResponse T sent planID body =
     parsedBy (cloudParseAdminUpdatePlanPricesResponse (ctr_lib T)) (cloudClientAdminUpdatePlanPrices T sent planID body)"

definition cloudClientStripeWebhook ::
    "cloud_transport \<Rightarrow> out_request list \<Rightarrow> kerr + raw_response" where
  "cloudClientStripeWebhook T sent =
     cloudSend T sent (cloudNewStripeWebhookRequest (ctr_lib T) (genServerURL (ctr_server T)))"

definition cloudStripeWebhookWithResponse ::
    "cloud_transport \<Rightarrow> out_request list \<Rightarrow> kerr + unit parsed" where
  "cloudStripeWebhookWithResponse T sent =
     parsedBy (cloudParseStripeWebhookResponse (ctr_lib T)) (cloudClientStripeWebhook T sent)"

definition cloudClientRegisterClusterWithBody ::
    "cloud_transport \<Rightarrow> out_request list \<Rightarrow> string \<Rightarrow> string \<Rightarrow> kerr + raw_response" where
  "cloudClientRegisterClusterWithBody T sent contentType body =
     cloudSend T sent (cloudNewRegisterClusterRequestWithBody (ctr_lib T) (genServerURL (ctr_server T)) contentType body)"

definition cloudRegisterClusterWithBodyWithResponse ::
    "cloud_transport \<Rightarrow> out_request list \<Rightarrow> string \<Rightarrow> string \<Rightarrow> kerr + CloudCluster parsed" where
  "cloudRegisterClusterWithBodyWithResponse T sent contentType body =
     parsedBy (cloudParseRegisterClusterResponse (ctr_lib T)) (cloudClientRegisterClusterWithBody T sent contentType body)"

definition cloudClientRegisterCluster ::
    "cloud_transport \<Rightarrow> out_request list \<Rightarrow> CreateClusterRequest \<Rightarrow> kerr + raw_response" where
  "cloudClientRegisterCluster T sent body =
     cloudSend T sent (cloudNewRegisterClusterRequest (ctr_lib T) (genServerURL (ctr_server T)) body)"

definition cloudRegisterClusterWithResponse ::
    "cloud_transport \<Rightarrow> out_request list \<Rightarrow> CreateClusterRequest \<Rightarrow> kerr + CloudCluster parsed" where
  "cloudRegisterClusterWithResponse T sent body =
     parsedBy (cloudParseRegisterClusterResponse (ctr_lib T)) (cloudClientRegisterCluster T sent body)"

definition cloudClientClusterHeartbeatWithBody ::
    "cloud_transport \<Rightarrow> out_request list \<Rightarrow> string \<Rightarrow> string \<Rightarrow> string \<Rightarrow> kerr + raw_response" where
  "cloudClientClusterHeartbeatWithBody T sent name contentType body =
     cloudSend T sent (cloudNewClusterHeartbeatRequestWithBody (ctr_lib T) (genServerURL (ctr_server T)) name contentType body)"

definition cloudClusterHeartbeatWithBodyWithResponse ::
    "cloud_transport \<Rightarrow> out_request list \<Rightarrow> string \<Rightarrow> string \<Rightarrow> string \<Rightarrow> kerr + unit parsed" where
  "cloudClusterHeartbeatWithBodyWithResponse T sent name contentType body =
     parsedBy (cloudParseClusterHeartbeatResponse (ctr_lib T)) (cloudClientClusterHeartbeatWithBody T sent name contentType body)"

definition cloudClientClusterHeartbeat ::
    "cloud_transport \<Rightarrow> out_request list \<Rightarrow> string \<Rightarrow> HeartbeatRequest \<Rightarrow> kerr + raw_response" where
  "cloudClientClusterHeartbeat T sent name body =
     cloudSend T sent (cloudNewClusterHeartbeatRequest (ctr_lib T) (genServerURL (ctr_server T)) name body)"

definition cloudClusterHeartbeatWithResponse ::
    "cloud_transport \<Rightarrow> out_request list \<Rightarrow> string \<Rightarrow> HeartbeatRequest \<Rightarrow> kerr + unit parsed" where
  "cloudClusterHeartbeatWithResponse T sent name body =
     parsedBy (cloudParseClusterHeartbeatResponse (ctr_lib T)) (cloudClientClusterHeartbeat T sent name body)"

definition cloudClientAcceptInviteWithBody ::
    "cloud_transport \<Rightarrow> out_request list \<Rightarrow> string \<Rightarrow> string \<Rightarrow> kerr + raw_response" where
  "cloudClientAcceptInviteWithBody T sent contentType body =
     cloudSend T sent (cloudNewAcceptInviteRequestWithBody (ctr_lib T) (genServerURL (ctr_server T)) contentType body)"

definition cloudAcceptInviteWithBodyWithResponse ::
    "cloud_transport \<Rightarrow> out_request list \<Rightarrow> string \<Rightarrow> string \<Rightarrow> kerr + CloudMembership parsed" where
  "cloudAcceptInviteWithBodyWithResponse T sent contentType body =
     parsedBy (cloudParseAcceptInviteResponse (ctr_lib T)) (cloudClientAcceptInviteWithBody T sent contentType body)"

definition cloudClientAcceptInvite ::
    "cloud_transport \<Rightarrow> out_request list \<Rightarrow> AcceptInviteRequest \<Rightarrow> kerr + raw_response" where
  "cloudClientAcceptInvite T sent body =
     cloudSend T sent (cloudNewAcceptInviteRequest (ctr_lib T) (genServerURL (ctr_server T)) body)"

definition cloudAcceptInviteWithResponse ::
    "cloud_transport \<Rightarrow> out_request list \<Rightarrow> AcceptInviteRequest \<Rightarrow> kerr + CloudMembership parsed" where
  "cloudAcceptInviteWithResponse T sent body =
     parsedBy (cloudParseAcceptInviteResponse (ctr_lib T)) (cloudClientAcceptInvite T sent body)"

definition cloudClientListMyTenants ::
    "cloud_transport \<Rightarrow> out_request list \<Rightarrow> kerr + raw_response" where
  "cloudClientListMyTenants T sent =
     cloudSend T sent (cloudNewListMyTenantsRequest (ctr_lib T) (genServerURL (ctr_server T)))"

definition cloudListMyTenantsWithResponse ::
    "cloud_transport \<Rightarrow> out_request list \<Rightarrow> kerr + (CloudTenant list) parsed" where
  "cloudListMyTenantsWithResponse T sent =
     parsedBy (cloudParseListMyTenantsResponse (ctr_lib T)) (cloudClientListMyTenants T sent)"

definition cloudClientListPlans ::
    "cloud_transport \<Rightarrow> out_request list \<Rightarrow> kerr + raw_response" where
  "cloudClientListPlans T sent =
     cloudSend T sent (cloudNewListPlansRequest (ctr_lib T) (genServerURL (ctr_server T)))"

definition cloudListPlansWithResponse ::
    "cloud_transport \<Rightarrow> out_request list \<Rightarrow> kerr + (CloudPlan list) parsed" where
  "cloudListPlansWithResponse T sent =
     parsedBy (cloudParseListPlansResponse (ctr_lib T)) (cloudClientListPlans T sent)"

definition cloudClientListRegions ::
    "cloud_transport \<Rightarrow> out_request list \<Rightarrow> kerr + raw_response" where
  "cloudClientListRegions T sent =
     cloudSend T sent (cloudNewListRegionsRequest (ctr_lib T) (genServerURL (ctr_server T)))"

definition cloudListRegionsWithResponse ::
    "cloud_transport \<Rightarrow> out_request list \<Rightarrow> kerr + (string list) parsed" where
  "cloudListRegionsWithResponse T sent =
     parsedBy (cloudParseListRegionsResponse (ctr_lib T)) (cloudClientListRegions T sent)"

definition cloudClientCreateTenantWithBody ::
    "cloud_transport \<Rightarrow> out_request list \<Rightarrow> string \<Rightarrow> string \<Rightarrow> kerr + raw_response" where
  "cloudClientCreateTenantWithBody T sent contentType body =
     cloudSend T sent (cloudNewCreateTenantRequestWithBody (ctr_lib T) (genServerURL (ctr_server T)) contentType body)"

definition cloudCreateTenantWithBodyWithResponse ::
    "cloud_transport \<Rightarrow> out_request list \<Rightarrow> string \<Rightarrow> string \<Rightarrow> kerr + CloudTenant parsed" where
  "cloudCreateTenantWithBodyWithResponse T sent contentType body =
     parsedBy (cloudParseCreateTenantResponse (ctr_lib T)) (cloudClientCreateTenantWithBody T sent contentType body)"

definition cloudClientCreateTenant ::
    "cloud_transport \<Rightarrow> out_request list \<Rightarrow> CreateTenantRequest \<Rightarrow> kerr + raw_response" where
  "cloudClientCreateTenant T sent body =
     cloudSend T sent (cloudNewCreateTenantRequest (ctr_lib T) (genServerURL (ctr_server T)) body)"

definition cloudCreateTenantWithResponse ::
    "cloud_transport \<Rightarrow> out_request list \<Rightarrow> CreateTenantRequest \<Rightarrow> kerr + CloudTenant parsed" where
  "cloudCreateTenantWithResponse T sent body =
     parsedBy (cloudParseCreateTenantResponse (ctr_lib T)) (cloudClientCreateTenant T sent body)"

definition cloudClientGetTenant ::
    "cloud_transport \<Rightarrow> out_request list \<Rightarrow> string \<Rightarrow> kerr + raw_response" where
  "cloudClientGetTenant T sent tenantID =
     cloudSend T sent (cloudNewGetTenantRequest (ctr_lib T) (genServerURL (ctr_server T)) tenantID)"

definition cloudGetTenantWithResponse ::
    "cloud_transport \<Rightarrow> out_request list \<Rightarrow> string \<Rightarrow> kerr + CloudTenant parsed" where
  "cloudGetTenantWithResponse T sent tenantID =
     parsedBy (cloudParseGetTenantResponse (ctr_lib T)) (cloudClientGetTenant T sent tenantID)"

definition cloudClientUpdateTenantWithBody ::
    "cloud_transport \<Rightarrow> out_request list \<Rightarrow> string \<Rightarrow> string \<Rightarrow> string \<Rightarrow> kerr + raw_response" where
  "cloudClientUpdateTenantWithBody T sent tenantID contentType body =
     cloudSend T sent (cloudNewUpdateTenantRequestWithBody (ctr_lib T) (genServerURL (ctr_server T)) tenantID contentType body)"

definition cloudUpdateTenantWithBodyWithResponse ::
    "cloud_transport \<Rightarrow> out_request list \<Rightarrow> string \<Rightarrow> string \<Rightarrow> string \<Rightarrow> kerr + CloudTenant parsed" where
  "cloudUpdateTenantWithBodyWithResponse T sent tenantID contentType body =
     parsedBy (cloudParseUpdateTenantResponse (ctr_lib T)) (cloudClientUpdateTenantWithBody T sent tenantID contentType body)"

definition cloudClientUpdateTenant ::
    "cloud_transport \<Rightarrow> out_request list \<Rightarrow> string \<Rightarrow> UpdateTenantRequest \<Rightarrow> kerr + raw_response" where
  "cloudClientUpdateTenant T sent tenantID body =
     cloudSend T sent (cloudNewUpdateTenantRequest (ctr_lib T) (genServerURL (ctr_server T)) tenantID body)"

definition cloudUpdateTenantWithResponse ::
    "cloud_transport \<Rightarrow> out_request list \<Rightarrow> string \<Rightarrow> UpdateTenantRequest \<Rightarrow> kerr + CloudTenant parsed" where
  "cloudUpdateTenantWithResponse T sent tenantID body =
     parsedBy (cloudParseUpdateTenantResponse (ctr_lib T)) (cloudClientUpdateTenant T sent tenantID body)"

definition cloudClientListAPIKeys ::
    "cloud_transport \<Rightarrow> out_request list \<Rightarrow> string \<Rightarrow> kerr + raw_response" where
  "cloudClientListAPIKeys T sent tenantID =
     cloudSend T sent (cloudNewListAPIKeysRequest (ctr_lib T) (genServerURL (ctr_server T)) tenantID)"

definition cloudListAPIKeysWithResponse ::
    "cloud_transport \<Rightarrow> out_request list \<Rightarrow> string \<Rightarrow> kerr + (CloudAPIKey list) parsed" where
  "cloudListAPIKeysWithResponse T sent tenantID =
     parsedBy (cloudParseListAPIKeysResponse (ctr_lib T)) (cloudClientListAPIKeys T sent tenantID)"

definition cloudClientCreateAPIKeyWithBody ::
    "cloud_transport \<Rightarrow> out_request list \<Rightarrow> string \<Rightarrow> string \<Rightarrow> string \<Rightarrow> kerr + raw_response" where
  "cloudClientCreateAPIKeyWithBody T sent tenantID contentType body =
     cloudSend T sent (cloudNewCreateAPIKeyRequestWithBody (ctr_lib T) (genServerURL (ctr_server T)) tenantID contentType body)"

definition cloudCreateAPIKeyWithBodyWithResponse ::
    "cloud_transport \<Rightarrow> out_request list \<Rightarrow> string \<Rightarrow> string \<Rightarrow> string \<Rightarrow> kerr + APIKeyCreated parsed" where
  "cloudCreateAPIKeyWithBodyWithResponse T sent tenantID contentType body =
     parsedBy (cloudParseCreateAPIKeyResponse (ctr_lib T)) (cloudClientCreateAPIKeyWithBody T sent tenantID contentType body)"

definition cloudClientCreateAPIKey ::
    "cloud_transport \<Rightarrow> out_request list \<Rightarrow> string \<Rightarrow> CreateAPIKeyRequest \<Rightarrow> kerr + raw_response" where
  "cloudClientCreateAPIKey T sent tenantID body =
     cloudSend T sent (cloudNewCreateAPIKeyRequest (ctr_lib T) (genServerURL (ctr_server T)) tenantID body)"

definition cloudCreateAPIKeyWithResponse ::
    "cloud_transport \<Rightarrow> out_request list \<Rightarrow> string \<Rightarrow> CreateAPIKeyRequest \<Rightarrow> kerr + APIKeyCreated parsed" where
  "cloudCreateAPIKeyWithResponse T sent tenantID body =
     parsedBy (cloudParseCreateAPIKeyResponse (ctr_lib T)) (cloudClientCreateAPIKey T sent tenantID body)"

definition cloudClientDeleteAPIKey ::
    "cloud_transport \<Rightarrow> out_request list \<Rightarrow> string \<Rightarrow> string \<Rightarrow> kerr + raw_response" where
  "cloudClientDeleteAPIKey T sent tenantID keyID =
     cloudSend T sent (cloudNewDeleteAPIKeyRequest (ctr_lib T) (genServerURL (ctr_server T)) tenantID keyID)"

definition cloudDeleteAPIKeyWithResponse ::
    "cloud_transport \<Rightarrow> out_request list \<Rightarrow> string \<Rightarrow> string \<Rightarrow> kerr + unit parsed" where
  "cloudDeleteAPIKeyWithResponse T sent tenantID keyID =
     parsedBy (cloudParseDeleteAPIKeyResponse (ctr_lib T)) (cloudClientDeleteAPIKey T sent tenantID keyID)"

definition cloudClientListAudit ::
    "cloud_transport \<Rightarrow> out_request list \<Rightarrow> string \<Rightarrow> kerr + raw_response" where
  "cloudClientListAudit T sent tenantID =
     cloudSend T sent (cloudNewListAuditRequest (ctr_lib T) (genServerURL (ctr_server T)) tenantID)"

definition cloudListAuditWithResponse ::
    "cloud_transport \<Rightarrow> out_request list \<Rightarrow> string \<Rightarrow> kerr + (CloudAuditEvent list) parsed" where
  "cloudListAuditWithResponse T sent tenantID =
     parsedBy (cloudParseListAuditResponse (ctr_lib T)) (cloudClientListAudit T sent tenantID)"

definition cloudClientCreateCheckoutWithBody ::
    "cloud_transport \<Rightarrow> out_request list \<Rightarrow> string \<Rightarrow> string \<Rightarrow> string \<Rightarrow> kerr + raw_response" where
  "cloudClientCreateCheckoutWithBody T sent tenantID contentType body =
     cloudSend T sent (cloudNewCreateCheckoutRequestWithBody (ctr_lib T) (genServerURL (ctr_server T)) tenantID contentType body)"

definition cloudCreateCheckoutWithBodyWithResponse ::
    "cloud_transport \<Rightarrow> out_request list \<Rightarrow> string \<Rightarrow> string \<Rightarrow> string \<Rightarrow> kerr + string parsed" where
  "cloudCreateCheckoutWithBodyWithResponse T sent tenantID contentType body =
     parsedBy (cloudParseCreateCheckoutResponse (ctr_lib T)) (cloudClientCreateCheckoutWithBody T sent tenantID contentType body)"

definition cloudClientCreateCheckout ::
    "cloud_transport \<Rightarrow> out_request list \<Rightarrow> string \<Rightarrow> CheckoutRequest \<Rightarrow> kerr + raw_response" where
  "cloudClientCreateCheckout T sent tenantID body =
     cloudSend T sent (cloudNewCreateCheckoutRequest (ctr_lib T) (genServerURL (ctr_server T)) tenantID body)"

definition cloudCreateCheckoutWithResponse ::
    "cloud_transport \<Rightarrow> out_request list \<Rightarrow> string \<Rightarrow> CheckoutRequest \<Rightarrow> kerr + string parsed" where
  "cloudCreateCheckoutWithResponse T sent tenantID body =
     parsedBy (cloudParseCreateCheckoutResponse (ctr_lib T)) (cloudClientCreateCheckout T sent tenantID body)"

definition cloudClientListInvoices ::
    "cloud_transport \<Rightarrow> out_request list \<Rightarrow> string \<Rightarrow> kerr + raw_response" where
  "cloudClientListInvoices T sent tenantID =
     cloudSend T sent (cloudNewListInvoicesRequest (ctr_lib T) (genServerURL (ctr_server T)) tenantID)"

definition cloudListInvoicesWithResponse ::
    "cloud_transport \<Rightarrow> out_request list \<Rightarrow> string \<Rightarrow> kerr + (CloudInvoice list) parsed" where
  "cloudListInvoicesWithResponse T sent tenantID =
     parsedBy (cloudParseListInvoicesResponse (ctr_lib T)) (cloudClientListInvoices T sent tenantID)"

definition cloudClientCreatePortal ::
    "cloud_transport \<Rightarrow> out_request list \<Rightarrow> string \<Rightarrow> kerr + raw_response" where
  "cloudClientCreatePortal T sent tenantID =
     cloudSend T sent (cloudNewCreatePortalRequest (ctr_lib T) (genServerURL (ctr_server T)) tenantID)"

definition cloudCreatePortalWithResponse ::
    "cloud_transport \<Rightarrow> out_request list \<Rightarrow> string \<Rightarrow> kerr + string parsed" where
  "cloudCreatePortalWithResponse T sent tenantID =
     parsedBy (cloudParseCreatePortalResponse (ctr_lib T)) (cloudClientCreatePortal T sent tenantID)"

definition cloudClientGetCatalog ::
    "cloud_transport \<Rightarrow> out_request list \<Rightarrow> string \<Rightarrow> kerr + raw_response" where
  "cloudClientGetCatalog T sent tenantID =
     cloudSend T sent (cloudNewGetCatalogRequest (ctr_lib T) (genServerURL (ctr_server T)) tenantID)"

definition cloudGetCatalogWithResponse ::
    "cloud_transport \<Rightarrow> out_request list \<Rightarrow> string \<Rightarrow> kerr + (CatalogEntry list) parsed" where
  "cloudGetCatalogWithResponse T sent tenantID =
     parsedBy (cloudParseGetCatalogResponse (ctr_lib T)) (cloudClientGetCatalog T sent tenantID)"

definition cloudClientListInvites ::
    "cloud_transport \<Rightarrow> out_request list \<Rightarrow> string \<Rightarrow> kerr + raw_response" where
  "cloudClientListInvites T sent tenantID =
     cloudSend T sent (cloudNewListInvitesRequest (ctr_lib T) (genServerURL (ctr_server T)) tenantID)"

definition cloudListInvitesWithResponse ::
    "cloud_transport \<Rightarrow> out_request list \<Rightarrow> string \<Rightarrow> kerr + (CloudInvite list) parsed" where
  "cloudListInvitesWithResponse T sent tenantID =
     parsedBy (cloudParseListInvitesResponse (ctr_lib T)) (cloudClientListInvites T sent tenantID)"

definition cloudClientCreateInviteWithBody ::
    "cloud_transport \<Rightarrow> out_request list \<Rightarrow> string \<Rightarrow> string \<Rightarrow> string \<Rightarrow> kerr + raw_response" where
  "cloudClientCreateInviteWithBody T sent tenantID contentType body =
     cloudSend T sent (cloudNewCreateInviteRequestWithBody (ctr_lib T) (genServerURL (ctr_server T)) tenantID contentType body)"

definition cloudCreateInviteWithBodyWithResponse ::
    "cloud_transport \<Rightarrow> out_request list \<Rightarrow> string \<Rightarrow> string \<Rightarrow> string \<Rightarrow> kerr + CloudInvite parsed" where
  "cloudCreateInviteWithBodyWithResponse T sent tenantID contentType body =
     parsedBy (cloudParseCreateInviteResponse (ctr_lib T)) (cloudClientCreateInviteWithBody T sent tenantID contentType body)"

definition cloudClientCreateInvite ::
    "cloud_transport \<Rightarrow> out_request list \<Rightarrow> string \<Rightarrow> CreateInviteRequest \<Rightarrow> kerr + raw_response" where
  "cloudClientCreateInvite T sent tenantID body =
     cloudSend T sent (cloudNewCreateInviteRequest (ctr_lib T) (genServerURL (ctr_server T)) tenantID body)"

definition cloudCreateInviteWithResponse ::
    "cloud_transport \<Rightarrow> out_request list \<Rightarrow> string \<Rightarrow> CreateInviteRequest \<Rightarrow> kerr + CloudInvite parsed" where
  "cloudCreateInviteWithResponse T sent tenantID body =
     parsedBy (cloudParseCreateInviteResponse (ctr_lib T)) (cloudClientCreateInvite T sent tenantID body)"

definition cloudClientRevokeInvite ::
    "cloud_transport \<Rightarrow> out_request list \<Rightarrow> string \<Rightarrow> string \<Rightarrow> kerr + raw_response" where
  "cloudClientRevokeInvite T sent tenantID inviteID =
     cloudSend T sent (cloudNewRevokeInviteRequest (ctr_lib T) (genServerURL (ctr_server T)) tenantID inviteID)"

definition cloudRevokeInviteWithResponse ::
    "cloud_transport \<Rightarrow> out_request list \<Rightarrow> string \<Rightarrow> string \<Rightarrow> kerr + unit parsed" where
  "cloudRevokeInviteWithResponse T sent tenantID inviteID =
     parsedBy (cloudParseRevokeInviteResponse (ctr_lib T)) (cloudClientRevokeInvite T sent tenantID inviteID)"

definition cloudClientListMembers ::
    "cloud_transport \<Rightarrow> out_request list \<Rightarrow> string \<Rightarrow> kerr + raw_response" where
  "cloudClientListMembers T sent tenantID =
     cloudSend T sent (cloudNewListMembersRequest (ctr_lib T) (genServerURL (ctr_server T)) tenantID)"

definition cloudListMembersWithResponse ::
    "cloud_transport \<Rightarrow> out_request list \<Rightarrow> string \<Rightarrow> kerr + (CloudMembership list) parsed" where
  "cloudListMembersWithResponse T sent tenantID =
     parsedBy (cloudParseListMembersResponse (ctr_lib T)) (cloudClientListMembers T sent tenantID)"

definition cloudClientAddMemberWithBody ::
    "cloud_transport \<Rightarrow> out_request list \<Rightarrow> string \<Rightarrow> string \<Rightarrow> string \<Rightarrow> kerr + raw_response" where
  "cloudClientAddMemberWithBody T sent tenantID contentType body =
     cloudSend T sent (cloudNewAddMemberRequestWithBody (ctr_lib T) (genServerURL (ctr_server T)) tenantID contentType body)"

definition cloudAddMemberWithBodyWithResponse ::
    "cloud_transport \<Rightarrow> out_request list \<Rightarrow> string \<Rightarrow> string \<Rightarrow> string \<Rightarrow> kerr + CloudMembership parsed" where
  "cloudAddMemberWithBodyWithResponse T sent tenantID contentType body =
     parsedBy (cloudParseAddMemberResponse (ctr_lib T)) (cloudClientAddMemberWithBody T sent tenantID contentType body)"

definition cloudClientAddMember ::
    "cloud_transport \<Rightarrow> out_request list \<Rightarrow> string \<Rightarrow> AddMemberRequest \<Rightarrow> kerr + raw_response" where
  "cloudClientAddMember T sent tenantID body =
     cloudSend T sent (cloudNewAddMemberRequest (ctr_lib T) (genServerURL (ctr_server T)) tenantID body)"

definition cloudAddMemberWithResponse ::
    "cloud_transport \<Rightarrow> out_request list \<Rightarrow> string \<Rightarrow> AddMemberRequest \<Rightarrow> kerr + CloudMembership parsed" where
  "cloudAddMemberWithResponse T sent tenantID body =
     parsedBy (cloudParseAddMemberResponse (ctr_lib T)) (cloudClientAddMember T sent tenantID body)"

definition cloudClientRemoveMember ::
    "cloud_transport \<Rightarrow> out_request list \<Rightarrow> string \<Rightarrow> string \<Rightarrow> kerr + raw_response" where
  "cloudClientRemoveMember T sent tenantID userSub =
     cloudSend T sent (cloudNewRemoveMemberRequest (ctr_lib T) (genServerURL (ctr_server T)) tenantID userSub)"

definition cloudRemoveMemberWithResponse ::
    "cloud_transport \<Rightarrow> out_request list \<Rightarrow> string \<Rightarrow> string \<Rightarrow> kerr + unit parsed" where
  "cloudRemoveMemberWithResponse T sent tenantID userSub =
     parsedBy (cloudParseRemoveMemberResponse (ctr_lib T)) (cloudClientRemoveMember T sent tenantID userSub)"

definition cloudClientListProfiles ::
    "cloud_transport \<Rightarrow> out_request list \<Rightarrow> string \<Rightarrow> kerr + raw_response" where
  "cloudClientListProfiles T sent tenantID =
     cloudSend T sent (cloudNewListProfilesRequest (ctr_lib T) (genServerURL (ctr_server T)) tenantID)"

definition cloudListProfilesWithResponse ::
    "cloud_transport \<Rightarrow> out_request list \<Rightarrow> string \<Rightarrow> kerr + (CloudGameProfile list) parsed" where
  "cloudListProfilesWithResponse T sent tenantID =
     parsedBy (cloudParseListProfilesResponse (ctr_lib T)) (cloudClientListProfiles T sent tenantID)"

definition cloudClientGetProfile ::
    "cloud_transport \<Rightarrow> out_request list \<Rightarrow> string \<Rightarrow> string \<Rightarrow> kerr + raw_response" where
  "cloudClientGetProfile T sent tenantID name =
     cloudSend T sent (cloudNewGetProfileRequest (ctr_lib T) (genServerURL (ctr_server T)) tenantID name)"

definition cloudGetProfileWithResponse ::
    "cloud_transport \<Rightarrow> out_request list \<Rightarrow> string \<Rightarrow> string \<Rightarrow> kerr + CatalogEntry parsed" where
  "cloudGetProfileWithResponse T sent tenantID name =
     parsedBy (cloudParseGetProfileResponse (ctr_lib T)) (cloudClientGetProfile T sent tenantID name)"

definition cloudClientListServers ::
    "cloud_transport \<Rightarrow> out_request list \<Rightarrow> string \<Rightarrow> kerr + raw_response" where
  "cloudClientListServers T sent tenantID =
     cloudSend T sent (cloudNewListServersRequest (ctr_lib T) (genServerURL (ctr_server T)) tenantID)"

definition cloudListServersWithResponse ::
    "cloud_transport \<Rightarrow> out_request list \<Rightarrow> string \<Rightarrow> kerr + (CloudServer list) parsed" where
  "cloudListServersWithResponse T sent tenantID =
     parsedBy (cloudParseListServersResponse (ctr_lib T)) (cloudClientListServers T sent tenantID)"

definition cloudClientCreateServerWithBody ::
    "cloud_transport \<Rightarrow> out_request list \<Rightarrow> string \<Rightarrow> string \<Rightarrow> string \<Rightarrow> kerr + raw_response" where
  "cloudClientCreateServerWithBody T sent tenantID contentType body =
     cloudSend T sent (cloudNewCreateServerRequestWithBody (ctr_lib T) (genServerURL (ctr_server T)) tenantID contentType body)"

definition cloudCreateServerWithBodyWithResponse ::
    "cloud_transport \<Rightarrow> out_request list \<Rightarrow> string \<Rightarrow> string \<Rightarrow> string \<Rightarrow> kerr + CloudServer parsed" where
  "cloudCreateServerWithBodyWithResponse T sent tenantID contentType body =
     parsedBy (cloudParseCreateServerResponse (ctr_lib T)) (cloudClientCreateServerWithBody T sent tenantID contentType body)"

definition cloudClientCreateServer ::
    "cloud_transport \<Rightarrow> out_request list \<Rightarrow> string \<Rightarrow> CreateServerRequest \<Rightarrow> kerr + raw_response" where
  "cloudClientCreateServer T sent tenantID body =
     cloudSend T sent (cloudNewCreateServerRequest (ctr_lib T) (genServerURL (ctr_server T)) tenantID body)"

definition cloudCreateServerWithResponse ::
    "cloud_transport \<Rightarrow> out_request list \<Rightarrow> string \<Rightarrow> CreateServerRequest \<Rightarrow> kerr + CloudServer parsed" where
  "cloudCreateServerWithResponse T sent tenantID body =
     parsedBy (cloudParseCreateServerResponse (ctr_lib T)) (cloudClientCreateServer T sent tenantID body)"

definition cloudClientDeleteServer ::
    "cloud_transport \<Rightarrow> out_request list \<Rightarrow> string \<Rightarrow> string \<Rightarrow> kerr + raw_response" where
  "cloudClientDeleteServer T sent tenantID serverID =
     cloudSend T sent (cloudNewDeleteServerRequest (ctr_lib T) (genServerURL (ctr_server T)) tenantID serverID)"

definition cloudDeleteServerWithResponse ::
    "cloud_transport \<Rightarrow> out_request list \<Rightarrow> string \<Rightarrow> string \<Rightarrow> kerr + unit parsed" where
  "cloudDeleteServerWithResponse T sent tenantID serverID =
     parsedBy (cloudParseDeleteServerResponse (ctr_lib T)) (cloudClientDeleteServer T sent tenantID serverID)"

definition cloudClientGetServer ::
    "cloud_transport \<Rightarrow> out_request list \<Rightarrow> string \<Rightarrow> string \<Rightarrow> kerr + raw_response" where
  "cloudClientGetServer T sent tenantID serverID =
     cloudSend T sent (cloudNewGetServerRequest (ctr_lib T) (genServerURL (ctr_server T)) tenantID serverID)"

definition cloudGetServerWithResponse ::
    "cloud_transport \<Rightarrow> out_request list \<Rightarrow> string \<Rightarrow> string \<Rightarrow> kerr + CloudServer parsed" where
  "cloudGetServerWithResponse T sent tenantID serverID =
     parsedBy (cloudParseGetServerResponse (ctr_lib T)) (cloudClientGetServer T sent tenantID serverID)"

definition cloudClientListActions ::
    "cloud_transport \<Rightarrow> out_request list \<Rightarrow> string \<Rightarrow> string \<Rightarrow> kerr + raw_response" where
  "cloudClientListActions T sent tenantID serverID =
     cloudSend T sent (cloudNewListActionsRequest (ctr_lib T) (genServerURL (ctr_server T)) tenantID serverID)"

definition cloudListActionsWithResponse ::
    "cloud_transport \<Rightarrow> out_request list \<Rightarrow> string \<Rightarrow> string \<Rightarrow> kerr + (CloudAction list) parsed" where
  "cloudListActionsWithResponse T sent tenantID serverID =
     parsedBy (cloudParseListActionsResponse (ctr_lib T)) (cloudClientListActions T sent tenantID serverID)"

definition cloudClientExecuteActionWithBody ::
    "cloud_transport \<Rightarrow> out_request list \<Rightarrow> string \<Rightarrow> string \<Rightarrow> string \<Rightarrow> string \<Rightarrow> string \<Rightarrow> kerr + raw_response" where
  "cloudClientExecuteActionWithBody T sent tenantID serverID action contentType body =
     cloudSend T sent (cloudNewExecuteActionRequestWithBody (ctr_lib T) (genServerURL (ctr_server T)) tenantID serverID action contentType body)"

definition cloudExecuteActionWithBodyWithResponse ::
    "cloud_transport \<Rightarrow> out_request list \<Rightarrow> string \<Rightarrow> string \<Rightarrow> string \<Rightarrow> string \<Rightarrow> string \<Rightarrow> kerr + string parsed" where
  "cloudExecuteActionWithBodyWithResponse T sent tenantID serverID action contentType body =
     parsedBy (cloudParseExecuteActionResponse (ctr_lib T)) (cloudClientExecuteActionWithBody T sent tenantID serverID action contentType body)"

definition cloudClientExecuteAction ::
    "cloud_transport \<Rightarrow> out_request list \<Rightarrow> string \<Rightarrow> string \<Rightarrow> string \<Rightarrow> labels \<Rightarrow> kerr + raw_response" where
  "cloudClientExecuteAction T sent tenantID serverID action body =
     cloudSend T sent (cloudNewExecuteActionRequest (ctr_lib T) (genServerURL (ctr_server T)) tenantID serverID action body)"

definition cloudExecuteActionWithResponse ::
    "cloud_transport \<Rightarrow> out_request list \<Rightarrow> string \<Rightarrow> string \<Rightarrow> string \<Rightarrow> labels \<Rightarrow> kerr + string parsed" where
  "cloudExecuteActionWithResponse T sent tenantID serverID action body =
     parsedBy (cloudParseExecuteActionResponse (ctr_lib T)) (cloudClientExecuteAction T sent tenantID serverID action body)"

definition cloudClientGetConsole ::
    "cloud_transport \<Rightarrow> out_request list \<Rightarrow> string \<Rightarrow> string \<Rightarrow> kerr + raw_response" where
  "cloudClientGetConsole T sent tenantID serverID =
     cloudSend T sent (cloudNewGetConsoleRequest (ctr_lib T) (genServerURL (ctr_server T)) tenantID serverID)"

definition cloudGetConsoleWithResponse ::
    "cloud_transport \<Rightarrow> out_request list \<Rightarrow> string \<Rightarrow> string \<Rightarrow> kerr + unit parsed" where
  "cloudGetConsoleWithResponse T sent tenantID serverID =
     parsedBy (cloudParseGetConsoleResponse (ctr_lib T)) (cloudClientGetConsole T sent tenantID serverID)"

definition cloudClientGetActionExecution ::
    "cloud_transport \<Rightarrow> out_request list \<Rightarrow> string \<Rightarrow> string \<Rightarrow> string \<Rightarrow> kerr + raw_response" where
  "cloudClientGetActionExecution T sent tenantID serverID executionID =
     cloudSend T sent (cloudNewGetActionExecutionRequest (ctr_lib T) (genServerURL (ctr_server T)) tenantID serverID executionID)"

definition cloudGetActionExecutionWithResponse ::
    "cloud_transport \<Rightarrow> out_request list \<Rightarrow> string \<Rightarrow> string \<Rightarrow> string \<Rightarrow> kerr + CloudExecution parsed" where
  "cloudGetActionExecutionWithResponse T sent tenantID serverID executionID =
     parsedBy (cloudParseGetActionExecutionResponse (ctr_lib T)) (cloudClientGetActionExecution T sent tenantID serverID executionID)"

definition cloudClientListSnapshots ::
    "cloud_transport \<Rightarrow> out_request list \<Rightarrow> string \<Rightarrow> string \<Rightarrow> kerr + raw_response" where
  "cloudClientListSnapshots T sent tenantID serverID =
     cloudSend T sent (cloudNewListSnapshotsRequest (ctr_lib T) (genServerURL (ctr_server T)) tenantID serverID)"

definition cloudListSnapshotsWithResponse ::
    "cloud_transport \<Rightarrow> out_request list \<Rightarrow> string \<Rightarrow> string \<Rightarrow> kerr + (CloudSnapshot list) parsed" where
  "cloudListSnapshotsWithResponse T sent tenantID serverID =
     parsedBy (cloudParseListSnapshotsResponse (ctr_lib T)) (cloudClientListSnapshots T sent tenantID serverID)"

definition cloudClientCreateSnapshot ::
    "cloud_transport \<Rightarrow> out_request list \<Rightarrow> string \<Rightarrow> string \<Rightarrow> kerr + raw_response" where
  "cloudClientCreateSnapshot T sent tenantID serverID =
     cloudSend T sent (cloudNewCreateSnapshotRequest (ctr_lib T) (genServerURL (ctr_server T)) tenantID serverID)"

definition cloudCreateSnapshotWithResponse ::
    "cloud_transport \<Rightarrow> out_request list \<Rightarrow> string \<Rightarrow> string \<Rightarrow> kerr + CloudSnapshot parsed" where
  "cloudCreateSnapshotWithResponse T sent tenantID serverID =
     parsedBy (cloudParseCreateSnapshotResponse (ctr_lib T)) (cloudClientCreateSnapshot T sent tenantID serverID)"

definition cloudClientGetSubscription ::
    "cloud_transport \<Rightarrow> out_request list \<Rightarrow> string \<Rightarrow> kerr + raw_response" where
  "cloudClientGetSubscription T sent tenantID =
     cloudSend T sent (cloudNewGetSubscriptionRequest (ctr_lib T) (genServerURL (ctr_server T)) tenantID)"

definition cloudGetSubscriptionWithResponse ::
    "cloud_transport \<Rightarrow> out_request list \<Rightarrow> string \<Rightarrow> kerr + CloudSubscription parsed" where
  "cloudGetSubscriptionWithResponse T sent tenantID =
     parsedBy (cloudParseGetSubscriptionResponse (ctr_lib T)) (cloudClientGetSubscription T sent tenantID)"

definition cloudClientGetHealthz ::
    "cloud_transport \<Rightarrow> out_request list \<Rightarrow> kerr + raw_response" where
  "cloudClientGetHealthz T sent =
     cloudSend T sent (cloudNewGetHealthzRequest (ctr_lib T) (genServerURL (ctr_server T)))"

definition cloudGetHealthzWithResponse ::
    "cloud_transport \<Rightarrow> out_request list \<Rightarrow> kerr + unit parsed" where
  "cloudGetHealthzWithResponse T sent =
     parsedBy (cloudParseGetHealthzResponse (ctr_lib T)) (cloudClientGetHealthz T sent)"

definition cloudClientGetReadyz ::
    "cloud_transport \<Rightarrow> out_request list \<Rightarrow> kerr + raw_response" where
  "cloudClientGetReadyz T sent =
     cloudSend T sent (cloudNewGetReadyzRequest (ctr_lib T) (genServerURL (ctr_server T)))"

definition cloudGetReadyzWithResponse ::
    "cloud_transport \<Rightarrow> out_request list \<Rightarrow> kerr + unit parsed" where
  "cloudGetReadyzWithResponse T sent =
     parsedBy (cloudParseGetReadyzResponse (ctr_lib T)) (cloudClientGetReadyz T sent)"

definition cloudClientDeleteTenant ::
    "cloud_transport \<Rightarrow> query_style \<Rightarrow> out_request list \<Rightarrow> string \<Rightarrow> DeleteTenantParams option \<Rightarrow> kerr + raw_response" where
  "cloudClientDeleteTenant T style sent tenantID params =
     cloudSend T sent (cloudNewDeleteTenantRequest (ctr_lib T) style (genServerURL (ctr_server T)) tenantID params)"

definition cloudDeleteTenantWithResponse ::
    "cloud_transport \<Rightarrow> query_style \<Rightarrow> out_request list \<Rightarrow> string \<Rightarrow> DeleteTenantParams option \<Rightarrow> kerr + unit parsed" where
  "cloudDeleteTenantWithResponse T style sent tenantID params =
     parsedBy (cloudParseDeleteTenantResponse (ctr_lib T)) (cloudClientDeleteTenant T style sent tenantID params)"

lemmas cloud_method_defs =
  cloudClientAdminListClusters_def cloudAdminListClustersWithResponse_def
  cloudClientAdminCreateClusterWithBody_def cloudAdminCreateClusterWithBodyWithResponse_def
  cloudClientAdminCreateCluster_def cloudAdminCreateClusterWithResponse_def cloudClientAdminDeleteCluster_def
  cloudAdminDeleteClusterWithResponse_def cloudClientAdminUpdatePlanPricesWithBody_def
  cloudAdminUpdatePlanPricesWithBodyWithResponse_def cloudClientAdminUpdatePlanPrices_def
  cloudAdminUpdatePlanPricesWithResponse_def cloudClientStripeWebhook_def cloudStripeWebhookWithResponse_def
  cloudClientRegisterClusterWithBody_def cloudRegisterClusterWithBodyWithResponse_def
  cloudClientRegisterCluster_def cloudRegisterClusterWithResponse_def cloudClientClusterHeartbeatWithBody_def
  cloudClusterHeartbeatWithBodyWithResponse_def cloudClientClusterHeartbeat_def
  cloudClusterHeartbeatWithResponse_def cloudClientAcceptInviteWithBody_def
  cloudAcceptInviteWithBodyWithResponse_def cloudClientAcceptInvite_def cloudAcceptInviteWithResponse_def
  cloudClientListMyTenants_def cloudListMyTenantsWithResponse_def cloudClientListPlans_def
  cloudListPlansWithResponse_def cloudClientListRegions_def cloudListRegionsWithResponse_def
  cloudClientCreateTenantWithBody_def cloudCreateTenantWithBodyWithResponse_def cloudClientCreateTenant_def
  cloudCreateTenantWithResponse_def cloudClientGetTenant_def cloudGetTenantWithResponse_def
  cloudClientUpdateTenantWithBody_def cloudUpdateTenantWithBodyWithResponse_def cloudClientUpdateTenant_def
  cloudUpdateTenantWithResponse_def cloudClientListAPIKeys_def cloudListAPIKeysWithResponse_def
  cloudClientCreateAPIKeyWithBody_def cloudCreateAPIKeyWithBodyWithResponse_def cloudClientCreateAPIKey_def
  cloudCreateAPIKeyWithResponse_def cloudClientDeleteAPIKey_def cloudDeleteAPIKeyWithResponse_def
  cloudClientListAudit_def cloudListAuditWithResponse_def cloudClientCreateCheckoutWithBody_def
  cloudCreateCheckoutWithBodyWithResponse_def cloudClientCreateCheckout_def cloudCreateCheckoutWithResponse_def
  cloudClientListInvoices_def cloudListInvoicesWithResponse_def cloudClientCreatePortal_def
  cloudCreatePortalWithResponse_def cloudClientGetCatalog_def cloudGetCatalogWithResponse_def
  cloudClientListInvites_def cloudListInvitesWithResponse_def cloudClientCreateInviteWithBody_def
  cloudCreateInviteWithBodyWithResponse_def cloudClientCreateInvite_def cloudCreateInviteWithResponse_def
  cloudClientRevokeInvite_def cloudRevokeInviteWithResponse_def cloudClientListMembers_def
  cloudListMembersWithResponse_def cloudClientAddMemberWithBody_def cloudAddMemberWithBodyWithResponse_def
  cloudClientAddMember_def cloudAddMemberWithResponse_def cloudClientRemoveMember_def
  cloudRemoveMemberWithResponse_def cloudClientListProfiles_def cloudListProfilesWithResponse_def
  cloudClientGetProfile_def cloudGetProfileWithResponse_def cloudClientListServers_def
  cloudListServersWithResponse_def cloudClientCreateServerWithBody_def
  cloudCreateServerWithBodyWithResponse_def cloudClientCreateServer_def cloudCreateServerWithResponse_def
  cloudClientDeleteServer_def cloudDeleteServerWithResponse_def cloudClientGetServer_def
  cloudGetServerWithResponse_def cloudClientListActions_def cloudListActionsWithResponse_def
  cloudClientExecuteActionWithBody_def cloudExecuteActionWithBodyWithResponse_def cloudClientExecuteAction_def
  cloudExecuteActionWithResponse_def cloudClientGetConsole_def cloudGetConsoleWithResponse_def
  cloudClientGetActionExecution_def cloudGetActionExecutionWithResponse_def cloudClientListSnapshots_def
  cloudListSnapshotsWithResponse_def cloudClientCreateSnapshot_def cloudCreateSnapshotWithResponse_def
  cloudClientGetSubscription_def cloudGetSubscriptionWithResponse_def cloudClientGetHealthz_def
  cloudGetHealthzWithResponse_def cloudClientGetReadyz_def cloudGetReadyzWithResponse_def
  cloudClientDeleteTenant_def cloudDeleteTenantWithResponse_def


section \<open>The environment of the hand-written client\<close>

lemma cloudWithResponse_method:
  "cloudWithResponse T parse h c =
     map_sum id seen (parsedBy (parse (ctr_lib T))
       (cloudSend T (cloudSent T h) (cloudRequest (ctr_lib T) (genServerURL (ctr_server T)) c)))"
  by (simp add: cloudWithResponse_def cloudRequestFor_def parsedBy_def cloudSend_def split: sum.splits)

text \<open>Each method of the hand-written client goes through the generated method of its name.\<close>

lemma generatedCloud_methods:
  "cl_tenants (generatedCloud T) h ClListTenants = map_sum id seen (cloudListMyTenantsWithResponse T (cloudSent T h))"
  "cl_servers (generatedCloud T) h (ClListServers t) = map_sum id seen (cloudListServersWithResponse T (cloudSent T h) t)"
  "cl_server (generatedCloud T) h (ClGetServer t s) = map_sum id seen (cloudGetServerWithResponse T (cloudSent T h) t s)"
  "cl_server (generatedCloud T) h (ClCreateServer t req) =
     map_sum id seen (cloudCreateServerWithResponse T (cloudSent T h) t req)"
  "cl_empty (generatedCloud T) h (ClDeleteServer t s) =
     map_sum id seen (cloudDeleteServerWithResponse T (cloudSent T h) t s)"
  "cl_snapshots (generatedCloud T) h (ClListSnapshots t s) =
     map_sum id seen (cloudListSnapshotsWithResponse T (cloudSent T h) t s)"
  "cl_snapshot (generatedCloud T) h (ClCreateSnapshot t s) =
     map_sum id seen (cloudCreateSnapshotWithResponse T (cloudSent T h) t s)"
  "cl_actions (generatedCloud T) h (ClListActions t s) =
     map_sum id seen (cloudListActionsWithResponse T (cloudSent T h) t s)"
  "cl_ref (generatedCloud T) h (ClExecuteAction t s action params) =
     map_sum id seen (cloudExecuteActionWithResponse T (cloudSent T h) t s action params)"
  "cl_catalog (generatedCloud T) h (ClGetCatalog t) = map_sum id seen (cloudGetCatalogWithResponse T (cloudSent T h) t)"
  "cl_plans (generatedCloud T) h ClListPlans = map_sum id seen (cloudListPlansWithResponse T (cloudSent T h))"
  "cl_subscription (generatedCloud T) h (ClGetSubscription t) =
     map_sum id seen (cloudGetSubscriptionWithResponse T (cloudSent T h) t)"
  "cl_keys (generatedCloud T) h (ClListKeys t) = map_sum id seen (cloudListAPIKeysWithResponse T (cloudSent T h) t)"
  "cl_key (generatedCloud T) h (ClCreateKey t keyReq) =
     map_sum id seen (cloudCreateAPIKeyWithResponse T (cloudSent T h) t keyReq)"
  "cl_empty (generatedCloud T) h (ClDeleteKey t k) =
     map_sum id seen (cloudDeleteAPIKeyWithResponse T (cloudSent T h) t k)"
  by (simp_all add: generatedCloud_def cloudWithResponse_method cloud_method_defs cloudServerParser_def cloudEmptyParser_def)

end
