(* ===== verification/Registrar_Requests.thy ===== *)
theory Registrar_Requests
  imports Registrar Cloud_Operations
begin

text \<open>
  The registrar writes its requests to the cloud by hand (\<^verbatim>\<open>cmd/registrar/main.go\<close>), while the repository has a
  generated client for the same API. Here its requests are taken down to the wire, and compared with those that the
  generated client builds for the operations \<^verbatim>\<open>registerCluster\<close> and \<^verbatim>\<open>clusterHeartbeat\<close>.
\<close>

section \<open>Requests on the wire\<close>

definition registerPayloadJSON :: "registerPayload \<Rightarrow> json" where
  "registerPayloadJSON p =
     JObj ([(''name'', JStr (rp_Name p)), (''region'', JStr (rp_Region p)), (''controlplaneUrl'', JStr (rp_ControlPlaneURL p)),
       (''apiKey'', JStr (rp_APIKey p)), (''capacityMax'', JNum (rp_CapacityMax p)),
       (''dedicatedTenantId'', JStr (rp_DedicatedTenantID p))] @
       str_field ''clusterFingerprint'' (rp_ClusterFingerprint p))"

definition heartbeatPayloadJSON :: "heartbeatPayload \<Rightarrow> json" where
  "heartbeatPayloadJSON p =
     JObj ((''capacityMax'', JNum (hp_CapacityMax p)) # str_field ''clusterFingerprint'' (hp_ClusterFingerprint p))"

fun regBodyJSON :: "reg_body \<Rightarrow> json" where
  "regBodyJSON (RegisterBody p) = registerPayloadJSON p"
| "regBodyJSON (HeartbeatBody p) = heartbeatPayloadJSON p"

text \<open>The first part of \<^verbatim>\<open>call\<close>: an error of \<^verbatim>\<open>json.Marshal\<close> is dropped, one of \<^verbatim>\<open>http.NewRequest\<close> is returned.\<close>

definition registrarWire :: "client_lib \<Rightarrow> reg_request \<Rightarrow> kerr + out_request" where
  "registrarWire C q =
     (let buf = (case lib_marshal C (regBodyJSON (rr_Body q)) of Inl _ \<Rightarrow> [] | Inr buf \<Rightarrow> buf)
      in case lib_parseURL C (rr_URL q) of
           Inl err \<Rightarrow> Inl err
         | Inr url \<Rightarrow>
             Inr \<lparr>or_Method = ''POST'', or_Origin = su_Origin url, or_Path = su_Path url,
                  or_Header = [(''Content-Type'', rr_ContentType q), (''Authorization'', rr_Authorization q)],
                  or_Body = buf\<rparr>)"


section \<open>The requests of the generated client\<close>

text \<open>What the payloads of the registrar are, as requests of the generated client.\<close>

definition optional :: "string \<Rightarrow> string option" where
  "optional s = (if s = [] then None else Some s)"

definition asCreateCluster :: "registerPayload \<Rightarrow> CreateClusterRequest" where
  "asCreateCluster p =
     \<lparr>ccr_ApiKey = rp_APIKey p, ccr_CapacityMax = Some (rp_CapacityMax p),
      ccr_ClusterFingerprint = optional (rp_ClusterFingerprint p), ccr_ControlplaneUrl = rp_ControlPlaneURL p,
      ccr_DedicatedTenantId = Some (rp_DedicatedTenantID p), ccr_Name = rp_Name p, ccr_Region = Some (rp_Region p)\<rparr>"

definition asHeartbeat :: "heartbeatPayload \<Rightarrow> HeartbeatRequest" where
  "asHeartbeat p =
     \<lparr>hbr_CapacityMax = Some (hp_CapacityMax p), hbr_ClusterFingerprint = optional (hp_ClusterFingerprint p)\<rparr>"

lemma payload_fields:
  "at k (registerPayloadJSON p) = at k (createClusterJSON (asCreateCluster p))"
  "at k (heartbeatPayloadJSON h) = at k (heartbeatJSON (asHeartbeat h))"
  by (simp_all add: at_def registerPayloadJSON_def createClusterJSON_def asCreateCluster_def heartbeatPayloadJSON_def
      heartbeatJSON_def asHeartbeat_def optional_def ptr_field_def str_field_def)

text \<open>
  What is assumed of \<^verbatim>\<open>url.Parse\<close>: the base is an origin and a path without a slash at its end, and what is appended
  to it, when it needs no escaping, is appended to its path.
\<close>

definition parses_below :: "client_lib \<Rightarrow> string \<Rightarrow> string \<Rightarrow> string list \<Rightarrow> bool" where
  "parses_below C base origin bs \<longleftrightarrow>
     \<not> HasSuffix base ''/'' \<and>
     (\<forall>p. (\<forall>c\<in>set p. unreserved c \<or> c = CHR ''/'') \<longrightarrow>
        lib_parseURL C (base @ CHR ''/'' # p) = Inr \<lparr>su_Origin = origin, su_Path = dir_path bs @ p\<rparr>)"

lemma unreserved_free: "\<forall>c\<in>set s. unreserved c \<Longrightarrow> CHR ''/'' \<notin> set s"
  by (auto simp: unreserved_def)

lemma generated_request:
  assumes "styles_by_escaping C" "parses_below C base origin bs" "\<forall>b\<in>set bs. \<not> dotted b \<and> (\<forall>c\<in>set b. unreserved c)"
    and "Sprintf_s form (map (\<lambda>(_, v). PathEscape v) params) = CHR ''/'' # join_char (CHR ''/'') segs"
    and "segs \<noteq> []" "\<forall>s\<in>set segs. \<not> dotted s \<and> (\<forall>c\<in>set s. unreserved c)"
  shows "newRequest C (genServerURL base) m form params (Some (ct, buf)) =
    Inr \<lparr>or_Method = m, or_Origin = origin, or_Path = dir_path bs @ join_char (CHR ''/'') segs,
         or_Header = [(''Content-Type'', ct)], or_Body = buf\<rparr>"
proof -
  have "lib_parseURL C (base @ CHR ''/'' # []) = Inr \<lparr>su_Origin = origin, su_Path = dir_path bs @ []\<rparr>"
    using assms(2) unfolding parses_below_def by (metis empty_iff list.set(1))
  then have url: "lib_parseURL C (genServerURL base) = Inr \<lparr>su_Origin = origin, su_Path = dir_path bs\<rparr>"
    using assms(2) by (simp add: genServerURL_def parses_below_def)
  have "set (bs @ segs) \<inter> {''.'', ''..''} = {}" using assms(3,6) unfolding dotted_def by fastforce
  then have "resolvePath (dir_path bs) (''./'' @ join_char (CHR ''/'') segs) =
      CHR ''/'' # join_char (CHR ''/'') (bs @ segs)"
    using assms(3,5,6) by (intro resolvePath_dir) (auto dest!: unreserved_free)
  also have "\<dots> = dir_path bs @ join_char (CHR ''/'') segs"
    using assms(5) dir_path_join [OF assms(5), of bs] by (cases "bs @ segs") auto
  finally show ?thesis
    using assms(1,4) url by (simp add: newRequest_def styleParams_escaped Let_def)
qed

text \<open>
  C22. The registrar speaks the API of the cloud. For a cloud URL without a slash at its end and a cluster name that
  needs no escaping, its two requests are those of the generated client for the operations \<^verbatim>\<open>registerCluster\<close> and
  \<^verbatim>\<open>clusterHeartbeat\<close> with the register token as bearer: the same method, path, headers and body; and the body has
  exactly the fields, with the values, of the generated models.
\<close>

theorem registrar_requests_follow_api:
  assumes "styles_by_escaping C" "parses_below C (rg_CloudURL (r_cfg r)) origin bs"
    and "\<forall>b\<in>set bs. \<not> dotted b \<and> (\<forall>c\<in>set b. unreserved c)"
    and "\<not> dotted (rg_Name (r_cfg r))" "\<forall>c\<in>set (rg_Name (r_cfg r)). unreserved c"
    and "lib_marshal C (regBodyJSON (registerBody r)) = Inr buf1" "lib_marshal C (regBodyJSON (heartbeatBody r)) = Inr buf2"
  shows "registrarWire C (registerRequest r) =
      map_sum id (applyEditors [(''Authorization'', ''Bearer '' @ rg_RegisterToken (r_cfg r))])
        (cloudNewRegisterClusterRequestWithBody C (genServerURL (rg_CloudURL (r_cfg r))) ''application/json'' buf1) \<and>
    registrarWire C (heartbeatRequest r) =
      map_sum id (applyEditors [(''Authorization'', ''Bearer '' @ rg_RegisterToken (r_cfg r))])
        (cloudNewClusterHeartbeatRequestWithBody C (genServerURL (rg_CloudURL (r_cfg r))) (rg_Name (r_cfg r)) ''application/json'' buf2) \<and>
    (\<forall>k. at k (regBodyJSON (registerBody r)) =
       at k (createClusterJSON (asCreateCluster (buildRegisterPayload (r_cfg r) (r_fingerprint r))))) \<and>
    (\<forall>k. at k (regBodyJSON (heartbeatBody r)) =
       at k (heartbeatJSON (asHeartbeat (buildHeartbeatPayload (r_cfg r) (r_fingerprint r)))))"
proof -
  let ?reg = "[''api'', ''v1'', ''clusters'', ''register'']"
  let ?beat = "[''api'', ''v1'', ''clusters'', rg_Name (r_cfg r), ''heartbeat'']"
  have plain: "\<forall>s\<in>set ?reg. \<not> dotted s \<and> (\<forall>c\<in>set s. unreserved c)" "\<forall>s\<in>set ?beat. \<not> dotted s \<and> (\<forall>c\<in>set s. unreserved c)"
    using assms(4,5) by (auto simp: dotted_def unreserved_def Let_def)
  have chars: "\<forall>c\<in>set (join_char (CHR ''/'') segs). unreserved c \<or> c = CHR ''/''"
    if "\<forall>s\<in>set segs. \<not> dotted s \<and> (\<forall>c\<in>set s. unreserved c)" for segs
    using that set_join_char [of "CHR ''/''" segs] by blast
  have parse: "lib_parseURL C (rg_CloudURL (r_cfg r) @ CHR ''/'' # p) = Inr \<lparr>su_Origin = origin, su_Path = dir_path bs @ p\<rparr>"
    if "\<forall>c\<in>set p. unreserved c \<or> c = CHR ''/''" for p
    using that assms(2) by (simp add: parses_below_def)
  have urls: "rr_URL (registerRequest r) = rg_CloudURL (r_cfg r) @ CHR ''/'' # join_char (CHR ''/'') ?reg"
    "rr_URL (heartbeatRequest r) = rg_CloudURL (r_cfg r) @ CHR ''/'' # join_char (CHR ''/'') ?beat"
    by (simp_all add: registerRequest_def heartbeatRequest_def regRequest_def)
  have reg: "cloudNewRegisterClusterRequestWithBody C (genServerURL (rg_CloudURL (r_cfg r))) ''application/json'' buf1 =
      Inr \<lparr>or_Method = ''POST'', or_Origin = origin, or_Path = dir_path bs @ join_char (CHR ''/'') ?reg,
           or_Header = [(''Content-Type'', ''application/json'')], or_Body = buf1\<rparr>"
    unfolding cloudNewRegisterClusterRequestWithBody_def
    using plain(1) by (intro generated_request [OF assms(1-3)]) simp_all
  have hb: "cloudNewClusterHeartbeatRequestWithBody C (genServerURL (rg_CloudURL (r_cfg r))) (rg_Name (r_cfg r)) ''application/json'' buf2 =
      Inr \<lparr>or_Method = ''POST'', or_Origin = origin, or_Path = dir_path bs @ join_char (CHR ''/'') ?beat,
           or_Header = [(''Content-Type'', ''application/json'')], or_Body = buf2\<rparr>"
    unfolding cloudNewClusterHeartbeatRequestWithBody_def
    using plain(2) PathEscape_plain [OF assms(5)] by (intro generated_request [OF assms(1-3)]) simp_all
  have "registrarWire C (registerRequest r) =
      map_sum id (applyEditors [(''Authorization'', ''Bearer '' @ rg_RegisterToken (r_cfg r))])
        (cloudNewRegisterClusterRequestWithBody C (genServerURL (rg_CloudURL (r_cfg r))) ''application/json'' buf1)"
    using parse [OF chars [OF plain(1)]] assms(6) unfolding reg registrarWire_def urls
    by (simp add: registerRequest_def regRequest_def applyEditors_def del: join_char.simps)
  moreover have "registrarWire C (heartbeatRequest r) =
      map_sum id (applyEditors [(''Authorization'', ''Bearer '' @ rg_RegisterToken (r_cfg r))])
        (cloudNewClusterHeartbeatRequestWithBody C (genServerURL (rg_CloudURL (r_cfg r))) (rg_Name (r_cfg r)) ''application/json'' buf2)"
    using parse [OF chars [OF plain(2)]] assms(7) unfolding hb registrarWire_def urls
    by (simp add: heartbeatRequest_def regRequest_def applyEditors_def del: join_char.simps)
  moreover have "at k (regBodyJSON (registerBody r)) =
      at k (createClusterJSON (asCreateCluster (buildRegisterPayload (r_cfg r) (r_fingerprint r))))"
    "at k (regBodyJSON (heartbeatBody r)) = at k (heartbeatJSON (asHeartbeat (buildHeartbeatPayload (r_cfg r) (r_fingerprint r))))" for k
    by (simp_all add: registerBody_def heartbeatBody_def payload_fields)
  ultimately show ?thesis by blast
qed


text \<open>A parser of URLs below one origin.\<close>

definition ex_cloud_lib :: client_lib where
  "ex_cloud_lib = ex_lib\<lparr>lib_parseURL := (\<lambda>u. if take 13 u = ''https://cloud'' then
       Inr \<lparr>su_Origin = ''https://cloud'', su_Path = drop 13 u\<rparr> else Inl (new_error ''unknown host''))\<rparr>"

theorem registrar_requests_follow_api_witness:
  "\<exists>q. registrarWire ex_cloud_lib (heartbeatRequest ex_registrar) = Inr q \<and> or_Method q = ''POST'' \<and>
     or_Path q = ''/api/v1/clusters/eu/heartbeat'' \<and> at ''clusterFingerprint'' (regBodyJSON (registerBody ex_registrar)) = Some (JStr ''uid'')"
proof -
  have lib: "styles_by_escaping ex_cloud_lib" "parses_below ex_cloud_lib ''https://cloud'' ''https://cloud'' []"
    by (simp_all add: styles_by_escaping_def parses_below_def ex_cloud_lib_def ex_lib_def HasSuffix_def HasPrefix_def dir_path_def)
  have cfg: "rg_CloudURL (r_cfg ex_registrar) = ''https://cloud''" "rg_Name (r_cfg ex_registrar) = ''eu''"
    by (simp_all add: ex_registrar_def)
  obtain b1 b2 where b: "lib_marshal ex_cloud_lib (regBodyJSON (registerBody ex_registrar)) = Inr b1"
    "lib_marshal ex_cloud_lib (regBodyJSON (heartbeatBody ex_registrar)) = Inr b2"
    by (simp add: ex_cloud_lib_def ex_lib_def)
  have name: "\<not> dotted ''eu''" "\<forall>c\<in>set ''eu''. unreserved c" by (simp_all add: dotted_def unreserved_def)
  let ?segs = "[''api'', ''v1'', ''clusters'', ''eu'', ''heartbeat'']"
  have "PathEscape ''eu'' = ''eu''" using name(2) by (rule PathEscape_plain)
  moreover have "\<forall>s\<in>set ?segs. \<not> dotted s \<and> (\<forall>c\<in>set s. unreserved c)" by (simp add: dotted_def unreserved_def)
  ultimately have gen: "cloudNewClusterHeartbeatRequestWithBody ex_cloud_lib (genServerURL ''https://cloud'') ''eu'' ''application/json'' b2 =
      Inr \<lparr>or_Method = ''POST'', or_Origin = ''https://cloud'', or_Path = dir_path [] @ join_char (CHR ''/'') ?segs,
           or_Header = [(''Content-Type'', ''application/json'')], or_Body = b2\<rparr>"
    unfolding cloudNewClusterHeartbeatRequestWithBody_def by (intro generated_request [OF lib]) simp_all
  have "\<forall>b\<in>set []. \<not> dotted b \<and> (\<forall>c\<in>set b. unreserved c)" by simp
  from registrar_requests_follow_api [of ex_cloud_lib ex_registrar, unfolded cfg, OF lib this name b] gen
  show ?thesis
    by (auto simp: applyEditors_def dir_path_def ex_registrar_def buildRegisterPayload_def asCreateCluster_def optional_def
        createClusterJSON_def at_def ptr_field_def)
qed

text \<open>
  The name is not escaped: one with a slash gives a heartbeat to a path with one element more than the document has, which
  is no route of the API.
\<close>

lemma heartbeat_name_unescaped:
  assumes "parses_below C (rg_CloudURL (r_cfg r)) origin bs" "rg_Name (r_cfg r) = x @ ''/'' @ y"
    and "\<forall>b\<in>set (x # y # bs). \<forall>c\<in>set b. unreserved c" "registrarWire C (heartbeatRequest r) = Inr q"
  shows "split_char (CHR ''/'') (or_Path q) = [] # bs @ [''api'', ''v1'', ''clusters'', x, y, ''heartbeat'']"
proof -
  let ?segs = "[''api'', ''v1'', ''clusters'', x, y, ''heartbeat'']"
  have plain: "\<forall>s\<in>set (bs @ ?segs). \<forall>c\<in>set s. unreserved c"
    using assms(3) by (auto simp: unreserved_def Let_def)
  then have "\<forall>c\<in>set (join_char (CHR ''/'') ?segs). unreserved c \<or> c = CHR ''/''"
    using set_join_char [of "CHR ''/''" ?segs] by fastforce
  with assms(1) have "lib_parseURL C (rg_CloudURL (r_cfg r) @ CHR ''/'' # join_char (CHR ''/'') ?segs) =
      Inr \<lparr>su_Origin = origin, su_Path = dir_path bs @ join_char (CHR ''/'') ?segs\<rparr>" by (simp add: parses_below_def)
  moreover have "rr_URL (heartbeatRequest r) = rg_CloudURL (r_cfg r) @ CHR ''/'' # join_char (CHR ''/'') ?segs"
    by (simp add: heartbeatRequest_def regRequest_def assms(2))
  ultimately have "or_Path q = join_char (CHR ''/'') ([] # bs @ ?segs)"
    using assms(4) dir_path_join [of ?segs bs] by (auto simp: registrarWire_def Let_def simp del: join_char.simps)
  moreover have "\<forall>s\<in>set ([] # bs @ ?segs). CHR ''/'' \<notin> set s" using plain unreserved_free by simp
  ultimately show ?thesis by (simp add: split_join del: join_char.simps split_char.simps)
qed

end
