(* ===== verification/Spec2Isabelle.thy ===== *)
theory Spec2Isabelle
  imports Fleet_Properties Action_Properties Snapshot_Properties Webhooks Tenant_Properties GameServer_Status
    Key_Storage Rcon_Properties Agent_Actions Registrar SDK_Properties Command_Line_Properties Console
    Api_Properties Operator_Main Agent_Rpc Control_Plane_Main Cloud_Transport End_To_End
    Deep_Copy Api_Wrappers Cloud_Methods Registrar_Requests
begin

text \<open>
  Minato runs game servers on Kubernetes. An \<^emph>\<open>operator\<close> (\<^verbatim>\<open>internal/controllers\<close>) watches five custom
  resources (\<^verbatim>\<open>api/operator/v1\<close>) and turns them into StatefulSets, Services, volume claims, Secrets and volume
  snapshots; \<^emph>\<open>admission webhooks\<close> (\<^verbatim>\<open>internal/webhook\<close>) vet profiles and servers before they are stored;
  a \<^emph>\<open>control plane\<close> (\<^verbatim>\<open>cmd/controlplane\<close>, \<^verbatim>\<open>internal/controlplane\<close>) is the HTTP API of the tenants: it
  authenticates, checks roles and namespaces, audits, provisions tenant namespaces and writes the custom resources.
  The parts share no memory. They interact through objects of the API server, and the operator calls a game's
  agent over gRPC. Around them are the \<^emph>\<open>agent SDK\<close> (\<^verbatim>\<open>sdk/agent\<close>: actions and the RCON clients that talk to game
  servers), the \<^emph>\<open>clients\<close> of the control plane and of the cloud (\<^verbatim>\<open>sdk/controlplane\<close>, \<^verbatim>\<open>internal/cloudapi\<close>) with the
  \<^emph>\<open>command line tool\<close> over both (\<^verbatim>\<open>cmd/minato-ctl\<close>), the \<^emph>\<open>console proxy\<close> of the control plane, and the
  \<^emph>\<open>registrar\<close> (\<^verbatim>\<open>cmd/registrar\<close>), which enrols a cluster with the cloud.

  \<^bold>\<open>How programs are modelled.\<close> A handler or reconciler is a state transformer over a history of calls
  (theory \<open>Call_History\<close>). Each read or write of the API server, each agent call, each look at the clock is an
  element of that history, and its answer is a function of the history before it, given by an environment record
  (\<open>gs_env\<close>, \<open>fleet_env\<close>, \<open>act_env\<close>, \<open>snap_env\<close>, \<open>cp_env\<close>, \<open>runtime_env\<close>, \<open>cloud_env\<close>, \<open>sdk_env\<close>, \<open>cloud_api\<close>,
  \<open>operator_env\<close>, \<open>agent_env\<close>). A theorem that holds for every environment holds for
  every behaviour of the API server, of other writers and of the clock. Where a theorem needs more, the hypothesis
  is named: \<open>keyed_answers\<close> says that a Get returns an object of the requested name and namespace, \<open>keeps_state\<close> that a
  status update answers with what was written, \<open>serves_secrets\<close> that the Secrets read are those written, \<open>routes_as_mounted\<close> that the
  router matches paths against the mounted patterns and \<open>routes_complete\<close> that it finds one when one matches,
  \<open>gets_keyed\<close> what \<open>keyed_answers\<close> says, for the control plane; \<open>styles_by_escaping\<close> that path parameters are
  escaped, \<open>json_ok\<close> that JSON decodes to what was encoded, \<open>connects\<close> that a client's requests are answered by the
  control plane, \<open>grpc_serves\<close> that a gRPC server runs the handlers of its service description for every call that is not lost, and that
  a lost call (an unreachable agent, a deadline that passes) is an error for the caller, \<open>binds_unescaped\<close> that an escaped
  path parameter is bound to its unescaped value, \<open>status_only\<close> that a
  status update keeps name and specification, \<open>ext_ok\<close> that the deep copies of other packages are deep,
  \<open>parses_below\<close> that a path appended to a base URL is parsed as such. The clients come in two layers: the hand-written methods over an environment of typed answers, and the
  generated clients below (\<open>generatedClient\<close>, \<open>generatedCloud\<close>), which implement that environment by building HTTP requests
  and parsing responses. Errors are values
  of a sum type, with the kinds the code tests for; where Go would panic the result is an \<open>outcome\<close> or a fault of its
  own. Programs that run forever or concurrently are step relations: the passes of the registrar (\<open>running\<close>) and the
  interleaving of the console's goroutines (\<open>proxy_step\<close>). Objects of the API are records, that is values; where the code
  is about sharing, in the deep copies, they are structs, pointers, slices and maps over an explicit heap (\<open>Go_Heap\<close>). RCON packets are bytes and 32-bit words. Libraries that are not in the repository are parameters:
  \<open>klib\<close> (finalizer helpers, controller references, quantities), \<open>authlib\<close> (bcrypt, JSON, RFC 3339), OIDC discovery
  and the cron parser. Go's \<^verbatim>\<open>int32\<close> conversions are written out (\<open>int32\<close>) where a length is narrowed. Go maps are
  association lists without duplicate keys; \<^verbatim>\<open>sort.Slice\<close> is an insertion sort, and lemmas use only that its result
  is a sorted permutation.

  \<^bold>\<open>Theories.\<close>
  \<^item> \<open>Minato_Prelude\<close>: strings, numbers, Go maps, conditions; the collections of rewrite rules.
  \<^item> \<open>Call_History\<close>: errors, programs, \<open>emits\<close> (which calls a program may issue), the locale \<open>finalized\<close> for objects
    that are cleaned up before their finalizer goes.
  \<^item> \<open>Operator_Types\<close>: the custom resources. \<open>Pod_Builder\<close>: \<^verbatim>\<open>builder/podspec.go\<close> and \<^verbatim>\<open>builder/sftp.go\<close>.
  \<^item> \<open>GameServer_Objects\<close>: the objects built for a server and the metrics. \<open>GameServer_Controller\<close>: \<^verbatim>\<open>Reconcile\<close>
    and all it calls, split along its phases (deletion, provisioning, children, status and supervision).
    \<open>GameServer_Proofs\<close>: which calls each phase may issue. \<open>GameServer_Properties\<close>: its properties.
  \<^item> \<open>Fleet_Controller\<close>, \<open>Action_Controller\<close>, \<open>Snapshot_Controller\<close> with \<open>Fleet_Properties\<close>,
    \<open>Action_Properties\<close>, \<open>Snapshot_Properties\<close>: the other three reconcilers and the clean-up task.
  \<^item> \<open>Webhooks\<close>: validation of profiles and servers.
  \<^item> \<open>Control_Plane_Types\<close>, \<open>Auth\<close>, \<open>Rbac\<close>, \<open>Tenant\<close>, \<open>Control_Plane\<close>: users and requests, authentication and key
    storage, roles, guards and audit, tenant provisioning, the API handlers (\<open>Api\<close> before the name of the method).
    \<open>Control_Plane_Properties\<close>, \<open>Tenant_Properties\<close>: their properties. \<open>Key_Storage\<close>: the storage of API keys against
    an abstract map of keys. \<open>Api_Routes\<close>: the routes that the generated server mounts
    (\<^verbatim>\<open>internal/controlplane/oapi/gen.go\<close>), with a table of operations and parameters as its specification.
    \<open>Api_Wrappers\<close>: the wrappers that bind path parameters, one by one, shown to follow the table; the properties are about
    these. \<open>Api_Properties\<close>: that the guards
    cover what the handlers do.
  \<^item> \<open>GameServer_Status\<close>: the states a reconcile writes.
  \<^item> \<open>Rcon\<close>, \<open>Rcon_Properties\<close>: \<^verbatim>\<open>sdk/agent/rcon\<close>, the packet codec, sessions and parsers. \<open>Agent_Actions\<close>: the rest of
    \<^verbatim>\<open>sdk/agent\<close>, action catalogues and their execution.
  \<^item> \<open>Registrar\<close>: \<^verbatim>\<open>cmd/registrar\<close>, configuration, cluster fingerprint, registration and heartbeats.
    \<open>Registrar_Requests\<close>: its requests on the wire, against those of the generated client.
  \<^item> \<open>SDK_Client\<close>, \<open>Cloud_Client\<close>: the two API clients (\<open>sdk\<close> or \<open>cloud\<close> before the name of the method). \<open>SDK_Wire\<close>: the
    JSON of the resources and of the generated models, by their struct tags. \<open>SDK_Properties\<close>: what survives between the
    control plane and a client.
  \<^item> \<open>Command_Line\<close>, \<open>Command_Line_Properties\<close>: the commands of \<^verbatim>\<open>minato-ctl\<close>. \<open>Console\<close>: the console proxy, its protocol
    and the console of the command line tool.
  \<^item> \<open>Http_Client\<close>: escaping, the resolution of paths, and the common shape of the generated clients. \<open>SDK_Transport\<close>:
    every operation of \<^verbatim>\<open>sdk/controlplane/gen/client.go\<close>; \<open>Cloud_Transport\<close>: those of \<^verbatim>\<open>internal/cloudapi/gen\<close> that the
    wrapper calls (\<open>cloud\<close> before the name), \<open>Cloud_Operations\<close>: the others, and all of them against the OpenAPI document.
    \<open>SDK_Methods\<close>, \<open>Cloud_Methods\<close>: the methods of the generated clients, one by one. \<open>Transport_Properties\<close>: the requests against the routes of the control
    plane. \<open>End_To_End\<close>: a client over a connection to the control plane.
  \<^item> \<open>Operator_Main\<close>, \<open>Control_Plane_Main\<close>, \<open>Agent_Server\<close>: the entry points (\<^verbatim>\<open>cmd/operator\<close>, \<^verbatim>\<open>cmd/controlplane\<close>) and the
    server of an agent, with the registration of controllers and the order of the middleware. \<open>Agent_Rpc\<close>: the gRPC
    service of the agents (\<^verbatim>\<open>api/agent/v1\<close>), its generated client and handlers, and an action from the operator to the
    agent and back.
  \<^item> \<open>Go_Heap\<close>: Go values with references, the idioms of deep copies and their contract. \<open>Deep_Copy\<close>: every function of
    \<^verbatim>\<open>api/operator/v1/zz_generated.deepcopy.go\<close>.

  \<^bold>\<open>Interfaces.\<close> The locale \<open>finalized\<close> (a clean-up, then the removal of a finalizer) is interpreted for servers,
  fleets and snapshots; \<open>http_guard\<close> (a middleware that passes a request on unchanged or refuses it without a call) and
  \<open>guard_stack\<close> are interpreted for the route guard, the namespace guard, their composition and the role guard;
  \<open>slice_sort\<close> is the contract of \<^verbatim>\<open>sort.Slice\<close> and \<open>keyed_list\<close> that of the condition list. \<open>refinement\<close> (a simulation
  between an implementation and a specification, and that it carries over to sequences of operations) is interpreted for
  the key storage; \<open>rcon_wire\<close> (a way to send that produces packets) for the Minecraft and the Source client;
  \<open>deep_copy\<close> (a type whose copies are deep) for the ten kinds and lists of the API.

  \<^bold>\<open>What the theorems show.\<close>
  For servers: a successful reconcile leaves five consistent children, writes stay in the server's namespace,
  the finalizer goes last, a stopped server stays down, ports, volumes, environment, credentials and metrics are
  well formed. For fleets: the plan of a reconcile is respected, and a scale-down deletes the
  servers with the fewest players. For
  actions: dispatch happens exactly when allowed and states only move forward. For snapshots: retention keeps the
  most recent entries. For the webhooks: what is admitted, exactly. For the control plane: whatever a request makes it do
  is within the role and the namespaces of the caller, as long as the router and the guards see the same path, namespace isolation and roles are enforced before any handler runs, keys are accepted only if stored and valid and read back as issued,
  lists are scoped, patches confined, tenant namespaces hardened, and the policy admits exactly the documented
  traffic; the key storage refines a map from names to keys, so that a key is accepted only while it is not revoked.
  For the agents: packets read back as they were sent, the reader is bounded, and an action runs its steps in order
  and nothing else; and what an agent does with an action, a panic included, is what the operator records,
  unless the call is lost. For the registrar: its protocol against every cloud, and that it registers and keeps beating once
  the cloud accepts. For the clients: what of a server survives the way through the generated models, that a cloud
  command touches only the designated tenant, and that a login stores only what was verified; that requests address
  the route and the parameters they were given, that an authenticated call runs exactly the operation it stands for, and,
  through all layers from the method of the client down to the cluster and back, that a client sees the stored server. For
  the operator: it runs only with every controller, webhook and check in place. For the
  API objects: a deep copy shares no memory with its original. For the generated code: the
  cloud client follows the OpenAPI document, and the registrar's requests are those of that client. For the console: both
  sides receive a prefix of what the other sent, in order, the client with at most one error frame besides. The permission check is a partial function, \<open>None\<close> standing for a call that does not return; it is
  shown to return exactly when the chain of roles ends. All other definitions are total, so no fuel is used.
  Several theorems state behaviour that is surely not meant: the idle scale-down that is undone, the rolling update
  that never starts, name collisions on scale-up, timed-out actions recorded as successes, pending snapshots taken
  for failures, an audit log without users, authentication that falls open, half-hardened namespaces, pods that
  tenant namespaces refuse, a Source client that never logs in, answers matched by position, action results and
  snapshot states that clients never see, servers created with the wrong autoStart, clients that panic on a body that
  is not JSON, a login that verifies another credential, two writers on one WebSocket, a console that takes single
  words only, ids of two dots that address the whole tenant, a readiness check for a certificate name that the webhook
  server ignores, a grace period that is never used, a console whose panics end the agent, a heartbeat whose
  cluster name is not escaped, an escaped slash that evades the check of roles, and a negative number of replicas that
  makes the fleet reconciler panic.

  \<^bold>\<open>Not modelled.\<close> Log lines; the parsing of flags (the values are arguments) and the \<^verbatim>\<open>main\<close> functions of the
  command line tool and the registrar, which only call what is modelled; listening and signals of the control plane; mocks
  and test helpers; the reflection code and getters of the protobuf messages; the embedded OpenAPI document and the models
  of the generated server that no handler uses; characters beyond ASCII in quoted texts. Time outs of calls show only as error answers.
\<close>

section \<open>Properties that span components\<close>

text \<open>
  What the Kubernetes pod security standard \<^emph>\<open>restricted\<close> asks of every container, as far as two of its
  rules go: privilege escalation is switched off explicitly and all capabilities are dropped.
\<close>

definition restricted_container :: "Container \<Rightarrow> bool" where
  "restricted_container c \<longleftrightarrow>
     (\<exists>sc. co_SecurityContext c = Some sc \<and> sc_AllowPrivilegeEscalation sc = Some False \<and>
           ''ALL'' \<in> set (sc_DropCapabilities sc))"

text \<open>
  C30. A tenant namespace made by the control plane enforces the restricted pod security standard, and no pod
  that the operator builds meets it: the game container and the agent container of every StatefulSet have
  no security context, for every profile and server.
\<close>

theorem tenant_pods_rejected:
  assumes "BuildGameServerPodSpecWithPullSecrets profile server pullSecrets = Inr pod"
  shows "map_of (ns_Labels (BuildNamespace (server_namespace server))) ''pod-security.kubernetes.io/enforce'' =
      Some ''restricted'' \<and>
    \<not> (\<forall>c\<in>set (pod_Containers (sts_PodSpec (buildStatefulSet server pod ls))). restricted_container c)"
proof -
  have "gameContainer profile server \<in> set (pod_Containers (sts_PodSpec (buildStatefulSet server pod ls)))"
    using pod_spec_containers(1) [OF assms] by (simp add: buildStatefulSet_def Let_def)
  moreover have "\<not> restricted_container (gameContainer profile server)"
    by (simp add: restricted_container_def gameContainer_def)
  ultimately show ?thesis
    by (auto simp: BuildNamespace_def tenantLabels_def LabelTenant_def LabelManagedBy_def)
qed

theorem tenant_pods_rejected_witness:
  "\<exists>pod. BuildGameServerPodSpec ex_profile (ex_server True [] None) = Inr pod \<and>
     \<not> (\<forall>c\<in>set (pod_Containers (sts_PodSpec (buildStatefulSet (ex_server True [] None) pod []))).
          restricted_container c)"
  using ex_pod [of "ex_server True [] None" "[]"] tenant_pods_rejected [of ex_profile "ex_server True [] None" "[]"]
  unfolding BuildGameServerPodSpec_def by blast

text \<open>
  The SFTP port that a profile asks for is published and not reachable: the game Service of the server
  exposes it, and unless the administrator also lists it among the game ports, the network policy of the
  tenant namespace admits no connection to it from outside that namespace.
\<close>

theorem sftp_published_but_closed:
  assumes "SFTPEnabled profile" "SFTPPort \<notin> set (tc_GamePorts cfg)" "src \<noteq> namespace"
  shows "(SFTPPort, ProtocolTCP) \<in> set (map port_key (svc_Ports (buildGameService server profile ls zone))) \<and>
    \<not> ingress_admitted (BuildNetworkPolicy namespace cfg) src ProtocolTCP SFTPPort"
proof -
  have "(SFTPPort, ProtocolTCP) \<in> set (map port_key (svc_Ports (buildGameService server profile ls zone)))"
    using gameServicePorts_keys [of profile] assms(1) by (simp add: buildGameService_def)
  moreover have "\<not> ingress_admitted (BuildNetworkPolicy namespace cfg) src ProtocolTCP SFTPPort"
    using assms(2,3) gamePortRules_iff [of ProtocolTCP SFTPPort cfg]
    by (auto simp: ingress_admitted_def rule_admits_def BuildNetworkPolicy_def Let_def SFTPPort_def AgentPort_def
        split: if_splits)
  ultimately show ?thesis ..
qed

text \<open>
  C25. Stopping a server through the API takes effect: once the control plane has written a server for a patch
  that switches \<^verbatim>\<open>autoStart\<close> off, every reconcile that reads that server applies its StatefulSet with no
  replica only, and probes no agent, whatever else the API server answers.
\<close>

theorem stop_request_honoured:
  assumes "CpUpdateServer server \<in> set (issued (ApiUpdateGameServerLifecycle C namespace name (Inr patch) r) v)"
    and "lp_AutoStart patch = Some False"
    and "keyed_answers E" "ge_getServer E (calls w) req = Inr server"
    and "c \<in> set (issued (Reconcile L E R req) w)"
  shows "(\<forall>x. c = PatchSts x \<longrightarrow> sts_Replicas x = Some 0) \<and> (\<forall>a. c \<noteq> HealthCheck a)"
proof -
  obtain stored where "server = patchServer patch stored" using lifecycle_writes [OF assms(1)] by auto
  then have "\<not> AutoStartEnabled (gs_Lifecycle (server_spec server))"
    using assms(2)
    by (auto simp: patchServer_def patchLifecycle_def AutoStartEnabled_def Let_def split: option.splits)
  then show ?thesis using Reconcile_permitted [OF assms(3-5)] by (auto simp: permitted_def)
qed

theorem stop_request_honoured_witness:
  "\<exists>x. PatchSts x \<in> set (issued (Reconcile ex_klib (ex_env (ex_server False [] None) (ex_sts 1 0))
       ex_reconciler ex_key) ex_world) \<and> sts_Replicas x = Some 0"
proof -
  let ?E = "ex_env (ex_server False [] None) (ex_sts 1 0)"
  let ?patch = "\<lparr>lp_AutoStart = Some False, lp_IdleTimeoutSeconds = None\<rparr>"
  obtain x where x: "PatchSts x \<in> set (issued (Reconcile ex_klib ?E ex_reconciler ex_key) ex_world)"
    using Reconcile_children [of ?E ex_world ex_key "ex_server False [] None" ex_klib ex_profile
        ex_reconciler 0] by (auto simp: ex_env_keyed ex_active_result)
  have "patchServer ?patch (ex_server True [] None) = ex_server False [] None"
    by (simp add: patchServer_def patchLifecycle_def ex_server_def)
  then have "CpUpdateServer (ex_server False [] None) \<in> set (issued (ApiUpdateGameServerLifecycle ex_cp_env
      ''tenant-a'' ''smp'' (Inr ?patch) (ex_request ''PATCH'' [])) \<lparr>calls = []\<rparr>)"
    by (simp add: ApiUpdateGameServerLifecycle_def issued_def final_def run_or_error io_simps LogAction_def
        ex_cp_env_def)
  then show ?thesis
    using stop_request_honoured [OF _ _ ex_env_keyed _ x, of "ex_server False [] None"] x by fastforce
qed

end
